(* ===== verification/RL_Prelude.thy ===== *)
theory RL_Prelude
  imports Complex_Main "HOL-Library.Word"
begin

text \<open>
  Shared base of the development: the machine integer types of the C code, and the generic
  facts on words and lists that the components share.  \<open>size_t\<close> is 64 bits wide (the
  arm64 and x86-64 targets of the repository), \<open>unsigned\<close> is 32 bits wide.
\<close>

unbundle bit_operations_syntax

type_synonym u8 = "8 word"
type_synonym u16 = "16 word"
type_synonym u32 = "32 word"
type_synonym u64 = "64 word"
type_synonym size_t = "64 word"

named_theorems word_loop \<open>facts that make the mask loops terminate\<close>

subsection \<open>Clearing and isolating the lowest set bit\<close>

lemma word_and_pred_less [word_loop]:
  fixes w :: "'a::len word"
  assumes "w \<noteq> 0"
  shows "unat (w AND (w - 1)) < unat w"
proof -
  have "w AND (w - 1) \<le> w - 1"
    by (metis and.commute word_and_le1)
  moreover have "w - 1 < w"
    using assms by (simp add: word_less_nat_alt unat_minus_one unat_gt_0)
  ultimately show ?thesis
    by (simp add: word_less_nat_alt [symmetric])
qed

lemma unat_drop_bit_le [word_loop]: "unat (drop_bit n (w :: 'a::len word)) \<le> unat w"
  by (simp only: unat_drop_bit_eq) (simp add: drop_bit_eq_div)

definition lowest_bit :: "'a::len word \<Rightarrow> nat \<Rightarrow> bool" where
  "lowest_bit m b \<longleftrightarrow> bit m b \<and> (\<forall>j<b. \<not> bit m j)"

lemma lowest_bit_exists:
  assumes "(m :: 'a::len word) \<noteq> 0"
  obtains b where "lowest_bit m b"
proof -
  from assms obtain j where "bit m j"
    by (auto simp: bit_eq_iff)
  then have "lowest_bit m (LEAST j. bit m j)"
    unfolding lowest_bit_def by (auto intro: LeastI dest: not_less_Least)
  then show ?thesis by (rule that)
qed

lemma pred_lowest:
  fixes m :: "'a::len word"
  assumes "lowest_bit m b"
  shows "bit (m - 1) i \<longleftrightarrow> i < LENGTH('a) \<and> (i < b \<or> i > b \<and> bit m i)"
proof -
  from assms have b: "bit m b" and low: "\<And>j. j < b \<Longrightarrow> \<not> bit m j"
    by (auto simp: lowest_bit_def)
  then have blt: "b < LENGTH('a)" by (simp add: bit_imp_le_length)
  define h where "h = m AND NOT (mask (Suc b))"
  have hb: "bit h j \<longleftrightarrow> j > b \<and> bit m j" for j
    by (auto simp: h_def bit_simps less_Suc_eq_le not_le dest: bit_imp_le_length)
  have m: "m = h OR 2 ^ b"
    by (rule bit_word_eqI) (use b low blt in \<open>auto simp: hb bit_simps\<close>, metis linorder_neqE_nat)
  have "m = h + 2 ^ b"
    unfolding m by (rule disjunctive_add_eq_or [symmetric]) (rule bit_word_eqI, auto simp: hb bit_simps)
  then have "m - 1 = h + mask b"
    by (simp add: mask_eq_exp_minus_1)
  also have "\<dots> = h OR mask b"
    by (rule disjunctive_add_eq_or) (rule bit_word_eqI, auto simp: hb bit_simps)
  finally show ?thesis
    by (auto simp: hb bit_simps dest: bit_imp_le_length)
qed

lemma low_tmp:
  fixes m :: "'a::len word"
  assumes "lowest_bit m b"
  shows "(m - 1) AND NOT m = mask b"
  using assms by (intro bit_word_eqI) (auto simp: bit_simps pred_lowest lowest_bit_def)

lemma low_clear:
  fixes m :: "'a::len word"
  assumes "lowest_bit m b"
  shows "bit (m AND (m - 1)) i \<longleftrightarrow> bit m i \<and> i \<noteq> b"
  using assms by (auto simp: bit_simps pred_lowest lowest_bit_def dest: bit_imp_le_length)

subsection \<open>Number of set bits\<close>

definition bit_count :: "'a::len word \<Rightarrow> nat" where
  "bit_count m = length (filter (bit m) [0..<LENGTH('a)])"

lemma bit_count_card: "bit_count (m :: 'a::len word) = card {i. bit m i}"
proof -
  have "bit_count m = card (set (filter (bit m) [0..<LENGTH('a)]))"
    unfolding bit_count_def by (rule distinct_card [symmetric]) simp
  also have "set (filter (bit m) [0..<LENGTH('a)]) = {i. bit m i}"
    by (auto dest: bit_imp_le_length)
  finally show ?thesis .
qed

lemma finite_bits [simp]: "finite {i. bit (m :: 'a::len word) i}"
  by (rule finite_subset [of _ "{..<LENGTH('a)}"]) (auto dest: bit_imp_le_length)

lemma bit_count_clear:
  fixes m :: "'a::len word"
  assumes "lowest_bit m b"
  shows "bit_count m = Suc (bit_count (m AND (m - 1)))"
proof -
  have "{i. bit m i} = insert b {i. bit (m AND (m - 1)) i}"
    using assms low_clear [OF assms] by (auto simp: lowest_bit_def)
  moreover have "b \<notin> {i. bit (m AND (m - 1)) i}"
    by (simp only: mem_Collect_eq low_clear [OF assms]) simp
  ultimately show ?thesis
    by (simp only: bit_count_card) (metis card_insert_disjoint finite_bits)
qed

section \<open>Numbers in memory\<close>

text \<open>
  Numbers as the bytes they have in memory, the least significant first: the representation that
  copying between numbers and buffers has on the targets of the repository.
\<close>

fun le_bytes :: "nat \<Rightarrow> nat \<Rightarrow> u8 list" where
  "le_bytes 0 n = []"
| "le_bytes (Suc k) n = of_nat (n mod 256) # le_bytes k (n div 256)"

fun le_value :: "u8 list \<Rightarrow> nat" where
  "le_value [] = 0"
| "le_value (b # bs) = unat b + 256 * le_value bs"

lemma le_bytes_length [simp]: "length (le_bytes k n) = k"
  by (induction k arbitrary: n) simp_all

lemma le_value_bytes: "le_value (le_bytes k n) = n mod 256 ^ k"
proof (induction k arbitrary: n)
  case (Suc k)
  have "n mod (256 * 256 ^ k) = 256 * (n div 256 mod 256 ^ k) + n mod 256" by (rule mod_mult2_eq)
  with Suc show ?case by (simp add: unsigned_of_nat take_bit_eq_mod)
qed simp

lemma le_value_id: "of_nat (le_value (le_bytes 2 (unat (i :: u16)))) = i"
proof -
  have "unat i mod 256 ^ 2 = unat i" using unsigned_less [of i, where 'a = nat] by simp
  then show ?thesis by (simp add: le_value_bytes)
qed

end
