(* ===== verification/Memory_Map.thy ===== *)
theory Memory_Map
  imports RL_Prelude
begin

text \<open>
  The memory map component of \<open>runloop.c\<close>: the bit tricks \<open>mmap_add_bits_down\<close>,
  \<open>mmap_inflate\<close>, \<open>mmap_reduce\<close> and \<open>mmap_highest_bit\<close>, and
  \<open>mmap_preprocess_descriptors\<close>, which completes the descriptors that a core passes to
  \<open>RETRO_ENVIRONMENT_SET_MEMORY_MAPS\<close>.
\<close>

subsection \<open>Bit tricks\<close>

definition mmap_add_bits_down :: "size_t \<Rightarrow> size_t" where
  "mmap_add_bits_down n0 =
     (let n1 = n0 OR drop_bit 1 n0;
          n2 = n1 OR drop_bit 2 n1;
          n3 = n2 OR drop_bit 4 n2;
          n4 = n3 OR drop_bit 8 n3;
          n5 = n4 OR drop_bit 16 n4
      in n5 OR drop_bit 16 (drop_bit 16 n5))"

function mmap_inflate :: "size_t \<Rightarrow> size_t \<Rightarrow> size_t" where
  "mmap_inflate addr msk =
     (if msk = 0 then addr
      else let tmp = (msk - 1) AND NOT msk
           in mmap_inflate (push_bit 1 (addr AND NOT tmp) OR (addr AND tmp)) (msk AND (msk - 1)))"
  by pat_completeness auto
termination
  by (relation "measure (\<lambda>(addr, msk). unat msk)") (auto intro: word_and_pred_less)

function mmap_reduce :: "size_t \<Rightarrow> size_t \<Rightarrow> size_t" where
  "mmap_reduce addr msk =
     (if msk = 0 then addr
      else let tmp = (msk - 1) AND NOT msk
           in mmap_reduce ((addr AND tmp) OR (drop_bit 1 addr AND NOT tmp))
                (drop_bit 1 (msk AND (msk - 1))))"
  by pat_completeness auto
termination
  by (relation "measure (\<lambda>(addr, msk). unat msk)")
    (auto simp del: drop_bit_and intro!: le_less_trans [OF unat_drop_bit_le] word_and_pred_less)

declare mmap_inflate.simps [simp del] mmap_reduce.simps [simp del]

definition mmap_highest_bit :: "size_t \<Rightarrow> size_t" where
  "mmap_highest_bit n = (let m = mmap_add_bits_down n in m XOR drop_bit 1 m)"

subsection \<open>What the bit tricks compute\<close>

lemma bit_or_drop: "bit (n OR drop_bit k n) i \<longleftrightarrow> bit n i \<or> bit n (i + k)" for n :: size_t
  by (simp add: bit_simps add.commute)

text \<open>Each of the six steps doubles the distance a set bit has been copied down.\<close>

lemma add_bits_down_step:
  fixes n m :: size_t
  assumes "\<And>i. bit m i \<longleftrightarrow> (\<exists>d<w. bit n (i + d))" and "k \<le> w"
  shows "bit (m OR drop_bit k m) i \<longleftrightarrow> (\<exists>d<w + k. bit n (i + d))"
proof
  assume "bit (m OR drop_bit k m) i"
  then consider d where "d < w" "bit n (i + d)" | d where "d < w" "bit n (i + k + d)"
    unfolding bit_or_drop assms(1) by blast
  then show "\<exists>d<w + k. bit n (i + d)"
    by cases (metis trans_less_add1, metis add.assoc add.commute add_less_cancel_left)
next
  assume "\<exists>d<w + k. bit n (i + d)"
  then obtain d where d: "d < w + k" "bit n (i + d)" by blast
  show "bit (m OR drop_bit k m) i"
  proof (cases "d < w")
    case True
    with d show ?thesis unfolding bit_or_drop assms(1) by blast
  next
    case False
    with d assms(2) have "d - k < w" "bit n (i + k + (d - k))" by simp_all
    then show ?thesis unfolding bit_or_drop assms(1) by blast
  qed
qed

lemma bit_add_bits_down: "bit (mmap_add_bits_down n) i \<longleftrightarrow> (\<exists>j\<ge>i. bit n j)"
proof -
  define n1 where "n1 = n OR drop_bit 1 n"
  define n2 where "n2 = n1 OR drop_bit 2 n1"
  define n3 where "n3 = n2 OR drop_bit 4 n2"
  define n4 where "n4 = n3 OR drop_bit 8 n3"
  define n5 where "n5 = n4 OR drop_bit 16 n4"
  define n6 where "n6 = n5 OR drop_bit 32 n5"
  have b1: "bit n1 i \<longleftrightarrow> (\<exists>d<2. bit n (i + d))" for i
    using add_bits_down_step [of n 1 n 1 i] by (simp add: n1_def numeral_2_eq_2)
  have b2: "bit n2 i \<longleftrightarrow> (\<exists>d<4. bit n (i + d))" for i
    using add_bits_down_step [OF b1, of 2 i] by (simp add: n2_def)
  have b3: "bit n3 i \<longleftrightarrow> (\<exists>d<8. bit n (i + d))" for i
    using add_bits_down_step [OF b2, of 4 i] by (simp add: n3_def)
  have b4: "bit n4 i \<longleftrightarrow> (\<exists>d<16. bit n (i + d))" for i
    using add_bits_down_step [OF b3, of 8 i] by (simp add: n4_def)
  have b5: "bit n5 i \<longleftrightarrow> (\<exists>d<32. bit n (i + d))" for i
    using add_bits_down_step [OF b4, of 16 i] by (simp add: n5_def)
  have b6: "bit n6 i \<longleftrightarrow> (\<exists>d<64. bit n (i + d))" for i
    using add_bits_down_step [OF b5, of 32 i] by (simp add: n6_def)
  have "mmap_add_bits_down n = n6"
    by (simp add: mmap_add_bits_down_def Let_def n1_def n2_def n3_def n4_def n5_def n6_def)
  moreover have "(\<exists>d<64. bit n (i + d)) \<longleftrightarrow> (\<exists>j\<ge>i. bit n j)"
  proof
    assume "\<exists>j\<ge>i. bit n j"
    then obtain j where j: "i \<le> j" "bit n j" by blast
    then have "j < 64" using bit_imp_le_length [of n j] by simp
    with j have "j - i < 64" "bit n (i + (j - i))" by simp_all
    then show "\<exists>d<64. bit n (i + d)" by blast
  qed (metis le_add1)
  ultimately show ?thesis using b6 by simp
qed

lemma bit_highest_bit: "bit (mmap_highest_bit n) i \<longleftrightarrow> bit n i \<and> (\<forall>j>i. \<not> bit n j)"
proof -
  have "bit (mmap_highest_bit n) i \<longleftrightarrow> (\<exists>j\<ge>i. bit n j) \<noteq> (\<exists>j\<ge>Suc i. bit n j)"
    by (simp add: mmap_highest_bit_def Let_def bit_simps bit_add_bits_down)
  then show ?thesis by (metis Suc_leI le_eq_less_or_eq less_Suc_eq_le not_less_eq_eq)
qed


subsection \<open>Inserting and removing the disconnected address lines\<close>

definition insert_zero :: "nat \<Rightarrow> size_t \<Rightarrow> size_t" where
  "insert_zero b a = push_bit 1 (a AND NOT (mask b)) OR (a AND mask b)"

definition remove_bit :: "nat \<Rightarrow> size_t \<Rightarrow> size_t" where
  "remove_bit b a = (a AND mask b) OR (drop_bit 1 a AND NOT (mask b))"

lemma bit_insert_zero:
  "bit (insert_zero b a) i \<longleftrightarrow> i < 64 \<and> (if i < b then bit a i else i > b \<and> bit a (i - 1))"
  unfolding insert_zero_def
  by (simp only: bit_or_iff bit_push_bit_iff bit_and_iff bit_not_iff bit_mask_iff)
    (auto dest: bit_imp_le_length)

lemma bit_remove_bit:
  "bit (remove_bit b a) i \<longleftrightarrow> (if i < b then bit a i else bit a (Suc i))"
  by (auto simp: remove_bit_def bit_simps not_less dest: bit_imp_le_length)

lemma inflate_0 [simp]: "mmap_inflate a 0 = a"
  by (simp add: mmap_inflate.simps)

lemma reduce_0 [simp]: "mmap_reduce a 0 = a"
  by (simp add: mmap_reduce.simps)

lemma inflate_step:
  assumes "lowest_bit m b"
  shows "mmap_inflate a m = mmap_inflate (insert_zero b a) (m AND (m - 1))"
proof -
  from assms have "m \<noteq> 0" by (auto simp: lowest_bit_def)
  then show ?thesis
    by (simp add: mmap_inflate.simps [of a m] Let_def low_tmp [OF assms] insert_zero_def)
qed

lemma reduce_step:
  assumes "lowest_bit m b"
  shows "mmap_reduce a m = mmap_reduce (remove_bit b a) (drop_bit 1 (m AND (m - 1)))"
proof -
  from assms have "m \<noteq> 0" by (auto simp: lowest_bit_def)
  then show ?thesis
    by (simp add: mmap_reduce.simps [of a m] Let_def low_tmp [OF assms] remove_bit_def
        del: drop_bit_and)
qed

lemma lowest_bit_drop:
  assumes "lowest_bit m c" and "0 < c"
  shows "lowest_bit (drop_bit 1 m) (c - 1)"
  using assms by (auto simp: lowest_bit_def bit_simps)

lemma clear_drop:
  fixes m :: size_t
  assumes "lowest_bit m c" and "0 < c"
  shows "drop_bit 1 m AND (drop_bit 1 m - 1) = drop_bit 1 (m AND (m - 1))"
proof (rule bit_word_eqI)
  fix i
  have "bit (drop_bit 1 m AND (drop_bit 1 m - 1)) i \<longleftrightarrow> bit (drop_bit 1 m) i \<and> i \<noteq> c - 1"
    by (rule low_clear) (rule lowest_bit_drop [OF assms])
  moreover have "bit (drop_bit 1 (m AND (m - 1))) i \<longleftrightarrow> bit m (Suc i) \<and> Suc i \<noteq> c"
    using low_clear [OF assms(1), of "Suc i"] by (simp only: bit_drop_bit_eq comp_def) simp
  ultimately show "bit (drop_bit 1 m AND (drop_bit 1 m - 1)) i =
      bit (drop_bit 1 (m AND (m - 1))) i"
    using assms(2) by (auto simp: bit_drop_bit_eq)
qed

lemma bit_count_drop:
  fixes m :: size_t
  assumes "\<not> bit m 0"
  shows "bit_count (drop_bit 1 m) = bit_count m"
proof -
  have "{i. bit m i} = Suc ` {i. bit (drop_bit 1 m) i}"
  proof (intro set_eqI iffI)
    fix i assume i: "i \<in> {i. bit m i}"
    with assms have "i \<noteq> 0" by (metis mem_Collect_eq)
    then obtain j where "i = Suc j" by (cases i) auto
    with i show "i \<in> Suc ` {i. bit (drop_bit 1 m) i}" by (auto simp: bit_drop_bit_eq)
  qed (auto simp: bit_drop_bit_eq)
  then show ?thesis by (simp add: bit_count_card card_image)
qed

text \<open>\<open>fits a m\<close>: no set bit of \<open>a\<close> is pushed out of the word by \<open>m\<close>'s insertions.\<close>

definition fits :: "size_t \<Rightarrow> size_t \<Rightarrow> bool" where
  "fits a m \<longleftrightarrow> (\<forall>i. bit a i \<longrightarrow> i + bit_count m < 64)"

lemma fits_insert:
  assumes "fits a m" and "lowest_bit m b"
  shows "fits (insert_zero b a) (m AND (m - 1))"
  unfolding fits_def
proof (intro allI impI)
  fix i assume "bit (insert_zero b a) i"
  then have "bit a i \<or> i > 0 \<and> bit a (i - 1)"
    by (auto simp: bit_insert_zero split: if_splits)
  with assms(1) have "i + bit_count m < 64 \<or> i > 0 \<and> i - 1 + bit_count m < 64"
    by (auto simp: fits_def)
  then show "i + bit_count (m AND (m - 1)) < 64"
    using bit_count_clear [OF assms(2)] by linarith
qed

lemma bit_64 [simp]: "\<not> bit (x :: size_t) 64"
  by (auto dest: bit_imp_le_length)

lemma remove_insert_comm:
  assumes "b < c" and "\<not> bit x 63"
  shows "remove_bit b (insert_zero c x) = insert_zero (c - 1) (remove_bit b x)"
proof (rule bit_word_eqI)
  fix i assume "i < LENGTH(64)"
  with assms show "bit (remove_bit b (insert_zero c x)) i = bit (insert_zero (c - 1) (remove_bit b x)) i"
    by (cases "i = 63") (auto simp: bit_insert_zero bit_remove_bit)
qed

lemma remove_inflate:
  assumes "\<And>i. bit m i \<Longrightarrow> b < i" and "fits x m"
  shows "remove_bit b (mmap_inflate x m) = mmap_inflate (remove_bit b x) (drop_bit 1 m)"
  using assms
proof (induction "bit_count m" arbitrary: x m)
  case 0
  have "m = 0"
  proof (rule ccontr)
    assume "m \<noteq> 0"
    then obtain c where "lowest_bit m c" by (rule lowest_bit_exists)
    from bit_count_clear [OF this] 0 show False by simp
  qed
  then show ?case by simp
next
  case (Suc k)
  then have "m \<noteq> 0" by (auto simp: bit_count_def)
  then obtain c where c: "lowest_bit m c" by (rule lowest_bit_exists)
  then have bc: "b < c" using Suc.prems(1) by (auto simp: lowest_bit_def)
  let ?m = "m AND (m - 1)"
  have k: "k = bit_count ?m" using bit_count_clear [OF c] Suc.hyps(2) by simp
  have top: "\<not> bit x 63"
    using Suc.prems(2) Suc.hyps(2) by (auto simp: fits_def)
  have "remove_bit b (mmap_inflate x m) = remove_bit b (mmap_inflate (insert_zero c x) ?m)"
    by (simp only: inflate_step [OF c])
  also have "\<dots> = mmap_inflate (remove_bit b (insert_zero c x)) (drop_bit 1 ?m)"
  proof (rule Suc.hyps(1) [OF k])
    show "b < i" if "bit ?m i" for i
      using that Suc.prems(1) by (simp only: low_clear [OF c])
    show "fits (insert_zero c x) ?m" by (rule fits_insert [OF Suc.prems(2) c])
  qed
  also have "\<dots> = mmap_inflate (insert_zero (c - 1) (remove_bit b x)) (drop_bit 1 ?m)"
    by (simp only: remove_insert_comm [OF bc top])
  also have "\<dots> = mmap_inflate (remove_bit b x) (drop_bit 1 m)"
    using bc by (simp only: inflate_step [OF lowest_bit_drop [OF c]] clear_drop [OF c] gr0I not_less0)
  finally show ?case .
qed

lemma remove_insert:
  assumes "\<not> bit a 63"
  shows "remove_bit b (insert_zero b a) = a"
proof (rule bit_word_eqI)
  fix i assume "i < LENGTH(64)"
  with assms show "bit (remove_bit b (insert_zero b a)) i = bit a i"
    by (cases "i = 63") (auto simp: bit_insert_zero bit_remove_bit)
qed

lemma reduce_inflate_fits:
  assumes "fits a m"
  shows "mmap_reduce (mmap_inflate a m) m = a"
  using assms
proof (induction "bit_count m" arbitrary: m)
  case 0
  have "m = 0"
  proof (rule ccontr)
    assume "m \<noteq> 0"
    then obtain c where "lowest_bit m c" by (rule lowest_bit_exists)
    from bit_count_clear [OF this] 0 show False by simp
  qed
  then show ?case by simp
next
  case (Suc k)
  then have "m \<noteq> 0" by (auto simp: bit_count_def)
  then obtain b where b: "lowest_bit m b" by (rule lowest_bit_exists)
  let ?m = "m AND (m - 1)"
  have k: "k = bit_count ?m" using bit_count_clear [OF b] Suc.hyps(2) by simp
  have gt: "b < i" if "bit ?m i" for i
  proof -
    have "bit m i \<and> i \<noteq> b" using that low_clear [OF b, of i] by blast
    with b show ?thesis by (metis lowest_bit_def linorder_neqE_nat)
  qed
  then have kd: "k = bit_count (drop_bit 1 ?m)"
    using k bit_count_drop [of ?m] by (metis not_less0)
  have top: "\<not> bit a 63" using Suc.prems Suc.hyps(2) by (auto simp: fits_def)
  have fa: "fits a (drop_bit 1 ?m)"
    using Suc.prems Suc.hyps(2) kd by (auto simp: fits_def simp del: drop_bit_and)
  have "mmap_reduce (mmap_inflate a m) m
      = mmap_reduce (remove_bit b (mmap_inflate (insert_zero b a) ?m)) (drop_bit 1 ?m)"
    by (simp only: inflate_step [OF b] reduce_step [OF b])
  also have "\<dots> = mmap_reduce (mmap_inflate (remove_bit b (insert_zero b a)) (drop_bit 1 ?m)) (drop_bit 1 ?m)"
    by (simp only: remove_inflate [OF gt fits_insert [OF Suc.prems b]])
  also have "\<dots> = a"
    by (simp only: remove_insert [OF top] Suc.hyps(1) [OF kd fa])
  finally show ?case .
qed


subsection \<open>Descriptors\<close>

record memory_descriptor =
  md_flags :: u64
  md_ptr :: "u64 option"
  md_offset :: size_t
  md_start :: size_t
  md_select :: size_t
  md_disconnect :: size_t
  md_len :: size_t
  md_addrspace :: "string option"

text \<open>The address bits used by any descriptor (first loop of the function).\<close>

definition mmap_top_bits :: "memory_descriptor \<Rightarrow> size_t" where
  "mmap_top_bits d =
     (if md_select d \<noteq> 0 then md_select d else md_start d + md_len d - 1)"

definition mmap_top_addr :: "memory_descriptor list \<Rightarrow> size_t" where
  "mmap_top_addr ds = mmap_add_bits_down (fold (\<lambda>d t. t OR mmap_top_bits d) ds 1)"

text \<open>The inner \<open>while\<close>: it disconnects the unselected bits above the buffer.\<close>

lemma highest_bit_0 [simp]: "mmap_highest_bit 0 = 0"
  by (rule bit_word_eqI) (simp add: bit_highest_bit)

lemma highest_bit_sub:
  assumes "x < mmap_highest_bit n"
  shows "mmap_highest_bit n AND n = mmap_highest_bit n" and "mmap_highest_bit n \<noteq> 0"
  using assms by (auto intro!: bit_word_eqI simp: bit_simps bit_highest_bit)

lemma disconnect_decreases:
  fixes u v w x :: size_t
  assumes "x < mmap_highest_bit (u AND v AND w)"
  shows "bit_count (u AND v AND w AND NOT (mmap_highest_bit (u AND v AND w)))
    < bit_count (u AND v AND w)"
proof -
  let ?h = "mmap_highest_bit (u AND v AND w)"
  obtain i where i: "bit ?h i"
    using highest_bit_sub(2) [OF assms] by (auto simp: bit_eq_iff)
  then have "bit (u AND v AND w) i" by (simp add: bit_highest_bit)
  moreover have "\<not> bit (u AND v AND w AND NOT ?h) i" using i by (simp add: bit_simps)
  moreover have "{i. bit (u AND v AND w AND NOT ?h) i} \<subseteq> {i. bit (u AND v AND w) i}"
    by (auto simp: bit_simps)
  ultimately have "{i. bit (u AND v AND w AND NOT ?h) i} \<subset> {i. bit (u AND v AND w) i}"
    by blast
  then show ?thesis by (simp only: bit_count_card) (rule psubset_card_mono, simp)
qed

function mmap_disconnect :: "size_t \<Rightarrow> size_t \<Rightarrow> size_t \<Rightarrow> size_t \<Rightarrow> size_t" where
  "mmap_disconnect ta sel reach disc =
     (let h = mmap_highest_bit (ta AND NOT sel AND NOT disc)
      in if mmap_highest_bit reach < h then mmap_disconnect ta sel reach (disc OR h) else disc)"
  by pat_completeness auto
termination
  by (relation "measure (\<lambda>(ta, sel, reach, disc). bit_count (ta AND NOT sel AND NOT disc))")
    (auto intro: disconnect_decreases)

declare mmap_disconnect.simps [simp del]

text \<open>
  The body of the second loop for one descriptor: the result flag and the descriptor as it is
  left behind, completed or not.
\<close>

definition mmap_fill_select :: "size_t \<Rightarrow> memory_descriptor \<Rightarrow> memory_descriptor" where
  "mmap_fill_select ta d =
     d\<lparr>md_select := ta AND NOT (mmap_inflate (mmap_add_bits_down (md_len d - 1)) (md_disconnect d))\<rparr>"

definition mmap_fill_len :: "size_t \<Rightarrow> memory_descriptor \<Rightarrow> memory_descriptor" where
  "mmap_fill_len ta d =
     (if md_len d = 0
      then d\<lparr>md_len := mmap_add_bits_down (mmap_reduce (ta AND NOT (md_select d)) (md_disconnect d)) + 1\<rparr>
      else d)"

definition mmap_fill_disconnect :: "size_t \<Rightarrow> memory_descriptor \<Rightarrow> memory_descriptor" where
  "mmap_fill_disconnect ta d =
     d\<lparr>md_disconnect := mmap_disconnect ta (md_select d)
         (mmap_inflate (md_len d - 1) (md_disconnect d)) (md_disconnect d)\<rparr>"

definition mmap_preprocess_one :: "size_t \<Rightarrow> memory_descriptor \<Rightarrow> bool \<times> memory_descriptor" where
  "mmap_preprocess_one ta d =
     (if md_select d = 0 \<and> (md_len d = 0 \<or> md_len d AND (md_len d - 1) \<noteq> 0) then (False, d)
      else let d1 = (if md_select d = 0 then mmap_fill_select ta d else d);
               d2 = mmap_fill_len ta d1
           in if md_start d2 AND NOT (md_select d2) \<noteq> 0 then (False, d2)
              else (True, mmap_fill_disconnect ta d2))"

fun mmap_preprocess_loop ::
    "size_t \<Rightarrow> memory_descriptor list \<Rightarrow> bool \<times> memory_descriptor list" where
  "mmap_preprocess_loop ta [] = (True, [])"
| "mmap_preprocess_loop ta (d # ds) =
     (case mmap_preprocess_one ta d of
        (False, d') \<Rightarrow> (False, d' # ds)
      | (True, d') \<Rightarrow> (case mmap_preprocess_loop ta ds of (ok, ds') \<Rightarrow> (ok, d' # ds')))"

definition mmap_preprocess_descriptors ::
    "memory_descriptor list \<Rightarrow> bool \<times> memory_descriptor list" where
  "mmap_preprocess_descriptors ds = mmap_preprocess_loop (mmap_top_addr ds) ds"

subsection \<open>What a successful preprocessing establishes\<close>

lemma disconnect_bound:
  "mmap_highest_bit (ta AND NOT sel AND NOT (mmap_disconnect ta sel reach disc))
     \<le> mmap_highest_bit reach"
proof (induction ta sel reach disc rule: mmap_disconnect.induct)
  case (1 ta sel reach disc)
  show ?case
    using "1" [OF refl]
    by (cases "mmap_highest_bit reach < mmap_highest_bit (ta AND NOT sel AND NOT disc)")
      (simp_all add: mmap_disconnect.simps [of ta sel reach disc] Let_def)
qed

lemma disconnect_grows:
  "bit disc i \<Longrightarrow> bit (mmap_disconnect ta sel reach disc) i"
proof (induction ta sel reach disc rule: mmap_disconnect.induct)
  case (1 ta sel reach disc)
  from 1 show ?case
    by (simp add: mmap_disconnect.simps [of ta sel reach disc] Let_def bit_or_iff)
qed

lemma disconnect_only_unselected:
  "bit (mmap_disconnect ta sel reach disc) i \<Longrightarrow> bit disc i \<or> bit ta i \<and> \<not> bit sel i"
proof (induction ta sel reach disc rule: mmap_disconnect.induct)
  case (1 ta sel reach disc)
  then show ?case
    by (auto simp: mmap_disconnect.simps [of ta sel reach disc] Let_def bit_simps bit_highest_bit
        split: if_splits)
qed

lemma power_of_two_iff:
  fixes n :: size_t
  assumes "n \<noteq> 0"
  shows "n AND (n - 1) = 0 \<longleftrightarrow> (\<exists>k<64. n = 2 ^ k)"
proof
  assume z: "n AND (n - 1) = 0"
  from assms obtain b where b: "lowest_bit n b" by (rule lowest_bit_exists)
  then have "b < 64" using bit_imp_le_length [of n b] by (simp add: lowest_bit_def)
  moreover have "n = 2 ^ b"
  proof (rule bit_word_eqI)
    fix i assume "i < LENGTH(64)"
    from z have "\<not> bit (n AND (n - 1)) i" by (metis bit_0_eq bot_apply bot_bool_def)
    with low_clear [OF b, of i] b \<open>b < 64\<close> show "bit n i = bit ((2 :: size_t) ^ b) i"
      by (auto simp: bit_simps lowest_bit_def)
  qed
  ultimately show "\<exists>k<64. n = 2 ^ k" by blast
next
  assume "\<exists>k<64. n = 2 ^ k"
  then obtain k where k: "k < 64" "n = 2 ^ k" by blast
  then have "lowest_bit n k" by (auto simp: lowest_bit_def bit_simps)
  from low_clear [OF this] k show "n AND (n - 1) = 0"
    by (intro bit_word_eqI) (auto simp: bit_simps)
qed

subsection \<open>Ranges of the address bits\<close>

lemma highest_bit_pow:
  assumes "bit (mmap_highest_bit n) k"
  shows "k < 64" and "mmap_highest_bit n = 2 ^ k"
proof -
  from assms show k: "k < 64" using bit_imp_le_length [of "mmap_highest_bit n" k] by simp
  from assms have "bit n k" "\<forall>j>k. \<not> bit n j" by (simp_all add: bit_highest_bit)
  then have "bit n i \<and> (\<forall>j>i. \<not> bit n j) \<longleftrightarrow> i = k" for i
    by (metis linorder_neqE_nat)
  then show "mmap_highest_bit n = 2 ^ k"
    using k by (intro bit_word_eqI) (auto simp: bit_highest_bit bit_simps)
qed

lemma highest_bit_nonzero:
  assumes "n \<noteq> 0"
  obtains k where "bit (mmap_highest_bit n) k"
proof -
  from assms obtain i where i: "bit n i" by (auto simp: bit_eq_iff)
  define k where "k = Max {i. bit n i}"
  have "k \<in> {i. bit n i}"
    unfolding k_def by (rule Max_in) (use i in auto)
  then have "bit n k" by simp
  moreover have "j \<le> k" if "bit n j" for j
    unfolding k_def by (rule Max_ge) (use that in auto)
  ultimately have "bit (mmap_highest_bit n) k" by (auto simp: bit_highest_bit dest: leD)
  then show ?thesis by (rule that)
qed

lemma unat_pow2:
  assumes "k < 64"
  shows "unat ((2 :: size_t) ^ k) = 2 ^ k"
proof -
  have "(2 :: nat) ^ k < 2 ^ 64" using assms by (intro power_strict_increasing) auto
  then have "unat (of_nat (2 ^ k) :: size_t) = 2 ^ k"
    by (simp only: unsigned_of_nat) (simp add: take_bit_nat_eq_self assms)
  then show ?thesis by simp
qed

lemma pow_less_pow_word:
  assumes "i < 64" "j < 64"
  shows "(2 :: size_t) ^ i < 2 ^ j \<longleftrightarrow> i < j"
  by (simp add: word_less_nat_alt unat_pow2 assms)

lemma highest_less_bit:
  assumes "mmap_highest_bit r < mmap_highest_bit n" "bit (mmap_highest_bit n) i" "bit r j"
  shows "j < i"
proof -
  from assms(3) have "r \<noteq> 0" by auto
  then obtain k where k: "bit (mmap_highest_bit r) k" by (rule highest_bit_nonzero)
  then have "j \<le> k" using assms(3) by (auto simp: bit_highest_bit) (meson not_less)
  moreover have "k < i"
    using assms(1) pow_less_pow_word highest_bit_pow [OF k] highest_bit_pow [OF assms(2)] by metis
  ultimately show ?thesis by simp
qed

lemma disconnect_high:
  "bit (mmap_disconnect ta sel reach disc) i \<Longrightarrow> bit disc i \<or> (\<forall>j. bit reach j \<longrightarrow> j < i)"
proof (induction ta sel reach disc rule: mmap_disconnect.induct)
  case (1 ta sel reach disc)
  let ?h = "mmap_highest_bit (ta AND NOT sel AND NOT disc)"
  show ?case
  proof (cases "mmap_highest_bit reach < ?h")
    case True
    with "1" have "bit (disc OR ?h) i \<or> (\<forall>j. bit reach j \<longrightarrow> j < i)"
      by (simp add: mmap_disconnect.simps [of ta sel reach disc] Let_def)
    then show ?thesis using highest_less_bit [OF True] by (auto simp: bit_or_iff)
  next
    case False
    with "1.prems" show ?thesis
      by (simp add: mmap_disconnect.simps [of ta sel reach disc] Let_def)
  qed
qed

lemma reduce_high:
  assumes "\<And>i j. bit x i \<Longrightarrow> bit m j \<Longrightarrow> i < j"
  shows "mmap_reduce x m = x"
  using assms
proof (induction x m rule: mmap_reduce.induct)
  case (1 x m)
  show ?case
  proof (cases "m = 0")
    case False
    then obtain b where b: "lowest_bit m b" by (rule lowest_bit_exists)
    then have lt: "i < b" if "bit x i" for i
      using "1.prems" [OF that] by (simp add: lowest_bit_def)
    have ge: "b < j" if "bit m j" "j \<noteq> b" for j
      using that b by (metis lowest_bit_def linorder_neqE_nat)
    have rx: "remove_bit b x = x"
    proof (rule bit_word_eqI)
      fix i show "bit (remove_bit b x) i = bit x i"
        using lt [of i] lt [of "Suc i"] by (auto simp: bit_remove_bit)
    qed
    have "mmap_reduce (remove_bit b x) (drop_bit 1 (m AND (m - 1))) = remove_bit b x"
      unfolding remove_bit_def low_tmp [OF b, symmetric]
    proof (rule "1.IH" [OF False refl])
      fix i j
      assume "bit (x AND (m - 1 AND NOT m) OR drop_bit 1 x AND NOT (m - 1 AND NOT m)) i"
        and "bit (drop_bit 1 (m AND (m - 1))) j"
      then have "bit (remove_bit b x) i" and "bit (m AND (m - 1)) (Suc j)"
        by (simp_all only: remove_bit_def low_tmp [OF b] bit_drop_bit_eq comp_def) simp
      then have "bit x i" and "bit m (Suc j) \<and> Suc j \<noteq> b"
        using low_clear [OF b, of "Suc j"] rx by auto
      then show "i < j" using lt [of i] ge [of "Suc j"] by simp
    qed
    then show ?thesis by (simp only: reduce_step [OF b] rx)
  qed simp
qed

lemma reduce_or_high:
  assumes "\<And>i j. bit x i \<Longrightarrow> bit e j \<Longrightarrow> i < j"
  shows "mmap_reduce x (d OR e) = mmap_reduce x d"
  using assms
proof (induction "bit_count d" arbitrary: x d e rule: less_induct)
  case less
  show ?case
  proof (cases "d OR e = 0")
    case True
    then have "d = 0" by (metis or.left_idem or.right_neutral)
    with True show ?thesis by simp
  next
    case False
    then obtain b where b: "lowest_bit (d OR e) b" by (rule lowest_bit_exists)
    show ?thesis
    proof (cases "bit d b")
      case True
      with b have bd: "lowest_bit d b" by (auto simp: lowest_bit_def bit_or_iff)
      let ?d = "drop_bit 1 (d AND (d - 1))"
      let ?e = "drop_bit 1 (e AND NOT (2 ^ b))"
      have split: "drop_bit 1 ((d OR e) AND ((d OR e) - 1)) = ?d OR ?e"
      proof (rule bit_word_eqI)
        fix i
        show "bit (drop_bit 1 ((d OR e) AND ((d OR e) - 1))) i = bit (?d OR ?e) i"
          using low_clear [OF b, of "Suc i"] low_clear [OF bd, of "Suc i"]
          by (auto simp: bit_simps dest: bit_imp_le_length)
      qed
      have "bit_count ?d < bit_count d"
      proof -
        have "\<not> bit (d AND (d - 1)) 0"
          using low_clear [OF bd, of 0] bd by (auto simp: lowest_bit_def)
        then show ?thesis
          using bit_count_drop [of "d AND (d - 1)"] bit_count_clear [OF bd] by linarith
      qed
      then have "mmap_reduce (remove_bit b x) (?d OR ?e) = mmap_reduce (remove_bit b x) ?d"
      proof (rule less.hyps)
        fix i j
        assume xi: "bit (remove_bit b x) i" and ej: "bit ?e j"
        from ej have "bit e (Suc j)" "Suc j \<noteq> b"
          by (auto simp: bit_simps dest: bit_imp_le_length)
        moreover have "b \<le> Suc j"
          using \<open>bit e (Suc j)\<close> b by (metis lowest_bit_def bit_or_iff not_less)
        ultimately show "i < j"
          using xi less.prems [of "Suc i" "Suc j"] by (auto simp: bit_remove_bit split: if_splits)
      qed
      then show ?thesis by (simp only: reduce_step [OF b] reduce_step [OF bd] split)
    next
      case False
      with b have "bit e b" by (auto simp: lowest_bit_def bit_or_iff)
      then have "i < b" if "bit x i" for i using less.prems that by blast
      moreover have "b \<le> j" if "bit (d OR e) j" for j
        using b that by (metis lowest_bit_def not_less)
      ultimately have "mmap_reduce x (d OR e) = x" and "mmap_reduce x d = x"
        by (intro reduce_high; force simp: bit_or_iff)+
      then show ?thesis by simp
    qed
  qed
qed

lemma inflate_mono:
  assumes "\<And>i. bit a i \<Longrightarrow> bit b i" and "bit (mmap_inflate a m) i"
  shows "bit (mmap_inflate b m) i"
  using assms
proof (induction "bit_count m" arbitrary: a b m rule: less_induct)
  case less
  show ?case
  proof (cases "m = 0")
    case False
    then obtain c where c: "lowest_bit m c" by (rule lowest_bit_exists)
    have "bit (mmap_inflate (insert_zero c b) (m AND (m - 1))) i"
    proof (rule less.hyps)
      show "bit_count (m AND (m - 1)) < bit_count m" using bit_count_clear [OF c] by simp
      show "bit (insert_zero c b) i" if "bit (insert_zero c a) i" for i
        using that less.prems(1) by (auto simp: bit_insert_zero split: if_splits)
      show "bit (mmap_inflate (insert_zero c a) (m AND (m - 1))) i"
        using less.prems(2) by (simp only: inflate_step [OF c])
    qed
    then show ?thesis by (simp only: inflate_step [OF c])
  qed (use less.prems in simp)
qed

lemma bit_le_unat:
  assumes "bit (a :: 'a::len word) i"
  shows "2 ^ i \<le> unat a"
proof (rule ccontr)
  assume "\<not> 2 ^ i \<le> unat a"
  then have "\<not> bit (unat a) i" by (simp add: bit_iff_odd)
  with assms show False by (simp add: bit_unsigned_iff)
qed

lemma fits_bound:
  assumes "unat a * 2 ^ bit_count m < 2 ^ 64"
  shows "fits a m"
  unfolding fits_def
proof (intro allI impI)
  fix i assume i: "bit a i"
  then have "2 ^ i \<le> unat a" by (rule bit_le_unat)
  then have "(2::nat) ^ (i + bit_count m) \<le> unat a * 2 ^ bit_count m"
    by (simp add: power_add)
  with assms have "(2::nat) ^ (i + bit_count m) < 2 ^ 64" by (rule le_less_trans [rotated])
  then show "i + bit_count m < 64" by (rule power_less_imp_less_exp [rotated]) simp
qed

lemma bits_below_pow:
  assumes "unat (x :: size_t) < 2 ^ k" "bit x i"
  shows "i < k"
proof -
  have "2 ^ i \<le> unat x" using assms(2) by (rule bit_le_unat)
  with assms(1) have "(2::nat) ^ i < 2 ^ k" by (simp only: le_less_trans)
  then show ?thesis by (rule power_less_imp_less_exp [rotated]) simp
qed

lemma bit_pred_pow:
  assumes "k < 64"
  shows "bit ((2 :: size_t) ^ k - 1) i \<longleftrightarrow> i < k"
  using assms by (auto simp: bit_mask_iff simp flip: mask_eq_exp_minus_1)

text \<open>A pushed bit of an inflated offset is no higher than the last buffer byte's.\<close>

lemma inflate_zero_bits: "mmap_inflate a m AND m = 0"
proof (induction "bit_count m" arbitrary: a m rule: less_induct)
  case less
  show ?case
  proof (cases "m = 0")
    case False
    then obtain c where c: "lowest_bit m c" by (rule lowest_bit_exists)
    let ?m = "m AND (m - 1)"
    have ih: "mmap_inflate x ?m AND ?m = 0" for x
      using less.hyps [of ?m x] bit_count_clear [OF c] by simp
    have low: "bit (mmap_inflate x n) i = bit x i"
      if "\<And>j. bit n j \<Longrightarrow> i < j" for x n i
      using that
    proof (induction "bit_count n" arbitrary: x n rule: less_induct)
      case less
      show ?case
      proof (cases "n = 0")
        case False
        then obtain e where e: "lowest_bit n e" by (rule lowest_bit_exists)
        then have "i < e" using less.prems by (simp add: lowest_bit_def)
        moreover have "bit (mmap_inflate (insert_zero e x) (n AND (n - 1))) i
            = bit (insert_zero e x) i"
          using less.hyps [of "n AND (n - 1)" "insert_zero e x"] bit_count_clear [OF e]
            less.prems low_clear [OF e] by auto
        moreover have "e < 64" using e bit_imp_le_length [of n e] by (simp add: lowest_bit_def)
        ultimately show ?thesis by (simp add: inflate_step [OF e] bit_insert_zero)
      qed simp
    qed
    show ?thesis
    proof (rule bit_word_eqI)
      fix i
      have "\<not> (bit (mmap_inflate a m) i \<and> bit m i)"
      proof (cases "i = c")
        case True
        have "bit (mmap_inflate (insert_zero c a) ?m) c = bit (insert_zero c a) c"
          using c low_clear [OF c] by (intro low) (metis lowest_bit_def linorder_neqE_nat)
        then show ?thesis using True by (simp add: inflate_step [OF c] bit_insert_zero)
      next
        case False
        then show ?thesis
          using ih [of "insert_zero c a"] low_clear [OF c, of i]
          by (metis inflate_step [OF c] bit_and_iff bit_0_eq bot_apply bot_bool_def)
      qed
      then show "bit (mmap_inflate a m AND m) i = bit (0 :: size_t) i" by (simp add: bit_simps)
    qed
  qed simp
qed


subsection \<open>Facts on the whole descriptor list\<close>

definition completed :: "size_t \<Rightarrow> memory_descriptor \<Rightarrow> memory_descriptor \<Rightarrow> bool" where
  "completed ta d d' \<longleftrightarrow>
     md_start d' AND NOT (md_select d') = 0
   \<and> (md_select d = 0 \<longrightarrow> (\<exists>k<64. md_len d = 2 ^ k))
   \<and> mmap_highest_bit (ta AND NOT (md_select d') AND NOT (md_disconnect d'))
       \<le> mmap_highest_bit (mmap_inflate (md_len d' - 1) (md_disconnect d))"

definition descriptor_frame :: "memory_descriptor \<Rightarrow> memory_descriptor \<Rightarrow> bool" where
  "descriptor_frame d d' \<longleftrightarrow>
     md_flags d' = md_flags d \<and> md_ptr d' = md_ptr d \<and> md_offset d' = md_offset d
   \<and> md_start d' = md_start d \<and> md_addrspace d' = md_addrspace d
   \<and> (md_select d \<noteq> 0 \<longrightarrow> md_select d' = md_select d)
   \<and> (md_len d \<noteq> 0 \<longrightarrow> md_len d' = md_len d)
   \<and> md_disconnect d AND md_disconnect d' = md_disconnect d"

lemmas preprocess_one_defs = mmap_preprocess_one_def mmap_fill_select_def mmap_fill_len_def
  mmap_fill_disconnect_def

lemma disconnect_superset: "disc AND mmap_disconnect ta sel reach disc = disc"
  by (rule bit_word_eqI) (auto simp: bit_and_iff disconnect_grows)

lemma preprocess_one_frame: "mmap_preprocess_one ta d = (ok, d') \<Longrightarrow> descriptor_frame d d'"
  by (auto simp: preprocess_one_defs descriptor_frame_def Let_def disconnect_superset
      split: if_splits)

lemma fill_disconnect_bound:
  "mmap_highest_bit (ta AND NOT (md_select (mmap_fill_disconnect ta d))
       AND NOT (md_disconnect (mmap_fill_disconnect ta d)))
     \<le> mmap_highest_bit (mmap_inflate (md_len (mmap_fill_disconnect ta d) - 1) (md_disconnect d))"
  by (simp add: mmap_fill_disconnect_def disconnect_bound)

lemma preprocess_one_completed:
  assumes "mmap_preprocess_one ta d = (True, d')"
  shows "completed ta d d'"
proof -
  have "md_select d = 0 \<longrightarrow> md_len d \<noteq> 0 \<and> md_len d AND (md_len d - 1) = 0"
    using assms by (auto simp: mmap_preprocess_one_def split: if_splits)
  then have "md_select d = 0 \<longrightarrow> (\<exists>k<64. md_len d = 2 ^ k)"
    using power_of_two_iff [of "md_len d"] by auto
  moreover obtain d2 where d2: "d' = mmap_fill_disconnect ta d2" "md_disconnect d2 = md_disconnect d"
      "md_start d2 AND NOT (md_select d2) = 0"
    using assms by (auto simp: mmap_preprocess_one_def mmap_fill_select_def mmap_fill_len_def
        Let_def simp del: bit.de_Morgan_conj split: if_splits)
  ultimately show ?thesis
    using fill_disconnect_bound [of ta d2]
    by (simp add: completed_def) (simp add: mmap_fill_disconnect_def)
qed

lemma preprocess_loop_frame:
  "mmap_preprocess_loop ta ds = (ok, ds') \<Longrightarrow> list_all2 descriptor_frame ds ds'"
proof (induction ta ds arbitrary: ok ds' rule: mmap_preprocess_loop.induct)
  case (2 ta d ds)
  have "list_all2 descriptor_frame ds ds"
    by (rule list.rel_refl) (simp add: descriptor_frame_def)
  with 2 show ?case
    by (auto split: prod.splits bool.splits dest: preprocess_one_frame)
qed simp

lemma preprocess_loop_completed:
  "mmap_preprocess_loop ta ds = (True, ds') \<Longrightarrow> list_all2 (completed ta) ds ds'"
proof (induction ta ds arbitrary: ds' rule: mmap_preprocess_loop.induct)
  case (2 ta d ds)
  then show ?case
    by (auto split: prod.splits bool.splits dest: preprocess_one_completed)
qed simp

subsection \<open>Properties\<close>

text \<open>
  Address decoding is invertible: compacting an address with \<open>mmap_reduce\<close> undoes
  the expansion \<open>mmap_inflate\<close> makes for the disconnected address lines, whenever the
  expansion pushes no set bit out of the 64-bit word; and the expansion leaves every
  disconnected line zero.
\<close>
theorem mmap_reduce_inflate:
  assumes "unat a * 2 ^ bit_count m < 2 ^ 64"
  shows "mmap_reduce (mmap_inflate a m) m = a \<and> mmap_inflate a m AND m = 0"
  using reduce_inflate_fits [OF fits_bound [OF assms]] inflate_zero_bits by blast

theorem mmap_reduce_inflate_witness:
  "mmap_reduce (mmap_inflate 0x123 0x50) 0x50 = 0x123 \<and> mmap_inflate 0x123 0x50 AND 0x50 = 0"
proof (rule mmap_reduce_inflate)
  have "bit_count (0x50 :: size_t) = 2"
    by code_simp
  then show "unat (0x123 :: size_t) * 2 ^ bit_count (0x50 :: size_t) < 2 ^ 64" by simp
qed

lemma auto_select_reach:
  fixes d :: memory_descriptor
  assumes "md_len d = 2 ^ k" "k < 64" "unat oa < unat (md_len d)"
    and "bit (mmap_inflate oa (md_disconnect d)) i"
  shows "bit (mmap_inflate (md_len d - 1) (md_disconnect d)) i"
proof (rule inflate_mono [OF _ assms(4)])
  have "unat oa < 2 ^ k" using assms(1-3) by (simp add: unat_pow2)
  then show "bit (md_len d - 1) j" if "bit oa j" for j
    using bits_below_pow [OF _ that, of k] assms(1,2) by (simp add: bit_pred_pow)
qed

text \<open>
  A descriptor without a select mask decodes its whole buffer: after a successful
  completion every buffer offset below \<open>len\<close> has an address, that address matches the
  descriptor's \<open>start\<close> under the computed \<open>select\<close>, and the final
  \<open>disconnect\<close> mask compacts it back to exactly that offset.
\<close>
theorem mmap_auto_select_decodes:
  assumes ok: "mmap_preprocess_one ta d = (True, d')" and sel: "md_select d = 0"
    and oa: "unat oa < unat (md_len d)"
    and fit: "unat oa * 2 ^ bit_count (md_disconnect d) < 2 ^ 64"
  shows "(md_start d OR mmap_inflate oa (md_disconnect d)) AND md_select d' = md_start d
    \<and> mmap_reduce ((md_start d OR mmap_inflate oa (md_disconnect d)) AND NOT (md_select d'))
        (md_disconnect d') = oa"
proof -
  let ?D = "md_disconnect d" and ?L = "md_len d - 1"
  let ?S = "ta AND NOT (mmap_inflate (mmap_add_bits_down ?L) ?D)"
  let ?x = "mmap_inflate oa ?D"
  obtain k where k: "k < 64" "md_len d = 2 ^ k"
    using preprocess_one_completed [OF ok] sel by (auto simp: completed_def)
  have reach: "bit (mmap_inflate ?L ?D) i" if "bit ?x i" for i
    by (rule auto_select_reach [OF k(2,1) oa that])
  have down: "mmap_add_bits_down ?L = ?L"
    by (rule bit_word_eqI) (auto simp: bit_add_bits_down k bit_pred_pow)
  have len: "md_len d \<noteq> 0" and st: "md_start d AND NOT ?S = 0"
    and d': "md_select d' = ?S" "md_disconnect d' = mmap_disconnect ta ?S (mmap_inflate ?L ?D) ?D"
    using ok sel by (auto simp: preprocess_one_defs Let_def split: if_splits)
  have stb: "bit (md_start d) i \<Longrightarrow> bit ?S i" for i
    using st by (metis bit_0_eq bit_and_iff bit_not_iff bit_imp_le_length bot_apply bot_bool_def
        impossible_bit)
  have xb: "\<not> bit ?S i" if "bit ?x i" for i
    using reach [OF that] by (simp add: down bit_simps)
  have match: "(md_start d OR ?x) AND ?S = md_start d"
    by (rule bit_word_eqI) (use stb xb in \<open>simp only: bit_and_iff bit_or_iff, blast\<close>)
  have off: "(md_start d OR ?x) AND NOT ?S = ?x"
    by (rule bit_word_eqI)
      (use stb xb in \<open>simp only: bit_and_iff bit_or_iff bit_not_iff possible_bit_word, blast\<close>)
  define E where "E = mmap_disconnect ta ?S (mmap_inflate ?L ?D) ?D AND NOT ?D"
  have D: "mmap_disconnect ta ?S (mmap_inflate ?L ?D) ?D = ?D OR E"
    by (rule bit_word_eqI) (auto simp: E_def bit_simps disconnect_grows)
  have "mmap_reduce ?x (?D OR E) = mmap_reduce ?x ?D"
  proof (rule reduce_or_high)
    fix i j assume "bit ?x i" "bit E j"
    then show "i < j"
      using reach disconnect_high [of ta ?S "mmap_inflate ?L ?D" ?D j]
      by (auto simp: E_def bit_and_iff bit_not_iff)
  qed
  also have "\<dots> = oa" by (rule reduce_inflate_fits [OF fits_bound [OF fit]])
  finally show ?thesis by (simp only: d' D match off)
qed

text \<open>
  \<open>mmap_preprocess_descriptors\<close> completes descriptors and nothing else: whatever it
  returns, the list keeps its length and every descriptor its flags, pointer, offset, start
  and address space, a non-zero \<open>select\<close> or \<open>len\<close> is never changed and no
  disconnected line is reconnected; and when it returns true every \<open>start\<close> lies inside
  its \<open>select\<close>, every descriptor that came without \<open>select\<close> has a power-of-two
  length, and no connected address line is left above the top of the buffer.
\<close>
theorem mmap_preprocess_sound:
  assumes "mmap_preprocess_descriptors ds = (ok, ds')"
  shows "list_all2 descriptor_frame ds ds'
    \<and> (ok \<longrightarrow> list_all2 (completed (mmap_top_addr ds)) ds ds')"
  using assms
  by (auto simp: mmap_preprocess_descriptors_def preprocess_loop_frame preprocess_loop_completed)

text \<open>A two-descriptor map: work RAM without a select mask, mirrored by a disconnected line.\<close>

definition mmap_example :: "memory_descriptor list" where
  "mmap_example =
     [\<lparr>md_flags = 0, md_ptr = None, md_offset = 0, md_start = 0x10000, md_select = 0,
        md_disconnect = 0x100, md_len = 0x400, md_addrspace = None\<rparr>,
      \<lparr>md_flags = 0, md_ptr = None, md_offset = 0, md_start = 0x20000, md_select = 0x30000,
        md_disconnect = 0, md_len = 0, md_addrspace = None\<rparr>]"

lemma mmap_example_run:
  "mmap_preprocess_descriptors mmap_example =
     (True,
      [\<lparr>md_flags = 0, md_ptr = None, md_offset = 0, md_start = 0x10000, md_select = 0x3f900,
        md_disconnect = 0x100, md_len = 0x400, md_addrspace = None\<rparr>,
       \<lparr>md_flags = 0, md_ptr = None, md_offset = 0, md_start = 0x20000, md_select = 0x30000,
        md_disconnect = 0, md_len = 0x10000, md_addrspace = None\<rparr>])"
  by (simp add: mmap_preprocess_descriptors_def mmap_example_def mmap_top_addr_def mmap_top_bits_def
      preprocess_one_defs Let_def mmap_add_bits_down_def mmap_highest_bit_def
      mmap_inflate.simps mmap_reduce.simps mmap_disconnect.simps)

theorem mmap_preprocess_sound_witness:
  "list_all2 descriptor_frame mmap_example (snd (mmap_preprocess_descriptors mmap_example))
   \<and> list_all2 (completed (mmap_top_addr mmap_example)) mmap_example
        (snd (mmap_preprocess_descriptors mmap_example))"
  using mmap_preprocess_sound [of mmap_example True "snd (mmap_preprocess_descriptors mmap_example)"]
  by (simp add: mmap_example_run)

theorem mmap_auto_select_decodes_witness:
  "(0x10000 OR mmap_inflate 0x321 0x100) AND 0x3f900 = 0x10000
   \<and> mmap_reduce ((0x10000 OR mmap_inflate 0x321 0x100) AND NOT 0x3f900) 0x100 = 0x321"
proof -
  let ?d = "\<lparr>md_flags = 0, md_ptr = None, md_offset = 0, md_start = 0x10000, md_select = 0,
    md_disconnect = 0x100, md_len = 0x400, md_addrspace = None\<rparr> :: memory_descriptor"
  have run: "mmap_preprocess_one 0x3ffff ?d = (True, ?d\<lparr>md_select := 0x3f900\<rparr>)"
    by (simp add: preprocess_one_defs Let_def mmap_add_bits_down_def mmap_highest_bit_def
        mmap_inflate.simps mmap_reduce.simps mmap_disconnect.simps)
  have cnt: "bit_count (0x100 :: size_t) = 1" by code_simp
  show ?thesis
    using mmap_auto_select_decodes [where oa = "0x321", OF run] by (simp add: cnt)
qed

end
