(* ===== verification/Frontend_State.thy ===== *)
theory Frontend_State
  imports Memory_Map
begin

text \<open>
  The data model of the frontend core (\<open>runloop.c\<close>): the part of
  \<open>runloop_state_t\<close>, of \<open>settings_t\<close> and of the driver singletons that the
  modelled functions read and write, and the calls they make out of the file.  The C structs
  themselves are declared in headers that are not part of the repository; the records hold the
  fields the source accesses, under the source's names.

  Conventions.  A flag word is the set of its raised flags.  A function pointer or an opaque
  object is a \<open>handle\<close>, a nullable one a \<open>handle option\<close>.  Floating point values
  are exact rationals: rounding is not modelled.  A call to code outside the repository that
  returns a value is a field of the record \<open>ext\<close>; one that has an effect is recorded, in
  order, in the list \<open>calls\<close> of the state.  Logging is left out.  Build switches
  (\<open>#ifdef\<close>) are the fields of the record \<open>build\<close>.
\<close>

type_synonym handle = nat
type_synonym c_str = "string option"

subsection \<open>C strings\<close>

text \<open>\<open>string_is_empty\<close>: a null pointer or the empty string.\<close>

definition string_is_empty :: "c_str \<Rightarrow> bool" where
  "string_is_empty s = (case s of None \<Rightarrow> True | Some t \<Rightarrow> t = [])"

lemma string_is_empty_simps [simp]:
  "string_is_empty None" "string_is_empty (Some t) \<longleftrightarrow> t = []"
  by (simp_all add: string_is_empty_def)

text \<open>The bytes \<open>strlcpy\<close> leaves in a buffer of \<open>n\<close> bytes, terminator not counted.\<close>

definition strlcpy :: "nat \<Rightarrow> string \<Rightarrow> string" where
  "strlcpy n s = take (n - 1) s"

lemma length_strlcpy: "0 < n \<Longrightarrow> length (strlcpy n s) < n"
  by (simp add: strlcpy_def)

lemma strlcpy_fits: "length s < n \<Longrightarrow> strlcpy n s = s"
  by (simp add: strlcpy_def)

subsection \<open>Build switches\<close>

record build =
  have_networking :: bool
  have_runahead :: bool
  have_dynamic :: bool
  have_menu :: bool
  have_gfx_widgets :: bool
  have_threads :: bool
  have_cocoatouch :: bool
  have_rewind :: bool
  have_cheevos :: bool
  have_cheats :: bool
  have_langextra :: bool
  have_libnx :: bool
  have_microphone :: bool
  have_vulkan :: bool
  have_opengl :: bool
  have_opengl_core :: bool
  have_opengles :: bool
  have_opengles2 :: bool
  have_opengles3 :: bool
  have_opengles3_1 :: bool
  have_opengles3_2 :: bool
  have_d3d9 :: bool
  have_d3d10 :: bool
  have_d3d11 :: bool
  have_d3d12 :: bool
  target_os_iphone :: bool

subsection \<open>Flags and enumerations\<close>

datatype runloop_flag =
    Ignore_environment_cb | Has_variable_update | Game_options_active | Folder_options_active
  | Core_shutdown_initiated | Shutdown_initiated | Core_set_shared_context
  | Request_special_savestate | Runahead_secondary_core_available | Runahead_available
  | Fastmotion | Slowmotion | Paused | Force_nonblock | Has_set_core
  | Remaps_core_active | Remaps_content_dir_active | Remaps_game_active | Overrides_active
  | Use_sram | Is_sram_load_disabled | Is_sram_save_disabled

datatype core_flag =
    Core_inited | Core_game_loaded | Core_symbols_inited | Core_has_set_input_descriptors
  | Core_has_set_subsystems | Core_input_polled

datatype path_kind = Path_content | Path_core | Path_basename | Path_core_options | Path_config
  | Path_subsystem

datatype pixel_format = Fmt_0RGB1555 | Fmt_RGB565 | Fmt_XRGB8888 | Fmt_unknown u32

datatype hw_context_type =
    HW_none | HW_opengl | HW_opengles2 | HW_opengl_core | HW_opengles3 | HW_opengles_version
  | HW_vulkan | HW_d3d9 | HW_d3d10 | HW_d3d11 | HW_d3d12 | HW_unknown u32

datatype log_level = Log_debug | Log_info | Log_warn | Log_error | Log_unknown u32

datatype msg_target = Target_all | Target_osd | Target_log

datatype msg_type =
    Type_notification | Type_notification_alt | Type_status | Type_progress | Type_unknown u32

datatype queue_category = Cat_info | Cat_warning | Cat_error

datatype poll_type = Poll_early | Poll_normal | Poll_late

datatype poll_override = Override_dontcare | Override_to poll_type

datatype throttle_mode = Thr_none | Thr_frame_stepping | Thr_fast_forward | Thr_slow_motion
  | Thr_rewinding | Thr_vsync | Thr_unblocked

datatype savestate_context = Ctx_normal | Ctx_runahead_same_instance | Ctx_runahead_same_binary
  | Ctx_rollback_netplay

datatype power_state = Pw_on_battery | Pw_charging | Pw_charged | Pw_no_source | Pw_other

subsection \<open>Structs of the libretro interface\<close>

record status_msg =
  csm_str :: string
  csm_priority :: u32
  csm_duration :: rat
  csm_set :: bool

record fastforward =
  ff_ratio :: rat
  ff_fastforward :: bool
  ff_notification :: bool
  ff_inhibit_toggle :: bool

record frame_time_cb =
  ft_callback :: "handle option"
  ft_reference :: int

text \<open>
  \<open>retro_hw_render_callback\<close>: the members up to \<open>depth\<close>, then those from
  \<open>stencil\<close> on, which the old interface did not have.
\<close>

record hw_render_cb =
  hw_type :: hw_context_type
  hw_context_reset :: "handle option"
  hw_get_framebuffer :: "string option"
  hw_get_proc_address :: "string option"
  hw_depth :: bool
  hw_stencil :: bool
  hw_bottom_left :: bool
  hw_major :: u32
  hw_minor :: u32
  hw_cache_context :: bool
  hw_context_destroy :: "handle option"
  hw_debug_context :: bool

record av_info =
  av_base_width :: u32
  av_base_height :: u32
  av_max_width :: u32
  av_max_height :: u32
  av_aspect :: rat
  av_fps :: rat
  av_sample_rate :: rat

record message_ext =
  me_msg :: string
  me_duration :: u32
  me_priority :: u32
  me_level :: log_level
  me_target :: msg_target
  me_type :: msg_type
  me_progress :: int

record rom_info =
  rom_desc :: string
  rom_extensions :: string
  rom_required :: bool
  rom_block_extract :: bool
  rom_need_fullpath :: bool

record subsystem_info =
  sub_ident :: c_str
  sub_desc :: string
  sub_id :: u32
  sub_roms :: "rom_info list"

text \<open>A table that ends at its first entry without identifier.\<close>

definition until_null :: "('a \<Rightarrow> bool) \<Rightarrow> 'a list \<Rightarrow> 'a list" where
  "until_null present xs = takeWhile present xs"

subsection \<open>Core options\<close>

text \<open>
  The option manager of \<open>core_option_manager.c\<close> (not in the repository): the fields
  \<open>runloop.c\<close> reads, and the rest of it as a handle.
\<close>

record option_manager =
  com_updated :: bool
  com_index :: "nat list"
  com_conf_path :: string
  com_conf :: handle
  com_body :: handle

subsection \<open>Calls made out of the file\<close>

datatype driver_kind = Drv_video | Drv_input | Drv_menu | Drv_camera | Drv_microphone

text \<open>
  First the calls into the core itself, and those made around loading and unloading it.  The flag
  of the cheat calls says whether the core is the secondary one of run-ahead.
\<close>

datatype core_call =
    K_cheat_set bool u32 bool string | K_cheat_reset bool
  | K_controller_port u32 u32 | K_remember_controller u32 u32
  | K_load_game | K_unload_game | K_init | K_deinit | K_reset
  | K_netplay_load_savestate | K_preempt_reset_buffer | K_netplay_clear_interface
  | K_free_hw_context | K_microphone_stop | K_close_library | K_game_focus_free
  | K_remapping_deinit bool | K_remapping_defaults | K_remapping_restore
  | K_unload_override | K_restore_refresh_rate | K_driver_uninit
  | K_runahead_content | K_runahead_clear_ports

text \<open>\<open>C_reinit ks\<close> is \<open>CMD_EVENT_REINIT\<close> of all drivers but those in \<open>ks\<close>.\<close>

datatype call =
    C_reinit "driver_kind list"
  | C_set_aspect_ratio
  | C_streaming_toggle | C_record_deinit | C_record_init
  | C_show_mouse bool
  | C_msg_push string u32 u32 bool queue_category
  | C_widget_message string int
  | C_widget_progress string u32 u32 int
  | C_shutdown_callback handle
  | C_wfc_status handle bool
  | C_server_refresh_rate rat | C_monitor_refresh_rate rat
  | C_gl_core_context
  | C_cheevos_support bool | C_cheevos_refresh_memory
  | C_cheat_init_memory | C_cheat_apply
  | C_content_not_needed bool
  | C_conf_write handle string | C_options_free handle | C_mkdir string
  | C_save_in_background bool
  | C_audio_start bool | C_audio_stop | C_set_nonblock_state
  | C_input_poll | C_retro_run | C_cached_frame
  | C_netplay_post_frame
  | C_core core_call

subsection \<open>Settings\<close>

record settings =
  video_crop_overscan :: bool
  game_specific_options :: bool
  global_core_options :: bool
  core_option_category_enable :: bool
  path_core_options :: string
  video_allow_rotate :: bool
  directory_system :: string
  systemfiles_in_content_dir :: bool
  username :: string
  directory_core_assets :: string
  directory_playlist :: string
  directory_menu_content :: string
  libretro_log_level :: log_level
  video_driver :: string
  driver_switch_enable :: bool
  set_audio_latency :: u32
  video_fullscreen :: bool
  input_sensors_enable :: bool
  crt_switch_resolution :: u32
  video_frame_delay_auto :: bool
  video_refresh_rate :: rat
  video_vsync :: bool
  video_swap_interval :: u32
  video_black_frame_insertion :: u32
  video_shader_subframes :: u32
  vrr_runloop_enable :: bool
  audio_max_timing_skew :: rat
  menu_pause_libretro :: bool
  slowmotion_ratio :: rat
  fastforward_ratio :: rat
  run_ahead_secondary_instance :: bool
  run_ahead_enabled :: bool
  run_ahead_frames :: u32
  video_rotation :: u32
  remap_save_on_exit :: bool
  input_max_users :: u32
  microphone_enable :: bool
  microphone_driver :: string
  audio_fastforward_mute :: bool
  frame_time_counter_reset_after_fastforwarding :: bool

subsection \<open>State\<close>

datatype analog_bind =
    Left_x_plus | Left_x_minus | Left_y_plus | Left_y_minus
  | Right_x_plus | Right_x_minus | Right_y_plus | Right_y_minus

text \<open>A column of \<open>input_desc_btn\<close>: a button id or one of the analog binds.\<close>

datatype bind_slot = Button u32 | Analog analog_bind

record system_info =
  si_library_name :: c_str
  si_core_requested_rotation :: u32
  si_rotation :: u32
  si_performance_level :: u32
  si_input_desc :: "u32 \<Rightarrow> bind_slot \<Rightarrow> c_str"
  si_disk_control :: "handle option"
  si_disk_control_ext :: "handle option"
  si_location_cb :: bool
  si_subsystem :: "subsystem_info list"
  si_ports :: "handle list"
  si_mmaps :: "memory_descriptor list"
  si_supports_vfs :: bool

record video_state =
  vs_av :: av_info
  vs_pix_fmt :: pixel_format
  vs_hw :: hw_render_cb
  vs_hw_negotiation :: "handle option"
  vs_frame_delay_pause :: bool
  vs_frame_delay_target :: u32
  vs_active :: bool
  vs_frame_is_null :: bool
  vs_frame_time_count :: u64
  vs_widgets_fast_forward :: bool
  vs_has_show_mouse :: bool
  vs_crt_switching :: bool

record audio_state =
  as_suspended :: bool
  as_active :: bool
  as_hard_disable :: bool
  as_muted :: bool
  as_callback :: "handle option"

record input_state =
  is_game_focus_requested :: bool
  is_nonblocking :: bool
  is_has_capabilities :: bool
  is_has_data :: bool

record retro_core =
  rc_flags :: "core_flag set"
  rc_quirks :: u64
  rc_poll_type :: poll_type

record frontend =
  flags :: "runloop_flag set"
  core_options :: "option_manager option"
  update_display :: "handle option"
  core_status_msg :: status_msg
  key_event :: "handle option"
  frontend_key_event :: "handle option"
  savefile_dir :: string
  frame_time :: frame_time_cb
  audio_buffer_callback :: "handle option"
  audio_latency :: u32
  current_core :: retro_core
  ff_current :: fastforward
  ff_next :: fastforward
  ff_pending :: bool
  fastforward_after_frames :: u32
  poll_type_override :: poll_override
  frame_limit_minimum_time :: int
  video_swap_interval_auto :: u32
  core_runtime_last :: int
  core_runtime_usec :: int
  rewind_reversed :: bool
  cheat_memory_initialized :: bool
  paths :: "path_kind \<Rightarrow> string"
  dir_system :: string
  sys :: system_info
  vid :: video_state
  aud :: audio_state
  inp :: input_state
  camera_active :: bool
  camera_cb :: "handle option"
  location_active :: bool
  menu_alive :: bool
  menu_pending_flush :: bool
  menu_pending_path :: string
  wfc_callback :: "handle option"
  shutdown_callback :: "handle option"
  melonds_layout :: c_str
  melonds_wfc_dns :: c_str
  azahar_layout :: c_str
  desmume_layout :: c_str
  psp_server_address :: c_str
  psp_server_port :: c_str
  calls :: "call list"

definition emit :: "call list \<Rightarrow> frontend \<Rightarrow> frontend" where
  "emit cs s = s\<lparr>calls := calls s @ cs\<rparr>"

lemma calls_emit [simp]: "calls (emit cs s) = calls s @ cs"
  by (simp add: emit_def)

definition raise_flags :: "runloop_flag set \<Rightarrow> frontend \<Rightarrow> frontend" where
  "raise_flags fs s = s\<lparr>flags := flags s \<union> fs\<rparr>"

definition lower_flags :: "runloop_flag set \<Rightarrow> frontend \<Rightarrow> frontend" where
  "lower_flags fs s = s\<lparr>flags := flags s - fs\<rparr>"

lemmas frontend_updates = emit_def raise_flags_def lower_flags_def

end
