(* ===== verification/External.thy ===== *)
theory External
  imports Frontend_State
begin

text \<open>
  What the modelled functions obtain from code outside the repository: the file system and the
  path functions of the RetroArch base library, the option manager, the drivers and netplay.
  One value of \<open>ext\<close> is the world as one call sees it; it is an argument of the
  definitions that use it, so it may differ from call to call.
\<close>

record ext =
  path_is_valid :: "string \<Rightarrow> bool"
  path_is_directory :: "string \<Rightarrow> bool"
  app_config_dir :: string
  join_special_ext :: "string \<Rightarrow> string \<Rightarrow> string \<Rightarrow> string \<Rightarrow> string"
  join_special :: "string \<Rightarrow> string \<Rightarrow> string"
  stack_garbage :: string
  parent_dir_name :: "string \<Rightarrow> string"
  basename_nocompression :: "string \<Rightarrow> string"
  resolve_relative :: "string \<Rightarrow> string"
  path_basedir :: "string \<Rightarrow> string"
  path_slash :: char
  file_read :: "string \<Rightarrow> handle option"
  conf_new :: "handle option"
  com_get_idx :: "option_manager \<Rightarrow> string \<Rightarrow> nat option"
  com_get_val :: "option_manager \<Rightarrow> nat \<Rightarrow> string option"
  com_get_val_idx :: "option_manager \<Rightarrow> nat \<Rightarrow> string \<Rightarrow> nat option"
  com_set_val :: "option_manager \<Rightarrow> nat \<Rightarrow> nat \<Rightarrow> bool \<Rightarrow> option_manager"
  com_set_visible :: "option_manager \<Rightarrow> string \<Rightarrow> bool \<Rightarrow> option_manager"
  com_flush :: "option_manager \<Rightarrow> handle \<Rightarrow> handle"
  com_new :: "string \<Rightarrow> string \<Rightarrow> handle \<Rightarrow> bool \<Rightarrow> option_manager option"
  com_new_vars :: "string \<Rightarrow> string \<Rightarrow> handle \<Rightarrow> option_manager option"
  com_convert_v1 :: "handle option \<Rightarrow> handle option"
  com_convert_v1_intl :: "handle option \<Rightarrow> handle option"
  com_convert_v2_intl :: "handle option \<Rightarrow> handle option"
  msg_hash_to_str :: "string \<Rightarrow> string"
  atoi :: "string \<Rightarrow> int"
  alloc_ok :: "nat \<Rightarrow> bool"
  widgets_active :: bool
  rec_data :: bool
  rec_streaming :: bool
  video_set_rotation :: "u32 \<Rightarrow> bool"
  has_resolution_list :: bool
  switch_refresh_rate_maybe :: "rat \<Rightarrow> rat \<times> bool"
  set_refresh_rate :: "rat \<Rightarrow> bool"
  get_refresh_rate :: rat
  custom_fastforward_ratio :: rat
  netplay_enabled :: bool
  netplay_replaying :: bool
  netplay_allow_pause :: bool
  netplay_pre_frame :: bool
  netplay_set_packet_iface :: "handle option \<Rightarrow> bool"
  input_capabilities :: u64
  camera_switch :: "bool \<Rightarrow> bool"
  sw_framebuffer :: "handle option"
  hw_render_iface :: "handle option"
  content_override_set :: "handle \<Rightarrow> bool"
  game_info_ext :: "handle option"
  user_language :: u32
  isolated_save_dir :: c_str
  secondary_core_exists :: bool
  jit_available :: bool
  mic_driver_null :: bool
  mic_driver_set :: bool
  frontend_exists :: bool
  frontend_powerstate :: "(power_state \<times> int \<times> int) option"

text \<open>
  \<open>stack_garbage\<close> is what an uninitialised stack buffer happens to hold.  The constants of
  the headers that bound loops and buffers are the fields of \<open>limits\<close>.
\<close>

record limits =
  max_users :: u32
  first_custom_bind :: u32
  max_status_msg :: nat
  path_max :: nat
  id_analog_x :: u32
  id_analog_y :: u32
  id_joypad_r2 :: u32
  id_joypad_l2 :: u32
  max_counters :: nat
  subsystem_max :: nat
  subsystem_max_roms :: nat
  mic_interface_version :: u32
  vulkan_negotiation_version :: u32
  power_no_estimate :: int

subsection \<open>Results of environment calls\<close>

text \<open>
  An environment call returns a boolean, may write a datum through its \<open>data\<close> pointer, and
  changes the state.  Structs of function pointers are written as lists of member and function
  name.
\<close>

datatype env_out =
    No_out
  | Out_bool bool
  | Out_unsigned u32
  | Out_u64 u64
  | Out_str c_str
  | Out_rate rat
  | Out_hw_type hw_context_type
  | Out_hw hw_render_cb
  | Out_fns "(string \<times> string) list"
  | Out_handle "handle option"
  | Out_av_enable "string set"
  | Out_savestate_context savestate_context
  | Out_throttle throttle_mode rat
  | Out_power string int int
  | Out_vfs u32

type_synonym env_res = "bool \<times> env_out \<times> frontend"

abbreviation res_ok :: "env_res \<Rightarrow> bool" where "res_ok r \<equiv> fst r"
abbreviation res_out :: "env_res \<Rightarrow> env_out" where "res_out r \<equiv> fst (snd r)"
abbreviation res_st :: "env_res \<Rightarrow> frontend" where "res_st r \<equiv> snd (snd r)"

section \<open>The initial state\<close>

text \<open>
  The zero-initialised state the program starts from (\<open>runloop_state\<close> is a static
  object, and so are the driver singletons), a build without optional features, and a world in
  which every outside call fails or returns zero.  The witnesses start from these.
\<close>

definition zero_status :: status_msg where
  "zero_status =
     \<lparr>csm_str = '''', csm_priority = 0, csm_duration = 0, csm_set = False\<rparr>"

definition zero_ff :: fastforward where
  "zero_ff =
     \<lparr>ff_ratio = 0, ff_fastforward = False, ff_notification = False,
        ff_inhibit_toggle = False\<rparr>"

definition zero_hw :: hw_render_cb where
  "zero_hw =
     \<lparr>hw_type = HW_none, hw_context_reset = None, hw_get_framebuffer = None,
        hw_get_proc_address = None, hw_depth = False, hw_stencil = False, hw_bottom_left = False,
        hw_major = 0, hw_minor = 0, hw_cache_context = False, hw_context_destroy = None,
        hw_debug_context = False\<rparr>"

definition zero_av :: av_info where
  "zero_av =
     \<lparr>av_base_width = 0, av_base_height = 0, av_max_width = 0, av_max_height = 0, av_aspect = 0,
        av_fps = 0, av_sample_rate = 0\<rparr>"

definition zero_core :: retro_core where
  "zero_core =
     \<lparr>rc_flags = {}, rc_quirks = 0, rc_poll_type = Poll_early\<rparr>"

definition zero_sys :: system_info where
  "zero_sys =
     \<lparr>si_library_name = None, si_core_requested_rotation = 0, si_rotation = 0,
        si_performance_level = 0, si_input_desc = (\<lambda>_ _. None), si_disk_control = None,
        si_disk_control_ext = None, si_location_cb = False, si_subsystem = [], si_ports = [],
        si_mmaps = [], si_supports_vfs = False\<rparr>"

definition zero_vid :: video_state where
  "zero_vid =
     \<lparr>vs_av = zero_av, vs_pix_fmt = Fmt_0RGB1555, vs_hw = zero_hw, vs_hw_negotiation = None,
        vs_frame_delay_pause = False, vs_frame_delay_target = 0, vs_active = False,
        vs_frame_is_null = False, vs_frame_time_count = 0, vs_widgets_fast_forward = False,
        vs_has_show_mouse = False, vs_crt_switching = False\<rparr>"

definition zero_aud :: audio_state where
  "zero_aud =
     \<lparr>as_suspended = False, as_active = False, as_hard_disable = False, as_muted = False,
        as_callback = None\<rparr>"

definition zero_inp :: input_state where
  "zero_inp =
     \<lparr>is_game_focus_requested = False, is_nonblocking = False, is_has_capabilities = False,
        is_has_data = False\<rparr>"

definition zero_frontend :: frontend where
  "zero_frontend =
     \<lparr>flags = {}, core_options = None, update_display = None, core_status_msg = zero_status,
        key_event = None, frontend_key_event = None, savefile_dir = '''',
        frame_time = \<lparr>ft_callback = None, ft_reference = 0\<rparr>,
        audio_buffer_callback = None, audio_latency = 0, current_core = zero_core,
        ff_current = zero_ff, ff_next = zero_ff, ff_pending = False, fastforward_after_frames = 0,
        poll_type_override = Override_dontcare, frame_limit_minimum_time = 0,
        video_swap_interval_auto = 0, core_runtime_last = 0, core_runtime_usec = 0,
        rewind_reversed = False, cheat_memory_initialized = False, paths = (\<lambda>_. ''''),
        dir_system = '''', sys = zero_sys, vid = zero_vid, aud = zero_aud, inp = zero_inp,
        camera_active = False, camera_cb = None, location_active = False, menu_alive = False,
        menu_pending_flush = False, menu_pending_path = '''', wfc_callback = None,
        shutdown_callback = None, melonds_layout = None, melonds_wfc_dns = None,
        azahar_layout = None, desmume_layout = None, psp_server_address = None,
        psp_server_port = None, calls = []\<rparr>"

definition plain_build :: build where
  "plain_build =
     \<lparr>have_networking = False, have_runahead = False, have_dynamic = False, have_menu = False,
        have_gfx_widgets = False, have_threads = False, have_cocoatouch = False,
        have_rewind = False, have_cheevos = False, have_cheats = False, have_langextra = False,
        have_libnx = False, have_microphone = False, have_vulkan = False, have_opengl = False,
        have_opengl_core = False, have_opengles = False, have_opengles2 = False,
        have_opengles3 = False, have_opengles3_1 = False, have_opengles3_2 = False,
        have_d3d9 = False, have_d3d10 = False, have_d3d11 = False, have_d3d12 = False,
        target_os_iphone = False\<rparr>"

definition zero_settings :: settings where
  "zero_settings =
     \<lparr>video_crop_overscan = False, game_specific_options = False, global_core_options = False,
        core_option_category_enable = False, path_core_options = '''', video_allow_rotate = False,
        directory_system = '''', systemfiles_in_content_dir = False, username = '''',
        directory_core_assets = '''', directory_playlist = '''', directory_menu_content = '''',
        libretro_log_level = Log_debug, video_driver = '''', driver_switch_enable = False,
        set_audio_latency = 0, video_fullscreen = False, input_sensors_enable = False,
        crt_switch_resolution = 0, video_frame_delay_auto = False, video_refresh_rate = 0,
        video_vsync = False, video_swap_interval = 0, video_black_frame_insertion = 0,
        video_shader_subframes = 0, vrr_runloop_enable = False, audio_max_timing_skew = 0,
        menu_pause_libretro = False, slowmotion_ratio = 0, fastforward_ratio = 0,
        run_ahead_secondary_instance = False, run_ahead_enabled = False, run_ahead_frames = 0,
        video_rotation = 0, remap_save_on_exit = False, input_max_users = 0, microphone_enable = False,
        microphone_driver = '''', audio_fastforward_mute = False,
        frame_time_counter_reset_after_fastforwarding = False\<rparr>"

definition null_world :: ext where
  "null_world =
     \<lparr>path_is_valid = (\<lambda>_. False), path_is_directory = (\<lambda>_. False),
        app_config_dir = '''', join_special_ext = (\<lambda>_ _ _ _. ''''),
        join_special = (\<lambda>_ _. ''''), stack_garbage = '''',
        parent_dir_name = (\<lambda>_. ''''), basename_nocompression = (\<lambda>_. ''''),
        resolve_relative = (\<lambda>_. ''''), path_basedir = (\<lambda>_. ''''),
        path_slash = CHR ''/'', file_read = (\<lambda>_. None), conf_new = None,
        com_get_idx = (\<lambda>_ _. None), com_get_val = (\<lambda>_ _. None),
        com_get_val_idx = (\<lambda>_ _ _. None), com_set_val = (\<lambda>m _ _ _. m),
        com_set_visible = (\<lambda>m _ _. m), com_flush = (\<lambda>_ _. 0),
        com_new = (\<lambda>_ _ _ _. None), com_new_vars = (\<lambda>_ _ _. None),
        com_convert_v1 = (\<lambda>_. None), com_convert_v1_intl = (\<lambda>_. None),
        com_convert_v2_intl = (\<lambda>_. None), msg_hash_to_str = (\<lambda>_. ''''),
        atoi = (\<lambda>_. 0), alloc_ok = (\<lambda>_. False), widgets_active = False,
        rec_data = False, rec_streaming = False, video_set_rotation = (\<lambda>_. False),
        has_resolution_list = False, switch_refresh_rate_maybe = (\<lambda>r. (r, False)),
        set_refresh_rate = (\<lambda>_. False), get_refresh_rate = 0, custom_fastforward_ratio = 0,
        netplay_enabled = False, netplay_replaying = False, netplay_allow_pause = False,
        netplay_pre_frame = False, netplay_set_packet_iface = (\<lambda>_. False),
        input_capabilities = 0, camera_switch = (\<lambda>_. False), sw_framebuffer = None,
        hw_render_iface = None, content_override_set = (\<lambda>_. False), game_info_ext = None,
        user_language = 0, isolated_save_dir = None, secondary_core_exists = False,
        jit_available = False, mic_driver_null = False, mic_driver_set = False,
        frontend_exists = False, frontend_powerstate = None\<rparr>"

text \<open>Header constants of the size a libretro frontend uses.\<close>

definition some_limits :: limits where
  "some_limits =
     \<lparr>max_users = 16, first_custom_bind = 24, max_status_msg = 128, path_max = 4096, id_analog_x = 0,
        id_analog_y = 1, id_joypad_r2 = 13, id_joypad_l2 = 12, max_counters = 64, subsystem_max = 20,
        subsystem_max_roms = 10, mic_interface_version = 1, vulkan_negotiation_version = 2,
        power_no_estimate = - 1\<rparr>"

lemmas zero_defs = zero_frontend_def zero_vid_def zero_sys_def zero_aud_def zero_inp_def zero_core_def
  zero_av_def zero_hw_def zero_ff_def zero_status_def

end
