(* ===== verification/Core_Options.thy ===== *)
theory Core_Options
  imports External
begin

text \<open>
  Core options: where the options of the running core are read from and saved to
  (\<open>validate_per_core_options\<close> to \<open>runloop_init_core_variables\<close>), how they are saved
  and dropped (\<open>runloop_deinit_core_options\<close>), and the environment calls by which a core
  declares, reads and sets them.
\<close>

subsection \<open>Where the options live\<close>

definition validate_per_core_options ::
    "ext \<Rightarrow> bool \<Rightarrow> c_str \<Rightarrow> c_str \<Rightarrow> frontend \<Rightarrow> string option \<times> frontend" where
  "validate_per_core_options x mkdir core_name game_name s =
     (if string_is_empty core_name \<or> string_is_empty game_name then (None, s)
      else let path = join_special_ext x (app_config_dir x) (the core_name) (the game_name) ''.opt'';
               new_path = join_special x (app_config_dir x) (the core_name)
           in (Some path,
               if mkdir \<and> \<not> path_is_valid x path \<and> \<not> path_is_directory x new_path
               then emit [C_mkdir new_path] s else s))"

definition validate_folder_options :: "ext \<Rightarrow> bool \<Rightarrow> frontend \<Rightarrow> string option \<times> frontend" where
  "validate_folder_options x mkdir s =
     (let game_path = paths s Path_basename
      in if game_path \<noteq> []
         then validate_per_core_options x mkdir (si_library_name (sys s))
                (Some (parent_dir_name x game_path)) s
         else (None, s))"

text \<open>
  The last branch of \<open>runloop_init_core_options_path\<close>: neither game nor folder options.
  \<open>global_options_path\<close> is not initialised, so it holds \<open>stack_garbage\<close> until written.
\<close>

definition global_options_path :: "ext \<Rightarrow> string \<Rightarrow> frontend \<Rightarrow> string" where
  "global_options_path x opt_path s =
     (if opt_path \<noteq> [] then opt_path
      else if paths s Path_config \<noteq> [] then resolve_relative x (paths s Path_config)
      else stack_garbage x)"

definition init_core_options_path_default ::
    "ext \<Rightarrow> bool \<Rightarrow> string \<Rightarrow> frontend \<Rightarrow> (string \<times> string) \<times> frontend" where
  "init_core_options_path_default x per_core opt_path s =
     (let name = si_library_name (sys s);
          (found, s1) = (if per_core then validate_per_core_options x True name name s else (None, s));
          s2 = lower_flags {Game_options_active, Folder_options_active} s1
      in case found of
           Some p \<Rightarrow> if path_is_valid x p then ((p, []), s2)
                     else ((p, global_options_path x opt_path s), s2)
         | None \<Rightarrow> ((global_options_path x opt_path s, []), s2))"

definition usable :: "ext \<Rightarrow> string option \<Rightarrow> bool" where
  "usable x p = (case p of None \<Rightarrow> False | Some q \<Rightarrow> path_is_valid x q)"

definition runloop_init_core_options_path ::
    "ext \<Rightarrow> bool \<Rightarrow> bool \<Rightarrow> string \<Rightarrow> frontend \<Rightarrow> (string \<times> string) \<times> frontend" where
  "runloop_init_core_options_path x game_specific per_core opt_path s =
     (let game = fst (validate_per_core_options x False (si_library_name (sys s))
                        (Some (basename_nocompression x (paths s Path_basename))) s);
          folder = fst (validate_folder_options x False s)
      in if game_specific \<and> usable x game
         then ((the game, []), raise_flags {Game_options_active} (lower_flags {Folder_options_active}
                 (s\<lparr>paths := (paths s)(Path_core_options := the game)\<rparr>)))
         else if game_specific \<and> usable x folder
         then ((the folder, []), raise_flags {Folder_options_active} (lower_flags {Game_options_active}
                 (s\<lparr>paths := (paths s)(Path_core_options := the folder)\<rparr>)))
         else init_core_options_path_default x per_core opt_path s)"

definition runloop_init_core_options ::
    "ext \<Rightarrow> bool \<Rightarrow> bool \<Rightarrow> bool \<Rightarrow> string \<Rightarrow> handle \<Rightarrow> frontend
       \<Rightarrow> option_manager option \<times> frontend" where
  "runloop_init_core_options x categories game_specific per_core opt_path options s =
     (case runloop_init_core_options_path x game_specific per_core opt_path s of
        ((p, src), s1) \<Rightarrow> (if p \<noteq> [] then com_new x p src options categories else None, s1))"

definition runloop_init_core_variables ::
    "ext \<Rightarrow> bool \<Rightarrow> bool \<Rightarrow> string \<Rightarrow> handle \<Rightarrow> frontend \<Rightarrow> option_manager option \<times> frontend" where
  "runloop_init_core_variables x game_specific per_core opt_path vars s =
     (case runloop_init_core_options_path x game_specific per_core opt_path s of
        ((p, src), s1) \<Rightarrow> (if p \<noteq> [] then com_new_vars x p src vars else None, s1))"

subsection \<open>Saving and dropping them\<close>

definition runloop_deinit_core_options ::
    "ext \<Rightarrow> string \<Rightarrow> option_manager \<Rightarrow> frontend \<Rightarrow> frontend" where
  "runloop_deinit_core_options x opt_path m s =
     (let s1 = (if opt_path \<noteq> []
                then let read = (if path_is_valid x opt_path
                                 then file_read x opt_path else None);
                         conf = (case read of Some c \<Rightarrow> Some c | None \<Rightarrow> conf_new x);
                         s' = (case conf of
                                 Some c \<Rightarrow> emit [C_conf_write (com_flush x m c) opt_path] s
                               | None \<Rightarrow> s)
                     in s'\<lparr>paths := (paths s')(Path_core_options := [])\<rparr>
                else emit [C_conf_write (com_flush x m (com_conf m)) (com_conf_path m)] s)
      in emit [C_options_free (com_body m)] s1)"

text \<open>The block every \<open>SET_CORE_OPTIONS\<close> call and the core shutdown start with.\<close>

definition drop_core_options :: "ext \<Rightarrow> frontend \<Rightarrow> frontend" where
  "drop_core_options x s =
     (case core_options s of
        None \<Rightarrow> s
      | Some m \<Rightarrow>
          (lower_flags {Game_options_active, Folder_options_active}
             (runloop_deinit_core_options x (paths s Path_core_options) m s))\<lparr>core_options := None\<rparr>)"

definition install_options :: "option_manager option \<times> frontend \<Rightarrow> frontend" where
  "install_options r =
     (case r of (Some m, s) \<Rightarrow> s\<lparr>core_options := Some m\<rparr> | (None, s) \<Rightarrow> s)"

subsection \<open>Environment calls\<close>

definition env_get_variable_update :: "frontend \<Rightarrow> env_res" where
  "env_get_variable_update s =
     (True, Out_bool (case core_options s of Some m \<Rightarrow> com_updated m | None \<Rightarrow> False), s)"

text \<open>The values the app injects for options that are not in the option list.\<close>

definition injected_variable :: "string \<Rightarrow> frontend \<Rightarrow> c_str" where
  "injected_variable key s =
     (if melonds_layout s \<noteq> None \<and> key = ''melonds_custom_layout_config'' then melonds_layout s
      else if melonds_wfc_dns s \<noteq> None \<and> key = ''melonds_firmware_wfc_dns'' then melonds_wfc_dns s
      else if azahar_layout s \<noteq> None \<and> key = ''citra_custom_layout_config'' then azahar_layout s
      else if desmume_layout s \<noteq> None \<and> key = ''desmume_custom_layout_config'' then desmume_layout s
      else if psp_server_address s \<noteq> None \<and> key = ''ppsspp_change_pro_ad_hoc_server_address''
        then psp_server_address s
      else if psp_server_port s \<noteq> None \<and> key = ''ppsspp_port_offset'' then psp_server_port s
      else None)"

definition env_get_variable :: "build \<Rightarrow> ext \<Rightarrow> string option \<Rightarrow> frontend \<Rightarrow> env_res" where
  "env_get_variable b x var s =
     (case var of
        None \<Rightarrow> (True, No_out, s)
      | Some key \<Rightarrow>
          (case core_options s of
             None \<Rightarrow> (True, Out_str None, s)
           | Some m \<Rightarrow>
               let s1 = (if have_runahead b \<and> com_updated m
                         then raise_flags {Has_variable_update} s else s);
                   m1 = m\<lparr>com_updated := False\<rparr>;
                   s2 = s1\<lparr>core_options := Some m1\<rparr>
               in case injected_variable key s of
                    Some v \<Rightarrow> (True, Out_str (Some v), s2)
                  | None \<Rightarrow>
                      (True,
                       Out_str (case com_get_idx x m1 key of
                                  None \<Rightarrow> None | Some i \<Rightarrow> com_get_val x m1 i), s2)))"

definition env_set_variable :: "ext \<Rightarrow> (c_str \<times> c_str) option \<Rightarrow> frontend \<Rightarrow> env_res" where
  "env_set_variable x var s =
     (case var of
        None \<Rightarrow> (True, No_out, s)
      | Some (k, v) \<Rightarrow>
          if string_is_empty k \<or> string_is_empty v then (False, No_out, s)
          else case core_options s of
            None \<Rightarrow> (False, No_out, s)
          | Some m \<Rightarrow>
              if wfc_callback s \<noteq> None \<and> the k = ''melonds_wfc_status''
              then (True, No_out, emit [C_wfc_status (the (wfc_callback s)) (atoi x (the v) = 2)] s)
              else case com_get_idx x m (the k) of
                None \<Rightarrow> (False, No_out, s)
              | Some i \<Rightarrow>
                  (case com_get_val_idx x m i (the v) of
                     None \<Rightarrow> (False, No_out, s)
                   | Some j \<Rightarrow>
                       (True, No_out,
                        if j \<noteq> com_index m ! i
                        then s\<lparr>core_options := Some (com_set_val x m i j True)\<rparr> else s)))"

definition env_set_variables :: "ext \<Rightarrow> settings \<Rightarrow> handle \<Rightarrow> frontend \<Rightarrow> env_res" where
  "env_set_variables x st vars s =
     (True, No_out,
      install_options
        (runloop_init_core_variables x (game_specific_options st) (\<not> global_core_options st)
           (path_core_options st) vars (drop_core_options x s)))"

text \<open>
  The four calls that pass option definitions.  They differ in the converter applied to the
  data first, and in what they return.
\<close>

definition env_declare_options :: "ext \<Rightarrow> settings \<Rightarrow> handle option \<Rightarrow> frontend \<Rightarrow> frontend" where
  "env_declare_options x st options s =
     (let s1 = drop_core_options x s
      in case options of
           None \<Rightarrow> s1
         | Some defs \<Rightarrow>
             install_options
               (runloop_init_core_options x (core_option_category_enable st)
                  (game_specific_options st) (\<not> global_core_options st)
                  (path_core_options st) defs s1))"

definition env_set_core_options :: "ext \<Rightarrow> settings \<Rightarrow> handle option \<Rightarrow> frontend \<Rightarrow> env_res" where
  "env_set_core_options x st data s =
     (True, No_out, env_declare_options x st (com_convert_v1 x data) s)"

definition env_set_core_options_intl :: "ext \<Rightarrow> settings \<Rightarrow> handle option \<Rightarrow> frontend \<Rightarrow> env_res" where
  "env_set_core_options_intl x st data s =
     (True, No_out, env_declare_options x st (com_convert_v1_intl x data) s)"

definition env_set_core_options_v2 :: "ext \<Rightarrow> settings \<Rightarrow> handle option \<Rightarrow> frontend \<Rightarrow> env_res" where
  "env_set_core_options_v2 x st data s =
     (core_option_category_enable st, No_out, env_declare_options x st data s)"

definition env_set_core_options_v2_intl :: "ext \<Rightarrow> settings \<Rightarrow> handle option \<Rightarrow> frontend \<Rightarrow> env_res" where
  "env_set_core_options_v2_intl x st data s =
     (core_option_category_enable st, No_out,
      env_declare_options x st (com_convert_v2_intl x data) s)"

definition env_set_core_options_display ::
    "ext \<Rightarrow> (string \<times> bool) option \<Rightarrow> frontend \<Rightarrow> env_res" where
  "env_set_core_options_display x display s =
     (True, No_out,
      case (core_options s, display) of
        (Some m, Some (k, visible)) \<Rightarrow> s\<lparr>core_options := Some (com_set_visible x m k visible)\<rparr>
      | _ \<Rightarrow> s)"

text \<open>The argument is the callback member, if a struct is passed and the member is not null.\<close>

definition env_set_update_display_callback ::
    "handle option option \<Rightarrow> frontend \<Rightarrow> env_res" where
  "env_set_update_display_callback info s =
     (True, No_out, s\<lparr>update_display := (case info of None \<Rightarrow> None | Some f \<Rightarrow> f)\<rparr>)"

lemmas option_env_defs = env_get_variable_update_def env_get_variable_def env_set_variable_def
  env_set_variables_def env_set_core_options_def env_set_core_options_intl_def
  env_set_core_options_v2_def env_set_core_options_v2_intl_def env_set_core_options_display_def
  env_set_update_display_callback_def

subsection \<open>Which fields the option code writes\<close>

text \<open>
  Everything here but the option manager, the flags about options, the option path, the
  update-display callback and the log of calls, which only grows and not by a poll of the input
  driver, is left alone.
\<close>

definition option_frame :: "frontend \<Rightarrow> frontend \<Rightarrow> bool" where
  "option_frame s t \<longleftrightarrow>
     t\<lparr>core_options := core_options s, update_display := update_display s, flags := flags s,
        paths := paths s, calls := calls s\<rparr> = s
     \<and> flags t - {Game_options_active, Folder_options_active, Has_variable_update}
        = flags s - {Game_options_active, Folder_options_active, Has_variable_update}
     \<and> (\<forall>k. k \<noteq> Path_core_options \<longrightarrow> paths t k = paths s k)
     \<and> (\<exists>cs. calls t = calls s @ cs \<and> C_input_poll \<notin> set cs)"

lemma option_frame_refl [simp]: "option_frame s s"
  by (simp add: option_frame_def)

lemma option_frame_trans:
  assumes "option_frame s t" and "option_frame t u"
  shows "option_frame s u"
proof -
  let ?undo = "\<lambda>v w. v\<lparr>core_options := core_options w, update_display := update_display w,
     flags := flags w, paths := paths w, calls := calls w\<rparr>"
  from assms have t: "?undo t s = s" and u: "?undo u t = t" by (simp_all add: option_frame_def)
  have "?undo u s = ?undo (?undo u t) s" by simp
  also have "\<dots> = s" by (simp only: u t)
  finally have "?undo u s = s" .
  moreover have "flags u - {Game_options_active, Folder_options_active, Has_variable_update}
        = flags s - {Game_options_active, Folder_options_active, Has_variable_update}"
    and "\<forall>k. k \<noteq> Path_core_options \<longrightarrow> paths u k = paths s k"
    and "\<exists>cs. calls u = calls s @ cs \<and> C_input_poll \<notin> set cs"
    using assms by (auto simp: option_frame_def)
  ultimately show ?thesis by (simp add: option_frame_def)
qed

lemma option_frame_updates [simp]:
  "option_frame s (s\<lparr>core_options := co\<rparr>)"
  "option_frame s (s\<lparr>update_display := f\<rparr>)"
  "option_frame s (s\<lparr>paths := (paths s)(Path_core_options := p)\<rparr>)"
  "C_input_poll \<notin> set cs \<Longrightarrow> option_frame s (emit cs s)"
  by (simp_all add: option_frame_def emit_def)

lemma option_frame_raise [simp]:
  "fs \<subseteq> {Game_options_active, Folder_options_active, Has_variable_update}
     \<Longrightarrow> option_frame s (raise_flags fs s)"
  by (auto simp: option_frame_def raise_flags_def)

lemma option_frame_lower [simp]:
  "fs \<subseteq> {Game_options_active, Folder_options_active, Has_variable_update}
     \<Longrightarrow> option_frame s (lower_flags fs s)"
  by (auto simp: option_frame_def lower_flags_def)

text \<open>The same steps after others.\<close>

lemma option_frame_then:
  assumes "option_frame s t"
  shows "C_input_poll \<notin> set cs \<Longrightarrow> option_frame s (emit cs t)"
    and "option_frame s (t\<lparr>core_options := co\<rparr>)"
    and "option_frame s (t\<lparr>paths := (paths t)(Path_core_options := p)\<rparr>)"
    and "fs \<subseteq> {Game_options_active, Folder_options_active, Has_variable_update}
      \<Longrightarrow> option_frame s (lower_flags fs t)"
    and "fs \<subseteq> {Game_options_active, Folder_options_active, Has_variable_update}
      \<Longrightarrow> option_frame s (raise_flags fs t)"
  by (rule option_frame_trans [OF assms], simp)+

lemma validate_per_core_options_frame:
  "option_frame s (snd (validate_per_core_options x m cn gn s))"
  by (simp add: validate_per_core_options_def Let_def)

lemma init_core_options_path_default_frame:
  "option_frame s (snd (init_core_options_path_default x p o1 s))"
  using option_frame_then(4) [OF validate_per_core_options_frame
      [of s x True "si_library_name (sys s)" "si_library_name (sys s)"],
      of "{Game_options_active, Folder_options_active}"]
  by (cases p) (auto simp: init_core_options_path_default_def Let_def
        split: prod.split option.split)

lemma init_core_options_path_frame:
  "option_frame s (snd (runloop_init_core_options_path x g p o1 s))"
  by (simp add: runloop_init_core_options_path_def Let_def option_frame_then
      init_core_options_path_default_frame)

lemma init_core_options_path_manager:
  "core_options (snd (runloop_init_core_options_path x g p o1 s)) = core_options s"
  by (simp add: runloop_init_core_options_path_def init_core_options_path_default_def
      validate_per_core_options_def frontend_updates Let_def split: option.split)

lemma init_core_options_frame:
  "option_frame s (snd (runloop_init_core_options x c g p o1 d s))"
  "option_frame s (snd (runloop_init_core_variables x g p o1 d s))"
  "core_options (snd (runloop_init_core_options x c g p o1 d s)) = core_options s"
  "core_options (snd (runloop_init_core_variables x g p o1 d s)) = core_options s"
  using init_core_options_path_frame [of s x g p o1] init_core_options_path_manager [of x g p o1 s]
  by (auto simp: runloop_init_core_options_def runloop_init_core_variables_def split: prod.splits)

lemma deinit_core_options_frame: "option_frame s (runloop_deinit_core_options x p m s)"
  by (simp add: runloop_deinit_core_options_def Let_def option_frame_then split: option.split)

lemma drop_core_options_frame: "option_frame s (drop_core_options x s)"
  by (simp add: drop_core_options_def option_frame_then deinit_core_options_frame
      split: option.split)

lemma install_options_frame: "option_frame s (snd r) \<Longrightarrow> option_frame s (install_options r)"
  using option_frame_trans option_frame_updates(1)
  by (auto simp: install_options_def split: prod.splits option.splits)

lemma env_declare_options_frame: "option_frame s (env_declare_options x st d s)"
  using option_frame_trans [OF drop_core_options_frame init_core_options_frame(1)]
  by (auto simp: env_declare_options_def Let_def drop_core_options_frame
      intro!: install_options_frame split: option.splits)

end
