(* ===== verification/Env_Message.thy ===== *)
theory Env_Message
  imports External
begin

text \<open>
  On-screen messages: \<open>runloop_core_msg_queue_push\<close> and the environment calls
  \<open>GET_MESSAGE_INTERFACE_VERSION\<close>, \<open>SET_MESSAGE\<close> and \<open>SET_MESSAGE_EXT\<close>.
  The queue itself belongs to the frontend proper; pushes are recorded as calls.
\<close>

text \<open>C's conversion of a non-negative floating point value to \<open>unsigned\<close>.\<close>

definition to_unsigned :: "rat \<Rightarrow> u32" where
  "to_unsigned r = word_of_int \<lfloor>r\<rfloor>"

text \<open>\<open>roundf\<close> of a non-negative value.\<close>

definition roundf :: "rat \<Rightarrow> int" where
  "roundf r = \<lfloor>r + 1 / 2\<rfloor>"

definition message_fps :: "av_info \<Rightarrow> rat" where
  "message_fps av = (if av_fps av > 0 then av_fps av else 60)"

definition message_category :: "log_level \<Rightarrow> queue_category" where
  "message_category l =
     (case l of Log_warn \<Rightarrow> Cat_warning | Log_error \<Rightarrow> Cat_error | _ \<Rightarrow> Cat_info)"

definition runloop_core_msg_queue_push :: "av_info \<Rightarrow> message_ext \<Rightarrow> frontend \<Rightarrow> frontend" where
  "runloop_core_msg_queue_push av msg s =
     emit [C_msg_push (me_msg msg) (me_priority msg)
             (to_unsigned (message_fps av * rat_of_nat (unat (me_duration msg)) / 1000 + 1 / 2))
             False (message_category (me_level msg))] s"

definition env_get_message_interface_version :: "frontend \<Rightarrow> env_res" where
  "env_get_message_interface_version s = (True, Out_unsigned 1, s)"

definition env_set_message :: "build \<Rightarrow> ext \<Rightarrow> string \<Rightarrow> u32 \<Rightarrow> frontend \<Rightarrow> env_res" where
  "env_set_message b x msg frames s =
     (True, No_out,
      if have_gfx_widgets b \<and> widgets_active x
      then emit [C_widget_message msg (roundf (rat_of_nat (unat frames) / 60 * 1000))] s
      else emit [C_msg_push msg 3 frames True Cat_info] s)"

text \<open>The status message slot.  The code does not store the new message's priority.\<close>

definition set_status_msg :: "limits \<Rightarrow> message_ext \<Rightarrow> status_msg \<Rightarrow> status_msg" where
  "set_status_msg lm msg m =
     (if \<not> csm_set m \<or> csm_priority m \<le> me_priority msg
      then if me_msg msg \<noteq> []
           then m\<lparr>csm_str := strlcpy (max_status_msg lm) (me_msg msg),
                  csm_duration := rat_of_nat (unat (me_duration msg)), csm_set := True\<rparr>
           else m\<lparr>csm_str := [], csm_priority := 0, csm_duration := 0, csm_set := False\<rparr>
      else m)"

definition display_message_ext :: "build \<Rightarrow> ext \<Rightarrow> limits \<Rightarrow> message_ext \<Rightarrow> frontend \<Rightarrow> frontend" where
  "display_message_ext b x lm msg s =
     (case me_type msg of
        Type_status \<Rightarrow> s\<lparr>core_status_msg := set_status_msg lm msg (core_status_msg s)\<rparr>
      | Type_notification_alt \<Rightarrow>
          if have_gfx_widgets b \<and> widgets_active x
          then emit [C_widget_message (me_msg msg) (int (unat (me_duration msg)))] s
          else runloop_core_msg_queue_push (vs_av (vid s)) msg s
      | Type_progress \<Rightarrow>
          if have_gfx_widgets b \<and> widgets_active x
          then emit [C_widget_progress (me_msg msg) (me_duration msg) (me_priority msg)
                       (me_progress msg)] s
          else runloop_core_msg_queue_push (vs_av (vid s)) msg s
      | Type_notification \<Rightarrow> runloop_core_msg_queue_push (vs_av (vid s)) msg s
      | Type_unknown _ \<Rightarrow> runloop_core_msg_queue_push (vs_av (vid s)) msg s)"

definition env_set_message_ext :: "build \<Rightarrow> ext \<Rightarrow> limits \<Rightarrow> message_ext \<Rightarrow> frontend \<Rightarrow> env_res" where
  "env_set_message_ext b x lm msg s =
     (True, No_out,
      if me_target msg \<noteq> Target_log then display_message_ext b x lm msg s else s)"

lemmas message_env_defs = env_get_message_interface_version_def env_set_message_def
  env_set_message_ext_def display_message_ext_def runloop_core_msg_queue_push_def emit_def

subsection \<open>The status slot\<close>

definition status_ok :: "limits \<Rightarrow> status_msg \<Rightarrow> bool" where
  "status_ok lm m \<longleftrightarrow>
     length (csm_str m) < max 1 (max_status_msg lm) \<and> csm_priority m = 0 \<and> (csm_set m \<longleftrightarrow> csm_str m \<noteq> [])"

lemma set_status_ok:
  assumes "status_ok lm m" and "1 < max_status_msg lm"
  shows "status_ok lm (set_status_msg lm msg m)"
  using assms by (auto simp: set_status_msg_def status_ok_def strlcpy_def)

lemma set_status_overwrites:
  assumes "csm_priority m = 0" and "me_msg msg \<noteq> []"
  shows "csm_str (set_status_msg lm msg m) = strlcpy (max_status_msg lm) (me_msg msg)
    \<and> csm_set (set_status_msg lm msg m)"
  using assms by (simp add: set_status_msg_def)

lemma set_status_priority: "csm_priority m = 0 \<Longrightarrow> csm_priority (set_status_msg lm msg m) = 0"
  by (simp add: set_status_msg_def)

end
