(* ===== verification/Hw_Context.thy ===== *)
theory Hw_Context
  imports External
begin

text \<open>
  Hardware rendering contexts: which context types the build can offer
  (\<open>dynamic_request_hw_context\<close>), which fit the configured video driver
  (\<open>dynamic_verify_hw_context\<close>), and which one \<open>GET_PREFERRED_HW_RENDER\<close> proposes.
\<close>

subsection \<open>The request, by build\<close>

text \<open>The switch has other cases in OpenGL ES builds than in OpenGL builds.\<close>

definition request_gles :: "build \<Rightarrow> hw_context_type \<Rightarrow> u32 \<Rightarrow> u32 \<Rightarrow> bool" where
  "request_gles b ty mino majo =
     (case ty of
        HW_opengles2 \<Rightarrow> have_opengles2 b \<or> have_opengles3 b
      | HW_opengles3 \<Rightarrow> have_opengles2 b \<or> have_opengles3 b
      | HW_opengles_version \<Rightarrow>
          have_opengles3 b
          \<and> \<not> (\<not> have_opengles3_2 b \<and> majo = 3 \<and> mino = 2)
          \<and> \<not> (\<not> have_opengles3_2 b \<and> \<not> have_opengles3_1 b \<and> majo = 3 \<and> mino = 1)
      | _ \<Rightarrow> False)"

definition request_gl :: "hw_context_type \<Rightarrow> bool" where
  "request_gl ty = (case ty of HW_opengl \<Rightarrow> True | HW_opengl_core \<Rightarrow> True | _ \<Rightarrow> False)"

definition dynamic_request_hw_context :: "build \<Rightarrow> hw_context_type \<Rightarrow> u32 \<Rightarrow> u32 \<Rightarrow> bool" where
  "dynamic_request_hw_context b ty mino majo =
     (case ty of
        HW_none \<Rightarrow> True
      | HW_vulkan \<Rightarrow> have_vulkan b
      | HW_d3d11 \<Rightarrow> have_d3d11 b
      | HW_d3d10 \<Rightarrow> have_d3d10 b
      | HW_d3d12 \<Rightarrow> have_d3d12 b
      | HW_d3d9 \<Rightarrow> have_d3d9 b
      | HW_unknown _ \<Rightarrow> False
      | _ \<Rightarrow> if have_opengles b then request_gles b ty mino majo
             else if have_opengl b \<or> have_opengl_core b then request_gl ty
             else False)"

subsection \<open>The check against the video driver\<close>

definition dynamic_verify_hw_context :: "build \<Rightarrow> string \<Rightarrow> bool \<Rightarrow> hw_context_type \<Rightarrow> bool" where
  "dynamic_verify_hw_context b video_ident driver_switch ty =
     (if driver_switch then True
      else case ty of
        HW_vulkan \<Rightarrow> video_ident = ''vulkan''
      | HW_opengl_core \<Rightarrow>
          if have_opengl_core b then video_ident = ''glcore''
          else video_ident = ''gl'' \<or> video_ident = ''glcore''
      | HW_opengles2 \<Rightarrow> video_ident = ''gl'' \<or> video_ident = ''glcore''
      | HW_opengles3 \<Rightarrow> video_ident = ''gl'' \<or> video_ident = ''glcore''
      | HW_opengles_version \<Rightarrow> video_ident = ''gl'' \<or> video_ident = ''glcore''
      | HW_opengl \<Rightarrow> video_ident = ''gl'' \<or> video_ident = ''glcore''
      | HW_d3d10 \<Rightarrow> video_ident = ''d3d10''
      | HW_d3d11 \<Rightarrow> video_ident = ''d3d11''
      | HW_d3d12 \<Rightarrow> video_ident = ''d3d12''
      | _ \<Rightarrow> True)"

subsection \<open>The proposal\<close>

definition preferred_hw_render :: "string \<Rightarrow> hw_context_type" where
  "preferred_hw_render name =
     (if name = ''glcore'' then HW_opengl_core
      else if name = ''gl'' then HW_opengl
      else if name = ''vulkan'' then HW_vulkan
      else if name = ''d3d11'' then HW_d3d11
      else if name = ''d3d12'' then HW_d3d12
      else HW_none)"

lemma preferred_verified: "dynamic_verify_hw_context b name sw (preferred_hw_render name)"
  by (simp add: dynamic_verify_hw_context_def preferred_hw_render_def)

lemma verify_switching [simp]: "dynamic_verify_hw_context b name True ty"
  by (simp add: dynamic_verify_hw_context_def)

lemma request_none [simp]: "dynamic_request_hw_context b HW_none mino majo"
  by (simp add: dynamic_request_hw_context_def)

text \<open>The drivers that can serve a context type when the driver may not be switched.\<close>

definition drivers_for :: "build \<Rightarrow> hw_context_type \<Rightarrow> string list option" where
  "drivers_for b ty =
     (case ty of
        HW_vulkan \<Rightarrow> Some [''vulkan'']
      | HW_opengl_core \<Rightarrow> Some (if have_opengl_core b then [''glcore''] else [''gl'', ''glcore''])
      | HW_d3d10 \<Rightarrow> Some [''d3d10''] | HW_d3d11 \<Rightarrow> Some [''d3d11''] | HW_d3d12 \<Rightarrow> Some [''d3d12'']
      | HW_none \<Rightarrow> None | HW_d3d9 \<Rightarrow> None | HW_unknown _ \<Rightarrow> None
      | _ \<Rightarrow> Some [''gl'', ''glcore''])"

lemma verify_drivers_for:
  "dynamic_verify_hw_context b name False ty
     \<longleftrightarrow> (case drivers_for b ty of None \<Rightarrow> True | Some ds \<Rightarrow> name \<in> set ds)"
  by (cases ty) (simp_all add: dynamic_verify_hw_context_def drivers_for_def)

end
