(* ===== verification/Env_Video.thy ===== *)
theory Env_Video
  imports Hw_Context
begin

text \<open>
  Environment calls about the picture: overscan, rotation, pixel format, geometry, the
  hardware render callback, the negotiation of render interfaces, refresh rates and the
  change of the whole audio/video timing (\<open>SET_SYSTEM_AV_INFO\<close>).
\<close>

definition upd_vid :: "(video_state \<Rightarrow> video_state) \<Rightarrow> frontend \<Rightarrow> frontend" where
  "upd_vid f s = s\<lparr>vid := f (vid s)\<rparr>"

definition upd_sys :: "(system_info \<Rightarrow> system_info) \<Rightarrow> frontend \<Rightarrow> frontend" where
  "upd_sys f s = s\<lparr>sys := f (sys s)\<rparr>"

definition env_get_overscan :: "settings \<Rightarrow> frontend \<Rightarrow> env_res" where
  "env_get_overscan st s = (True, Out_bool (\<not> video_crop_overscan st), s)"

definition env_get_can_dupe :: "frontend \<Rightarrow> env_res" where
  "env_get_can_dupe s = (True, Out_bool True, s)"

definition env_set_rotation :: "ext \<Rightarrow> settings \<Rightarrow> u32 \<Rightarrow> frontend \<Rightarrow> env_res" where
  "env_set_rotation x st rotation s =
     (let s1 = upd_sys (\<lambda>i. i\<lparr>si_core_requested_rotation := rotation\<rparr>) s
      in if \<not> video_allow_rotate st then (False, No_out, s1)
         else (video_set_rotation x rotation, No_out,
               upd_sys (\<lambda>i. i\<lparr>si_rotation := rotation\<rparr>) s1))"

definition env_set_pixel_format :: "pixel_format \<Rightarrow> frontend \<Rightarrow> env_res" where
  "env_set_pixel_format fmt s =
     (case fmt of
        Fmt_unknown _ \<Rightarrow> (False, No_out, s)
      | _ \<Rightarrow> (True, No_out, upd_vid (\<lambda>v. v\<lparr>vs_pix_fmt := fmt\<rparr>) s))"

definition env_get_preferred_hw_render :: "settings \<Rightarrow> frontend \<Rightarrow> env_res" where
  "env_get_preferred_hw_render st s =
     (driver_switch_enable st, Out_hw_type (preferred_hw_render (video_driver st)), s)"

text \<open>
  \<open>experimental\<close> is the bit of the old interface, whose callback struct ends before
  \<open>stencil\<close>: the members from there on are cleared instead of copied.
\<close>

definition clear_new_members :: "hw_render_cb \<Rightarrow> hw_render_cb" where
  "clear_new_members cb =
     cb\<lparr>hw_stencil := False, hw_bottom_left := False, hw_major := 0, hw_minor := 0,
        hw_cache_context := False, hw_context_destroy := None, hw_debug_context := False\<rparr>"

definition env_set_hw_render ::
    "build \<Rightarrow> settings \<Rightarrow> bool \<Rightarrow> hw_render_cb option \<Rightarrow> frontend \<Rightarrow> env_res" where
  "env_set_hw_render b st experimental data s =
     (case data of
        None \<Rightarrow> (False, No_out, s)
      | Some cb \<Rightarrow>
          if \<not> dynamic_request_hw_context b (hw_type cb) (hw_minor cb) (hw_major cb)
          then (False, No_out, s)
          else if \<not> dynamic_verify_hw_context b (video_driver st) (driver_switch_enable st) (hw_type cb)
          then (False, No_out, s)
          else let s1 = (if (have_opengl b \<or> have_opengl_core b) \<and> hw_type cb = HW_opengl_core
                         then emit [C_gl_core_context] s else s);
                   cb1 = cb\<lparr>hw_get_framebuffer := Some ''video_driver_get_current_framebuffer'',
                            hw_get_proc_address := Some ''video_driver_get_proc_address''\<rparr>
               in (True, Out_hw cb1,
                   upd_vid (\<lambda>v. v\<lparr>vs_hw := (if experimental then clear_new_members cb1 else cb1)\<rparr>) s1))"

text \<open>
  \<open>SET_SYSTEM_AV_INFO\<close>.  \<open>no_video_reinit\<close> still holds its initial value \<open>true\<close>
  when the frame delay is adjusted; it is computed only afterwards.
\<close>

definition adjust_frame_delay :: "settings \<Rightarrow> bool \<Rightarrow> bool \<Rightarrow> video_state \<Rightarrow> video_state" where
  "adjust_frame_delay st no_video_reinit switched v =
     (if video_frame_delay_auto st
      then if no_video_reinit \<and> \<not> switched then v\<lparr>vs_frame_delay_pause := True\<rparr>
           else v\<lparr>vs_frame_delay_target := 0\<rparr>
      else v)"

definition restart_recording :: "ext \<Rightarrow> call list" where
  "restart_recording x =
     (if rec_data x
      then C_msg_push (msg_hash_to_str x ''MSG_RESTARTING_RECORDING_DUE_TO_DRIVER_REINIT'') 2 180 False Cat_info
           # (if rec_streaming x then [C_streaming_toggle, C_streaming_toggle]
              else [C_record_deinit, C_record_init])
      else [])"

definition hide_mouse :: "settings \<Rightarrow> video_state \<Rightarrow> call list" where
  "hide_mouse st v = (if video_fullscreen st \<and> vs_has_show_mouse v then [C_show_mouse False] else [])"

definition env_set_system_av_info ::
    "ext \<Rightarrow> settings \<Rightarrow> av_info option \<Rightarrow> frontend \<Rightarrow> env_res" where
  "env_set_system_av_info x st data s =
     (case data of
        None \<Rightarrow> (False, No_out, s)
      | Some info \<Rightarrow>
          let (rate, switched) = (if has_resolution_list x then switch_refresh_rate_maybe x (av_fps info)
                                  else (av_fps info, False));
              v1 = adjust_frame_delay st True switched (vid s);
              old = vs_av (vid s);
              no_video_reinit = (crt_switch_resolution st = 0 \<and> \<not> switched
                 \<and> av_max_width info = av_max_width old \<and> av_max_height info = av_max_height old);
              set1 = (if switched then [C_server_refresh_rate rate] else []);
              mon = (if switched \<and> set_refresh_rate x rate then [C_monitor_refresh_rate rate] else []);
              reinit = C_reinit ((if no_video_reinit then [Drv_video, Drv_input, Drv_menu] else [])
                                 @ [Drv_camera, Drv_microphone]);
              asp = (if no_video_reinit then [C_set_aspect_ratio] else [])
          in (True, No_out,
              emit (set1 @ mon @ [reinit] @ asp @ set1 @ restart_recording x @ hide_mouse st v1)
                (s\<lparr>vid := v1\<lparr>vs_av := info\<rparr>\<rparr>)))"

definition env_set_geometry :: "settings \<Rightarrow> u32 \<Rightarrow> u32 \<Rightarrow> rat \<Rightarrow> frontend \<Rightarrow> env_res" where
  "env_set_geometry st w h aspect s =
     (let av = vs_av (vid s)
      in if av_base_width av \<noteq> w \<or> av_base_height av \<noteq> h \<or> av_aspect av \<noteq> aspect
         then (True, No_out,
               emit [C_set_aspect_ratio]
                 (upd_vid (\<lambda>v. v\<lparr>vs_av := av\<lparr>av_base_width := w, av_base_height := h, av_aspect := aspect\<rparr>,
                    vs_frame_delay_pause := vs_frame_delay_pause v \<or> video_frame_delay_auto st\<rparr>) s))
         else (True, No_out, s))"

definition env_get_current_software_framebuffer :: "ext \<Rightarrow> frontend \<Rightarrow> env_res" where
  "env_get_current_software_framebuffer x s =
     (case sw_framebuffer x of Some fb \<Rightarrow> (True, Out_handle (Some fb), s) | None \<Rightarrow> (False, No_out, s))"

definition env_get_hw_render_interface :: "ext \<Rightarrow> frontend \<Rightarrow> env_res" where
  "env_get_hw_render_interface x s =
     (case hw_render_iface x of Some i \<Rightarrow> (True, Out_handle (Some i), s) | None \<Rightarrow> (False, No_out, s))"

definition env_set_hw_negotiation :: "handle option \<Rightarrow> frontend \<Rightarrow> env_res" where
  "env_set_hw_negotiation iface s =
     (True, No_out, upd_vid (\<lambda>v. v\<lparr>vs_hw_negotiation := iface\<rparr>) s)"

definition env_set_hw_shared_context :: "build \<Rightarrow> frontend \<Rightarrow> env_res" where
  "env_set_hw_shared_context b s =
     (if have_libnx b then (False, No_out, s)
      else (True, No_out, raise_flags {Core_set_shared_context} s))"

definition env_get_target_refresh_rate :: "ext \<Rightarrow> settings \<Rightarrow> frontend \<Rightarrow> env_res" where
  "env_get_target_refresh_rate x st s =
     (True, Out_rate (if get_refresh_rate x = 0 then video_refresh_rate st else get_refresh_rate x), s)"

text \<open>The negotiation interface is known by its type: \<open>vulkan\<close> says it is Vulkan's.\<close>

definition env_get_hw_negotiation_support :: "build \<Rightarrow> u32 \<Rightarrow> bool \<Rightarrow> frontend \<Rightarrow> env_res" where
  "env_get_hw_negotiation_support b vulkan_version vulkan s =
     (True, Out_unsigned (if have_vulkan b \<and> vulkan then vulkan_version else 0), s)"

definition env_get_audio_video_enable :: "build \<Rightarrow> ext \<Rightarrow> frontend \<Rightarrow> env_res" where
  "env_get_audio_video_enable b x s =
     (let audio = (if \<not> as_suspended (aud s) \<and> as_active (aud s) then {''audio''} else {});
          video = (if vs_active (vid s) \<and> \<not> vs_frame_is_null (vid s) then {''video''} else {});
          hard = (if have_runahead b \<and> as_hard_disable (aud s) then {''hard_disable_audio''} else {});
          r = audio \<union> video \<union> hard;
          r1 = (if have_networking b \<and> netplay_replaying x then r - {''video'', ''audio''} else r);
          r2 = (if (have_runahead b \<or> have_networking b) \<and> Request_special_savestate \<in> flags s
                then insert ''fast_savestates'' r1 else r1)
      in (True, Out_av_enable r2, s))"

lemmas video_env_defs = env_get_overscan_def env_get_can_dupe_def env_set_rotation_def
  env_set_pixel_format_def env_get_preferred_hw_render_def env_set_hw_render_def
  env_set_system_av_info_def env_set_geometry_def env_get_current_software_framebuffer_def
  env_get_hw_render_interface_def env_set_hw_negotiation_def env_set_hw_shared_context_def
  env_get_target_refresh_rate_def env_get_hw_negotiation_support_def env_get_audio_video_enable_def
  upd_vid_def upd_sys_def

end
