(* ===== verification/Timing.thy ===== *)
theory Timing
  imports External
begin

text \<open>
  Frame timing: the frame limit, the fast-forward ratio, the swap interval, the content
  run time per frame and the fast-motion override that a core can schedule.
\<close>

subsection \<open>Conversions from floating point\<close>

definition truncate :: "rat \<Rightarrow> int" where
  "truncate r = (if 0 \<le> r then \<lfloor>r\<rfloor> else \<lceil>r\<rceil>)"

definition round_half_away :: "rat \<Rightarrow> int" where
  "round_half_away r = (if 0 \<le> r then \<lfloor>r + 1 / 2\<rfloor> else \<lceil>r - 1 / 2\<rceil>)"

subsection \<open>Frame limit and fast-forward ratio\<close>

definition runloop_set_frame_limit :: "av_info \<Rightarrow> rat \<Rightarrow> frontend \<Rightarrow> frontend" where
  "runloop_set_frame_limit av ratio s =
     s\<lparr>frame_limit_minimum_time :=
         (if ratio < 1 then 0 else round_half_away (1000000 / (av_fps av * ratio)))\<rparr>"

definition runloop_get_fastforward_ratio :: "ext \<Rightarrow> settings \<Rightarrow> fastforward \<Rightarrow> rat" where
  "runloop_get_fastforward_ratio x st ff =
     (if 0 < custom_fastforward_ratio x then custom_fastforward_ratio x
      else if ff_fastforward ff \<and> 0 \<le> ff_ratio ff then ff_ratio ff
      else fastforward_ratio st)"

subsection \<open>Swap interval\<close>

text \<open>The automatic selection, for given core and display rates.\<close>

definition swap_integer :: "rat \<Rightarrow> rat \<Rightarrow> int" where
  "swap_integer input_fps timing_fps = \<lfloor>timing_fps / input_fps + 1 / 2\<rfloor>"

definition timing_skew :: "rat \<Rightarrow> rat \<Rightarrow> rat" where
  "timing_skew input_fps timing_fps =
     \<bar>1 - input_fps / (timing_fps / rat_of_int (swap_integer input_fps timing_fps))\<bar>"

definition auto_swap_interval :: "settings \<Rightarrow> rat \<Rightarrow> rat \<Rightarrow> u32" where
  "auto_swap_interval st input_fps timing_fps =
     (if vrr_runloop_enable st \<or> video_black_frame_insertion st \<noteq> 0
         \<or> 1 < video_shader_subframes st \<or> timing_fps < input_fps
         \<or> input_fps \<le> 0 \<or> timing_fps \<le> 0 then 1
      else if swap_integer input_fps timing_fps < 1 \<or> 4 < swap_integer input_fps timing_fps then 1
      else if timing_skew input_fps timing_fps \<le> audio_max_timing_skew st
      then word_of_int (swap_integer input_fps timing_fps) else 1)"

definition runloop_set_video_swap_interval :: "settings \<Rightarrow> frontend \<Rightarrow> frontend" where
  "runloop_set_video_swap_interval st s =
     (let input_fps = av_fps (vs_av (vid s));
          timing_fps = (if vs_crt_switching (vid s) then input_fps else video_refresh_rate st)
      in s\<lparr>video_swap_interval_auto :=
            (if video_swap_interval st \<noteq> 0 then video_swap_interval st
             else auto_swap_interval st input_fps timing_fps)\<rparr>)"

definition runloop_get_video_swap_interval :: "u32 \<Rightarrow> frontend \<Rightarrow> u32" where
  "runloop_get_video_swap_interval config s =
     (if config = 0 then video_swap_interval_auto s else config)"

subsection \<open>Run time of the content\<close>

definition frame_usec :: "frontend \<Rightarrow> int" where
  "frame_usec s = truncate (1 / av_fps (vs_av (vid s)) * 1000000)"

definition runloop_core_runtime_tick :: "rat \<Rightarrow> int \<Rightarrow> frontend \<Rightarrow> int \<times> frontend" where
  "runloop_core_runtime_tick slow_ratio current_time s =
     (if Slowmotion \<in> flags s then (truncate (rat_of_int (frame_usec s) * slow_ratio), s)
      else if Fastmotion \<in> flags s
      then (min (current_time - core_runtime_last s) (frame_usec s),
            s\<lparr>core_runtime_last := current_time\<rparr>)
      else (frame_usec s, s))"

subsection \<open>Fast-motion override\<close>

definition ff_none :: fastforward where
  "ff_none = \<lparr>ff_ratio = 0, ff_fastforward = False, ff_notification = False, ff_inhibit_toggle = False\<rparr>"

definition ff_effective :: "rat \<Rightarrow> fastforward \<Rightarrow> rat" where
  "ff_effective deflt ff = (if ff_fastforward ff \<and> 0 \<le> ff_ratio ff then ff_ratio ff else deflt)"

definition runloop_fastmotion_override_free :: "rat \<Rightarrow> frontend \<Rightarrow> frontend" where
  "runloop_fastmotion_override_free deflt s =
     (let ff = ff_current s;
          reset = (ff_fastforward ff \<and> 0 \<le> ff_ratio ff \<and> ff_ratio ff \<noteq> deflt);
          s1 = s\<lparr>ff_current := ff_none, ff_next := ff_none, ff_pending := False\<rparr>
      in if reset then runloop_set_frame_limit (vs_av (vid s)) deflt s1 else s1)"

text \<open>The block entered when the fast-motion flag changes to \<open>fast\<close>.\<close>

definition switch_fastmotion :: "build \<Rightarrow> ext \<Rightarrow> bool \<Rightarrow> bool \<Rightarrow> bool \<Rightarrow> frontend \<Rightarrow> frontend" where
  "switch_fastmotion b x reset_counter mute fast s =
     (let s1 = (if fast then raise_flags {Fastmotion} s else lower_flags {Fastmotion} s);
          s2 = s1\<lparr>aud := (aud s1)\<lparr>as_muted := mute \<and> fast\<rparr>,
                  inp := (inp s1)\<lparr>is_nonblocking := fast\<rparr>,
                  fastforward_after_frames := (if fast then fastforward_after_frames s1 else 1)\<rparr>;
          s3 = emit [C_set_nonblock_state] s2
      in s3\<lparr>vid := (vid s3)\<lparr>
            vs_frame_time_count := (if \<not> fast \<and> reset_counter then 0 else vs_frame_time_count (vid s3)),
            vs_widgets_fast_forward :=
              (vs_widgets_fast_forward (vid s3)
               \<and> \<not> (have_gfx_widgets b \<and> widgets_active x \<and> \<not> fast))\<rparr>\<rparr>)"

definition runloop_apply_fastmotion_override ::
    "build \<Rightarrow> ext \<Rightarrow> bool \<Rightarrow> rat \<Rightarrow> bool \<Rightarrow> frontend \<Rightarrow> frontend" where
  "runloop_apply_fastmotion_override b x reset_counter deflt mute s =
     (let last = ff_effective deflt (ff_current s);
          s1 = s\<lparr>ff_current := ff_next s\<rparr>;
          fast = ff_fastforward (ff_current s1);
          s2 = (if (Fastmotion \<in> flags s1) \<noteq> fast
                then switch_fastmotion b x reset_counter mute fast s1 else s1);
          cur = ff_effective deflt (ff_current s2)
      in if cur \<noteq> last then runloop_set_frame_limit (vs_av (vid s2)) cur s2 else s2)"

subsection \<open>Facts\<close>

lemma auto_swap_interval_not_1:
  assumes "auto_swap_interval st f r \<noteq> 1"
  shows "1 \<le> swap_integer f r \<and> swap_integer f r \<le> 4
    \<and> auto_swap_interval st f r = word_of_int (swap_integer f r)
    \<and> timing_skew f r \<le> audio_max_timing_skew st \<and> 0 < f \<and> f \<le> r"
  using assms by (simp add: auto_swap_interval_def not_less not_le split: if_split_asm)

lemma swap_interval_range: "auto_swap_interval st f r \<in> {1, 2, 3, 4}"
proof (cases "auto_swap_interval st f r = 1")
  case False
  from auto_swap_interval_not_1 [OF this]
  have "swap_integer f r \<in> {1, 2, 3, 4}" and "auto_swap_interval st f r = word_of_int (swap_integer f r)"
    by auto
  then show ?thesis by auto
qed simp

lemma runtime_tick_le:
  "Fastmotion \<in> flags s \<Longrightarrow> Slowmotion \<notin> flags s
     \<Longrightarrow> fst (runloop_core_runtime_tick r t s) \<le> frame_usec s"
  by (simp add: runloop_core_runtime_tick_def)

lemma apply_override_flag:
  "Fastmotion \<in> flags (runloop_apply_fastmotion_override b x rc d m s) \<longleftrightarrow> ff_fastforward (ff_next s)"
  by (auto simp: runloop_apply_fastmotion_override_def switch_fastmotion_def Let_def
      frontend_updates runloop_set_frame_limit_def)

end
