(* ===== verification/Env_Audio.thy ===== *)
theory Env_Audio
  imports Env_Video Timing
begin

text \<open>
  Environment calls about sound: the audio callback, the frame-time and buffer-status
  callbacks, the minimum latency, and \<open>runloop_clear_all_thread_waits\<close>.
\<close>

definition env_set_audio_callback ::
    "build \<Rightarrow> ext \<Rightarrow> handle option \<Rightarrow> frontend \<Rightarrow> env_res" where
  "env_set_audio_callback b x cb s =
     (if \<not> have_threads b then (False, No_out, s)
      else if have_networking b \<and> netplay_enabled x then (False, No_out, s)
      else if rec_data x then (False, No_out, s)
      else (True, No_out,
            case cb of None \<Rightarrow> s | Some f \<Rightarrow> s\<lparr>aud := (aud s)\<lparr>as_callback := Some f\<rparr>\<rparr>))"

definition env_set_frame_time_callback ::
    "build \<Rightarrow> ext \<Rightarrow> frame_time_cb \<Rightarrow> frontend \<Rightarrow> env_res" where
  "env_set_frame_time_callback b x info s =
     (if have_networking b \<and> netplay_enabled x then (False, No_out, s)
      else (True, No_out, s\<lparr>frame_time := info\<rparr>))"

text \<open>The argument is the callback member, if a struct is passed.\<close>

definition env_set_audio_buffer_status_callback ::
    "handle option option \<Rightarrow> frontend \<Rightarrow> env_res" where
  "env_set_audio_buffer_status_callback info s =
     (True, No_out, s\<lparr>audio_buffer_callback := (case info of None \<Rightarrow> None | Some f \<Rightarrow> f)\<rparr>)"

definition env_set_minimum_audio_latency ::
    "ext \<Rightarrow> settings \<Rightarrow> u32 option \<Rightarrow> frontend \<Rightarrow> env_res" where
  "env_set_minimum_audio_latency x st data s =
     (let deflt = set_audio_latency st;
          current = (if deflt < audio_latency s then audio_latency s else deflt);
          wanted = (case data of None \<Rightarrow> 0 | Some l \<Rightarrow> if 512 < l then 512 else l);
          s1 = s\<lparr>audio_latency := wanted\<rparr>;
          new = (if deflt \<le> wanted then wanted else deflt)
      in (True, No_out,
          if new \<noteq> current
          then emit ([C_reinit [Drv_video, Drv_input, Drv_menu], C_set_aspect_ratio]
                     @ restart_recording x @ hide_mouse st (vid s1)) s1
          else s1))"

definition runloop_clear_all_thread_waits :: "u32 \<Rightarrow> frontend \<Rightarrow> bool \<times> frontend" where
  "runloop_clear_all_thread_waits clear_threads s =
     (True, emit [if 0 < clear_threads then C_audio_start False else C_audio_stop] s)"

lemmas audio_env_defs = env_set_audio_callback_def env_set_frame_time_callback_def
  env_set_audio_buffer_status_callback_def env_set_minimum_audio_latency_def

lemma minimum_latency_bound:
  "audio_latency (res_st (env_set_minimum_audio_latency x st data s)) \<le> 512"
  by (auto simp: env_set_minimum_audio_latency_def Let_def emit_def split: option.splits)

text \<open>The latency in force is the larger of the core's and the configured one.\<close>

definition effective_latency :: "settings \<Rightarrow> frontend \<Rightarrow> u32" where
  "effective_latency st s = max (set_audio_latency st) (audio_latency s)"

lemma minimum_latency_reinit:
  "calls (res_st (env_set_minimum_audio_latency x st data s)) \<noteq> calls s
     \<longleftrightarrow> effective_latency st (res_st (env_set_minimum_audio_latency x st data s))
         \<noteq> effective_latency st s"
  by (auto simp: env_set_minimum_audio_latency_def Let_def emit_def effective_latency_def max_def
      split: option.splits)

end
