(* ===== verification/Env_Input.thy ===== *)
theory Env_Input
  imports Env_Video
begin

text \<open>
  Environment calls about input: the labels of the core's inputs
  (\<open>SET_INPUT_DESCRIPTORS\<close>), keyboard, rumble, sensors, device capabilities, controller
  types, and the override of the input polling policy.
\<close>

datatype input_device = Dev_joypad | Dev_analog | Dev_other u32

datatype analog_index = Idx_left | Idx_right | Idx_button | Idx_other u32

record input_descriptor =
  id_port :: u32
  id_device :: input_device
  id_index :: analog_index
  id_id :: u32
  id_description :: c_str

type_synonym input_labels = "u32 \<Rightarrow> bind_slot \<Rightarrow> c_str"

definition set_label :: "u32 \<Rightarrow> bind_slot list \<Rightarrow> c_str \<Rightarrow> input_labels \<Rightarrow> input_labels" where
  "set_label port slots d t = (\<lambda>p b. if p = port \<and> b \<in> set slots then d else t p b)"

text \<open>The columns one descriptor names: the nested switch over device, id and index.\<close>

definition label_slots :: "limits \<Rightarrow> input_descriptor \<Rightarrow> bind_slot list" where
  "label_slots lm d =
     (case id_device d of
        Dev_joypad \<Rightarrow> [Button (id_id d)]
      | Dev_analog \<Rightarrow>
          if id_id d = id_analog_x lm
          then (case id_index d of
                  Idx_left \<Rightarrow> [Analog Left_x_plus, Analog Left_x_minus]
                | Idx_right \<Rightarrow> [Analog Right_x_plus, Analog Right_x_minus]
                | _ \<Rightarrow> [])
          else if id_id d = id_analog_y lm
          then (case id_index d of
                  Idx_left \<Rightarrow> [Analog Left_y_plus, Analog Left_y_minus]
                | Idx_right \<Rightarrow> [Analog Right_y_plus, Analog Right_y_minus]
                | _ \<Rightarrow> [])
          else if id_id d = id_joypad_r2 lm \<or> id_id d = id_joypad_l2 lm
          then (if id_index d = Idx_button then [Button (id_id d)] else [])
          else []
      | Dev_other _ \<Rightarrow> [])"

definition apply_descriptor :: "limits \<Rightarrow> input_labels \<Rightarrow> input_descriptor \<Rightarrow> input_labels" where
  "apply_descriptor lm t d =
     (if max_users lm \<le> id_port d then t
      else if first_custom_bind lm \<le> id_id d then t
      else set_label (id_port d) (label_slots lm d) (id_description d) t)"

definition env_set_input_descriptors :: "limits \<Rightarrow> input_descriptor list \<Rightarrow> frontend \<Rightarrow> env_res" where
  "env_set_input_descriptors lm ds s =
     (True, No_out,
      upd_sys (\<lambda>i. i\<lparr>si_input_desc :=
           foldl (apply_descriptor lm) (\<lambda>_ _. None) (until_null (\<lambda>d. id_description d \<noteq> None) ds)\<rparr>)
        (s\<lparr>current_core := (current_core s)\<lparr>rc_flags :=
             insert Core_has_set_input_descriptors (rc_flags (current_core s))\<rparr>\<rparr>))"

definition env_set_keyboard_callback :: "handle option \<Rightarrow> frontend \<Rightarrow> env_res" where
  "env_set_keyboard_callback cb s =
     (True, No_out,
      s\<lparr>key_event := cb, frontend_key_event := cb, inp := (inp s)\<lparr>is_game_focus_requested := True\<rparr>\<rparr>)"

definition env_get_rumble_interface :: "frontend \<Rightarrow> env_res" where
  "env_get_rumble_interface s =
     (True, Out_fns [(''set_rumble_state'', ''input_set_rumble_state'')], s)"

definition env_get_input_device_capabilities :: "ext \<Rightarrow> frontend \<Rightarrow> env_res" where
  "env_get_input_device_capabilities x s =
     (if \<not> is_has_capabilities (inp s) \<or> \<not> is_has_data (inp s) then (False, No_out, s)
      else (True, Out_u64 (input_capabilities x), s))"

definition env_get_sensor_interface :: "settings \<Rightarrow> frontend \<Rightarrow> env_res" where
  "env_get_sensor_interface st s =
     (if \<not> input_sensors_enable st then (False, No_out, s)
      else (True, Out_fns [(''set_sensor_state'', ''input_set_sensor_state''),
                           (''get_sensor_input'', ''input_get_sensor_state'')], s))"

definition env_get_input_bitmasks :: "frontend \<Rightarrow> env_res" where
  "env_get_input_bitmasks s = (True, No_out, s)"

definition env_get_input_max_users :: "settings \<Rightarrow> frontend \<Rightarrow> env_res" where
  "env_get_input_max_users st s = (True, Out_unsigned (input_max_users st), s)"

definition env_poll_type_override :: "poll_override option \<Rightarrow> frontend \<Rightarrow> env_res" where
  "env_poll_type_override data s =
     (True, No_out, case data of None \<Rightarrow> s | Some p \<Rightarrow> s\<lparr>poll_type_override := p\<rparr>)"

text \<open>
  \<open>SET_CONTROLLER_INFO\<close> gets the table up to its terminator, as in the code the entries
  with a \<open>types\<close> member.
\<close>

definition env_set_controller_info :: "ext \<Rightarrow> handle option list \<Rightarrow> frontend \<Rightarrow> env_res" where
  "env_set_controller_info x info s =
     (let ports = map the (until_null (\<lambda>p. p \<noteq> None) info)
      in if alloc_ok x (length ports)
         then (True, No_out, upd_sys (\<lambda>i. i\<lparr>si_ports := ports\<rparr>) s)
         else (False, No_out, upd_sys (\<lambda>i. i\<lparr>si_ports := []\<rparr>) s))"

lemmas input_env_defs = env_set_input_descriptors_def env_set_keyboard_callback_def
  env_get_rumble_interface_def env_get_input_device_capabilities_def env_get_sensor_interface_def
  env_get_input_bitmasks_def env_get_input_max_users_def env_poll_type_override_def
  env_set_controller_info_def upd_sys_def

subsection \<open>Every write stays inside the label table\<close>

text \<open>
  The table has \<open>MAX_USERS\<close> rows; a button column is below
  \<open>RARCH_FIRST_CUSTOM_BIND\<close>, the analog columns are the named ones.
\<close>

definition in_table :: "limits \<Rightarrow> u32 \<Rightarrow> bind_slot \<Rightarrow> bool" where
  "in_table lm p b \<longleftrightarrow>
     p < max_users lm \<and> (case b of Button i \<Rightarrow> i < first_custom_bind lm | Analog _ \<Rightarrow> True)"

definition labels_in_table :: "limits \<Rightarrow> input_labels \<Rightarrow> bool" where
  "labels_in_table lm t \<longleftrightarrow> (\<forall>p b. t p b \<noteq> None \<longrightarrow> in_table lm p b)"

lemma label_slots_button:
  "Button i \<in> set (label_slots lm d) \<Longrightarrow> i = id_id d"
  by (auto simp: label_slots_def split: input_device.splits analog_index.splits if_splits)

lemma apply_descriptor_in_table:
  assumes "labels_in_table lm t"
  shows "labels_in_table lm (apply_descriptor lm t d)"
  using assms label_slots_button [of _ lm d]
  by (auto simp: apply_descriptor_def labels_in_table_def set_label_def in_table_def not_le
      split: bind_slot.splits if_splits)

lemma foldl_descriptors_in_table:
  "labels_in_table lm t \<Longrightarrow> labels_in_table lm (foldl (apply_descriptor lm) t ds)"
  by (induction ds arbitrary: t) (auto intro: apply_descriptor_in_table)

lemma last_descriptor_wins:
  assumes "id_port d < max_users lm" "id_id d < first_custom_bind lm"
    and "b \<in> set (label_slots lm d)"
    and "\<forall>e\<in>set es. \<not> (id_port e = id_port d \<and> b \<in> set (label_slots lm e))"
  shows "foldl (apply_descriptor lm) t (ds @ d # es) (id_port d) b = id_description d"
proof -
  have keep: "foldl (apply_descriptor lm) u es (id_port d) b = u (id_port d) b" for u
    using assms(4)
    by (induction es arbitrary: u) (auto simp: apply_descriptor_def set_label_def)
  have "\<not> max_users lm \<le> id_port d" "\<not> first_custom_bind lm \<le> id_id d"
    using assms(1,2) by (simp_all only: not_le)
  then show ?thesis using assms(3) by (simp add: keep apply_descriptor_def set_label_def)
qed

end
