(* ===== verification/Env_System.thy ===== *)
theory Env_System
  imports Env_Video Timing
begin

text \<open>
  The remaining environment calls: shutdown, directories, system facts, the interfaces handed
  to the core, subsystems and memory maps, serialisation, fast-forwarding, the throttle state
  and the power state of the device.
\<close>

subsection \<open>Shutdown, performance level, directories\<close>

definition env_shutdown :: "build \<Rightarrow> limits \<Rightarrow> frontend \<Rightarrow> env_res" where
  "env_shutdown b lm s =
     (let s1 = (case shutdown_callback s of None \<Rightarrow> s | Some f \<Rightarrow> emit [C_shutdown_callback f] s);
          s2 = raise_flags {Core_shutdown_initiated, Shutdown_initiated} s1
      in (True, No_out,
          if have_menu b
          then s2\<lparr>menu_pending_flush := True,
                  menu_pending_path := strlcpy (path_max lm) (paths s Path_content)\<rparr>
          else s2))"

definition env_set_performance_level :: "u32 \<Rightarrow> frontend \<Rightarrow> env_res" where
  "env_set_performance_level level s =
     (True, No_out, upd_sys (\<lambda>i. i\<lparr>si_performance_level := level\<rparr>) s)"

text \<open>
  The directory of the content without its trailing slash, unless that slash is the only one.
\<close>

definition content_system_dir :: "ext \<Rightarrow> string \<Rightarrow> string" where
  "content_system_dir x fullpath =
     (let dir = path_basedir x fullpath
      in if 1 < count_list dir (path_slash x) \<and> last dir = path_slash x then butlast dir else dir)"

definition env_get_system_directory :: "ext \<Rightarrow> settings \<Rightarrow> frontend \<Rightarrow> env_res" where
  "env_get_system_directory x st s =
     (if directory_system st = [] \<or> systemfiles_in_content_dir st
      then if paths s Path_content \<noteq> []
           then let dir = content_system_dir x (paths s Path_content)
                in (True, Out_str (Some dir), s\<lparr>dir_system := dir\<rparr>)
           else (True, Out_str (Some (directory_system st)), s)
      else (True, Out_str (Some (directory_system st)), s))"

definition env_get_save_directory :: "build \<Rightarrow> ext \<Rightarrow> frontend \<Rightarrow> env_res" where
  "env_get_save_directory b x s =
     (if have_cocoatouch b \<and> isolated_save_dir x \<noteq> None
      then (True, Out_str (isolated_save_dir x), s)
      else (True, Out_str (Some (savefile_dir s)), s))"

definition nonempty_str :: "string \<Rightarrow> c_str" where
  "nonempty_str t = (if t = [] then None else Some t)"

definition env_get_username :: "settings \<Rightarrow> frontend \<Rightarrow> env_res" where
  "env_get_username st s = (True, Out_str (nonempty_str (username st)), s)"

definition env_get_language :: "build \<Rightarrow> ext \<Rightarrow> frontend \<Rightarrow> env_res" where
  "env_get_language b x s =
     (True, if have_langextra b then Out_unsigned (user_language x) else No_out, s)"

definition env_get_core_assets_directory :: "settings \<Rightarrow> frontend \<Rightarrow> env_res" where
  "env_get_core_assets_directory st s = (True, Out_str (nonempty_str (directory_core_assets st)), s)"

definition env_get_playlist_directory :: "settings \<Rightarrow> frontend \<Rightarrow> env_res" where
  "env_get_playlist_directory st s = (True, Out_str (nonempty_str (directory_playlist st)), s)"

definition env_get_file_browser_start_directory :: "settings \<Rightarrow> frontend \<Rightarrow> env_res" where
  "env_get_file_browser_start_directory st s =
     (True, Out_str (nonempty_str (directory_menu_content st)), s)"

definition env_set_support_no_game :: "bool \<Rightarrow> frontend \<Rightarrow> env_res" where
  "env_set_support_no_game state s = (True, No_out, emit [C_content_not_needed state] s)"

definition env_get_libretro_path :: "build \<Rightarrow> frontend \<Rightarrow> env_res" where
  "env_get_libretro_path b s =
     (True, Out_str (if have_dynamic b then Some (paths s Path_core) else None), s)"

subsection \<open>Interfaces handed to the core\<close>

definition env_get_disk_control_interface_version :: "frontend \<Rightarrow> env_res" where
  "env_get_disk_control_interface_version s = (True, Out_unsigned 1, s)"

definition env_set_disk_control_interface :: "handle option \<Rightarrow> frontend \<Rightarrow> env_res" where
  "env_set_disk_control_interface cb s =
     (True, No_out, upd_sys (\<lambda>i. i\<lparr>si_disk_control := cb\<rparr>) s)"

definition env_set_disk_control_ext_interface :: "handle option \<Rightarrow> frontend \<Rightarrow> env_res" where
  "env_set_disk_control_ext_interface cb s =
     (True, No_out, upd_sys (\<lambda>i. i\<lparr>si_disk_control_ext := cb\<rparr>) s)"

text \<open>\<open>caps\<close> is the capability mask the core put into the struct.\<close>

definition env_get_camera_interface :: "u64 \<Rightarrow> handle \<Rightarrow> frontend \<Rightarrow> env_res" where
  "env_get_camera_interface caps cb s =
     (True, Out_fns [(''start'', ''driver_camera_start''), (''stop'', ''driver_camera_stop'')],
      s\<lparr>camera_cb := Some cb, camera_active := (caps \<noteq> 0)\<rparr>)"

definition env_set_camera_device :: "ext \<Rightarrow> bool \<Rightarrow> frontend \<Rightarrow> env_res" where
  "env_set_camera_device x use_front s = (camera_switch x use_front, No_out, s)"

definition env_get_location_interface :: "frontend \<Rightarrow> env_res" where
  "env_get_location_interface s =
     (True,
      Out_fns [(''start'', ''driver_location_start''), (''stop'', ''driver_location_stop''),
               (''get_position'', ''driver_location_get_position''),
               (''set_interval'', ''driver_location_set_interval'')],
      upd_sys (\<lambda>i. i\<lparr>si_location_cb := True\<rparr>) (s\<lparr>location_active := True\<rparr>))"

definition env_get_log_interface :: "frontend \<Rightarrow> env_res" where
  "env_get_log_interface s = (True, Out_fns [(''log'', ''libretro_log_cb'')], s)"

definition env_get_perf_interface :: "frontend \<Rightarrow> env_res" where
  "env_get_perf_interface s =
     (True,
      Out_fns [(''get_time_usec'', ''cpu_features_get_time_usec''),
               (''get_cpu_features'', ''cpu_features_get''),
               (''get_perf_counter'', ''cpu_features_get_perf_counter''),
               (''perf_register'', ''runloop_performance_counter_register''),
               (''perf_start'', ''core_performance_counter_start''),
               (''perf_stop'', ''core_performance_counter_stop''),
               (''perf_log'', ''runloop_perf_log'')], s)"

definition env_get_vfs_interface :: "u32 \<Rightarrow> frontend \<Rightarrow> env_res" where
  "env_get_vfs_interface required s =
     (if required \<le> 3
      then (True, Out_vfs 3, upd_sys (\<lambda>i. i\<lparr>si_supports_vfs := True\<rparr>) s)
      else (False, No_out, s))"

definition env_get_led_interface :: "bool \<Rightarrow> frontend \<Rightarrow> env_res" where
  "env_get_led_interface given s =
     (True, if given then Out_fns [(''set_led_state'', ''led_driver_set_led'')] else No_out, s)"

definition env_get_midi_interface :: "bool \<Rightarrow> frontend \<Rightarrow> env_res" where
  "env_get_midi_interface given s =
     (True,
      if given
      then Out_fns [(''input_enabled'', ''midi_driver_input_enabled''),
                    (''output_enabled'', ''midi_driver_output_enabled''),
                    (''read'', ''midi_driver_read''), (''write'', ''midi_driver_write''),
                    (''flush'', ''midi_driver_flush'')]
      else No_out, s)"

definition microphone_fns :: "(string \<times> string) list" where
  "microphone_fns =
     [(''open_mic'', ''microphone_driver_open_mic''),
      (''close_mic'', ''microphone_driver_close_mic''),
      (''get_params'', ''microphone_driver_get_effective_params''),
      (''set_mic_state'', ''microphone_driver_set_mic_state''),
      (''get_mic_state'', ''microphone_driver_get_mic_state''),
      (''read_mic'', ''microphone_driver_read'')]"

text \<open>
  The argument is the interface version in the core's struct, if it passed one.  A struct of
  the right version is cleared before the driver is looked at: \<open>Out_fns []\<close>.
\<close>

definition env_get_microphone_interface ::
    "build \<Rightarrow> ext \<Rightarrow> settings \<Rightarrow> u32 \<Rightarrow> u32 option \<Rightarrow> frontend \<Rightarrow> env_res" where
  "env_get_microphone_interface b x st supported data s =
     (case data of
        None \<Rightarrow> (False, No_out, s)
      | Some version \<Rightarrow>
          if \<not> have_microphone b then (False, Out_unsigned 0, s)
          else if version \<noteq> supported then (False, No_out, s)
          else if mic_driver_set x \<and> mic_driver_null x then (False, Out_fns [], s)
          else if \<not> microphone_enable st then (False, Out_fns [], s)
          else if \<not> mic_driver_set x \<and> microphone_driver st = ''null'' then (False, Out_fns [], s)
          else (True, Out_fns microphone_fns, s))"

subsection \<open>Subsystems and memory maps\<close>

definition env_set_subsystem_info :: "ext \<Rightarrow> subsystem_info list \<Rightarrow> frontend \<Rightarrow> env_res" where
  "env_set_subsystem_info x info s =
     (let subs = until_null (\<lambda>i. sub_ident i \<noteq> None) info
      in if alloc_ok x (length subs)
         then (True, No_out,
               upd_sys (\<lambda>i. i\<lparr>si_subsystem := subs\<rparr>)
                 (s\<lparr>current_core := (current_core s)\<lparr>rc_flags :=
                      insert Core_has_set_subsystems (rc_flags (current_core s))\<rparr>\<rparr>))
         else (False, No_out, upd_sys (\<lambda>i. i\<lparr>si_subsystem := []\<rparr>) s))"

text \<open>The result of the preprocessing is not looked at.\<close>

definition env_set_memory_maps :: "build \<Rightarrow> ext \<Rightarrow> memory_descriptor list \<Rightarrow> frontend \<Rightarrow> env_res" where
  "env_set_memory_maps b x ds s =
     (if alloc_ok x (length ds)
      then (True, No_out,
            emit ((if have_cheevos b then [C_cheevos_refresh_memory] else [])
                  @ (if have_cheats b \<and> cheat_memory_initialized s
                     then [C_cheat_init_memory, C_cheat_apply] else []))
              (upd_sys (\<lambda>i. i\<lparr>si_mmaps := snd (mmap_preprocess_descriptors ds)\<rparr>) s))
      else (False, No_out, upd_sys (\<lambda>i. i\<lparr>si_mmaps := []\<rparr>) s))"

subsection \<open>Serialisation and content\<close>

definition env_set_support_achievements :: "build \<Rightarrow> bool \<Rightarrow> frontend \<Rightarrow> env_res" where
  "env_set_support_achievements b state s =
     (True, No_out, if have_cheevos b then emit [C_cheevos_support state] s else s)"

definition env_set_serialization_quirks :: "u64 \<Rightarrow> frontend \<Rightarrow> env_res" where
  "env_set_serialization_quirks quirks s =
     (True, No_out, s\<lparr>current_core := (current_core s)\<lparr>rc_quirks := quirks\<rparr>\<rparr>)"

definition savestate_context_of ::
    "build \<Rightarrow> ext \<Rightarrow> settings \<Rightarrow> frontend \<Rightarrow> savestate_context" where
  "savestate_context_of b x st s =
     (if (have_runahead b \<or> have_networking b) \<and> Request_special_savestate \<in> flags s
      then if have_networking b \<and> netplay_enabled x then Ctx_rollback_netplay
           else if have_runahead b
           then if have_dynamic b \<and> run_ahead_secondary_instance st
                     \<and> Runahead_secondary_core_available \<in> flags s \<and> secondary_core_exists x
                then Ctx_runahead_same_binary else Ctx_runahead_same_instance
           else Ctx_normal
      else Ctx_normal)"

definition env_get_savestate_context ::
    "build \<Rightarrow> ext \<Rightarrow> settings \<Rightarrow> bool \<Rightarrow> frontend \<Rightarrow> env_res" where
  "env_get_savestate_context b x st given s =
     (True, if given then Out_savestate_context (savestate_context_of b x st s) else No_out, s)"

definition env_set_save_state_in_background :: "bool \<Rightarrow> frontend \<Rightarrow> env_res" where
  "env_set_save_state_in_background state s = (True, No_out, emit [C_save_in_background state] s)"

definition env_set_content_info_override :: "ext \<Rightarrow> handle option \<Rightarrow> frontend \<Rightarrow> env_res" where
  "env_set_content_info_override x data s =
     (case data of None \<Rightarrow> (True, No_out, s) | Some h \<Rightarrow> (content_override_set x h, No_out, s))"

definition env_get_game_info_ext :: "ext \<Rightarrow> bool \<Rightarrow> frontend \<Rightarrow> env_res" where
  "env_get_game_info_ext x given s =
     (if \<not> given then (False, No_out, s)
      else case game_info_ext x of
        Some g \<Rightarrow> (True, Out_handle (Some g), s) | None \<Rightarrow> (False, Out_handle None, s))"

definition env_get_core_options_version :: "frontend \<Rightarrow> env_res" where
  "env_get_core_options_version s = (True, Out_unsigned 2, s)"

definition env_get_clear_all_thread_waits_cb :: "frontend \<Rightarrow> env_res" where
  "env_get_clear_all_thread_waits_cb s =
     (True, Out_fns [(''cb'', ''runloop_clear_all_thread_waits'')], s)"

definition env_get_jit_capable :: "build \<Rightarrow> ext \<Rightarrow> frontend \<Rightarrow> env_res" where
  "env_get_jit_capable b x s =
     (True, Out_bool (if target_os_iphone b then jit_available x else True), s)"

definition env_set_netpacket_interface :: "build \<Rightarrow> ext \<Rightarrow> handle option \<Rightarrow> frontend \<Rightarrow> env_res" where
  "env_set_netpacket_interface b x data s =
     (have_networking b \<and> netplay_set_packet_iface x data, No_out, s)"

subsection \<open>Fast-forwarding and throttle\<close>

definition env_get_fastforwarding :: "frontend \<Rightarrow> env_res" where
  "env_get_fastforwarding s = (True, Out_bool (Fastmotion \<in> flags s), s)"

definition env_set_fastforwarding_override :: "fastforward option \<Rightarrow> frontend \<Rightarrow> env_res" where
  "env_set_fastforwarding_override data s =
     (True, No_out, case data of None \<Rightarrow> s | Some f \<Rightarrow> s\<lparr>ff_next := f, ff_pending := True\<rparr>)"

definition no_audio :: "frontend \<Rightarrow> bool" where
  "no_audio s \<longleftrightarrow> as_suspended (aud s) \<or> \<not> as_active (aud s)"

definition throttle_paused :: "build \<Rightarrow> ext \<Rightarrow> settings \<Rightarrow> frontend \<Rightarrow> bool" where
  "throttle_paused b x st s \<longleftrightarrow>
     (if have_menu b \<and> menu_alive s
      then menu_pause_libretro st \<and> (\<not> have_networking b \<or> netplay_allow_pause x)
      else Paused \<in> flags s)"

text \<open>Base mode and rate: fast forward, slow motion, or neither.\<close>

definition throttle_base :: "ext \<Rightarrow> settings \<Rightarrow> frontend \<Rightarrow> throttle_mode \<times> rat" where
  "throttle_base x st s =
     (let fps = av_fps (vs_av (vid s))
      in if Fastmotion \<in> flags s
         then (Thr_fast_forward, fps * runloop_get_fastforward_ratio x st (ff_current s))
         else if Slowmotion \<in> flags s \<and> \<not> no_audio s
         then (Thr_slow_motion, fps / (if 0 < slowmotion_ratio st then slowmotion_ratio st else 1))
         else (Thr_none, fps))"

definition throttle_vsync ::
    "build \<Rightarrow> ext \<Rightarrow> settings \<Rightarrow> frontend \<Rightarrow> throttle_mode \<times> rat \<Rightarrow> throttle_mode \<times> rat" where
  "throttle_vsync b x st s mr =
     (let (mode, rate) = mr;
          refresh = (if get_refresh_rate x = 0 then video_refresh_rate st else get_refresh_rate x)
      in if ((have_menu b \<and> menu_alive s)
             \<or> video_vsync st \<and> Force_nonblock \<notin> flags s \<and> \<not> is_nonblocking (inp s))
            \<and> (refresh < rate \<or> rate = 0)
         then (if refresh < av_fps (vs_av (vid s)) then Thr_vsync else mode, refresh)
         else mr)"

text \<open>The difference of the two frame times goes through a conversion to \<open>int\<close>.\<close>

definition frame_limit_matches :: "frontend \<Rightarrow> bool" where
  "frame_limit_matches s \<longleftrightarrow>
     (let fps = av_fps (vs_av (vid s));
          core_limit = (if fps \<noteq> 0 then truncate (1000000 / fps) else 0)
      in \<bar>signed_take_bit 31 (core_limit - frame_limit_minimum_time s)\<bar> \<le> 10)"

definition throttle_no_audio :: "frontend \<Rightarrow> throttle_mode \<times> rat \<Rightarrow> throttle_mode \<times> rat" where
  "throttle_no_audio s mr =
     (if no_audio s \<and> fst mr \<noteq> Thr_fast_forward \<and> fst mr \<noteq> Thr_vsync
         \<and> \<not> frame_limit_matches s
      then (Thr_unblocked, 0) else mr)"

definition env_get_throttle_state :: "build \<Rightarrow> ext \<Rightarrow> settings \<Rightarrow> frontend \<Rightarrow> env_res" where
  "env_get_throttle_state b x st s =
     (if have_rewind b \<and> rewind_reversed s then (True, Out_throttle Thr_rewinding 0, s)
      else if throttle_paused b x st s then (True, Out_throttle Thr_frame_stepping 0, s)
      else case throttle_no_audio s (throttle_vsync b x st s (throttle_base x st s)) of
        (mode, rate) \<Rightarrow> (True, Out_throttle mode rate, s))"

subsection \<open>Power state\<close>

text \<open>\<open>no_estimate\<close> is \<open>RETRO_POWERSTATE_NO_ESTIMATE\<close>; percentages are cut to 8 bits.\<close>

definition power_seconds :: "int \<Rightarrow> int \<Rightarrow> int" where
  "power_seconds no_estimate seconds = (if seconds = 0 then no_estimate else seconds)"

definition env_get_device_power :: "ext \<Rightarrow> int \<Rightarrow> bool \<Rightarrow> frontend \<Rightarrow> env_res" where
  "env_get_device_power x no_estimate given s =
     (if \<not> frontend_exists x then (False, No_out, s)
      else if \<not> given then (frontend_powerstate x \<noteq> None, No_out, s)
      else case frontend_powerstate x of
        None \<Rightarrow> (False, No_out, s)
      | Some (state, seconds, percent) \<Rightarrow>
          (case state of
             Pw_on_battery \<Rightarrow> (True, Out_power ''DISCHARGING'' (power_seconds no_estimate seconds)
                                 (signed_take_bit 7 percent), s)
           | Pw_charging \<Rightarrow> (True, Out_power ''CHARGING'' (power_seconds no_estimate seconds)
                                 (signed_take_bit 7 percent), s)
           | Pw_charged \<Rightarrow> (True, Out_power ''CHARGED'' no_estimate (signed_take_bit 7 percent), s)
           | Pw_no_source \<Rightarrow> (True, Out_power ''PLUGGED_IN'' no_estimate
                                 (signed_take_bit 7 no_estimate), s)
           | Pw_other \<Rightarrow> (False, No_out, s)))"

lemmas system_env_defs = env_shutdown_def env_set_performance_level_def env_get_system_directory_def
  env_get_save_directory_def env_get_username_def env_get_language_def
  env_get_core_assets_directory_def env_get_playlist_directory_def
  env_get_file_browser_start_directory_def env_set_support_no_game_def env_get_libretro_path_def
  env_get_disk_control_interface_version_def env_set_disk_control_interface_def
  env_set_disk_control_ext_interface_def env_get_camera_interface_def env_set_camera_device_def
  env_get_location_interface_def env_get_log_interface_def env_get_perf_interface_def
  env_get_vfs_interface_def env_get_led_interface_def env_get_midi_interface_def
  env_get_microphone_interface_def env_set_subsystem_info_def env_set_memory_maps_def
  env_set_support_achievements_def env_set_serialization_quirks_def env_get_savestate_context_def
  env_set_save_state_in_background_def env_set_content_info_override_def
  env_get_game_info_ext_def env_get_core_options_version_def env_get_clear_all_thread_waits_cb_def
  env_get_jit_capable_def env_set_netpacket_interface_def env_get_fastforwarding_def
  env_set_fastforwarding_override_def env_get_throttle_state_def env_get_device_power_def

end
