(* ===== verification/Environment.thy ===== *)
theory Environment
  imports Main Core_Options Env_Message Env_Audio Env_Input Env_System
begin

text \<open>
  The contract of an environment-call handler: it takes a command and a state and returns a
  result flag, an output datum and the new state, and keeps the invariant of the state.  The
  dispatcher relies on it for each group of commands, and a core's whole sequence of calls on
  the dispatcher.
\<close>

fun run_handler :: "('c \<Rightarrow> 's \<Rightarrow> bool \<times> 'o \<times> 's) \<Rightarrow> 'c list \<Rightarrow> 's \<Rightarrow> 's" where
  "run_handler h [] s = s"
| "run_handler h (c # cs) s = run_handler h cs (snd (snd (h c s)))"

lemma run_handler_append:
  "run_handler h (cs @ ds) s = run_handler h ds (run_handler h cs s)"
  by (induction cs arbitrary: s) simp_all

locale handler =
  fixes h :: "'c \<Rightarrow> 's \<Rightarrow> bool \<times> 'o \<times> 's"
    and inv :: "'s \<Rightarrow> bool"
  assumes keeps: "inv s \<Longrightarrow> inv (snd (snd (h c s)))"
begin

lemma run_keeps: "inv s \<Longrightarrow> inv (run_handler h cs s)"
  by (induction cs arbitrary: s) (simp_all add: keeps)

lemma prefix_keeps: "inv s \<Longrightarrow> run_handler h (cs @ ds) s = t \<Longrightarrow> inv (run_handler h cs s) \<and> inv t"
  using run_keeps by blast

end

text \<open>
  A handler that can be switched off: while the switch is on, every call is refused, writes
  nothing and changes nothing.
\<close>

locale gated_handler = handler +
  fixes gate :: "'b \<Rightarrow> bool"
  assumes gated: "gate s \<Longrightarrow> \<not> fst (h c s) \<and> snd (snd (h c s)) = s"
begin

lemma run_gated: "gate s \<Longrightarrow> run_handler h cs s = s"
  by (induction cs arbitrary: s) (simp_all add: gated)

end

section \<open>The dispatcher\<close>

text \<open>
  The environment callback \<open>runloop_environment_cb\<close>: the commands a core can send, by the
  group of handlers that serves them, and the dispatcher with its \<open>IGNORE_ENVIRONMENT_CB\<close>
  gate.  Where the code tests the data pointer against null, the argument is optional; where it
  dereferences the pointer without a test, the argument is the value itself.
\<close>

subsection \<open>Commands\<close>

datatype option_cmd =
    GET_VARIABLE_UPDATE
  | GET_VARIABLE "string option"
  | SET_VARIABLE "(c_str \<times> c_str) option"
  | SET_VARIABLES handle
  | SET_CORE_OPTIONS "handle option"
  | SET_CORE_OPTIONS_INTL "handle option"
  | SET_CORE_OPTIONS_V2 "handle option"
  | SET_CORE_OPTIONS_V2_INTL "handle option"
  | SET_CORE_OPTIONS_DISPLAY "(string \<times> bool) option"
  | SET_CORE_OPTIONS_UPDATE_DISPLAY_CALLBACK "handle option option"

datatype message_cmd =
    GET_MESSAGE_INTERFACE_VERSION
  | SET_MESSAGE string u32
  | SET_MESSAGE_EXT message_ext

datatype video_cmd =
    GET_OVERSCAN
  | GET_CAN_DUPE
  | SET_ROTATION u32
  | SET_PIXEL_FORMAT pixel_format
  | GET_PREFERRED_HW_RENDER
  | SET_HW_RENDER bool "hw_render_cb option"
  | SET_SYSTEM_AV_INFO "av_info option"
  | SET_GEOMETRY u32 u32 rat
  | GET_CURRENT_SOFTWARE_FRAMEBUFFER
  | GET_HW_RENDER_INTERFACE
  | SET_HW_RENDER_CONTEXT_NEGOTIATION_INTERFACE "handle option"
  | SET_HW_SHARED_CONTEXT
  | GET_TARGET_REFRESH_RATE
  | GET_HW_RENDER_CONTEXT_NEGOTIATION_INTERFACE_SUPPORT bool
  | GET_AUDIO_VIDEO_ENABLE

datatype audio_cmd =
    SET_AUDIO_CALLBACK "handle option"
  | SET_FRAME_TIME_CALLBACK frame_time_cb
  | SET_AUDIO_BUFFER_STATUS_CALLBACK "handle option option"
  | SET_MINIMUM_AUDIO_LATENCY "u32 option"

datatype input_cmd =
    SET_INPUT_DESCRIPTORS "input_descriptor list"
  | SET_KEYBOARD_CALLBACK "handle option"
  | GET_RUMBLE_INTERFACE
  | GET_INPUT_DEVICE_CAPABILITIES
  | GET_SENSOR_INTERFACE
  | GET_INPUT_BITMASKS
  | GET_INPUT_MAX_USERS
  | POLL_TYPE_OVERRIDE "poll_override option"
  | SET_CONTROLLER_INFO "handle option list"

datatype system_cmd =
    SHUTDOWN
  | SET_PERFORMANCE_LEVEL u32
  | GET_SYSTEM_DIRECTORY
  | GET_SAVE_DIRECTORY
  | GET_USERNAME
  | GET_LANGUAGE
  | GET_CORE_ASSETS_DIRECTORY
  | GET_PLAYLIST_DIRECTORY
  | GET_FILE_BROWSER_START_DIRECTORY
  | SET_SUPPORT_NO_GAME bool
  | GET_LIBRETRO_PATH
  | GET_DISK_CONTROL_INTERFACE_VERSION
  | SET_DISK_CONTROL_INTERFACE "handle option"
  | SET_DISK_CONTROL_EXT_INTERFACE "handle option"
  | GET_CAMERA_INTERFACE u64 handle
  | SET_CAMERA_DEVICE bool
  | GET_LOCATION_INTERFACE
  | GET_LOG_INTERFACE
  | GET_PERF_INTERFACE
  | GET_VFS_INTERFACE u32
  | GET_LED_INTERFACE bool
  | GET_MIDI_INTERFACE bool
  | GET_MICROPHONE_INTERFACE "u32 option"
  | SET_SUBSYSTEM_INFO "subsystem_info list"
  | SET_MEMORY_MAPS "memory_descriptor list"
  | SET_SUPPORT_ACHIEVEMENTS bool
  | SET_SERIALIZATION_QUIRKS u64
  | GET_SAVESTATE_CONTEXT bool
  | SET_SAVE_STATE_IN_BACKGROUND bool
  | SET_CONTENT_INFO_OVERRIDE "handle option"
  | GET_GAME_INFO_EXT bool
  | GET_CORE_OPTIONS_VERSION
  | GET_CLEAR_ALL_THREAD_WAITS_CB
  | GET_JIT_CAPABLE
  | SET_NETPACKET_INTERFACE "handle option"
  | GET_FASTFORWARDING
  | SET_FASTFORWARDING_OVERRIDE "fastforward option"
  | GET_THROTTLE_STATE
  | GET_DEVICE_POWER bool

datatype env_cmd =
    Opt option_cmd | Msg message_cmd | Video video_cmd | Audio audio_cmd
  | Input input_cmd | System system_cmd | Unsupported u32

text \<open>What surrounds one call: the build, the settings, the header constants, the world.\<close>

record env_ctx =
  cx_build :: build
  cx_limits :: limits
  cx_settings :: settings
  cx_ext :: ext

subsection \<open>Handlers by group\<close>

fun option_handler :: "env_ctx \<Rightarrow> option_cmd \<Rightarrow> frontend \<Rightarrow> env_res" where
  "option_handler c GET_VARIABLE_UPDATE s = env_get_variable_update s"
| "option_handler c (GET_VARIABLE v) s = env_get_variable (cx_build c) (cx_ext c) v s"
| "option_handler c (SET_VARIABLE v) s = env_set_variable (cx_ext c) v s"
| "option_handler c (SET_VARIABLES v) s = env_set_variables (cx_ext c) (cx_settings c) v s"
| "option_handler c (SET_CORE_OPTIONS d) s = env_set_core_options (cx_ext c) (cx_settings c) d s"
| "option_handler c (SET_CORE_OPTIONS_INTL d) s =
     env_set_core_options_intl (cx_ext c) (cx_settings c) d s"
| "option_handler c (SET_CORE_OPTIONS_V2 d) s = env_set_core_options_v2 (cx_ext c) (cx_settings c) d s"
| "option_handler c (SET_CORE_OPTIONS_V2_INTL d) s =
     env_set_core_options_v2_intl (cx_ext c) (cx_settings c) d s"
| "option_handler c (SET_CORE_OPTIONS_DISPLAY d) s = env_set_core_options_display (cx_ext c) d s"
| "option_handler c (SET_CORE_OPTIONS_UPDATE_DISPLAY_CALLBACK f) s =
     env_set_update_display_callback f s"

fun message_handler :: "env_ctx \<Rightarrow> message_cmd \<Rightarrow> frontend \<Rightarrow> env_res" where
  "message_handler c GET_MESSAGE_INTERFACE_VERSION s = env_get_message_interface_version s"
| "message_handler c (SET_MESSAGE m n) s = env_set_message (cx_build c) (cx_ext c) m n s"
| "message_handler c (SET_MESSAGE_EXT m) s =
     env_set_message_ext (cx_build c) (cx_ext c) (cx_limits c) m s"

fun video_handler :: "env_ctx \<Rightarrow> video_cmd \<Rightarrow> frontend \<Rightarrow> env_res" where
  "video_handler c GET_OVERSCAN s = env_get_overscan (cx_settings c) s"
| "video_handler c GET_CAN_DUPE s = env_get_can_dupe s"
| "video_handler c (SET_ROTATION r) s = env_set_rotation (cx_ext c) (cx_settings c) r s"
| "video_handler c (SET_PIXEL_FORMAT f) s = env_set_pixel_format f s"
| "video_handler c GET_PREFERRED_HW_RENDER s = env_get_preferred_hw_render (cx_settings c) s"
| "video_handler c (SET_HW_RENDER e d) s = env_set_hw_render (cx_build c) (cx_settings c) e d s"
| "video_handler c (SET_SYSTEM_AV_INFO i) s = env_set_system_av_info (cx_ext c) (cx_settings c) i s"
| "video_handler c (SET_GEOMETRY w h a) s = env_set_geometry (cx_settings c) w h a s"
| "video_handler c GET_CURRENT_SOFTWARE_FRAMEBUFFER s =
     env_get_current_software_framebuffer (cx_ext c) s"
| "video_handler c GET_HW_RENDER_INTERFACE s = env_get_hw_render_interface (cx_ext c) s"
| "video_handler c (SET_HW_RENDER_CONTEXT_NEGOTIATION_INTERFACE i) s = env_set_hw_negotiation i s"
| "video_handler c SET_HW_SHARED_CONTEXT s = env_set_hw_shared_context (cx_build c) s"
| "video_handler c GET_TARGET_REFRESH_RATE s =
     env_get_target_refresh_rate (cx_ext c) (cx_settings c) s"
| "video_handler c (GET_HW_RENDER_CONTEXT_NEGOTIATION_INTERFACE_SUPPORT v) s =
     env_get_hw_negotiation_support (cx_build c) (vulkan_negotiation_version (cx_limits c)) v s"
| "video_handler c GET_AUDIO_VIDEO_ENABLE s = env_get_audio_video_enable (cx_build c) (cx_ext c) s"

fun audio_handler :: "env_ctx \<Rightarrow> audio_cmd \<Rightarrow> frontend \<Rightarrow> env_res" where
  "audio_handler c (SET_AUDIO_CALLBACK f) s = env_set_audio_callback (cx_build c) (cx_ext c) f s"
| "audio_handler c (SET_FRAME_TIME_CALLBACK f) s =
     env_set_frame_time_callback (cx_build c) (cx_ext c) f s"
| "audio_handler c (SET_AUDIO_BUFFER_STATUS_CALLBACK f) s =
     env_set_audio_buffer_status_callback f s"
| "audio_handler c (SET_MINIMUM_AUDIO_LATENCY l) s =
     env_set_minimum_audio_latency (cx_ext c) (cx_settings c) l s"

fun input_handler :: "env_ctx \<Rightarrow> input_cmd \<Rightarrow> frontend \<Rightarrow> env_res" where
  "input_handler c (SET_INPUT_DESCRIPTORS ds) s = env_set_input_descriptors (cx_limits c) ds s"
| "input_handler c (SET_KEYBOARD_CALLBACK f) s = env_set_keyboard_callback f s"
| "input_handler c GET_RUMBLE_INTERFACE s = env_get_rumble_interface s"
| "input_handler c GET_INPUT_DEVICE_CAPABILITIES s =
     env_get_input_device_capabilities (cx_ext c) s"
| "input_handler c GET_SENSOR_INTERFACE s = env_get_sensor_interface (cx_settings c) s"
| "input_handler c GET_INPUT_BITMASKS s = env_get_input_bitmasks s"
| "input_handler c GET_INPUT_MAX_USERS s = env_get_input_max_users (cx_settings c) s"
| "input_handler c (POLL_TYPE_OVERRIDE p) s = env_poll_type_override p s"
| "input_handler c (SET_CONTROLLER_INFO i) s = env_set_controller_info (cx_ext c) i s"

fun system_handler :: "env_ctx \<Rightarrow> system_cmd \<Rightarrow> frontend \<Rightarrow> env_res" where
  "system_handler c SHUTDOWN s = env_shutdown (cx_build c) (cx_limits c) s"
| "system_handler c (SET_PERFORMANCE_LEVEL l) s = env_set_performance_level l s"
| "system_handler c GET_SYSTEM_DIRECTORY s = env_get_system_directory (cx_ext c) (cx_settings c) s"
| "system_handler c GET_SAVE_DIRECTORY s = env_get_save_directory (cx_build c) (cx_ext c) s"
| "system_handler c GET_USERNAME s = env_get_username (cx_settings c) s"
| "system_handler c GET_LANGUAGE s = env_get_language (cx_build c) (cx_ext c) s"
| "system_handler c GET_CORE_ASSETS_DIRECTORY s = env_get_core_assets_directory (cx_settings c) s"
| "system_handler c GET_PLAYLIST_DIRECTORY s = env_get_playlist_directory (cx_settings c) s"
| "system_handler c GET_FILE_BROWSER_START_DIRECTORY s =
     env_get_file_browser_start_directory (cx_settings c) s"
| "system_handler c (SET_SUPPORT_NO_GAME n) s = env_set_support_no_game n s"
| "system_handler c GET_LIBRETRO_PATH s = env_get_libretro_path (cx_build c) s"
| "system_handler c GET_DISK_CONTROL_INTERFACE_VERSION s = env_get_disk_control_interface_version s"
| "system_handler c (SET_DISK_CONTROL_INTERFACE f) s = env_set_disk_control_interface f s"
| "system_handler c (SET_DISK_CONTROL_EXT_INTERFACE f) s = env_set_disk_control_ext_interface f s"
| "system_handler c (GET_CAMERA_INTERFACE caps f) s = env_get_camera_interface caps f s"
| "system_handler c (SET_CAMERA_DEVICE f) s = env_set_camera_device (cx_ext c) f s"
| "system_handler c GET_LOCATION_INTERFACE s = env_get_location_interface s"
| "system_handler c GET_LOG_INTERFACE s = env_get_log_interface s"
| "system_handler c GET_PERF_INTERFACE s = env_get_perf_interface s"
| "system_handler c (GET_VFS_INTERFACE v) s = env_get_vfs_interface v s"
| "system_handler c (GET_LED_INTERFACE g) s = env_get_led_interface g s"
| "system_handler c (GET_MIDI_INTERFACE g) s = env_get_midi_interface g s"
| "system_handler c (GET_MICROPHONE_INTERFACE v) s =
     env_get_microphone_interface (cx_build c) (cx_ext c) (cx_settings c)
       (mic_interface_version (cx_limits c)) v s"
| "system_handler c (SET_SUBSYSTEM_INFO i) s = env_set_subsystem_info (cx_ext c) i s"
| "system_handler c (SET_MEMORY_MAPS ds) s = env_set_memory_maps (cx_build c) (cx_ext c) ds s"
| "system_handler c (SET_SUPPORT_ACHIEVEMENTS n) s = env_set_support_achievements (cx_build c) n s"
| "system_handler c (SET_SERIALIZATION_QUIRKS q) s = env_set_serialization_quirks q s"
| "system_handler c (GET_SAVESTATE_CONTEXT g) s =
     env_get_savestate_context (cx_build c) (cx_ext c) (cx_settings c) g s"
| "system_handler c (SET_SAVE_STATE_IN_BACKGROUND n) s = env_set_save_state_in_background n s"
| "system_handler c (SET_CONTENT_INFO_OVERRIDE h) s = env_set_content_info_override (cx_ext c) h s"
| "system_handler c (GET_GAME_INFO_EXT g) s = env_get_game_info_ext (cx_ext c) g s"
| "system_handler c GET_CORE_OPTIONS_VERSION s = env_get_core_options_version s"
| "system_handler c GET_CLEAR_ALL_THREAD_WAITS_CB s = env_get_clear_all_thread_waits_cb s"
| "system_handler c GET_JIT_CAPABLE s = env_get_jit_capable (cx_build c) (cx_ext c) s"
| "system_handler c (SET_NETPACKET_INTERFACE d) s =
     env_set_netpacket_interface (cx_build c) (cx_ext c) d s"
| "system_handler c GET_FASTFORWARDING s = env_get_fastforwarding s"
| "system_handler c (SET_FASTFORWARDING_OVERRIDE f) s = env_set_fastforwarding_override f s"
| "system_handler c GET_THROTTLE_STATE s =
     env_get_throttle_state (cx_build c) (cx_ext c) (cx_settings c) s"
| "system_handler c (GET_DEVICE_POWER g) s =
     env_get_device_power (cx_ext c) (power_no_estimate (cx_limits c)) g s"

subsection \<open>The callback\<close>

fun environment_switch :: "env_ctx \<Rightarrow> env_cmd \<Rightarrow> frontend \<Rightarrow> env_res" where
  "environment_switch c (Opt o1) s = option_handler c o1 s"
| "environment_switch c (Msg m) s = message_handler c m s"
| "environment_switch c (Video v) s = video_handler c v s"
| "environment_switch c (Audio a) s = audio_handler c a s"
| "environment_switch c (Input i) s = input_handler c i s"
| "environment_switch c (System y) s = system_handler c y s"
| "environment_switch c (Unsupported n) s = (False, No_out, s)"

definition runloop_environment_cb :: "env_ctx \<Rightarrow> env_cmd \<Rightarrow> frontend \<Rightarrow> env_res" where
  "runloop_environment_cb c cmd s =
     (if Ignore_environment_cb \<in> flags s then (False, No_out, s) else environment_switch c cmd s)"

end
