(* ===== verification/Env_Invariant.thy ===== *)
theory Env_Invariant
  imports Environment
begin

text \<open>
  What every environment call keeps, group by group, the environment callback as an instance of
  the interfaces of theory \<open>Environment\<close>, and what follows for a core's whole sequence of
  calls.
\<close>

subsection \<open>The invariant\<close>

definition known_format :: "pixel_format \<Rightarrow> bool" where
  "known_format f = (case f of Fmt_unknown _ \<Rightarrow> False | _ \<Rightarrow> True)"

definition env_inv :: "limits \<Rightarrow> frontend \<Rightarrow> bool" where
  "env_inv lm s \<longleftrightarrow>
     1 < max_status_msg lm
     \<and> audio_latency s \<le> 512
     \<and> known_format (vs_pix_fmt (vid s))
     \<and> \<not> (Game_options_active \<in> flags s \<and> Folder_options_active \<in> flags s)
     \<and> status_ok lm (core_status_msg s)
     \<and> labels_in_table lm (si_input_desc (sys s))
     \<and> (\<forall>i\<in>set (si_subsystem (sys s)). sub_ident i \<noteq> None)"

lemma env_inv_emit [simp]: "env_inv lm (emit cs s) \<longleftrightarrow> env_inv lm s"
  by (simp add: env_inv_def emit_def)

lemma env_inv_raise [simp]:
  "fs \<inter> {Game_options_active, Folder_options_active} = {} \<Longrightarrow> env_inv lm (raise_flags fs s) \<longleftrightarrow> env_inv lm s"
  by (auto simp: env_inv_def raise_flags_def)

lemma env_inv_lower: "env_inv lm s \<Longrightarrow> env_inv lm (lower_flags fs s)"
  by (auto simp: env_inv_def lower_flags_def)

lemma env_inv_switch:
  assumes "env_inv lm s" and "fs = {Game_options_active} \<or> fs = {Folder_options_active}"
  shows "env_inv lm (raise_flags fs (lower_flags ({Game_options_active, Folder_options_active} - fs) s))"
  using assms by (auto simp: env_inv_def raise_flags_def lower_flags_def)

lemma env_inv_fields [simp]:
  "env_inv lm (s\<lparr>core_options := v_core_options\<rparr>) \<longleftrightarrow> env_inv lm s"
  "env_inv lm (s\<lparr>paths := v_paths\<rparr>) \<longleftrightarrow> env_inv lm s"
  "env_inv lm (s\<lparr>update_display := v_update_display\<rparr>) \<longleftrightarrow> env_inv lm s"
  "env_inv lm (s\<lparr>calls := v_calls\<rparr>) \<longleftrightarrow> env_inv lm s"
  "env_inv lm (s\<lparr>frame_time := v_frame_time\<rparr>) \<longleftrightarrow> env_inv lm s"
  "env_inv lm (s\<lparr>audio_buffer_callback := v_audio_buffer_callback\<rparr>) \<longleftrightarrow> env_inv lm s"
  "env_inv lm (s\<lparr>key_event := v_key_event\<rparr>) \<longleftrightarrow> env_inv lm s"
  "env_inv lm (s\<lparr>frontend_key_event := v_frontend_key_event\<rparr>) \<longleftrightarrow> env_inv lm s"
  "env_inv lm (s\<lparr>inp := v_inp\<rparr>) \<longleftrightarrow> env_inv lm s"
  "env_inv lm (s\<lparr>aud := v_aud\<rparr>) \<longleftrightarrow> env_inv lm s"
  "env_inv lm (s\<lparr>poll_type_override := v_poll_type_override\<rparr>) \<longleftrightarrow> env_inv lm s"
  "env_inv lm (s\<lparr>current_core := v_current_core\<rparr>) \<longleftrightarrow> env_inv lm s"
  "env_inv lm (s\<lparr>camera_active := v_camera_active\<rparr>) \<longleftrightarrow> env_inv lm s"
  "env_inv lm (s\<lparr>camera_cb := v_camera_cb\<rparr>) \<longleftrightarrow> env_inv lm s"
  "env_inv lm (s\<lparr>location_active := v_location_active\<rparr>) \<longleftrightarrow> env_inv lm s"
  "env_inv lm (s\<lparr>ff_next := v_ff_next\<rparr>) \<longleftrightarrow> env_inv lm s"
  "env_inv lm (s\<lparr>ff_pending := v_ff_pending\<rparr>) \<longleftrightarrow> env_inv lm s"
  "env_inv lm (s\<lparr>dir_system := v_dir_system\<rparr>) \<longleftrightarrow> env_inv lm s"
  "env_inv lm (s\<lparr>menu_pending_flush := v_menu_pending_flush\<rparr>) \<longleftrightarrow> env_inv lm s"
  "env_inv lm (s\<lparr>menu_pending_path := v_menu_pending_path\<rparr>) \<longleftrightarrow> env_inv lm s"
  by (simp_all add: env_inv_def)

lemma env_inv_vid [simp]:
  "vs_pix_fmt v = vs_pix_fmt (vid s) \<Longrightarrow> env_inv lm (s\<lparr>vid := v\<rparr>) \<longleftrightarrow> env_inv lm s"
  by (simp add: env_inv_def)

lemma env_inv_sys [simp]:
  "si_input_desc i = si_input_desc (sys s) \<Longrightarrow> si_subsystem i = si_subsystem (sys s)
     \<Longrightarrow> env_inv lm (s\<lparr>sys := i\<rparr>) \<longleftrightarrow> env_inv lm s"
  by (simp add: env_inv_def)

lemma env_inv_latency: "env_inv lm s \<Longrightarrow> a \<le> 512 \<Longrightarrow> env_inv lm (s\<lparr>audio_latency := a\<rparr>)"
  by (simp add: env_inv_def)

subsection \<open>Option calls\<close>

lemma validate_per_core_options_inv:
  "env_inv lm s \<Longrightarrow> env_inv lm (snd (validate_per_core_options x m cn gn s))"
  by (simp add: validate_per_core_options_def Let_def)

lemma init_core_options_path_inv:
  assumes "env_inv lm s"
  shows "env_inv lm (snd (runloop_init_core_options_path x g p o1 s))"
proof -
  have "env_inv lm (snd (init_core_options_path_default x p o1 s))"
    using assms validate_per_core_options_inv [OF assms, of x True "si_library_name (sys s)" "si_library_name (sys s)"]
    by (auto simp: init_core_options_path_default_def Let_def split: prod.splits option.splits
        intro!: env_inv_lower)
  then show ?thesis
    using assms env_inv_switch [OF assms, of "{Game_options_active}"]
      env_inv_switch [OF assms, of "{Folder_options_active}"]
    by (auto simp: runloop_init_core_options_path_def Let_def env_inv_def raise_flags_def lower_flags_def)
qed

lemma drop_core_options_inv:
  assumes "env_inv lm s"
  shows "env_inv lm (drop_core_options x s)"
proof (cases "core_options s")
  case (Some m)
  have "env_inv lm (runloop_deinit_core_options x p m s)" for p
    using assms by (auto simp: runloop_deinit_core_options_def Let_def split: option.splits)
  then show ?thesis by (simp add: drop_core_options_def Some env_inv_lower)
qed (simp add: drop_core_options_def assms)

lemma install_options_inv: "env_inv lm (snd r) \<Longrightarrow> env_inv lm (install_options r)"
  by (auto simp: install_options_def split: prod.splits option.splits)

lemma init_core_options_inv:
  assumes "env_inv lm s"
  shows "env_inv lm (snd (runloop_init_core_options x c g p o1 d s))"
    and "env_inv lm (snd (runloop_init_core_variables x g p o1 d s))"
  using init_core_options_path_inv [OF assms, of x g p o1]
  by (auto simp: runloop_init_core_options_def runloop_init_core_variables_def split: prod.splits)

lemma env_declare_options_inv:
  assumes "env_inv lm s"
  shows "env_inv lm (env_declare_options x st d s)"
  using drop_core_options_inv [OF assms, of x]
  by (auto simp: env_declare_options_def Let_def split: option.splits
      intro!: install_options_inv init_core_options_inv)

lemma option_handler_inv:
  assumes "env_inv lm s"
  shows "env_inv lm (res_st (option_handler c cmd s))"
proof (cases cmd)
  case (SET_VARIABLES v)
  then show ?thesis
    using drop_core_options_inv [OF assms, of "cx_ext c"]
    by (auto simp: env_set_variables_def intro!: install_options_inv init_core_options_inv)
next
  case (SET_CORE_OPTIONS_UPDATE_DISPLAY_CALLBACK f)
  then show ?thesis using assms by (simp add: env_set_update_display_callback_def env_inv_def)
qed (use assms in \<open>auto simp: option_env_defs env_declare_options_inv Let_def
       split: option.splits\<close>)

lemma option_handler_frame: "option_frame s (res_st (option_handler c cmd s))"
proof (cases cmd)
  case (SET_VARIABLES v)
  show ?thesis
    using option_frame_trans [OF drop_core_options_frame init_core_options_frame(2)]
    by (auto simp: SET_VARIABLES env_set_variables_def intro!: install_options_frame)
next
  case (GET_VARIABLE v)
  then show ?thesis
    by (simp add: env_get_variable_def Let_def option_frame_then split: option.split)
qed (simp_all add: option_env_defs env_declare_options_frame split: option.split prod.split)

subsection \<open>The other groups\<close>

lemma message_handler_inv:
  assumes "env_inv (cx_limits c) s"
  shows "env_inv (cx_limits c) (res_st (message_handler c cmd s))"
proof (cases cmd)
  case (SET_MESSAGE_EXT m)
  have "env_inv (cx_limits c)
      (s\<lparr>core_status_msg := set_status_msg (cx_limits c) m (core_status_msg s)\<rparr>)"
    using assms set_status_ok by (simp add: env_inv_def)
  with SET_MESSAGE_EXT assms show ?thesis
    by (simp add: env_set_message_ext_def display_message_ext_def runloop_core_msg_queue_push_def
        split: msg_type.split)
qed (use assms in \<open>simp_all add: env_get_message_interface_version_def env_set_message_def\<close>)

lemma set_pixel_format_inv:
  "env_inv lm s \<Longrightarrow> env_inv lm (res_st (env_set_pixel_format f s))"
  by (cases f) (simp_all add: env_set_pixel_format_def env_inv_def upd_vid_def known_format_def)

lemma video_handler_inv:
  assumes "env_inv lm s"
  shows "env_inv lm (res_st (video_handler c cmd s))"
proof (cases cmd)
  case (SET_PIXEL_FORMAT f)
  then show ?thesis using assms by (simp add: set_pixel_format_inv)
next
  case (SET_SYSTEM_AV_INFO i)
  then show ?thesis using assms
    by (auto simp: env_set_system_av_info_def Let_def adjust_frame_delay_def upd_vid_def
        split: option.splits prod.splits)
qed (use assms in \<open>simp_all add: video_env_defs Let_def split: option.split\<close>)

lemma audio_handler_inv:
  assumes "env_inv lm s"
  shows "env_inv lm (res_st (audio_handler c cmd s))"
proof (cases cmd)
  case (SET_MINIMUM_AUDIO_LATENCY l)
  then show ?thesis using assms
    by (simp add: env_set_minimum_audio_latency_def Let_def env_inv_latency split: option.split)
qed (use assms in \<open>simp_all add: audio_env_defs split: option.split\<close>)

lemma input_handler_inv:
  assumes "env_inv (cx_limits c) s"
  shows "env_inv (cx_limits c) (res_st (input_handler c cmd s))"
proof (cases cmd)
  case (SET_INPUT_DESCRIPTORS ds)
  have "labels_in_table (cx_limits c) (\<lambda>_ _. None)" by (simp add: labels_in_table_def)
  from foldl_descriptors_in_table [OF this] SET_INPUT_DESCRIPTORS assms show ?thesis
    by (simp add: env_set_input_descriptors_def env_inv_def upd_sys_def)
qed (use assms in \<open>simp_all add: input_env_defs Let_def split: option.split\<close>)

lemma until_null_holds: "\<forall>i\<in>set (until_null p xs). p i"
  by (auto simp: until_null_def dest: set_takeWhileD)

lemma system_handler_inv:
  assumes "env_inv lm s"
  shows "env_inv lm (res_st (system_handler c cmd s))"
proof (cases cmd)
  case SHUTDOWN
  then show ?thesis using assms
    by (simp add: env_shutdown_def Let_def split: option.split)
next
  case (SET_SUBSYSTEM_INFO i)
  then show ?thesis using assms until_null_holds [of "\<lambda>i. sub_ident i \<noteq> None" i]
    by (simp add: env_set_subsystem_info_def Let_def env_inv_def upd_sys_def)
next
  case (SET_MEMORY_MAPS ds)
  then show ?thesis using assms
    by (simp add: env_set_memory_maps_def upd_sys_def)
next
  case (GET_DEVICE_POWER g)
  then show ?thesis using assms
    by (simp add: env_get_device_power_def split: option.split prod.split power_state.split)
next
  case GET_THROTTLE_STATE
  then show ?thesis using assms by (simp add: env_get_throttle_state_def split: prod.split)
qed (use assms in \<open>simp_all add: system_env_defs upd_sys_def Let_def split: option.split\<close>)

subsection \<open>The callback\<close>

lemma environment_switch_inv:
  assumes "env_inv (cx_limits c) s"
  shows "env_inv (cx_limits c) (res_st (environment_switch c cmd s))"
  using assms option_handler_inv message_handler_inv video_handler_inv audio_handler_inv
    input_handler_inv system_handler_inv
  by (cases cmd) simp_all

text \<open>
  One call of a core: its command with the surroundings at that moment, which may differ from
  call to call except for the constants of the headers.
\<close>

definition env_call :: "limits \<Rightarrow> env_ctx \<times> env_cmd \<Rightarrow> frontend \<Rightarrow> env_res" where
  "env_call lm wc s = runloop_environment_cb ((fst wc)\<lparr>cx_limits := lm\<rparr>) (snd wc) s"

interpretation options: handler "option_handler c" "env_inv lm" for c lm
  by unfold_locales (rule option_handler_inv)

interpretation picture: handler "video_handler c" "env_inv lm" for c lm
  by unfold_locales (rule video_handler_inv)

interpretation sound: handler "audio_handler c" "env_inv lm" for c lm
  by unfold_locales (rule audio_handler_inv)

interpretation environment: gated_handler "env_call lm" "env_inv lm" "\<lambda>s. Ignore_environment_cb \<in> flags s" for lm
proof unfold_locales
  fix s :: frontend and wc :: "env_ctx \<times> env_cmd"
  assume "env_inv lm s"
  then show "env_inv lm (res_st (env_call lm wc s))"
    using environment_switch_inv [of "(fst wc)\<lparr>cx_limits := lm\<rparr>" s "snd wc"]
    by (simp add: env_call_def runloop_environment_cb_def)
qed (simp add: env_call_def runloop_environment_cb_def)

end
