(* ===== verification/Env_Properties.thy ===== *)
theory Env_Properties
  imports Env_Invariant External
begin

text \<open>
  What the environment calls promise a core: the gate and the invariant of whole call
  sequences, the option calls, hardware contexts, audio latency, input labels, the throttle
  state and the status message.
\<close>

text \<open>Surroundings for the examples.\<close>

definition sample_ctx :: env_ctx where
  "sample_ctx = \<lparr>cx_build = plain_build, cx_limits = some_limits, cx_settings = zero_settings,
     cx_ext = null_world\<rparr>"

subsection \<open>Sequences of calls\<close>

text \<open>
  C5. However a core uses the environment callback, in any order, with any data and under
  changing settings and drivers, the frontend state stays well formed: the audio latency asked
  for is at most 512 ms, the pixel format is one the frontend knows, at most one of the two
  option-file flags is up, the status message fits its buffer and is marked set exactly when it
  is not empty, input labels lie inside the label table, and every stored subsystem has an
  identifier.
\<close>

theorem environment_run_invariant:
  assumes "env_inv lm s"
  shows "env_inv lm (run_handler (env_call lm) cmds s)"
  using assms by (rule environment.run_keeps)

lemma environment_run_invariant_witness:
  "env_inv some_limits (run_handler (env_call some_limits)
     [(sample_ctx, Audio (SET_MINIMUM_AUDIO_LATENCY (Some 9000))),
      (sample_ctx, Video (SET_PIXEL_FORMAT (Fmt_unknown 7))),
      (sample_ctx, Video (SET_PIXEL_FORMAT Fmt_RGB565))] zero_frontend)"
  by (rule environment_run_invariant)
     (simp add: env_inv_def known_format_def status_ok_def labels_in_table_def some_limits_def zero_defs)

text \<open>
  While the environment callback is switched off, a core's calls are all refused and leave
  the state as it is, whatever they are; with the switch off, the first command of a sequence
  is served by the switch.
\<close>

theorem environment_gate:
  "run_handler (env_call lm) cmds (s\<lparr>flags := insert Ignore_environment_cb fs\<rparr>)
     = s\<lparr>flags := insert Ignore_environment_cb fs\<rparr>
   \<and> runloop_environment_cb c cmd (s\<lparr>flags := insert Ignore_environment_cb fs\<rparr>)
     = (False, No_out, s\<lparr>flags := insert Ignore_environment_cb fs\<rparr>)
   \<and> runloop_environment_cb c cmd (s\<lparr>flags := fs - {Ignore_environment_cb}\<rparr>)
     = environment_switch c cmd (s\<lparr>flags := fs - {Ignore_environment_cb}\<rparr>)"
proof (intro conjI)
  show "run_handler (env_call lm) cmds (s\<lparr>flags := insert Ignore_environment_cb fs\<rparr>)
     = s\<lparr>flags := insert Ignore_environment_cb fs\<rparr>"
    by (rule environment.run_gated) simp
qed (simp_all add: runloop_environment_cb_def)

subsection \<open>Core options\<close>

text \<open>
  The option file: with game-specific options enabled an existing game file is taken before
  an existing folder file, and either before the global or per-core file; the two flags record
  the choice, and the chosen path is remembered for the first two, so that it can be saved
  there.
\<close>

theorem option_file_precedence:
  fixes x s
  defines "game \<equiv> fst (validate_per_core_options x False (si_library_name (sys s))
                        (Some (basename_nocompression x (paths s Path_basename))) s)"
    and "folder \<equiv> fst (validate_folder_options x False s)"
  shows "runloop_init_core_options_path x gs per_core opt s =
    (if gs \<and> usable x game
     then ((the game, []), s\<lparr>flags := insert Game_options_active (flags s - {Folder_options_active}),
             paths := (paths s)(Path_core_options := the game)\<rparr>)
     else if gs \<and> usable x folder
     then ((the folder, []), s\<lparr>flags := insert Folder_options_active (flags s - {Game_options_active}),
             paths := (paths s)(Path_core_options := the folder)\<rparr>)
     else init_core_options_path_default x per_core opt s)
    \<and> {Game_options_active, Folder_options_active}
        \<inter> flags (snd (init_core_options_path_default x per_core opt s)) = {}"
  by (auto simp: runloop_init_core_options_path_def game_def folder_def frontend_updates Let_def
      init_core_options_path_default_def split: prod.splits option.splits)

text \<open>
  C18. Declaring options anew saves the old ones first.  The old manager is flushed, written and
  then freed, in this order and before anything else happens.  With no option file of a game or a
  folder in use it goes into its own configuration and file; otherwise into the file in use, on top
  of what that file holds if it is there and can be read, and of an empty configuration if not.  Only
  when no empty configuration can be allocated in that last case is it freed without being saved.
  Only then the new manager, if its file path is not empty, takes its place; if none can be made
  there is no manager.
\<close>

theorem declare_options_saves_old:
  assumes "core_options s = Some m"
  shows "let t = env_declare_options x st (Some d) s; p = paths s Path_core_options;
      file = (if p = [] then com_conf_path m else p);
      conf = (if p = [] then Some (com_conf m)
              else if path_is_valid x p \<and> file_read x p \<noteq> None then file_read x p else conf_new x)
    in \<exists>later. calls t = calls s
          @ (case conf of Some c \<Rightarrow> [C_conf_write (com_flush x m c) file] | None \<Rightarrow> [])
          @ [C_options_free (com_body m)] @ later
      \<and> core_options t = fst (runloop_init_core_options x (core_option_category_enable st)
            (game_specific_options st) (\<not> global_core_options st) (path_core_options st) d
            (drop_core_options x s))"
proof -
  let ?p = "paths s Path_core_options"
  let ?conf = "if ?p = [] then Some (com_conf m)
    else if path_is_valid x ?p \<and> file_read x ?p \<noteq> None then file_read x ?p else conf_new x"
  let ?file = "if ?p = [] then com_conf_path m else ?p"
  have drop: "calls (drop_core_options x s)
      = calls s @ (case ?conf of Some c \<Rightarrow> [C_conf_write (com_flush x m c) ?file] | None \<Rightarrow> []) @ [C_options_free (com_body m)]"
    and none: "core_options (drop_core_options x s) = None"
    using assms by (auto simp: drop_core_options_def runloop_deinit_core_options_def
        lower_flags_def emit_def Let_def split: option.split)
  have step: "\<exists>later. calls (snd (runloop_init_core_options x c g p o1 d u)) = calls u @ later"
    "core_options (snd (runloop_init_core_options x c g p o1 d u)) = core_options u" for c g p o1 u
    using init_core_options_frame(1,3) [where s = u and x = x and c = c and g = g and p = p and ?o1.0 = o1 and d = d] by (auto simp: option_frame_def)
  have eq: "calls (env_declare_options x st (Some d) s) = calls (snd (runloop_init_core_options x (core_option_category_enable st)
        (game_specific_options st) (\<not> global_core_options st) (path_core_options st) d (drop_core_options x s)))"
    "core_options (env_declare_options x st (Some d) s) = fst (runloop_init_core_options x (core_option_category_enable st)
        (game_specific_options st) (\<not> global_core_options st) (path_core_options st) d (drop_core_options x s))"
    using step(2) [of "core_option_category_enable st" "game_specific_options st"
        "\<not> global_core_options st" "path_core_options st" "drop_core_options x s"]
    by (auto simp: env_declare_options_def Let_def install_options_def none split: prod.splits option.splits)
  obtain later where "calls (env_declare_options x st (Some d) s) = calls (drop_core_options x s) @ later"
    using step(1) eq(1) by metis
  then show ?thesis unfolding Let_def drop using eq(2) by (intro exI [of _ later]) simp
qed

text \<open>A folder's file is in use; it is there but cannot be read.\<close>

lemma declare_options_saves_old_witness:
  "\<exists>later. calls (env_declare_options (null_world\<lparr>conf_new := Some 5, path_is_valid := (\<lambda>_. True), file_read := (\<lambda>_. None),
        com_flush := (\<lambda>_ c. c + 1)\<rparr>) zero_settings (Some 9)
      (zero_frontend\<lparr>paths := (\<lambda>_. [])(Path_core_options := ''folder.opt''),
         core_options := Some \<lparr>com_updated = True, com_index = [], com_conf_path = ''a.opt'', com_conf = 3, com_body = 7\<rparr>\<rparr>))
    = [C_conf_write 6 ''folder.opt'', C_options_free 7] @ later"
proof -
  let ?m = "\<lparr>com_updated = True, com_index = [], com_conf_path = ''a.opt'', com_conf = 3, com_body = 7\<rparr>"
  let ?s = "zero_frontend\<lparr>paths := (\<lambda>_. [])(Path_core_options := ''folder.opt''), core_options := Some ?m\<rparr>"
  let ?x = "null_world\<lparr>conf_new := Some 5, path_is_valid := (\<lambda>_. True), file_read := (\<lambda>_. None), com_flush := (\<lambda>_ c. c + 1)\<rparr>"
  have "core_options ?s = Some ?m" by simp
  from declare_options_saves_old [OF this, of ?x zero_settings 9] show ?thesis
    by (simp add: Let_def null_world_def zero_frontend_def)
qed

text \<open>
  Reading an option acknowledges the changes made to the options: after a
  \<open>GET_VARIABLE\<close> with a key, whatever it finds, \<open>GET_VARIABLE_UPDATE\<close> answers no
  until an option is set again, and in run-ahead builds a pending change has been handed on by
  raising \<open>HAS_VARIABLE_UPDATE\<close>.  Options other than the injected ones are read from the
  option manager, injected ones from the app, and the rest of the state does not change.
\<close>

theorem get_variable_acknowledges:
  fixes b x key s
  defines "r \<equiv> env_get_variable b x (Some key) s"
  shows "res_out (env_get_variable_update (res_st r)) = Out_bool False
    \<and> (core_options s = None \<longrightarrow> r = (True, Out_str None, s))
    \<and> (\<forall>m. core_options s = Some m \<longrightarrow>
        res_ok r
        \<and> res_out r = Out_str (if injected_variable key s \<noteq> None then injected_variable key s
             else Option.bind (com_get_idx x (m\<lparr>com_updated := False\<rparr>) key)
                    (com_get_val x (m\<lparr>com_updated := False\<rparr>)))
        \<and> res_st r = s\<lparr>core_options := Some (m\<lparr>com_updated := False\<rparr>),
             flags := flags s \<union> (if have_runahead b \<and> com_updated m then {Has_variable_update} else {})\<rparr>)"
  by (simp add: r_def env_get_variable_def env_get_variable_update_def Let_def raise_flags_def
      split: option.split)

lemma get_variable_acknowledges_witness:
  "res_out (env_get_variable plain_build
       (null_world\<lparr>com_get_idx := (\<lambda>_ k. if k = ''fps'' then Some 1 else None),
          com_get_val := (\<lambda>_ i. if i = 1 then Some ''60'' else None)\<rparr>) (Some ''fps'')
       (zero_frontend\<lparr>core_options := Some \<lparr>com_updated = True, com_index = [], com_conf_path = [],
          com_conf = 3, com_body = 7\<rparr>\<rparr>)) = Out_str (Some ''60'')"
  using get_variable_acknowledges [of plain_build
       "null_world\<lparr>com_get_idx := (\<lambda>_ k. if k = ''fps'' then Some 1 else None),
          com_get_val := (\<lambda>_ i. if i = 1 then Some ''60'' else None)\<rparr>" "''fps''"
       "zero_frontend\<lparr>core_options := Some \<lparr>com_updated = True, com_index = [], com_conf_path = [],
          com_conf = 3, com_body = 7\<rparr>\<rparr>"]
  by (simp add: injected_variable_def zero_frontend_def)

text \<open>
  The option calls touch only the options: apart from the manager, the three flags about
  options, the remembered option path, the update-display callback and the log of calls, which
  only grows, the state after an option call is the one before it.
\<close>

theorem option_calls_frame: "option_frame s (res_st (option_handler c cmd s))"
  by (rule option_handler_frame)

subsection \<open>Hardware contexts\<close>

text \<open>
  A hardware context is granted exactly when the build can offer its type and version and
  either the video driver may be switched or the configured driver is one that serves the type;
  a refused request leaves the state as it was, and a granted one stores the core's callback
  with the frontend's framebuffer and symbol lookup in it.
\<close>

theorem hw_render_granted_iff:
  fixes b st e d s
  defines "r \<equiv> env_set_hw_render b st e d s"
  shows "(res_ok r \<longleftrightarrow>
      (\<exists>cb. d = Some cb \<and> dynamic_request_hw_context b (hw_type cb) (hw_minor cb) (hw_major cb)
        \<and> (driver_switch_enable st
           \<or> (case drivers_for b (hw_type cb) of None \<Rightarrow> True | Some ds \<Rightarrow> video_driver st \<in> set ds))))
    \<and> (\<not> res_ok r \<longrightarrow> r = (False, No_out, s))
    \<and> (res_ok r \<longrightarrow>
        hw_type (vs_hw (vid (res_st r))) = hw_type (the d)
        \<and> hw_get_framebuffer (vs_hw (vid (res_st r))) = Some ''video_driver_get_current_framebuffer''
        \<and> hw_get_proc_address (vs_hw (vid (res_st r))) = Some ''video_driver_get_proc_address'')"
proof (cases d)
  case None
  then show ?thesis by (simp add: r_def env_set_hw_render_def)
next
  case (Some cb)
  have "dynamic_verify_hw_context b (video_driver st) (driver_switch_enable st) (hw_type cb)
    \<longleftrightarrow> driver_switch_enable st
        \<or> (case drivers_for b (hw_type cb) of None \<Rightarrow> True | Some ds \<Rightarrow> video_driver st \<in> set ds)"
    by (cases "driver_switch_enable st") (simp_all add: verify_drivers_for)
  then show ?thesis
    by (simp add: r_def Some env_set_hw_render_def Let_def clear_new_members_def upd_vid_def)
qed

lemma hw_render_granted_iff_witness:
  "res_ok (env_set_hw_render (plain_build\<lparr>have_vulkan := True\<rparr>)
     (zero_settings\<lparr>video_driver := ''vulkan''\<rparr>) False (Some (zero_hw\<lparr>hw_type := HW_vulkan\<rparr>)) zero_frontend)
   \<and> \<not> res_ok (env_set_hw_render (plain_build\<lparr>have_vulkan := True\<rparr>)
     (zero_settings\<lparr>video_driver := ''gl''\<rparr>) False (Some (zero_hw\<lparr>hw_type := HW_vulkan\<rparr>)) zero_frontend)"
  using hw_render_granted_iff [of "plain_build\<lparr>have_vulkan := True\<rparr>"
      "zero_settings\<lparr>video_driver := ''vulkan''\<rparr>" False "Some (zero_hw\<lparr>hw_type := HW_vulkan\<rparr>)" zero_frontend]
    hw_render_granted_iff [of "plain_build\<lparr>have_vulkan := True\<rparr>"
      "zero_settings\<lparr>video_driver := ''gl''\<rparr>" False "Some (zero_hw\<lparr>hw_type := HW_vulkan\<rparr>)" zero_frontend]
  by (simp add: drivers_for_def dynamic_request_hw_context_def zero_settings_def)

text \<open>
  The context type that \<open>GET_PREFERRED_HW_RENDER\<close> proposes always passes the check
  against the configured driver, so a core that asks for what it was told is refused only if
  the build cannot offer it.
\<close>

theorem preferred_context_accepted:
  assumes "res_out (env_get_preferred_hw_render st s) = Out_hw_type ty" and "hw_type cb = ty"
  shows "res_ok (env_set_hw_render b st e (Some cb) s)
    \<longleftrightarrow> dynamic_request_hw_context b ty (hw_minor cb) (hw_major cb)"
  using assms preferred_verified [of b "video_driver st" "driver_switch_enable st"]
  by (auto simp: env_get_preferred_hw_render_def env_set_hw_render_def Let_def)

lemma preferred_context_accepted_witness:
  "res_ok (env_set_hw_render (plain_build\<lparr>have_vulkan := True\<rparr>) (zero_settings\<lparr>video_driver := ''vulkan''\<rparr>)
     False (Some (zero_hw\<lparr>hw_type := HW_vulkan\<rparr>)) zero_frontend)"
  using preferred_context_accepted [of "zero_settings\<lparr>video_driver := ''vulkan''\<rparr>" zero_frontend HW_vulkan
      "zero_hw\<lparr>hw_type := HW_vulkan\<rparr>" "plain_build\<lparr>have_vulkan := True\<rparr>" False]
  by (simp add: env_get_preferred_hw_render_def preferred_hw_render_def dynamic_request_hw_context_def)

text \<open>
  \<open>SET_SYSTEM_AV_INFO\<close> decides about the frame delay before it knows whether video
  is reinitialised: unless the display's refresh rate was switched, it pauses the automatic
  frame delay and keeps its target even for a change of the maximal size, for which video is
  reinitialised.
\<close>

theorem av_info_frame_delay_pause:
  assumes "video_frame_delay_auto st" and "\<not> has_resolution_list x"
  shows "vs_frame_delay_pause (vid (res_st (env_set_system_av_info x st (Some info) s)))
    \<and> vs_frame_delay_target (vid (res_st (env_set_system_av_info x st (Some info) s)))
        = vs_frame_delay_target (vid s)
    \<and> (av_max_width info \<noteq> av_max_width (vs_av (vid s)) \<longrightarrow>
        C_reinit [Drv_camera, Drv_microphone] \<in> set (calls (res_st (env_set_system_av_info x st (Some info) s))))"
  using assms by (simp add: env_set_system_av_info_def adjust_frame_delay_def Let_def emit_def)

lemma av_info_frame_delay_pause_witness:
  "vs_frame_delay_pause (vid (res_st (env_set_system_av_info null_world
      (zero_settings\<lparr>video_frame_delay_auto := True\<rparr>) (Some (zero_av\<lparr>av_max_width := 640\<rparr>)) zero_frontend)))
   \<and> C_reinit [Drv_camera, Drv_microphone] \<in> set (calls (res_st (env_set_system_av_info null_world
      (zero_settings\<lparr>video_frame_delay_auto := True\<rparr>) (Some (zero_av\<lparr>av_max_width := 640\<rparr>)) zero_frontend)))"
  using av_info_frame_delay_pause [of "zero_settings\<lparr>video_frame_delay_auto := True\<rparr>" null_world
      "zero_av\<lparr>av_max_width := 640\<rparr>" zero_frontend]
  by (simp add: null_world_def zero_frontend_def zero_vid_def zero_av_def)

subsection \<open>Audio latency\<close>

text \<open>
  After \<open>SET_MINIMUM_AUDIO_LATENCY\<close> the latency in force is the configured one or the
  one the core asked for, cut at 512 ms, whichever is larger; a null request takes the core's
  wish back; and the audio driver is reinitialised exactly when the latency in force changes.
\<close>

theorem minimum_audio_latency:
  fixes x st data s
  defines "t \<equiv> res_st (env_set_minimum_audio_latency x st data s)"
  shows "effective_latency st t
      = max (set_audio_latency st) (case data of None \<Rightarrow> 0 | Some l \<Rightarrow> min l 512)
    \<and> (calls t \<noteq> calls s \<longleftrightarrow> effective_latency st t \<noteq> effective_latency st s)
    \<and> (calls t = calls s \<or> (\<exists>cs. calls t = calls s @ C_reinit [Drv_video, Drv_input, Drv_menu] # cs))"
proof (intro conjI)
  show "effective_latency st t
      = max (set_audio_latency st) (case data of None \<Rightarrow> 0 | Some l \<Rightarrow> min l 512)"
    by (auto simp: t_def env_set_minimum_audio_latency_def effective_latency_def Let_def emit_def min_def
        split: option.split)
  show "calls t \<noteq> calls s \<longleftrightarrow> effective_latency st t \<noteq> effective_latency st s"
    unfolding t_def by (rule minimum_latency_reinit)
  show "calls t = calls s \<or> (\<exists>cs. calls t = calls s @ C_reinit [Drv_video, Drv_input, Drv_menu] # cs)"
    by (simp add: t_def env_set_minimum_audio_latency_def Let_def)
qed

subsection \<open>Input labels\<close>

text \<open>
  The labels after \<open>SET_INPUT_DESCRIPTORS\<close>: a descriptor inside the table labels
  every slot it names, unless a later one names the same slot of the same port; entries after
  the first descriptor without description do not count; all earlier labels are gone.
\<close>

theorem input_descriptor_labels:
  assumes "id_port d < max_users lm" "id_id d < first_custom_bind lm"
    and "b \<in> set (label_slots lm d)"
    and "\<forall>e\<in>set (d # ds @ es). id_description e \<noteq> None"
    and "\<forall>e\<in>set es. \<not> (id_port e = id_port d \<and> b \<in> set (label_slots lm e))"
    and "id_description stop = None"
  shows "si_input_desc (sys (res_st (env_set_input_descriptors lm (ds @ d # es @ stop # rest) s)))
      (id_port d) b = id_description d"
proof -
  have "until_null (\<lambda>d. id_description d \<noteq> None) (ds @ d # es @ stop # rest) = ds @ d # es"
    using assms(4,6) by (simp add: until_null_def takeWhile_append2)
  then show ?thesis
    using last_descriptor_wins [OF assms(1-3,5)]
    by (simp add: env_set_input_descriptors_def upd_sys_def)
qed

lemma input_descriptor_labels_witness:
  "si_input_desc (sys (res_st (env_set_input_descriptors some_limits
      [\<lparr>id_port = 0, id_device = Dev_analog, id_index = Idx_left, id_id = 0, id_description = Some ''steer''\<rparr>,
       \<lparr>id_port = 0, id_device = Dev_joypad, id_index = Idx_left, id_id = 8, id_description = Some ''A''\<rparr>,
       \<lparr>id_port = 0, id_device = Dev_joypad, id_index = Idx_left, id_id = 0, id_description = None\<rparr>]
      zero_frontend))) 0 (Analog Left_x_minus) = Some ''steer''"
  using input_descriptor_labels [of
      "\<lparr>id_port = 0, id_device = Dev_analog, id_index = Idx_left, id_id = 0, id_description = Some ''steer''\<rparr>"
      some_limits "Analog Left_x_minus" "[]"
      "[\<lparr>id_port = 0, id_device = Dev_joypad, id_index = Idx_left, id_id = 8, id_description = Some ''A''\<rparr>]"
      "\<lparr>id_port = 0, id_device = Dev_joypad, id_index = Idx_left, id_id = 0, id_description = None\<rparr>"
      "[]" zero_frontend]
  by (simp add: some_limits_def label_slots_def)

subsection \<open>Status messages\<close>

text \<open>
  In every state the environment calls lead to, the priority of the status message on
  display counts as 0, as no call stores one: a message of any priority replaces it, also a
  lower one.
\<close>

theorem status_priority_not_kept:
  assumes "env_inv (cx_limits c) s" and "me_type m = Type_status" and "me_target m = Target_all"
    and "me_msg m \<noteq> []"
  shows "csm_str (core_status_msg (res_st (message_handler c (SET_MESSAGE_EXT m) s)))
      = strlcpy (max_status_msg (cx_limits c)) (me_msg m)
    \<and> csm_priority (core_status_msg (res_st (message_handler c (SET_MESSAGE_EXT m) s))) = 0"
proof -
  have "csm_priority (core_status_msg s) = 0"
    using assms(1) by (simp add: env_inv_def status_ok_def)
  from set_status_overwrites [OF this assms(4)] set_status_priority [OF this] show ?thesis
    by (simp add: env_set_message_ext_def display_message_ext_def assms)
qed

definition status_message :: "string \<Rightarrow> u32 \<Rightarrow> message_ext" where
  "status_message t p = \<lparr>me_msg = t, me_duration = 100, me_priority = p, me_level = Log_info,
     me_target = Target_all, me_type = Type_status, me_progress = 0\<rparr>"

lemma status_priority_not_kept_witness:
  "let s = res_st (message_handler sample_ctx (SET_MESSAGE_EXT (status_message ''urgent'' 9)) zero_frontend)
   in csm_str (core_status_msg s) = ''urgent''
      \<and> csm_str (core_status_msg (res_st (message_handler sample_ctx
            (SET_MESSAGE_EXT (status_message ''idle'' 1)) s))) = ''idle''"
proof -
  let ?s = "res_st (message_handler sample_ctx (SET_MESSAGE_EXT (status_message ''urgent'' 9)) zero_frontend)"
  have z: "env_inv (cx_limits sample_ctx) zero_frontend"
    by (simp add: sample_ctx_def env_inv_def known_format_def status_ok_def labels_in_table_def
        some_limits_def zero_defs)
  from message_handler_inv [OF z] have i: "env_inv (cx_limits sample_ctx) ?s" .
  show ?thesis
    using status_priority_not_kept [OF z, of "status_message ''urgent'' 9"]
      status_priority_not_kept [OF i, of "status_message ''idle'' 1"]
    by (simp add: status_message_def sample_ctx_def some_limits_def strlcpy_def Let_def)
qed

end
