(* ===== verification/Timing_Properties.thy ===== *)
theory Timing_Properties
  imports Env_System External
begin

text \<open>
  What the timing code promises: the swap interval, the frame limit under a fast-motion
  override, the run time counted per frame, and the throttle state reported to the core.
\<close>

text \<open>
  The swap interval in force after \<open>runloop_set_video_swap_interval\<close> is the configured
  one if that is not 0.  Otherwise it is between 1 and 4, and it is above 1 only without variable
  refresh rate, black frame insertion and shader subframes, for a core rate that is positive and
  not above the display's, and where the rate the display then has per core frame misses the
  core's by at most the configured skew.
\<close>

theorem swap_interval_auto:
  fixes st s
  defines "n \<equiv> runloop_get_video_swap_interval (video_swap_interval st) (runloop_set_video_swap_interval st s)"
    and "f \<equiv> av_fps (vs_av (vid s))"
    and "r \<equiv> (if vs_crt_switching (vid s) then av_fps (vs_av (vid s)) else video_refresh_rate st)"
  shows "(video_swap_interval st \<noteq> 0 \<longrightarrow> n = video_swap_interval st)
    \<and> (video_swap_interval st = 0 \<longrightarrow> n \<in> {1, 2, 3, 4})
    \<and> (video_swap_interval st = 0 \<and> n \<noteq> 1 \<longrightarrow>
        \<not> vrr_runloop_enable st \<and> video_black_frame_insertion st = 0 \<and> video_shader_subframes st \<le> 1
        \<and> 0 < f \<and> f \<le> r
        \<and> \<bar>1 - f / (r / rat_of_int (swap_integer f r))\<bar> \<le> audio_max_timing_skew st
        \<and> n = word_of_int (swap_integer f r))"
proof (cases "video_swap_interval st = 0")
  case True
  then have n: "n = auto_swap_interval st f r"
    by (simp add: n_def f_def r_def runloop_get_video_swap_interval_def
        runloop_set_video_swap_interval_def Let_def)
  have "auto_swap_interval st f r \<noteq> 1 \<Longrightarrow> \<not> vrr_runloop_enable st
      \<and> video_black_frame_insertion st = 0 \<and> video_shader_subframes st \<le> 1"
    by (auto simp: auto_swap_interval_def not_less split: if_split_asm)
  with auto_swap_interval_not_1 [of st f r] swap_interval_range [of st f r] True show ?thesis
    by (simp only: n timing_skew_def) blast
next
  case False
  then show ?thesis by (simp add: n_def runloop_get_video_swap_interval_def)
qed

lemma swap_interval_auto_witness:
  "runloop_get_video_swap_interval 3 (runloop_set_video_swap_interval
      (zero_settings\<lparr>video_swap_interval := 3\<rparr>) zero_frontend) = 3"
  using swap_interval_auto [of "zero_settings\<lparr>video_swap_interval := 3\<rparr>" zero_frontend] by simp

text \<open>
  Applying a core's fast-motion override: afterwards the fast-motion flag is the core's
  wish, the current override is the requested one, input is non-blocking and audio muted exactly
  as fast motion and the mute setting say if the flag changed, and the frame limit is recomputed
  from the ratio then in force exactly when that ratio is another one.
\<close>

theorem fastmotion_override_applied:
  fixes b x rc d m s
  defines "t \<equiv> runloop_apply_fastmotion_override b x rc d m s"
  shows "(Fastmotion \<in> flags t \<longleftrightarrow> ff_fastforward (ff_next s))
    \<and> ff_current t = ff_next s
    \<and> ((Fastmotion \<in> flags s) = ff_fastforward (ff_next s) \<longrightarrow> calls t = calls s \<and> inp t = inp s)
    \<and> ((Fastmotion \<in> flags s) \<noteq> ff_fastforward (ff_next s) \<longrightarrow>
         calls t = calls s @ [C_set_nonblock_state]
         \<and> is_nonblocking (inp t) = ff_fastforward (ff_next s)
         \<and> as_muted (aud t) = (m \<and> ff_fastforward (ff_next s)))
    \<and> frame_limit_minimum_time t =
        (let new = ff_effective d (ff_next s)
         in if new = ff_effective d (ff_current s) then frame_limit_minimum_time s
            else if new < 1 then 0
            else round_half_away (1000000 / (av_fps (vs_av (vid s)) * new)))"
proof (intro conjI)
  show "Fastmotion \<in> flags t \<longleftrightarrow> ff_fastforward (ff_next s)"
    unfolding t_def by (rule apply_override_flag)
  show "frame_limit_minimum_time t =
        (let new = ff_effective d (ff_next s)
         in if new = ff_effective d (ff_current s) then frame_limit_minimum_time s
            else if new < 1 then 0
            else round_half_away (1000000 / (av_fps (vs_av (vid s)) * new)))"
    by (simp add: t_def runloop_apply_fastmotion_override_def switch_fastmotion_def Let_def
        frontend_updates runloop_set_frame_limit_def)
qed (simp_all add: t_def runloop_apply_fastmotion_override_def switch_fastmotion_def Let_def
        frontend_updates runloop_set_frame_limit_def)

lemma fastmotion_override_applied_witness:
  "is_nonblocking (inp (runloop_apply_fastmotion_override plain_build null_world False 0 True
     (zero_frontend\<lparr>ff_next := zero_ff\<lparr>ff_fastforward := True, ff_ratio := 4\<rparr>\<rparr>)))"
  using fastmotion_override_applied [of plain_build null_world False 0 True
     "zero_frontend\<lparr>ff_next := zero_ff\<lparr>ff_fastforward := True, ff_ratio := 4\<rparr>\<rparr>"]
  by (simp add: zero_frontend_def)

lemma throttle_no_audio_cases:
  "fst mr \<noteq> Thr_unblocked \<Longrightarrow> throttle_no_audio s mr = mr \<and> fst mr \<noteq> Thr_unblocked
     \<or> throttle_no_audio s mr = (Thr_unblocked, 0) \<and> no_audio s"
  by (simp add: throttle_no_audio_def)

lemma throttle_vsync_cases:
  assumes "fst mr \<noteq> Thr_vsync"
  shows "fst (throttle_vsync b x st s mr) = fst mr
    \<or> fst (throttle_vsync b x st s mr) = Thr_vsync
       \<and> snd (throttle_vsync b x st s mr) < av_fps (vs_av (vid s))
       \<and> snd (throttle_vsync b x st s mr)
          = (if get_refresh_rate x = 0 then video_refresh_rate st else get_refresh_rate x)"
proof -
  define refresh where "refresh = (if get_refresh_rate x = 0 then video_refresh_rate st else get_refresh_rate x)"
  show ?thesis
    unfolding throttle_vsync_def refresh_def [symmetric] by (cases mr) simp
qed

lemma throttle_base_cases:
  "fst (throttle_base x st s) \<in> {Thr_fast_forward, Thr_slow_motion, Thr_none}"
  "fst (throttle_base x st s) = Thr_fast_forward \<Longrightarrow> Fastmotion \<in> flags s"
  "fst (throttle_base x st s) = Thr_slow_motion \<Longrightarrow> Slowmotion \<in> flags s \<and> Fastmotion \<notin> flags s \<and> \<not> no_audio s"
  by (simp_all add: throttle_base_def Let_def split: if_split_asm)

text \<open>The mode left by the three stages, when neither rewinding nor paused.\<close>

lemma throttle_stages:
  assumes "throttle_no_audio s (throttle_vsync b x st s (throttle_base x st s)) = (mode, rate)"
  shows "mode = Thr_unblocked \<and> rate = 0 \<and> no_audio s
    \<or> mode = Thr_vsync \<and> rate < av_fps (vs_av (vid s))
       \<and> rate = (if get_refresh_rate x = 0 then video_refresh_rate st else get_refresh_rate x)
    \<or> mode = fst (throttle_base x st s)"
proof -
  obtain m r where vr: "throttle_vsync b x st s (throttle_base x st s) = (m, r)" by fastforce
  have v: "m = fst (throttle_base x st s) \<or> m = Thr_vsync \<and> r < av_fps (vs_av (vid s))
         \<and> r = (if get_refresh_rate x = 0 then video_refresh_rate st else get_refresh_rate x)"
    using throttle_vsync_cases [of "throttle_base x st s" b x st s] throttle_base_cases(1) [of x st s]
    by (auto simp: vr)
  then have "fst (m, r) \<noteq> Thr_unblocked"
    using throttle_base_cases(1) [of x st s] by auto
  from throttle_no_audio_cases [OF this, of s] show ?thesis using v assms by (auto simp: vr)
qed

text \<open>
  The throttle state is never contradictory: rewinding and frame stepping report rate 0, and
  only they are reported while rewinding or paused; fast forward is reported only in fast
  motion; vertical sync only at the display's rate and only if that is below the core's; and an
  unblocked core, with rate 0, is one whose audio is off.
\<close>

theorem throttle_state_consistent:
  assumes "res_out (env_get_throttle_state b x st s) = Out_throttle mode rate"
  shows "(mode = Thr_rewinding \<longleftrightarrow> have_rewind b \<and> rewind_reversed s)
    \<and> (mode = Thr_frame_stepping \<longleftrightarrow> \<not> (have_rewind b \<and> rewind_reversed s) \<and> throttle_paused b x st s)
    \<and> (mode \<in> {Thr_rewinding, Thr_frame_stepping, Thr_unblocked} \<longrightarrow> rate = 0)
    \<and> (mode = Thr_fast_forward \<longrightarrow> Fastmotion \<in> flags s)
    \<and> (mode = Thr_slow_motion \<longrightarrow> Slowmotion \<in> flags s \<and> Fastmotion \<notin> flags s \<and> \<not> no_audio s)
    \<and> (mode = Thr_unblocked \<longrightarrow> no_audio s)
    \<and> (mode = Thr_vsync \<longrightarrow> rate < av_fps (vs_av (vid s))
         \<and> rate = (if get_refresh_rate x = 0 then video_refresh_rate st else get_refresh_rate x))"
proof -
  consider "have_rewind b \<and> rewind_reversed s" | "\<not> (have_rewind b \<and> rewind_reversed s)" "throttle_paused b x st s"
    | "\<not> (have_rewind b \<and> rewind_reversed s)" "\<not> throttle_paused b x st s" by blast
  then show ?thesis
  proof cases
    case 1
    with assms have "mode = Thr_rewinding" "rate = 0" by (simp_all add: env_get_throttle_state_def)
    with 1 show ?thesis by simp
  next
    case 2
    then have "res_out (env_get_throttle_state b x st s) = Out_throttle Thr_frame_stepping 0"
      by (simp only: env_get_throttle_state_def if_False if_True fst_conv snd_conv)
    with assms have "mode = Thr_frame_stepping" "rate = 0" by simp_all
    with 2 show ?thesis by simp
  next
    case 3
    with assms have "throttle_no_audio s (throttle_vsync b x st s (throttle_base x st s)) = (mode, rate)"
      by (simp add: env_get_throttle_state_def split: prod.splits if_split_asm)
    from throttle_stages [OF this] throttle_base_cases [of x st s] 3 show ?thesis
      by (elim disjE conjE) auto
  qed
qed

lemma throttle_state_consistent_witness:
  "res_out (env_get_throttle_state plain_build null_world zero_settings
     (zero_frontend\<lparr>flags := {Paused}\<rparr>)) = Out_throttle Thr_frame_stepping 0
   \<and> throttle_paused plain_build null_world zero_settings (zero_frontend\<lparr>flags := {Paused}\<rparr>)"
proof -
  let ?s = "zero_frontend\<lparr>flags := {Paused}\<rparr>"
  have "res_out (env_get_throttle_state plain_build null_world zero_settings ?s)
     = Out_throttle Thr_frame_stepping 0"
    by (simp add: env_get_throttle_state_def throttle_paused_def plain_build_def)
  with throttle_state_consistent [OF this] show ?thesis by simp
qed

end
