(* ===== verification/Core_Session.thy ===== *)
theory Core_Session
  imports Env_Invariant
begin

text \<open>
  The frontend around one loaded core: the callbacks registered with it, the calls into it
  (\<open>core_run\<close>, \<open>core_load_game\<close>, serialisation, cheats, controllers) and what
  the core does while such a call runs.

  The core is not part of the repository.  What it does during a call is a list of actions:
  environment calls, polls and reads of input through the callbacks it was given.  The theorems
  hold for every list, hence for every core.  What it returns is an argument as well.
\<close>

subsection \<open>Callbacks\<close>

datatype host_fn =
    Fn_none | Fn_video_frame | Fn_audio_sample | Fn_audio_sample_batch
  | Fn_state_wrapper | Fn_poll_late | Fn_poll_maybe | Fn_driver_poll
  | Fn_video_net | Fn_audio_net | Fn_audio_batch_net | Fn_state_net

record callbacks =
  frame_cb :: host_fn
  sample_cb :: host_fn
  sample_batch_cb :: host_fn
  state_cb :: host_fn
  poll_cb :: host_fn

datatype core_type = Core_type_plain | Core_type_dummy | Core_type_other u32

text \<open>
  \<open>core_cbs\<close> is what the core was given, \<open>retro_ctx\<close> the frontend's own copy.
\<close>

record session =
  fe :: frontend
  core_cbs :: callbacks
  retro_ctx :: callbacks
  frame_cache :: bool
  remapping_cache_active :: bool
  current_core_type :: core_type
  explicit_current_core_type :: core_type
  remapfile :: string
  runtime_shader_preset_path :: string
  analog_requested :: bool
  frame_time_last :: int
  max_frames :: u32
  perf_counters :: "handle list"
  lib_open :: bool
  refresh_rate_changed :: bool

definition upd_fe :: "(frontend \<Rightarrow> frontend) \<Rightarrow> session \<Rightarrow> session" where
  "upd_fe f s = s\<lparr>fe := f (fe s)\<rparr>"

lemma fe_upd_fe [simp]: "fe (upd_fe f s) = f (fe s)"
  by (simp add: upd_fe_def)

lemma upd_fe_keeps [simp]:
  "core_cbs (upd_fe f s) = core_cbs s" "retro_ctx (upd_fe f s) = retro_ctx s"
  "frame_cache (upd_fe f s) = frame_cache s" "frame_time_last (upd_fe f s) = frame_time_last s"
  "max_frames (upd_fe f s) = max_frames s" "perf_counters (upd_fe f s) = perf_counters s"
  "analog_requested (upd_fe f s) = analog_requested s"
  by (simp_all add: upd_fe_def)

definition tell :: "core_call list \<Rightarrow> session \<Rightarrow> session" where
  "tell ks = upd_fe (emit (map C_core ks))"

definition upd_core_flags :: "(core_flag set \<Rightarrow> core_flag set) \<Rightarrow> frontend \<Rightarrow> frontend" where
  "upd_core_flags f s = s\<lparr>current_core := (current_core s)\<lparr>rc_flags := f (rc_flags (current_core s))\<rparr>\<rparr>"

subsection \<open>Polling of the input\<close>

text \<open>The policy in force: the core's override, or the configured one.\<close>

definition new_poll_type :: "frontend \<Rightarrow> poll_type" where
  "new_poll_type s =
     (case poll_type_override s of
        Override_to p \<Rightarrow> p | Override_dontcare \<Rightarrow> rc_poll_type (current_core s))"

definition core_input_state_poll_late :: "frontend \<Rightarrow> frontend" where
  "core_input_state_poll_late s =
     upd_core_flags (insert Core_input_polled)
       (if Core_input_polled \<notin> rc_flags (current_core s) then emit [C_input_poll] s else s)"

definition core_input_state_poll_maybe :: "frontend \<Rightarrow> frontend" where
  "core_input_state_poll_maybe s =
     (if new_poll_type s = Poll_normal then emit [C_input_poll] s else s)"

definition core_input_state_poll_return_cb :: "frontend \<Rightarrow> host_fn" where
  "core_input_state_poll_return_cb s =
     (if new_poll_type s = Poll_late then Fn_poll_late else Fn_state_wrapper)"

subsection \<open>Registering callbacks\<close>

definition core_set_default_callbacks :: "frontend \<Rightarrow> callbacks" where
  "core_set_default_callbacks s =
     \<lparr>frame_cb = Fn_video_frame, sample_cb = Fn_audio_sample, sample_batch_cb = Fn_audio_sample_batch,
      state_cb = core_input_state_poll_return_cb s, poll_cb = Fn_driver_poll\<rparr>"

text \<open>\<open>packets\<close>: the core brings its own network packet interface.\<close>

definition core_set_netplay_callbacks :: "bool \<Rightarrow> session \<Rightarrow> session" where
  "core_set_netplay_callbacks packets s =
     (if packets then s
      else (upd_fe (\<lambda>f. f\<lparr>current_core := (current_core f)\<lparr>rc_poll_type := Poll_normal\<rparr>\<rparr>) s)
        \<lparr>core_cbs := (core_cbs s)\<lparr>frame_cb := Fn_video_net, sample_cb := Fn_audio_net,
            sample_batch_cb := Fn_audio_batch_net, state_cb := Fn_state_net\<rparr>\<rparr>)"

definition core_unset_netplay_callbacks :: "session \<Rightarrow> session" where
  "core_unset_netplay_callbacks s =
     (let cbs = core_set_default_callbacks (fe s)
      in s\<lparr>core_cbs := cbs\<lparr>poll_cb := poll_cb (core_cbs s)\<rparr>\<rparr>)"

definition core_init_libretro_cbs :: "build \<Rightarrow> bool \<Rightarrow> bool \<Rightarrow> session \<Rightarrow> session" where
  "core_init_libretro_cbs b netplay_inited packets s =
     (let cbs = \<lparr>frame_cb = Fn_video_frame, sample_cb = Fn_audio_sample,
            sample_batch_cb = Fn_audio_sample_batch,
            state_cb = core_input_state_poll_return_cb (fe s), poll_cb = Fn_poll_maybe\<rparr>;
          s1 = s\<lparr>core_cbs := cbs, retro_ctx := core_set_default_callbacks (fe s)\<rparr>
      in if have_networking b \<and> netplay_inited then core_set_netplay_callbacks packets s1 else s1)"

definition core_verify_api_version :: "u32 \<Rightarrow> u32 \<Rightarrow> bool" where
  "core_verify_api_version compiled core = (core = compiled)"

definition runloop_event_load_core ::
    "build \<Rightarrow> bool \<Rightarrow> bool \<Rightarrow> u32 \<Rightarrow> u32 \<Rightarrow> av_info \<Rightarrow> poll_type \<Rightarrow> session \<Rightarrow> bool \<times> session" where
  "runloop_event_load_core b netplay_inited packets api core_api av poll s =
     (let s1 = upd_fe (\<lambda>f. f\<lparr>current_core := (current_core f)\<lparr>rc_poll_type := poll\<rparr>\<rparr>) s
      in if \<not> core_verify_api_version api core_api then (False, s1)
         else (True, upd_fe (upd_vid (\<lambda>v. v\<lparr>vs_av := av\<rparr>))
                       (core_init_libretro_cbs b netplay_inited packets s1)))"

definition core_set_poll_type :: "poll_type \<Rightarrow> session \<Rightarrow> session" where
  "core_set_poll_type p = upd_fe (\<lambda>f. f\<lparr>current_core := (current_core f)\<lparr>rc_poll_type := p\<rparr>\<rparr>)"

definition runloop_set_current_core_type :: "core_type \<Rightarrow> bool \<Rightarrow> session \<Rightarrow> session" where
  "runloop_set_current_core_type ty explicit s =
     (if Has_set_core \<in> flags (fe s) then s
      else let s1 = (if explicit
                     then (upd_fe (raise_flags {Has_set_core}) s)\<lparr>explicit_current_core_type := ty\<rparr>
                     else s)
           in s1\<lparr>current_core_type := ty\<rparr>)"

subsection \<open>What a core does\<close>

datatype core_action = Act_env env_ctx env_cmd | Act_poll | Act_state

fun run_poll :: "host_fn \<Rightarrow> frontend \<Rightarrow> frontend" where
  "run_poll Fn_poll_maybe s = core_input_state_poll_maybe s"
| "run_poll Fn_driver_poll s = emit [C_input_poll] s"
| "run_poll _ s = s"

fun run_state :: "host_fn \<Rightarrow> frontend \<Rightarrow> frontend" where
  "run_state Fn_poll_late s = core_input_state_poll_late s"
| "run_state _ s = s"

fun core_act :: "limits \<Rightarrow> callbacks \<Rightarrow> core_action \<Rightarrow> frontend \<Rightarrow> frontend" where
  "core_act lm cbs (Act_env c cmd) s = res_st (env_call lm (c, cmd) s)"
| "core_act lm cbs Act_poll s = run_poll (poll_cb cbs) s"
| "core_act lm cbs Act_state s = run_state (state_cb cbs) s"

fun core_acts :: "limits \<Rightarrow> callbacks \<Rightarrow> core_action list \<Rightarrow> frontend \<Rightarrow> frontend" where
  "core_acts lm cbs [] s = s"
| "core_acts lm cbs (a # as) s = core_acts lm cbs as (core_act lm cbs a s)"

subsection \<open>A frame\<close>

definition core_run ::
    "build \<Rightarrow> ext \<Rightarrow> limits \<Rightarrow> core_action list \<Rightarrow> session \<Rightarrow> session" where
  "core_run b x lm acts s =
     (let p = new_poll_type (fe s)
      in if have_networking b \<and> \<not> netplay_pre_frame x
         then upd_fe (emit [C_input_poll, C_cached_frame]) s
         else
           let f1 = (if p = Poll_early then emit [C_input_poll] (fe s)
                     else if p = Poll_late then upd_core_flags (\<lambda>fl. fl - {Core_input_polled}) (fe s)
                     else fe s);
               f2 = core_acts lm (core_cbs s) acts (emit [C_retro_run] f1);
               f3 = (if p = Poll_late \<and> Core_input_polled \<notin> rc_flags (current_core f2)
                     then emit [C_input_poll] f2 else f2)
           in upd_fe (\<lambda>_. if have_networking b then emit [C_netplay_post_frame] f3 else f3) s)"

subsection \<open>Loading a game\<close>

text \<open>
  How the core is asked to load: a subsystem's content, a file, or nothing if it needs none.
  The argument is what the core does during the call and whether it succeeds.
\<close>

datatype load_request = Load_special | Load_file | Load_nothing

definition load_request :: "bool \<Rightarrow> (bool \<times> string) option \<Rightarrow> load_request option" where
  "load_request needs_no_content info =
     (case info of
        Some (special, path) \<Rightarrow>
          if special then Some Load_special
          else if path \<noteq> [] then Some Load_file
          else if needs_no_content then Some Load_nothing else None
      | None \<Rightarrow> if needs_no_content then Some Load_nothing else None)"

definition core_load_game ::
    "build \<Rightarrow> limits \<Rightarrow> load_request option \<Rightarrow> core_action list \<Rightarrow> bool \<Rightarrow> session \<Rightarrow> bool \<times> session" where
  "core_load_game b lm req acts ok s =
     (let s1 = (tell ((if have_runahead b then [K_runahead_content] else [])
                      @ (if have_runahead b \<and> have_dynamic b then [K_runahead_clear_ports] else []))
                  (s\<lparr>frame_cache := False\<rparr>));
          s2 = upd_fe (emit [C_save_in_background False]) s1;
          loaded = (req \<noteq> None \<and> ok);
          s3 = (if req \<noteq> None
                then upd_fe (core_acts lm (core_cbs s) acts) (tell [K_load_game] s2) else s2)
      in if loaded
         then (True, (upd_fe (upd_core_flags (insert Core_game_loaded)) s3)\<lparr>remapping_cache_active := True\<rparr>)
         else (False, upd_fe (upd_core_flags (\<lambda>fl. fl - {Core_game_loaded})) s3))"

definition core_reset :: "limits \<Rightarrow> core_action list \<Rightarrow> session \<Rightarrow> session" where
  "core_reset lm acts s =
     upd_fe (core_acts lm (core_cbs s) acts) (tell [K_reset] (s\<lparr>frame_cache := False\<rparr>))"

subsection \<open>Serialisation\<close>

text \<open>
  A special savestate is one that is not kept: the flag is up for the duration of the call.
  \<open>ret\<close> is what the core returns.
\<close>

definition core_serialize :: "limits \<Rightarrow> bool \<Rightarrow> core_action list \<Rightarrow> bool \<Rightarrow> session \<Rightarrow> bool \<times> session" where
  "core_serialize lm info acts ret s =
     (if \<not> info then (False, s) else (ret, upd_fe (core_acts lm (core_cbs s) acts) s))"

definition special_call ::
    "limits \<Rightarrow> core_action list \<Rightarrow> session \<Rightarrow> session" where
  "special_call lm acts s =
     upd_fe (\<lambda>f. lower_flags {Request_special_savestate}
                   (core_acts lm (core_cbs s) acts (raise_flags {Request_special_savestate} f))) s"

definition core_serialize_special ::
    "limits \<Rightarrow> bool \<Rightarrow> core_action list \<Rightarrow> bool \<Rightarrow> session \<Rightarrow> bool \<times> session" where
  "core_serialize_special lm info acts ret s =
     (if \<not> info then (False, s) else (ret, special_call lm acts s))"

definition core_serialize_size_special ::
    "limits \<Rightarrow> core_action list \<Rightarrow> u64 \<Rightarrow> session \<Rightarrow> u64 \<times> session" where
  "core_serialize_size_special lm acts ret s = (ret, special_call lm acts s)"

definition core_unserialize ::
    "build \<Rightarrow> limits \<Rightarrow> bool \<Rightarrow> core_action list \<Rightarrow> bool \<Rightarrow> session \<Rightarrow> bool \<times> session" where
  "core_unserialize b lm info acts ret s =
     (if \<not> info then (False, s)
      else let s1 = upd_fe (core_acts lm (core_cbs s) acts) s
           in if \<not> ret then (False, s1)
              else (True, tell ((if have_networking b then [K_netplay_load_savestate] else [])
                                @ (if have_runahead b then [K_preempt_reset_buffer] else [])) s1))"

definition core_unserialize_special ::
    "build \<Rightarrow> limits \<Rightarrow> bool \<Rightarrow> core_action list \<Rightarrow> bool \<Rightarrow> session \<Rightarrow> bool \<times> session" where
  "core_unserialize_special b lm info acts ret s =
     (if \<not> info then (False, s)
      else let s1 = special_call lm acts s
           in (ret, if have_networking b \<and> ret then tell [K_netplay_load_savestate] s1 else s1))"

subsection \<open>Cheats and controllers\<close>

definition want_runahead :: "build \<Rightarrow> ext \<Rightarrow> settings \<Rightarrow> frontend \<Rightarrow> bool" where
  "want_runahead b x st s \<longleftrightarrow>
     run_ahead_enabled st \<and> 0 < run_ahead_frames st \<and> Runahead_available \<in> flags s
     \<and> (have_networking b \<longrightarrow> \<not> netplay_enabled x)"

text \<open>Whether the secondary core gets the call too; \<open>has_fn\<close>: it has the entry point.\<close>

definition secondary_too :: "build \<Rightarrow> ext \<Rightarrow> settings \<Rightarrow> bool \<Rightarrow> frontend \<Rightarrow> bool" where
  "secondary_too b x st has_fn s \<longleftrightarrow>
     have_runahead b \<and> have_dynamic b \<and> want_runahead b x st s \<and> run_ahead_secondary_instance st
     \<and> Runahead_secondary_core_available \<in> flags s \<and> secondary_core_exists x \<and> has_fn"

definition core_set_cheat ::
    "build \<Rightarrow> ext \<Rightarrow> settings \<Rightarrow> bool \<Rightarrow> u32 \<Rightarrow> bool \<Rightarrow> string \<Rightarrow> session \<Rightarrow> session" where
  "core_set_cheat b x st has_fn idx enabled code s =
     tell (K_cheat_set False idx enabled code
           # (if secondary_too b x st has_fn (fe s) then [K_cheat_set True idx enabled code] else [])) s"

definition core_reset_cheat :: "build \<Rightarrow> ext \<Rightarrow> settings \<Rightarrow> bool \<Rightarrow> session \<Rightarrow> session" where
  "core_reset_cheat b x st has_fn s =
     tell (K_cheat_reset False
           # (if secondary_too b x st has_fn (fe s) then [K_cheat_reset True] else [])) s"

definition core_set_controller_port_device ::
    "build \<Rightarrow> (u32 \<times> u32) option \<Rightarrow> session \<Rightarrow> bool \<times> session" where
  "core_set_controller_port_device b pad s =
     (case pad of
        None \<Rightarrow> (False, s)
      | Some (port, device) \<Rightarrow>
          (True, tell ((if have_runahead b \<and> have_dynamic b then [K_remember_controller port device] else [])
                       @ [K_controller_port port device])
                   (s\<lparr>analog_requested := False\<rparr>)))"

definition core_has_set_input_descriptor :: "session \<Rightarrow> bool" where
  "core_has_set_input_descriptor s \<longleftrightarrow> Core_has_set_input_descriptors \<in> rc_flags (current_core (fe s))"

definition core_serialization_quirks :: "session \<Rightarrow> u64" where
  "core_serialization_quirks s = rc_quirks (current_core (fe s))"

end
