(* ===== verification/Core_Unload.thy ===== *)
theory Core_Unload
  imports Core_Session External
begin

text \<open>
  Taking a core down: \<open>core_unload_game\<close>, \<open>uninit_libretro_symbols\<close>,
  \<open>runloop_state_free\<close> and \<open>runloop_event_deinit_core\<close>, in which the core still
  gets to act while its game is unloaded and while it is deinitialised.  Config files and shaders
  are taken to be compiled in.
\<close>

subsection \<open>Freeing the state of a core\<close>

definition runloop_system_info_free :: "frontend \<Rightarrow> frontend" where
  "runloop_system_info_free s = s\<lparr>sys := zero_sys, key_event := None, frontend_key_event := None\<rparr>"

definition runloop_frame_time_free :: "session \<Rightarrow> session" where
  "runloop_frame_time_free s =
     (upd_fe (\<lambda>f. f\<lparr>frame_time := \<lparr>ft_callback = None, ft_reference = 0\<rparr>\<rparr>) s)
       \<lparr>frame_time_last := 0, max_frames := 0\<rparr>"

definition runloop_audio_buffer_status_free :: "frontend \<Rightarrow> frontend" where
  "runloop_audio_buffer_status_free s = s\<lparr>audio_buffer_callback := None, audio_latency := 0\<rparr>"

definition runloop_state_free :: "rat \<Rightarrow> session \<Rightarrow> session" where
  "runloop_state_free ratio s =
     upd_fe (\<lambda>f. (runloop_fastmotion_override_free ratio
                    (emit [C_core K_game_focus_free] (runloop_audio_buffer_status_free f)))
                   \<lparr>update_display := None, video_swap_interval_auto := 1\<rparr>)
       (runloop_frame_time_free s)"

definition uninit_libretro_symbols :: "build \<Rightarrow> ext \<Rightarrow> rat \<Rightarrow> session \<Rightarrow> session" where
  "uninit_libretro_symbols b x ratio s =
     (let s1 = (if have_dynamic b
                then (if lib_open s then tell [K_close_library] s else s)\<lparr>lib_open := False\<rparr> else s);
          s2 = upd_fe (\<lambda>f. lower_flags {Core_set_shared_context} (f\<lparr>current_core := zero_core\<rparr>)) s1;
          s3 = upd_fe (\<lambda>f. runloop_system_info_free (drop_core_options x f)) s2;
          s4 = upd_fe (\<lambda>f. f\<lparr>aud := (aud f)\<lparr>as_callback := None\<rparr>\<rparr>) s3;
          s5 = runloop_state_free ratio s4
      in (upd_fe (\<lambda>f. f\<lparr>camera_active := False, location_active := False\<rparr>) s5)
           \<lparr>analog_requested := False, perf_counters := []\<rparr>)"

subsection \<open>Unloading\<close>

definition core_unload_game :: "build \<Rightarrow> limits \<Rightarrow> core_action list \<Rightarrow> session \<Rightarrow> session" where
  "core_unload_game b lm acts s =
     (let s1 = (tell [K_free_hw_context] s)\<lparr>frame_cache := False\<rparr>;
          s2 = (if Core_game_loaded \<in> rc_flags (current_core (fe s1))
                then upd_fe (\<lambda>f. upd_core_flags (\<lambda>fl. fl - {Core_game_loaded})
                       ((core_acts lm (core_cbs s) acts f)\<lparr>poll_type_override := Override_dontcare\<rparr>))
                       (tell [K_unload_game] s1)
                else s1)
      in upd_fe (emit (C_audio_stop # (if have_microphone b then [C_core K_microphone_stop] else []))) s2)"

fun strstr :: "string \<Rightarrow> string \<Rightarrow> bool" where
  "strstr p [] \<longleftrightarrow> p = []"
| "strstr p (c # cs) \<longleftrightarrow> take (length p) (c # cs) = p \<or> strstr p cs"

definition runloop_should_skip_retro_deinit :: "frontend \<Rightarrow> bool" where
  "runloop_should_skip_retro_deinit s \<longleftrightarrow>
     paths s Path_core \<noteq> [] \<and> strstr ''flycast-jitless'' (paths s Path_core)"

definition apply_pending_override :: "build \<Rightarrow> ext \<Rightarrow> settings \<Rightarrow> frontend \<Rightarrow> frontend" where
  "apply_pending_override b x st s =
     (if ff_pending s
      then (runloop_apply_fastmotion_override b x (frame_time_counter_reset_after_fastforwarding st)
              (fastforward_ratio st) (audio_fastforward_mute st) s)\<lparr>ff_pending := False\<rparr>
      else s)"

definition deinit_remaps :: "settings \<Rightarrow> session \<Rightarrow> session" where
  "deinit_remaps st s =
     tell (if flags (fe s) \<inter> {Remaps_core_active, Remaps_content_dir_active, Remaps_game_active} \<noteq> {}
              \<or> remapfile s \<noteq> []
           then [K_remapping_deinit (remap_save_on_exit st), K_remapping_defaults]
           else [K_remapping_restore]) s"

text \<open>What follows the release of the core's symbols.\<close>

definition deinit_drivers :: "build \<Rightarrow> settings \<Rightarrow> session \<Rightarrow> session" where
  "deinit_drivers b st s =
     (let s1 = (if refresh_rate_changed s then tell [K_restore_refresh_rate] s else s);
          s2 = (if video_frame_delay_auto st
                then upd_fe (upd_vid (\<lambda>v. v\<lparr>vs_frame_delay_target := 0\<rparr>)) s1 else s1);
          s3 = tell [K_driver_uninit] s2;
          s4 = (if Overrides_active \<in> flags (fe s3) then tell [K_unload_override] s3 else s3);
          s5 = s4\<lparr>runtime_shader_preset_path := []\<rparr>
      in if have_networking b then tell [K_netplay_clear_interface] s5 else s5)"

definition runloop_event_deinit_core ::
    "build \<Rightarrow> ext \<Rightarrow> limits \<Rightarrow> settings \<Rightarrow> core_action list \<Rightarrow> core_action list \<Rightarrow> session \<Rightarrow> session" where
  "runloop_event_deinit_core b x lm st unload_acts deinit_acts s =
     (let s1 = (core_unload_game b lm unload_acts s)\<lparr>frame_cache := False\<rparr>;
          s2 = (if Core_inited \<in> rc_flags (current_core (fe s1)) \<and> \<not> runloop_should_skip_retro_deinit (fe s1)
                then upd_fe (core_acts lm (core_cbs s) deinit_acts) (tell [K_deinit] s1) else s1);
          s3 = upd_fe (apply_pending_override b x st) s2;
          s4 = uninit_libretro_symbols b x (fastforward_ratio st) (deinit_remaps st s3);
          s5 = upd_fe (upd_core_flags (\<lambda>fl. fl - {Core_symbols_inited})) s4
      in deinit_drivers b st s5)"

end
