(* ===== verification/Session_Facts.thy ===== *)
theory Session_Facts
  imports Core_Unload
begin

text \<open>
  What environment calls leave alone that the frontend relies on while the core runs: the polling
  of input, the request for a special savestate, the state of loading.
\<close>

subsection \<open>What environment calls do not touch\<close>

text \<open>The flags environment calls may change; all others they leave alone.\<close>

abbreviation env_flags :: "runloop_flag set" where
  "env_flags \<equiv> {Game_options_active, Folder_options_active, Has_variable_update,
     Core_shutdown_initiated, Shutdown_initiated, Core_set_shared_context}"

abbreviation env_core_flags :: "core_flag set" where
  "env_core_flags \<equiv> {Core_has_set_input_descriptors, Core_has_set_subsystems}"

definition core_view ::
    "frontend \<Rightarrow> nat \<times> poll_type \<times> core_flag set \<times> poll_override \<times> runloop_flag set" where
  "core_view s = (count_list (calls s) C_input_poll, rc_poll_type (current_core s),
     rc_flags (current_core s) - env_core_flags, poll_type_override s, flags s - env_flags)"

lemma core_view_emit [simp]: "C_input_poll \<notin> set cs \<Longrightarrow> core_view (emit cs s) = core_view s"
  by (simp add: core_view_def emit_def)

lemma core_view_flags [simp]:
  "fs \<subseteq> env_flags \<Longrightarrow> core_view (raise_flags fs s) = core_view s"
  "fs \<subseteq> env_flags \<Longrightarrow> core_view (lower_flags fs s) = core_view s"
  by (auto simp: core_view_def frontend_updates)

lemma core_view_option_frame:
  assumes "option_frame s t"
  shows "core_view t = core_view s"
proof -
  from assms have e: "t\<lparr>core_options := core_options s, update_display := update_display s,
     flags := flags s, paths := paths s, calls := calls s\<rparr> = s" (is "?t = s")
    by (simp add: option_frame_def)
  have "current_core ?t = current_core t" "poll_type_override ?t = poll_type_override t" by simp_all
  then have "current_core t = current_core s" "poll_type_override t = poll_type_override s"
    by (simp_all only: e)
  moreover from assms obtain cs where "calls t = calls s @ cs" "C_input_poll \<notin> set cs"
    by (auto simp: option_frame_def)
  moreover from assms have "flags t - {Game_options_active, Folder_options_active, Has_variable_update}
        = flags s - {Game_options_active, Folder_options_active, Has_variable_update}"
    by (simp add: option_frame_def)
  then have "flags t - env_flags = flags s - env_flags" by blast
  ultimately show ?thesis by (simp add: core_view_def)
qed

lemma core_view_fields [simp]:
  "core_view (s\<lparr>vid := v1\<rparr>) = core_view s" "core_view (s\<lparr>sys := v2\<rparr>) = core_view s"
  "core_view (s\<lparr>aud := v3\<rparr>) = core_view s" "core_view (s\<lparr>inp := v4\<rparr>) = core_view s"
  "core_view (s\<lparr>core_status_msg := v5\<rparr>) = core_view s" "core_view (s\<lparr>frame_time := v6\<rparr>) = core_view s"
  "core_view (s\<lparr>audio_buffer_callback := v7\<rparr>) = core_view s"
  "core_view (s\<lparr>audio_latency := v8\<rparr>) = core_view s" "core_view (s\<lparr>key_event := v9\<rparr>) = core_view s"
  "core_view (s\<lparr>frontend_key_event := v10\<rparr>) = core_view s" "core_view (s\<lparr>dir_system := v11\<rparr>) = core_view s"
  "core_view (s\<lparr>camera_cb := v12\<rparr>) = core_view s" "core_view (s\<lparr>camera_active := v13\<rparr>) = core_view s"
  "core_view (s\<lparr>location_active := v14\<rparr>) = core_view s" "core_view (s\<lparr>ff_next := v15\<rparr>) = core_view s"
  "core_view (s\<lparr>ff_pending := v16\<rparr>) = core_view s" "core_view (s\<lparr>menu_pending_flush := v17\<rparr>) = core_view s"
  "core_view (s\<lparr>menu_pending_path := v18\<rparr>) = core_view s"
  by (simp_all add: core_view_def)

lemma core_view_core [simp]:
  "rc_poll_type c = rc_poll_type (current_core s)
     \<Longrightarrow> rc_flags c - env_core_flags = rc_flags (current_core s) - env_core_flags
     \<Longrightarrow> core_view (s\<lparr>current_core := c\<rparr>) = core_view s"
  by (simp add: core_view_def)

lemma message_handler_polls: "core_view (res_st (message_handler c cmd s)) = core_view s"
  by (cases cmd) (simp_all add: env_get_message_interface_version_def env_set_message_def
      env_set_message_ext_def display_message_ext_def runloop_core_msg_queue_push_def
      split: msg_type.split)

lemma video_handler_polls: "core_view (res_st (video_handler c cmd s)) = core_view s"
proof (cases cmd)
  case (SET_PIXEL_FORMAT f)
  then show ?thesis by (cases f) (simp_all add: video_env_defs)
next
  case (SET_SYSTEM_AV_INFO i)
  then show ?thesis
    by (auto simp: env_set_system_av_info_def Let_def restart_recording_def hide_mouse_def
        split: option.splits prod.splits)
qed (simp_all add: video_env_defs Let_def split: option.split)

lemma audio_handler_polls: "core_view (res_st (audio_handler c cmd s)) = core_view s"
  by (cases cmd) (simp_all add: audio_env_defs Let_def restart_recording_def hide_mouse_def
      split: option.split)

fun overrides_policy :: "input_cmd \<Rightarrow> bool" where
  "overrides_policy (POLL_TYPE_OVERRIDE p) = True"
| "overrides_policy _ = False"

lemma input_handler_polls:
  "\<not> overrides_policy cmd \<Longrightarrow> core_view (res_st (input_handler c cmd s)) = core_view s"
  by (cases cmd) (simp_all add: input_env_defs Let_def)

lemma system_handler_polls: "core_view (res_st (system_handler c cmd s)) = core_view s"
proof (cases cmd)
  case (GET_DEVICE_POWER g)
  then show ?thesis
    by (simp add: env_get_device_power_def split: option.split prod.split power_state.split)
next
  case GET_THROTTLE_STATE
  then show ?thesis by (simp add: env_get_throttle_state_def split: prod.split)
qed (simp_all add: system_env_defs upd_sys_def Let_def split: option.split)

text \<open>An action that is not a change of the polling policy.\<close>

fun keeps_policy :: "core_action \<Rightarrow> bool" where
  "keeps_policy (Act_env c (Input i)) \<longleftrightarrow> \<not> overrides_policy i"
| "keeps_policy _ \<longleftrightarrow> True"

lemma env_call_polls:
  assumes "keeps_policy (Act_env c cmd)"
  shows "core_view (res_st (env_call lm (c, cmd) s)) = core_view s"
proof (cases "Ignore_environment_cb \<in> flags s")
  case False
  note g = env_call_def runloop_environment_cb_def
  show ?thesis
  proof (cases cmd)
    case (Input i)
    with assms False show ?thesis by (simp add: g input_handler_polls del: input_handler.simps)
  qed (use False in \<open>simp_all add: g core_view_option_frame [OF option_handler_frame]
         message_handler_polls video_handler_polls audio_handler_polls system_handler_polls\<close>)
qed (simp add: env_call_def runloop_environment_cb_def)

subsection \<open>What the core does, seen through these fields\<close>

lemma core_view_eqD:
  assumes "core_view t = core_view s"
  shows "count_list (calls t) C_input_poll = count_list (calls s) C_input_poll"
    and "new_poll_type t = new_poll_type s"
    and "(Core_input_polled \<in> rc_flags (current_core t)) = (Core_input_polled \<in> rc_flags (current_core s))"
    and "(Core_game_loaded \<in> rc_flags (current_core t)) = (Core_game_loaded \<in> rc_flags (current_core s))"
    and "(Request_special_savestate \<in> flags t) = (Request_special_savestate \<in> flags s)"
    and "poll_type_override t = poll_type_override s"
proof -
  from assms have "rc_flags (current_core t) - env_core_flags = rc_flags (current_core s) - env_core_flags"
    and "flags t - env_flags = flags s - env_flags" by (simp_all add: core_view_def)
  then show "(Core_input_polled \<in> rc_flags (current_core t)) = (Core_input_polled \<in> rc_flags (current_core s))"
    "(Core_game_loaded \<in> rc_flags (current_core t)) = (Core_game_loaded \<in> rc_flags (current_core s))"
    "(Request_special_savestate \<in> flags t) = (Request_special_savestate \<in> flags s)"
    by blast+
qed (use assms in \<open>simp_all add: core_view_def new_poll_type_def split: poll_override.split\<close>)

text \<open>Any action at all keeps the request for a special savestate, and the state of loading.\<close>

lemma poll_override_view:
  "flags (res_st (env_poll_type_override p s)) = flags s
   \<and> current_core (res_st (env_poll_type_override p s)) = current_core s"
  by (simp add: env_poll_type_override_def split: option.split)

lemma env_call_stable:
  "(Request_special_savestate \<in> flags (res_st (env_call lm (c, cmd) s))) = (Request_special_savestate \<in> flags s)
   \<and> (Core_game_loaded \<in> rc_flags (current_core (res_st (env_call lm (c, cmd) s))))
      = (Core_game_loaded \<in> rc_flags (current_core s))"
proof (cases "keeps_policy (Act_env c cmd)")
  case True
  from core_view_eqD(4,5) [OF env_call_polls [OF this]] show ?thesis by simp
next
  case False
  then obtain p where "cmd = Input (POLL_TYPE_OVERRIDE p)"
    by (auto elim!: keeps_policy.elims(3) overrides_policy.elims(2))
  then show ?thesis by (simp add: env_call_def runloop_environment_cb_def poll_override_view)
qed

lemma core_act_stable:
  "(Request_special_savestate \<in> flags (core_act lm cbs a s)) = (Request_special_savestate \<in> flags s)
   \<and> (Core_game_loaded \<in> rc_flags (current_core (core_act lm cbs a s)))
      = (Core_game_loaded \<in> rc_flags (current_core s))"
proof (cases a)
  case (Act_env c cmd)
  then show ?thesis by (simp add: env_call_stable)
next
  case Act_poll
  then show ?thesis
    by (cases "poll_cb cbs") (simp_all add: core_input_state_poll_maybe_def emit_def)
next
  case Act_state
  then show ?thesis
    by (cases "state_cb cbs")
       (simp_all add: core_input_state_poll_late_def upd_core_flags_def emit_def)
qed

lemma core_acts_stable:
  "(Request_special_savestate \<in> flags (core_acts lm cbs acts s)) = (Request_special_savestate \<in> flags s)
   \<and> (Core_game_loaded \<in> rc_flags (current_core (core_acts lm cbs acts s)))
      = (Core_game_loaded \<in> rc_flags (current_core s))"
  by (induction acts arbitrary: s) (simp_all add: core_act_stable)

lemma core_acts_append: "core_acts lm cbs (as @ bs) s = core_acts lm cbs bs (core_acts lm cbs as s)"
  by (induction as arbitrary: s) simp_all

subsection \<open>Well-formedness while the core acts\<close>

lemma env_inv_core_flags [simp]: "env_inv lm (upd_core_flags f s) \<longleftrightarrow> env_inv lm s"
  by (simp add: upd_core_flags_def)

lemma core_act_inv:
  assumes "env_inv lm s"
  shows "env_inv lm (core_act lm cbs a s)"
proof (cases a)
  case (Act_env c cmd)
  then show ?thesis using environment.keeps [OF assms] by simp
next
  case Act_poll
  then show ?thesis using assms
    by (cases "poll_cb cbs") (simp_all add: core_input_state_poll_maybe_def)
next
  case Act_state
  then show ?thesis using assms
    by (cases "state_cb cbs") (simp_all add: core_input_state_poll_late_def)
qed

interpretation core_actions: handler "\<lambda>a s. (True, (), core_act lm cbs a s)" "env_inv lm" for lm cbs
  by unfold_locales (simp add: core_act_inv)

lemma core_acts_run: "core_acts lm cbs acts s = run_handler (\<lambda>a s. (True, (), core_act lm cbs a s)) acts s"
  by (induction acts arbitrary: s) simp_all

lemma core_acts_inv: "env_inv lm s \<Longrightarrow> env_inv lm (core_acts lm cbs acts s)"
  unfolding core_acts_run by (rule core_actions.run_keeps)

subsection \<open>Polls during a frame\<close>

abbreviation polls :: "frontend \<Rightarrow> nat" where
  "polls s \<equiv> count_list (calls s) C_input_poll"

abbreviation polled :: "frontend \<Rightarrow> bool" where
  "polled s \<equiv> Core_input_polled \<in> rc_flags (current_core s)"

lemma emit_fields [simp]:
  "current_core (emit cs s) = current_core s" "poll_type_override (emit cs s) = poll_type_override s"
  "flags (emit cs s) = flags s" "new_poll_type (emit cs s) = new_poll_type s"
  by (simp_all add: emit_def new_poll_type_def split: poll_override.split)

lemma core_flags_fields [simp]:
  "calls (upd_core_flags f s) = calls s" "new_poll_type (upd_core_flags f s) = new_poll_type s"
  "rc_flags (current_core (upd_core_flags f s)) = f (rc_flags (current_core s))"
  by (simp_all add: upd_core_flags_def new_poll_type_def split: poll_override.split)

text \<open>With late polling: a poll has been made if and only if the flag says so.\<close>

lemma core_act_late:
  assumes "keeps_policy a" "poll_cb cbs = Fn_poll_maybe" "new_poll_type s = Poll_late"
    and "polls s = n + (if polled s then 1 else 0)"
  shows "new_poll_type (core_act lm cbs a s) = Poll_late
    \<and> polls (core_act lm cbs a s) = n + (if polled (core_act lm cbs a s) then 1 else 0)"
proof (cases a)
  case (Act_env c cmd)
  with assms(1) have "core_view (core_act lm cbs a s) = core_view s" by (simp add: env_call_polls)
  note v = core_view_eqD [OF this]
  show ?thesis using assms(3,4) by (simp only: v(1,2,3))
next
  case Act_poll
  then show ?thesis using assms by (simp add: core_input_state_poll_maybe_def)
next
  case Act_state
  then show ?thesis using assms
    by (cases "state_cb cbs")
       (simp_all add: core_input_state_poll_late_def)
qed

lemma core_acts_late:
  assumes "list_all keeps_policy acts" "poll_cb cbs = Fn_poll_maybe" "new_poll_type s = Poll_late"
    and "polls s = n + (if polled s then 1 else 0)"
  shows "polls (core_acts lm cbs acts s) = n + (if polled (core_acts lm cbs acts s) then 1 else 0)"
  using assms
proof (induction acts arbitrary: s)
  case (Cons a as)
  from Cons.prems have "keeps_policy a" by simp
  from core_act_late [OF this Cons.prems(2-4)] Cons.prems(1,2) show ?case
    by (simp del: core_act.simps add: Cons.IH)
qed simp

text \<open>With early or normal polling and a state callback that does not poll.\<close>

lemma core_acts_not_late:
  assumes "list_all keeps_policy acts" "poll_cb cbs = Fn_poll_maybe" "state_cb cbs \<noteq> Fn_poll_late"
  shows "polls (core_acts lm cbs acts s)
      = polls s + (if new_poll_type s = Poll_normal then count_list acts Act_poll else 0)"
  using assms(1)
proof (induction acts arbitrary: s)
  case (Cons a as)
  then have a: "keeps_policy a" and IH: "\<And>s. polls (core_acts lm cbs as s)
      = polls s + (if new_poll_type s = Poll_normal then count_list as Act_poll else 0)"
    by simp_all
  show ?case
  proof (cases a)
    case (Act_env c cmd)
    with a have "core_view (core_act lm cbs a s) = core_view s" by (simp add: env_call_polls)
    note v = core_view_eqD [OF this]
    show ?thesis by (simp only: core_acts.simps IH v(1,2)) (simp add: Act_env)
  next
    case Act_poll
    then show ?thesis using assms(2)
      by (simp add: IH core_input_state_poll_maybe_def)
  next
    case Act_state
    then show ?thesis using assms(3) by (cases "state_cb cbs") (simp_all add: IH)
  qed
qed simp

section \<open>Steps of a session\<close>

text \<open>
  The life of a core as a step relation: every call of theories \<open>Core_Session\<close> and
  \<open>Core_Unload\<close> is a step, in any order, with any behaviour of the core, any settings and
  any answers of the outside world; and the invariant of the reachable sessions.
\<close>

subsection \<open>Steps\<close>

inductive session_step :: "build \<Rightarrow> limits \<Rightarrow> session \<Rightarrow> session \<Rightarrow> bool" for b lm where
  Set_core_type: "session_step b lm s (runloop_set_current_core_type ty ex s)"
| Load_core: "session_step b lm s (snd (runloop_event_load_core b ni pk api capi av p s))"
| Load_game: "session_step b lm s (snd (core_load_game b lm req acts ok s))"
| Frame: "session_step b lm s (core_run b x lm acts s)"
| Reset: "session_step b lm s (core_reset lm acts s)"
| Serialize: "session_step b lm s (snd (core_serialize lm info acts ret s))"
| Serialize_special: "session_step b lm s (snd (core_serialize_special lm info acts ret s))"
| Size_special: "session_step b lm s (snd (core_serialize_size_special lm acts n s))"
| Unserialize: "session_step b lm s (snd (core_unserialize b lm info acts ret s))"
| Unserialize_special: "session_step b lm s (snd (core_unserialize_special b lm info acts ret s))"
| Set_cheat: "session_step b lm s (core_set_cheat b x st fn i e code s)"
| Reset_cheat: "session_step b lm s (core_reset_cheat b x st fn s)"
| Controller: "session_step b lm s (snd (core_set_controller_port_device b pad s))"
| Set_poll_type: "session_step b lm s (core_set_poll_type p s)"
| Netplay_on: "session_step b lm s (core_set_netplay_callbacks pk s)"
| Netplay_off: "session_step b lm s (core_unset_netplay_callbacks s)"
| Deinit: "session_step b lm s (runloop_event_deinit_core b x lm st uacts dacts s)"

subsection \<open>Invariant\<close>

text \<open>The frontend is well formed and no special savestate is being asked for.\<close>

definition fe_ok :: "limits \<Rightarrow> frontend \<Rightarrow> bool" where
  "fe_ok lm f \<longleftrightarrow> env_inv lm f \<and> Request_special_savestate \<notin> flags f"

text \<open>
  The core's callbacks are the frontend's own or netplay's, never a mixture; and its poll
  callback, once set, is the one that follows the polling policy.
\<close>

definition cbs_ok :: "callbacks \<Rightarrow> bool" where
  "cbs_ok c \<longleftrightarrow>
     poll_cb c \<in> {Fn_none, Fn_poll_maybe}
     \<and> ((frame_cb c, sample_cb c, sample_batch_cb c, state_cb c)
          \<in> {(Fn_none, Fn_none, Fn_none, Fn_none),
             (Fn_video_frame, Fn_audio_sample, Fn_audio_sample_batch, Fn_state_wrapper),
             (Fn_video_frame, Fn_audio_sample, Fn_audio_sample_batch, Fn_poll_late),
             (Fn_video_net, Fn_audio_net, Fn_audio_batch_net, Fn_state_net)})"

definition session_inv :: "limits \<Rightarrow> session \<Rightarrow> bool" where
  "session_inv lm s \<longleftrightarrow> fe_ok lm (fe s) \<and> cbs_ok (core_cbs s)"

lemma fe_ok_emit [simp]: "fe_ok lm (emit cs f) \<longleftrightarrow> fe_ok lm f"
  by (simp add: fe_ok_def)

lemma fe_ok_core_flags [simp]: "fe_ok lm (upd_core_flags g f) \<longleftrightarrow> fe_ok lm f"
  by (simp add: fe_ok_def upd_core_flags_def)

lemma fe_ok_fields [simp]:
  "fe_ok lm (f\<lparr>current_core := c\<rparr>) \<longleftrightarrow> fe_ok lm f"
  "fe_ok lm (f\<lparr>poll_type_override := p\<rparr>) \<longleftrightarrow> fe_ok lm f"
  "fe_ok lm (f\<lparr>aud := a\<rparr>) \<longleftrightarrow> fe_ok lm f"
  "fe_ok lm (f\<lparr>inp := i\<rparr>) \<longleftrightarrow> fe_ok lm f"
  "fe_ok lm (f\<lparr>frame_time := ft\<rparr>) \<longleftrightarrow> fe_ok lm f"
  "fe_ok lm (f\<lparr>audio_buffer_callback := ab\<rparr>) \<longleftrightarrow> fe_ok lm f"
  "fe_ok lm (f\<lparr>update_display := ud\<rparr>) \<longleftrightarrow> fe_ok lm f"
  "fe_ok lm (f\<lparr>camera_active := ca\<rparr>) \<longleftrightarrow> fe_ok lm f"
  "fe_ok lm (f\<lparr>location_active := la\<rparr>) \<longleftrightarrow> fe_ok lm f"
  "fe_ok lm (f\<lparr>video_swap_interval_auto := sw\<rparr>) \<longleftrightarrow> fe_ok lm f"
  "fe_ok lm (f\<lparr>frame_limit_minimum_time := fl\<rparr>) \<longleftrightarrow> fe_ok lm f"
  "fe_ok lm (f\<lparr>fastforward_after_frames := fa\<rparr>) \<longleftrightarrow> fe_ok lm f"
  "fe_ok lm (f\<lparr>ff_current := fc\<rparr>) \<longleftrightarrow> fe_ok lm f"
  "fe_ok lm (f\<lparr>ff_next := fn\<rparr>) \<longleftrightarrow> fe_ok lm f"
  "fe_ok lm (f\<lparr>ff_pending := fp\<rparr>) \<longleftrightarrow> fe_ok lm f"
  "fe_ok lm (f\<lparr>key_event := k\<rparr>) \<longleftrightarrow> fe_ok lm f"
  "fe_ok lm (f\<lparr>frontend_key_event := fk\<rparr>) \<longleftrightarrow> fe_ok lm f"
  by (simp_all add: fe_ok_def env_inv_def)

lemma fe_ok_vid [simp]:
  "vs_pix_fmt v = vs_pix_fmt (vid f) \<Longrightarrow> fe_ok lm (f\<lparr>vid := v\<rparr>) \<longleftrightarrow> fe_ok lm f"
  by (simp add: fe_ok_def)

lemma fe_ok_raise:
  "fe_ok lm f \<Longrightarrow> fs \<inter> {Game_options_active, Folder_options_active, Request_special_savestate} = {}
     \<Longrightarrow> fe_ok lm (raise_flags fs f)"
  by (auto simp: fe_ok_def raise_flags_def env_inv_def)

lemma fe_ok_lower: "fe_ok lm f \<Longrightarrow> fe_ok lm (lower_flags fs f)"
  by (auto simp: fe_ok_def lower_flags_def env_inv_def)

lemma fe_ok_acts: "fe_ok lm f \<Longrightarrow> fe_ok lm (core_acts lm cbs acts f)"
  by (simp add: fe_ok_def core_acts_inv core_acts_stable)

lemma fe_ok_option_frame:
  assumes "option_frame s t" "env_inv lm t" "fe_ok lm s"
  shows "fe_ok lm t"
proof -
  from assms(1) have "flags t - {Game_options_active, Folder_options_active, Has_variable_update}
      = flags s - {Game_options_active, Folder_options_active, Has_variable_update}"
    by (simp add: option_frame_def)
  with assms(2,3) show ?thesis by (auto simp: fe_ok_def)
qed

lemma fe_ok_drop: "fe_ok lm f \<Longrightarrow> fe_ok lm (drop_core_options x f)"
  by (rule fe_ok_option_frame [OF drop_core_options_frame]) (simp_all add: fe_ok_def drop_core_options_inv)

lemma fe_ok_special:
  "fe_ok lm f \<Longrightarrow> fe_ok lm (lower_flags {Request_special_savestate}
      (core_acts lm cbs acts (raise_flags {Request_special_savestate} f)))"
  by (auto simp: fe_ok_def lower_flags_def env_inv_lower [unfolded lower_flags_def]
      intro!: env_inv_lower [unfolded lower_flags_def] core_acts_inv)

lemma fe_ok_apply_override:
  assumes "fe_ok lm f"
  shows "fe_ok lm (apply_pending_override b x st f)"
proof -
  have "fe_ok lm (switch_fastmotion b x rc m fast g)" if "fe_ok lm g" for rc m fast g
    using that by (simp add: switch_fastmotion_def Let_def fe_ok_raise fe_ok_lower)
  with assms show ?thesis
    by (simp add: apply_pending_override_def runloop_apply_fastmotion_override_def Let_def
        runloop_set_frame_limit_def)
qed

lemma fe_ok_system_info_free: "fe_ok lm f \<Longrightarrow> fe_ok lm (runloop_system_info_free f)"
  by (simp add: runloop_system_info_free_def fe_ok_def env_inv_def zero_sys_def labels_in_table_def)

lemma fe_ok_latency: "fe_ok lm f \<Longrightarrow> fe_ok lm (f\<lparr>audio_latency := 0\<rparr>)"
  by (simp add: fe_ok_def env_inv_latency)

lemma fe_ok_override_free:
  "fe_ok lm f \<Longrightarrow> fe_ok lm (runloop_fastmotion_override_free r f)"
  by (simp add: runloop_fastmotion_override_free_def runloop_set_frame_limit_def Let_def)

lemma fe_ok_state_free:
  "fe_ok lm (fe s) \<Longrightarrow> fe_ok lm (fe (runloop_state_free r s))"
  by (simp add: runloop_state_free_def runloop_frame_time_free_def
      runloop_audio_buffer_status_free_def fe_ok_latency fe_ok_override_free)

subsection \<open>Preservation\<close>

lemma tell_simps [simp]:
  "fe (tell ks s) = emit (map C_core ks) (fe s)" "core_cbs (tell ks s) = core_cbs s"
  by (simp_all add: tell_def)

lemma session_inv_upd_fe:
  "session_inv lm s \<Longrightarrow> fe_ok lm (g (fe s)) \<Longrightarrow> session_inv lm (upd_fe g s)"
  by (simp add: session_inv_def)

lemma fe_ok_unload_game:
  "fe_ok lm (fe s) \<Longrightarrow> fe_ok lm (fe (core_unload_game b lm acts s))"
  by (simp add: core_unload_game_def Let_def fe_ok_acts)

lemma fe_ok_uninit_symbols:
  assumes "fe_ok lm (fe s)"
  shows "fe_ok lm (fe (uninit_libretro_symbols b x r s))"
  using assms
  by (simp add: uninit_libretro_symbols_def Let_def fe_ok_state_free fe_ok_system_info_free
      fe_ok_drop fe_ok_lower)

lemma fe_ok_deinit_drivers:
  "fe_ok lm (fe s) \<Longrightarrow> fe_ok lm (fe (deinit_drivers b st s))"
  by (simp add: deinit_drivers_def Let_def upd_vid_def)

lemma fe_ok_deinit:
  assumes "fe_ok lm (fe s)"
  shows "fe_ok lm (fe (runloop_event_deinit_core b x lm st ua da s))"
  using fe_ok_unload_game [OF assms, of b ua]
  by (simp add: runloop_event_deinit_core_def Let_def fe_ok_deinit_drivers fe_ok_uninit_symbols
      deinit_remaps_def fe_ok_apply_override fe_ok_acts)

lemma core_cbs_parts [simp]:
  "core_cbs (core_unload_game b lm acts s) = core_cbs s"
  "core_cbs (uninit_libretro_symbols b x r s) = core_cbs s"
  "core_cbs (deinit_drivers b st s) = core_cbs s"
  by (simp_all add: deinit_drivers_def uninit_libretro_symbols_def runloop_state_free_def
      runloop_frame_time_free_def core_unload_game_def Let_def)

lemma core_cbs_deinit [simp]:
  "core_cbs (runloop_event_deinit_core b x lm st ua da s) = core_cbs s"
  by (simp add: runloop_event_deinit_core_def deinit_remaps_def Let_def)

lemma core_run_ok:
  "fe_ok lm (fe s) \<Longrightarrow> fe_ok lm (fe (core_run b x lm acts s))"
  by (simp add: core_run_def Let_def fe_ok_acts)

lemma core_cbs_run [simp]: "core_cbs (core_run b x lm acts s) = core_cbs s"
  by (simp add: core_run_def Let_def)

lemma session_step_inv:
  assumes "session_step b lm s t" and "session_inv lm s"
  shows "session_inv lm t"
  using assms
proof (cases rule: session_step.cases)
  case (Load_core ni pk api capi av p)
  then show ?thesis using assms(2)
    by (auto simp: runloop_event_load_core_def core_init_libretro_cbs_def core_set_netplay_callbacks_def
        session_inv_def cbs_ok_def Let_def upd_vid_def core_input_state_poll_return_cb_def)
next
  case (Frame x acts)
  then show ?thesis using assms(2) by (simp add: session_inv_def core_run_ok)
next
  case (Load_game req acts ok)
  then show ?thesis using assms(2)
    by (simp add: core_load_game_def session_inv_def Let_def fe_ok_acts)
next
  case (Deinit x st uacts dacts)
  then show ?thesis using assms(2) by (simp add: session_inv_def fe_ok_deinit)
next
  case (Netplay_on pk)
  then show ?thesis using assms(2)
    by (auto simp: core_set_netplay_callbacks_def session_inv_def cbs_ok_def)
next
  case Netplay_off
  then show ?thesis using assms(2)
    by (auto simp: core_unset_netplay_callbacks_def session_inv_def cbs_ok_def Let_def
        core_set_default_callbacks_def core_input_state_poll_return_cb_def)
next
  case (Set_core_type ty ex)
  then show ?thesis using assms(2)
    by (simp add: runloop_set_current_core_type_def session_inv_def Let_def fe_ok_raise)
qed (use assms(2) in \<open>auto simp: session_inv_def core_reset_def core_serialize_def fe_ok_acts
       core_serialize_special_def core_serialize_size_special_def special_call_def fe_ok_special
       core_unserialize_def core_unserialize_special_def core_set_cheat_def core_reset_cheat_def
       core_set_controller_port_device_def core_set_poll_type_def Let_def
       split: option.split prod.split\<close>)

lemma session_reach_inv:
  "rtranclp (session_step b lm) s t \<Longrightarrow> session_inv lm s \<Longrightarrow> session_inv lm t"
  by (induction rule: rtranclp_induct) (auto intro: session_step_inv)

end
