(* ===== verification/Session_Properties.thy ===== *)
theory Session_Properties
  imports Session_Facts
begin

text \<open>
  What the calls into a core guarantee, for every core: the invariant of all reachable sessions,
  the number of input polls per frame, special savestates, loading, and what is left when a core
  is taken down.
\<close>

definition zero_callbacks :: callbacks where
  "zero_callbacks = \<lparr>frame_cb = Fn_none, sample_cb = Fn_none, sample_batch_cb = Fn_none,
     state_cb = Fn_none, poll_cb = Fn_none\<rparr>"

definition zero_session :: session where
  "zero_session = \<lparr>fe = zero_frontend, core_cbs = zero_callbacks, retro_ctx = zero_callbacks,
     frame_cache = False, remapping_cache_active = False, current_core_type = Core_type_plain,
     explicit_current_core_type = Core_type_plain, remapfile = [], runtime_shader_preset_path = [],
     analog_requested = False, frame_time_last = 0, max_frames = 0, perf_counters = [],
     lib_open = False, refresh_rate_changed = False\<rparr>"

lemma zero_session_inv: "session_inv some_limits zero_session"
  by (simp add: session_inv_def zero_session_def zero_callbacks_def cbs_ok_def fe_ok_def env_inv_def
      known_format_def status_ok_def labels_in_table_def some_limits_def zero_defs)

subsection \<open>All sessions\<close>

text \<open>
  C6. Whatever cores are loaded, run, saved, restored, cheated with, put on and off netplay and
  taken down, in any order and behaving in any way: the frontend state stays well formed, no
  request for a special savestate is left standing between two calls, and the callbacks a core
  holds are all the frontend's own or all netplay's.
\<close>

theorem session_invariant:
  assumes "rtranclp (session_step b lm) s t" and "session_inv lm s"
  shows "env_inv lm (fe t) \<and> Request_special_savestate \<notin> flags (fe t)
    \<and> (frame_cb (core_cbs t) = Fn_video_net \<longleftrightarrow> state_cb (core_cbs t) = Fn_state_net)
    \<and> (sample_cb (core_cbs t) = Fn_audio_net \<longleftrightarrow> sample_batch_cb (core_cbs t) = Fn_audio_batch_net)
    \<and> (frame_cb (core_cbs t) = Fn_video_net \<longleftrightarrow> sample_cb (core_cbs t) = Fn_audio_net)
    \<and> poll_cb (core_cbs t) \<in> {Fn_none, Fn_poll_maybe}"
  using session_reach_inv [OF assms] by (auto simp: session_inv_def fe_ok_def cbs_ok_def)

lemma session_invariant_witness:
  "env_inv some_limits (fe (core_set_poll_type Poll_late zero_session))
   \<and> poll_cb (core_cbs (core_set_poll_type Poll_late zero_session)) \<in> {Fn_none, Fn_poll_maybe}"
proof -
  have "rtranclp (session_step plain_build some_limits) zero_session (core_set_poll_type Poll_late zero_session)"
    by (rule r_into_rtranclp) (rule session_step.Set_poll_type)
  from session_invariant [OF this zero_session_inv] show ?thesis by simp
qed

subsection \<open>Input polls per frame\<close>

text \<open>
  C8. A core that does not change the polling policy during a frame gets its input polled
  exactly once in it under early and under late polling, whatever it reads and however often; as
  often as it asks under normal polling; and once, without being run, while netplay holds the
  frame back.  The state callback need only not be the late one when polling is not late, which
  registration ensures.
\<close>

theorem core_run_polls:
  assumes "list_all keeps_policy acts" and "poll_cb (core_cbs s) = Fn_poll_maybe"
    and "new_poll_type (fe s) \<noteq> Poll_late \<Longrightarrow> state_cb (core_cbs s) \<noteq> Fn_poll_late"
  shows "polls (fe (core_run b x lm acts s)) = polls (fe s)
    + (if have_networking b \<and> \<not> netplay_pre_frame x then 1
       else if new_poll_type (fe s) = Poll_normal then count_list acts Act_poll else 1)"
proof (cases "have_networking b \<and> \<not> netplay_pre_frame x")
  case False
  show ?thesis
  proof (cases "new_poll_type (fe s) = Poll_late")
    case True
    let ?f = "emit [C_retro_run] (upd_core_flags (\<lambda>fl. fl - {Core_input_polled}) (fe s))"
    have "polls ?f = polls (fe s) + (if polled ?f then 1 else 0)" by simp
    moreover have "new_poll_type ?f = Poll_late" using True by simp
    ultimately have "polls (core_acts lm (core_cbs s) acts ?f)
        = polls (fe s) + (if polled (core_acts lm (core_cbs s) acts ?f) then 1 else 0)"
      by (intro core_acts_late [OF assms(1,2)])
    with False True show ?thesis by (simp add: core_run_def Let_def)
  next
    case nl: False
    note acts = core_acts_not_late [OF assms(1,2) assms(3) [OF nl]]
    from False nl show ?thesis
      by (cases "new_poll_type (fe s)") (simp_all add: core_run_def Let_def acts)
  qed
qed (simp add: core_run_def)

lemma core_run_polls_witness:
  "polls (fe (core_run plain_build null_world some_limits [Act_poll, Act_state, Act_poll, Act_state]
     (zero_session\<lparr>core_cbs := zero_callbacks\<lparr>poll_cb := Fn_poll_maybe, state_cb := Fn_poll_late\<rparr>,
        fe := zero_frontend\<lparr>poll_type_override := Override_to Poll_late\<rparr>\<rparr>))) = 1"
  using core_run_polls [where acts = "[Act_poll, Act_state, Act_poll, Act_state]" and b = plain_build
      and x = null_world and lm = some_limits
      and s = "zero_session\<lparr>core_cbs := zero_callbacks\<lparr>poll_cb := Fn_poll_maybe, state_cb := Fn_poll_late\<rparr>,
        fe := zero_frontend\<lparr>poll_type_override := Override_to Poll_late\<rparr>\<rparr>"]
  by (simp add: new_poll_type_def plain_build_def zero_frontend_def)

text \<open>
  Registration gives the core the state callback its polling needs: right after the core's
  callbacks are set without netplay, a frame polls as often as the policy says, with nothing else
  assumed about the session.
\<close>

theorem registered_core_polls:
  assumes "list_all keeps_policy acts" and "fst (runloop_event_load_core b False pk api capi av p s)"
    and "\<not> have_networking b"
  shows "polls (fe (core_run b x lm acts (snd (runloop_event_load_core b False pk api capi av p s))))
    = polls (fe s) + (if (case poll_type_override (fe s) of Override_to q \<Rightarrow> q | Override_dontcare \<Rightarrow> p)
                          = Poll_normal
                      then count_list acts Act_poll else 1)"
proof -
  let ?t = "snd (runloop_event_load_core b False pk api capi av p s)"
  let ?p = "case poll_type_override (fe s) of Override_to q \<Rightarrow> q | Override_dontcare \<Rightarrow> p"
  have t: "poll_cb (core_cbs ?t) = Fn_poll_maybe" "new_poll_type (fe ?t) = ?p"
    "state_cb (core_cbs ?t) = (if ?p = Poll_late then Fn_poll_late else Fn_state_wrapper)"
    "polls (fe ?t) = polls (fe s)"
    using assms(2) by (auto simp: runloop_event_load_core_def core_init_libretro_cbs_def Let_def
        upd_vid_def new_poll_type_def core_input_state_poll_return_cb_def
        split: poll_override.split if_split_asm)
  have "polls (fe (core_run b x lm acts ?t)) = polls (fe ?t)
    + (if have_networking b \<and> \<not> netplay_pre_frame x then 1
       else if new_poll_type (fe ?t) = Poll_normal then count_list acts Act_poll else 1)"
    by (rule core_run_polls [OF assms(1) t(1)]) (simp only: t(2,3), simp)
  with assms(3) show ?thesis by (simp add: t)
qed

lemma registered_core_polls_witness:
  "polls (fe (core_run plain_build null_world some_limits [Act_state, Act_state]
     (snd (runloop_event_load_core plain_build False False 1 1 zero_av Poll_late zero_session)))) = 1"
  using registered_core_polls [where acts = "[Act_state, Act_state]" and b = plain_build and pk = False
      and api = 1 and capi = 1 and av = zero_av and p = Poll_late and s = zero_session
      and x = null_world and lm = some_limits]
  by (simp add: plain_build_def zero_session_def zero_frontend_def runloop_event_load_core_def
      core_verify_api_version_def Let_def)

text \<open>
  Putting netplay on and off again gives the core the frontend's own callbacks back and keeps
  its poll callback; the polling policy, however, stays at the normal one that netplay forces, so
  that a core configured for late polling is no longer polled late.  A core with its own packet
  interface is left alone by the first step.
\<close>

theorem netplay_callbacks_restored:
  fixes packets s
  defines "n \<equiv> core_set_netplay_callbacks packets s"
  defines "t \<equiv> core_unset_netplay_callbacks n"
  shows "(packets \<longrightarrow> n = s)
    \<and> (\<not> packets \<longrightarrow> frame_cb (core_cbs n) = Fn_video_net \<and> state_cb (core_cbs n) = Fn_state_net
         \<and> rc_poll_type (current_core (fe n)) = Poll_normal)
    \<and> (frame_cb (core_cbs t), sample_cb (core_cbs t), sample_batch_cb (core_cbs t))
        = (Fn_video_frame, Fn_audio_sample, Fn_audio_sample_batch)
    \<and> poll_cb (core_cbs t) = poll_cb (core_cbs s)
    \<and> (\<not> packets \<and> poll_type_override (fe s) = Override_dontcare
         \<longrightarrow> state_cb (core_cbs t) = Fn_state_wrapper \<and> new_poll_type (fe t) = Poll_normal)"
  by (simp add: t_def n_def core_set_netplay_callbacks_def core_unset_netplay_callbacks_def
      core_set_default_callbacks_def core_input_state_poll_return_cb_def new_poll_type_def Let_def)

lemma netplay_callbacks_restored_witness:
  "new_poll_type (fe (core_unset_netplay_callbacks (core_set_netplay_callbacks False
     (core_set_poll_type Poll_late zero_session)))) = Poll_normal"
  using netplay_callbacks_restored [of False "core_set_poll_type Poll_late zero_session"]
  by (simp add: core_set_poll_type_def zero_session_def zero_frontend_def)

subsection \<open>Special savestates\<close>

text \<open>
  During a special serialisation the core sees the request at every moment, whatever it
  does in between, and in run-ahead builds is told a context that is not the normal one; after
  the call the request is gone and the answer is the core's.  Without a buffer nothing happens.
\<close>

theorem special_savestate_scope:
  fixes lm s acts k
  defines "mid \<equiv> core_acts lm (core_cbs s) (take k acts) (raise_flags {Request_special_savestate} (fe s))"
  shows "Request_special_savestate \<in> flags mid
    \<and> (have_runahead b \<longrightarrow> savestate_context_of b x st mid \<noteq> Ctx_normal)
    \<and> fst (core_serialize_special lm True acts ret s) = ret
    \<and> Request_special_savestate \<notin> flags (fe (snd (core_serialize_special lm True acts ret s)))
    \<and> Request_special_savestate \<notin> flags (fe (snd (core_unserialize_special b lm True acts ret s)))
    \<and> core_serialize_special lm False acts ret s = (False, s)
    \<and> core_unserialize_special b lm False acts ret s = (False, s)"
proof -
  have "Request_special_savestate \<in> flags mid"
    using core_acts_stable [of lm "core_cbs s" "take k acts" "raise_flags {Request_special_savestate} (fe s)"]
    by (simp add: mid_def raise_flags_def)
  then show ?thesis
    by (simp add: savestate_context_of_def core_serialize_special_def core_unserialize_special_def
        special_call_def lower_flags_def Let_def)
qed

lemma special_savestate_scope_witness:
  "savestate_context_of (plain_build\<lparr>have_runahead := True\<rparr>) null_world zero_settings
     (core_acts some_limits (core_cbs zero_session) (take 1 [Act_poll, Act_state])
        (raise_flags {Request_special_savestate} (fe zero_session))) \<noteq> Ctx_normal"
  using special_savestate_scope [where b = "plain_build\<lparr>have_runahead := True\<rparr>" and x = null_world
      and st = zero_settings and lm = some_limits and s = zero_session
      and acts = "[Act_poll, Act_state]" and k = 1]
  by simp

subsection \<open>Loading\<close>

text \<open>
  \<open>core_load_game\<close> reports and records the same thing: the game counts as loaded
  exactly when there was something to load and the core accepted it, whatever was loaded before
  and whatever the core did; the frame shown before is dropped and background saving switched off
  first; and the core is not called at all when it needs content and none is given.
\<close>

theorem load_game_recorded:
  fixes b lm req acts ok s
  defines "r \<equiv> fst (core_load_game b lm req acts ok s)" and "t \<equiv> snd (core_load_game b lm req acts ok s)"
  shows "(r \<longleftrightarrow> req \<noteq> None \<and> ok)
    \<and> (Core_game_loaded \<in> rc_flags (current_core (fe t)) \<longleftrightarrow> r)
    \<and> (r \<longrightarrow> remapping_cache_active t)
    \<and> \<not> frame_cache t
    \<and> (load_request needs_no_content None = None \<longleftrightarrow> \<not> needs_no_content)
    \<and> (req = None \<longrightarrow> C_core K_load_game \<in> set (calls (fe t)) \<longrightarrow> C_core K_load_game \<in> set (calls (fe s)))"
  by (auto simp: r_def t_def core_load_game_def load_request_def Let_def tell_def)

lemma load_game_recorded_witness:
  "remapping_cache_active (snd (core_load_game plain_build some_limits (Some Load_file) [Act_poll] True zero_session))"
  using load_game_recorded [of plain_build some_limits "Some Load_file" "[Act_poll]" True zero_session]
  by blast

subsection \<open>Taking a core down\<close>

lemma core_acts_override:
  "list_all keeps_policy acts \<Longrightarrow> poll_type_override (core_acts lm cbs acts f) = poll_type_override f"
proof (induction acts arbitrary: f)
  case (Cons a as)
  have "poll_type_override (core_act lm cbs a f) = poll_type_override f"
  proof (cases a)
    case (Act_env c cmd)
    with Cons.prems have "keeps_policy (Act_env c cmd)" by simp
    from core_view_eqD(6) [OF env_call_polls [OF this]] show ?thesis by (simp add: Act_env)
  next
    case Act_poll
    then show ?thesis by (cases "poll_cb cbs") (simp_all add: core_input_state_poll_maybe_def)
  next
    case Act_state
    then show ?thesis
      by (cases "state_cb cbs") (simp_all add: core_input_state_poll_late_def upd_core_flags_def)
  qed
  with Cons show ?case by simp
qed simp

lemma override_kept:
  "poll_type_override (drop_core_options x f) = poll_type_override f"
  "poll_type_override (apply_pending_override b x st f) = poll_type_override f"
  "poll_type_override (runloop_fastmotion_override_free r f) = poll_type_override f"
  "poll_type_override (runloop_system_info_free f) = poll_type_override f"
  "poll_type_override (runloop_audio_buffer_status_free f) = poll_type_override f"
  using core_view_option_frame [OF drop_core_options_frame, of x f]
  by (simp_all add: apply_pending_override_def runloop_apply_fastmotion_override_def core_view_def
        switch_fastmotion_def runloop_set_frame_limit_def runloop_fastmotion_override_free_def
        runloop_system_info_free_def runloop_audio_buffer_status_free_def Let_def frontend_updates)

lemma override_kept_uninit:
  "poll_type_override (fe (uninit_libretro_symbols b x r s)) = poll_type_override (fe s)"
  by (simp add: uninit_libretro_symbols_def runloop_state_free_def runloop_frame_time_free_def
      Let_def override_kept lower_flags_def)

lemma override_kept_drivers:
  "poll_type_override (fe (deinit_drivers b st s)) = poll_type_override (fe s)"
  by (simp add: deinit_drivers_def Let_def upd_vid_def)

lemma override_kept_unload:
  "Core_game_loaded \<notin> rc_flags (current_core (fe s))
     \<Longrightarrow> poll_type_override (fe (core_unload_game b lm acts s)) = poll_type_override (fe s)"
  by (simp add: core_unload_game_def Let_def)

text \<open>
  Unless a game was loaded, a polling override the core set survives the core: taking it down
  leaves the override in force for the next core, whatever policy is configured for that one.
\<close>

theorem poll_override_survives:
  assumes "Core_game_loaded \<notin> rc_flags (current_core (fe s))" and "list_all keeps_policy da"
    and "poll_type_override (fe s) = Override_to p"
  shows "new_poll_type (fe (core_set_poll_type q (runloop_event_deinit_core b x lm st ua da s))) = p"
proof -
  have "poll_type_override (fe (runloop_event_deinit_core b x lm st ua da s)) = poll_type_override (fe s)"
    using assms(1,2)
    by (simp add: runloop_event_deinit_core_def Let_def deinit_remaps_def override_kept
        override_kept_uninit override_kept_drivers override_kept_unload core_acts_override
        upd_core_flags_def)
  with assms(3) show ?thesis by (simp add: core_set_poll_type_def new_poll_type_def)
qed

lemma poll_override_survives_witness:
  "new_poll_type (fe (core_set_poll_type Poll_early (runloop_event_deinit_core plain_build null_world
     some_limits zero_settings [] []
     (zero_session\<lparr>fe := zero_frontend\<lparr>poll_type_override := Override_to Poll_late\<rparr>\<rparr>)))) = Poll_late"
  using poll_override_survives [where s = "zero_session\<lparr>fe := zero_frontend\<lparr>poll_type_override := Override_to Poll_late\<rparr>\<rparr>"
      and p = Poll_late and q = Poll_early and b = plain_build and x = null_world and lm = some_limits
      and st = zero_settings and ua = "[]" and da = "[]"]
  by (simp add: zero_frontend_def zero_core_def)

end
