(* ===== verification/C_Text.thy ===== *)
theory C_Text
  imports Frontend_State
begin

text \<open>
  The conversions of the C library the configuration code uses: printing of unsigned numbers
  (\<open>%u\<close>, \<open>%lu\<close>), and \<open>strtol\<close>, \<open>strtoul\<close> with base 0 and
  \<open>atoi\<close>, where \<open>long\<close> has 64 bits.  Strings are the bytes before the terminator.
\<close>

subsection \<open>Printing\<close>

definition digit_char :: "nat \<Rightarrow> char" where
  "digit_char d = char_of (48 + d)"

fun show_nat :: "nat \<Rightarrow> string" where
  "show_nat n = (if n < 10 then [digit_char n] else show_nat (n div 10) @ [digit_char (n mod 10)])"

declare show_nat.simps [simp del]

text \<open>\<open>%d\<close>\<close>

definition show_int :: "int \<Rightarrow> string" where
  "show_int n = (if n < 0 then CHR ''-'' # show_nat (nat (- n)) else show_nat (nat n))"

subsection \<open>Scanning\<close>

definition is_space :: "char \<Rightarrow> bool" where
  "is_space c \<longleftrightarrow> of_char c = (32 :: nat) \<or> (9 :: nat) \<le> of_char c \<and> of_char c \<le> (13 :: nat)"

definition is_digit :: "char \<Rightarrow> bool" where
  "is_digit c \<longleftrightarrow> (48 :: nat) \<le> of_char c \<and> of_char c \<le> (57 :: nat)"

definition digit :: "nat \<Rightarrow> char \<Rightarrow> nat option" where
  "digit base c =
     (let n = of_char c :: nat;
          d = (if 48 \<le> n \<and> n \<le> 57 then n - 48
               else if 97 \<le> n \<and> n \<le> 122 then n - 87
               else if 65 \<le> n \<and> n \<le> 90 then n - 55 else 99)
      in if d < base then Some d else None)"

fun scan :: "nat \<Rightarrow> nat \<Rightarrow> string \<Rightarrow> nat \<times> string" where
  "scan base acc [] = (acc, [])"
| "scan base acc (c # cs) =
     (case digit base c of None \<Rightarrow> (acc, c # cs) | Some d \<Rightarrow> scan base (acc * base + d) cs)"

text \<open>
  The number after an optional sign, with the base given by its prefix.  \<open>None\<close>: no digits.
\<close>

definition scan_auto :: "string \<Rightarrow> (nat \<times> string) option" where
  "scan_auto s =
     (case s of
        a # b # c # cs \<Rightarrow>
          if a = CHR ''0'' \<and> (b = CHR ''x'' \<or> b = CHR ''X'') \<and> digit 16 c \<noteq> None
          then Some (scan 16 0 (c # cs))
          else if a = CHR ''0'' then Some (scan 8 0 s)
          else if is_digit a then Some (scan 10 0 s) else None
      | a # cs \<Rightarrow> if a = CHR ''0'' then Some (scan 8 0 s)
                  else if is_digit a then Some (scan 10 0 s) else None
      | [] \<Rightarrow> None)"

definition scan_signed :: "string \<Rightarrow> bool \<times> (nat \<times> string) option" where
  "scan_signed s =
     (case dropWhile is_space s of
        c # cs \<Rightarrow> if c = CHR ''-'' then (True, scan_auto cs)
                  else if c = CHR ''+'' then (False, scan_auto cs) else (False, scan_auto (c # cs))
      | [] \<Rightarrow> (False, None))"

text \<open>Value and what is left of the string: all of it if there was no number.\<close>

definition strtoul :: "string \<Rightarrow> nat \<times> string" where
  "strtoul s =
     (case scan_signed s of
        (neg, None) \<Rightarrow> (0, s)
      | (neg, Some (v, rest)) \<Rightarrow>
          (if 2 ^ 64 \<le> v then 2 ^ 64 - 1 else if neg then (2 ^ 64 - v) mod 2 ^ 64 else v, rest))"

definition strtol :: "string \<Rightarrow> int" where
  "strtol s =
     (case scan_signed s of
        (neg, None) \<Rightarrow> 0
      | (neg, Some (v, rest)) \<Rightarrow>
          if neg then max (- (2 ^ 63)) (- int v) else min (2 ^ 63 - 1) (int v))"

text \<open>\<open>atoi\<close> is decimal.\<close>

definition atoi_dec :: "string \<Rightarrow> int" where
  "atoi_dec s =
     (case dropWhile is_space s of
        [] \<Rightarrow> 0
      | c # cs \<Rightarrow>
          if c = CHR ''-'' then - int (fst (scan 10 0 cs))
          else if c = CHR ''+'' then int (fst (scan 10 0 cs)) else int (fst (scan 10 0 (c # cs))))"

subsection \<open>Reading back what was printed\<close>

lemma of_digit_char [simp]: "d < 10 \<Longrightarrow> of_char (digit_char d) = (48 + d :: nat)"
  by (simp add: digit_char_def)

lemma digit_digit_char [simp]: "d < 10 \<Longrightarrow> digit 10 (digit_char d) = Some d"
  by (simp add: digit_def)

lemma is_digit_digit_char [simp]: "d < 10 \<Longrightarrow> is_digit (digit_char d)"
  by (simp add: is_digit_def)

lemma digit_char_neq:
  assumes "d < 10" and "of_char c < (48 :: nat) \<or> (58 :: nat) \<le> of_char c"
  shows "digit_char d \<noteq> c"
proof
  assume "digit_char d = c"
  then have "of_char c = (48 + d :: nat)" using assms(1) by auto
  with assms show False by simp
qed

lemma digit_char_not [simp]:
  assumes "d < 10"
  shows "digit_char d \<noteq> CHR ''-''" "digit_char d \<noteq> CHR ''+''" "\<not> is_space (digit_char d)"
    "digit_char d \<noteq> CHR ''x''" "digit_char d \<noteq> CHR ''X''" "digit_char d \<noteq> CHR ''n''"
    "digit_char d \<noteq> CHR ''h''" "digit_char d \<noteq> CHR ''w''"
proof -
  show "\<not> is_space (digit_char d)" using assms by (simp add: is_space_def)
qed (use assms in \<open>simp_all add: digit_char_neq\<close>)

lemma digit_char_zero: "digit_char 0 = CHR ''0''"
proof -
  have "char_of (of_char (CHR ''0'') :: nat) = CHR ''0''" by (rule char_of_char)
  moreover have "of_char (CHR ''0'') = (48 :: nat)" by simp
  ultimately show ?thesis by (simp only: digit_char_def) simp
qed

lemma digit_char_0:
  assumes "d < 10"
  shows "digit_char d = CHR ''0'' \<longleftrightarrow> d = 0"
proof
  assume "digit_char d = CHR ''0''"
  then have "of_char (digit_char d) = (48 :: nat)" by simp
  with assms show "d = 0" by simp
qed (simp add: digit_char_zero)

text \<open>A printed number starts with a digit, which is 0 only for the number 0.\<close>

lemma show_nat_Cons: "\<exists>d cs. show_nat n = digit_char d # cs \<and> d < 10 \<and> (d = 0 \<longleftrightarrow> n = 0)
    \<and> (n = 0 \<longrightarrow> cs = [])"
proof (induction n rule: show_nat.induct)
  case (1 n)
  show ?case
  proof (cases "n < 10")
    case True
    then show ?thesis
      by (intro exI [of _ n] exI [of _ "[]"]) (simp add: show_nat.simps [of n])
  next
    case False
    then have z: "n div 10 \<noteq> 0" by simp
    from 1 [OF False] z obtain d cs where d: "show_nat (n div 10) = digit_char d # cs" "d < 10" "d \<noteq> 0"
      by (elim exE conjE) simp
    then show ?thesis
      by (intro exI [of _ d] exI [of _ "cs @ [digit_char (n mod 10)]"])
         (use False in \<open>simp add: show_nat.simps [of n]\<close>)
  qed
qed

lemma scan_append:
  "scan 10 acc (show_nat n @ rest) = scan 10 (acc * 10 ^ length (show_nat n) + n) rest"
proof (induction n arbitrary: rest rule: show_nat.induct)
  case (1 n)
  show ?case
  proof (cases "n < 10")
    case True
    then show ?thesis by (simp add: show_nat.simps [of n])
  next
    case False
    have s: "show_nat n = show_nat (n div 10) @ [digit_char (n mod 10)]"
      using False by (simp add: show_nat.simps [of n])
    have "scan 10 acc (show_nat n @ rest)
        = scan 10 ((acc * 10 ^ length (show_nat (n div 10)) + n div 10) * 10 + n mod 10) rest"
      using 1 [OF False, of "digit_char (n mod 10) # rest"] by (simp add: s)
    also have "(acc * 10 ^ length (show_nat (n div 10)) + n div 10) * 10 + n mod 10
        = acc * 10 ^ length (show_nat n) + n"
      by (simp add: s algebra_simps)
    finally show ?thesis .
  qed
qed

definition no_digit_first :: "string \<Rightarrow> bool" where
  "no_digit_first s = (case s of [] \<Rightarrow> True | c # cs \<Rightarrow> digit 10 c = None)"

lemma scan_stop: "no_digit_first rest \<Longrightarrow> scan 10 acc rest = (acc, rest)"
  by (cases rest) (simp_all add: no_digit_first_def)

lemma scan_show: "no_digit_first rest \<Longrightarrow> scan 10 0 (show_nat n @ rest) = (n, rest)"
  by (simp add: scan_append scan_stop)

text \<open>Base 0 reads a printed number as a decimal one; a lone 0 has the same value in base 8.\<close>

lemma scan_auto_zero:
  assumes "no_digit_first rest" and "rest = [] \<or> hd rest \<noteq> CHR ''x'' \<and> hd rest \<noteq> CHR ''X''"
  shows "scan_auto (CHR ''0'' # rest) = Some (0, rest)"
proof -
  have z: "digit 8 (CHR ''0'') = Some 0" by (simp add: digit_def)
  have "digit 10 c = None \<Longrightarrow> digit 8 c = None" for c
    by (auto simp: digit_def Let_def split: if_splits)
  then have "scan 8 0 rest = (0, rest)"
    using assms(1) by (cases rest) (simp_all add: no_digit_first_def)
  with z have "scan 8 0 (CHR ''0'' # rest) = (0, rest)" by simp
  with assms(2) show ?thesis by (cases rest; cases "tl rest") (auto simp: scan_auto_def)
qed

lemma scan_auto_show:
  assumes "no_digit_first rest" and "rest = [] \<or> hd rest \<noteq> CHR ''x'' \<and> hd rest \<noteq> CHR ''X''"
  shows "scan_auto (show_nat n @ rest) = Some (n, rest)"
proof -
  obtain d cs where s: "show_nat n = digit_char d # cs" "d < 10" "d = 0 \<longleftrightarrow> n = 0" "n = 0 \<longrightarrow> cs = []"
    using show_nat_Cons by blast
  show ?thesis
  proof (cases "n = 0")
    case True
    with s have "show_nat n = [CHR ''0'']" by (simp add: digit_char_zero)
    with scan_auto_zero [OF assms] True show ?thesis by simp
  next
    case False
    with s have "digit_char d \<noteq> CHR ''0''" "is_digit (digit_char d)" by (simp_all add: digit_char_0)
    then have "scan_auto (show_nat n @ rest) = Some (scan 10 0 (show_nat n @ rest))"
      by (auto simp: scan_auto_def s(1) split: list.split)
    with scan_show [OF assms(1)] show ?thesis by simp
  qed
qed

lemma scan_signed_show:
  assumes "no_digit_first rest" and "rest = [] \<or> hd rest \<noteq> CHR ''x'' \<and> hd rest \<noteq> CHR ''X''"
  shows "scan_signed (show_nat n @ rest) = (False, Some (n, rest))"
proof -
  obtain d cs where s: "show_nat n = digit_char d # cs" "d < 10" using show_nat_Cons by blast
  then show ?thesis using scan_auto_show [OF assms, of n] by (simp add: scan_signed_def)
qed

lemma strtoul_show:
  assumes "no_digit_first rest" and "rest = [] \<or> hd rest \<noteq> CHR ''x'' \<and> hd rest \<noteq> CHR ''X''"
    and "n < 2 ^ 64"
  shows "strtoul (show_nat n @ rest) = (n, rest)"
  using assms(3) by (simp add: strtoul_def scan_signed_show [OF assms(1,2)])

lemma strtol_show: "n < 2 ^ 63 \<Longrightarrow> strtol (show_nat n) = int n"
  using scan_signed_show [of "[]" n] by (simp add: strtol_def no_digit_first_def)

lemma show_nat_inject [simp]: "show_nat m = show_nat n \<longleftrightarrow> m = n"
proof
  assume eq: "show_nat m = show_nat n"
  have "scan 10 0 (show_nat k @ []) = (k, [])" for k
    by (rule scan_show) (simp add: no_digit_first_def)
  from this [of m] this [of n] show "m = n" by (simp only: eq) simp
qed simp

lemma show_nat_length: "n < 10 ^ k \<Longrightarrow> 0 < k \<Longrightarrow> length (show_nat n) \<le> k"
proof (induction k arbitrary: n)
  case (Suc k)
  show ?case
  proof (cases "n < 10")
    case True
    then show ?thesis by (subst show_nat.simps) simp
  next
    case False
    with Suc have "n div 10 < 10 ^ k" "0 < k" by (auto simp: less_mult_imp_div_less) (cases k; simp)
    with Suc.IH have "length (show_nat (n div 10)) \<le> k" by blast
    with False show ?thesis by (subst show_nat.simps) simp
  qed
qed simp

end
