(* ===== verification/Keybinds.thy ===== *)
theory Keybinds
  imports C_Text
begin

unbundle bit_operations_syntax

text \<open>
  Key binds in configuration files (\<open>configuration.c\<close>): how the joypad button, axis and
  mouse button of a bind are written under the keys of a user, and how they are read back.

  The config file and the joining of key names belong to the RetroArch base library, and the
  encodings of buttons, hats and axes to its headers; neither is in the repository, so they are
  the arguments \<open>e\<close> and \<open>m\<close>.  A bind's button is taken to have 16 bits and its axis
  32, as in those headers.
\<close>

subsection \<open>What the code gets from outside\<close>

record 'c bind_env =
  conf_put :: "'c \<Rightarrow> string \<Rightarrow> string \<Rightarrow> 'c"
  conf_array :: "'c \<Rightarrow> string \<Rightarrow> nat \<Rightarrow> string option"
  conf_entry :: "'c \<Rightarrow> string \<Rightarrow> string option"
  join_delim :: "string \<Rightarrow> string \<Rightarrow> char \<Rightarrow> string"
  key_to_str :: "nat \<Rightarrow> string"
  uninit_text :: string

record bind_macros =
  no_btn :: u16
  axis_none :: u32
  axis_dir_none :: u32
  axis_neg :: "int \<Rightarrow> u32"
  axis_pos :: "int \<Rightarrow> u32"
  axis_neg_get :: "u32 \<Rightarrow> u32"
  axis_pos_get :: "u32 \<Rightarrow> u32"
  hat_up :: u16
  hat_down :: u16
  hat_left :: u16
  hat_right :: u16
  hat_map :: "u16 \<Rightarrow> u16 \<Rightarrow> u16"
  get_hat :: "u16 \<Rightarrow> u16"
  get_hat_dir :: "u16 \<Rightarrow> u16"
  mouse_left :: u16
  mouse_right :: u16
  mouse_middle :: u16
  mouse_button_4 :: u16
  mouse_button_5 :: u16
  mouse_wheelup :: u16
  mouse_wheeldown :: u16
  mouse_horiz_wheelup :: u16
  mouse_horiz_wheeldown :: u16

record keybind =
  kb_valid :: bool
  kb_key :: nat
  kb_joykey :: u16
  kb_joyaxis :: u32
  kb_mbutton :: u16
  kb_joykey_label :: c_str
  kb_joyaxis_label :: c_str

subsection \<open>Writing\<close>

text \<open>Key names are built in a buffer of 64 bytes.\<close>

definition bind_key :: "'c bind_env \<Rightarrow> string \<Rightarrow> string \<Rightarrow> string \<Rightarrow> string" where
  "bind_key e prefix base suffix = strlcpy 64 (join_delim e prefix base CHR ''_'' @ suffix)"

definition hat_name :: "bind_macros \<Rightarrow> u16 \<Rightarrow> string" where
  "hat_name m d =
     (if d = hat_up m then ''up'' else if d = hat_down m then ''down''
      else if d = hat_left m then ''left'' else if d = hat_right m then ''right'' else [])"

definition save_keybind_hat :: "'c bind_env \<Rightarrow> bind_macros \<Rightarrow> 'c \<Rightarrow> string \<Rightarrow> keybind \<Rightarrow> 'c" where
  "save_keybind_hat e m c key b =
     conf_put e c key (CHR ''h'' # show_nat (unat (get_hat m (kb_joykey b)))
                       @ hat_name m (get_hat_dir m (kb_joykey b)))"

definition save_keybind_joykey ::
    "'c bind_env \<Rightarrow> bind_macros \<Rightarrow> 'c \<Rightarrow> string \<Rightarrow> string \<Rightarrow> keybind \<Rightarrow> bool \<Rightarrow> 'c" where
  "save_keybind_joykey e m c prefix base b save_empty =
     (let key = bind_key e prefix base ''_btn''
      in if kb_joykey b = no_btn m then (if save_empty then conf_put e c key ''nul'' else c)
         else if get_hat_dir m (kb_joykey b) \<noteq> 0 then save_keybind_hat e m c key b
         else conf_put e c key (show_nat (unat (kb_joykey b))))"

definition save_keybind_axis ::
    "'c bind_env \<Rightarrow> bind_macros \<Rightarrow> 'c \<Rightarrow> string \<Rightarrow> string \<Rightarrow> keybind \<Rightarrow> bool \<Rightarrow> 'c" where
  "save_keybind_axis e m c prefix base b save_empty =
     (let key = bind_key e prefix base ''_axis''
      in if kb_joyaxis b = axis_none m then (if save_empty then conf_put e c key ''nul'' else c)
         else conf_put e c key
                (if axis_neg_get m (kb_joyaxis b) \<noteq> axis_dir_none m
                 then CHR ''-'' # show_nat (unat (axis_neg_get m (kb_joyaxis b)))
                 else if axis_pos_get m (kb_joyaxis b) \<noteq> axis_dir_none m
                 then CHR ''+'' # show_nat (unat (axis_pos_get m (kb_joyaxis b)))
                 else uninit_text e))"

definition mouse_text :: "bind_macros \<Rightarrow> u16 \<Rightarrow> string option" where
  "mouse_text m v =
     (if v = mouse_left m then Some (show_nat 1) else if v = mouse_right m then Some (show_nat 2)
      else if v = mouse_middle m then Some (show_nat 3)
      else if v = mouse_button_4 m then Some (show_nat 4)
      else if v = mouse_button_5 m then Some (show_nat 5)
      else if v = mouse_wheelup m then Some ''wu'' else if v = mouse_wheeldown m then Some ''wd''
      else if v = mouse_horiz_wheelup m then Some ''whu''
      else if v = mouse_horiz_wheeldown m then Some ''whd'' else None)"

definition save_keybind_mbutton ::
    "'c bind_env \<Rightarrow> bind_macros \<Rightarrow> 'c \<Rightarrow> string \<Rightarrow> string \<Rightarrow> keybind \<Rightarrow> bool \<Rightarrow> 'c" where
  "save_keybind_mbutton e m c prefix base b save_empty =
     (let key = bind_key e prefix base ''_mbtn''
      in case mouse_text m (kb_mbutton b) of
           Some t \<Rightarrow> conf_put e c key t
         | None \<Rightarrow> if save_empty then conf_put e c key ''nul'' else c)"

definition input_config_get_prefix :: "nat \<Rightarrow> bool \<Rightarrow> string option" where
  "input_config_get_prefix user meta =
     (if meta then (if user = 0 then Some ''input'' else None)
      else Some (map (\<lambda>i. ''input_player'' @ show_nat i) [1..<17] ! user))"

text \<open>The table of binds: the level of a meta bind, 0 for the others, and the base of its keys.\<close>

definition input_config_bind_map :: "bool \<Rightarrow> (nat \<times> string) list" where
  "input_config_bind_map have_menu_build =
     [(0, ''b''), (0, ''y''), (0, ''select''), (0, ''start''), (0, ''up''), (0, ''down''),
      (0, ''left''), (0, ''right''), (0, ''a''), (0, ''x''), (0, ''l''), (0, ''r''),
      (0, ''l2''), (0, ''r2''), (0, ''l3''), (0, ''r3''), (0, ''l_x_plus''),
      (0, ''l_x_minus''), (0, ''l_y_plus''), (0, ''l_y_minus''), (0, ''r_x_plus''),
      (0, ''r_x_minus''), (0, ''r_y_plus''), (0, ''r_y_minus''), (0, ''gun_trigger''),
      (0, ''gun_offscreen_shot''), (0, ''gun_aux_a''), (0, ''gun_aux_b''), (0, ''gun_aux_c''),
      (0, ''gun_start''), (0, ''gun_select''), (0, ''gun_dpad_up''), (0, ''gun_dpad_down''),
      (0, ''gun_dpad_left''), (0, ''gun_dpad_right''), (0, ''turbo''), (2, ''enable_hotkey'')]
     @ (if have_menu_build then [(1, ''menu_toggle'')] else [])
     @ [(2, ''exit_emulator''), (2, ''close_content''), (2, ''reset''),
      (1, ''toggle_fast_forward''), (2, ''hold_fast_forward''), (1, ''toggle_slowmotion''),
      (2, ''hold_slowmotion''), (1, ''rewind''), (2, ''pause_toggle''), (2, ''frame_advance''),
      (2, ''audio_mute''), (2, ''volume_up''), (2, ''volume_down''), (1, ''load_state''),
      (1, ''save_state''), (2, ''state_slot_increase''), (2, ''state_slot_decrease''),
      (1, ''play_replay''), (1, ''record_replay''), (1, ''halt_replay''),
      (2, ''replay_slot_increase''), (2, ''replay_slot_decrease''), (2, ''disk_eject_toggle''),
      (2, ''disk_next''), (2, ''disk_prev''), (2, ''shader_toggle''), (2, ''shader_hold''),
      (2, ''shader_next''), (2, ''shader_prev''), (2, ''cheat_toggle''),
      (2, ''cheat_index_plus''), (2, ''cheat_index_minus''), (2, ''screenshot''),
      (2, ''recording_toggle''), (2, ''streaming_toggle''), (2, ''turbo_fire_toggle''),
      (2, ''grab_mouse_toggle''), (2, ''game_focus_toggle''), (2, ''toggle_fullscreen''),
      (2, ''desktop_menu_toggle''), (2, ''toggle_vrr_runloop''), (2, ''runahead_toggle''),
      (2, ''preempt_toggle''), (2, ''fps_toggle''), (2, ''toggle_statistics''),
      (2, ''ai_service''), (2, ''netplay_ping_toggle''), (2, ''netplay_host_toggle''),
      (2, ''netplay_game_watch''), (2, ''netplay_player_chat''),
      (2, ''netplay_fade_chat_toggle''), (2, ''overlay_next''), (2, ''osk_toggle'')]"

definition save_one ::
    "'c bind_env \<Rightarrow> bind_macros \<Rightarrow> nat \<Rightarrow> (nat \<times> string) \<times> keybind \<Rightarrow> 'c \<Rightarrow> 'c" where
  "save_one e m user mb c =
     (case mb of ((level, base), b) \<Rightarrow>
        (case input_config_get_prefix user (level \<noteq> 0) of
           None \<Rightarrow> c
         | Some prefix \<Rightarrow>
             if \<not> kb_valid b then c
             else let c1 = conf_put e c (join_delim e prefix base CHR ''_'') (key_to_str e (kb_key b));
                      c2 = save_keybind_joykey e m c1 prefix base b True;
                      c3 = save_keybind_axis e m c2 prefix base b True
                  in save_keybind_mbutton e m c3 prefix base b True))"

definition input_config_save_keybinds_user ::
    "'c bind_env \<Rightarrow> bind_macros \<Rightarrow> bool \<Rightarrow> nat \<Rightarrow> keybind list \<Rightarrow> 'c \<Rightarrow> 'c" where
  "input_config_save_keybinds_user e m menu user binds c =
     fold (save_one e m user) (zip (input_config_bind_map menu) binds) c"

text \<open>An override writes only what differs from the bind in force.\<close>

definition input_config_save_keybinds_user_override ::
    "'c bind_env \<Rightarrow> bind_macros \<Rightarrow> nat \<Rightarrow> nat \<times> string \<Rightarrow> keybind \<Rightarrow> keybind \<Rightarrow> 'c \<Rightarrow> 'c" where
  "input_config_save_keybinds_user_override e m user entry b override c =
     (case input_config_get_prefix user (fst entry \<noteq> 0) of
        None \<Rightarrow> c
      | Some prefix \<Rightarrow>
          if \<not> kb_valid b then c
          else let base = snd entry;
                   c1 = conf_put e c (join_delim e prefix base CHR ''_'') (key_to_str e (kb_key override));
                   c2 = (if kb_joykey b \<noteq> kb_joykey override
                         then save_keybind_joykey e m c1 prefix base override True else c1);
                   c3 = (if kb_joyaxis b \<noteq> kb_joyaxis override
                         then save_keybind_axis e m c2 prefix base override True else c2)
               in if kb_mbutton b \<noteq> kb_mbutton override
                  then save_keybind_mbutton e m c3 prefix base override True else c3)"

subsection \<open>Reading\<close>

definition mbutton_of_text :: "bind_macros \<Rightarrow> string \<Rightarrow> u16" where
  "mbutton_of_text m tmp =
     (if take 1 tmp = ''w''
      then if take 1 (drop 1 tmp) = ''u'' then mouse_wheelup m
           else if take 1 (drop 1 tmp) = ''d'' then mouse_wheeldown m
           else if take 2 (drop 1 tmp) = ''hu'' then mouse_horiz_wheelup m
           else if take 2 (drop 1 tmp) = ''hd'' then mouse_horiz_wheeldown m
           else no_btn m
      else let v = atoi_dec tmp
           in if v = 1 then mouse_left m else if v = 2 then mouse_right m
              else if v = 3 then mouse_middle m else if v = 4 then mouse_button_4 m
              else if v = 5 then mouse_button_5 m else no_btn m)"

definition input_config_parse_mouse_button ::
    "'c bind_env \<Rightarrow> bind_macros \<Rightarrow> 'c \<Rightarrow> string \<Rightarrow> keybind \<Rightarrow> keybind" where
  "input_config_parse_mouse_button e m c s b =
     (case conf_array e c (join_delim e s ''mbtn'' CHR ''_'') 64 of
        None \<Rightarrow> b | Some tmp \<Rightarrow> b\<lparr>kb_mbutton := mbutton_of_text m tmp\<rparr>)"

text \<open>A label is taken over if the file has one that is not empty.\<close>

definition read_label :: "'c bind_env \<Rightarrow> 'c \<Rightarrow> string \<Rightarrow> c_str \<Rightarrow> c_str" where
  "read_label e c key old =
     (case conf_entry e c key of Some v \<Rightarrow> if v \<noteq> [] then Some v else old | None \<Rightarrow> old)"

definition axis_of_text :: "bind_macros \<Rightarrow> string \<Rightarrow> u32 \<Rightarrow> u32" where
  "axis_of_text m tmp old =
     (if tmp = ''nul'' then axis_none m
      else case tmp of
        c # d # ds \<Rightarrow>
          if c = CHR ''+'' then axis_pos m (signed_take_bit 31 (strtol (d # ds)))
          else if c = CHR ''-'' then axis_neg m (signed_take_bit 31 (strtol (d # ds))) else old
      | _ \<Rightarrow> old)"

definition input_config_parse_joy_axis ::
    "'c bind_env \<Rightarrow> bind_macros \<Rightarrow> 'c \<Rightarrow> string \<Rightarrow> keybind \<Rightarrow> keybind" where
  "input_config_parse_joy_axis e m c s b =
     (let b1 = (case conf_array e c (join_delim e s ''axis'' CHR ''_'') 64 of
                  Some tmp \<Rightarrow> b\<lparr>kb_joyaxis := axis_of_text m tmp (kb_joyaxis b)\<rparr> | None \<Rightarrow> b)
      in b1\<lparr>kb_joyaxis_label :=
              read_label e c (join_delim e s ''axis_label'' CHR ''_'') (kb_joyaxis_label b)\<rparr>)"

definition input_config_parse_hat :: "bind_macros \<Rightarrow> string \<Rightarrow> u16" where
  "input_config_parse_hat m dir =
     (if dir = ''up'' then hat_up m else if dir = ''down'' then hat_down m
      else if dir = ''left'' then hat_left m else if dir = ''right'' then hat_right m else 0)"

definition joykey_of_text :: "bind_macros \<Rightarrow> string \<Rightarrow> u16 \<Rightarrow> u16" where
  "joykey_of_text m tmp old =
     (if tmp = ''nul'' then no_btn m
      else if take 1 tmp = ''h''
      then case tl tmp of
             [] \<Rightarrow> old
           | c # cs \<Rightarrow>
               if is_digit c
               then let (hat, dir) = strtoul (c # cs); hat_dir = input_config_parse_hat m dir
                    in if hat_dir \<noteq> 0 then hat_map m (of_nat hat) hat_dir else old
               else old
      else of_nat (fst (strtoul tmp)))"

definition input_config_parse_joy_button ::
    "'c bind_env \<Rightarrow> bind_macros \<Rightarrow> 'c \<Rightarrow> string \<Rightarrow> keybind \<Rightarrow> keybind" where
  "input_config_parse_joy_button e m c s b =
     (let b1 = (case conf_array e c (join_delim e s ''btn'' CHR ''_'') 64 of
                  Some tmp \<Rightarrow> b\<lparr>kb_joykey := joykey_of_text m tmp (kb_joykey b)\<rparr> | None \<Rightarrow> b)
      in b1\<lparr>kb_joykey_label :=
              read_label e c (join_delim e s ''btn_label'' CHR ''_'') (kb_joykey_label b)\<rparr>)"

definition input_config_reset_autoconfig_binds ::
    "bind_macros \<Rightarrow> nat \<Rightarrow> nat \<Rightarrow> keybind list list \<Rightarrow> keybind list list" where
  "input_config_reset_autoconfig_binds m users port binds =
     (if users \<le> port then binds
      else binds[port := map (\<lambda>b. b\<lparr>kb_joykey := no_btn m, kb_joyaxis := axis_none m,
                 kb_joykey_label := None, kb_joyaxis_label := None\<rparr>) (binds ! port)])"

definition input_config_set_autoconfig_binds ::
    "'c bind_env \<Rightarrow> bind_macros \<Rightarrow> bool \<Rightarrow> nat \<Rightarrow> nat \<Rightarrow> 'c option \<Rightarrow> keybind list list \<Rightarrow> keybind list list" where
  "input_config_set_autoconfig_binds e m menu users port config binds =
     (case config of
        None \<Rightarrow> binds
      | Some c \<Rightarrow>
          if users \<le> port then binds
          else binds[port := map (\<lambda>(entry, b).
                 let str = join_delim e ''input'' (snd entry) CHR ''_''
                 in input_config_parse_joy_axis e m c str (input_config_parse_joy_button e m c str b))
               (zip (input_config_bind_map menu) (binds ! port))])"

end
