(* ===== verification/Keybind_Roundtrip.thy ===== *)
theory Keybind_Roundtrip
  imports Keybinds
begin

text \<open>
  Reading the key binds back gives the binds that were written: first for the texts of a button,
  an axis and a mouse button, then for one bind in a config file, then for all binds of a user,
  whose keys do not collide.
\<close>

subsection \<open>What is relied on\<close>

text \<open>Joining of key names, and the config file as a map from keys to texts.\<close>

definition join_ok :: "'c bind_env \<Rightarrow> bool" where
  "join_ok e \<longleftrightarrow>
     (\<forall>a b. length a + length b < 63 \<longrightarrow> join_delim e a b CHR ''_'' = a @ CHR ''_'' # b)"

definition store_ok :: "'c bind_env \<Rightarrow> bool" where
  "store_ok e \<longleftrightarrow>
     (\<forall>c k v n. length v < n \<longrightarrow> conf_array e (conf_put e c k v) k n = Some v)
     \<and> (\<forall>c k v k' n. k' \<noteq> k \<longrightarrow> conf_array e (conf_put e c k v) k' n = conf_array e c k' n)"

text \<open>The encodings of axes and hats.\<close>

definition axes_ok :: "bind_macros \<Rightarrow> bool" where
  "axes_ok m \<longleftrightarrow>
     (\<forall>i. 0 \<le> i \<and> i < 65535 \<longrightarrow>
        axis_neg m i \<noteq> axis_none m \<and> axis_pos m i \<noteq> axis_none m
        \<and> axis_neg_get m (axis_neg m i) = of_int i \<and> axis_pos_get m (axis_pos m i) = of_int i
        \<and> axis_neg_get m (axis_pos m i) = axis_dir_none m \<and> (of_int i :: u32) \<noteq> axis_dir_none m)"

abbreviation hat_dirs :: "bind_macros \<Rightarrow> u16 list" where
  "hat_dirs m \<equiv> [hat_up m, hat_down m, hat_left m, hat_right m]"

definition hats_ok :: "bind_macros \<Rightarrow> bool" where
  "hats_ok m \<longleftrightarrow>
     distinct (0 # hat_dirs m)
     \<and> (\<forall>n. \<forall>d\<in>set (hat_dirs m). n < 4096 \<longrightarrow>
          get_hat m (hat_map m n d) = n \<and> get_hat_dir m (hat_map m n d) = d
          \<and> hat_map m n d \<noteq> no_btn m)"

text \<open>
  The binds that can be written: a plain button, one direction of a hat, one direction of an axis,
  a mouse button, or none.
\<close>

definition bind_ok :: "bind_macros \<Rightarrow> keybind \<Rightarrow> bool" where
  "bind_ok m b \<longleftrightarrow>
     (kb_joykey b = no_btn m \<or> get_hat_dir m (kb_joykey b) = 0
      \<or> (\<exists>n d. n < 4096 \<and> d \<in> set (hat_dirs m) \<and> kb_joykey b = hat_map m n d))
     \<and> (kb_joyaxis b = axis_none m
        \<or> (\<exists>i. 0 \<le> i \<and> i < 65535 \<and> (kb_joyaxis b = axis_neg m i \<or> kb_joyaxis b = axis_pos m i)))
     \<and> (mouse_text m (kb_mbutton b) = None \<longrightarrow> kb_mbutton b = no_btn m)"

subsection \<open>Texts\<close>

definition button_text :: "bind_macros \<Rightarrow> u16 \<Rightarrow> string" where
  "button_text m k =
     (if k = no_btn m then ''nul''
      else if get_hat_dir m k \<noteq> 0 then CHR ''h'' # show_nat (unat (get_hat m k)) @ hat_name m (get_hat_dir m k)
      else show_nat (unat k))"

definition axis_text :: "'c bind_env \<Rightarrow> bind_macros \<Rightarrow> u32 \<Rightarrow> string" where
  "axis_text e m a =
     (if a = axis_none m then ''nul''
      else if axis_neg_get m a \<noteq> axis_dir_none m then CHR ''-'' # show_nat (unat (axis_neg_get m a))
      else if axis_pos_get m a \<noteq> axis_dir_none m then CHR ''+'' # show_nat (unat (axis_pos_get m a))
      else uninit_text e)"

definition mbutton_text :: "bind_macros \<Rightarrow> u16 \<Rightarrow> string" where
  "mbutton_text m v = (case mouse_text m v of Some t \<Rightarrow> t | None \<Rightarrow> ''nul'')"

lemma show_nat_not_nul [simp]: "show_nat n \<noteq> ''nul''"
proof -
  obtain d cs where "show_nat n = digit_char d # cs" "d < 10" using show_nat_Cons by blast
  then show ?thesis by simp
qed

lemma strtoul_show_all: "n < 2 ^ 64 \<Longrightarrow> strtoul (show_nat n) = (n, [])"
  using strtoul_show [of "[]" n] by (simp add: no_digit_first_def)

lemma unat16_bound: "unat (w :: u16) < 2 ^ 64"
  using unsigned_less [of w, where 'a = nat] by simp

lemma button_text_plain:
  assumes "k \<noteq> no_btn m" "get_hat_dir m k = 0"
  shows "joykey_of_text m (button_text m k) old = k"
proof -
  obtain d cs where s: "show_nat (unat k) = digit_char d # cs" "d < 10" using show_nat_Cons by blast
  have "joykey_of_text m (show_nat (unat k)) old = of_nat (fst (strtoul (show_nat (unat k))))"
    using s show_nat_not_nul [of "unat k"] by (simp add: joykey_of_text_def)
  also have "\<dots> = k" using strtoul_show_all [OF unat16_bound [of k]] by simp
  finally show ?thesis using assms by (simp add: button_text_def)
qed

lemma hat_name_facts:
  assumes "hats_ok m" "d \<in> set (hat_dirs m)"
  shows "input_config_parse_hat m (hat_name m d) = d" "d \<noteq> 0" "no_digit_first (hat_name m d)"
    "hat_name m d \<noteq> []" "hd (hat_name m d) \<noteq> CHR ''x''" "hd (hat_name m d) \<noteq> CHR ''X''"
    "length (hat_name m d) < 6"
  using assms
  by (auto simp: hats_ok_def hat_name_def input_config_parse_hat_def no_digit_first_def digit_def)

lemma button_text_hat:
  assumes "hats_ok m" "n < 4096" "d \<in> set (hat_dirs m)"
  shows "joykey_of_text m (button_text m (hat_map m n d)) old = hat_map m n d"
proof -
  note h = hat_name_facts [OF assms(1,3)]
  have g: "get_hat m (hat_map m n d) = n" "get_hat_dir m (hat_map m n d) = d" "hat_map m n d \<noteq> no_btn m"
    using assms by (auto simp: hats_ok_def)
  let ?t = "show_nat (unat n) @ hat_name m d"
  have p: "strtoul ?t = (unat n, hat_name m d)"
    by (rule strtoul_show) (use h unat16_bound [of n] in simp_all)
  obtain c cs where s: "show_nat (unat n) = digit_char c # cs" "c < 10" using show_nat_Cons by blast
  have "joykey_of_text m (CHR ''h'' # ?t) old
      = (let (hat, dir) = strtoul ?t; hat_dir = input_config_parse_hat m dir
         in if hat_dir \<noteq> 0 then hat_map m (of_nat hat) hat_dir else old)"
    using s by (simp add: joykey_of_text_def)
  also have "\<dots> = hat_map m n d" by (simp add: p h)
  finally show ?thesis by (simp add: button_text_def g h(2))
qed

lemma axis_text_read:
  assumes "axes_ok m" "a = axis_none m
    \<or> (\<exists>i. 0 \<le> i \<and> i < 65535 \<and> (a = axis_neg m i \<or> a = axis_pos m i))"
  shows "axis_of_text m (axis_text e m a) old = a"
proof (cases "a = axis_none m")
  case True
  then show ?thesis by (simp add: axis_text_def axis_of_text_def)
next
  case False
  with assms(2) obtain i where i: "0 \<le> i" "i < 65535" "a = axis_neg m i \<or> a = axis_pos m i" by blast
  have u: "unat (of_int i :: u32) = nat i"
    using i by (simp add: unat_eq_nat_uint uint_word_of_int_eq take_bit_int_eq_self)
  have v: "signed_take_bit 31 (strtol (show_nat (nat i))) = i"
    using i by (simp add: strtol_show signed_take_bit_int_eq_self)
  obtain c cs where s: "show_nat (nat i) = c # cs" using show_nat_Cons by blast
  have r: "axis_of_text m (CHR ''+'' # show_nat (nat i)) old = axis_pos m i"
    "axis_of_text m (CHR ''-'' # show_nat (nat i)) old = axis_neg m i"
    using v by (simp_all add: axis_of_text_def s)
  from i(3) show ?thesis
  proof
    assume "a = axis_neg m i"
    with assms(1) i False show ?thesis by (simp add: axes_ok_def axis_text_def u r)
  next
    assume "a = axis_pos m i"
    with assms(1) i False show ?thesis by (simp add: axes_ok_def axis_text_def u r)
  qed
qed

lemma button_text_read:
  assumes "hats_ok m" "bind_ok m b"
  shows "joykey_of_text m (button_text m (kb_joykey b)) old = kb_joykey b"
proof (cases "kb_joykey b = no_btn m")
  case True
  then show ?thesis by (simp add: button_text_def joykey_of_text_def)
next
  case False
  then show ?thesis
    using assms button_text_plain [OF False] button_text_hat [OF assms(1)]
    by (auto simp: bind_ok_def)
qed

lemma atoi_show: "n < 10 \<Longrightarrow> atoi_dec (show_nat n) = int n"
  by (simp add: atoi_dec_def show_nat.simps [of n])

lemma mbutton_of_digit:
  assumes "0 < n" "n < 10"
  shows "mbutton_of_text m (show_nat n)
    = (if n = 1 then mouse_left m else if n = 2 then mouse_right m else if n = 3 then mouse_middle m
       else if n = 4 then mouse_button_4 m else if n = 5 then mouse_button_5 m else no_btn m)"
proof -
  have "take 1 (show_nat n) \<noteq> ''w''"
    using assms by (simp add: show_nat.simps [of n])
  then show ?thesis using assms by (simp add: mbutton_of_text_def atoi_show)
qed

lemma mbutton_of_wheel:
  "mbutton_of_text m ''wu'' = mouse_wheelup m" "mbutton_of_text m ''wd'' = mouse_wheeldown m"
  "mbutton_of_text m ''whu'' = mouse_horiz_wheelup m" "mbutton_of_text m ''whd'' = mouse_horiz_wheeldown m"
  "mbutton_of_text m ''nul'' = no_btn m"
  by (simp_all add: mbutton_of_text_def atoi_dec_def is_space_def digit_def)

lemma mbutton_text_read:
  assumes "mouse_text m v = None \<longrightarrow> v = no_btn m"
  shows "mbutton_of_text m (mbutton_text m v) = v"
proof (cases "mouse_text m v")
  case None
  with assms show ?thesis by (simp add: mbutton_text_def mbutton_of_wheel)
next
  case (Some t)
  have "mbutton_of_text m t = v"
    using Some unfolding mouse_text_def
    by (simp add: mbutton_of_digit mbutton_of_wheel split: if_split_asm)
       (auto simp: mbutton_of_digit mbutton_of_wheel)
  with Some show ?thesis by (simp add: mbutton_text_def)
qed

text \<open>Every text fits the buffer it is read into.\<close>

lemma show_u16_length: "length (show_nat (unat (w :: u16))) \<le> 5"
  using show_nat_length [of "unat w" 5] unsigned_less [of w, where 'a = nat] by simp

lemma show_u32_length: "length (show_nat (unat (w :: u32))) \<le> 10"
  using show_nat_length [of "unat w" 10] unsigned_less [of w, where 'a = nat] by simp

lemma button_text_length: "length (button_text m k) < 16"
  using show_u16_length [of k] show_u16_length [of "get_hat m k"]
  by (auto simp: button_text_def hat_name_def)

lemma axis_text_length: "length (uninit_text e) < 16 \<Longrightarrow> length (axis_text e m a) < 16"
  using show_u32_length [of "axis_neg_get m a"] show_u32_length [of "axis_pos_get m a"]
  by (auto simp: axis_text_def)

lemma mbutton_text_length: "length (mbutton_text m v) < 16"
  by (auto simp: mbutton_text_def mouse_text_def show_nat.simps split: option.split)

subsection \<open>One bind in a file\<close>

definition bind_keys :: "string \<Rightarrow> string \<Rightarrow> string list" where
  "bind_keys prefix base =
     (let k = prefix @ CHR ''_'' # base in [k, k @ ''_btn'', k @ ''_axis'', k @ ''_mbtn''])"

lemma bind_key_short:
  assumes "join_ok e" "length prefix + length base + length suffix < 63"
  shows "bind_key e prefix base suffix = prefix @ CHR ''_'' # base @ suffix"
  using assms by (simp add: bind_key_def join_ok_def strlcpy_fits)

lemma save_parts:
  "save_keybind_joykey e m c p b0 b True = conf_put e c (bind_key e p b0 ''_btn'') (button_text m (kb_joykey b))"
  "save_keybind_axis e m c p b0 b True = conf_put e c (bind_key e p b0 ''_axis'') (axis_text e m (kb_joyaxis b))"
  "save_keybind_mbutton e m c p b0 b True = conf_put e c (bind_key e p b0 ''_mbtn'') (mbutton_text m (kb_mbutton b))"
  by (simp_all add: save_keybind_joykey_def save_keybind_hat_def button_text_def Let_def
      save_keybind_axis_def axis_text_def save_keybind_mbutton_def mbutton_text_def split: option.split)

lemma save_one_unfold:
  assumes "join_ok e" "length p + length base < 58"
    and "input_config_get_prefix user (level \<noteq> 0) = Some p" "kb_valid b"
  shows "save_one e m user ((level, base), b) c =
    (let k = p @ CHR ''_'' # base
     in conf_put e (conf_put e (conf_put e (conf_put e c k (key_to_str e (kb_key b)))
          (k @ ''_btn'') (button_text m (kb_joykey b)))
          (k @ ''_axis'') (axis_text e m (kb_joyaxis b)))
          (k @ ''_mbtn'') (mbutton_text m (kb_mbutton b)))"
  using assms by (simp add: save_one_def save_parts bind_key_short Let_def join_ok_def)

lemma save_one_other:
  assumes "join_ok e" "store_ok e" "length base < 40"
    and "\<And>p. input_config_get_prefix user (level \<noteq> 0) = Some p \<Longrightarrow> length p < 18 \<and> k \<notin> set (bind_keys p base)"
  shows "conf_array e (save_one e m user ((level, base), b) c) k n = conf_array e c k n"
proof (cases "input_config_get_prefix user (level \<noteq> 0)")
  case None
  then show ?thesis by (simp add: save_one_def)
next
  case (Some p)
  with assms(4) have p: "length p < 18" "k \<notin> set (bind_keys p base)" by auto
  show ?thesis
  proof (cases "kb_valid b")
    case True
    have "length p + length base < 58" using p assms(3) by simp
    from save_one_unfold [OF assms(1) this Some True] p(2) assms(2) show ?thesis
      by (simp add: bind_keys_def Let_def store_ok_def)
  next
    case False
    then show ?thesis by (simp add: save_one_def split: option.split)
  qed
qed

lemma save_one_read:
  assumes "join_ok e" "store_ok e" "length (uninit_text e) < 16" "length p + length base < 58"
    and "input_config_get_prefix user (level \<noteq> 0) = Some p" "kb_valid b"
  defines "k \<equiv> p @ CHR ''_'' # base"
  shows "conf_array e (save_one e m user ((level, base), b) c) (k @ ''_btn'') 64 = Some (button_text m (kb_joykey b))"
    and "conf_array e (save_one e m user ((level, base), b) c) (k @ ''_axis'') 64 = Some (axis_text e m (kb_joyaxis b))"
    and "conf_array e (save_one e m user ((level, base), b) c) (k @ ''_mbtn'') 64 = Some (mbutton_text m (kb_mbutton b))"
proof -
  have l: "length (button_text m (kb_joykey b)) < 64" "length (axis_text e m (kb_joyaxis b)) < 64"
    "length (mbutton_text m (kb_mbutton b)) < 64"
    using button_text_length [of m "kb_joykey b"] axis_text_length [OF assms(3), of m "kb_joyaxis b"]
      mbutton_text_length [of m "kb_mbutton b"] by simp_all
  note u = save_one_unfold [OF assms(1,4,5,6), of m c, folded k_def]
  show "conf_array e (save_one e m user ((level, base), b) c) (k @ ''_btn'') 64 = Some (button_text m (kb_joykey b))"
    "conf_array e (save_one e m user ((level, base), b) c) (k @ ''_axis'') 64 = Some (axis_text e m (kb_joyaxis b))"
    "conf_array e (save_one e m user ((level, base), b) c) (k @ ''_mbtn'') 64 = Some (mbutton_text m (kb_mbutton b))"
    using assms(2) l by (simp_all add: u Let_def store_ok_def)
qed

subsection \<open>Keys do not collide\<close>

definition base_ok :: "string \<Rightarrow> bool" where
  "base_ok b \<longleftrightarrow>
     length b < 40 \<and> take 4 (rev b) \<noteq> rev ''_btn'' \<and> take 5 (rev b) \<noteq> rev ''_axis''
     \<and> take 5 (rev b) \<noteq> rev ''_mbtn''
     \<and> list_all (\<lambda>s. take 6 (b @ s) \<noteq> ''player'') [[], ''_btn'', ''_axis'', ''_mbtn'']"

lemma bind_map_bases:
  "list_all base_ok (map snd (input_config_bind_map menu))"
  "distinct (map snd (input_config_bind_map menu))"
proof -
  have t: "list_all base_ok (map snd (input_config_bind_map True))"
    "distinct (map snd (input_config_bind_map True))"
    by code_simp+
  have f: "list_all base_ok (map snd (input_config_bind_map False))"
    "distinct (map snd (input_config_bind_map False))"
    by code_simp+
  from t f show "list_all base_ok (map snd (input_config_bind_map menu))"
    "distinct (map snd (input_config_bind_map menu))"
    by (cases menu, simp, simp)+
qed

lemma suffix_unique:
  fixes x y :: string
  assumes "take 4 x \<noteq> ''ntb_''" "take 5 x \<noteq> ''sixa_''" "take 5 x \<noteq> ''ntbm_''"
    and "take 4 y \<noteq> ''ntb_''" "take 5 y \<noteq> ''sixa_''" "take 5 y \<noteq> ''ntbm_''"
    and "take 4 (s @ x) = take 4 (t @ y)" "take 5 (s @ x) = take 5 (t @ y)"
    and "s = [] \<or> s = ''ntb_'' \<or> s = ''sixa_'' \<or> s = ''ntbm_''"
    and "t = [] \<or> t = ''ntb_'' \<or> t = ''sixa_'' \<or> t = ''ntbm_''"
  shows "s = t"
  using assms(9,10)
proof (elim disjE)
qed (use assms(1-8) in simp_all)

lemma suffix_cases:
  assumes "base_ok b" "base_ok b'" "b @ s = b' @ s'"
    and "s \<in> {[], ''_btn'', ''_axis'', ''_mbtn''}" "s' \<in> {[], ''_btn'', ''_axis'', ''_mbtn''}"
  shows "b = b'"
proof -
  have r: "rev s @ rev b = rev s' @ rev b'" using assms(3) by (metis rev_append)
  have "rev s = rev s'"
  proof (rule suffix_unique)
    show "take 4 (rev s @ rev b) = take 4 (rev s' @ rev b')" "take 5 (rev s @ rev b) = take 5 (rev s' @ rev b')"
      by (simp_all only: r)
  qed (use assms in \<open>auto simp: base_ok_def\<close>)
  with assms(3) show ?thesis by simp
qed

lemma get_prefix_cases:
  assumes "input_config_get_prefix user meta = Some p" "user < 16"
  shows "meta \<and> user = 0 \<and> p = ''input'' \<or> \<not> meta \<and> p = ''input_player'' @ show_nat (user + 1)"
  using assms by (auto simp: input_config_get_prefix_def nth_upt split: if_split_asm)

lemma get_prefix_short:
  "input_config_get_prefix user meta = Some p \<Longrightarrow> user < 16 \<Longrightarrow> length p < 18"
  using show_nat_length [of "user + 1" 2] by (auto dest: get_prefix_cases)

lemma bind_keys_disjoint:
  assumes "base_ok b" "base_ok b'" "b \<noteq> b'" "user < 16"
    and "input_config_get_prefix user meta = Some p" "input_config_get_prefix user meta' = Some p'"
  shows "set (bind_keys p b) \<inter> set (bind_keys p' b') = {}"
proof -
  let ?S = "{[], ''_btn'', ''_axis'', ''_mbtn''}"
  have k: "set (bind_keys q c) = (\<lambda>s. q @ CHR ''_'' # c @ s) ` ?S" for q c
    by (auto simp: bind_keys_def Let_def)
  have same: "q @ CHR ''_'' # b @ s \<noteq> q @ CHR ''_'' # b' @ s'" if "s \<in> ?S" "s' \<in> ?S" for q s s'
    using suffix_cases [OF assms(1,2) _ that] assms(3) by auto
  have differ: "''input'' @ CHR ''_'' # c @ s \<noteq> (''input_player'' @ show_nat n) @ CHR ''_'' # c' @ s'"
    if "base_ok c" "s \<in> ?S" for c c' s s' n
  proof
    assume "''input'' @ CHR ''_'' # c @ s = (''input_player'' @ show_nat n) @ CHR ''_'' # c' @ s'"
    then have "c @ s = ''player'' @ show_nat n @ CHR ''_'' # c' @ s'" by simp
    then have "take 6 (c @ s) = ''player''" by simp
    with that show False by (auto simp: base_ok_def)
  qed
  have "p = p' \<or> (p = ''input'' \<and> p' = ''input_player'' @ show_nat (user + 1))
      \<or> (p' = ''input'' \<and> p = ''input_player'' @ show_nat (user + 1))"
    using get_prefix_cases [OF assms(5,4)] get_prefix_cases [OF assms(6,4)] by blast
  then have "p @ CHR ''_'' # b @ s \<noteq> p' @ CHR ''_'' # b' @ s'" if "s \<in> ?S" "s' \<in> ?S" for s s'
    using same [OF that] differ [OF assms(1) that(1)] differ [OF assms(2) that(2)] by metis
  then show ?thesis unfolding k by blast
qed

subsection \<open>All binds of a user\<close>

lemma fold_save_other:
  assumes "join_ok e" "store_ok e"
    and "\<And>level base b p. ((level, base), b) \<in> set xs \<Longrightarrow> length base < 40
       \<and> (input_config_get_prefix user (level \<noteq> 0) = Some p \<longrightarrow> length p < 18 \<and> k \<notin> set (bind_keys p base))"
  shows "conf_array e (fold (save_one e m user) xs c) k n = conf_array e c k n"
  using assms(3)
proof (induction xs arbitrary: c)
  case (Cons x xs)
  obtain level base b where x: "x = ((level, base), b)" by (metis prod.collapse)
  have "conf_array e (save_one e m user ((level, base), b) c) k n = conf_array e c k n"
    using Cons.prems [of level base b] by (intro save_one_other [OF assms(1,2)]) (auto simp: x)
  moreover have "conf_array e (fold (save_one e m user) xs (save_one e m user x c)) k n
      = conf_array e (save_one e m user x c) k n"
    by (rule Cons.IH) (use Cons.prems in auto)
  ultimately show ?case by (simp add: x)
qed simp

lemma save_user_read:
  assumes "join_ok e" "store_ok e" "user < 16" "length binds = length (input_config_bind_map menu)"
    and "i < length binds" "input_config_bind_map menu ! i = (level, base)"
    and "input_config_get_prefix user (level \<noteq> 0) = Some p"
    and "k \<in> set (bind_keys p base)"
  shows "\<exists>c'. conf_array e (input_config_save_keybinds_user e m menu user binds c) k n
      = conf_array e (save_one e m user ((level, base), binds ! i) c') k n"
proof -
  let ?T = "input_config_bind_map menu" and ?xs = "zip (input_config_bind_map menu) binds"
  have split: "?xs = take i ?xs @ ((level, base), binds ! i) # drop (Suc i) ?xs"
    using assms(4,5,6) id_take_nth_drop [of i ?xs] by simp
  let ?c = "fold (save_one e m user) (take i ?xs) c"
  have later: "length base' < 40
       \<and> (input_config_get_prefix user (level' \<noteq> 0) = Some p' \<longrightarrow> length p' < 18 \<and> k \<notin> set (bind_keys p' base'))"
    if "((level', base'), b') \<in> set (drop (Suc i) ?xs)" for level' base' b' p'
  proof -
    from that obtain j where j: "j < length (drop (Suc i) ?xs)" "drop (Suc i) ?xs ! j = ((level', base'), b')"
      by (meson in_set_conv_nth)
    have "?xs ! (Suc i + j) = drop (Suc i) ?xs ! j" by (rule nth_drop [symmetric]) (use j(1) in auto)
    with j have t: "?T ! (Suc i + j) = (level', base')" "Suc i + j < length ?T" by simp_all
    have "map snd ?T ! (Suc i + j) \<noteq> map snd ?T ! i"
      using bind_map_bases(2) [of menu] t(2) assms(4,5) by (subst nth_eq_iff_index_eq) auto
    with t assms(4,5,6) have ne: "base' \<noteq> base" by simp
    have ok: "base_ok base" "base_ok base'"
      using bind_map_bases(1) [of menu] t assms(4-6) unfolding list_all_length by (metis length_map nth_map snd_conv)+
    then have "length base' < 40" by (simp add: base_ok_def)
    moreover have "length p' < 18 \<and> k \<notin> set (bind_keys p' base')"
      if pr: "input_config_get_prefix user (level' \<noteq> 0) = Some p'"
      using bind_keys_disjoint [OF ok(2,1) ne assms(3) pr assms(7)] get_prefix_short [OF pr assms(3)] assms(8)
      by blast
    ultimately show ?thesis by blast
  qed
  have "input_config_save_keybinds_user e m menu user binds c
      = fold (save_one e m user) (drop (Suc i) ?xs) (save_one e m user ((level, base), binds ! i) ?c)"
    unfolding input_config_save_keybinds_user_def by (subst split) simp
  moreover have "conf_array e (fold (save_one e m user) (drop (Suc i) ?xs)
        (save_one e m user ((level, base), binds ! i) ?c)) k n
      = conf_array e (save_one e m user ((level, base), binds ! i) ?c) k n"
    by (rule fold_save_other [OF assms(1,2)]) (use later in blast)
  ultimately show ?thesis by auto
qed

text \<open>
  C10. Saving all binds of a user and reading any one of them back gives its button, axis and mouse
  button again, whatever the file held before and whatever the reader's bind was: for all 16
  users, for every bind of the table, with and without the menu, and for every bind that is a
  plain button, one direction of a hat, one direction of an axis, a mouse button or none.
\<close>

theorem user_binds_round_trip:
  assumes env: "join_ok e" "store_ok e" "length (uninit_text e) < 16"
    and macros: "axes_ok m" "hats_ok m"
    and user: "user < 16" "input_config_get_prefix user (level \<noteq> 0) = Some p"
    and bind: "length binds = length (input_config_bind_map menu)" "i < length binds"
      "input_config_bind_map menu ! i = (level, base)" "kb_valid (binds ! i)" "bind_ok m (binds ! i)"
  shows "let c' = input_config_save_keybinds_user e m menu user binds c;
             str = join_delim e p base CHR ''_''
         in kb_joykey (input_config_parse_joy_button e m c' str old) = kb_joykey (binds ! i)
          \<and> kb_joyaxis (input_config_parse_joy_axis e m c' str old) = kb_joyaxis (binds ! i)
          \<and> kb_mbutton (input_config_parse_mouse_button e m c' str old) = kb_mbutton (binds ! i)"
proof -
  let ?k = "p @ CHR ''_'' # base" and ?c' = "input_config_save_keybinds_user e m menu user binds c"
  have "base_ok base"
    using bind_map_bases(1) [of menu] bind(1,2,3) by (auto simp: list_all_length dest: spec)
  then have len: "length p + length base < 58"
    using get_prefix_short [OF user(2,1)] by (simp add: base_ok_def)
  have keys: "?k @ ''_btn'' \<in> set (bind_keys p base)" "?k @ ''_axis'' \<in> set (bind_keys p base)"
    "?k @ ''_mbtn'' \<in> set (bind_keys p base)" by (simp_all add: bind_keys_def Let_def)
  note rd = save_user_read [OF env(1,2) user(1) bind(1,2,3) user(2), where m = m and c = c]
  note one = save_one_read [OF env len user(2) bind(4), where m = m]
  have r: "conf_array e ?c' (?k @ ''_btn'') 64 = Some (button_text m (kb_joykey (binds ! i)))"
    "conf_array e ?c' (?k @ ''_axis'') 64 = Some (axis_text e m (kb_joyaxis (binds ! i)))"
    "conf_array e ?c' (?k @ ''_mbtn'') 64 = Some (mbutton_text m (kb_mbutton (binds ! i)))"
    using rd [OF keys(1)] rd [OF keys(2)] rd [OF keys(3)] one by metis+
  have j: "join_delim e p base CHR ''_'' = ?k" "join_delim e ?k ''btn'' CHR ''_'' = ?k @ ''_btn''"
    "join_delim e ?k ''axis'' CHR ''_'' = ?k @ ''_axis''" "join_delim e ?k ''mbtn'' CHR ''_'' = ?k @ ''_mbtn''"
    using env(1) len by (simp_all add: join_ok_def)
  show ?thesis
    using button_text_read [OF macros(2) bind(5)] mbutton_text_read [of m "kb_mbutton (binds ! i)"]
      axis_text_read [OF macros(1), of "kb_joyaxis (binds ! i)"] bind(5)
    unfolding Let_def j(1) input_config_parse_joy_button_def input_config_parse_joy_axis_def
      input_config_parse_mouse_button_def j(2-4) r
    by (simp add: bind_ok_def)
qed

subsection \<open>Overrides\<close>

lemma override_texts:
  assumes "join_ok e" "store_ok e" "length (uninit_text e) < 16" "length p + length base < 58"
    and "input_config_get_prefix user (level \<noteq> 0) = Some p" "kb_valid b"
    and k_def: "k = p @ CHR ''_'' # base"
    and c'_def: "c' = input_config_save_keybinds_user_override e m user (level, base) b ov c"
  shows "conf_array e c' (k @ ''_btn'') 64
      = (if kb_joykey b \<noteq> kb_joykey ov then Some (button_text m (kb_joykey ov)) else conf_array e c (k @ ''_btn'') 64)"
    and "conf_array e c' (k @ ''_axis'') 64
      = (if kb_joyaxis b \<noteq> kb_joyaxis ov then Some (axis_text e m (kb_joyaxis ov)) else conf_array e c (k @ ''_axis'') 64)"
    and "conf_array e c' (k @ ''_mbtn'') 64
      = (if kb_mbutton b \<noteq> kb_mbutton ov then Some (mbutton_text m (kb_mbutton ov)) else conf_array e c (k @ ''_mbtn'') 64)"
proof -
  have l: "length (button_text m (kb_joykey ov)) < 64" "length (axis_text e m (kb_joyaxis ov)) < 64"
    "length (mbutton_text m (kb_mbutton ov)) < 64"
    using button_text_length [of m "kb_joykey ov"] axis_text_length [OF assms(3), of m "kb_joyaxis ov"]
      mbutton_text_length [of m "kb_mbutton ov"] by simp_all
  have j: "join_delim e p base CHR ''_'' = k" using assms(1,4) by (simp add: join_ok_def k_def)
  have k: "bind_key e p base ''_btn'' = k @ ''_btn''" "bind_key e p base ''_axis'' = k @ ''_axis''"
    "bind_key e p base ''_mbtn'' = k @ ''_mbtn''"
    using assms(1,4) by (simp_all add: bind_key_short k_def)
  have u: "c' = (let c1 = conf_put e c k (key_to_str e (kb_key ov));
      c2 = (if kb_joykey b \<noteq> kb_joykey ov then conf_put e c1 (k @ ''_btn'') (button_text m (kb_joykey ov)) else c1);
      c3 = (if kb_joyaxis b \<noteq> kb_joyaxis ov then conf_put e c2 (k @ ''_axis'') (axis_text e m (kb_joyaxis ov)) else c2)
      in if kb_mbutton b \<noteq> kb_mbutton ov then conf_put e c3 (k @ ''_mbtn'') (mbutton_text m (kb_mbutton ov)) else c3)"
    using assms(5,6)
    by (simp add: c'_def input_config_save_keybinds_user_override_def save_parts j k Let_def)
  have d: "k @ ''_btn'' \<noteq> k" "k @ ''_axis'' \<noteq> k" "k @ ''_mbtn'' \<noteq> k"
    "k @ ''_btn'' \<noteq> k @ ''_axis''" "k @ ''_btn'' \<noteq> k @ ''_mbtn''" "k @ ''_axis'' \<noteq> k @ ''_mbtn''" by simp_all
  show "conf_array e c' (k @ ''_btn'') 64
      = (if kb_joykey b \<noteq> kb_joykey ov then Some (button_text m (kb_joykey ov)) else conf_array e c (k @ ''_btn'') 64)"
    "conf_array e c' (k @ ''_axis'') 64
      = (if kb_joyaxis b \<noteq> kb_joyaxis ov then Some (axis_text e m (kb_joyaxis ov)) else conf_array e c (k @ ''_axis'') 64)"
    "conf_array e c' (k @ ''_mbtn'') 64
      = (if kb_mbutton b \<noteq> kb_mbutton ov then Some (mbutton_text m (kb_mbutton ov)) else conf_array e c (k @ ''_mbtn'') 64)"
    using assms(2) l d by (simp_all add: u Let_def store_ok_def)
qed

text \<open>
  An override file holds only what differs from the bind in force, and reading it over that
  bind gives the overridden button, axis and mouse button: whatever is missing in the file is
  what the two binds have in common.
\<close>

theorem override_round_trip:
  assumes env: "join_ok e" "store_ok e" "length (uninit_text e) < 16"
    and macros: "axes_ok m" "hats_ok m"
    and user: "user < 16" "input_config_get_prefix user (level \<noteq> 0) = Some p"
    and entry: "(level, base) \<in> set (input_config_bind_map menu)"
    and fresh: "\<And>s. s \<in> {''_btn'', ''_axis'', ''_mbtn''} \<Longrightarrow> conf_array e c (p @ CHR ''_'' # base @ s) 64 = None"
    and bind: "kb_valid b" "bind_ok m ov"
  shows "let c' = input_config_save_keybinds_user_override e m user (level, base) b ov c;
             str = join_delim e p base CHR ''_''
         in kb_joykey (input_config_parse_joy_button e m c' str b) = kb_joykey ov
          \<and> kb_joyaxis (input_config_parse_joy_axis e m c' str b) = kb_joyaxis ov
          \<and> kb_mbutton (input_config_parse_mouse_button e m c' str b) = kb_mbutton ov"
proof -
  let ?k = "p @ CHR ''_'' # base"
  have "base_ok base" using bind_map_bases(1) [of menu] entry by (auto simp: list_all_iff)
  then have len: "length p + length base < 58"
    using get_prefix_short [OF user(2,1)] by (simp add: base_ok_def)
  have j: "join_delim e p base CHR ''_'' = ?k" "join_delim e ?k ''btn'' CHR ''_'' = ?k @ ''_btn''"
    "join_delim e ?k ''axis'' CHR ''_'' = ?k @ ''_axis''" "join_delim e ?k ''mbtn'' CHR ''_'' = ?k @ ''_mbtn''"
    using env(1) len by (simp_all add: join_ok_def)
  note t = override_texts [OF env len user(2) bind(1) refl refl, where m = m and ov = ov and c = c]
  have f: "conf_array e c (?k @ ''_btn'') 64 = None" "conf_array e c (?k @ ''_axis'') 64 = None"
    "conf_array e c (?k @ ''_mbtn'') 64 = None" by (simp_all add: fresh)
  have r: "joykey_of_text m (button_text m (kb_joykey ov)) x = kb_joykey ov"
    "axis_of_text m (axis_text e m (kb_joyaxis ov)) y = kb_joyaxis ov"
    "mbutton_of_text m (mbutton_text m (kb_mbutton ov)) = kb_mbutton ov" for x y
    using button_text_read [OF macros(2) bind(2)] bind(2)
    by (auto simp: bind_ok_def intro!: axis_text_read [OF macros(1)] mbutton_text_read)
  show ?thesis
    unfolding Let_def j(1) input_config_parse_joy_button_def input_config_parse_joy_axis_def
      input_config_parse_mouse_button_def j(2-4) t f
    by (simp add: r)
qed

subsection \<open>A config file and the encodings of the headers\<close>

definition map_env :: "(string \<Rightarrow> string option) bind_env" where
  "map_env = \<lparr>conf_put = \<lambda>c k v. c(k \<mapsto> v),
     conf_array = \<lambda>c k n. (case c k of Some v \<Rightarrow> if length v < n then Some v else None | None \<Rightarrow> None),
     conf_entry = \<lambda>c k. c k, join_delim = \<lambda>a b d. a @ d # b, key_to_str = show_nat, uninit_text = []\<rparr>"

definition header_macros :: bind_macros where
  "header_macros = \<lparr>no_btn = 65535, axis_none = - 1, axis_dir_none = 65535,
     axis_neg = \<lambda>i. word_of_int (i * 65536 + 65535), axis_pos = \<lambda>i. word_of_int (4294901760 + i),
     axis_neg_get = \<lambda>a. word_of_int (uint a div 65536), axis_pos_get = \<lambda>a. word_of_int (uint a mod 65536),
     hat_up = 32768, hat_down = 16384, hat_left = 8192, hat_right = 4096,
     hat_map = \<lambda>n d. word_of_int (uint n mod 4096 + uint d),
     get_hat = \<lambda>k. word_of_int (uint k mod 4096),
     get_hat_dir = \<lambda>k. word_of_int (uint k div 4096 * 4096),
     mouse_left = 2, mouse_right = 3, mouse_middle = 6, mouse_button_4 = 9, mouse_button_5 = 10,
     mouse_wheelup = 4, mouse_wheeldown = 5, mouse_horiz_wheelup = 7, mouse_horiz_wheeldown = 8\<rparr>"

lemma map_env_ok: "join_ok map_env" "store_ok map_env" "length (uninit_text map_env) < 16"
  by (simp_all add: map_env_def join_ok_def store_ok_def)

lemma uint32_of [simp]: "0 \<le> x \<Longrightarrow> x < 4294967296 \<Longrightarrow> uint (word_of_int x :: u32) = x"
  by (simp add: uint_word_of_int_eq take_bit_int_eq_self)

lemma word32_neq:
  assumes "0 \<le> x" "x < y" "y < 4294967296"
  shows "(word_of_int x :: u32) \<noteq> word_of_int y"
proof
  assume "(word_of_int x :: u32) = word_of_int y"
  then have "uint (word_of_int x :: u32) = uint (word_of_int y :: u32)" by (rule arg_cong)
  then show False using assms by simp
qed

lemma header_axis:
  assumes "0 \<le> i" "i < 65535"
  shows "axis_neg header_macros i \<noteq> axis_none header_macros"
    "axis_pos header_macros i \<noteq> axis_none header_macros"
    "axis_neg_get header_macros (axis_neg header_macros i) = of_int i"
    "axis_pos_get header_macros (axis_pos header_macros i) = of_int i"
    "axis_neg_get header_macros (axis_pos header_macros i) = axis_dir_none header_macros"
    "(of_int i :: u32) \<noteq> axis_dir_none header_macros"
proof -
  have m1: "(- 1 :: u32) = word_of_int 4294967295" by simp
  have d: "(i * 65536 + 65535) div 65536 = i"
    by (rule int_div_pos_eq [where r = 65535]) simp_all
  have d2: "(4294901760 + i) mod 65536 = i"
    by (rule int_mod_pos_eq [where q = 65535]) (use assms in simp_all)
  have d3: "(4294901760 + i) div 65536 = 65535"
    by (rule int_div_pos_eq [where r = i]) (use assms in simp_all)
  have b: "uint (word_of_int (i * 65536 + 65535) :: u32) = i * 65536 + 65535"
    "uint (word_of_int (4294901760 + i) :: u32) = 4294901760 + i"
    by (rule uint32_of; use assms in linarith)+
  have "axis_neg header_macros i = word_of_int (i * 65536 + 65535)"
    "axis_pos header_macros i = word_of_int (4294901760 + i)"
    "axis_none header_macros = word_of_int 4294967295"
    "axis_dir_none header_macros = word_of_int 65535"
    unfolding header_macros_def m1 by simp_all
  note h = this
  show "axis_neg header_macros i \<noteq> axis_none header_macros"
    unfolding h by (rule word32_neq) (use assms in auto)
  show "axis_pos header_macros i \<noteq> axis_none header_macros"
    unfolding h by (rule word32_neq) (use assms in auto)
  have g: "axis_neg_get header_macros a = word_of_int (uint a div 65536)"
    "axis_pos_get header_macros a = word_of_int (uint a mod 65536)" for a
    by (simp_all add: header_macros_def)
  show "axis_neg_get header_macros (axis_neg header_macros i) = of_int i"
    "axis_pos_get header_macros (axis_pos header_macros i) = of_int i"
    "axis_neg_get header_macros (axis_pos header_macros i) = axis_dir_none header_macros"
    unfolding g h b d d2 d3 by simp_all
  show "(of_int i :: u32) \<noteq> axis_dir_none header_macros"
    unfolding h by (rule word32_neq) (use assms in auto)
qed

lemma header_axes_ok: "axes_ok header_macros"
  unfolding axes_ok_def using header_axis by blast

lemma uint16_of [simp]: "0 \<le> x \<Longrightarrow> x < 65536 \<Longrightarrow> uint (word_of_int x :: u16) = x"
  by (simp add: uint_word_of_int_eq take_bit_int_eq_self)

lemma header_hat:
  assumes n: "n < (4096 :: u16)" and d: "uint d \<in> {4096, 8192, 16384, 32768}"
  shows "get_hat header_macros (hat_map header_macros n d) = n"
    "get_hat_dir header_macros (hat_map header_macros n d) = d"
    "hat_map header_macros n d \<noteq> no_btn header_macros"
proof -
  have n': "0 \<le> uint n" "uint n < 4096" using n by (simp_all add: word_less_def)
  have k: "hat_map header_macros n d = word_of_int (uint n + uint d)"
    using n' by (simp add: header_macros_def)
  have u: "uint (word_of_int (uint n + uint d) :: u16) = uint n + uint d"
    by (rule uint16_of) (use n' d in auto)
  have e: "(uint n + uint d) mod 4096 = uint n" "(uint n + uint d) div 4096 * 4096 = uint d"
    using n' d int_mod_pos_eq [of "uint n + uint d" 4096 "uint d div 4096" "uint n"]
      int_div_pos_eq [of "uint n + uint d" 4096 "uint d div 4096" "uint n"] by auto
  have g: "get_hat header_macros a = word_of_int (uint a mod 4096)"
    "get_hat_dir header_macros a = word_of_int (uint a div 4096 * 4096)" for a
    by (simp_all add: header_macros_def)
  show "get_hat header_macros (hat_map header_macros n d) = n"
    "get_hat_dir header_macros (hat_map header_macros n d) = d"
    unfolding g k u e by simp_all
  have "uint (word_of_int (uint n + uint d) :: u16) \<noteq> 65535" unfolding u using n' d by auto
  then have "(word_of_int (uint n + uint d) :: u16) \<noteq> word_of_int 65535" by fastforce
  then show "hat_map header_macros n d \<noteq> no_btn header_macros"
    unfolding k by (simp add: header_macros_def)
qed

lemma header_hats_ok: "hats_ok header_macros"
proof -
  have "uint d \<in> {4096, 8192, 16384, 32768}" if "d \<in> set (hat_dirs header_macros)" for d
    using that by (auto simp: header_macros_def)
  moreover have "distinct (0 # hat_dirs header_macros)" by (simp add: header_macros_def)
  ultimately show ?thesis unfolding hats_ok_def using header_hat by blast
qed

definition sample_bind :: keybind where
  "sample_bind = \<lparr>kb_valid = True, kb_key = 120, kb_joykey = hat_map header_macros 3 (hat_left header_macros),
     kb_joyaxis = axis_neg header_macros 1, kb_mbutton = 4, kb_joykey_label = None, kb_joyaxis_label = None\<rparr>"

lemma sample_bind_ok: "kb_valid sample_bind" "bind_ok header_macros sample_bind"
proof -
  have "\<exists>n d. n < 4096 \<and> d \<in> set (hat_dirs header_macros) \<and> kb_joykey sample_bind = hat_map header_macros n d"
    by (rule exI [of _ 3], rule exI [of _ "hat_left header_macros"]) (simp add: sample_bind_def)
  moreover have "\<exists>i. 0 \<le> i \<and> i < 65535 \<and> (kb_joyaxis sample_bind = axis_neg header_macros i
      \<or> kb_joyaxis sample_bind = axis_pos header_macros i)"
    by (rule exI [of _ 1]) (simp add: sample_bind_def)
  ultimately show "bind_ok header_macros sample_bind"
    by (simp add: bind_ok_def sample_bind_def mouse_text_def header_macros_def)
qed (simp add: sample_bind_def)

theorem user_binds_round_trip_witness:
  "kb_joykey (input_config_parse_joy_button map_env header_macros
       (input_config_save_keybinds_user map_env header_macros True 0
          (replicate (length (input_config_bind_map True)) sample_bind) Map.empty)
       ''input_player1_b'' (sample_bind\<lparr>kb_joykey := 0\<rparr>)) = 3 + 8192"
proof -
  let ?bs = "replicate (length (input_config_bind_map True)) sample_bind"
  have t: "input_config_bind_map True ! 0 = (0, ''b'')" "0 < length (input_config_bind_map True)"
    by (simp_all add: input_config_bind_map_def)
  have pre: "input_config_get_prefix 0 ((0::nat) \<noteq> 0) = Some ''input_player1''"
    by code_simp
  have "join_delim map_env ''input_player1'' ''b'' CHR ''_'' = ''input_player1_b''" by (simp add: map_env_def)
  moreover have "hat_map header_macros 3 (hat_left header_macros) = 3 + 8192" by (simp add: header_macros_def)
  ultimately show ?thesis
    using user_binds_round_trip [where e = map_env and m = header_macros and user = 0 and level = 0
        and p = "''input_player1''" and menu = True and binds = ?bs and i = 0 and base = "''b''"
        and c = Map.empty and old = "sample_bind\<lparr>kb_joykey := 0\<rparr>",
        OF map_env_ok header_axes_ok header_hats_ok _ pre _ _ t(1)] t sample_bind_ok
    by (simp add: Let_def sample_bind_def)
qed

theorem override_round_trip_witness:
  "kb_joyaxis (input_config_parse_joy_axis map_env header_macros
       (input_config_save_keybinds_user_override map_env header_macros 0 (0, ''b'')
          (sample_bind\<lparr>kb_joyaxis := axis_none header_macros\<rparr>) sample_bind Map.empty)
       ''input_player1_b'' (sample_bind\<lparr>kb_joyaxis := axis_none header_macros\<rparr>)) = 131071"
proof -
  have pre: "input_config_get_prefix 0 ((0::nat) \<noteq> 0) = Some ''input_player1''" by code_simp
  have t: "(0, ''b'') \<in> set (input_config_bind_map True)" by (simp add: input_config_bind_map_def)
  have "join_delim map_env ''input_player1'' ''b'' CHR ''_'' = ''input_player1_b''"
    "conf_array map_env Map.empty k 64 = None" for k by (simp_all add: map_env_def)
  moreover have "kb_joyaxis sample_bind = 131071" by (simp add: sample_bind_def header_macros_def)
  ultimately show ?thesis
    using override_round_trip [where e = map_env and m = header_macros and user = 0 and level = 0
        and p = "''input_player1''" and menu = True and base = "''b''" and c = Map.empty
        and b = "sample_bind\<lparr>kb_joyaxis := axis_none header_macros\<rparr>" and ov = sample_bind,
        OF map_env_ok header_axes_ok header_hats_ok _ pre t] sample_bind_ok
    by (simp add: Let_def)
qed

end
