(* ===== verification/Option_Overrides.thy ===== *)
theory Option_Overrides
  imports Core_Options
begin

text \<open>
  Option files of a game and of a folder: \<open>core_options_create_override\<close>,
  \<open>core_options_remove_override\<close>, \<open>core_options_reset\<close> and \<open>core_options_flush\<close> of
  \<open>runloop.c\<close>.  The state adds to the frontend the files on disk, because these operations
  read what earlier ones wrote.  The parser and the writer of configuration files and the table
  of option declarations are outside the repository: they are the fields of \<open>option_code\<close>.
\<close>

record option_decl =
  od_key :: string
  od_values :: "string list"
  od_default :: nat

text \<open>
  \<open>conf_write\<close> returns the result, the new content of the file if it was written, and the
  configuration object afterwards; \<open>file_deletes\<close> says whether deleting a file succeeds, which
  the code does not look at.
\<close>

record option_code =
  option_table :: "handle \<Rightarrow> option_decl list"
  conf_parse :: "handle \<Rightarrow> handle option"
  conf_entry :: "handle \<Rightarrow> string \<Rightarrow> string option"
  conf_mark_modified :: "handle \<Rightarrow> handle"
  conf_write :: "string \<Rightarrow> handle \<Rightarrow> bool \<times> handle option \<times> handle"
  file_deletes :: "string \<Rightarrow> bool"

record override_state =
  ov_fe :: frontend
  ov_disk :: "string \<rightharpoonup> handle"
  ov_cheevos_checks :: nat

definition on_disk :: "(string \<rightharpoonup> handle) \<Rightarrow> ext \<Rightarrow> ext" where
  "on_disk d x = x\<lparr>path_is_valid := (\<lambda>p. d p \<noteq> None)\<rparr>"

definition conf_from_path :: "option_code \<Rightarrow> (string \<rightharpoonup> handle) \<Rightarrow> string \<Rightarrow> handle option" where
  "conf_from_path oc d p = Option.bind (d p) (conf_parse oc)"

definition put_file :: "string \<Rightarrow> handle option \<Rightarrow> (string \<rightharpoonup> handle) \<Rightarrow> (string \<rightharpoonup> handle)" where
  "put_file p content d = (case content of None \<Rightarrow> d | Some c \<Rightarrow> d(p \<mapsto> c))"

definition delete_option_file :: "option_code \<Rightarrow> string \<Rightarrow> (string \<rightharpoonup> handle) \<Rightarrow> (string \<rightharpoonup> handle)" where
  "delete_option_file oc p d = (if file_deletes oc p then d(p := None) else d)"

definition push_info :: "string \<Rightarrow> frontend \<Rightarrow> frontend" where
  "push_info msg s = emit [C_msg_push msg 1 100 True Cat_info] s"

subsection \<open>Creating an option file\<close>

definition override_path :: "ext \<Rightarrow> bool \<Rightarrow> frontend \<Rightarrow> string option \<times> frontend" where
  "override_path x game_specific s =
     (if game_specific
      then validate_per_core_options x True (si_library_name (sys s))
             (Some (basename_nocompression x (paths s Path_basename))) s
      else if Game_options_active \<in> flags s then (None, s)
      else validate_folder_options x True s)"

text \<open>The file is activated by its path and by exactly one of the two flags.\<close>

definition activate_override :: "bool \<Rightarrow> string \<Rightarrow> frontend \<Rightarrow> frontend" where
  "activate_override game_specific p s =
     (let s1 = s\<lparr>paths := (paths s)(Path_core_options := p)\<rparr>
      in if game_specific
         then lower_flags {Folder_options_active} (raise_flags {Game_options_active} s1)
         else raise_flags {Folder_options_active} (lower_flags {Game_options_active} s1))"

definition create_failed :: "ext \<Rightarrow> override_state \<Rightarrow> bool \<times> override_state" where
  "create_failed x s =
     (False, s\<lparr>ov_fe := push_info (msg_hash_to_str x ''MSG_ERROR_SAVING_CORE_OPTIONS_FILE'') (ov_fe s)\<rparr>)"

text \<open>\<open>None\<close>: the null option manager is dereferenced.\<close>

definition core_options_create_override ::
    "ext \<Rightarrow> option_code \<Rightarrow> bool \<Rightarrow> override_state \<Rightarrow> (bool \<times> override_state) option" where
  "core_options_create_override x oc game_specific s =
     (case override_path (on_disk (ov_disk s) x) game_specific (ov_fe s) of
        (None, f) \<Rightarrow> Some (create_failed x (s\<lparr>ov_fe := f\<rparr>))
      | (Some p, f) \<Rightarrow>
          (case (case conf_from_path oc (ov_disk s) p of Some c \<Rightarrow> Some c | None \<Rightarrow> conf_new x) of
             None \<Rightarrow> Some (create_failed x (s\<lparr>ov_fe := f\<rparr>))
           | Some c \<Rightarrow>
               (case core_options f of
                  None \<Rightarrow> None
                | Some m \<Rightarrow>
                    let (ok, content, _) = conf_write oc p (com_flush x m c);
                        s1 = s\<lparr>ov_fe := f, ov_disk := put_file p content (ov_disk s)\<rparr>
                    in if \<not> ok then Some (create_failed x s1)
                       else Some (True, s1\<lparr>ov_fe := activate_override game_specific p
                              (push_info (msg_hash_to_str x
                                 ''MSG_CORE_OPTIONS_FILE_CREATED_SUCCESSFULLY'') f)\<rparr>))))"

subsection \<open>Removing an option file\<close>

text \<open>
  Where the options come from once the file is gone: whether that is a folder's file, the path,
  and the frontend.  The path is built in a buffer: what the check for a folder's file left there
  stays if none of the later branches writes.
\<close>

definition parent_options ::
    "ext \<Rightarrow> settings \<Rightarrow> bool \<Rightarrow> frontend \<Rightarrow> bool \<times> string \<times> frontend" where
  "parent_options x st game_specific s =
     (let found = (if game_specific then fst (validate_folder_options x False s) else None)
      in if usable x found then (True, the found, s)
         else let name = si_library_name (sys s);
                  buffer = (case found of None \<Rightarrow> [] | Some p \<Rightarrow> p);
                  (core, s1) = (if \<not> global_core_options st
                                then validate_per_core_options x True name name s else (None, s))
              in (False,
                  (case core of
                     Some p \<Rightarrow> p
                   | None \<Rightarrow> if path_core_options st \<noteq> [] then path_core_options st
                             else if paths s Path_config \<noteq> []
                             then resolve_relative x (paths s Path_config) else buffer), s1))"

fun first_index :: "string \<Rightarrow> string list \<Rightarrow> nat option" where
  "first_index v [] = None"
| "first_index v (w # ws) = (if w = v then Some 0 else map_option Suc (first_index v ws))"

definition index_from_file :: "option_code \<Rightarrow> handle \<Rightarrow> option_decl \<Rightarrow> nat \<Rightarrow> nat" where
  "index_from_file oc c d i =
     (case conf_entry oc c (od_key d) of
        None \<Rightarrow> i
      | Some v \<Rightarrow> if v = [] then i
                  else (case first_index v (od_values d) of None \<Rightarrow> i | Some j \<Rightarrow> j))"

definition load_indices :: "option_code \<Rightarrow> handle \<Rightarrow> option_manager \<Rightarrow> option_manager" where
  "load_indices oc c m =
     m\<lparr>com_index := map2 (index_from_file oc c) (option_table oc (com_body m)) (com_index m),
       com_updated := True\<rparr>"

definition deactivate_override ::
    "bool \<Rightarrow> string \<Rightarrow> handle option \<Rightarrow> option_manager \<Rightarrow> frontend \<Rightarrow> frontend" where
  "deactivate_override folder p conf m s =
     (if folder
      then (activate_override False p s)\<lparr>core_options := Some m\<rparr>
      else (lower_flags {Game_options_active, Folder_options_active}
             (s\<lparr>paths := (paths s)(Path_core_options := [])\<rparr>))
             \<lparr>core_options := Some (m\<lparr>com_conf_path := p,
                com_conf := (case conf of Some c \<Rightarrow> c | None \<Rightarrow> com_conf m)\<rparr>)\<rparr>)"

definition remove_failed :: "ext \<Rightarrow> override_state \<Rightarrow> bool \<times> override_state" where
  "remove_failed x s =
     (False, s\<lparr>ov_fe := push_info (msg_hash_to_str x ''MSG_ERROR_REMOVING_CORE_OPTIONS_FILE'') (ov_fe s)\<rparr>)"

definition finish_removal ::
    "ext \<Rightarrow> bool \<Rightarrow> string \<Rightarrow> handle option \<Rightarrow> option_manager \<Rightarrow> override_state
       \<Rightarrow> bool \<times> override_state" where
  "finish_removal x folder p conf m s =
     (True, s\<lparr>ov_fe := push_info (msg_hash_to_str x ''MSG_CORE_OPTIONS_FILE_REMOVED_SUCCESSFULLY'')
                 (deactivate_override folder p conf m (ov_fe s))\<rparr>)"

definition reload_parent ::
    "build \<Rightarrow> ext \<Rightarrow> option_code \<Rightarrow> bool \<Rightarrow> string \<Rightarrow> option_manager \<Rightarrow> override_state
       \<Rightarrow> bool \<times> override_state" where
  "reload_parent b x oc folder p m s =
     (if p = [] then remove_failed x s
      else if folder \<or> ov_disk s p \<noteq> None
      then (case conf_from_path oc (ov_disk s) p of
              None \<Rightarrow> remove_failed x s
            | Some c \<Rightarrow>
                finish_removal x folder p (Some c) (load_indices oc c m)
                  (s\<lparr>ov_cheevos_checks := ov_cheevos_checks s + (if have_cheevos b then 1 else 0)\<rparr>))
      else finish_removal x folder p None m s)"

definition core_options_remove_override ::
    "build \<Rightarrow> ext \<Rightarrow> option_code \<Rightarrow> settings \<Rightarrow> bool \<Rightarrow> override_state \<Rightarrow> bool \<times> override_state" where
  "core_options_remove_override b x oc st game_specific s =
     (case core_options (ov_fe s) of
        None \<Rightarrow> (True, s)
      | Some m \<Rightarrow>
          if Game_options_active \<notin> flags (ov_fe s) \<and> Folder_options_active \<notin> flags (ov_fe s)
          then (True, s)
          else if game_specific \<and> Game_options_active \<notin> flags (ov_fe s) then remove_failed x s
          else if paths (ov_fe s) Path_core_options = [] then remove_failed x s
          else let disk = delete_option_file oc (paths (ov_fe s) Path_core_options) (ov_disk s);
                   (folder, p, f) = parent_options (on_disk disk x) st game_specific (ov_fe s)
               in reload_parent b x oc folder p m (s\<lparr>ov_fe := f, ov_disk := disk\<rparr>))"

subsection \<open>Resetting and saving\<close>

definition cold_reset :: "ext \<Rightarrow> option_code \<Rightarrow> settings \<Rightarrow> c_str \<Rightarrow> override_state \<Rightarrow> override_state" where
  "cold_reset x oc st label s =
     (if global_core_options st then s
      else let name = (if string_is_empty label then si_library_name (sys (ov_fe s)) else label);
               (found, f) = validate_per_core_options (on_disk (ov_disk s) x) True name name (ov_fe s);
               s1 = s\<lparr>ov_fe := f\<rparr>
           in case found of
                None \<Rightarrow> s1
              | Some p \<Rightarrow>
                  if p \<noteq> [] \<and> ov_disk s p \<noteq> None
                  then s1\<lparr>ov_disk := delete_option_file oc p (ov_disk s),
                          ov_fe := push_info (msg_hash_to_str x ''MSG_CORE_OPTIONS_RESET'') f\<rparr>
                  else s1)"

definition reset_indices :: "option_code \<Rightarrow> option_manager \<Rightarrow> option_manager" where
  "reset_indices oc m =
     m\<lparr>com_index := map od_default (option_table oc (com_body m)), com_updated := True\<rparr>"

definition core_options_reset ::
    "build \<Rightarrow> ext \<Rightarrow> option_code \<Rightarrow> settings \<Rightarrow> c_str \<Rightarrow> override_state \<Rightarrow> override_state" where
  "core_options_reset b x oc st label s =
     (case core_options (ov_fe s) of
        None \<Rightarrow> cold_reset x oc st label s
      | Some m \<Rightarrow>
          if \<not> string_is_empty label then cold_reset x oc st label s
          else if length (com_index m) < 1 then s
          else s\<lparr>ov_fe := push_info (msg_hash_to_str x ''MSG_CORE_OPTIONS_RESET'')
                   ((ov_fe s)\<lparr>core_options := Some (reset_indices oc m)\<rparr>),
                 ov_cheevos_checks := ov_cheevos_checks s + (if have_cheevos b then 1 else 0)\<rparr>)"

text \<open>The file the options are saved to, whether that succeeded, and the state after.\<close>

definition flush_to_file ::
    "ext \<Rightarrow> option_code \<Rightarrow> option_manager \<Rightarrow> override_state \<Rightarrow> string \<times> bool \<times> override_state" where
  "flush_to_file x oc m s =
     (let p = paths (ov_fe s) Path_core_options
      in if p \<noteq> []
         then (case (case conf_from_path oc (ov_disk s) p of Some c \<Rightarrow> Some c | None \<Rightarrow> conf_new x) of
                 None \<Rightarrow> (p, False, s)
               | Some c \<Rightarrow>
                   let (ok, content, _) = conf_write oc p (com_flush x m c)
                   in (p, ok, s\<lparr>ov_disk := put_file p content (ov_disk s)\<rparr>))
         else let q = com_conf_path m
              in if q = [] then (q, False, s)
                 else let c = com_flush x m (com_conf m);
                          c1 = (if ov_disk s q \<noteq> None then c else conf_mark_modified oc c);
                          (ok, content, c2) = conf_write oc q c1
                      in (q, ok, s\<lparr>ov_disk := put_file q content (ov_disk s),
                            ov_fe := (ov_fe s)\<lparr>core_options := Some (m\<lparr>com_conf := c2\<rparr>)\<rparr>\<rparr>))"

definition flush_message :: "ext \<Rightarrow> string \<Rightarrow> bool \<Rightarrow> string" where
  "flush_message x p ok =
     (let name = (if p \<noteq> [] then basename_nocompression x p else []);
          shown = (if name \<noteq> [] then name else msg_hash_to_str x ''MENU_ENUM_LABEL_VALUE_UNKNOWN'')
      in strlcpy 128 (strlcpy 128 (msg_hash_to_str x
           (if ok then ''MSG_CORE_OPTIONS_FLUSHED'' else ''MSG_CORE_OPTIONS_FLUSH_FAILED''))
           @ '' '' @ [CHR 0x22] @ shown @ [CHR 0x22]))"

definition core_options_flush :: "ext \<Rightarrow> option_code \<Rightarrow> override_state \<Rightarrow> override_state" where
  "core_options_flush x oc s =
     (case core_options (ov_fe s) of
        None \<Rightarrow> s
      | Some m \<Rightarrow>
          if length (com_index m) < 1 then s
          else case flush_to_file x oc m s of
                 (p, ok, s1) \<Rightarrow> s1\<lparr>ov_fe := push_info (flush_message x p ok) (ov_fe s1)\<rparr>)"

end
