(* ===== verification/Override_Properties.thy ===== *)
theory Override_Properties
  imports Option_Overrides External
begin

text \<open>
  What the operations on option files keep and undo: the typing of the option indices, the
  agreement of flags and path, and the round trip through a file.
\<close>

subsection \<open>Typed option stores\<close>

definition indices_typed :: "option_decl list \<Rightarrow> nat list \<Rightarrow> bool" where
  "indices_typed ds is \<longleftrightarrow> list_all2 (\<lambda>d i. i < length (od_values d)) ds is"

definition override_typed :: "option_code \<Rightarrow> override_state \<Rightarrow> bool" where
  "override_typed oc s \<longleftrightarrow>
     (\<forall>m. core_options (ov_fe s) = Some m
        \<longrightarrow> indices_typed (option_table oc (com_body m)) (com_index m))
     \<and> \<not> {Game_options_active, Folder_options_active} \<subseteq> flags (ov_fe s)
     \<and> (flags (ov_fe s) \<inter> {Game_options_active, Folder_options_active} \<noteq> {}
        \<longrightarrow> paths (ov_fe s) Path_core_options \<noteq> [])"

datatype override_op = Op_create bool | Op_remove bool | Op_reset c_str | Op_flush

definition override_step ::
    "build \<Rightarrow> option_code \<Rightarrow> settings \<Rightarrow> ext \<times> override_op \<Rightarrow> override_state \<Rightarrow> override_state option" where
  "override_step b oc st a s =
     (case a of
        (x, Op_create g) \<Rightarrow> map_option snd (core_options_create_override x oc g s)
      | (x, Op_remove g) \<Rightarrow> Some (snd (core_options_remove_override b x oc st g s))
      | (x, Op_reset label) \<Rightarrow> Some (core_options_reset b x oc st label s)
      | (x, Op_flush) \<Rightarrow> Some (core_options_flush x oc s))"

fun override_run ::
    "build \<Rightarrow> option_code \<Rightarrow> settings \<Rightarrow> (ext \<times> override_op) list \<Rightarrow> override_state \<Rightarrow> override_state option" where
  "override_run b oc st [] s = Some s"
| "override_run b oc st (a # as) s =
     (case override_step b oc st a s of None \<Rightarrow> None | Some s1 \<Rightarrow> override_run b oc st as s1)"

text \<open>What the code relies on: a joined path is not empty, a default is one of the values.\<close>

definition joins_paths :: "ext \<Rightarrow> bool" where
  "joins_paths x \<longleftrightarrow> (\<forall>a b c d. b \<noteq> [] \<longrightarrow> join_special_ext x a b c d \<noteq> [])"

definition defaults_exist :: "option_code \<Rightarrow> bool" where
  "defaults_exist oc \<longleftrightarrow> (\<forall>h. \<forall>d \<in> set (option_table oc h). od_default d < length (od_values d))"

lemma first_index_sound: "first_index v ws = Some j \<Longrightarrow> j < length ws \<and> ws ! j = v"
  by (induction ws arbitrary: j) (auto split: if_splits)

lemma first_index_distinct: "distinct ws \<Longrightarrow> i < length ws \<Longrightarrow> first_index (ws ! i) ws = Some i"
  by (induction ws arbitrary: i) (auto simp: nth_Cons split: nat.splits)

lemma index_from_file_typed:
  "i < length (od_values d) \<Longrightarrow> index_from_file oc c d i < length (od_values d)"
  by (auto simp: index_from_file_def dest: first_index_sound split: option.splits)

lemma load_indices_typed:
  "indices_typed (option_table oc (com_body m)) (com_index m)
     \<Longrightarrow> indices_typed (option_table oc (com_body m)) (com_index (load_indices oc c m))"
  by (auto simp: indices_typed_def load_indices_def list_all2_conv_all_nth index_from_file_typed)

lemma reset_indices_typed:
  "defaults_exist oc \<Longrightarrow> indices_typed (option_table oc (com_body m)) (com_index (reset_indices oc m))"
  using nth_mem by (fastforce simp: indices_typed_def reset_indices_def list_all2_conv_all_nth defaults_exist_def)

lemma load_indices_body [simp]:
  "com_body (load_indices oc c m) = com_body m"  "com_body (reset_indices oc m) = com_body m"
  by (simp_all add: load_indices_def reset_indices_def)

text \<open>The parts of the frontend these operations see are unchanged by a message and a directory.\<close>

definition same_options :: "frontend \<Rightarrow> frontend \<Rightarrow> bool" where
  "same_options s t \<longleftrightarrow> core_options t = core_options s \<and> flags t = flags s \<and> paths t = paths s \<and> sys t = sys s"

lemma same_options_simps [simp]:
  "same_options s s"
  "same_options s (push_info msg t) \<longleftrightarrow> same_options s t"
  by (simp_all add: same_options_def push_info_def emit_def)

lemma validate_same [simp]:
  "same_options s (snd (validate_per_core_options x mk cn gn s))"
  "same_options s (snd (validate_folder_options x mk s))"
  by (simp_all add: validate_folder_options_def validate_per_core_options_def same_options_def
      emit_def Let_def)

lemma validate_per_core_same:
  "validate_per_core_options x mk cn gn s = (r, t) \<Longrightarrow> same_options s t"
  using validate_same(1) [of s x mk cn gn] by (simp only: snd_conv)

lemma override_path_same: "same_options s (snd (override_path x g s))"
  by (simp add: override_path_def)

lemma parent_options_same: "same_options s (snd (snd (parent_options x st g s)))"
  by (auto simp: parent_options_def Let_def dest: validate_per_core_same split: prod.splits)

lemma per_core_nonempty:
  "joins_paths x \<Longrightarrow> fst (validate_per_core_options x mk cn gn s) = Some p \<Longrightarrow> p \<noteq> []"
  by (auto simp: validate_per_core_options_def Let_def joins_paths_def string_is_empty_def
      split: if_splits option.splits)

lemma override_path_nonempty:
  "joins_paths x \<Longrightarrow> fst (override_path x g s) = Some p \<Longrightarrow> p \<noteq> []"
  by (auto simp: override_path_def validate_folder_options_def Let_def
      dest: per_core_nonempty split: if_splits)

lemma joins_on_disk [simp]: "joins_paths (on_disk d x) = joins_paths x"
  by (simp add: joins_paths_def on_disk_def)

lemma typed_same:
  assumes "override_typed oc s" and "same_options (ov_fe s) (ov_fe t)"
  shows "override_typed oc t"
  using assms by (simp add: override_typed_def same_options_def)

lemma typed_activate:
  assumes "override_typed oc s" and "same_options (ov_fe s) f" and "p \<noteq> []"
  shows "override_typed oc (s\<lparr>ov_disk := d, ov_fe := activate_override g p (push_info msg f)\<rparr>)"
  using assms by (auto simp: override_typed_def same_options_def activate_override_def push_info_def
      frontend_updates Let_def)

lemma create_failed_typed:
  assumes "override_typed oc s" and "same_options (ov_fe s) (ov_fe t)"
  shows "override_typed oc (snd (create_failed x t))"
  using assms by (auto intro!: typed_same [OF assms(1)] simp: create_failed_def)

lemma create_typed:
  assumes t: "override_typed oc s" and x: "joins_paths x"
    and c: "core_options_create_override x oc g s = Some (ok, s1)"
  shows "override_typed oc s1"
proof -
  obtain r f where p: "override_path (on_disk (ov_disk s) x) g (ov_fe s) = (r, f)" by force
  have same: "same_options (ov_fe s) f" and ne: "\<And>q. r = Some q \<Longrightarrow> q \<noteq> []"
    using override_path_same [of "ov_fe s" "on_disk (ov_disk s) x" g]
      override_path_nonempty [of "on_disk (ov_disk s) x" g "ov_fe s"] p x by auto
  have fail: "create_failed x u = (ok, s1) \<Longrightarrow> ov_fe u = f \<Longrightarrow> override_typed oc s1" for u
    using create_failed_typed [OF t, of u x] same by simp
  from c show ?thesis
    using fail ne typed_activate [OF t same]
    by (auto simp: core_options_create_override_def p Let_def split: option.splits prod.splits if_splits)
qed

lemma remove_failed_typed:
  assumes "override_typed oc s" and "same_options (ov_fe s) (ov_fe t)"
  shows "override_typed oc (snd (remove_failed x t))"
  using assms by (auto intro!: typed_same [OF assms(1)] simp: remove_failed_def)

lemma finish_removal_typed:
  assumes "override_typed oc s" and "same_options (ov_fe s) (ov_fe t)" and "p \<noteq> []"
    and "indices_typed (option_table oc (com_body m)) (com_index m)"
  shows "override_typed oc (snd (finish_removal x folder p c m t))"
  using assms
  by (auto simp: finish_removal_def deactivate_override_def override_typed_def same_options_def
      activate_override_def push_info_def frontend_updates Let_def)

lemma remove_typed:
  assumes t: "override_typed oc s"
  shows "override_typed oc (snd (core_options_remove_override b x oc st g s))"
proof (cases "core_options (ov_fe s)")
  case None
  with t show ?thesis by (simp add: core_options_remove_override_def)
next
  case (Some m)
  let ?d = "delete_option_file oc (paths (ov_fe s) Path_core_options) (ov_disk s)"
  obtain fo p f where par: "parent_options (on_disk ?d x) st g (ov_fe s) = (fo, p, f)"
    by (metis prod_cases3)
  have same: "same_options (ov_fe s) f"
    using parent_options_same [of "ov_fe s" "on_disk ?d x" st g] par by simp
  have ix: "indices_typed (option_table oc (com_body m)) (com_index m)"
    using t Some by (simp add: override_typed_def)
  have "override_typed oc (snd (reload_parent b x oc fo p m (s\<lparr>ov_fe := f, ov_disk := ?d\<rparr>)))"
    unfolding reload_parent_def
    by (auto split: option.split intro!: remove_failed_typed [OF t] finish_removal_typed [OF t]
        load_indices_typed simp: same ix)
  moreover have "override_typed oc (snd (remove_failed x s))"
    by (rule remove_failed_typed [OF t]) simp
  ultimately show ?thesis
    using t by (simp add: core_options_remove_override_def Some par Let_def)
qed

lemma reset_typed:
  assumes t: "override_typed oc s" and d: "defaults_exist oc"
  shows "override_typed oc (core_options_reset b x oc st label s)"
proof -
  have "override_typed oc (cold_reset x oc st label s)"
    by (rule typed_same [OF t])
      (auto simp: cold_reset_def Let_def dest: validate_per_core_same split: prod.splits option.splits)
  moreover have "ov_fe u = push_info msg ((ov_fe s)\<lparr>core_options := Some (reset_indices oc m)\<rparr>)
      \<Longrightarrow> override_typed oc u" for m msg u
    using t reset_indices_typed [OF d, of m]
    by (auto simp: override_typed_def push_info_def emit_def)
  ultimately show ?thesis
    using t by (auto simp: core_options_reset_def split: option.split)
qed

lemma flush_to_file_typed:
  assumes "override_typed oc s" and "core_options (ov_fe s) = Some m"
    and "flush_to_file x oc m s = (p, ok, s1)"
  shows "override_typed oc s1"
  using assms
  by (auto simp: flush_to_file_def override_typed_def Let_def split: if_splits option.splits prod.splits)

lemma flush_typed:
  assumes "override_typed oc s"
  shows "override_typed oc (core_options_flush x oc s)"
proof (cases "core_options (ov_fe s)")
  case (Some m)
  obtain p ok s1 where f: "flush_to_file x oc m s = (p, ok, s1)" by (metis prod_cases3)
  show ?thesis
    using assms typed_same [OF flush_to_file_typed [OF assms Some f]]
    by (simp add: core_options_flush_def Some f)
qed (simp add: core_options_flush_def assms)

lemma override_step_typed:
  assumes "override_typed oc s" and "joins_paths (fst a)" and "defaults_exist oc"
    and "override_step b oc st a s = Some s1"
  shows "override_typed oc s1"
  using assms create_typed remove_typed reset_typed flush_typed
  by (auto simp: override_step_def split: prod.splits override_op.splits)

text \<open>
  C23. The store of core options is well typed and stays so: whatever sequence of creating,
  removing, resetting and saving option files runs, every option has exactly one index, and it
  is one of the indices of that option's values; at most one of the flags for game and folder
  files is set, and if one is, the path of the file in use is not empty.
\<close>

theorem override_run_typed:
  assumes "override_typed oc s" and "\<forall>a \<in> set as. joins_paths (fst a)" and "defaults_exist oc"
    and "override_run b oc st as s = Some s1"
  shows "override_typed oc s1"
  using assms
proof (induction as arbitrary: s)
  case (Cons a as)
  then obtain s2 where "override_step b oc st a s = Some s2" "override_run b oc st as s2 = Some s1"
    by (auto split: option.splits)
  with Cons override_step_typed [of oc s a b st s2] show ?case by simp
qed simp

subsection \<open>Through the file and back\<close>

text \<open>
  What the code relies on: a flush records the value of every option under its key, the values of
  an option are distinct and not empty, and after a successful write the file reads back as what
  was written (the writer may leave alone a file that already holds it).
\<close>

definition flush_records :: "ext \<Rightarrow> option_code \<Rightarrow> bool" where
  "flush_records x oc \<longleftrightarrow>
     (\<forall>m c i. indices_typed (option_table oc (com_body m)) (com_index m) \<and> i < length (com_index m) \<longrightarrow>
        conf_entry oc (com_flush x m c) (od_key (option_table oc (com_body m) ! i))
          = Some (od_values (option_table oc (com_body m) ! i) ! (com_index m ! i)))"

definition values_distinct :: "option_code \<Rightarrow> bool" where
  "values_distinct oc \<longleftrightarrow>
     (\<forall>h. \<forall>d \<in> set (option_table oc h). distinct (od_values d) \<and> [] \<notin> set (od_values d))"

definition write_faithful :: "ext \<Rightarrow> option_code \<Rightarrow> bool" where
  "write_faithful x oc \<longleftrightarrow>
     (\<forall>d p m c t c2. com_index m \<noteq> [] \<and> conf_write oc p (com_flush x m c) = (True, t, c2)
        \<and> conf_from_path oc d p \<in> {None, Some c} \<longrightarrow>
        (\<exists>c'. conf_from_path oc (put_file p t d) p = Some c'
          \<and> conf_entry oc c' = conf_entry oc (com_flush x m c)))"

lemma flush_then_load:
  assumes f: "flush_records x oc" and v: "values_distinct oc"
    and t: "indices_typed (option_table oc (com_body m)) (com_index m)"
    and e: "conf_entry oc c' = conf_entry oc (com_flush x m c)"
    and b: "com_body n = com_body m" and l: "length (com_index n) = length (com_index m)"
  shows "com_index (load_indices oc c' n) = com_index m"
proof (rule nth_equalityI)
  have len: "length (option_table oc (com_body m)) = length (com_index m)"
    using t by (auto simp: indices_typed_def dest: list_all2_lengthD)
  then show "length (com_index (load_indices oc c' n)) = length (com_index m)"
    by (simp add: load_indices_def b l)
  fix i assume "i < length (com_index (load_indices oc c' n))"
  then have i: "i < length (com_index m)" by (simp add: load_indices_def b l len)
  let ?d = "option_table oc (com_body m) ! i"
  have d: "distinct (od_values ?d)" "[] \<notin> set (od_values ?d)"
    using v i len nth_mem [of i "option_table oc (com_body m)"] unfolding values_distinct_def by metis+
  have r: "com_index m ! i < length (od_values ?d)"
    using t i by (simp add: indices_typed_def list_all2_conv_all_nth)
  then have "od_values ?d ! (com_index m ! i) \<noteq> []" using d(2) nth_mem by metis
  moreover have "conf_entry oc c' (od_key ?d) = Some (od_values ?d ! (com_index m ! i))"
    using f t i by (simp add: e flush_records_def)
  ultimately have "index_from_file oc c' ?d j = com_index m ! i" for j
    by (simp add: index_from_file_def first_index_distinct d r)
  then show "com_index (load_indices oc c' n) ! i = com_index m ! i"
    using i by (simp add: load_indices_def b l len)
qed

lemma validate_folder_path:
  assumes "paths t Path_basename = paths s Path_basename" and "sys t = sys s"
  shows "fst (validate_folder_options (on_disk d x) mk t) = fst (validate_folder_options x mk' s)"
  using assms by (simp add: validate_folder_options_def validate_per_core_options_def on_disk_def Let_def)

lemma create_ok:
  assumes w: "write_faithful x oc"
    and c: "core_options_create_override x oc g s = Some (True, s1)"
    and m: "core_options (ov_fe s) = Some m" and ne: "com_index m \<noteq> []"
  obtains p c c' where "fst (override_path (on_disk (ov_disk s) x) g (ov_fe s)) = Some p"
    "conf_from_path oc (ov_disk s1) p = Some c'" "conf_entry oc c' = conf_entry oc (com_flush x m c)"
    "\<And>q. q \<noteq> p \<Longrightarrow> ov_disk s1 q = ov_disk s q" "core_options (ov_fe s1) = Some m"
    "sys (ov_fe s1) = sys (ov_fe s)"
    "paths (ov_fe s1) = (paths (ov_fe s))(Path_core_options := p)"
    "Game_options_active \<in> flags (ov_fe s1) \<longleftrightarrow> g" "Folder_options_active \<in> flags (ov_fe s1) \<longleftrightarrow> \<not> g"
proof -
  obtain r f where p: "override_path (on_disk (ov_disk s) x) g (ov_fe s) = (r, f)" by force
  have same: "core_options f = Some m" "sys f = sys (ov_fe s)" "paths f = paths (ov_fe s)"
    using override_path_same [of "ov_fe s" "on_disk (ov_disk s) x" g] m by (simp_all add: p same_options_def)
  from c obtain q k t c2 where r: "r = Some q"
    and k: "conf_from_path oc (ov_disk s) q \<in> {None, Some k}"
    and wr: "conf_write oc q (com_flush x m k) = (True, t, c2)"
    and s1: "s1 = s\<lparr>ov_disk := put_file q t (ov_disk s), ov_fe := activate_override g q
        (push_info (msg_hash_to_str x ''MSG_CORE_OPTIONS_FILE_CREATED_SUCCESSFULLY'') f)\<rparr>"
    by (auto simp: core_options_create_override_def p same create_failed_def Let_def
        split: option.splits prod.splits if_splits)
  obtain c' where c': "conf_from_path oc (put_file q t (ov_disk s)) q = Some c'"
    "conf_entry oc c' = conf_entry oc (com_flush x m k)"
    using w k wr ne unfolding write_faithful_def by blast
  show ?thesis
    by (rule that [of q c' k])
      (use c' same in \<open>auto simp: p r s1 put_file_def activate_override_def push_info_def
         frontend_updates Let_def split: option.splits\<close>)
qed

text \<open>The user changes values while the core runs.\<close>

definition choose_values :: "nat list \<Rightarrow> override_state \<Rightarrow> override_state" where
  "choose_values is s =
     s\<lparr>ov_fe := (ov_fe s)\<lparr>core_options :=
         map_option (\<lambda>m. m\<lparr>com_index := is\<rparr>) (core_options (ov_fe s))\<rparr>\<rparr>"

text \<open>
  C20. Removing a game's option file goes back to the folder's file as it was created.  A folder's
  file is created with the values in force, then a game's file; the user may change values before
  and after the second creation, without saving them.  Removing the game's file then succeeds, makes
  the folder's file the one in use and sets every option to the value it had when the folder's file
  was created: changes made since are lost.  The game's file, and with it whatever was at its path
  before, is gone if deleting it succeeds; every other file is as it was after the creation of the
  folder's file.
\<close>

theorem game_override_undone:
  assumes contract: "flush_records x oc" "values_distinct oc" "write_faithful x oc"
    and t: "override_typed oc s" and m: "core_options (ov_fe s) = Some m" and ne: "com_index m \<noteq> []"
    and c1: "core_options_create_override x oc False s = Some (True, s1)"
    and c2: "core_options_create_override x oc True (choose_values is s1) = Some (True, s2)"
    and len: "length is = length (com_index m)" "length js = length (com_index m)"
    and diff: "paths (ov_fe s2) Path_core_options \<noteq> paths (ov_fe s1) Path_core_options"
      "paths (ov_fe s2) Path_core_options \<noteq> []" "paths (ov_fe s1) Path_core_options \<noteq> []"
  shows "\<exists>s3 n. core_options_remove_override b x oc st True (choose_values js s2) = (True, s3)
    \<and> core_options (ov_fe s3) = Some n \<and> com_index n = com_index m \<and> com_updated n
    \<and> paths (ov_fe s3) Path_core_options = paths (ov_fe s1) Path_core_options
    \<and> flags (ov_fe s3) \<inter> {Game_options_active, Folder_options_active} = {Folder_options_active}
    \<and> ov_disk s3 (paths (ov_fe s2) Path_core_options)
        = (if file_deletes oc (paths (ov_fe s2) Path_core_options) then None
           else ov_disk s2 (paths (ov_fe s2) Path_core_options))
    \<and> (\<forall>file. file \<noteq> paths (ov_fe s2) Path_core_options \<longrightarrow> ov_disk s3 file = ov_disk s1 file)"
proof -
  obtain p c c' where p: "fst (override_path (on_disk (ov_disk s) x) False (ov_fe s)) = Some p"
    and c': "conf_from_path oc (ov_disk s1) p = Some c'" "conf_entry oc c' = conf_entry oc (com_flush x m c)"
    and s1: "core_options (ov_fe s1) = Some m" "sys (ov_fe s1) = sys (ov_fe s)"
      "paths (ov_fe s1) = (paths (ov_fe s))(Path_core_options := p)"
    by (rule create_ok [OF contract(3) c1 m ne]) blast
  have step1: "core_options (ov_fe (choose_values is s1)) = Some (m\<lparr>com_index := is\<rparr>)"
      "com_index (m\<lparr>com_index := is\<rparr>) \<noteq> []" "ov_disk (choose_values is s1) = ov_disk s1"
      "sys (ov_fe (choose_values is s1)) = sys (ov_fe s1)"
      "paths (ov_fe (choose_values is s1)) = paths (ov_fe s1)"
    using len ne by (auto simp: choose_values_def s1)
  obtain q where d2: "\<And>r. r \<noteq> q \<Longrightarrow> ov_disk s2 r = ov_disk s1 r"
    and s2: "core_options (ov_fe s2) = Some (m\<lparr>com_index := is\<rparr>)" "sys (ov_fe s2) = sys (ov_fe s)"
      "paths (ov_fe s2) = (paths (ov_fe s))(Path_core_options := q)"
      "Game_options_active \<in> flags (ov_fe s2)"
    by (rule create_ok [OF contract(3) c2 step1(1,2)]) (auto simp: step1 s1)
  let ?d = "delete_option_file oc q (ov_disk s2)"
  let ?u = "choose_values js s2"
  let ?n = "m\<lparr>com_index := js\<rparr>"
  have pq: "p \<noteq> q" "q \<noteq> []" "p \<noteq> []" using diff by (simp_all add: s1 s2)
  have u: "core_options (ov_fe ?u) = Some ?n" "flags (ov_fe ?u) = flags (ov_fe s2)"
    "paths (ov_fe ?u) = paths (ov_fe s2)" "sys (ov_fe ?u) = sys (ov_fe s)" "ov_disk ?u = ov_disk s2"
    by (simp_all add: choose_values_def s2)
  have "fst (validate_folder_options (on_disk (ov_disk s) x) True (ov_fe s)) = Some p"
    using p by (simp add: override_path_def split: if_splits)
  then have folder: "fst (validate_folder_options (on_disk ?d x) False (ov_fe ?u)) = Some p"
    using validate_folder_path [of "ov_fe s" "ov_fe s" "ov_disk s" x True True]
      validate_folder_path [of "ov_fe ?u" "ov_fe s" ?d x False True] by (simp add: u s2)
  have d: "?d r = ov_disk s1 r" if "r \<noteq> q" for r using d2 [OF that] that by (simp add: delete_option_file_def)
  have dq: "?d q = (if file_deletes oc q then None else ov_disk s2 q)" by (simp add: delete_option_file_def)
  have read: "conf_from_path oc ?d p = Some c'" "?d p \<noteq> None"
    using c'(1) pq d [of p] by (auto simp: conf_from_path_def bind_eq_Some_conv)
  have "usable (on_disk ?d x) (Some p)"
    using read(2) by (simp add: usable_def on_disk_def)
  then have par: "parent_options (on_disk ?d x) st True (ov_fe ?u) = (True, p, ov_fe ?u)"
    by (simp add: parent_options_def folder)
  have "com_index (load_indices oc c' ?n) = com_index m"
    by (rule flush_then_load [OF contract(1,2) _ c'(2)])
      (use t m len in \<open>auto simp: override_typed_def\<close>)
  moreover have "com_updated (load_indices oc c' ?n)" by (simp add: load_indices_def)
  ultimately show ?thesis
    using s2(4) pq read d dq
    by (auto simp: core_options_remove_override_def u par Let_def reload_parent_def finish_removal_def
        deactivate_override_def activate_override_def push_info_def frontend_updates s1 s2)
qed

text \<open>
  Asking to remove the folder's option file while a game's file is in use deletes the game's
  file: the check that the requested kind is the active one is made for game files only, so
  whatever the outcome the file in use is gone (if it can be deleted), although the folder's was named.
\<close>

theorem folder_removal_deletes_game_file:
  assumes "core_options (ov_fe s) = Some m" and "Game_options_active \<in> flags (ov_fe s)"
    and "paths (ov_fe s) Path_core_options = p" and "p \<noteq> []" and "file_deletes oc p"
  shows "ov_disk (snd (core_options_remove_override b x oc st False s)) p = None"
  using assms
  by (auto simp: core_options_remove_override_def reload_parent_def finish_removal_def remove_failed_def
      delete_option_file_def
      Let_def split: prod.split option.split)

subsection \<open>An example\<close>

text \<open>
  One option with two values; a configuration holds nothing (0) or the value with index
  \<open>k\<close> (k + 1), and files hold configurations.
\<close>

definition example_code :: option_code where
  "example_code =
     \<lparr>option_table = (\<lambda>_. [\<lparr>od_key = ''speed'', od_values = [''off'', ''on''], od_default = 0\<rparr>]),
      conf_parse = Some,
      conf_entry = (\<lambda>c k. if c = 0 \<or> k \<noteq> ''speed'' then None else Some ([''off'', ''on''] ! (c - 1))),
      conf_mark_modified = id, conf_write = (\<lambda>p c. (True, Some c, c)), file_deletes = (\<lambda>p. True)\<rparr>"

definition example_world :: ext where
  "example_world = null_world\<lparr>conf_new := Some 0,
     join_special_ext := (\<lambda>a b c d. b @ ''/'' @ c @ d), basename_nocompression := (\<lambda>_. ''game''),
     parent_dir_name := (\<lambda>_. ''folder''), com_flush := (\<lambda>m c. Suc (com_index m ! 0))\<rparr>"

definition example_manager :: option_manager where
  "example_manager = \<lparr>com_updated = False, com_index = [1], com_conf_path = [], com_conf = 0, com_body = 0\<rparr>"

definition example_state :: override_state where
  "example_state = \<lparr>ov_fe = zero_frontend\<lparr>core_options := Some example_manager,
       sys := zero_sys\<lparr>si_library_name := Some ''core''\<rparr>,
       paths := (\<lambda>_. [])(Path_basename := ''/folder/game'')\<rparr>,
     ov_disk = Map.empty, ov_cheevos_checks = 0\<rparr>"

definition example_folder :: override_state where
  "example_folder = snd (the (core_options_create_override example_world example_code False example_state))"

definition example_game :: override_state where
  "example_game =
     snd (the (core_options_create_override example_world example_code True (choose_values [0] example_folder)))"

lemmas example_defs = example_world_def example_code_def null_world_def

lemma example_contracts:
  "joins_paths example_world" "defaults_exist example_code" "values_distinct example_code"
  "flush_records example_world example_code" "write_faithful example_world example_code"
proof -
  show "joins_paths example_world" "defaults_exist example_code" "values_distinct example_code"
    by (simp_all add: joins_paths_def defaults_exist_def values_distinct_def example_defs)
  show "flush_records example_world example_code"
    by (auto simp: flush_records_def indices_typed_def example_defs list_all2_Cons1)
  show "write_faithful example_world example_code"
    by (auto simp: write_faithful_def conf_from_path_def put_file_def example_defs)
qed

lemmas override_eval = core_options_create_override_def override_path_def validate_folder_options_def
  validate_per_core_options_def on_disk_def conf_from_path_def put_file_def activate_override_def
  choose_values_def push_info_def frontend_updates example_defs example_state_def example_manager_def
  zero_frontend_def zero_sys_def string_is_empty_def

lemma example_folder_eval:
  "core_options_create_override example_world example_code False example_state = Some (True, example_folder)"
  "core_options (ov_fe example_folder) = Some example_manager"
  "paths (ov_fe example_folder) Path_core_options = ''core/folder.opt''"
  by (simp_all add: example_folder_def override_eval Let_def)

lemma example_game_eval:
  "core_options_create_override example_world example_code True (choose_values [0] example_folder)
     = Some (True, example_game)"
  "core_options (ov_fe example_game) = Some (example_manager\<lparr>com_index := [0]\<rparr>)"
  "paths (ov_fe example_game) Path_core_options = ''core/game.opt''"
  "Game_options_active \<in> flags (ov_fe example_game)"
  "ov_disk example_game ''core/game.opt'' = Some 1"
  by (simp_all add: example_game_def example_folder_def override_eval Let_def)

lemma example_deletes: "(if file_deletes example_code p then a else b) = a"
  and example_deletes': "file_deletes example_code p"
  by (simp_all add: example_code_def)

lemma example_typed: "override_typed example_code example_state"
  by (simp add: override_typed_def indices_typed_def override_eval)

theorem override_run_typed_witness:
  "\<exists>s1. override_run plain_build example_code zero_settings
     [(example_world, Op_create False), (example_world, Op_reset None)] example_state = Some s1
   \<and> override_typed example_code s1"
proof -
  let ?ops = "[(example_world, Op_create False), (example_world, Op_reset None)]"
  have "override_run plain_build example_code zero_settings ?ops example_state \<noteq> None"
    by (simp add: override_step_def example_folder_eval)
  then obtain s1 where run: "override_run plain_build example_code zero_settings ?ops example_state = Some s1"
    by blast
  have "override_typed example_code s1"
    by (rule override_run_typed [OF example_typed _ _ run]) (simp_all add: example_contracts)
  with run show ?thesis by blast
qed

theorem game_override_undone_witness:
  "\<exists>s3 n. core_options_remove_override plain_build example_world example_code zero_settings True
      (choose_values [0] example_game) = (True, s3)
    \<and> core_options (ov_fe s3) = Some n \<and> com_index n = [1] \<and> com_updated n
    \<and> paths (ov_fe s3) Path_core_options = ''core/folder.opt''
    \<and> flags (ov_fe s3) \<inter> {Game_options_active, Folder_options_active} = {Folder_options_active}
    \<and> ov_disk s3 ''core/game.opt'' = None"
proof -
  have st: "core_options (ov_fe example_state) = Some example_manager" "com_index example_manager = [1]"
    by (simp_all add: example_state_def example_manager_def)
  have len: "length [0::nat] = length (com_index example_manager)" "com_index example_manager \<noteq> []"
    by (simp_all add: st)
  have diff: "paths (ov_fe example_game) Path_core_options \<noteq> paths (ov_fe example_folder) Path_core_options"
      "paths (ov_fe example_game) Path_core_options \<noteq> []"
      "paths (ov_fe example_folder) Path_core_options \<noteq> []"
    by (simp_all only: example_folder_eval example_game_eval) simp_all
  show ?thesis
    using game_override_undone [OF example_contracts(4,3,5) example_typed st(1) len(2) example_folder_eval(1)
      example_game_eval(1) len(1) len(1) diff, of plain_build zero_settings]
    by (auto simp only: example_folder_eval example_game_eval st example_deletes)
qed

theorem folder_removal_deletes_game_file_witness:
  "ov_disk example_game ''core/game.opt'' = Some 1
   \<and> ov_disk (snd (core_options_remove_override plain_build example_world example_code zero_settings False
        example_game)) ''core/game.opt'' = None"
  using folder_removal_deletes_game_file [OF example_game_eval(2,4,3) _ example_deletes'] example_game_eval(5) by simp

end
