(* ===== verification/Loop_State.thy ===== *)
theory Loop_State
  imports Core_Session C_Text
begin

text \<open>
  The data model of the frame loop (\<open>runloop_check_state\<close> and \<open>runloop_iterate\<close> of
  \<open>runloop.c\<close>): the hotkeys and commands, what the loop reads and writes (\<open>world\<close>), the
  function-local statics in which it remembers the previous frame (\<open>statics\<close>), and a frame in
  progress (\<open>frame\<close>), which adds the locals and the record of what was done, in order.

  Input is the set of pressed keys.  What a command does is outside the repository
  (\<open>command_event\<close>): it is a function of the world, a field of \<open>outside\<close>, which cannot
  reach the statics because they are local to the loop.  Discord, presence notices and CPU scaling
  are left out.
\<close>

text \<open>
  A bind (an entry of \<open>current_bits\<close>) and a command are named by their enumerators in the
  source, whose numbers are declared in headers outside the repository.
\<close>

type_synonym hotkey = string
type_synonym cmd = string

datatype loop_flag = Idle | Is_inited | Core_running | Focused | Autosave | Max_frames_screenshot

text \<open>\<open>runloop_state_enum\<close>\<close>

datatype runloop_state_enum = Loop_iterate | Loop_polled_and_sleep | Loop_menu | Loop_pause | Loop_quit

record loop_build =
  lb_base :: build
  have_screenshots :: bool
  have_overlay :: bool
  have_translate :: bool
  have_accessibility :: bool
  have_bsv_movie :: bool
  have_shaders :: bool

record loop_settings =
  ls_base :: settings
  ls_state_slot :: int
  ls_replay_slot :: int
  ls_pause_nonactive :: bool
  ls_pause_on_disconnect :: bool
  ls_audio_rewind_mute :: bool
  ls_rewind_granularity :: u32
  ls_show_fast_forward :: bool
  ls_shader_watch_files :: bool
  ls_shader_delay :: u32
  ls_quit_press_twice :: bool
  ls_quit_combo :: "u32 option"
  ls_menu_toggle_combo :: "u32 option"
  ls_menu_driver_null :: bool
  ls_menu_throttle_framerate :: bool
  ls_menu_screensaver_timeout :: u32
  ls_load_dummy_on_shutdown :: bool
  ls_auto_mouse_grab :: bool
  ls_overlay_enable :: bool
  ls_overlay_hide_with_gamepad :: bool
  ls_overlay_auto_rotate :: bool
  ls_aspect_ratio_full :: bool
  ls_audio_sync :: bool
  ls_audio_enable_menu :: bool
  ls_cheevos_enable :: bool
  ls_camera_allow :: bool
  ls_runahead_hide_warnings :: bool
  ls_ai_service_enable :: bool

record timer =
  tm_timeout_us :: int
  tm_current :: int
  tm_timeout_end :: int
  tm_begin :: bool
  tm_end :: bool

text \<open>The audio driver: \<open>ao_write_avail\<close> is what its optional function answers.\<close>

record audio_out =
  ao_samples_buf :: bool
  ao_context :: bool
  ao_write_avail :: "size_t option"
  ao_buffer_size :: size_t
  ao_chunk_block :: size_t
  ao_chunk_nonblock :: size_t
  ao_chunk_size :: size_t
  ao_nonblock :: bool

text \<open>The menu: when the current and earlier actions began, and what it asks to be drawn.\<close>

datatype menu_action = Action_noop | Action_cancel | Action_other nat

datatype menu_render = Render_framebuffer | Render_messagebox | Render_blit

record menu_st =
  mn_flushing_input :: u32
  mn_binding :: bool
  mn_current_time :: int
  mn_noop_press :: int
  mn_noop_start :: int
  mn_action_press :: int
  mn_action_start :: int
  mn_prev_start :: int
  mn_prev_action :: menu_action
  mn_input_last :: int
  mn_saver_supported :: bool
  mn_saver_active :: bool
  mn_pending_quick_menu :: bool
  mn_selection :: nat
  mn_driver_data :: bool
  mn_render :: "menu_render set"
  mn_message :: string
  mn_fb_dirty :: bool
  mn_msg_force :: bool

record world =
  ses :: session
  w_set :: loop_settings
  w_flags :: "loop_flag set"
  w_run_frames :: int
  w_limit_last :: int
  w_core_run_time :: int
  w_widgets_rewinding :: bool
  w_widgets_paused :: bool
  w_video_delay_pause :: bool
  w_shader_timer :: timer
  w_audio :: audio_out
  w_pad_state :: "bool list"
  w_preempt :: "handle option"
  w_rewind_hold :: bool
  w_movie_end :: bool
  w_camera_ready :: bool
  w_block_input :: bool
  w_block_hotkey :: bool
  w_kb_mapping_blocked :: bool
  w_grab_mouse :: bool
  w_frame_count :: u64
  w_screenshot_path :: string
  w_width :: u32
  w_height :: u32
  w_refresh_original :: rat
  w_menu :: menu_st
  w_foreground_ui :: bool
  w_ai_overlay_state :: int

text \<open>What the loop does that is visible outside; \<open>L_call f\<close> is a call of the C function \<open>f\<close>.\<close>

datatype loop_event =
    L_command cmd
  | L_unload_core bool
  | L_push string u32 u32 bool
  | L_widget string int
  | L_check_rewind bool bool
  | L_screenshot string bool
  | L_frame_time int
  | L_audio_status bool u32 bool
  | L_runahead u32 bool bool
  | L_sleep int
  | L_call string

text \<open>What persists between frames inside the loop.\<close>

record statics =
  held :: "hotkey set"
  volume_delay :: u32
  volume_delay_active :: u32
  old_rewind :: bool
  old_focus :: bool
  paused_by_hotkey :: bool
  menu_old_pause :: bool
  old_pause :: bool
  old_frameadvance :: bool
  pause_frameadvance :: bool
  old_ff :: bool
  old_ff_hold :: bool
  old_slow :: bool
  old_slow_hold :: bool
  old_slot_inc :: bool
  old_slot_dec :: bool
  old_replay_inc :: bool
  old_replay_dec :: bool
  old_shader_hold :: bool
  watch_timer :: timer
  watch_apply :: bool
  old_quit :: bool
  quit_time :: int
  old_menu_toggle :: bool
  old_input :: "hotkey set"
  old_action :: menu_action
  last_controller :: bool
  last_overlay_size :: "u32 \<times> u32"
  last_aspect_size :: "u32 \<times> u32"

record frame =
  fr_world :: world
  fr_hot :: statics
  fr_bits :: "hotkey set"
  fr_focused :: bool
  fr_paused :: bool
  fr_hardcore :: bool
  fr_log :: "loop_event list"

text \<open>
  What one frame obtains from outside: \<open>do_command\<close> is \<open>command_event\<close>,
  \<open>check_rewind pressed granularity paused\<close> is \<open>state_manager_check_rewind\<close>, which says
  whether the game is being rewound and which message to show for how long, and
  \<open>core_actions\<close> what the core does in its frame.  \<open>provided\<close> names the optional driver
  functions that are not null.  The clock is read at several points.
\<close>

record outside =
  ou_ext :: ext
  ou_limits :: limits
  do_command :: "cmd \<Rightarrow> world \<Rightarrow> world"
  do_unload_core :: "bool \<Rightarrow> world \<Rightarrow> bool \<times> world"
  do_check_rewind :: "bool \<Rightarrow> u32 \<Rightarrow> bool \<Rightarrow> world \<Rightarrow> (bool \<times> string \<times> u32) \<times> world"
  do_menu_running :: "world \<Rightarrow> world"
  do_menu_finished :: "world \<Rightarrow> world"
  do_menu_event :: "hotkey set \<Rightarrow> hotkey set \<Rightarrow> world \<Rightarrow> menu_action \<times> world"
  do_menu_iterate :: "menu_action \<Rightarrow> world \<Rightarrow> bool \<times> world"
  do_dummy_core :: "world \<Rightarrow> world"
  do_runahead :: "u32 \<Rightarrow> world \<Rightarrow> world"
  do_preempt :: "handle \<Rightarrow> world \<Rightarrow> world"
  do_movie_stop :: "world \<Rightarrow> world"
  system_input :: "hotkey set"
  button_combo :: "u32 \<Rightarrow> hotkey set \<Rightarrow> bool"
  hardcore_active :: bool
  pause_allowed :: bool
  allow_pause :: bool
  allow_timeskip :: bool
  ou_current_time :: int
  ou_later_time :: int
  ou_core_time :: int
  ou_end_time :: int
  shaders_changed :: bool
  error_on_init :: bool
  applet_running :: bool
  provided :: "string set"
  time_to_exit :: "bool \<Rightarrow> world \<Rightarrow> bool"
  video_alive :: bool
  video_focus :: bool
  video_threaded :: bool
  ui_application :: bool
  controller_connected :: bool
  core_actions :: "core_action list"

subsection \<open>Steps shared by the stages\<close>

abbreviation upd_world :: "(world \<Rightarrow> world) \<Rightarrow> frame \<Rightarrow> frame" where
  "upd_world f fr \<equiv> fr\<lparr>fr_world := f (fr_world fr)\<rparr>"

abbreviation upd_hot :: "(statics \<Rightarrow> statics) \<Rightarrow> frame \<Rightarrow> frame" where
  "upd_hot f fr \<equiv> fr\<lparr>fr_hot := f (fr_hot fr)\<rparr>"

abbreviation front :: "frame \<Rightarrow> frontend" where
  "front fr \<equiv> fe (ses (fr_world fr))"

abbreviation setting :: "frame \<Rightarrow> loop_settings" where
  "setting fr \<equiv> w_set (fr_world fr)"

definition world_fe :: "(frontend \<Rightarrow> frontend) \<Rightarrow> world \<Rightarrow> world" where
  "world_fe f w = w\<lparr>ses := upd_fe f (ses w)\<rparr>"

definition on_fe :: "(frontend \<Rightarrow> frontend) \<Rightarrow> frame \<Rightarrow> frame" where
  "on_fe f = upd_world (world_fe f)"

definition log_event :: "loop_event \<Rightarrow> frame \<Rightarrow> frame" where
  "log_event ev fr = fr\<lparr>fr_log := fr_log fr @ [ev]\<rparr>"

definition call_out :: "string \<Rightarrow> frame \<Rightarrow> frame" where
  "call_out f = log_event (L_call f)"

definition command :: "outside \<Rightarrow> cmd \<Rightarrow> frame \<Rightarrow> frame" where
  "command e c fr = upd_world (do_command e c) (log_event (L_command c) fr)"

definition push_message :: "string \<Rightarrow> u32 \<Rightarrow> u32 \<Rightarrow> bool \<Rightarrow> frame \<Rightarrow> frame" where
  "push_message msg prio duration flush = log_event (L_push msg prio duration flush)"

text \<open>The poll callback the frontend keeps for itself.\<close>

definition poll :: "frame \<Rightarrow> frame" where
  "poll fr = on_fe (run_poll (poll_cb (retro_ctx (ses (fr_world fr))))) fr"

definition cached_frame :: "frame \<Rightarrow> frame" where
  "cached_frame = on_fe (emit [C_cached_frame])"

definition set_muted :: "bool \<Rightarrow> frontend \<Rightarrow> frontend" where
  "set_muted m f = f\<lparr>aud := (aud f)\<lparr>as_muted := m\<rparr>\<rparr>"

definition set_nonblocking :: "bool \<Rightarrow> frontend \<Rightarrow> frontend" where
  "set_nonblocking v f = f\<lparr>inp := (inp f)\<lparr>is_nonblocking := v\<rparr>\<rparr>"

text \<open>A frame of the core, and the run time of the content that it adds.\<close>

definition run_core :: "loop_build \<Rightarrow> outside \<Rightarrow> frame \<Rightarrow> frame" where
  "run_core b e fr =
     upd_world (\<lambda>w. w\<lparr>ses := core_run (lb_base b) (ou_ext e) (ou_limits e) (core_actions e) (ses w)\<rparr>)
       (log_event (L_call ''core_run'') fr)"

definition runtime_tick :: "outside \<Rightarrow> rat \<Rightarrow> frontend \<Rightarrow> frontend" where
  "runtime_tick e slow f =
     (case runloop_core_runtime_tick slow (ou_current_time e) f of
        (d, g) \<Rightarrow> g\<lparr>core_runtime_usec := core_runtime_usec f + d\<rparr>)"

text \<open>A stage either decides the result of the check or lets the next one run.\<close>

type_synonym flow = "runloop_state_enum option \<times> frame"

abbreviation go :: "frame \<Rightarrow> flow" where "go fr \<equiv> (None, fr)"
abbreviation stop :: "runloop_state_enum \<Rightarrow> frame \<Rightarrow> flow" where "stop r fr \<equiv> (Some r, fr)"

definition and_then :: "flow \<Rightarrow> (frame \<Rightarrow> flow) \<Rightarrow> flow" where
  "and_then p g = (case p of (Some r, fr) \<Rightarrow> (Some r, fr) | (None, fr) \<Rightarrow> g fr)"

lemma and_then_simps [simp]:
  "and_then (go fr) g = g fr" "and_then (stop r fr) g = stop r fr"
  by (simp_all add: and_then_def)

end
