(* ===== verification/Hotkeys.thy ===== *)
theory Hotkeys
  imports Loop_State
begin

text \<open>
  The hotkey stages of \<open>runloop_check_state\<close> that follow the menu: each is one block of the
  function, in its order.  A stage reads the keys of the frame (\<open>fr_bits\<close>), compares them with
  what its statics remember, and updates them.
\<close>

subsection \<open>Keys that issue a command when they go down\<close>

definition remember :: "hotkey \<Rightarrow> bool \<Rightarrow> hotkey set \<Rightarrow> hotkey set" where
  "remember k pressed H = (if pressed then insert k H else H - {k})"

definition hotkey_check :: "outside \<Rightarrow> hotkey \<Rightarrow> cmd \<Rightarrow> frame \<Rightarrow> frame" where
  "hotkey_check e k c fr =
     (let pressed = (k \<in> fr_bits fr);
          fr1 = (if pressed \<and> k \<notin> held (fr_hot fr) then command e c fr else fr)
      in upd_hot (\<lambda>h. h\<lparr>held := remember k pressed (held h)\<rparr>) fr1)"

text \<open>Three keys checked together: only the first that goes down takes effect.\<close>

definition hotkey_check3 ::
    "outside \<Rightarrow> hotkey \<times> cmd \<Rightarrow> hotkey \<times> cmd \<Rightarrow> hotkey \<times> cmd \<Rightarrow> frame \<Rightarrow> frame" where
  "hotkey_check3 e a b c fr =
     (let down = (\<lambda>k. k \<in> fr_bits fr \<and> k \<notin> held (fr_hot fr));
          fr1 = (if down (fst a) then command e (snd a) fr
                 else if down (fst b) then command e (snd b) fr
                 else if down (fst c) then command e (snd c) fr else fr);
          bits = fr_bits fr
      in upd_hot (\<lambda>h. h\<lparr>held := remember (fst a) (fst a \<in> bits) (remember (fst b) (fst b \<in> bits)
           (remember (fst c) (fst c \<in> bits) (held h)))\<rparr>) fr1)"

fun hotkey_checks :: "outside \<Rightarrow> (hotkey \<times> cmd) list \<Rightarrow> frame \<Rightarrow> frame" where
  "hotkey_checks e [] fr = fr"
| "hotkey_checks e ((k, c) # ks) fr = hotkey_checks e ks (hotkey_check e k c fr)"

definition first_hotkeys :: "(hotkey \<times> cmd) list" where
  "first_hotkeys =
     [(''RARCH_GAME_FOCUS_TOGGLE'', ''CMD_EVENT_GAME_FOCUS_TOGGLE''),
      (''RARCH_UI_COMPANION_TOGGLE'', ''CMD_EVENT_UI_COMPANION_TOGGLE''),
      (''RARCH_CLOSE_CONTENT_KEY'', ''CMD_EVENT_CLOSE_CONTENT''),
      (''RARCH_FPS_TOGGLE'', ''CMD_EVENT_FPS_TOGGLE''),
      (''RARCH_STATISTICS_TOGGLE'', ''CMD_EVENT_STATISTICS_TOGGLE''),
      (''RARCH_NETPLAY_HOST_TOGGLE'', ''CMD_EVENT_NETPLAY_HOST_TOGGLE'')]"

subsection \<open>Volume\<close>

definition check_volume :: "outside \<Rightarrow> frame \<Rightarrow> frame" where
  "check_volume e fr =
     (let up = (''RARCH_VOLUME_UP'' \<in> fr_bits fr);
          down = (''RARCH_VOLUME_DOWN'' \<in> fr_bits fr);
          h = fr_hot fr
      in if up \<and> \<not> down \<or> down \<and> \<not> up
         then if 0 < volume_delay h
              then upd_hot (\<lambda>h. h\<lparr>volume_delay := volume_delay h - 1\<rparr>) fr
              else let fr1 = command e (if up then ''CMD_EVENT_VOLUME_UP'' else ''CMD_EVENT_VOLUME_DOWN'') fr;
                       a = (if 0 < volume_delay_active h then volume_delay_active h - 1
                            else volume_delay_active h)
                   in upd_hot (\<lambda>h. h\<lparr>volume_delay_active := a, volume_delay := a\<rparr>) fr1
         else upd_hot (\<lambda>h. h\<lparr>volume_delay := 0, volume_delay_active := 6\<rparr>) fr)"

definition check_mute_screenshot :: "loop_build \<Rightarrow> outside \<Rightarrow> frame \<Rightarrow> frame" where
  "check_mute_screenshot b e fr =
     (let fr1 = hotkey_check e ''RARCH_MUTE'' ''CMD_EVENT_AUDIO_MUTE_TOGGLE'' fr
      in if have_screenshots b then hotkey_check e ''RARCH_SCREENSHOT'' ''CMD_EVENT_TAKE_SCREENSHOT'' fr1
         else fr1)"

subsection \<open>Rewinding\<close>

definition rewind_step :: "outside \<Rightarrow> bool \<Rightarrow> bool \<Rightarrow> frame \<Rightarrow> (bool \<times> string \<times> u32) \<times> frame" where
  "rewind_step e pressed paused fr =
     (let fr1 = log_event (L_check_rewind pressed paused) fr;
          (r, w) = do_check_rewind e pressed (ls_rewind_granularity (setting fr)) paused (fr_world fr1)
      in (r, fr1\<lparr>fr_world := w\<rparr>))"

text \<open>\<open>menu_pause\<close> and \<open>widgets\<close> are locals computed when the check starts.\<close>

definition check_rewind :: "loop_build \<Rightarrow> outside \<Rightarrow> bool \<Rightarrow> frame \<Rightarrow> flow" where
  "check_rewind b e menu_pause fr =
     (if \<not> have_rewind (lb_base b) \<or> fr_hardcore fr then go fr
      else
        let menu = (have_menu (lb_base b) \<and> menu_alive (front fr));
            pressed = ((''RARCH_REWIND'' \<in> fr_bits fr \<or> w_rewind_hold (fr_world fr)) \<and> \<not> menu);
            old = old_rewind (fr_hot fr)
        in if fr_paused fr \<and> pressed \<and> old \<and> w_run_frames (fr_world fr) = 0
           then stop Loop_pause (poll fr)
           else
             let ((rewinding, msg, t), fr1) =
                   rewind_step e pressed (fr_paused fr \<or> menu \<and> menu_pause) fr;
                 fr2 = (if pressed \<noteq> old
                        then on_fe (set_muted (ls_audio_rewind_mute (setting fr1) \<and> pressed)) fr1 else fr1);
                 fr3 = upd_hot (\<lambda>h. h\<lparr>old_rewind := pressed\<rparr>) fr2;
                 fr4 = (if have_gfx_widgets (lb_base b) \<and> widgets_active (ou_ext e)
                        then upd_world (\<lambda>w. w\<lparr>w_widgets_rewinding := rewinding\<rparr>) fr3
                        else if rewinding then push_message msg 0 t True fr3 else fr3)
             in if rewinding \<and> fr_paused fr4 \<and> \<not> (have_menu (lb_base b) \<and> menu_alive (front fr4))
                then let fr5 = poll fr4
                     in stop Loop_iterate
                          (if w_run_frames (fr_world fr5) = - 1
                           then upd_world (\<lambda>w. w\<lparr>w_run_frames := 3\<rparr>) (on_fe (lower_flags {Paused}) fr5)
                           else fr5)
                else go fr4)"

subsection \<open>Pausing\<close>

definition runloop_pause_toggle :: "outside \<Rightarrow> bool \<Rightarrow> bool \<Rightarrow> bool \<Rightarrow> frame \<Rightarrow> frame" where
  "runloop_pause_toggle e pressed old_pressed was_focused fr =
     (if fr_focused fr
      then if pressed \<and> \<not> old_pressed
           then command e ''CMD_EVENT_PAUSE_TOGGLE''
                  (upd_hot (\<lambda>h. h\<lparr>paused_by_hotkey := Paused \<notin> flags (front fr)\<rparr>) fr)
           else if \<not> was_focused then command e ''CMD_EVENT_UNPAUSE'' fr else fr
      else if was_focused then command e ''CMD_EVENT_PAUSE'' fr else fr)"

definition check_menu_pause :: "loop_build \<Rightarrow> outside \<Rightarrow> frame \<Rightarrow> flow" where
  "check_menu_pause b e fr =
     (if have_menu (lb_base b) \<and> menu_alive (front fr)
      then let pressed = (''RARCH_PAUSE_TOGGLE'' \<in> fr_bits fr);
               fr1 = runloop_pause_toggle e pressed (menu_old_pause (fr_hot fr)) (old_focus (fr_hot fr)) fr;
               fr2 = upd_hot (\<lambda>h. h\<lparr>old_focus := fr_focused fr1, menu_old_pause := pressed\<rparr>) fr1
           in if menu_alive (front fr2) then stop Loop_menu fr2 else go fr2
      else go fr)"

text \<open>
  In hardcore mode a pause needs the permission of the achievements code, and there is no frame
  advance.  Result: whether pause is pressed, the trigger and the state of frame advance.
\<close>

definition hardcore_pause :: "outside \<Rightarrow> bool \<Rightarrow> bool \<Rightarrow> frame \<Rightarrow> bool \<times> frame" where
  "hardcore_pause e nonactive pressed fr =
     (let h = fr_hot fr
      in if Paused \<notin> flags (front fr)
            \<and> (pressed \<and> \<not> old_pause h \<or> \<not> fr_focused fr \<and> old_focus h \<and> nonactive)
            \<and> \<not> pause_allowed e
         then (False, if nonactive then fr\<lparr>fr_focused := True\<rparr> else fr)
         else (pressed, fr))"

text \<open>What a paused game does in this frame: nothing, unless one frame is asked for.\<close>

definition paused_frame :: "loop_build \<Rightarrow> outside \<Rightarrow> bool \<Rightarrow> frame \<Rightarrow> frame" where
  "paused_frame b e trigger fr =
     (let rew = have_rewind (lb_base b);
          fr1 = (if rew \<and> trigger \<and> fr_paused fr then snd (rewind_step e False False fr) else fr);
          oneshot = (trigger \<or> rew \<and> ''RARCH_REWIND'' \<in> fr_bits fr1);
          fr2 = (if \<not> oneshot then fr1\<lparr>fr_focused := False\<rparr>
                 else if \<not> fr_hardcore fr1 then fr1\<lparr>fr_paused := False\<rparr> else fr1)
      in if pause_frameadvance (fr_hot fr2) then fr2\<lparr>fr_paused := False\<rparr> else fr2)"

text \<open>What the keys ask for: whether pause is pressed, whether frame advance went down, is down.\<close>

definition pause_request ::
    "outside \<Rightarrow> bool \<Rightarrow> frame \<Rightarrow> (bool \<times> bool \<times> bool) \<times> frame" where
  "pause_request e nonactive fr =
     (let key = (''RARCH_PAUSE_TOGGLE'' \<in> fr_bits fr);
          fr1 = (if key then upd_hot (\<lambda>h. h\<lparr>pause_frameadvance := False\<rparr>) fr else fr);
          pressed = (key \<or> fr_paused fr \<and> ls_pause_on_disconnect (setting fr)
                       \<and> ''RETRO_DEVICE_ID_JOYPAD_START'' \<in> fr_bits fr);
          advance = (\<not> fr_hardcore fr \<and> ''RARCH_FRAMEADVANCE'' \<in> fr_bits fr);
          trigger = (advance \<and> \<not> old_frameadvance (fr_hot fr))
      in if fr_hardcore fr
         then (case hardcore_pause e nonactive pressed fr1 of (p, fr2) \<Rightarrow> ((p, False, False), fr2))
         else if trigger
         then ((pressed \<or> Paused \<notin> flags (front fr), True, True),
               upd_hot (\<lambda>h. h\<lparr>pause_frameadvance := True\<rparr>) fr1)
         else ((pressed, False, advance), fr1))"

definition decide_pause :: "outside \<Rightarrow> bool \<Rightarrow> bool \<Rightarrow> frame \<Rightarrow> frame" where
  "decide_pause e pressed advance fr =
     upd_hot (\<lambda>h. h\<lparr>old_focus := fr_focused fr, old_pause := pressed, old_frameadvance := advance\<rparr>)
       (runloop_pause_toggle e pressed (old_pause (fr_hot fr)) (old_focus (fr_hot fr)) fr)"

definition check_pause :: "loop_build \<Rightarrow> outside \<Rightarrow> bool \<Rightarrow> frame \<Rightarrow> frame" where
  "check_pause b e nonactive fr =
     (case pause_request e nonactive
             (if (have_networking (lb_base b) \<longrightarrow> allow_pause e) \<and> nonactive
              then fr\<lparr>fr_focused := video_focus e\<rparr> else fr) of
        ((pressed, trigger, advance), fr1) \<Rightarrow>
          let fr2 = decide_pause e pressed advance fr1
          in if Paused \<in> flags (front fr2) then paused_frame b e trigger fr2 else fr2)"

subsection \<open>Hotkeys after the pause\<close>

definition running_hotkeys :: "loop_build \<Rightarrow> (hotkey \<times> cmd) list" where
  "running_hotkeys b =
     [(''RARCH_RECORDING_TOGGLE'', ''CMD_EVENT_RECORDING_TOGGLE''),
      (''RARCH_STREAMING_TOGGLE'', ''CMD_EVENT_STREAMING_TOGGLE''),
      (''RARCH_RUNAHEAD_TOGGLE'', ''CMD_EVENT_RUNAHEAD_TOGGLE''),
      (''RARCH_PREEMPT_TOGGLE'', ''CMD_EVENT_PREEMPT_TOGGLE''),
      (''RARCH_AI_SERVICE'', ''CMD_EVENT_AI_SERVICE_TOGGLE'')]
     @ (if have_networking (lb_base b)
        then [(''RARCH_NETPLAY_PING_TOGGLE'', ''CMD_EVENT_NETPLAY_PING_TOGGLE''),
              (''RARCH_NETPLAY_GAME_WATCH'', ''CMD_EVENT_NETPLAY_GAME_WATCH''),
              (''RARCH_NETPLAY_PLAYER_CHAT'', ''CMD_EVENT_NETPLAY_PLAYER_CHAT''),
              (''RARCH_NETPLAY_FADE_CHAT_TOGGLE'', ''CMD_EVENT_NETPLAY_FADE_CHAT_TOGGLE'')]
        else [])"

definition pad_buttons :: "hotkey list" where
  "pad_buttons = map (\<lambda>n. ''RETRO_DEVICE_ID_JOYPAD_'' @ n)
     [''B'', ''Y'', ''SELECT'', ''START'', ''UP'', ''DOWN'', ''LEFT'', ''RIGHT'',
      ''A'', ''X'', ''L'', ''R'', ''L2'', ''R2'', ''L3'', ''R3'']"

definition copy_pad_state :: "loop_build \<Rightarrow> frame \<Rightarrow> frame" where
  "copy_pad_state b fr =
     (if have_accessibility b \<and> have_translate b \<and> ls_ai_service_enable (setting fr)
      then upd_world (\<lambda>w. w\<lparr>w_pad_state := map (\<lambda>k. k \<in> fr_bits fr) pad_buttons\<rparr>) fr else fr)"

definition check_sleep :: "frame \<Rightarrow> flow" where
  "check_sleep fr =
     (if \<not> fr_focused fr \<and> \<not> fr_paused fr then stop Loop_polled_and_sleep (poll fr) else go fr)"

end
