(* ===== verification/Loop_Entry.thy ===== *)
theory Loop_Entry
  imports Hotkeys
begin

text \<open>
  The stages of \<open>runloop_check_state\<close> up to and including the menu: collecting input, the
  window's hotkeys, the overlay, quitting, opening the menu, and the frame of an open menu.
\<close>

subsection \<open>Input of the frame\<close>

text \<open>The locals at the start.\<close>

definition frame_start :: "world \<Rightarrow> statics \<Rightarrow> frame" where
  "frame_start w h =
     \<lparr>fr_world = w, fr_hot = h, fr_bits = {}, fr_focused = True,
      fr_paused = (Paused \<in> flags (fe (ses w))), fr_hardcore = False, fr_log = []\<rparr>"

definition check_translate_overlay :: "loop_build \<Rightarrow> outside \<Rightarrow> frame \<Rightarrow> frame" where
  "check_translate_overlay b e fr =
     (if have_translate b \<and> have_gfx_widgets (lb_base b) \<and> w_ai_overlay_state (fr_world fr) = 3
      then upd_world (\<lambda>w. w\<lparr>w_ai_overlay_state := 1\<rparr>) (command e ''CMD_EVENT_PAUSE'' fr) else fr)"

definition collect_input :: "loop_build \<Rightarrow> outside \<Rightarrow> frame \<Rightarrow> frame" where
  "collect_input b e fr =
     (let fr1 = upd_world (\<lambda>w. w\<lparr>w_block_input := False, w_block_hotkey := w_kb_mapping_blocked w\<rparr>) fr;
          bits = system_input e;
          combo = (case ls_menu_toggle_combo (setting fr) of
                     None \<Rightarrow> False | Some c \<Rightarrow> button_combo e c bits)
      in fr1\<lparr>fr_bits := (if have_menu (lb_base b) \<and> combo then insert ''RARCH_MENU_TOGGLE'' bits else bits)\<rparr>)"

text \<open>
  After the menu closes, input is ignored until nothing is pressed for a number of frames.  The
  key that enables hotkeys does not count as pressed.  A pause is restored meanwhile.
\<close>

definition input_active :: "hotkey set \<Rightarrow> bool" where
  "input_active bits \<longleftrightarrow>
     bits \<noteq> {} \<and> \<not> (''RARCH_ENABLE_HOTKEY'' \<in> bits \<and> ''RARCH_MENU_TOGGLE'' \<notin> bits)"

definition upd_menu :: "(menu_st \<Rightarrow> menu_st) \<Rightarrow> frame \<Rightarrow> frame" where
  "upd_menu f = upd_world (\<lambda>w. w\<lparr>w_menu := f (w_menu w)\<rparr>)"

definition flush_input :: "loop_build \<Rightarrow> outside \<Rightarrow> bool \<Rightarrow> frame \<Rightarrow> frame" where
  "flush_input b e menu_pause fr =
     (if \<not> have_menu (lb_base b) \<or> mn_flushing_input (w_menu (fr_world fr)) = 0 then fr
      else let active = input_active (fr_bits fr);
               fr1 = (if active then fr
                      else upd_menu (\<lambda>m. m\<lparr>mn_flushing_input := mn_flushing_input m - 1\<rparr>) fr)
           in if active \<or> 0 < mn_flushing_input (w_menu (fr_world fr1))
              then let fr2 = fr1\<lparr>fr_bits := {}\<rparr>
                   in if fr_paused fr2 \<and> \<not> paused_by_hotkey (fr_hot fr2) \<and> menu_pause
                      then fr2\<lparr>fr_bits := {''RARCH_PAUSE_TOGGLE''}\<rparr>
                      else if paused_by_hotkey (fr_hot fr2)
                      then if menu_pause then command e ''CMD_EVENT_PAUSE'' fr2 else cached_frame fr2
                      else fr2
              else fr1)"

text \<open>\<open>binding\<close> is a local computed when the check starts.\<close>

definition window_events :: "loop_build \<Rightarrow> outside \<Rightarrow> bool \<Rightarrow> frame \<Rightarrow> frame" where
  "window_events b e binding fr =
     (let fr1 = (if \<not> video_threaded e \<and> ui_application e then call_out ''process_events'' fr else fr)
      in if have_menu (lb_base b) \<and> binding then fr1\<lparr>fr_bits := {}\<rparr> else fr1)"

definition window_hotkeys :: "(hotkey \<times> cmd) list" where
  "window_hotkeys =
     [(''RARCH_FULLSCREEN_TOGGLE_KEY'', ''CMD_EVENT_FULLSCREEN_TOGGLE''),
      (''RARCH_TURBO_FIRE_TOGGLE'', ''CMD_EVENT_TURBO_FIRE_TOGGLE''),
      (''RARCH_GRAB_MOUSE_TOGGLE'', ''CMD_EVENT_GRAB_MOUSE_TOGGLE'')]"

definition check_focus :: "outside \<Rightarrow> frame \<Rightarrow> frame" where
  "check_focus e fr =
     (let fr1 = (if ls_auto_mouse_grab (setting fr) \<and> video_focus e \<and> Focused \<notin> w_flags (fr_world fr)
                    \<and> \<not> w_grab_mouse (fr_world fr)
                 then command e ''CMD_EVENT_GRAB_MOUSE_TOGGLE'' fr else fr)
      in upd_world (\<lambda>w. w\<lparr>w_flags := (if video_focus e then insert Focused (w_flags w)
                                      else w_flags w - {Focused})\<rparr>) fr1)"

subsection \<open>Overlay and aspect ratio\<close>

definition video_size :: "frame \<Rightarrow> u32 \<times> u32" where
  "video_size fr = (w_width (fr_world fr), w_height (fr_world fr))"

definition overlay_gamepad :: "outside \<Rightarrow> frame \<Rightarrow> frame" where
  "overlay_gamepad e fr =
     (if controller_connected e \<noteq> last_controller (fr_hot fr)
      then upd_hot (\<lambda>h. h\<lparr>last_controller := controller_connected e\<rparr>)
             (call_out (if controller_connected e then ''input_overlay_unload'' else ''input_overlay_init'') fr)
      else fr)"

text \<open>The settings of the overlay are read before its hotkeys are checked.\<close>

definition check_overlay :: "loop_build \<Rightarrow> outside \<Rightarrow> frame \<Rightarrow> frame" where
  "check_overlay b e fr =
     (if \<not> have_overlay b \<or> \<not> ls_overlay_enable (setting fr) then fr
      else let size0 = video_size fr;
               rotate = ls_overlay_auto_rotate (setting fr);
               fr1 = (if ls_overlay_hide_with_gamepad (setting fr) then overlay_gamepad e fr else fr);
               fr2 = hotkey_check e ''RARCH_OVERLAY_NEXT'' ''CMD_EVENT_OVERLAY_NEXT'' fr1;
               fr3 = (if size0 \<noteq> last_overlay_size (fr_hot fr2)
                      then let fr4 = command e ''CMD_EVENT_OVERLAY_SET_SCALE_FACTOR'' fr2;
                               fr5 = (if rotate then call_out ''input_overlay_auto_rotate_'' fr4 else fr4)
                           in upd_hot (\<lambda>h. h\<lparr>last_overlay_size := size0\<rparr>) fr5
                      else fr2)
           in hotkey_check e ''RARCH_OSK'' ''CMD_EVENT_OSK_TOGGLE'' fr3)"

definition check_aspect_ratio :: "outside \<Rightarrow> frame \<Rightarrow> frame" where
  "check_aspect_ratio e fr =
     (if ls_aspect_ratio_full (setting fr) \<and> video_size fr \<noteq> last_aspect_size (fr_hot fr)
      then upd_hot (\<lambda>h. h\<lparr>last_aspect_size := video_size fr\<rparr>)
             (command e ''CMD_EVENT_VIDEO_SET_ASPECT_RATIO'' fr)
      else fr)"

subsection \<open>Quitting\<close>

text \<open>\<open>QUIT_DELAY_USEC\<close>\<close>

definition quit_delay_usec :: int where
  "quit_delay_usec = 3 * 1000000"

definition quit_hint :: "loop_build \<Rightarrow> outside \<Rightarrow> frame \<Rightarrow> frame" where
  "quit_hint b e fr =
     (let ctx = \<lparr>cx_build = lb_base b, cx_limits = ou_limits e, cx_settings = ls_base (setting fr),
                 cx_ext = ou_ext e\<rparr>;
          r = runloop_environment_cb ctx (Video GET_TARGET_REFRESH_RATE) (front fr);
          hz = (case res_out r of Out_rate hz \<Rightarrow> hz | _ \<Rightarrow> 0)
      in push_message (msg_hash_to_str (ou_ext e) ''MSG_PRESS_AGAIN_TO_QUIT'') 1
           (to_unsigned (rat_of_int quit_delay_usec * hz / 1000000)) True (on_fe (\<lambda>_. res_st r) fr))"

text \<open>Whether the key or the combo asks to quit, the second press in time if two are needed.\<close>

definition quit_trigger :: "loop_build \<Rightarrow> outside \<Rightarrow> bool \<Rightarrow> frame \<Rightarrow> bool \<times> frame" where
  "quit_trigger b e combo fr =
     (let key = (''RARCH_QUIT_KEY'' \<in> fr_bits fr);
          trig = (key \<and> \<not> old_quit (fr_hot fr) \<or> combo);
          fr1 = upd_hot (\<lambda>h. h\<lparr>old_quit := key\<rparr>) fr
      in if trig \<and> ls_quit_press_twice (setting fr1)
         then let again = (ou_current_time e - quit_time (fr_hot fr1) < quit_delay_usec);
                  fr2 = upd_hot (\<lambda>h. h\<lparr>quit_time := ou_current_time e\<rparr>) fr1
              in (again, if again then fr2 else quit_hint b e fr2)
         else (trig, fr1))"

definition last_screenshot :: "loop_build \<Rightarrow> outside \<Rightarrow> frame \<Rightarrow> frame" where
  "last_screenshot b e fr =
     (let w = fr_world fr
      in if have_screenshots b \<and> max_frames (ses w) \<noteq> 0
            \<and> unat (max_frames (ses w)) \<le> unat (w_frame_count w) \<and> Max_frames_screenshot \<in> w_flags w
         then (if w_screenshot_path w = [] then log_event (L_screenshot (paths (front fr) Path_basename) False) fr
               else log_event (L_screenshot (w_screenshot_path w) True) fr)
         else fr)"

text \<open>
  The core asked to shut down: it is replaced by the dummy core if that is configured.  Result:
  whether to leave.
\<close>

definition shutdown_core :: "outside \<Rightarrow> frame \<Rightarrow> bool \<times> frame" where
  "shutdown_core e fr =
     (if Core_shutdown_initiated \<in> flags (front fr)
      then let dummy = ls_load_dummy_on_shutdown (setting fr);
               fr1 = on_fe (lower_flags ({Core_shutdown_initiated} \<union> (if dummy then {Shutdown_initiated} else {}))) fr;
               fr2 = log_event (L_unload_core dummy) fr1;
               (ok, w) = do_unload_core e dummy (fr_world fr2);
               fr3 = fr2\<lparr>fr_world := w\<rparr>
           in (\<not> ok \<or> \<not> dummy, if ok then fr3 else on_fe (raise_flags {Shutdown_initiated}) fr3)
      else (True, fr))"

definition check_quit :: "loop_build \<Rightarrow> outside \<Rightarrow> frame \<Rightarrow> flow" where
  "check_quit b e fr =
     (let combo = (case ls_quit_combo (setting fr) of
                     None \<Rightarrow> False
                   | Some c \<Rightarrow> \<not> (''RARCH_QUIT_KEY'' \<in> fr_bits fr \<and> \<not> old_quit (fr_hot fr))
                               \<and> button_combo e c (fr_bits fr));
          (trig, fr1) = quit_trigger b e combo fr
      in if time_to_exit e trig (fr_world fr1)
         then let (leave, fr2) = shutdown_core e (last_screenshot b e fr1);
                  fr3 = upd_world (\<lambda>w. w\<lparr>w_flags := w_flags w - {Core_running}\<rparr>) fr2
              in if leave then stop Loop_quit fr3 else go fr3
         else go fr1)"

subsection \<open>The menu\<close>

text \<open>\<open>inited\<close> is a local computed when the check starts.\<close>

definition check_menu_toggle :: "loop_build \<Rightarrow> outside \<Rightarrow> bool \<Rightarrow> frame \<Rightarrow> frame" where
  "check_menu_toggle b e inited fr =
     (if \<not> have_menu (lb_base b) then fr
      else let pressed = (''RARCH_MENU_TOGGLE'' \<in> fr_bits fr \<and> \<not> ls_menu_driver_null (setting fr));
               dummy = (current_core_type (ses (fr_world fr)) = Core_type_dummy);
               finished = (\<lambda>fr. upd_world (do_menu_finished e) (call_out ''retroarch_menu_running_finished'' fr));
               running = (\<lambda>fr. upd_world (do_menu_running e) (call_out ''retroarch_menu_running'' fr));
               fr1 = (if pressed \<and> \<not> old_menu_toggle (fr_hot fr)
                      then if menu_alive (front fr)
                           then if inited \<and> \<not> dummy \<and> Core_running \<in> w_flags (fr_world fr)
                                then finished fr else fr
                           else running fr
                      else if dummy \<and> \<not> menu_alive (front fr) then running fr else fr)
           in upd_hot (\<lambda>h. h\<lparr>old_menu_toggle := pressed\<rparr>) fr1)"

definition update_animations :: "loop_build \<Rightarrow> outside \<Rightarrow> frame \<Rightarrow> frame" where
  "update_animations b e fr =
     (let widgets = have_gfx_widgets (lb_base b);
          fr1 = (if have_menu (lb_base b) \<or> widgets then call_out ''gfx_animation_update'' fr else fr)
      in if widgets \<and> widgets_active (ou_ext e) then call_out ''gfx_widgets_iterate'' fr1 else fr1)"

text \<open>When the action of the menu changed, and for how long it has been held.\<close>

definition time_menu_action :: "int \<Rightarrow> menu_action \<Rightarrow> menu_action \<Rightarrow> menu_st \<Rightarrow> menu_st" where
  "time_menu_action now action old m =
     (if action = old
      then if action = Action_noop then m\<lparr>mn_noop_press := now - mn_noop_start m\<rparr>
           else m\<lparr>mn_action_press := now - mn_action_start m\<rparr>
      else if action = Action_noop
      then m\<lparr>mn_noop_start := now, mn_noop_press := 0,
             mn_action_start := (if mn_prev_action m = old then mn_prev_start m else now)\<rparr>
      else if mn_prev_action m = action \<and> mn_noop_press m < 200000
      then m\<lparr>mn_action_start := mn_prev_start m, mn_action_press := now - mn_prev_start m\<rparr>
      else m\<lparr>mn_prev_start := now, mn_prev_action := action, mn_action_press := 0\<rparr>)"

definition check_screensaver :: "outside \<Rightarrow> frame \<Rightarrow> frame" where
  "check_screensaver e fr =
     (let m = w_menu (fr_world fr);
          timeout = ls_menu_screensaver_timeout (setting fr)
      in if 0 < timeout \<and> mn_saver_supported m \<and> \<not> mn_saver_active m
            \<and> int (unat timeout) * 1000000 < mn_current_time m - mn_input_last m
         then let fr1 = upd_menu (\<lambda>m. m\<lparr>mn_saver_active := True\<rparr>) fr
              in if ''environ_cb'' \<in> provided e then call_out ''environ_cb'' fr1 else fr1
         else fr)"

definition menu_step :: "outside \<Rightarrow> menu_action \<Rightarrow> frame \<Rightarrow> frame" where
  "menu_step e action fr =
     (if mn_pending_quick_menu (w_menu (fr_world fr))
      then let fr1 = (if ''list_cache'' \<in> provided e then call_out ''list_cache'' fr else fr)
           in upd_menu (\<lambda>m. m\<lparr>mn_selection := 0, mn_pending_quick_menu := False\<rparr>)
                (call_out ''generic_action_ok_displaylist_push'' (upd_menu (\<lambda>m. m\<lparr>mn_msg_force := True\<rparr>) fr1))
      else let (alive, w) = do_menu_iterate e action (fr_world fr);
               fr1 = call_out ''menu_driver_iterate'' (fr\<lparr>fr_world := w\<rparr>)
           in if alive then fr1
              else if error_on_init e then upd_world (do_dummy_core e) (call_out ''task_push_start_dummy_core'' fr1)
              else upd_world (do_menu_finished e) (call_out ''retroarch_menu_running_finished'' fr1))"

definition runloop_is_libretro_running :: "world \<Rightarrow> bool \<Rightarrow> bool" where
  "runloop_is_libretro_running w menu_pause \<longleftrightarrow>
     Is_inited \<in> w_flags w \<and> Paused \<notin> flags (fe (ses w)) \<and> \<not> menu_pause \<and> Core_running \<in> w_flags w"

text \<open>Result: whether the last frame is to be drawn again.\<close>

definition display_menu_libretro :: "loop_build \<Rightarrow> outside \<Rightarrow> bool \<Rightarrow> frame \<Rightarrow> bool \<times> frame" where
  "display_menu_libretro b e running fr =
     (let idle = (Idle \<in> w_flags (fr_world fr));
          fr1 = (if ''set_texture_enable'' \<in> provided e then call_out ''set_texture_enable'' fr else fr)
      in if running
         then let slow = slowmotion_ratio (ls_base (setting fr1));
                  fr2 = run_core b e (upd_world (\<lambda>w. w\<lparr>w_block_input := True\<rparr>) fr1)
              in (False, upd_world (\<lambda>w. w\<lparr>w_block_input := False\<rparr>) (on_fe (runtime_tick e slow) fr2))
         else (\<not> idle, fr1))"

definition draw_menu :: "loop_build \<Rightarrow> outside \<Rightarrow> bool \<Rightarrow> frame \<Rightarrow> frame" where
  "draw_menu b e running fr =
     (let m = w_menu (fr_world fr);
          fb = (Render_framebuffer \<in> mn_render m \<or> Render_messagebox \<in> mn_render m);
          fr1 = upd_menu (\<lambda>m. m\<lparr>mn_render := (if fb then insert Render_framebuffer (mn_render m) else mn_render m),
                                mn_fb_dirty := mn_fb_dirty m \<or> fb\<rparr>) fr;
          box = (Render_messagebox \<in> mn_render m \<and> mn_message m \<noteq> []);
          fr2 = (if box \<and> ''render_messagebox'' \<in> provided e then call_out ''render_messagebox'' fr1 else fr1);
          fr3 = (if box \<and> w_foreground_ui (fr_world fr2) \<and> ''ui_render_messagebox'' \<in> provided e
                 then call_out ''ui_render_messagebox'' fr2 else fr2);
          fr4 = (if Render_blit \<in> mn_render m \<and> ''render'' \<in> provided e then call_out ''render'' fr3 else fr3);
          fr5 = (if menu_alive (front fr4) \<and> Idle \<notin> w_flags (fr_world fr4)
                 then (case display_menu_libretro b e running fr4 of
                         (again, f) \<Rightarrow> if again then cached_frame f else f)
                 else fr4);
          fr6 = (if ''set_texture'' \<in> provided e then call_out ''set_texture'' fr5 else fr5)
      in upd_menu (\<lambda>m. m\<lparr>mn_render := {}\<rparr>) fr6)"

text \<open>
  The frame of an open menu; \<open>data\<close> is a local too.  Its \<open>focused\<close> shadows the outer
  one.
\<close>

definition menu_frame :: "loop_build \<Rightarrow> outside \<Rightarrow> bool \<Rightarrow> bool \<Rightarrow> bool \<Rightarrow> frame \<Rightarrow> flow" where
  "menu_frame b e nonactive menu_pause data fr =
     (let now = ou_current_time e;
          fr1 = poll (upd_menu (\<lambda>m. m\<lparr>mn_current_time := now\<rparr>) fr);
          (action, w) = do_menu_event e (fr_bits fr1) (fr_bits fr1 - old_input (fr_hot fr1)) (fr_world fr1);
          fr2 = fr1\<lparr>fr_world := w\<rparr>;
          focused = (if have_networking (lb_base b) \<and> \<not> allow_pause e then True
                     else (nonactive \<longrightarrow> video_focus e) \<and> \<not> w_foreground_ui (fr_world fr2));
          fr3 = upd_menu (time_menu_action now action (old_action (fr_hot fr2))) fr2;
          fr4 = menu_step e action (check_screensaver e fr3);
          running = runloop_is_libretro_running (fr_world fr4)
                      (menu_pause \<and> (have_networking (lb_base b) \<longrightarrow> allow_pause e));
          fr5 = (if focused \<or> Idle \<notin> w_flags (fr_world fr4)
                 then let f = (if data then draw_menu b e running fr4 else fr4)
                      in if ls_audio_enable_menu (setting f) \<and> \<not> running
                         then call_out ''audio_driver_menu_sample'' f else f
                 else fr4);
          fr6 = upd_hot (\<lambda>h. h\<lparr>old_input := fr_bits fr5, old_action := action\<rparr>) fr5
      in if \<not> focused \<or> Idle \<in> w_flags (fr_world fr6) then stop Loop_polled_and_sleep fr6 else go fr6)"

definition check_menu :: "loop_build \<Rightarrow> outside \<Rightarrow> bool \<Rightarrow> bool \<Rightarrow> bool \<Rightarrow> frame \<Rightarrow> flow" where
  "check_menu b e nonactive menu_pause data fr =
     (if have_menu (lb_base b) \<and> menu_alive (front fr) then menu_frame b e nonactive menu_pause data fr
      else if Idle \<in> w_flags (fr_world fr) then stop Loop_polled_and_sleep (poll fr) else go fr)"

end
