(* ===== verification/Speed_Keys.thy ===== *)
theory Speed_Keys
  imports Hotkeys
begin

text \<open>
  The later stages of \<open>runloop_check_state\<close>: fast motion, slow motion, the slots of states
  and replays, the remaining hotkeys and the shader timers.
\<close>

subsection \<open>Fast motion\<close>

definition apply_delayed_override :: "loop_build \<Rightarrow> outside \<Rightarrow> frame \<Rightarrow> frame" where
  "apply_delayed_override b e fr =
     (if ff_pending (front fr)
      then let st = ls_base (setting fr)
           in on_fe (\<lambda>f. (runloop_apply_fastmotion_override (lb_base b) (ou_ext e)
                             (frame_time_counter_reset_after_fastforwarding st)
                             (fastforward_ratio st) (audio_fastforward_mute st) f)
                           \<lparr>ff_pending := False\<rparr>) fr
      else fr)"

definition toggle_fastmotion :: "outside \<Rightarrow> frame \<Rightarrow> frame" where
  "toggle_fastmotion e fr =
     (let st = ls_base (setting fr);
          fr1 = (if is_nonblocking (inp (front fr))
                 then on_fe (\<lambda>f. (lower_flags {Fastmotion} (set_nonblocking False f))
                              \<lparr>fastforward_after_frames := 1\<rparr>) fr
                 else command e ''CMD_EVENT_SET_FRAME_LIMIT''
                        (on_fe (\<lambda>f. raise_flags {Fastmotion} (set_nonblocking True f)) fr));
          fast = (Fastmotion \<in> flags (front fr1))
      in on_fe (\<lambda>f. let g = emit [C_set_nonblock_state] (set_muted (audio_fastforward_mute st \<and> fast) f)
                    in if \<not> fast \<and> frame_time_counter_reset_after_fastforwarding st
                       then g\<lparr>vid := (vid g)\<lparr>vs_frame_time_count := 0\<rparr>\<rparr> else g) fr1)"

definition check_fastmotion :: "loop_build \<Rightarrow> outside \<Rightarrow> frame \<Rightarrow> frame" where
  "check_fastmotion b e fr =
     (if ff_inhibit_toggle (ff_current (front fr)) then fr
      else let new = (''RARCH_FAST_FORWARD_KEY'' \<in> fr_bits fr);
               hold = (''RARCH_FAST_FORWARD_HOLD_KEY'' \<in> fr_bits fr);
               check = (new \<and> \<not> old_ff (fr_hot fr) \<or> old_ff_hold (fr_hot fr) \<noteq> hold);
               denied = (check \<and> fr_paused fr);
               fr1 = (if denied then on_fe (set_nonblocking True) fr else fr);
               check2 = (check \<and> (have_networking (lb_base b) \<longrightarrow> allow_timeskip e));
               fr2 = (if check2 then toggle_fastmotion e fr1 else fr1)
           in upd_hot (\<lambda>h. h\<lparr>old_ff := new \<and> \<not> denied, old_ff_hold := hold \<and> \<not> denied\<rparr>) fr2)"

definition set_ff_widget :: "bool \<Rightarrow> frontend \<Rightarrow> frontend" where
  "set_ff_widget v f = f\<lparr>vid := (vid f)\<lparr>vs_widgets_fast_forward := v\<rparr>\<rparr>"

definition show_fastmotion :: "loop_build \<Rightarrow> outside \<Rightarrow> frame \<Rightarrow> frame" where
  "show_fastmotion b e fr =
     (let f = front fr;
          fast = (Fastmotion \<in> flags f \<and> ls_show_fast_forward (setting fr))
      in if \<not> ff_fastforward (ff_current f) \<or> ff_notification (ff_current f)
         then if have_gfx_widgets (lb_base b) \<and> widgets_active (ou_ext e)
              then on_fe (set_ff_widget fast) fr
              else if fast then push_message (msg_hash_to_str (ou_ext e) ''MSG_FAST_FORWARD'') 1 1 False fr
              else fr
         else if have_gfx_widgets (lb_base b) then on_fe (set_ff_widget False) fr else fr)"

subsection \<open>Slow motion\<close>

definition slowmotion_flag :: "bool \<Rightarrow> bool \<Rightarrow> statics \<Rightarrow> frontend \<Rightarrow> frontend" where
  "slowmotion_flag new hold h f =
     (if new \<and> \<not> old_slow h
      then if Slowmotion \<notin> flags f then raise_flags {Slowmotion} f else lower_flags {Slowmotion} f
      else if old_slow_hold h \<noteq> hold
      then if hold then raise_flags {Slowmotion} f else lower_flags {Slowmotion} f
      else f)"

definition show_slowmotion :: "loop_build \<Rightarrow> outside \<Rightarrow> frame \<Rightarrow> frame" where
  "show_slowmotion b e fr =
     (let fr1 = (if video_black_frame_insertion (ls_base (setting fr)) \<noteq> 0
                    \<and> Idle \<notin> w_flags (fr_world fr) then cached_frame fr else fr)
      in if have_gfx_widgets (lb_base b) \<and> widgets_active (ou_ext e) then fr1
         else push_message (msg_hash_to_str (ou_ext e)
                (if have_rewind (lb_base b) \<and> rewind_reversed (front fr1)
                 then ''MSG_SLOW_MOTION_REWIND'' else ''MSG_SLOW_MOTION'')) 1 1 False fr1)"

definition check_slowmotion :: "loop_build \<Rightarrow> outside \<Rightarrow> frame \<Rightarrow> frame" where
  "check_slowmotion b e fr =
     (if fr_hardcore fr then fr
      else let new = (''RARCH_SLOWMOTION_KEY'' \<in> fr_bits fr \<and> \<not> fr_paused fr);
               hold = (''RARCH_SLOWMOTION_HOLD_KEY'' \<in> fr_bits fr \<and> \<not> fr_paused fr);
               fr1 = on_fe (slowmotion_flag new hold (fr_hot fr)) fr;
               fr2 = (if have_networking (lb_base b) \<and> \<not> allow_timeskip e
                      then on_fe (lower_flags {Slowmotion}) fr1 else fr1);
               fr3 = (if Slowmotion \<in> flags (front fr2) then show_slowmotion b e fr2 else fr2)
           in upd_hot (\<lambda>h. h\<lparr>old_slow := new, old_slow_hold := hold\<rparr>) fr3)"

subsection \<open>Slots\<close>

text \<open>
  The slot after the keys went down, and the value the message speaks of: slots run from -1
  (automatic) to 999 and wrap around.
\<close>

definition slot_up :: "int \<Rightarrow> int" where
  "slot_up slot = (if 999 < slot + 1 then - 2 else slot) + 1"

definition slot_down :: "int \<Rightarrow> bool \<times> int" where
  "slot_down slot =
     (let wrap = (\<not> - 1 < slot \<and> slot - 1 < - 1)
      in (- 1 < slot \<or> wrap, (if wrap then 1000 else slot) - 1))"

definition slot_keys :: "bool \<Rightarrow> bool \<Rightarrow> int \<Rightarrow> (int \<times> int) option" where
  "slot_keys up down slot =
     (if up then Some (slot_up slot, slot_up slot)
      else if down
      then (case slot_down slot of (change, cur) \<Rightarrow> Some (if change then cur else slot, cur))
      else None)"

definition slot_message :: "outside \<Rightarrow> string \<Rightarrow> int \<Rightarrow> int \<Rightarrow> string" where
  "slot_message e label slot cur =
     strlcpy 128 (strlcpy 128 (strlcpy 128 (msg_hash_to_str (ou_ext e) label) @ '': '' @ show_int slot)
       @ (if cur < 0 then '' (Auto)'' else []))"

definition announce_slot :: "loop_build \<Rightarrow> outside \<Rightarrow> string \<Rightarrow> frame \<Rightarrow> frame" where
  "announce_slot b e msg =
     (if have_gfx_widgets (lb_base b) \<and> widgets_active (ou_ext e)
      then log_event (L_widget msg 1000) else push_message msg 2 60 True)"

definition check_state_slot :: "loop_build \<Rightarrow> outside \<Rightarrow> frame \<Rightarrow> frame" where
  "check_state_slot b e fr =
     (let inc = (''RARCH_STATE_SLOT_PLUS'' \<in> fr_bits fr);
          dec = (''RARCH_STATE_SLOT_MINUS'' \<in> fr_bits fr);
          h = fr_hot fr;
          fr1 = (case slot_keys (inc \<and> \<not> old_slot_inc h) (dec \<and> \<not> old_slot_dec h)
                        (ls_state_slot (setting fr)) of
                   None \<Rightarrow> fr
                 | Some (slot, cur) \<Rightarrow>
                     announce_slot b e (slot_message e ''MSG_STATE_SLOT'' slot cur)
                       (upd_world (\<lambda>w. w\<lparr>w_set := (w_set w)\<lparr>ls_state_slot := slot\<rparr>\<rparr>) fr))
      in upd_hot (\<lambda>h. h\<lparr>old_slot_inc := inc, old_slot_dec := dec\<rparr>) fr1)"

definition check_replay_slot :: "loop_build \<Rightarrow> outside \<Rightarrow> frame \<Rightarrow> frame" where
  "check_replay_slot b e fr =
     (let inc = (''RARCH_REPLAY_SLOT_PLUS'' \<in> fr_bits fr);
          dec = (''RARCH_REPLAY_SLOT_MINUS'' \<in> fr_bits fr);
          h = fr_hot fr;
          fr1 = (case slot_keys (inc \<and> \<not> old_replay_inc h) (dec \<and> \<not> old_replay_dec h)
                        (ls_replay_slot (setting fr)) of
                   None \<Rightarrow> fr
                 | Some (slot, cur) \<Rightarrow>
                     announce_slot b e (slot_message e ''MSG_REPLAY_SLOT'' slot cur)
                       (upd_world (\<lambda>w. w\<lparr>w_set := (w_set w)\<lparr>ls_replay_slot := slot\<rparr>\<rparr>) fr))
      in upd_hot (\<lambda>h. h\<lparr>old_replay_inc := inc, old_replay_dec := dec\<rparr>) fr1)"

subsection \<open>The remaining keys\<close>

definition state_hotkeys :: "(hotkey \<times> cmd) list" where
  "state_hotkeys =
     [(''RARCH_SAVE_STATE_KEY'', ''CMD_EVENT_SAVE_STATE''), (''RARCH_LOAD_STATE_KEY'', ''CMD_EVENT_LOAD_STATE''),
      (''RARCH_RESET'', ''CMD_EVENT_RESET''), (''RARCH_VRR_RUNLOOP_TOGGLE'', ''CMD_EVENT_VRR_RUNLOOP_TOGGLE''),
      (''RARCH_PLAY_REPLAY_KEY'', ''CMD_EVENT_PLAY_REPLAY''),
      (''RARCH_RECORD_REPLAY_KEY'', ''CMD_EVENT_RECORD_REPLAY''),
      (''RARCH_HALT_REPLAY_KEY'', ''CMD_EVENT_HALT_REPLAY'')]"

definition check_disk_cheat_keys :: "outside \<Rightarrow> frame \<Rightarrow> frame" where
  "check_disk_cheat_keys e fr =
     hotkey_check3 e (''RARCH_CHEAT_INDEX_PLUS'', ''CMD_EVENT_CHEAT_INDEX_PLUS'')
         (''RARCH_CHEAT_INDEX_MINUS'', ''CMD_EVENT_CHEAT_INDEX_MINUS'')
         (''RARCH_CHEAT_TOGGLE'', ''CMD_EVENT_CHEAT_TOGGLE'')
       (hotkey_check3 e (''RARCH_DISK_EJECT_TOGGLE'', ''CMD_EVENT_DISK_EJECT_TOGGLE'')
         (''RARCH_DISK_NEXT'', ''CMD_EVENT_DISK_NEXT'') (''RARCH_DISK_PREV'', ''CMD_EVENT_DISK_PREV'') fr)"

subsection \<open>Shaders\<close>

definition check_shader_keys :: "outside \<Rightarrow> frame \<Rightarrow> frame" where
  "check_shader_keys e fr =
     (let fr1 = hotkey_check3 e (''RARCH_SHADER_NEXT'', ''CMD_EVENT_SHADER_NEXT'')
                  (''RARCH_SHADER_PREV'', ''CMD_EVENT_SHADER_PREV'')
                  (''RARCH_SHADER_TOGGLE'', ''CMD_EVENT_SHADER_TOGGLE'') fr;
          hold = (''RARCH_SHADER_HOLD'' \<in> fr_bits fr1);
          fr2 = (if old_shader_hold (fr_hot fr1) \<noteq> hold then command e ''CMD_EVENT_SHADER_TOGGLE'' fr1 else fr1)
      in upd_hot (\<lambda>h. h\<lparr>old_shader_hold := hold\<rparr>) fr2)"

definition start_timer :: "int \<Rightarrow> int \<Rightarrow> timer \<Rightarrow> timer" where
  "start_timer now us t = t\<lparr>tm_timeout_us := us, tm_current := now, tm_timeout_end := now + us,
     tm_begin := True, tm_end := False\<rparr>"

definition tick_timer :: "int \<Rightarrow> timer \<Rightarrow> timer" where
  "tick_timer now t = t\<lparr>tm_current := now, tm_timeout_us := tm_timeout_end t - now\<rparr>"

definition expire_timer :: "timer \<Rightarrow> timer" where
  "expire_timer t = t\<lparr>tm_end := True, tm_begin := False, tm_timeout_end := 0\<rparr>"

text \<open>Shader files are re-applied half a second (\<open>SHADER_FILE_WATCH_DELAY_MSEC\<close>) after a change.\<close>

definition watch_shaders :: "outside \<Rightarrow> frame \<Rightarrow> frame" where
  "watch_shaders e fr =
     (if \<not> ls_shader_watch_files (setting fr) then fr
      else let t = watch_timer (fr_hot fr);
               t1 = (if shaders_changed e \<and> \<not> tm_begin t then start_timer (ou_later_time e) (500 * 1000) t else t);
               apply_now = (watch_apply (fr_hot fr) \<or> shaders_changed e);
               t2 = (if apply_now then tick_timer (ou_current_time e) t1 else t1);
               due = (apply_now \<and> \<not> tm_end t2 \<and> tm_timeout_us t2 \<le> 0);
               fr1 = upd_hot (\<lambda>h. h\<lparr>watch_timer := if due then expire_timer t2 else t2,
                                    watch_apply := apply_now \<and> \<not> due\<rparr>) fr
           in if due then command e ''CMD_EVENT_SHADERS_APPLY_CHANGES'' fr1 else fr1)"

definition delay_shader :: "outside \<Rightarrow> frame \<Rightarrow> frame" where
  "delay_shader e fr =
     (let t = w_shader_timer (fr_world fr);
          delay = ls_shader_delay (setting fr);
          put = (\<lambda>t. upd_world (\<lambda>w. w\<lparr>w_shader_timer := t\<rparr>) fr)
      in if delay = 0 \<or> tm_end t then fr
         else if \<not> tm_begin t then put (start_timer (ou_later_time e) (int (unat (delay * 1000))) t)
         else let t1 = tick_timer (ou_current_time e) t
              in if tm_timeout_us t1 \<le> 0
                 then call_out ''video_shader_apply_shader'' (put (expire_timer t1)) else put t1)"

definition check_shaders :: "loop_build \<Rightarrow> outside \<Rightarrow> frame \<Rightarrow> frame" where
  "check_shaders b e fr =
     (if have_shaders b then delay_shader e (watch_shaders e (check_shader_keys e fr)) else fr)"

end
