(* ===== verification/Frame_Loop.thy ===== *)
theory Frame_Loop
  imports Loop_Entry Speed_Keys
begin

text \<open>
  The frame loop: \<open>runloop_check_state\<close> as the composition of its stages, \<open>runloop_iterate\<close>
  around it, with the callbacks about frame time and sound, the frame of the core and the frame
  limiter, and \<open>runloop_pause_checks\<close>.
\<close>

subsection \<open>The check of the state\<close>

text \<open>The stages before the menu; the arguments are the locals computed first.\<close>

definition check_before_menu :: "loop_build \<Rightarrow> outside \<Rightarrow> bool \<Rightarrow> bool \<Rightarrow> frame \<Rightarrow> flow" where
  "check_before_menu b e menu_pause binding fr =
     (let fr1 = check_translate_overlay b e fr
      in if have_libnx (lb_base b) \<and> \<not> applet_running e then stop Loop_quit fr1
         else check_quit b e
                (check_aspect_ratio e
                  (check_overlay b e
                    (check_focus e
                      (hotkey_checks e window_hotkeys
                        (window_events b e binding
                          (flush_input b e menu_pause (collect_input b e fr1))))))))"

definition check_any_time :: "loop_build \<Rightarrow> outside \<Rightarrow> frame \<Rightarrow> frame" where
  "check_any_time b e fr =
     (let fr1 = check_mute_screenshot b e (check_volume e (hotkey_checks e first_hotkeys fr))
      in fr1\<lparr>fr_hardcore := have_cheevos (lb_base b) \<and> hardcore_active e\<rparr>)"

definition check_running :: "loop_build \<Rightarrow> outside \<Rightarrow> frame \<Rightarrow> frame" where
  "check_running b e fr =
     (let fr1 = show_fastmotion b e (check_fastmotion b e (apply_delayed_override b e fr));
          fr2 = check_replay_slot b e (check_state_slot b e (check_slowmotion b e fr1));
          fr3 = check_disk_cheat_keys e (hotkey_checks e state_hotkeys fr2)
      in check_shaders b e fr3)"

definition check_end :: "loop_build \<Rightarrow> bool \<Rightarrow> frame \<Rightarrow> flow" where
  "check_end b menu_was_alive fr =
     (if fr_paused fr then stop Loop_pause (poll fr)
      else if have_menu (lb_base b) \<and> menu_was_alive then stop Loop_menu fr
      else stop Loop_iterate fr)"

definition runloop_check_state :: "loop_build \<Rightarrow> outside \<Rightarrow> world \<Rightarrow> statics \<Rightarrow> flow" where
  "runloop_check_state b e w h =
     (let fr = frame_start w h;
          nonactive = ls_pause_nonactive (w_set w);
          menu_pause = menu_pause_libretro (ls_base (w_set w));
          alive = menu_alive (fe (ses w))
      in and_then (check_before_menu b e menu_pause (mn_binding (w_menu w)) fr) (\<lambda>fr.
         and_then (check_menu b e nonactive menu_pause (mn_driver_data (w_menu w))
                     (update_animations b e (check_menu_toggle b e (Is_inited \<in> w_flags w) fr))) (\<lambda>fr.
         and_then (check_rewind b e menu_pause (check_any_time b e fr)) (\<lambda>fr.
         and_then (check_menu_pause b e fr) (\<lambda>fr.
         and_then (check_sleep (copy_pad_state b (hotkey_checks e (running_hotkeys b)
                     (check_pause b e nonactive fr)))) (\<lambda>fr.
         check_end b alive (check_running b e fr)))))))"

subsection \<open>Callbacks about time and sound\<close>

text \<open>
  The time since the last frame as the core sees it, and what is remembered for the next:
  \<open>locked\<close> says that the frame rate is not real time.
\<close>

definition frame_delta :: "bool \<Rightarrow> int \<Rightarrow> frontend \<Rightarrow> rat \<Rightarrow> int \<Rightarrow> int \<times> int" where
  "frame_delta locked prev f slow current =
     (let delta = (if prev = 0 \<or> locked then ft_reference (frame_time f) else current - prev)
      in if locked then (delta, 0)
         else (if Slowmotion \<in> flags f then Timing.truncate (rat_of_int delta / slow) else delta, current))"

definition update_frame_time :: "outside \<Rightarrow> bool \<Rightarrow> frame \<Rightarrow> frame" where
  "update_frame_time e core_paused fr =
     (if ft_callback (frame_time (front fr)) = None then fr
      else let f = front fr;
               locked = (Paused \<in> flags f \<or> is_nonblocking (inp f) \<or> rec_data (ou_ext e));
               (delta, now) = frame_delta locked (frame_time_last (ses (fr_world fr))) f
                                (slowmotion_ratio (ls_base (setting fr))) (ou_current_time e);
               fr1 = upd_world (\<lambda>w. w\<lparr>ses := (ses w)\<lparr>frame_time_last := now\<rparr>\<rparr>) fr
           in if core_paused then fr1 else log_event (L_frame_time delta) fr1)"

text \<open>How full the sound buffer is, in percent.\<close>

definition buffer_occupancy :: "size_t \<Rightarrow> size_t \<Rightarrow> u32" where
  "buffer_occupancy avail bytes =
     (let avail1 = (if bytes < avail then bytes else avail)
      in ucast (100 - (avail1 * 100) div bytes))"

definition buffer_status :: "frontend \<Rightarrow> audio_out \<Rightarrow> bool \<times> u32 \<times> bool" where
  "buffer_status f a =
     (case ao_write_avail a of
        None \<Rightarrow> (False, 0, False)
      | Some avail \<Rightarrow>
          if \<not> (Paused \<in> flags f \<or> \<not> as_active (aud f) \<or> \<not> ao_samples_buf a)
             \<and> ao_context a \<and> ao_buffer_size a \<noteq> 0
          then let n = buffer_occupancy avail (ao_buffer_size a) in (True, n, n < 25)
          else (False, 0, False))"

definition update_audio_status :: "bool \<Rightarrow> frame \<Rightarrow> frame" where
  "update_audio_status core_paused fr =
     (if audio_buffer_callback (front fr) = None \<or> core_paused then fr
      else case buffer_status (front fr) (w_audio (fr_world fr)) of
             (active, n, underrun) \<Rightarrow> log_event (L_audio_status active n underrun) fr)"

subsection \<open>The frame of the core\<close>

definition runahead_wanted :: "loop_build \<Rightarrow> outside \<Rightarrow> settings \<Rightarrow> frontend \<Rightarrow> bool" where
  "runahead_wanted b e st f \<longleftrightarrow>
     run_ahead_enabled st \<and> 0 < run_ahead_frames st \<and> Runahead_available \<in> flags f
     \<and> \<not> (have_networking (lb_base b) \<and> netplay_enabled (ou_ext e))"

definition run_frame :: "loop_build \<Rightarrow> outside \<Rightarrow> frame \<Rightarrow> frame" where
  "run_frame b e fr =
     (let st = ls_base (setting fr)
      in if have_runahead (lb_base b) \<and> runahead_wanted b e st (front fr)
         then upd_world (do_runahead e (run_ahead_frames st))
                (log_event (L_runahead (run_ahead_frames st) (ls_runahead_hide_warnings (setting fr))
                   (run_ahead_secondary_instance st)) fr)
         else case w_preempt (fr_world fr) of
                Some p \<Rightarrow> if have_runahead (lb_base b)
                          then upd_world (do_preempt e p) (call_out ''preempt_run'' fr) else run_core b e fr
              | None \<Rightarrow> run_core b e fr)"

definition before_core :: "loop_build \<Rightarrow> outside \<Rightarrow> frame \<Rightarrow> frame" where
  "before_core b e fr =
     (let fr1 = (if have_threads (lb_base b) \<and> Autosave \<in> w_flags (fr_world fr)
                 then call_out ''autosave_lock'' fr else fr);
          fr2 = (if have_bsv_movie b then call_out ''bsv_movie_next_frame'' fr1 else fr1);
          fr3 = (if ls_camera_allow (setting fr2) \<and> w_camera_ready (fr_world fr2)
                 then call_out ''camera_driver_poll'' fr2 else fr2)
      in upd_world (\<lambda>w. w\<lparr>w_core_run_time := ou_core_time e\<rparr>) fr3)"

text \<open>The end of a movie pauses the game; the test is there twice.\<close>

definition end_of_movie :: "outside \<Rightarrow> frame \<Rightarrow> frame" where
  "end_of_movie e fr =
     (if w_movie_end (fr_world fr)
      then command e ''CMD_EVENT_PAUSE'' (upd_world (do_movie_stop e) (call_out ''movie_stop_playback'' fr))
      else fr)"

definition after_core :: "loop_build \<Rightarrow> outside \<Rightarrow> rat \<Rightarrow> bool \<Rightarrow> frame \<Rightarrow> frame" where
  "after_core b e slow cheevos fr =
     (let fr1 = on_fe (runtime_tick e slow) fr;
          fr2 = (if have_cheevos (lb_base b) \<and> cheevos then call_out ''rcheevos_test'' fr1 else fr1);
          fr3 = (if have_cheats (lb_base b) then call_out ''cheat_manager_apply_retro_cheats'' fr2 else fr2);
          fr4 = (if have_bsv_movie b
                 then end_of_movie e (end_of_movie e (call_out ''bsv_movie_finish_rewind'' fr3)) else fr3)
      in if have_threads (lb_base b) \<and> Autosave \<in> w_flags (fr_world fr4)
         then call_out ''autosave_unlock'' fr4 else fr4)"

subsection \<open>The end of a frame\<close>

definition set_audio_nonblock :: "bool \<Rightarrow> size_t \<Rightarrow> world \<Rightarrow> world" where
  "set_audio_nonblock v chunk w =
     w\<lparr>w_audio := (w_audio w)\<lparr>ao_chunk_size := chunk,
         ao_nonblock := (if as_active (aud (fe (ses w))) \<and> ao_context (w_audio w) then v
                         else ao_nonblock (w_audio w))\<rparr>\<rparr>"

text \<open>
  After fast forward the sound is left non-blocking for a few frames.  \<open>sync\<close> is the local
  copy of the setting.
\<close>

definition audio_ramp :: "bool \<Rightarrow> world \<Rightarrow> world" where
  "audio_ramp sync w =
     (if fastforward_after_frames (fe (ses w)) \<noteq> 0 \<and> sync
      then let w1 = (if fastforward_after_frames (fe (ses w)) = 1
                     then set_audio_nonblock True (ao_chunk_nonblock (w_audio w)) w else w);
               w2 = world_fe (\<lambda>f. f\<lparr>fastforward_after_frames := fastforward_after_frames f + 1\<rparr>) w1
           in if fastforward_after_frames (fe (ses w2)) = 6
              then world_fe (\<lambda>f. f\<lparr>fastforward_after_frames := 0\<rparr>)
                     (set_audio_nonblock (\<not> sync) (ao_chunk_block (w_audio w2)) w2)
              else w2
      else w)"

definition vrr_frame_limit :: "outside \<Rightarrow> world \<Rightarrow> world" where
  "vrr_frame_limit e w =
     world_fe (\<lambda>f. runloop_set_frame_limit (vs_av (vid f))
        (if Fastmotion \<in> flags f
         then runloop_get_fastforward_ratio (ou_ext e) (ls_base (w_set w)) (ff_current f) else 1) f) w"

definition limiter_active :: "loop_build \<Rightarrow> bool \<Rightarrow> world \<Rightarrow> bool" where
  "limiter_active b vrr w \<longleftrightarrow>
     (let f = fe (ses w)
      in frame_limit_minimum_time f \<noteq> 0
         \<and> (vrr \<or> Fastmotion \<in> flags f
            \<or> have_menu (lb_base b) \<and> menu_alive f \<and> \<not> video_vsync (ls_base (w_set w))
            \<or> Paused \<in> flags f))"

text \<open>Division of C integers rounds towards zero.\<close>

definition c_div :: "int \<Rightarrow> int \<Rightarrow> int" where
  "c_div a b = (if (0 \<le> a) = (0 \<le> b) then \<bar>a\<bar> div \<bar>b\<bar> else - (\<bar>a\<bar> div \<bar>b\<bar>))"

definition to_sleep :: "int \<Rightarrow> world \<Rightarrow> int" where
  "to_sleep now w = c_div (w_limit_last w + frame_limit_minimum_time (fe (ses w)) - now) 1000"

text \<open>What follows when the limiter does not sleep.\<close>

definition count_frames :: "loop_build \<Rightarrow> frame \<Rightarrow> frame" where
  "count_frames b fr =
     (let fr1 = (if \<not> is_nonblocking (inp (front fr)) \<or> Fastmotion \<in> flags (front fr)
                 then call_out ''video_frame_delay'' fr else fr);
          n = w_run_frames (fr_world fr1)
      in if 0 < n
         then let fr2 = upd_world (\<lambda>w. w\<lparr>w_run_frames := n - 1\<rparr>) fr1
              in if n - 1 = 0 then on_fe (raise_flags {Paused}) fr2 else fr2
         else fr1)"

definition paced_world :: "outside \<Rightarrow> bool \<Rightarrow> bool \<Rightarrow> world \<Rightarrow> world" where
  "paced_world e vrr sync w = (if vrr then vrr_frame_limit e (audio_ramp sync w) else w)"

definition end_frame :: "loop_build \<Rightarrow> outside \<Rightarrow> bool \<Rightarrow> bool \<Rightarrow> frame \<Rightarrow> int \<times> frame" where
  "end_frame b e vrr sync fr =
     (let w = paced_world e vrr sync (fr_world fr);
          ms = to_sleep (ou_end_time e) w
      in if limiter_active b vrr w
         then if 0 < ms
              then let fr1 = fr\<lparr>fr_world := w\<lparr>w_limit_last := w_limit_last w + frame_limit_minimum_time (fe (ses w))\<rparr>\<rparr>
                   in (1, if have_cocoatouch (lb_base b) \<and> w_foreground_ui w then fr1
                          else log_event (L_sleep ms) fr1)
              else (0, count_frames b (fr\<lparr>fr_world := w\<lparr>w_limit_last := ou_end_time e\<rparr>\<rparr>))
         else (0, count_frames b (fr\<lparr>fr_world := w\<rparr>)))"

subsection \<open>One iteration\<close>

definition netplay_pause :: "loop_build \<Rightarrow> frame \<Rightarrow> frame" where
  "netplay_pause b fr = (if have_networking (lb_base b) then call_out ''netplay_pause'' fr else fr)"

definition polled_and_sleep :: "loop_build \<Rightarrow> frame \<Rightarrow> int \<times> frame" where
  "polled_and_sleep b fr =
     (let fr1 = netplay_pause b fr
      in (1, if have_cocoatouch (lb_base b) \<and> w_foreground_ui (fr_world fr1) then fr1
             else log_event (L_sleep 10) fr1))"

definition refresh_limit :: "world \<Rightarrow> int" where
  "refresh_limit w =
     round_half_away (1000000 / (if w_refresh_original w \<noteq> 0 then w_refresh_original w
                                 else video_refresh_rate (ls_base (w_set w))))"

text \<open>The frame of an open menu: \<open>None\<close> when it returns at once.\<close>

definition menu_result :: "loop_build \<Rightarrow> outside \<Rightarrow> bool \<Rightarrow> bool \<Rightarrow> bool \<Rightarrow> frame \<Rightarrow> bool \<times> frame" where
  "menu_result b e vrr menu_pause cheevos fr =
     (let fr1 = (if have_menu (lb_base b) \<and> have_networking (lb_base b) \<and> menu_pause \<and> netplay_enabled (ou_ext e)
                 then call_out ''netplay_pause'' fr else fr);
          fr2 = (if have_cheevos (lb_base b) \<and> cheevos
                 then call_out (if runloop_is_libretro_running (fr_world fr1) menu_pause
                                then ''rcheevos_test'' else ''rcheevos_idle'') fr1 else fr1)
      in if \<not> have_menu (lb_base b) then (True, fr2)
         else if vrr \<and> \<not> ls_menu_throttle_framerate (setting fr2) then (False, fr2)
         else if video_vsync (ls_base (setting fr2)) then (True, fr2)
         else (True, upd_world (\<lambda>w. world_fe (\<lambda>f.
                if menu_alive f then f\<lparr>frame_limit_minimum_time := refresh_limit w\<rparr>
                else runloop_set_frame_limit (vs_av (vid f)) (fastforward_ratio (ls_base (w_set w))) f) w) fr2))"

text \<open>The frame that goes through the core.\<close>

definition iterate_frame :: "loop_build \<Rightarrow> outside \<Rightarrow> rat \<Rightarrow> bool \<Rightarrow> frame \<Rightarrow> frame" where
  "iterate_frame b e slow cheevos fr =
     after_core b e slow cheevos
       (run_frame b e (before_core b e (upd_world (\<lambda>w. w\<lparr>w_flags := insert Core_running (w_flags w)\<rparr>) fr)))"

definition act_on_result ::
    "loop_build \<Rightarrow> outside \<Rightarrow> loop_settings \<Rightarrow> bool \<Rightarrow> runloop_state_enum \<Rightarrow> frame \<Rightarrow> int \<times> frame" where
  "act_on_result b e st menu_pause r fr =
     (let vrr = vrr_runloop_enable (ls_base st); sync = ls_audio_sync st
      in case r of
           Loop_quit \<Rightarrow>
             (- 1, command e ''CMD_EVENT_QUIT''
                (upd_world (\<lambda>w. w\<lparr>w_limit_last := 0, w_flags := w_flags w - {Core_running}\<rparr>) fr))
         | Loop_polled_and_sleep \<Rightarrow> polled_and_sleep b fr
         | Loop_pause \<Rightarrow> end_frame b e vrr sync (cached_frame (netplay_pause b fr))
         | Loop_menu \<Rightarrow>
             (case menu_result b e vrr menu_pause (ls_cheevos_enable st) fr of
                (True, fr1) \<Rightarrow> end_frame b e vrr sync fr1
              | (False, fr1) \<Rightarrow> (0, fr1))
         | Loop_iterate \<Rightarrow>
             end_frame b e vrr sync
               (iterate_frame b e (slowmotion_ratio (ls_base st)) (ls_cheevos_enable st) fr))"

definition may_pause_for_menu :: "loop_build \<Rightarrow> outside \<Rightarrow> world \<Rightarrow> bool" where
  "may_pause_for_menu b e w \<longleftrightarrow>
     menu_pause_libretro (ls_base (w_set w)) \<and> (have_networking (lb_base b) \<longrightarrow> allow_pause e)"

definition call_core_clocks :: "loop_build \<Rightarrow> outside \<Rightarrow> world \<Rightarrow> statics \<Rightarrow> frame" where
  "call_core_clocks b e w h =
     (let f = fe (ses w);
          core_paused = (Paused \<in> flags f
                         \<or> have_menu (lb_base b) \<and> may_pause_for_menu b e w \<and> menu_alive f)
      in update_audio_status core_paused (update_frame_time e core_paused (frame_start w h)))"

definition runloop_iterate :: "loop_build \<Rightarrow> outside \<Rightarrow> world \<Rightarrow> statics \<Rightarrow> int \<times> frame" where
  "runloop_iterate b e w h =
     (let fr = call_core_clocks b e w h
      in case runloop_check_state b e (fr_world fr) h of
           (r, fr1) \<Rightarrow> act_on_result b e (w_set w) (may_pause_for_menu b e w) (the r)
                         (fr1\<lparr>fr_log := fr_log fr @ fr_log fr1\<rparr>))"

subsection \<open>Entering and leaving the pause\<close>

definition runloop_pause_checks :: "loop_build \<Rightarrow> outside \<Rightarrow> frame \<Rightarrow> frame" where
  "runloop_pause_checks b e fr =
     (let paused = (Paused \<in> flags (front fr));
          gfx = have_gfx_widgets (lb_base b);
          fr1 = (if gfx \<and> widgets_active (ou_ext e)
                 then upd_world (\<lambda>w. w\<lparr>w_widgets_paused := paused\<rparr>) fr else fr);
          fr2 = (if paused
                 then let f1 = (if gfx \<and> widgets_active (ou_ext e) then fr1
                                else push_message (msg_hash_to_str (ou_ext e) ''MSG_PAUSED'') 1 1 True fr1);
                          f2 = (if Idle \<in> w_flags (fr_world f1) then f1 else cached_frame f1);
                          f3 = call_out ''midi_driver_set_all_sounds_off'' f2
                      in upd_world (\<lambda>w. world_fe (\<lambda>f. f\<lparr>frame_limit_minimum_time := refresh_limit w\<rparr>) w) f3
                 else upd_world (\<lambda>w. world_fe (\<lambda>f. runloop_set_frame_limit (vs_av (vid f))
                        (fastforward_ratio (ls_base (w_set w))) f) w) fr1);
          fr3 = (if have_translate b \<and> gfx \<and> w_ai_overlay_state (fr_world fr2) = 1
                 then call_out ''gfx_widgets_ai_service_overlay_unload'' fr2 else fr2)
      in upd_world (\<lambda>w. world_fe (\<lambda>f. f\<lparr>vid := (vid f)\<lparr>vs_frame_delay_pause := True\<rparr>\<rparr>)
           (w\<lparr>w_run_frames := - 1\<rparr>)) fr3)"

end
