(* ===== verification/Loop_Facts.thy ===== *)
theory Loop_Facts
  imports Frame_Loop External
begin

text \<open>
  Which parts of a frame the stages leave alone, and the facts about single stages on which the
  properties of the frame loop rest.
\<close>

named_theorems loop_step \<open>the steps shared by the stages, unfolded\<close>

lemmas [loop_step] = on_fe_def world_fe_def upd_fe_def log_event_def call_out_def command_def
  push_message_def poll_def cached_frame_def upd_menu_def

text \<open>The locals and the statics change only where a stage assigns them.\<close>

lemma step_locals [simp]:
  "fr_bits (command e c fr) = fr_bits fr" "fr_hot (command e c fr) = fr_hot fr"
  "fr_focused (command e c fr) = fr_focused fr" "fr_paused (command e c fr) = fr_paused fr"
  "fr_hardcore (command e c fr) = fr_hardcore fr" "fr_log (command e c fr) = fr_log fr @ [L_command c]"
  "fr_world (command e c fr) = do_command e c (fr_world fr)"
  "fr_bits (on_fe f fr) = fr_bits fr" "fr_hot (on_fe f fr) = fr_hot fr"
  "fr_focused (on_fe f fr) = fr_focused fr" "fr_paused (on_fe f fr) = fr_paused fr"
  "fr_hardcore (on_fe f fr) = fr_hardcore fr" "fr_log (on_fe f fr) = fr_log fr"
  "fr_world (on_fe f fr) = world_fe f (fr_world fr)"
  "fr_bits (log_event ev fr) = fr_bits fr" "fr_hot (log_event ev fr) = fr_hot fr"
  "fr_focused (log_event ev fr) = fr_focused fr" "fr_paused (log_event ev fr) = fr_paused fr"
  "fr_hardcore (log_event ev fr) = fr_hardcore fr" "fr_log (log_event ev fr) = fr_log fr @ [ev]"
  "fr_world (log_event ev fr) = fr_world fr"
  by (simp_all add: command_def on_fe_def log_event_def)

lemma world_fe_simps [simp]:
  "fe (ses (world_fe f w)) = f (fe (ses w))" "w_set (world_fe f w) = w_set w"
  "w_flags (world_fe f w) = w_flags w" "w_run_frames (world_fe f w) = w_run_frames w"
  "w_limit_last (world_fe f w) = w_limit_last w" "w_audio (world_fe f w) = w_audio w"
  by (simp_all add: world_fe_def)

subsection \<open>Rising edges\<close>

lemma hotkey_check_parts [simp]:
  "fr_bits (hotkey_check e k c fr) = fr_bits fr"
  "fr_paused (hotkey_check e k c fr) = fr_paused fr"
  "fr_focused (hotkey_check e k c fr) = fr_focused fr"
  "fr_hardcore (hotkey_check e k c fr) = fr_hardcore fr"
  "held (fr_hot (hotkey_check e k c fr)) = remember k (k \<in> fr_bits fr) (held (fr_hot fr))"
  "fr_log (hotkey_check e k c fr)
     = fr_log fr @ (if k \<in> fr_bits fr \<and> k \<notin> held (fr_hot fr) then [L_command c] else [])"
  by (simp_all add: hotkey_check_def Let_def)

lemma hotkey_checks_parts [simp]:
  "fr_bits (hotkey_checks e ks fr) = fr_bits fr"
  "fr_paused (hotkey_checks e ks fr) = fr_paused fr"
  "fr_focused (hotkey_checks e ks fr) = fr_focused fr"
  "fr_hardcore (hotkey_checks e ks fr) = fr_hardcore fr"
  by (induction e ks fr rule: hotkey_checks.induct) simp_all

lemma remember_mem [simp]: "j \<in> remember k p H \<longleftrightarrow> (if j = k then p else j \<in> H)"
  by (auto simp: remember_def)

lemma hotkey_checks_held:
  "j \<in> held (fr_hot (hotkey_checks e ks fr))
     \<longleftrightarrow> (if j \<in> fst ` set ks then j \<in> fr_bits fr else j \<in> held (fr_hot fr))"
  by (induction e ks fr rule: hotkey_checks.induct) auto

lemma hotkey_checks_log:
  assumes "distinct (map fst ks)"
  shows "fr_log (hotkey_checks e ks fr) = fr_log fr @ map (\<lambda>(k, c). L_command c)
    (filter (\<lambda>(k, c). k \<in> fr_bits fr \<and> k \<notin> held (fr_hot fr)) ks)"
  using assms
proof (induction e ks fr rule: hotkey_checks.induct)
  case (2 e k c ks fr)
  have "filter (\<lambda>(j, c). j \<in> fr_bits fr \<and> \<not> (if j = k then k \<in> fr_bits fr else j \<in> held (fr_hot fr))) ks
      = filter (\<lambda>(j, c). j \<in> fr_bits fr \<and> j \<notin> held (fr_hot fr)) ks"
    using 2(2) by (intro filter_cong) (auto simp: image_iff)
  with 2 show ?case by auto
qed simp

lemma length_filter_unique:
  assumes "distinct xs" "x \<in> set xs" "\<And>y. y \<in> set xs \<Longrightarrow> Q y \<Longrightarrow> y = x"
  shows "length (filter Q xs) = (if Q x then 1 else 0)"
proof -
  have "set (filter Q xs) = (if Q x then {x} else {})"
    using assms(2) by (auto dest: assms(3))
  then have "card (set (filter Q xs)) = (if Q x then 1 else 0)" by simp
  then show ?thesis by (simp only: distinct_card [OF distinct_filter [OF assms(1)]])
qed

lemma count_commands:
  assumes k: "distinct (map fst ks)" and c: "distinct (map snd ks)" and m: "(k, c) \<in> set ks"
  shows "length (filter (\<lambda>ev. ev = L_command c) (map (\<lambda>(k, c). L_command c) (filter (\<lambda>(k, c). P k) ks)))
    = (if P k then 1 else 0)"
proof -
  let ?q = "\<lambda>x. P (fst x) \<and> snd x = c"
  have "map (\<lambda>(k, c). L_command c) = map (\<lambda>x. L_command (snd x))" by (simp add: split_def)
  then have "length (filter (\<lambda>ev. ev = L_command c) (map (\<lambda>(k, c). L_command c) (filter (\<lambda>(k, c). P k) ks)))
      = length (filter ?q ks)"
    by (simp only: filter_map length_map filter_filter comp_def split_def loop_event.inject)
  also have "\<dots> = (if ?q (k, c) then 1 else 0)"
  proof (rule length_filter_unique)
    show "distinct ks" using k by (simp add: distinct_map)
    fix y assume "y \<in> set ks" "?q y"
    with c m show "y = (k, c)" unfolding distinct_map by (metis inj_onD snd_conv)
  qed (rule m)
  finally show ?thesis by simp
qed

text \<open>The frames in which a table of keys is checked, and the number of times a key goes down.\<close>

fun key_run :: "(hotkey \<times> cmd) list \<Rightarrow> (outside \<times> world \<times> hotkey set) list \<Rightarrow> statics \<Rightarrow> loop_event list" where
  "key_run ks [] h = []"
| "key_run ks ((e, w, bits) # fs) h =
     (let fr = hotkey_checks e ks ((frame_start w h)\<lparr>fr_bits := bits\<rparr>) in fr_log fr @ key_run ks fs (fr_hot fr))"

fun rising :: "bool \<Rightarrow> bool list \<Rightarrow> nat" where
  "rising p [] = 0"
| "rising p (q # qs) = (if q \<and> \<not> p then 1 else 0) + rising q qs"

lemma frame_start_parts [simp]:
  "fr_world (frame_start w h) = w" "fr_hot (frame_start w h) = h" "fr_focused (frame_start w h)"
  "fr_log (frame_start w h) = []" "\<not> fr_hardcore (frame_start w h)"
  "fr_paused (frame_start w h) \<longleftrightarrow> Paused \<in> flags (fe (ses w))"
  by (simp_all add: frame_start_def)

lemma key_run_rising:
  assumes "distinct (map fst ks)" "distinct (map snd ks)" "(k, c) \<in> set ks"
  shows "length (filter (\<lambda>ev. ev = L_command c) (key_run ks fs h))
    = rising (k \<in> held h) (map (\<lambda>(e, w, bits). k \<in> bits) fs)"
proof (induction fs arbitrary: h)
  case (Cons f fs)
  obtain e w bits where f: "f = (e, w, bits)" by (cases f) auto
  let ?fr = "hotkey_checks e ks ((frame_start w h)\<lparr>fr_bits := bits\<rparr>)"
  have "k \<in> fst ` set ks" using assms(3) by force
  then have "k \<in> held (fr_hot ?fr) \<longleftrightarrow> k \<in> bits"
    by (simp add: hotkey_checks_held)
  moreover have "length (filter (\<lambda>ev. ev = L_command c) (fr_log ?fr)) = (if k \<in> bits \<and> k \<notin> held h then 1 else 0)"
    using count_commands [OF assms, of "\<lambda>k. k \<in> bits \<and> k \<notin> held h"]
    by (simp add: hotkey_checks_log [OF assms(1)])
  ultimately show ?case
    by (simp add: f Let_def Cons)
qed simp

subsection \<open>Slots\<close>

lemma slot_inverse:
  assumes "- 1 \<le> s" "s \<le> 999"
  shows "slot_down (slot_up s) = (True, s)" "slot_down s = (True, snd (slot_down s))"
    "slot_up (snd (slot_down s)) = s"
    "- 1 \<le> slot_up s" "slot_up s \<le> 999" "- 1 \<le> snd (slot_down s)" "snd (slot_down s) \<le> 999" "slot_up s \<noteq> s"
  using assms by (auto simp: slot_up_def slot_down_def Let_def)

lemma announce_slot_parts [simp]:
  "fr_world (announce_slot b e msg fr) = fr_world fr" "fr_hot (announce_slot b e msg fr) = fr_hot fr"
  "fr_bits (announce_slot b e msg fr) = fr_bits fr" "fr_paused (announce_slot b e msg fr) = fr_paused fr"
  by (simp_all add: announce_slot_def push_message_def)

lemma check_state_slot_effect:
  "ls_state_slot (setting (check_state_slot b e fr)) =
     (case slot_keys (''RARCH_STATE_SLOT_PLUS'' \<in> fr_bits fr \<and> \<not> old_slot_inc (fr_hot fr))
        (''RARCH_STATE_SLOT_MINUS'' \<in> fr_bits fr \<and> \<not> old_slot_dec (fr_hot fr)) (ls_state_slot (setting fr)) of
        None \<Rightarrow> ls_state_slot (setting fr) | Some (slot, cur) \<Rightarrow> slot)"
  "old_slot_inc (fr_hot (check_state_slot b e fr)) \<longleftrightarrow> ''RARCH_STATE_SLOT_PLUS'' \<in> fr_bits fr"
  "old_slot_dec (fr_hot (check_state_slot b e fr)) \<longleftrightarrow> ''RARCH_STATE_SLOT_MINUS'' \<in> fr_bits fr"
  "fr_paused (check_state_slot b e fr) = fr_paused fr"
  by (simp_all add: check_state_slot_def Let_def split: option.split prod.split)

lemma slot_keys_range:
  assumes "- 1 \<le> s" "s \<le> 999" "slot_keys u d s = Some (t, c)"
  shows "- 1 \<le> t" "t \<le> 999"
  using assms slot_inverse [OF assms(1,2)] by (auto simp: slot_keys_def split: if_splits prod.splits)

subsection \<open>The stages after the pause keep the local copy of the pause\<close>

lemma apply_pending_override_paused [simp]: "fr_paused (apply_delayed_override b e fr) = fr_paused fr"
  by (simp add: apply_delayed_override_def Let_def)

lemma toggle_fastmotion_paused [simp]: "fr_paused (toggle_fastmotion e fr) = fr_paused fr"
  by (simp add: toggle_fastmotion_def Let_def)

lemma check_fastmotion_paused [simp]: "fr_paused (check_fastmotion b e fr) = fr_paused fr"
  by (simp add: check_fastmotion_def Let_def)

lemma show_fastmotion_paused [simp]: "fr_paused (show_fastmotion b e fr) = fr_paused fr"
  by (simp add: show_fastmotion_def push_message_def Let_def)

lemma show_slowmotion_paused [simp]: "fr_paused (show_slowmotion b e fr) = fr_paused fr"
  by (simp add: show_slowmotion_def cached_frame_def push_message_def Let_def)

lemma check_slowmotion_paused [simp]: "fr_paused (check_slowmotion b e fr) = fr_paused fr"
  by (simp add: check_slowmotion_def Let_def)

lemma check_replay_slot_paused [simp]: "fr_paused (check_replay_slot b e fr) = fr_paused fr"
  by (simp add: check_replay_slot_def Let_def split: option.split prod.split)

lemma hotkey_check3_paused [simp]: "fr_paused (hotkey_check3 e k1 k2 k3 fr) = fr_paused fr"
  by (simp add: hotkey_check3_def Let_def)

lemma check_disk_cheat_keys_paused [simp]: "fr_paused (check_disk_cheat_keys e fr) = fr_paused fr"
  by (simp add: check_disk_cheat_keys_def)

lemma check_shader_keys_paused [simp]: "fr_paused (check_shader_keys e fr) = fr_paused fr"
  by (simp add: check_shader_keys_def Let_def)

lemma watch_shaders_paused [simp]: "fr_paused (watch_shaders e fr) = fr_paused fr"
  by (simp add: watch_shaders_def Let_def)

lemma delay_shader_paused [simp]: "fr_paused (delay_shader e fr) = fr_paused fr"
  by (simp add: delay_shader_def call_out_def Let_def)

lemma check_shaders_paused [simp]: "fr_paused (check_shaders b e fr) = fr_paused fr"
  by (simp add: check_shaders_def)

lemma check_running_paused [simp]: "fr_paused (check_running b e fr) = fr_paused fr"
  by (simp add: check_running_def check_state_slot_effect Let_def)

lemma copy_pad_state_parts [simp]:
  "fr_paused (copy_pad_state b fr) = fr_paused fr" "fr_focused (copy_pad_state b fr) = fr_focused fr"
  by (simp_all add: copy_pad_state_def)

lemma check_end_result:
  "fst (check_end b alive fr) = Some (if fr_paused fr then Loop_pause
     else if have_menu (lb_base b) \<and> alive then Loop_menu else Loop_iterate)"
  by (simp add: check_end_def)

section \<open>A concrete frame\<close>

text \<open>
  A frame loop at rest: the zero-initialised state of a loaded core, the statics as the program
  starts, and an outside in which commands change nothing.  The witnesses start from these.
\<close>

definition rest_callbacks :: callbacks where
  "rest_callbacks = \<lparr>frame_cb = Fn_none, sample_cb = Fn_none, sample_batch_cb = Fn_none,
     state_cb = Fn_none, poll_cb = Fn_none\<rparr>"

definition rest_session :: session where
  "rest_session = \<lparr>fe = zero_frontend, core_cbs = rest_callbacks, retro_ctx = rest_callbacks,
     frame_cache = False, remapping_cache_active = False, current_core_type = Core_type_plain,
     explicit_current_core_type = Core_type_plain, remapfile = [], runtime_shader_preset_path = [],
     analog_requested = False, frame_time_last = 0, max_frames = 0, perf_counters = [],
     lib_open = True, refresh_rate_changed = False\<rparr>"

definition rest_settings :: loop_settings where
  "rest_settings = \<lparr>ls_base = zero_settings, ls_state_slot = 0, ls_replay_slot = 0, ls_pause_nonactive = False,
     ls_pause_on_disconnect = False, ls_audio_rewind_mute = False, ls_rewind_granularity = 1,
     ls_show_fast_forward = False, ls_shader_watch_files = False, ls_shader_delay = 0,
     ls_quit_press_twice = False, ls_quit_combo = None, ls_menu_toggle_combo = None,
     ls_menu_driver_null = False, ls_menu_throttle_framerate = True, ls_menu_screensaver_timeout = 0,
     ls_load_dummy_on_shutdown = False, ls_auto_mouse_grab = False, ls_overlay_enable = False,
     ls_overlay_hide_with_gamepad = False, ls_overlay_auto_rotate = False, ls_aspect_ratio_full = False,
     ls_audio_sync = True, ls_audio_enable_menu = False, ls_cheevos_enable = False,
     ls_camera_allow = False, ls_runahead_hide_warnings = False, ls_ai_service_enable = False\<rparr>"

definition zero_timer :: timer where
  "zero_timer = \<lparr>tm_timeout_us = 0, tm_current = 0, tm_timeout_end = 0, tm_begin = False, tm_end = False\<rparr>"

definition rest_audio :: audio_out where
  "rest_audio = \<lparr>ao_samples_buf = True, ao_context = True, ao_write_avail = Some 300, ao_buffer_size = 1000,
     ao_chunk_block = 512, ao_chunk_nonblock = 2048, ao_chunk_size = 512, ao_nonblock = False\<rparr>"

definition rest_menu :: menu_st where
  "rest_menu = \<lparr>mn_flushing_input = 0, mn_binding = False, mn_current_time = 0, mn_noop_press = 0,
     mn_noop_start = 0, mn_action_press = 0, mn_action_start = 0, mn_prev_start = 0,
     mn_prev_action = Action_noop, mn_input_last = 0, mn_saver_supported = False, mn_saver_active = False,
     mn_pending_quick_menu = False, mn_selection = 0, mn_driver_data = False, mn_render = {},
     mn_message = [], mn_fb_dirty = False, mn_msg_force = False\<rparr>"

definition rest_world :: world where
  "rest_world = \<lparr>ses = rest_session, w_set = rest_settings, w_flags = {Is_inited, Core_running},
     w_run_frames = 0, w_limit_last = 0, w_core_run_time = 0, w_widgets_rewinding = False,
     w_widgets_paused = False, w_video_delay_pause = False, w_shader_timer = zero_timer,
     w_audio = rest_audio, w_pad_state = [], w_preempt = None, w_rewind_hold = False,
     w_movie_end = False, w_camera_ready = False, w_block_input = False, w_block_hotkey = False,
     w_kb_mapping_blocked = False, w_grab_mouse = False, w_frame_count = 0, w_screenshot_path = [],
     w_width = 0, w_height = 0, w_refresh_original = 0, w_menu = rest_menu, w_foreground_ui = False,
     w_ai_overlay_state = 0\<rparr>"

definition first_statics :: statics where
  "first_statics = \<lparr>held = {}, volume_delay = 0, volume_delay_active = 0, old_rewind = False,
     old_focus = True, paused_by_hotkey = False, menu_old_pause = False, old_pause = False,
     old_frameadvance = False, pause_frameadvance = False, old_ff = False, old_ff_hold = False,
     old_slow = False, old_slow_hold = False, old_slot_inc = False, old_slot_dec = False,
     old_replay_inc = False, old_replay_dec = False, old_shader_hold = False,
     watch_timer = zero_timer, watch_apply = False, old_quit = False, quit_time = 0,
     old_menu_toggle = False, old_input = {}, old_action = Action_cancel, last_controller = False,
     last_overlay_size = (0, 0), last_aspect_size = (0, 0)\<rparr>"

definition still_outside :: outside where
  "still_outside = \<lparr>ou_ext = null_world, ou_limits = some_limits, do_command = (\<lambda>_ w. w),
     do_unload_core = (\<lambda>_ w. (True, w)), do_check_rewind = (\<lambda>_ _ _ w. ((False, [], 0), w)),
     do_menu_running = id, do_menu_finished = id, do_menu_event = (\<lambda>_ _ w. (Action_noop, w)),
     do_menu_iterate = (\<lambda>_ w. (True, w)), do_dummy_core = id, do_runahead = (\<lambda>_ w. w),
     do_preempt = (\<lambda>_ w. w), do_movie_stop = id, system_input = {}, button_combo = (\<lambda>_ _. False),
     hardcore_active = False, pause_allowed = True, allow_pause = True, allow_timeskip = True,
     ou_current_time = 0, ou_later_time = 0, ou_core_time = 0, ou_end_time = 0,
     shaders_changed = False, error_on_init = False, applet_running = True, provided = {},
     time_to_exit = (\<lambda>trig _. trig), video_alive = True, video_focus = True, video_threaded = False,
     ui_application = False, controller_connected = False, core_actions = []\<rparr>"

definition rest_build :: loop_build where
  "rest_build = \<lparr>lb_base = plain_build, have_screenshots = False, have_overlay = False,
     have_translate = False, have_accessibility = False, have_bsv_movie = False, have_shaders = False\<rparr>"

definition rest_frame :: frame where
  "rest_frame = frame_start rest_world first_statics"

lemma rest_frame_parts [simp]:
  "fr_world rest_frame = rest_world" "fr_hot rest_frame = first_statics"
  "fr_focused rest_frame" "\<not> fr_hardcore rest_frame"
  by (simp_all add: rest_frame_def)

lemma rest_parts [simp]:
  "ses rest_world = rest_session" "w_set rest_world = rest_settings" "w_run_frames rest_world = 0"
  "w_audio rest_world = rest_audio" "w_limit_last rest_world = 0" "fe rest_session = zero_frontend"
  "held first_statics = {}" "do_command still_outside c w = w"
  by (simp_all add: rest_world_def rest_session_def first_statics_def still_outside_def)

end
