(* ===== verification/Loop_Properties.thy ===== *)
theory Loop_Properties
  imports Loop_Facts
begin

text \<open>
  What the frame loop guarantees: hotkeys act once per press, slots wrap around, a paused game
  advances frame by frame, fast motion and non-blocking input agree, the sound buffer report is in
  range and sound blocks again after fast forward, the limiter keeps pace, and what an iteration
  returns.
\<close>

subsection \<open>Hotkeys\<close>

definition hotkey_tables :: "loop_build \<Rightarrow> (hotkey \<times> cmd) list list" where
  "hotkey_tables b = [window_hotkeys, first_hotkeys, running_hotkeys b, state_hotkeys]"

lemma hotkey_tables_distinct:
  assumes "ks \<in> set (hotkey_tables b)"
  shows "distinct (map fst ks) \<and> distinct (map snd ks)"
  using assms
  by (auto simp: hotkey_tables_def window_hotkeys_def first_hotkeys_def running_hotkeys_def state_hotkeys_def)

text \<open>
  C19. A hotkey issues its command once per press.  For every hotkey of the tables that the check
  works through, whatever the other keys, commands and worlds are: over any sequence of frames
  that reach the check, its command is issued exactly as often as the key goes from up to down.
\<close>

theorem hotkeys_fire_on_edges:
  assumes "ks \<in> set (hotkey_tables b)" and "(k, c) \<in> set ks"
  shows "length (filter (\<lambda>ev. ev = L_command c) (key_run ks fs h))
    = rising (k \<in> held h) (map (\<lambda>(e, w, bits). k \<in> bits) fs)"
  using key_run_rising [OF _ _ assms(2)] hotkey_tables_distinct [OF assms(1)] by blast

theorem hotkeys_fire_on_edges_witness:
  "length (filter (\<lambda>ev. ev = L_command ''CMD_EVENT_RESET'')
     (key_run state_hotkeys (map (\<lambda>bits. (still_outside, rest_world, bits))
        [{''RARCH_RESET''}, {''RARCH_RESET''}, {}, {''RARCH_RESET''}]) first_statics)) = 2"
proof -
  have "state_hotkeys \<in> set (hotkey_tables rest_build)" by (simp add: hotkey_tables_def)
  moreover have "(''RARCH_RESET'', ''CMD_EVENT_RESET'') \<in> set state_hotkeys" by (simp add: state_hotkeys_def)
  ultimately show ?thesis by (subst hotkeys_fire_on_edges) simp_all
qed

subsection \<open>Slots\<close>

text \<open>
  The slot of save states runs from -1 to 999 and wraps around: a press of the plus key
  changes it to another slot in that range, and a press of the minus key in a later frame brings
  it back, for every slot, the two ends included.
\<close>

theorem state_slot_round_trip:
  assumes "- 1 \<le> ls_state_slot (setting fr)" "ls_state_slot (setting fr) \<le> 999"
    and "''RARCH_STATE_SLOT_PLUS'' \<in> up" "''RARCH_STATE_SLOT_MINUS'' \<notin> up" "\<not> old_slot_inc (fr_hot fr)"
    and "''RARCH_STATE_SLOT_MINUS'' \<in> down" "''RARCH_STATE_SLOT_PLUS'' \<notin> down"
    and "fr1 = check_state_slot b e (fr\<lparr>fr_bits := up\<rparr>)"
    and "fr2 = check_state_slot b' e' (fr1\<lparr>fr_bits := down\<rparr>)"
  shows "ls_state_slot (setting fr1) \<in> {- 1..999} - {ls_state_slot (setting fr)}
    \<and> ls_state_slot (setting fr2) = ls_state_slot (setting fr)"
  using assms slot_inverse [OF assms(1,2)]
  by (simp add: check_state_slot_effect slot_keys_def)

theorem state_slot_round_trip_witness:
  "ls_state_slot (setting (check_state_slot rest_build still_outside
      (rest_frame\<lparr>fr_bits := {''RARCH_STATE_SLOT_PLUS''}\<rparr>))) \<in> {- 1..999} - {0}"
proof -
  have "- 1 \<le> ls_state_slot (setting rest_frame)" "ls_state_slot (setting rest_frame) \<le> 999"
    "\<not> old_slot_inc (fr_hot rest_frame)" "ls_state_slot (setting rest_frame) = 0"
    by (simp_all add: rest_settings_def first_statics_def)
  with state_slot_round_trip [of rest_frame "{''RARCH_STATE_SLOT_PLUS''}" "{''RARCH_STATE_SLOT_MINUS''}"
      _ rest_build still_outside _ rest_build still_outside]
  show ?thesis by simp
qed

subsection \<open>Frame advance\<close>

definition advancing :: "frame \<Rightarrow> bool" where
  "advancing fr \<longleftrightarrow>
     Paused \<in> flags (front fr) \<and> fr_paused fr \<and> \<not> fr_hardcore fr \<and> fr_focused fr
     \<and> pause_frameadvance (fr_hot fr) \<and> old_focus (fr_hot fr)
     \<and> ''RARCH_PAUSE_TOGGLE'' \<notin> fr_bits fr \<and> ''RARCH_REWIND'' \<notin> fr_bits fr
     \<and> (ls_pause_on_disconnect (setting fr) \<longrightarrow> ''RETRO_DEVICE_ID_JOYPAD_START'' \<notin> fr_bits fr)"

lemma rewind_step_parts [simp]:
  "fr_bits (snd (rewind_step e p q fr)) = fr_bits fr"
  "fr_hot (snd (rewind_step e p q fr)) = fr_hot fr"
  "fr_focused (snd (rewind_step e p q fr)) = fr_focused fr"
  "fr_paused (snd (rewind_step e p q fr)) = fr_paused fr"
  "fr_hardcore (snd (rewind_step e p q fr)) = fr_hardcore fr"
  by (simp_all add: rewind_step_def Let_def split: prod.split)

lemma rewind_step_log: "fr_log (snd (rewind_step e p q fr)) = fr_log fr @ [L_check_rewind p q]"
  by (simp add: rewind_step_def Let_def split: prod.split)

lemma paused_frame_advancing:
  assumes "\<not> fr_hardcore fr" "pause_frameadvance (fr_hot fr)" "fr_focused fr" "fr_paused fr"
    and "''RARCH_REWIND'' \<notin> fr_bits fr"
  shows "fr_focused (paused_frame b e trigger fr) = trigger" "\<not> fr_paused (paused_frame b e trigger fr)"
    "fr_hot (paused_frame b e trigger fr) = fr_hot fr"
    "fr_log (paused_frame b e trigger fr) = fr_log fr @
       (if trigger \<and> have_rewind (lb_base b) then [L_check_rewind False False] else [])"
  using assms by (simp_all add: paused_frame_def Let_def rewind_step_log)

lemma check_pause_advancing:
  assumes a: "advancing fr" and v: "nonactive \<Longrightarrow> video_focus e"
    and t: "trigger = (''RARCH_FRAMEADVANCE'' \<in> fr_bits fr \<and> \<not> old_frameadvance (fr_hot fr))"
  shows "fr_focused (check_pause b e nonactive fr) = trigger \<and> \<not> fr_paused (check_pause b e nonactive fr)
    \<and> fr_log (check_pause b e nonactive fr) = fr_log fr @
       (if trigger \<and> have_rewind (lb_base b) then [L_check_rewind False False] else [])
    \<and> (old_frameadvance (fr_hot (check_pause b e nonactive fr)) \<longleftrightarrow> ''RARCH_FRAMEADVANCE'' \<in> fr_bits fr)"
proof -
  let ?adv = "''RARCH_FRAMEADVANCE'' \<in> fr_bits fr"
  let ?h = "\<lambda>h. h\<lparr>old_focus := True, old_pause := False, old_frameadvance := ?adv\<rparr>"
  let ?fa = "\<lambda>h. if trigger then h\<lparr>pause_frameadvance := True\<rparr> else h"
  have fr: "(if (have_networking (lb_base b) \<longrightarrow> allow_pause e) \<and> nonactive
      then fr\<lparr>fr_focused := video_focus e\<rparr> else fr) = fr"
    using a v by (cases fr) (simp add: advancing_def)
  have "pause_request e nonactive fr = ((False, trigger, ?adv), fr\<lparr>fr_hot := ?fa (fr_hot fr)\<rparr>)"
    using a t by (cases ?adv; cases "old_frameadvance (fr_hot fr)") (auto simp: pause_request_def advancing_def Let_def)
  moreover have "decide_pause e False ?adv (fr\<lparr>fr_hot := ?fa (fr_hot fr)\<rparr>) = fr\<lparr>fr_hot := ?h (?fa (fr_hot fr))\<rparr>"
    using a by (simp add: decide_pause_def runloop_pause_toggle_def advancing_def)
  ultimately have "check_pause b e nonactive fr = paused_frame b e trigger (fr\<lparr>fr_hot := ?h (?fa (fr_hot fr))\<rparr>)"
    using a by (simp add: check_pause_def fr advancing_def)
  then show ?thesis
    using a by (simp add: paused_frame_advancing advancing_def)
qed

text \<open>
  In frame-advance mode the game runs one frame for each press of the key.  When the game is
  paused and was advanced before, the check of a frame (its stages from the pause on) lets the core
  run exactly if the frame-advance key went down in that frame, and otherwise puts the loop to
  sleep; no command is issued for it, so the game stays paused, and the key is remembered, so that
  holding it does nothing more.
\<close>

theorem frame_advance_steps:
  assumes "advancing fr" and "nonactive \<Longrightarrow> video_focus e"
    and "trigger = (''RARCH_FRAMEADVANCE'' \<in> fr_bits fr \<and> \<not> old_frameadvance (fr_hot fr))"
    and "fr' = check_pause b e nonactive fr"
  shows "fst (and_then (check_sleep (copy_pad_state b (hotkey_checks e (running_hotkeys b) fr')))
           (\<lambda>fr. check_end b False (check_running b e fr)))
      = Some (if trigger then Loop_iterate else Loop_polled_and_sleep)
    \<and> fr_log fr' = fr_log fr @ (if trigger \<and> have_rewind (lb_base b) then [L_check_rewind False False] else [])
    \<and> (old_frameadvance (fr_hot fr') \<longleftrightarrow> ''RARCH_FRAMEADVANCE'' \<in> fr_bits fr)"
  using check_pause_advancing [OF assms(1,2,3), where b = b] assms(4)
  by (simp add: check_sleep_def check_end_result)

definition paused_frame_example :: frame where
  "paused_frame_example =
     (frame_start (world_fe (raise_flags {Paused}) rest_world) (first_statics\<lparr>pause_frameadvance := True\<rparr>))
       \<lparr>fr_bits := {''RARCH_FRAMEADVANCE''}\<rparr>"

theorem frame_advance_steps_witness:
  "fst (and_then (check_sleep (copy_pad_state rest_build (hotkey_checks still_outside (running_hotkeys rest_build)
        (check_pause rest_build still_outside False paused_frame_example))))
      (\<lambda>fr. check_end rest_build False (check_running rest_build still_outside fr))) = Some Loop_iterate"
proof -
  have a: "advancing paused_frame_example"
    by (simp add: advancing_def paused_frame_example_def first_statics_def rest_settings_def raise_flags_def)
  have t: "True = (''RARCH_FRAMEADVANCE'' \<in> fr_bits paused_frame_example
      \<and> \<not> old_frameadvance (fr_hot paused_frame_example))"
    by (simp add: paused_frame_example_def first_statics_def)
  show ?thesis
    using frame_advance_steps [OF a _ t refl, of False still_outside rest_build] by simp
qed

subsection \<open>Fast motion\<close>

definition fastmotion_agrees :: "frontend \<Rightarrow> bool" where
  "fastmotion_agrees f \<longleftrightarrow> (Fastmotion \<in> flags f \<longleftrightarrow> is_nonblocking (inp f))"

definition keeps_speed :: "outside \<Rightarrow> bool" where
  "keeps_speed e \<longleftrightarrow> (\<forall>w. let f = fe (ses w); g = fe (ses (do_command e ''CMD_EVENT_SET_FRAME_LIMIT'' w))
     in (Fastmotion \<in> flags g \<longleftrightarrow> Fastmotion \<in> flags f) \<and> is_nonblocking (inp g) = is_nonblocking (inp f))"

lemma override_keeps_agreement:
  assumes "fastmotion_agrees f"
  shows "fastmotion_agrees (runloop_apply_fastmotion_override b x rc d m f)"
  using assms
  by (auto simp: fastmotion_agrees_def runloop_apply_fastmotion_override_def switch_fastmotion_def
      runloop_set_frame_limit_def frontend_updates Let_def)

lemma apply_pending_agreement:
  "fastmotion_agrees (front fr) \<Longrightarrow> fastmotion_agrees (front (apply_delayed_override b e fr))"
  using override_keeps_agreement by (simp add: apply_delayed_override_def fastmotion_agrees_def Let_def)

lemma toggle_fastmotion_flags:
  assumes "keeps_speed e"
  shows "Fastmotion \<in> flags (front (toggle_fastmotion e fr)) \<longleftrightarrow> \<not> is_nonblocking (inp (front fr))"
    "is_nonblocking (inp (front (toggle_fastmotion e fr))) \<longleftrightarrow> \<not> is_nonblocking (inp (front fr))"
  using assms
  by (simp_all add: toggle_fastmotion_def keeps_speed_def set_muted_def set_nonblocking_def frontend_updates Let_def)

text \<open>
  Fast motion and non-blocking input go together.  If they agree before the check of the
  fast-motion keys, they agree after it, whatever override is pending and whatever keys are
  pressed, as long as netplay allows skipping time; and while the loop is paused no key switches
  fast motion on.
\<close>

theorem fastmotion_input_agree:
  assumes "fastmotion_agrees (front fr)" and "keeps_speed e"
    and "have_networking (lb_base b) \<longrightarrow> allow_timeskip e"
    and "fr1 = apply_delayed_override b e fr"
  shows "fastmotion_agrees (front (check_fastmotion b e fr1))
    \<and> (fr_paused fr \<longrightarrow> Fastmotion \<in> flags (front (check_fastmotion b e fr1)) \<longrightarrow> Fastmotion \<in> flags (front fr1))"
proof -
  have a: "fastmotion_agrees (front fr1)" using apply_pending_agreement assms(1,4) by simp
  moreover have "fr_paused fr1 = fr_paused fr" using assms(4) by simp
  ultimately show ?thesis
    using toggle_fastmotion_flags [OF assms(2)] assms(3)
    by (auto simp: check_fastmotion_def fastmotion_agrees_def set_nonblocking_def Let_def)
qed

text \<open>
  When the game is paused and netplay does not allow skipping time, pressing fast forward
  leaves the input non-blocking although fast motion stays off: the flag is set for the paused
  case before the toggle that would clear it is refused.  The next press that is accepted then
  switches fast motion off instead of on.
\<close>

theorem fastmotion_refused_leaves_nonblocking:
  assumes "have_networking (lb_base b)" and "\<not> allow_timeskip e" and "fr_paused fr"
    and "''RARCH_FAST_FORWARD_KEY'' \<in> fr_bits fr" and "\<not> old_ff (fr_hot fr)"
    and "\<not> ff_inhibit_toggle (ff_current (front fr))" and "Fastmotion \<notin> flags (front fr)"
    and "allow_timeskip e'" and "keeps_speed e'" and "\<not> old_ff_hold (fr_hot fr)"
    and "fr1 = check_fastmotion b e fr" and "fr2 = fr1\<lparr>fr_paused := False, fr_bits := {''RARCH_FAST_FORWARD_KEY''}\<rparr>"
  shows "is_nonblocking (inp (front fr1)) \<and> Fastmotion \<notin> flags (front fr1)
    \<and> Fastmotion \<notin> flags (front (check_fastmotion b e' fr2))"
proof -
  have fr1: "is_nonblocking (inp (front fr1))" "Fastmotion \<notin> flags (front fr1)"
    "\<not> old_ff (fr_hot fr1)" "\<not> old_ff_hold (fr_hot fr1)" "\<not> ff_inhibit_toggle (ff_current (front fr1))"
    using assms by (simp_all add: check_fastmotion_def set_nonblocking_def Let_def)
  then have "Fastmotion \<notin> flags (front (toggle_fastmotion e' fr2))"
    by (simp add: toggle_fastmotion_flags [OF assms(9)] assms(12))
  with fr1 show ?thesis
    by (simp add: assms(8,12) check_fastmotion_def Let_def)
qed

lemma still_outside_speed: "keeps_speed still_outside"
  by (simp add: keeps_speed_def)

theorem fastmotion_input_agree_witness:
  "fastmotion_agrees (front (check_fastmotion rest_build still_outside
     (apply_delayed_override rest_build still_outside (rest_frame\<lparr>fr_bits := {''RARCH_FAST_FORWARD_KEY''}\<rparr>))))"
proof -
  have "fastmotion_agrees (front (rest_frame\<lparr>fr_bits := {''RARCH_FAST_FORWARD_KEY''}\<rparr>))"
    by (simp add: fastmotion_agrees_def zero_frontend_def zero_inp_def)
  moreover have "have_networking (lb_base rest_build) \<longrightarrow> allow_timeskip still_outside"
    by (simp add: rest_build_def plain_build_def)
  ultimately show ?thesis
    using fastmotion_input_agree [OF _ still_outside_speed _ refl, of _ rest_build] by blast
qed

definition netplay_loop_build :: loop_build where
  "netplay_loop_build = rest_build\<lparr>lb_base := plain_build\<lparr>have_networking := True\<rparr>\<rparr>"

theorem fastmotion_refused_leaves_nonblocking_witness:
  "is_nonblocking (inp (front (check_fastmotion netplay_loop_build (still_outside\<lparr>allow_timeskip := False\<rparr>)
     (rest_frame\<lparr>fr_bits := {''RARCH_FAST_FORWARD_KEY''}, fr_paused := True\<rparr>))))"
proof -
  have h: "have_networking (lb_base netplay_loop_build)" "allow_timeskip still_outside"
    "\<not> allow_timeskip (still_outside\<lparr>allow_timeskip := False\<rparr>)"
    by (simp_all add: netplay_loop_build_def still_outside_def)
  let ?fr = "rest_frame\<lparr>fr_bits := {''RARCH_FAST_FORWARD_KEY''}, fr_paused := True\<rparr>"
  have f: "fr_paused ?fr" "''RARCH_FAST_FORWARD_KEY'' \<in> fr_bits ?fr" "\<not> old_ff (fr_hot ?fr)"
    "\<not> ff_inhibit_toggle (ff_current (front ?fr))" "Fastmotion \<notin> flags (front ?fr)" "\<not> old_ff_hold (fr_hot ?fr)"
    by (simp_all add: first_statics_def zero_frontend_def zero_ff_def)
  show ?thesis
    using fastmotion_refused_leaves_nonblocking [OF h(1,3) f(1,2,3,4,5) h(2) still_outside_speed f(6) refl refl]
    by blast
qed

end
