(* ===== verification/Loop_Frame_Properties.thy ===== *)
theory Loop_Frame_Properties
  imports Loop_Facts
begin

text \<open>
  What the frame around the check guarantees: the report about the sound buffer, the return to
  blocking sound, the pace of the limiter, the frames counted towards a pause, and what an
  iteration returns and runs.
\<close>

subsection \<open>Sound\<close>

lemma occupancy_exact:
  fixes avail bytes :: size_t
  assumes "bytes \<noteq> 0" and "unat bytes < 2 ^ 57"
  shows "unat (buffer_occupancy avail bytes) = 100 - min (unat avail) (unat bytes) * 100 div unat bytes"
proof -
  define x where "x = (if bytes < avail then bytes else avail)"
  have a: "unat x = min (unat avail) (unat bytes)"
    by (auto simp: x_def word_less_nat_alt min_def not_less)
  have pos: "0 < unat bytes" using assms(1) by (simp add: unat_gt_0)
  have "unat x * unat (100 :: size_t) < 2 ^ LENGTH(64)"
    using a assms(2) by simp
  then have m: "unat (x * 100) = unat x * 100"
    using iffD1 [OF unat_mult_lem, of x 100] by simp
  have "unat x * 100 \<le> 100 * unat bytes" using a by simp
  then have q: "unat x * 100 div unat bytes \<le> 100"
    by (metis div_le_mono nonzero_mult_div_cancel_right not_gr0 pos)
  then have d: "unat ((x * 100) div bytes) = unat x * 100 div unat bytes"
    by (simp add: unat_div m)
  then have "unat (100 - (x * 100) div bytes) = 100 - unat x * 100 div unat bytes"
    using q by (subst unat_sub) (simp_all add: word_le_nat_alt)
  moreover have "unat (ucast (100 - (x * 100) div bytes) :: u32) = unat (100 - (x * 100) div bytes)"
    using calculation by (simp add: unsigned_ucast_eq take_bit_nat_eq_self)
  ultimately show ?thesis by (simp add: buffer_occupancy_def a x_def [symmetric] Let_def)
qed

text \<open>
  The report about the sound buffer is in range.  For a buffer below 2^57 bytes, the core is
  told a fill level between 0 and 100 percent, the free space rounded down from 100, however much
  the driver says is free; underrun is reported exactly below 25 percent; and nothing is reported
  while the game is paused or sound is off.
\<close>

theorem buffer_report_in_range:
  assumes "unat (ao_buffer_size a) < 2 ^ 57" and "buffer_status f a = (active, n, underrun)"
  shows "unat n \<le> 100 \<and> (underrun \<longleftrightarrow> active \<and> unat n < 25)
    \<and> (active \<longrightarrow> Paused \<notin> flags f \<and> as_active (aud f) \<and> (\<exists>avail. ao_write_avail a = Some avail
         \<and> unat n = 100 - min (unat avail) (unat (ao_buffer_size a)) * 100 div unat (ao_buffer_size a)))
    \<and> (\<not> active \<longrightarrow> n = 0)"
proof (cases active)
  case True
  then obtain avail where avail: "ao_write_avail a = Some avail" "ao_buffer_size a \<noteq> 0"
    "Paused \<notin> flags f" "as_active (aud f)"
    and n: "n = buffer_occupancy avail (ao_buffer_size a)" "underrun = (n < 25)"
    using assms(2) by (auto simp: buffer_status_def Let_def split: option.splits if_splits)
  then show ?thesis
    using occupancy_exact [OF avail(2) assms(1), of avail] True
    by (auto simp: word_less_nat_alt)
next
  case False
  then show ?thesis
    using assms(2) by (auto simp: buffer_status_def Let_def split: option.splits if_splits)
qed

theorem buffer_report_in_range_witness:
  "buffer_status (zero_frontend\<lparr>aud := zero_aud\<lparr>as_active := True\<rparr>\<rparr>) rest_audio = (True, 70, False)
   \<and> unat (70 :: u32) \<le> 100"
proof -
  have e: "buffer_status (zero_frontend\<lparr>aud := zero_aud\<lparr>as_active := True\<rparr>\<rparr>) rest_audio = (True, 70, False)"
    by (simp add: buffer_status_def rest_audio_def zero_frontend_def buffer_occupancy_def)
  have "unat (ao_buffer_size rest_audio) < 2 ^ 57" by (simp add: rest_audio_def)
  from buffer_report_in_range [OF this e] e show ?thesis by blast
qed

lemma ramp_up:
  assumes "fastforward_after_frames (fe (ses w)) = n" and "n \<in> {2, 3, 4}"
  shows "audio_ramp True w = world_fe (\<lambda>f. f\<lparr>fastforward_after_frames := n + 1\<rparr>) w"
  using assms by (auto simp: audio_ramp_def Let_def world_fe_def upd_fe_def)

lemma ramp_one:
  assumes "fastforward_after_frames (fe (ses w)) = 1"
  shows "audio_ramp True w = world_fe (\<lambda>f. f\<lparr>fastforward_after_frames := 2\<rparr>)
    (set_audio_nonblock True (ao_chunk_nonblock (w_audio w)) w)"
  using assms by (simp add: audio_ramp_def Let_def world_fe_def upd_fe_def set_audio_nonblock_def)

lemma ramp_last:
  assumes "fastforward_after_frames (fe (ses w)) = 5"
  shows "fastforward_after_frames (fe (ses (audio_ramp True w))) = 0"
    "ao_chunk_size (w_audio (audio_ramp True w)) = ao_chunk_block (w_audio w)"
    "ao_context (w_audio (audio_ramp True w)) = ao_context (w_audio w)"
    "as_active (aud (fe (ses (audio_ramp True w)))) = as_active (aud (fe (ses w)))"
    "as_active (aud (fe (ses w))) \<Longrightarrow> ao_context (w_audio w) \<Longrightarrow> \<not> ao_nonblock (w_audio (audio_ramp True w))"
  using assms by (simp_all add: audio_ramp_def Let_def world_fe_def upd_fe_def set_audio_nonblock_def)

definition sound_blocking :: "world \<Rightarrow> bool" where
  "sound_blocking w \<longleftrightarrow>
     fastforward_after_frames (fe (ses w)) = 0 \<and> ao_chunk_size (w_audio w) = ao_chunk_block (w_audio w)
     \<and> (as_active (aud (fe (ses w))) \<and> ao_context (w_audio w) \<longrightarrow> \<not> ao_nonblock (w_audio w))"

lemma ramp_blocks:
  assumes "fastforward_after_frames (fe (ses w)) = 5"
  shows "sound_blocking (audio_ramp True w)"
proof -
  have "ao_chunk_block (w_audio (audio_ramp True w)) = ao_chunk_block (w_audio w)"
    using assms by (simp add: audio_ramp_def Let_def world_fe_def upd_fe_def set_audio_nonblock_def)
  then show ?thesis using ramp_last [OF assms] by (simp add: sound_blocking_def)
qed

lemma ramp_done: "sound_blocking w \<Longrightarrow> audio_ramp sync w = w"
  by (simp add: audio_ramp_def sound_blocking_def)

text \<open>
  After fast forward the sound blocks again.  With sound synchronisation on, wherever the
  counter of non-blocking frames stands (1 when fast forward has just ended, up to 5), the frames
  that remain up to 6 bring it back to 0, with blocking chunks and a blocking driver, and from
  then on nothing changes any more.
\<close>

theorem sound_blocks_again:
  assumes "fastforward_after_frames (fe (ses w)) \<in> {1, 2, 3, 4, 5}"
    and "6 - unat (fastforward_after_frames (fe (ses w))) \<le> frames"
  shows "sound_blocking ((audio_ramp True ^^ frames) w)"
proof -
  have stay: "sound_blocking v \<Longrightarrow> sound_blocking ((audio_ramp True ^^ m) v)" for m v
    by (induction m) (simp_all add: ramp_done)
  have up: "fastforward_after_frames (fe (ses v)) = n \<Longrightarrow> n \<in> {1, 2, 3, 4}
      \<Longrightarrow> fastforward_after_frames (fe (ses (audio_ramp True v))) = n + 1" for v n
    using ramp_up [of v n] ramp_one [of v] by auto
  have five: "fastforward_after_frames (fe (ses v)) = 5 \<Longrightarrow> sound_blocking ((audio_ramp True ^^ Suc m) v)" for m v
    using ramp_blocks stay by (simp add: funpow_Suc_right del: funpow.simps)
  have four: "fastforward_after_frames (fe (ses v)) = 4 \<Longrightarrow> sound_blocking ((audio_ramp True ^^ Suc (Suc m)) v)" for m v
    using five [of "audio_ramp True v" m] up [of v 4] by (simp add: funpow_Suc_right del: funpow.simps)
  have three: "fastforward_after_frames (fe (ses v)) = 3
      \<Longrightarrow> sound_blocking ((audio_ramp True ^^ Suc (Suc (Suc m))) v)" for m v
    using four [of "audio_ramp True v" m] up [of v 3] by (simp add: funpow_Suc_right del: funpow.simps)
  have two: "fastforward_after_frames (fe (ses v)) = 2
      \<Longrightarrow> sound_blocking ((audio_ramp True ^^ Suc (Suc (Suc (Suc m)))) v)" for m v
    using three [of "audio_ramp True v" m] up [of v 2] by (simp add: funpow_Suc_right del: funpow.simps)
  have one: "fastforward_after_frames (fe (ses v)) = 1
      \<Longrightarrow> sound_blocking ((audio_ramp True ^^ Suc (Suc (Suc (Suc (Suc m))))) v)" for m v
    using two [of "audio_ramp True v" m] up [of v 1] by (simp add: funpow_Suc_right del: funpow.simps)
  obtain m where m: "frames = (6 - unat (fastforward_after_frames (fe (ses w)))) + m"
    using assms(2) le_Suc_ex by blast
  from assms(1) consider "fastforward_after_frames (fe (ses w)) = 1" | "fastforward_after_frames (fe (ses w)) = 2"
    | "fastforward_after_frames (fe (ses w)) = 3" | "fastforward_after_frames (fe (ses w)) = 4"
    | "fastforward_after_frames (fe (ses w)) = 5" by blast
  then show ?thesis
  proof cases
    case 1
    then have "frames = Suc (Suc (Suc (Suc (Suc m))))" using m by simp
    with one [OF 1] show ?thesis by (simp only:)
  next
    case 2
    then have "frames = Suc (Suc (Suc (Suc m)))" using m by simp
    with two [OF 2] show ?thesis by (simp only:)
  next
    case 3
    then have "frames = Suc (Suc (Suc m))" using m by simp
    with three [OF 3] show ?thesis by (simp only:)
  next
    case 4
    then have "frames = Suc (Suc m)" using m by simp
    with four [OF 4] show ?thesis by (simp only:)
  next
    case 5
    then have "frames = Suc m" using m by simp
    with five [OF 5] show ?thesis by (simp only:)
  qed
qed

theorem sound_blocks_again_witness:
  "sound_blocking ((audio_ramp True ^^ 5) (world_fe (\<lambda>f. f\<lparr>fastforward_after_frames := 1\<rparr>) rest_world))"
  by (rule sound_blocks_again) simp_all

subsection \<open>The frame limiter\<close>

lemma c_div_pos:
  assumes "0 < c_div a 1000"
  shows "c_div a 1000 = a div 1000" "0 < a"
  using assms by (auto simp: c_div_def split: if_splits)

text \<open>The milliseconds a frame has slept when it ends: the sleeps its end adds to the log.\<close>

fun sleep_ms :: "loop_event \<Rightarrow> int" where
  "sleep_ms (L_sleep ms) = ms"
| "sleep_ms _ = 0"

definition slept :: "frame \<Rightarrow> frame \<Rightarrow> int" where
  "slept fr fr' = sum_list (map sleep_ms (drop (length (fr_log fr)) (fr_log fr')))"

lemma slept_log: "slept fr (log_event (L_sleep ms) (fr\<lparr>fr_world := w\<rparr>)) = ms" "slept fr (fr\<lparr>fr_world := w\<rparr>) = 0"
  by (simp_all add: slept_def log_event_def)

lemma count_frames_sleep:
  "slept fr (count_frames b (fr\<lparr>fr_world := w\<rparr>)) = 0"
  "w_limit_last (fr_world (count_frames b fr)) = w_limit_last (fr_world fr)"
  by (simp_all add: slept_def count_frames_def call_out_def raise_flags_def Let_def)

definition missing_time :: "outside \<Rightarrow> world \<Rightarrow> int" where
  "missing_time e w = w_limit_last w + frame_limit_minimum_time (fe (ses w)) - ou_end_time e"

lemma to_sleep_missing: "to_sleep (ou_end_time e) w = c_div (missing_time e w) 1000"
  by (simp add: to_sleep_def missing_time_def)

text \<open>One frame whose end the limiter looks at, on a build where it may sleep.\<close>

lemma end_frame_sleeps:
  assumes "end_frame b e vrr sync fr = (r, fr')" "w = paced_world e vrr sync (fr_world fr)"
    "limiter_active b vrr w" "\<not> (have_cocoatouch (lb_base b) \<and> w_foreground_ui w)"
  shows "slept fr fr' = (if missing_time e w < 1000 then 0 else missing_time e w div 1000)"
    "w_limit_last (fr_world fr') =
       (if missing_time e w < 1000 then ou_end_time e else w_limit_last w + frame_limit_minimum_time (fe (ses w)))"
proof -
  have m: "0 < c_div (missing_time e w) 1000 \<longleftrightarrow> \<not> missing_time e w < 1000"
    "0 < c_div (missing_time e w) 1000 \<Longrightarrow> c_div (missing_time e w) 1000 = missing_time e w div 1000"
    by (auto simp: c_div_def split: if_splits)
  show "slept fr fr' = (if missing_time e w < 1000 then 0 else missing_time e w div 1000)"
    using assms(1,3,4) m unfolding end_frame_def Let_def assms(2) [symmetric] to_sleep_missing
    by (auto simp: count_frames_sleep slept_log split: if_splits)
  show "w_limit_last (fr_world fr') =
       (if missing_time e w < 1000 then ou_end_time e else w_limit_last w + frame_limit_minimum_time (fe (ses w)))"
    using assms(1,3,4) m unfolding end_frame_def Let_def assms(2) [symmetric] to_sleep_missing
    by (auto simp: count_frames_sleep log_event_def split: if_splits)
qed

text \<open>
  Frames one after the other under the limiter with the minimum time \<open>m\<close>: the time of the last
  frame and the clock, before and after.  The clock does not go back, a sleep takes at least its
  milliseconds, and between two ends nothing changes the time of the last frame.
\<close>

inductive paced_run :: "loop_build \<Rightarrow> bool \<Rightarrow> bool \<Rightarrow> int \<Rightarrow> int \<Rightarrow> int \<Rightarrow> nat \<Rightarrow> int \<Rightarrow> int \<Rightarrow> bool"
  for b vrr sync m last0 now0 where
  start: "paced_run b vrr sync m last0 now0 0 last0 now0"
| frame: "paced_run b vrr sync m last0 now0 n last_time now \<Longrightarrow> end_frame b e vrr sync fr = (r, fr')
    \<Longrightarrow> w = paced_world e vrr sync (fr_world fr) \<Longrightarrow> limiter_active b vrr w
    \<Longrightarrow> \<not> (have_cocoatouch (lb_base b) \<and> w_foreground_ui w)
    \<Longrightarrow> w_limit_last w = last_time \<Longrightarrow> frame_limit_minimum_time (fe (ses w)) = m
    \<Longrightarrow> now \<le> ou_end_time e \<Longrightarrow> ou_end_time e + 1000 * slept fr fr' \<le> now'
    \<Longrightarrow> paced_run b vrr sync m last0 now0 (Suc n) (w_limit_last (fr_world fr')) now'"

lemma paced_run_bounds:
  assumes "paced_run b vrr sync m last0 now0 n last_time now" "last0 \<le> now0 + 999"
  shows "last0 + int n * (m - 999) \<le> last_time \<and> last_time \<le> now + 999"
  using assms
proof (induction rule: paced_run.induct)
  case (frame n last_time now e fr r fr' w now')
  note f = end_frame_sleeps [OF frame.hyps(2-5)]
  have ih: "last0 + int n * (m - 999) \<le> last_time" "last_time \<le> now + 999" using frame by blast+
  have miss: "missing_time e w = last_time + m - ou_end_time e" using frame.hyps by (simp add: missing_time_def)
  show ?case
  proof (cases "missing_time e w < 1000")
    case True
    with f miss ih frame.hyps show ?thesis by (simp add: algebra_simps)
  next
    case False
    then have "1000 * slept fr fr' \<ge> missing_time e w - 999" using f(1) by simp
    with False f miss ih frame.hyps show ?thesis by (simp add: algebra_simps)
  qed
qed simp

text \<open>
  C21. The pace of the limiter, for every frame that ends while it is active on a build where it
  sleeps (with the touch interface in the foreground it leaves the pace to the system).  What is
  missing to the minimum time of a frame is slept in whole milliseconds: a frame to which less than
  a millisecond is missing does not sleep, so with a minimum below a millisecond no frame sleeps
  whose last time is not in the future; a sleep is never longer than what is missing.  Over any
  number of frames one after the other this loses less than a millisecond each: n frames take the
  time of the last frame on by at least n times the minimum less 999 microseconds, and the clock is
  never more than 999 microseconds behind that time.
\<close>

theorem limiter_keeps_pace:
  assumes "paced_run b vrr sync m last0 now0 n last_time now" "last0 \<le> now0 + 999"
    and "end_frame b e vrr sync fr = (r, fr')" "w = paced_world e vrr sync (fr_world fr)" "limiter_active b vrr w"
    and "\<not> (have_cocoatouch (lb_base b) \<and> w_foreground_ui w)"
    and "w_limit_last w = last_time" "frame_limit_minimum_time (fe (ses w)) = m"
  shows "slept fr fr' = (if last_time + m - ou_end_time e < 1000 then 0 else (last_time + m - ou_end_time e) div 1000)
    \<and> 1000 * slept fr fr' \<le> max 0 (last_time + m - ou_end_time e)
    \<and> (m < 1000 \<and> last_time \<le> ou_end_time e \<longrightarrow> slept fr fr' = 0)
    \<and> last0 + int n * (m - 999) \<le> last_time \<and> last_time \<le> now + 999"
proof -
  have "missing_time e w = last_time + m - ou_end_time e" using assms(7,8) by (simp add: missing_time_def)
  with end_frame_sleeps(1) [OF assms(3-6)]
  have "slept fr fr' = (if last_time + m - ou_end_time e < 1000 then 0 else (last_time + m - ou_end_time e) div 1000)"
    by simp
  moreover from this have "1000 * slept fr fr' \<le> max 0 (last_time + m - ou_end_time e)"
    using minus_mod_eq_mult_div [of "last_time + m - ou_end_time e" 1000]
      pos_mod_sign [of 1000 "last_time + m - ou_end_time e"] by (simp split: if_splits)
  ultimately show ?thesis using paced_run_bounds [OF assms(1,2)] by simp
qed

definition limited_world :: world where
  "limited_world = (world_fe (\<lambda>f. f\<lparr>frame_limit_minimum_time := 16667, flags := {Fastmotion}\<rparr>) rest_world)
     \<lparr>w_run_frames := 3\<rparr>"

definition limited_frame :: frame where
  "limited_frame = rest_frame\<lparr>fr_world := limited_world\<rparr>"

lemma limited_frame_sleeps:
  "paced_world still_outside False True (fr_world limited_frame) = limited_world"
  "limiter_active rest_build False limited_world" "to_sleep (ou_end_time still_outside) limited_world = 16"
  "frame_limit_minimum_time (fe (ses limited_world)) = 16667" "w_limit_last limited_world = 0"
  "fst (end_frame rest_build still_outside False True limited_frame) = 1"
  by (simp_all add: limited_frame_def limited_world_def paced_world_def limiter_active_def to_sleep_def
      c_div_def still_outside_def end_frame_def Let_def world_fe_def upd_fe_def)

text \<open>Two such frames; the second one ends after the first one's sleep of 16 milliseconds.\<close>

definition next_limited_frame :: frame where
  "next_limited_frame = rest_frame\<lparr>fr_world := limited_world\<lparr>w_limit_last := 16667\<rparr>\<rparr>"

definition later_outside :: outside where
  "later_outside = still_outside\<lparr>ou_end_time := 20000\<rparr>"

lemma next_limited_frame_sleeps:
  "paced_world later_outside False True (fr_world next_limited_frame) = limited_world\<lparr>w_limit_last := 16667\<rparr>"
  "limiter_active rest_build False (limited_world\<lparr>w_limit_last := 16667\<rparr>)"
  "\<not> (have_cocoatouch (lb_base rest_build) \<and> w_foreground_ui limited_world)"
  by (simp_all add: next_limited_frame_def limited_world_def paced_world_def limiter_active_def world_fe_def upd_fe_def
      rest_build_def plain_build_def)

theorem limiter_keeps_pace_witness:
  "slept next_limited_frame (snd (end_frame rest_build later_outside False True next_limited_frame)) = 13"
proof -
  obtain fr1 where e: "end_frame rest_build still_outside False True limited_frame = (1, fr1)"
    using limited_frame_sleeps(6) by (metis prod.collapse)
  obtain r fr2 where e2: "end_frame rest_build later_outside False True next_limited_frame = (r, fr2)" by fastforce
  note s = end_frame_sleeps [OF e refl, unfolded limited_frame_sleeps(1), OF limited_frame_sleeps(2) next_limited_frame_sleeps(3)]
  have m: "missing_time still_outside limited_world = 16667"
    by (simp add: missing_time_def limited_frame_sleeps still_outside_def)
  from s m have sl: "slept limited_frame fr1 = 16" "w_limit_last (fr_world fr1) = 16667"
    by (simp_all add: limited_frame_sleeps)
  have run: "paced_run rest_build False True 16667 0 0 (Suc 0) (w_limit_last (fr_world fr1)) 16000"
    by (rule paced_run.frame [OF paced_run.start e limited_frame_sleeps(1) [symmetric] limited_frame_sleeps(2)
          next_limited_frame_sleeps(3) limited_frame_sleeps(5,4)]) (simp_all add: sl still_outside_def)
  show ?thesis
    using limiter_keeps_pace [OF run [unfolded sl(2)] _ e2 next_limited_frame_sleeps(1) [symmetric]] e2
      next_limited_frame_sleeps limited_frame_sleeps(4)
    by (simp add: later_outside_def)
qed

lemma count_frames_effect:
  "w_run_frames (fr_world (count_frames b fr)) =
     (if 0 < w_run_frames (fr_world fr) then w_run_frames (fr_world fr) - 1 else w_run_frames (fr_world fr))"
  "Paused \<in> flags (front (count_frames b fr)) \<longleftrightarrow>
     Paused \<in> flags (front fr) \<or> w_run_frames (fr_world fr) = 1"
  by (auto simp: count_frames_def call_out_def raise_flags_def Let_def)

lemma paced_world_keeps [simp]:
  "w_run_frames (paced_world e vrr sync w) = w_run_frames w"
  "flags (fe (ses (paced_world e vrr sync w))) = flags (fe (ses w))"
  by (simp_all add: paced_world_def vrr_frame_limit_def audio_ramp_def set_audio_nonblock_def
      runloop_set_frame_limit_def Let_def)

text \<open>
  Frames that end with a sleep of the limiter are not counted.  After a rewind of a paused
  game the loop is to run a number of frames and pause again; that count goes down, and the pause
  comes when it reaches 0, only in frames that end without a sleep.  A frame that sleeps (with
  variable refresh rate that is nearly every one) runs without being counted.
\<close>

theorem sleeping_frames_not_counted:
  assumes "end_frame b e vrr sync fr = (r, fr')" and "0 < w_run_frames (fr_world fr)"
    and "n = w_run_frames (fr_world fr)"
  shows "if limiter_active b vrr (paced_world e vrr sync (fr_world fr))
            \<and> 0 < to_sleep (ou_end_time e) (paced_world e vrr sync (fr_world fr))
         then r = 1 \<and> w_run_frames (fr_world fr') = n
           \<and> (Paused \<in> flags (front fr') \<longleftrightarrow> Paused \<in> flags (front fr))
         else r = 0 \<and> w_run_frames (fr_world fr') = n - 1
           \<and> (Paused \<in> flags (front fr') \<longleftrightarrow> Paused \<in> flags (front fr) \<or> n = 1)"
  using assms by (auto simp: end_frame_def count_frames_effect Let_def split: if_splits)

theorem sleeping_frames_not_counted_witness:
  "w_run_frames (fr_world (snd (end_frame rest_build still_outside False True limited_frame))) = 3"
proof -
  obtain fr' where e: "end_frame rest_build still_outside False True limited_frame = (1, fr')"
    using limited_frame_sleeps(6) by (metis prod.collapse)
  have "0 < w_run_frames (fr_world limited_frame)" "3 = w_run_frames (fr_world limited_frame)"
    by (simp_all add: limited_frame_def limited_world_def)
  from sleeping_frames_not_counted [OF e this] e show ?thesis
    by (simp add: limited_frame_sleeps)
qed

subsection \<open>One iteration\<close>

fun is_core_frame :: "loop_event \<Rightarrow> bool" where
  "is_core_frame (L_call f) \<longleftrightarrow> f = ''core_run'' \<or> f = ''preempt_run''"
| "is_core_frame (L_runahead n hide secondary) \<longleftrightarrow> True"
| "is_core_frame _ \<longleftrightarrow> False"

definition core_frames :: "frame \<Rightarrow> nat" where
  "core_frames fr = length (filter is_core_frame (fr_log fr))"

lemma core_frames_simps [simp]:
  "core_frames (log_event ev fr) = core_frames fr + (if is_core_frame ev then 1 else 0)"
  "core_frames (command e c fr) = core_frames fr"
  "core_frames (on_fe f fr) = core_frames fr"
  "core_frames (fr\<lparr>fr_world := w\<rparr>) = core_frames fr"
  "core_frames (fr\<lparr>fr_log := xs @ ys\<rparr>) = core_frames (fr\<lparr>fr_log := xs\<rparr>) + core_frames (fr\<lparr>fr_log := ys\<rparr>)"
  "core_frames (fr\<lparr>fr_log := fr_log fr'\<rparr>) = core_frames fr'"
  "core_frames (frame_start w h) = 0"
  by (simp_all add: core_frames_def)

lemma core_frames_call [simp]:
  "f \<noteq> ''core_run'' \<Longrightarrow> f \<noteq> ''preempt_run'' \<Longrightarrow> core_frames (call_out f fr) = core_frames fr"
  by (simp add: call_out_def)

lemma core_frames_stages [simp]:
  "core_frames (before_core b e fr) = core_frames fr"
  "core_frames (netplay_pause b fr) = core_frames fr"
  "core_frames (cached_frame fr) = core_frames fr"
  "core_frames (count_frames b fr) = core_frames fr"
  by (simp_all add: before_core_def netplay_pause_def cached_frame_def count_frames_def Let_def)

lemma core_frames_movie [simp]: "core_frames (end_of_movie e fr) = core_frames fr"
  by (simp add: end_of_movie_def)

lemma core_frames_after [simp]: "core_frames (after_core b e slow cheevos fr) = core_frames fr"
  by (simp add: after_core_def Let_def)

lemma core_frames_run [simp]: "core_frames (run_frame b e fr) = core_frames fr + 1"
  by (simp add: run_frame_def run_core_def call_out_def Let_def split: option.split)

lemma core_frames_end [simp]: "core_frames (snd (end_frame b e vrr sync fr)) = core_frames fr"
  by (simp add: end_frame_def Let_def)

lemma end_frame_result: "fst (end_frame b e vrr sync fr) \<in> {0, 1}"
  by (simp add: end_frame_def Let_def)

lemma core_frames_clocks [simp]: "core_frames (call_core_clocks b e w h) = 0"
  by (simp add: call_core_clocks_def update_audio_status_def update_frame_time_def Let_def
      split: prod.split)

lemma core_frames_menu:
  assumes "menu_result b e vrr mp cheevos fr = (goes, fr')"
  shows "core_frames fr' = core_frames fr"
proof -
  have same: "core_frames (snd (if p then (True, f) else if q then (False, f) else if t then (True, f)
      else (True, f\<lparr>fr_world := w\<rparr>))) = core_frames f" for p q t f w
    by simp
  have "core_frames (snd (menu_result b e vrr mp cheevos fr)) = core_frames fr"
    unfolding menu_result_def Let_def same by simp
  with assms show ?thesis by simp
qed

lemma check_state_decides:
  obtains r fr where "runloop_check_state b e w h = (Some r, fr)"
proof -
  have total: "(\<And>fr. fst (g fr) \<noteq> None) \<Longrightarrow> fst (and_then p g) \<noteq> None" for p g
    by (auto simp: and_then_def split: prod.split option.split)
  have "fst (runloop_check_state b e w h) \<noteq> None"
    unfolding runloop_check_state_def Let_def by (intro total) (simp add: check_end_result)
  then show ?thesis using that by (metis fst_conv option.exhaust surj_pair)
qed

text \<open>
  C22. What an iteration returns and runs.  The check of the state always decides.  The iteration
  returns -1 exactly if it decided to quit, and then the quit command is the last one issued; it
  returns 1 when it decided to sleep after polling, and 0 or 1 otherwise; and besides what an open
  menu runs during the check, the core runs exactly one frame, directly, ahead or preemptively, if
  the decision was to iterate, and none otherwise.
\<close>

theorem iterate_result:
  assumes "runloop_iterate b e w h = (r, fr')"
  shows "\<exists>res fr1. runloop_check_state b e (fr_world (call_core_clocks b e w h)) h = (Some res, fr1)
    \<and> r \<in> {- 1, 0, 1} \<and> (r = - 1 \<longleftrightarrow> res = Loop_quit) \<and> (res = Loop_polled_and_sleep \<longrightarrow> r = 1)
    \<and> (res = Loop_quit \<longrightarrow> last (fr_log fr') = L_command ''CMD_EVENT_QUIT'')
    \<and> core_frames fr' = core_frames fr1 + (if res = Loop_iterate then 1 else 0)"
proof -
  obtain res fr1 where c: "runloop_check_state b e (fr_world (call_core_clocks b e w h)) h = (Some res, fr1)"
    by (rule check_state_decides)
  let ?fr = "fr1\<lparr>fr_log := fr_log (call_core_clocks b e w h) @ fr_log fr1\<rparr>"
  have "fr1\<lparr>fr_log := fr_log fr1\<rparr> = fr1" by simp
  then have n: "core_frames ?fr = core_frames fr1" by (simp only: core_frames_simps core_frames_clocks)
  have it: "act_on_result b e (w_set w) (may_pause_for_menu b e w) res ?fr = (r, fr')"
    using assms by (simp add: runloop_iterate_def c Let_def)
  have ef: "end_frame b e vrr sync f = (r, fr') \<Longrightarrow> r \<in> {0, 1} \<and> core_frames fr' = core_frames f" for vrr sync f
    using end_frame_result [of b e vrr sync f] core_frames_end [of b e vrr sync f] by simp
  have "r \<in> {- 1, 0, 1} \<and> (r = - 1 \<longleftrightarrow> res = Loop_quit) \<and> (res = Loop_polled_and_sleep \<longrightarrow> r = 1)
    \<and> (res = Loop_quit \<longrightarrow> last (fr_log fr') = L_command ''CMD_EVENT_QUIT'')
    \<and> core_frames fr' = core_frames ?fr + (if res = Loop_iterate then 1 else 0)"
  proof (cases res)
    case Loop_iterate
    with it have "end_frame b e (vrr_runloop_enable (ls_base (w_set w))) (ls_audio_sync (w_set w))
       (iterate_frame b e (slowmotion_ratio (ls_base (w_set w))) (ls_cheevos_enable (w_set w)) ?fr) = (r, fr')"
      by (simp add: act_on_result_def Let_def)
    from ef [OF this] Loop_iterate show ?thesis by (auto simp: iterate_frame_def)
  next
    case Loop_polled_and_sleep
    with it show ?thesis by (auto simp: act_on_result_def polled_and_sleep_def Let_def split: if_splits)
  next
    case Loop_menu
    obtain goes fr2 where m: "menu_result b e (vrr_runloop_enable (ls_base (w_set w))) (may_pause_for_menu b e w)
       (ls_cheevos_enable (w_set w)) ?fr = (goes, fr2)" by force
    from it Loop_menu show ?thesis
      using ef [of _ _ fr2] core_frames_menu [OF m] by (cases goes) (auto simp: act_on_result_def Let_def m)
  next
    case Loop_pause
    with it ef show ?thesis by (auto simp: act_on_result_def Let_def)
  next
    case Loop_quit
    with it show ?thesis by (auto simp: act_on_result_def Let_def)
  qed
  with c n show ?thesis by metis
qed

theorem iterate_result_witness:
  "\<exists>res fr1. runloop_check_state rest_build still_outside
        (fr_world (call_core_clocks rest_build still_outside rest_world first_statics)) first_statics = (Some res, fr1)
    \<and> (fst (runloop_iterate rest_build still_outside rest_world first_statics) = - 1 \<longleftrightarrow> res = Loop_quit)"
  using iterate_result [of rest_build still_outside rest_world first_statics] by (metis prod.collapse)

end
