(* ===== verification/Content_Paths.thy ===== *)
theory Content_Paths
  imports External C_Text
begin

text \<open>
  The paths of the content and of what is stored beside it (\<open>runloop.c\<close>): its base name, the
  names of saves, states, replays, cheats and patches, the redirection of saves and states into
  directories, subsystems, the files of the slots, and the sequence of \<open>event_init_content\<close>.

  The path functions of the base library are outside the repository: they are the fields of
  \<open>path_code\<close>, with the size of the buffer as first argument where they take it.  Which
  directories exist is part of the state, because directories are made.
\<close>

record path_code =
  pc_size :: nat
  pc_name_size :: nat
  fill_pathname :: "nat \<Rightarrow> string \<Rightarrow> string \<Rightarrow> string"
  fill_pathname_dir :: "nat \<Rightarrow> string \<Rightarrow> string \<Rightarrow> string \<Rightarrow> string"
  fill_pathname_join :: "nat \<Rightarrow> string \<Rightarrow> string \<Rightarrow> string"
  fill_pathname_join_special :: "nat \<Rightarrow> string \<Rightarrow> string \<Rightarrow> string"
  fill_pathname_join_delim :: "nat \<Rightarrow> string \<Rightarrow> string \<Rightarrow> char \<Rightarrow> string"
  fill_pathname_basedir :: "nat \<Rightarrow> string \<Rightarrow> string"
  fill_pathname_parent_dir :: "nat \<Rightarrow> string \<Rightarrow> string"
  pc_basedir_wrapper :: "string \<Rightarrow> string"
  pc_basedir :: "string \<Rightarrow> string"
  pc_basename :: "string \<Rightarrow> string"
  can_mkdir :: "string \<Rightarrow> bool"
  save_path_overridden :: bool
  state_path_overridden :: bool
  custom_save_dir :: c_str
  custom_save_ext :: c_str
  pc_srm_extension :: string
  pc_state_extension :: string
  pc_replay_extension :: string
  pc_cheat_extension :: string
  no_core_label :: string
  netplay_client_saves :: bool
  subsystem_memory :: "string \<Rightarrow> (string \<times> u32) list list option"

record path_build =
  pb_compression :: bool
  pb_menu :: bool
  pb_networking :: bool
  pb_cheats :: bool
  pb_bsv_movie :: bool
  pb_cheevos :: bool
  pb_threads :: bool

record path_settings =
  sort_savefiles :: bool
  sort_savefiles_by_content :: bool
  sort_savestates :: bool
  sort_savestates_by_content :: bool
  savefiles_in_content_dir :: bool
  savestates_in_content_dir :: bool
  ps_state_slot :: int
  ps_cheevos_enable :: bool
  ps_cheevos_hardcore :: bool
  ps_savestate_auto_load :: bool

record content_names =
  nm_savefile :: string
  nm_savestate :: string
  nm_replay :: string
  nm_cheatfile :: string
  nm_ups :: string
  nm_bps :: string
  nm_ips :: string
  nm_xdelta :: string

record path_state =
  pt_fe :: frontend
  pt_names :: content_names
  pt_basename :: string
  pt_savestate_dir :: string
  pt_subsystem :: "string list option"
  pt_saves :: "(string \<times> u32) list"
  pt_movie_auto :: string
  pt_runtime_content :: string
  pt_runtime_core :: string
  pt_entry_slot :: int
  pt_current_savefile_dir :: string
  pt_current_savestate_dir :: string
  pt_dirs :: "string set"
  pt_log :: "string list"

definition upd_names :: "(content_names \<Rightarrow> content_names) \<Rightarrow> path_state \<Rightarrow> path_state" where
  "upd_names f s = s\<lparr>pt_names := f (pt_names s)\<rparr>"

definition path_call :: "string \<Rightarrow> path_state \<Rightarrow> path_state" where
  "path_call f s = s\<lparr>pt_log := pt_log s @ [f]\<rparr>"

definition path_mkdir :: "path_code \<Rightarrow> string \<Rightarrow> path_state \<Rightarrow> bool \<times> path_state" where
  "path_mkdir pc p s = (if can_mkdir pc p then (True, s\<lparr>pt_dirs := insert p (pt_dirs s)\<rparr>) else (False, s))"

subsection \<open>Names of the content\<close>

text \<open>\<open>strrchr\<close> of a dot: what is before the last one, or everything.\<close>

definition cut_last_dot :: "string \<Rightarrow> string" where
  "cut_last_dot s =
     (if CHR ''.'' \<in> set s then rev (tl (dropWhile (\<lambda>c. c \<noteq> CHR ''.'') (rev s))) else s)"

definition content_basename :: "path_build \<Rightarrow> path_code \<Rightarrow> string \<Rightarrow> string" where
  "content_basename b pc path =
     (let copy = strlcpy (pc_size pc) path;
          dir = pc_basedir_wrapper pc copy;
          name = (if \<not> pb_compression b then copy
                  else if dir = [] then dir
                  else fill_pathname_dir pc (pc_size pc) dir path [])
      in cut_last_dot name)"

definition runloop_path_set_basename ::
    "path_build \<Rightarrow> path_code \<Rightarrow> string \<Rightarrow> path_state \<Rightarrow> path_state" where
  "runloop_path_set_basename b pc path s =
     s\<lparr>pt_fe := (pt_fe s)\<lparr>paths := (paths (pt_fe s))(Path_content := path)\<rparr>,
       pt_basename := content_basename b pc path\<rparr>"

definition runloop_path_set_names :: "path_build \<Rightarrow> path_code \<Rightarrow> path_state \<Rightarrow> path_state" where
  "runloop_path_set_names b pc s =
     (let name = fill_pathname pc (pc_size pc) (pt_basename s)
      in upd_names (\<lambda>n. n\<lparr>
           nm_savefile := (if save_path_overridden pc then nm_savefile n else name ''.srm''),
           nm_savestate := (if state_path_overridden pc then nm_savestate n else name ''.state''),
           nm_replay := (if pb_bsv_movie b \<and> \<not> state_path_overridden pc then name ''.replay'' else nm_replay n),
           nm_cheatfile := (if pb_cheats b \<and> pt_basename s \<noteq> [] then name ''.cht'' else nm_cheatfile n)\<rparr>) s)"

text \<open>The name of a patch beside the content, unless one was given.\<close>

definition patch_name :: "path_code \<Rightarrow> string \<Rightarrow> string \<Rightarrow> string \<Rightarrow> string" where
  "patch_name pc base ext old =
     (if old = [] then strlcpy (pc_size pc) (strlcpy (pc_size pc) base @ ext) else old)"

subsection \<open>Slots\<close>

definition runloop_get_savestate_path :: "path_code \<Rightarrow> nat \<Rightarrow> int \<Rightarrow> path_state \<Rightarrow> string option" where
  "runloop_get_savestate_path pc len slot s =
     (let name = nm_savestate (pt_names s)
      in if name = [] then None
         else Some (if slot < 0 then fill_pathname_join_delim pc len name ''auto'' CHR ''.''
                    else if 0 < slot then strlcpy len (strlcpy len name @ show_int slot)
                    else strlcpy len name))"

definition runloop_get_current_savestate_path ::
    "path_code \<Rightarrow> nat \<Rightarrow> path_settings option \<Rightarrow> path_state \<Rightarrow> string option" where
  "runloop_get_current_savestate_path pc len st s =
     runloop_get_savestate_path pc len (case st of None \<Rightarrow> 0 | Some st \<Rightarrow> ps_state_slot st) s"

definition runloop_get_replay_path :: "nat \<Rightarrow> int \<Rightarrow> path_state \<Rightarrow> string option" where
  "runloop_get_replay_path len slot s =
     (let name = nm_replay (pt_names s)
      in if name = [] then None
         else Some (if 0 \<le> slot then strlcpy len (strlcpy len name @ show_int slot) else strlcpy len name))"

definition runloop_get_entry_state_path :: "nat \<Rightarrow> int \<Rightarrow> path_state \<Rightarrow> string option" where
  "runloop_get_entry_state_path len slot s =
     (let name = nm_savestate (pt_names s)
      in if name = [] then None
         else Some (strlcpy len (strlcpy len name @ show_int slot @ ''.entry'')))"

subsection \<open>Subsystems and save files\<close>

definition runloop_path_deinit_subsystem :: "path_state \<Rightarrow> path_state" where
  "runloop_path_deinit_subsystem s = s\<lparr>pt_subsystem := None\<rparr>"

text \<open>
  The save files of the roms of a subsystem, one per memory.  The list of content files is set
  together with the subsystem; the code does not test it against null.
\<close>

definition memory_save :: "path_code \<Rightarrow> path_state \<Rightarrow> string \<Rightarrow> string \<times> u32 \<Rightarrow> string \<times> u32" where
  "memory_save pc s rom mem =
     (let ext = strlcpy 32 (CHR ''.'' # fst mem);
          name = fill_pathname pc (pc_name_size pc) rom [];
          dir = savefile_dir (pt_fe s)
      in (if dir \<in> pt_dirs s then fill_pathname_dir pc (pc_size pc) (strlcpy (pc_size pc) dir) name ext
          else fill_pathname pc (pc_size pc) name ext, snd mem))"

definition subsystem_saves ::
    "path_code \<Rightarrow> path_state \<Rightarrow> (string \<times> u32) list list \<Rightarrow> (string \<times> u32) list" where
  "subsystem_saves pc s roms =
     concat (map (\<lambda>(rom, mems). map (memory_save pc s rom) mems)
       (zip (case pt_subsystem s of None \<Rightarrow> [] | Some fs \<Rightarrow> fs) roms))"

definition runloop_path_init_subsystem :: "path_code \<Rightarrow> path_state \<Rightarrow> bool \<times> path_state" where
  "runloop_path_init_subsystem pc s =
     (if paths (pt_fe s) Path_subsystem = [] then (False, s)
      else let s1 = (case subsystem_memory pc (paths (pt_fe s) Path_subsystem) of
                       None \<Rightarrow> s
                     | Some roms \<Rightarrow> s\<lparr>pt_saves := pt_saves s @ subsystem_saves pc s roms\<rparr>);
               s2 = (if save_path_overridden pc then s1
                     else upd_names (\<lambda>n. n\<lparr>nm_savefile := fill_pathname pc (pc_size pc) (pt_basename s1) ''.srm''\<rparr>) s1);
               s3 = (if nm_savefile (pt_names s2) \<in> pt_dirs s2
                     then upd_names (\<lambda>n. n\<lparr>nm_savefile := fill_pathname_dir pc (pc_size pc) (nm_savefile n)
                                            (pt_basename s2) ''.srm''\<rparr>) s2
                     else s2)
           in (True, s3))"

text \<open>\<open>path_init_savefile_rtc\<close> appends the save file and that of the clock.\<close>

definition runloop_path_init_savefile_internal :: "path_code \<Rightarrow> path_state \<Rightarrow> path_state" where
  "runloop_path_init_savefile_internal pc s =
     (let s1 = s\<lparr>pt_saves := []\<rparr>
      in case runloop_path_init_subsystem pc s1 of
           (True, s2) \<Rightarrow> s2
         | (False, s2) \<Rightarrow> path_call ''path_init_savefile_rtc'' s2)"

definition runloop_path_init_savefile :: "path_state \<Rightarrow> path_state" where
  "runloop_path_init_savefile s =
     (let fl = flags (pt_fe s)
      in if Use_sram \<in> fl \<and> Is_sram_save_disabled \<notin> fl then path_call ''CMD_EVENT_AUTOSAVE_INIT'' s
         else s\<lparr>pt_fe := lower_flags {Use_sram} (pt_fe s)\<rparr>)"

definition runloop_path_fill_names :: "path_build \<Rightarrow> path_code \<Rightarrow> path_state \<Rightarrow> path_state" where
  "runloop_path_fill_names b pc s =
     (let s1 = runloop_path_init_savefile_internal pc s;
          s2 = (if pb_bsv_movie b then s1\<lparr>pt_movie_auto := strlcpy (pc_size pc) (nm_replay (pt_names s1))\<rparr> else s1);
          base = pt_basename s2
      in if base = [] then s2
         else upd_names (\<lambda>n. n\<lparr>nm_ups := patch_name pc base ''.ups'' (nm_ups n),
                               nm_bps := patch_name pc base ''.bps'' (nm_bps n),
                               nm_ips := patch_name pc base ''.ips'' (nm_ips n),
                               nm_xdelta := patch_name pc base ''.xdelta'' (nm_xdelta n)\<rparr>) s2)"

subsection \<open>Redirection into directories\<close>

text \<open>The directory from the configuration, or that of the content.\<close>

definition chosen_dir :: "path_code \<Rightarrow> nat \<Rightarrow> string \<Rightarrow> bool \<Rightarrow> string \<Rightarrow> string" where
  "chosen_dir pc dmax base in_content_dir configured =
     (if strlcpy dmax configured = [] \<or> in_content_dir then fill_pathname_basedir pc dmax base
      else strlcpy dmax configured)"

text \<open>
  Below it, the directory of the content and that of the core are appended; the result is used if
  it exists or can be made.
\<close>

definition sorted_dir ::
    "path_code \<Rightarrow> nat \<Rightarrow> bool \<Rightarrow> bool \<Rightarrow> string \<Rightarrow> string \<Rightarrow> string \<Rightarrow> path_state \<Rightarrow> string \<times> path_state" where
  "sorted_dir pc dmax by_core by_content core_dir content_dir chosen s =
     (if (by_core \<or> by_content) \<and> chosen \<noteq> []
      then let d1 = (if by_content then fill_pathname_join_special pc dmax chosen content_dir else chosen);
               d2 = (if by_core then fill_pathname_join pc dmax d1 core_dir else d1)
           in if d2 \<in> pt_dirs s then (d2, s)
              else (case path_mkdir pc d2 s of (True, s1) \<Rightarrow> (d2, s1) | (False, s1) \<Rightarrow> (chosen, s1))
      else (chosen, s))"

definition netplay_dir :: "path_build \<Rightarrow> path_code \<Rightarrow> nat \<Rightarrow> string \<Rightarrow> path_state \<Rightarrow> string \<times> path_state" where
  "netplay_dir b pc dmax dir s =
     (if pb_networking b \<and> netplay_client_saves pc
      then let d = fill_pathname_join pc dmax dir ''.netplay''
           in if d \<in> pt_dirs s then (d, s)
              else (case path_mkdir pc d s of (True, s1) \<Rightarrow> (d, s1) | (False, s1) \<Rightarrow> (pc_basedir pc d, s1))
      else (dir, s))"

text \<open>Whether the names of saves and states are redirected at all: a core with a name runs.\<close>

definition named_core :: "path_state \<Rightarrow> string option" where
  "named_core s =
     (case si_library_name (sys (pt_fe s)) of None \<Rightarrow> None | Some n \<Rightarrow> if n = [] then None else Some n)"

definition file_in_dir :: "path_code \<Rightarrow> path_state \<Rightarrow> string \<Rightarrow> string \<Rightarrow> string \<Rightarrow> string" where
  "file_in_dir pc s fallback ext dir =
     fill_pathname_dir pc (pc_size pc) dir (if pt_basename s \<noteq> [] then pt_basename s else fallback) ext"

definition redirect_names ::
    "path_build \<Rightarrow> path_code \<Rightarrow> string \<Rightarrow> string \<Rightarrow> string \<Rightarrow> path_state \<Rightarrow> path_state" where
  "redirect_names b pc core new_save new_state s =
     (let n = pt_names s;
          size = pc_size pc;
          save0 = (if new_save \<in> pt_dirs s then strlcpy size new_save else nm_savefile n);
          state0 = (if new_state \<in> pt_dirs s then strlcpy size new_state else nm_savestate n);
          replay0 = (if new_state \<in> pt_dirs s then strlcpy size new_state else nm_replay n);
          save_dir = (new_save \<in> pt_dirs s \<or> nm_savefile n \<in> pt_dirs s);
          state_dir = (new_state \<in> pt_dirs s \<or> nm_savestate n \<in> pt_dirs s);
          fallback = (case custom_save_dir pc of None \<Rightarrow> core | Some d \<Rightarrow> []);
          ext = (case custom_save_ext pc of None \<Rightarrow> pc_srm_extension pc | Some e \<Rightarrow> e)
      in upd_names (\<lambda>n. n\<lparr>
           nm_savefile := (if save_dir then file_in_dir pc s fallback ext save0 else save0),
           nm_savestate := (if state_dir then file_in_dir pc s core (pc_state_extension pc) state0 else state0),
           nm_replay := (if state_dir then file_in_dir pc s core (pc_replay_extension pc) replay0 else replay0),
           nm_cheatfile := (if pb_cheats b \<and> nm_cheatfile n \<in> pt_dirs s
                            then file_in_dir pc s core (pc_cheat_extension pc) (nm_cheatfile n) else nm_cheatfile n)\<rparr>) s)"

definition runloop_path_set_redirect ::
    "path_build \<Rightarrow> path_code \<Rightarrow> nat \<Rightarrow> path_settings \<Rightarrow> string \<Rightarrow> string \<Rightarrow> path_state \<Rightarrow> path_state" where
  "runloop_path_set_redirect b pc dmax st old_save old_state s =
     (let base = pt_basename s;
          content_dir = (if (sort_savefiles_by_content st \<or> sort_savestates_by_content st) \<and> base \<noteq> []
                         then fill_pathname_parent_dir pc dmax base else []);
          save = chosen_dir pc dmax base (savefiles_in_content_dir st) old_save;
          state = chosen_dir pc dmax base (savestates_in_content_dir st) old_state;
          sorts = (case named_core s of None \<Rightarrow> False | Some c \<Rightarrow> \<not> pb_menu b \<or> c \<noteq> no_core_label pc);
          core = (case named_core s of None \<Rightarrow> [] | Some c \<Rightarrow> c);
          core_dir = (case custom_save_dir pc of None \<Rightarrow> core | Some _ \<Rightarrow> []);
          (save1, s1) = (if sorts then sorted_dir pc dmax (sort_savefiles st) (sort_savefiles_by_content st)
                                        core_dir content_dir save s
                         else (save, s));
          (state1, s2) = (if sorts then sorted_dir pc dmax (sort_savestates st) (sort_savestates_by_content st)
                                         core content_dir state s1
                          else (state, s1));
          (save2, s3) = netplay_dir b pc dmax save1 s2;
          s4 = (if named_core s3 = None then s3 else redirect_names b pc core save2 state1 s3)
      in s4\<lparr>pt_current_savefile_dir := save2, pt_current_savestate_dir := state1\<rparr>)"

text \<open>Several content files: the names of all of them joined, the first one gives the base name.\<close>

fun join_with :: "string \<Rightarrow> string list \<Rightarrow> string" where
  "join_with sep [] = []"
| "join_with sep [x] = x"
| "join_with sep (x # y # xs) = x @ sep @ join_with sep (y # xs)"

text \<open>\<open>None\<close>: the first argument is read although there is none.\<close>

definition runloop_path_set_special ::
    "path_build \<Rightarrow> path_code \<Rightarrow> string list \<Rightarrow> path_state \<Rightarrow> path_state option" where
  "runloop_path_set_special b pc argv s =
     (if argv = [] then None
      else let s1 = (runloop_path_set_basename b pc (argv ! 0) s)\<lparr>pt_subsystem := Some argv\<rparr>;
               size = pc_size pc;
               str = strlcpy size (join_with '' + '' (map (\<lambda>p. pc_basename pc (fill_pathname pc size p [])) argv));
               dir = pt_savestate_dir s1;
               n = pt_names s1;
               state0 = (if dir \<in> pt_dirs s1 then strlcpy size dir else nm_savestate n);
               replay0 = (if dir \<in> pt_dirs s1 then strlcpy size dir else nm_replay n);
               is_dir = (dir \<in> pt_dirs s1 \<or> nm_savestate n \<in> pt_dirs s1)
           in Some (upd_names (\<lambda>n. n\<lparr>
                nm_savestate := (if is_dir then fill_pathname_dir pc size state0 str ''.state'' else state0),
                nm_replay := (if is_dir then fill_pathname_dir pc size replay0 str ''.replay'' else replay0)\<rparr>) s1))"

subsection \<open>Starting the content\<close>

text \<open>
  What the steps of \<open>event_init_content\<close> answer, the kind of the core, and whether a movie is
  about to be played or recorded.
\<close>

record content_start =
  cs_plain :: bool
  cs_dummy :: bool
  cs_no_content_needed :: bool
  cs_content_ok :: bool
  cs_entry_loaded :: bool
  cs_playback :: bool
  cs_recording :: bool

text \<open>The states that are loaded at the start: the entry state, then the automatic one.\<close>

definition load_first_states :: "path_build \<Rightarrow> content_start \<Rightarrow> path_settings \<Rightarrow> path_state \<Rightarrow> path_state" where
  "load_first_states b c st s =
     (if pb_cheevos b \<and> ps_cheevos_enable st \<and> ps_cheevos_hardcore st then s
      else
        let s1 = (if (pb_bsv_movie b \<and> cs_playback c) \<or> pt_entry_slot s \<le> - 1 then s
                  else let t = path_call ''command_event_load_entry_state'' s
                       in if cs_entry_loaded c then t else t\<lparr>pt_entry_slot := - 1\<rparr>)
        in if \<not> (pb_bsv_movie b \<and> (cs_recording c \<or> cs_playback c)) \<and> pt_entry_slot s1 < 0
              \<and> ps_savestate_auto_load st
           then path_call ''command_event_load_auto_state'' s1 else s1)"

definition start_movie :: "path_build \<Rightarrow> content_start \<Rightarrow> path_state \<Rightarrow> path_state" where
  "start_movie b c s =
     (if \<not> pb_bsv_movie b then s
      else let s1 = path_call ''movie_stop'' s
           in if cs_recording c
              then let s2 = path_call ''rewind_granularity = 1'' s1;
                       s3 = (if pb_threads b then s2 else path_call ''task_queue_wait'' s2)
                   in path_call ''movie_start_record'' s3
              else if cs_playback c
              then path_call ''movie_start_playback'' (path_call ''rewind_granularity = 1'' s1)
              else s1)"

definition event_init_content ::
    "path_build \<Rightarrow> path_code \<Rightarrow> content_start \<Rightarrow> path_settings \<Rightarrow> path_state \<Rightarrow> bool \<times> path_state" where
  "event_init_content b pc c st s =
     (let s1 = s\<lparr>pt_fe := (if cs_plain c then raise_flags {Use_sram} (pt_fe s) else lower_flags {Use_sram} (pt_fe s))\<rparr>
      in if cs_dummy c then (True, s1)
         else
           let s2 = path_call ''content_set_subsystem_info'' s1;
               s3 = (if cs_no_content_needed c then runloop_path_init_savefile_internal pc s2 else s2);
               s4 = path_call ''content_init'' (runloop_path_fill_names b pc s3)
           in if \<not> cs_content_ok c then (False, s4)
              else
                let s5 = path_call ''command_event_set_replay_auto_index''
                           (path_call ''command_event_set_savestate_auto_index'' s4);
                    s6 = path_call ''event_load_save_files'' (runloop_path_init_savefile s5);
                    s7 = start_movie b c (load_first_states b c st s6)
                in (True, path_call ''CMD_EVENT_NETPLAY_INIT'' s7))"

definition runloop_runtime_log_init :: "int \<Rightarrow> path_code \<Rightarrow> path_state \<Rightarrow> path_state" where
  "runloop_runtime_log_init now pc s =
     s\<lparr>pt_fe := (pt_fe s)\<lparr>core_runtime_last := now, core_runtime_usec := 0\<rparr>,
       pt_runtime_content := strlcpy (pc_size pc) (paths (pt_fe s) Path_content),
       pt_runtime_core := strlcpy (pc_size pc) (paths (pt_fe s) Path_core)\<rparr>"

end
