(* ===== verification/Path_Properties.thy ===== *)
theory Path_Properties
  imports Content_Paths External
begin

text \<open>
  What the paths of the content guarantee: slots never share a file, saves are redirected into
  directories that exist, and what becomes of the base name of content without an extension.
\<close>

subsection \<open>Slots\<close>

lemma show_int_slot:
  assumes "0 \<le> s" "s \<le> (999 :: int)"
  shows "show_int s = show_nat (nat s)" "length (show_int s) \<le> 3"
proof -
  have "nat s < 10 ^ 3" using assms by simp
  from show_nat_length [OF this] assms show "show_int s = show_nat (nat s)" "length (show_int s) \<le> 3"
    by (simp_all add: show_int_def)
qed

lemma digit_no_dot: "d < 10 \<Longrightarrow> digit_char d \<noteq> CHR ''.''"
  by (rule digit_char_neq) simp_all

lemma show_nat_no_dot: "CHR ''.'' \<notin> set (show_nat n)"
proof (induction n rule: show_nat.induct)
  case (1 n)
  show ?case
  proof (cases "n < 10")
    case True
    then show ?thesis using digit_no_dot [of n] by (subst show_nat.simps) auto
  next
    case False
    with 1 digit_no_dot [of "n mod 10"] show ?thesis by (subst show_nat.simps) auto
  qed
qed

lemma show_nat_not_empty: "show_nat n \<noteq> []"
  using show_nat_Cons [of n] by auto

text \<open>What the code relies on, and the condition that nothing is cut off.\<close>

definition joins_delim :: "path_code \<Rightarrow> bool" where
  "joins_delim pc \<longleftrightarrow> (\<forall>n a b c. fill_pathname_join_delim pc n a b c = strlcpy n (a @ [c] @ b))"

lemma savestate_path_eq:
  assumes "joins_delim pc" "nm_savestate (pt_names s) \<noteq> []" "length (nm_savestate (pt_names s)) + 9 < len"
    and "- 1 \<le> i" "i \<le> 999"
  shows "runloop_get_savestate_path pc len i s = Some (nm_savestate (pt_names s)
    @ (if i < 0 then ''.auto'' else if i = 0 then [] else show_nat (nat i)))"
proof -
  have f: "strlcpy len (nm_savestate (pt_names s)) = nm_savestate (pt_names s)"
    using assms(3) by (simp add: strlcpy_fits)
  have "length (nm_savestate (pt_names s) @ show_int i) < len" if "0 \<le> i"
    using show_int_slot [of i] assms(3,5) that by simp
  then have g: "strlcpy len (nm_savestate (pt_names s) @ show_int i) = nm_savestate (pt_names s) @ show_nat (nat i)"
    if "0 \<le> i" using that show_int_slot [of i] assms(5) by (simp add: strlcpy_fits)
  show ?thesis
  proof (cases "i < 0")
    case True
    with assms show ?thesis
      by (simp add: runloop_get_savestate_path_def joins_delim_def Let_def strlcpy_fits)
  next
    case False
    with assms(2) g show ?thesis
      by (simp add: runloop_get_savestate_path_def Let_def f)
  qed
qed

lemma entry_path_eq:
  assumes "nm_savestate (pt_names s) \<noteq> []" "length (nm_savestate (pt_names s)) + 9 < len" "0 \<le> i" "i \<le> 999"
  shows "runloop_get_entry_state_path len i s = Some (nm_savestate (pt_names s) @ show_nat (nat i) @ ''.entry'')"
proof -
  have f: "strlcpy len (nm_savestate (pt_names s)) = nm_savestate (pt_names s)"
    using assms(2) by (simp add: strlcpy_fits)
  show ?thesis
    using assms show_int_slot [of i] unfolding runloop_get_entry_state_path_def Let_def f
    by (simp add: strlcpy_fits)
qed

text \<open>
  No two slots share a file.  As long as the name of the states leaves room for nine more
  characters in the buffer, the paths of the slots -1 to 999 are all different, and none of them is
  the path of an entry state.
\<close>

theorem slot_files_distinct:
  assumes "joins_delim pc" and "nm_savestate (pt_names s) \<noteq> []"
    and "length (nm_savestate (pt_names s)) + 9 < len"
    and "i \<in> {- 1..999}" and "j \<in> {- 1..999}" and "k \<in> {0..999}"
  shows "(runloop_get_savestate_path pc len i s = runloop_get_savestate_path pc len j s \<longleftrightarrow> i = j)
    \<and> runloop_get_savestate_path pc len i s \<noteq> runloop_get_entry_state_path len k s"
proof -
  note path = savestate_path_eq [OF assms(1,2,3)]
  have auto: "''.auto'' \<noteq> show_nat n @ r" for n r
    using show_nat_Cons [of n] digit_no_dot by (metis append_Cons list.inject)
  have entry: "show_nat n \<noteq> show_nat m @ ''.entry''" for n m
  proof
    assume "show_nat n = show_nat m @ ''.entry''"
    then have "CHR ''.'' \<in> set (show_nat n)" by simp
    then show False using show_nat_no_dot by blast
  qed
  have tails: "''.auto'' \<noteq> show_nat n" "show_nat n \<noteq> ''.auto''" for n
    using auto [of n "[]"] by (metis append_Nil2)+
  have "runloop_get_savestate_path pc len i s = runloop_get_savestate_path pc len j s \<longleftrightarrow> i = j"
    using path [of i] path [of j] assms(4,5) tails
    by (auto simp: show_nat_not_empty show_nat_not_empty [symmetric])
  moreover have "runloop_get_savestate_path pc len i s \<noteq> runloop_get_entry_state_path len k s"
    using path [of i] entry_path_eq [OF assms(2,3), of k] assms(4,6) entry auto
    by (simp add: show_nat_not_empty)
  ultimately show ?thesis by blast
qed

subsection \<open>Redirection\<close>

lemma sorted_dir_exists:
  assumes "sorted_dir pc dmax core content cd nd chosen s = (d, s1)" and "chosen \<in> pt_dirs s"
  shows "d \<in> pt_dirs s1" "pt_dirs s \<subseteq> pt_dirs s1" "pt_basename s1 = pt_basename s" "pt_fe s1 = pt_fe s"
    "pt_names s1 = pt_names s"
  using assms by (auto simp: sorted_dir_def path_mkdir_def Let_def split: if_splits)

text \<open>The netplay directory below \<open>dir\<close> neither exists nor can be made.\<close>

definition netplay_refused :: "path_build \<Rightarrow> path_code \<Rightarrow> nat \<Rightarrow> string \<Rightarrow> path_state \<Rightarrow> bool" where
  "netplay_refused b pc dmax dir s \<longleftrightarrow>
     pb_networking b \<and> netplay_client_saves pc \<and> fill_pathname_join pc dmax dir ''.netplay'' \<notin> pt_dirs s
     \<and> \<not> can_mkdir pc (fill_pathname_join pc dmax dir ''.netplay'')"

lemma netplay_dir_exists:
  assumes "netplay_dir b pc dmax dir s = (d, s1)" and "dir \<in> pt_dirs s"
  shows "d \<in> pt_dirs s1 \<or> netplay_refused b pc dmax dir s1 \<and> d = pc_basedir pc (fill_pathname_join pc dmax dir ''.netplay'')"
    "pt_dirs s \<subseteq> pt_dirs s1" "pt_basename s1 = pt_basename s" "pt_fe s1 = pt_fe s"
    "pt_names s1 = pt_names s"
  using assms by (auto simp: netplay_dir_def path_mkdir_def netplay_refused_def Let_def split: if_splits)

text \<open>
  C24. Where saves and states are redirected.  If the directories from the configuration (or, without
  one, that of the content) exist, then, whichever sorting is configured and whichever directories
  can be made, the directory of the states in force afterwards exists; so does that of the saves,
  except for a client of netplay whose directory below it neither exists nor can be made: then it is
  what going up from that path gives, which the code does not look at.  With a named core the state
  name is a file in the directory of the states, and the save name one in that of the saves if it
  exists.
\<close>

theorem redirection_into_existing:
  assumes "chosen_dir pc dmax (pt_basename s) (savefiles_in_content_dir st) old_save \<in> pt_dirs s"
    and "chosen_dir pc dmax (pt_basename s) (savestates_in_content_dir st) old_state \<in> pt_dirs s"
    and "s' = runloop_path_set_redirect b pc dmax st old_save old_state s"
  shows "pt_current_savestate_dir s' \<in> pt_dirs s'
    \<and> (pt_current_savefile_dir s' \<in> pt_dirs s'
       \<or> (\<exists>dir \<in> pt_dirs s'. netplay_refused b pc dmax dir s'
            \<and> pt_current_savefile_dir s' = pc_basedir pc (fill_pathname_join pc dmax dir ''.netplay'')))
    \<and> (\<forall>core. named_core s = Some core \<longrightarrow>
        nm_savestate (pt_names s') = file_in_dir pc s core (pc_state_extension pc)
           (strlcpy (pc_size pc) (pt_current_savestate_dir s'))
        \<and> (pt_current_savefile_dir s' \<in> pt_dirs s' \<longrightarrow>
           nm_savefile (pt_names s') = file_in_dir pc s (case custom_save_dir pc of None \<Rightarrow> core | Some d \<Rightarrow> [])
             (case custom_save_ext pc of None \<Rightarrow> pc_srm_extension pc | Some e \<Rightarrow> e)
             (strlcpy (pc_size pc) (pt_current_savefile_dir s'))))"
proof -
  let ?base = "pt_basename s"
  let ?cd = "if (sort_savefiles_by_content st \<or> sort_savestates_by_content st) \<and> ?base \<noteq> []
             then fill_pathname_parent_dir pc dmax ?base else []"
  let ?save = "chosen_dir pc dmax ?base (savefiles_in_content_dir st) old_save"
  let ?state = "chosen_dir pc dmax ?base (savestates_in_content_dir st) old_state"
  let ?sorts = "case named_core s of None \<Rightarrow> False | Some c \<Rightarrow> \<not> pb_menu b \<or> c \<noteq> no_core_label pc"
  let ?core = "case named_core s of None \<Rightarrow> [] | Some c \<Rightarrow> c"
  let ?core_dir = "case custom_save_dir pc of None \<Rightarrow> ?core | Some _ \<Rightarrow> []"
  obtain save1 s1 where s1: "(if ?sorts then sorted_dir pc dmax (sort_savefiles st) (sort_savefiles_by_content st)
      ?core_dir ?cd ?save s else (?save, s)) = (save1, s1)" by force
  have k1: "save1 \<in> pt_dirs s1" "pt_dirs s \<subseteq> pt_dirs s1" "pt_basename s1 = ?base" "pt_fe s1 = pt_fe s"
      "pt_names s1 = pt_names s"
    using s1 sorted_dir_exists assms(1) by (auto split: if_splits)
  obtain state1 s2 where s2: "(if ?sorts then sorted_dir pc dmax (sort_savestates st) (sort_savestates_by_content st)
      ?core ?cd ?state s1 else (?state, s1)) = (state1, s2)" by force
  have "?state \<in> pt_dirs s1" using k1(2) assms(2) by blast
  then have k2: "state1 \<in> pt_dirs s2" "pt_dirs s1 \<subseteq> pt_dirs s2" "pt_basename s2 = ?base" "pt_fe s2 = pt_fe s"
      "pt_names s2 = pt_names s"
    using s2 sorted_dir_exists k1(3,4,5) by (auto split: if_splits)
  obtain save2 s3 where s3: "netplay_dir b pc dmax save1 s2 = (save2, s3)" by force
  have "save1 \<in> pt_dirs s2" using k1(1) k2(2) by blast
  note np = netplay_dir_exists [OF s3 this]
  have k3: "pt_dirs s2 \<subseteq> pt_dirs s3" "pt_basename s3 = ?base" "pt_fe s3 = pt_fe s" using np k2 by auto
  have st3: "state1 \<in> pt_dirs s3" "save1 \<in> pt_dirs s3" using k2(1) k3(1) \<open>save1 \<in> pt_dirs s2\<close> by blast+
  have nc: "named_core s3 = named_core s" using k3(3) by (simp add: named_core_def)
  have s': "s' = (if named_core s = None then s3 else redirect_names b pc ?core save2 state1 s3)
      \<lparr>pt_current_savefile_dir := save2, pt_current_savestate_dir := state1\<rparr>"
    by (simp only: assms(3) runloop_path_set_redirect_def Let_def s1 s2 s3 prod.case nc)
  have d': "pt_dirs s' = pt_dirs s3" "pt_current_savefile_dir s' = save2" "pt_current_savestate_dir s' = state1"
    by (simp_all add: s' redirect_names_def upd_names_def Let_def)
  have "save2 \<in> pt_dirs s' \<or> (\<exists>dir \<in> pt_dirs s'. netplay_refused b pc dmax dir s'
      \<and> save2 = pc_basedir pc (fill_pathname_join pc dmax dir ''.netplay''))"
    using np(1) st3(2) d'(1) by (auto simp: netplay_refused_def)
  moreover have "nm_savestate (pt_names s') = file_in_dir pc s core (pc_state_extension pc) (strlcpy (pc_size pc) state1)
      \<and> (save2 \<in> pt_dirs s' \<longrightarrow> nm_savefile (pt_names s') = file_in_dir pc s (case custom_save_dir pc of None \<Rightarrow> core | Some d \<Rightarrow> [])
           (case custom_save_ext pc of None \<Rightarrow> pc_srm_extension pc | Some e \<Rightarrow> e) (strlcpy (pc_size pc) save2))"
    if "named_core s = Some core" for core
    using st3(1) k3(2) that
    by (simp add: s' redirect_names_def upd_names_def file_in_dir_def Let_def split: option.split)
  ultimately show ?thesis using st3(1) by (simp add: d')
qed

subsection \<open>Content without an extension\<close>

lemma cut_last_dot_dir:
  assumes "CHR ''.'' \<notin> set n" and "CHR ''.'' \<in> set d"
  shows "cut_last_dot (d @ CHR ''/'' # n) = cut_last_dot d"
proof -
  have "dropWhile (\<lambda>c. c \<noteq> CHR ''.'') (rev n @ CHR ''/'' # rev d) = dropWhile (\<lambda>c. c \<noteq> CHR ''.'') (rev d)"
    using assms(1) by (subst dropWhile_append2) auto
  then show ?thesis using assms by (simp add: cut_last_dot_def)
qed

text \<open>The documented effect of splitting a path and putting it together again.\<close>

definition splits_path :: "path_code \<Rightarrow> string \<Rightarrow> string \<Rightarrow> bool" where
  "splits_path pc d n \<longleftrightarrow>
     pc_basedir_wrapper pc (d @ CHR ''/'' # n) = d @ ''/''
     \<and> fill_pathname_dir pc (pc_size pc) (d @ ''/'') (d @ CHR ''/'' # n) [] = d @ CHR ''/'' # n"

text \<open>
  Content files without an extension share their names when a directory above them has a dot.
  The last dot of the whole path is taken for that of an extension; so two different files without
  a dot in such a directory get the same base name, which names neither of them, and with it the
  same save and state files.
\<close>

theorem dotted_directory_shares_names:
  assumes "\<And>n. n \<in> {m1, m2} \<Longrightarrow> CHR ''.'' \<notin> set n \<and> length (d @ CHR ''/'' # n) < pc_size pc"
    and "CHR ''.'' \<in> set d" and "\<And>n. n \<in> {m1, m2} \<Longrightarrow> pb_compression b \<Longrightarrow> splits_path pc d n"
    and "m1 \<noteq> m2"
    and "\<And>m. s m = runloop_path_set_names b pc (runloop_path_set_basename b pc (d @ CHR ''/'' # m) s0)"
    and "\<not> save_path_overridden pc" and "\<not> state_path_overridden pc"
  shows "d @ CHR ''/'' # m1 \<noteq> d @ CHR ''/'' # m2
    \<and> nm_savefile (pt_names (s m1)) = nm_savefile (pt_names (s m2))
    \<and> nm_savestate (pt_names (s m1)) = nm_savestate (pt_names (s m2))"
proof -
  have "content_basename b pc (d @ CHR ''/'' # n) = cut_last_dot d" if "n \<in> {m1, m2}" for n
    using assms(1) [OF that] assms(2) assms(3) [OF that]
    by (simp add: splits_path_def content_basename_def strlcpy_fits cut_last_dot_dir Let_def)
  then show ?thesis
    using assms(4-7)
    by (simp add: runloop_path_set_names_def runloop_path_set_basename_def upd_names_def Let_def)
qed

subsection \<open>An example\<close>

definition example_paths :: path_code where
  "example_paths = \<lparr>pc_size = 4096, pc_name_size = 256, fill_pathname = (\<lambda>n p e. strlcpy n (p @ e)),
     fill_pathname_dir = (\<lambda>n d p e. strlcpy n (d @ ''/'' @ p @ e)),
     fill_pathname_join = (\<lambda>n d p. strlcpy n (d @ ''/'' @ p)),
     fill_pathname_join_special = (\<lambda>n d p. strlcpy n (d @ ''/'' @ p)),
     fill_pathname_join_delim = (\<lambda>n a b c. strlcpy n (a @ [c] @ b)),
     fill_pathname_basedir = (\<lambda>n p. ''/''), fill_pathname_parent_dir = (\<lambda>n p. ''content''),
     pc_basedir_wrapper = id, pc_basedir = id, pc_basename = id, can_mkdir = (\<lambda>_. True),
     save_path_overridden = False, state_path_overridden = False, custom_save_dir = None,
     custom_save_ext = None, pc_srm_extension = ''.srm'', pc_state_extension = ''.state'',
     pc_replay_extension = ''.replay'', pc_cheat_extension = ''.cht'', no_core_label = [],
     netplay_client_saves = False, subsystem_memory = (\<lambda>_. None)\<rparr>"

definition client_paths :: path_code where
  "client_paths = example_paths\<lparr>netplay_client_saves := True\<rparr>"

definition example_path_build :: path_build where
  "example_path_build = \<lparr>pb_compression = False, pb_menu = True, pb_networking = True, pb_cheats = True,
     pb_bsv_movie = False, pb_cheevos = False, pb_threads = True\<rparr>"

definition example_path_state :: path_state where
  "example_path_state = \<lparr>pt_fe = zero_frontend,
     pt_names = \<lparr>nm_savefile = [], nm_savestate = ''/saves/game.state'', nm_replay = [], nm_cheatfile = [],
       nm_ups = [], nm_bps = [], nm_ips = [], nm_xdelta = []\<rparr>,
     pt_basename = ''/roms/game'', pt_savestate_dir = [], pt_subsystem = None, pt_saves = [],
     pt_movie_auto = [], pt_runtime_content = [], pt_runtime_core = [], pt_entry_slot = - 1,
     pt_current_savefile_dir = [], pt_current_savestate_dir = [], pt_dirs = {''/saves''}, pt_log = []\<rparr>"

definition example_path_settings :: path_settings where
  "example_path_settings = \<lparr>sort_savefiles = True, sort_savefiles_by_content = False, sort_savestates = True,
     sort_savestates_by_content = True, savefiles_in_content_dir = False, savestates_in_content_dir = False,
     ps_state_slot = 0, ps_cheevos_enable = False, ps_cheevos_hardcore = False, ps_savestate_auto_load = False\<rparr>"

theorem slot_files_distinct_witness:
  "runloop_get_savestate_path example_paths 4096 (- 1) example_path_state
     \<noteq> runloop_get_savestate_path example_paths 4096 999 example_path_state"
proof -
  have "joins_delim example_paths" by (simp add: joins_delim_def example_paths_def)
  moreover have "nm_savestate (pt_names example_path_state) \<noteq> []"
      "length (nm_savestate (pt_names example_path_state)) + 9 < 4096"
    by (simp_all add: example_path_state_def)
  ultimately show ?thesis
    using slot_files_distinct [of example_paths example_path_state 4096 "- 1" 999 0] by simp
qed

text \<open>A client of netplay whose directories can be made.\<close>

theorem redirection_into_existing_witness:
  "let t = runloop_path_set_redirect example_path_build client_paths 4096 example_path_settings ''/saves'' ''/saves''
      (example_path_state\<lparr>pt_fe := zero_frontend\<lparr>sys := zero_sys\<lparr>si_library_name := Some ''core''\<rparr>\<rparr>\<rparr>)
   in pt_current_savestate_dir t \<in> pt_dirs t \<and> pt_current_savefile_dir t \<in> pt_dirs t"
proof -
  let ?s = "example_path_state\<lparr>pt_fe := zero_frontend\<lparr>sys := zero_sys\<lparr>si_library_name := Some ''core''\<rparr>\<rparr>\<rparr>"
  have "chosen_dir client_paths 4096 (pt_basename ?s) (savefiles_in_content_dir example_path_settings) ''/saves''
      \<in> pt_dirs ?s"
    "chosen_dir client_paths 4096 (pt_basename ?s) (savestates_in_content_dir example_path_settings) ''/saves''
      \<in> pt_dirs ?s"
    by (simp_all add: chosen_dir_def strlcpy_fits example_path_settings_def example_path_state_def)
  moreover have "\<not> netplay_refused b client_paths n dir t" for b n dir t
    by (simp add: netplay_refused_def client_paths_def example_paths_def)
  ultimately show ?thesis
    using redirection_into_existing [of client_paths 4096 ?s example_path_settings "''/saves''" "''/saves''"
        _ example_path_build] unfolding Let_def by blast
qed

theorem dotted_directory_shares_names_witness:
  "nm_savefile (pt_names (runloop_path_set_names example_path_build example_paths
      (runloop_path_set_basename example_path_build example_paths ''/v1.0/doom'' example_path_state)))
   = nm_savefile (pt_names (runloop_path_set_names example_path_build example_paths
      (runloop_path_set_basename example_path_build example_paths ''/v1.0/quake'' example_path_state)))"
proof -
  let ?s = "\<lambda>m. runloop_path_set_names example_path_build example_paths
      (runloop_path_set_basename example_path_build example_paths (''/v1.0'' @ CHR ''/'' # m) example_path_state)"
  have "n \<in> {''doom'', ''quake''} \<Longrightarrow> CHR ''.'' \<notin> set n \<and> length (''/v1.0'' @ CHR ''/'' # n) < pc_size example_paths" for n
    by (auto simp: example_paths_def)
  moreover have "\<not> pb_compression example_path_build" by (simp add: example_path_build_def)
  ultimately show ?thesis
    using dotted_directory_shares_names [of "''doom''" "''quake''" "''/v1.0''" example_paths example_path_build
        ?s example_path_state]
    by (simp add: example_paths_def)
qed

end
