(* ===== verification/Config_File.thy ===== *)
theory Config_File
  imports Keybinds
begin

text \<open>
  The data of \<open>configuration.c\<close>: the store of settings, the tables that tie settings to
  keys, configuration files, and what the configuration code obtains from outside.

  A field of \<open>settings_t\<close> is named by its key in the tables, and one that is in no table by
  its C name.  Configuration files are objects of the base library, which is outside the
  repository: a type \<open>'c\<close> with the operations of \<open>conf_code\<close>.  The contract of these
  operations is \<open>conf_ok\<close>.
\<close>

subsection \<open>Settings\<close>

record store =
  sv_bool :: "string \<Rightarrow> bool"
  sv_int :: "string \<Rightarrow> int"
  sv_uint :: "string \<Rightarrow> u32"
  sv_size :: "string \<Rightarrow> size_t"
  sv_float :: "string \<Rightarrow> rat"
  sv_array :: "string \<Rightarrow> string"
  sv_path :: "string \<Rightarrow> string"
  sv_modified :: bool
  sv_skip_window :: bool

text \<open>An entry of a table: its key, the option of the command line that overrides it, two flags.\<close>

record entry =
  en_ident :: string
  en_override :: "string option"
  en_default :: bool
  en_handle :: bool

record tables =
  tb_bool :: "entry list"
  tb_int :: "entry list"
  tb_uint :: "entry list"
  tb_size :: "entry list"
  tb_float :: "entry list"
  tb_array :: "entry list"
  tb_path :: "entry list"

subsection \<open>Configuration files\<close>

text \<open>
  \<open>cf_append c d\<close> adds the entries of the file \<open>d\<close>; \<open>cf_write\<close> returns whether it
  succeeded and the new content of the file if it was written.
\<close>

record 'c conf_code =
  cf_new :: "'c option"
  cf_append :: "'c \<Rightarrow> 'c \<Rightarrow> 'c"
  cf_write :: "'c \<Rightarrow> string \<Rightarrow> bool \<times> 'c option"
  cf_modified :: "'c \<Rightarrow> bool"
  cf_has :: "'c \<Rightarrow> string \<Rightarrow> bool"
  cf_unset :: "'c \<Rightarrow> string \<Rightarrow> 'c"
  set_string :: "'c \<Rightarrow> string \<Rightarrow> string \<Rightarrow> 'c"
  set_path :: "'c \<Rightarrow> string \<Rightarrow> string \<Rightarrow> 'c"
  set_int :: "'c \<Rightarrow> string \<Rightarrow> int \<Rightarrow> 'c"
  set_float :: "'c \<Rightarrow> string \<Rightarrow> rat \<Rightarrow> 'c"
  set_hex :: "'c \<Rightarrow> string \<Rightarrow> u32 \<Rightarrow> 'c"
  get_bool :: "'c \<Rightarrow> string \<Rightarrow> bool option"
  get_int :: "'c \<Rightarrow> string \<Rightarrow> int option"
  get_uint :: "'c \<Rightarrow> string \<Rightarrow> u32 option"
  get_size :: "'c \<Rightarrow> string \<Rightarrow> size_t option"
  get_float :: "'c \<Rightarrow> string \<Rightarrow> rat option"
  get_hex :: "'c \<Rightarrow> string \<Rightarrow> u32 option"
  get_array :: "'c \<Rightarrow> string \<Rightarrow> nat \<Rightarrow> string option"
  get_path :: "'c \<Rightarrow> string \<Rightarrow> nat \<Rightarrow> string option"

subsection \<open>The state\<close>

text \<open>
  \<open>cg_global\<close> are the buffers outside \<open>settings_t\<close> to which some entries of the table of
  paths point; \<open>cg_disk\<close> holds the configuration files that can be read; \<open>cg_overridden\<close> the settings
  that the command line overrides; \<open>cg_flags\<close> and \<open>cg_paths\<close> the flags and paths of the
  frontend, the latter by their enumerators; \<open>cg_calls\<close> what is called outside, in order.
\<close>

record 'c config =
  cg_store :: store
  cg_global :: "string \<Rightarrow> string"
  cg_disk :: "string \<rightharpoonup> 'c"
  cg_overridden :: "string set"
  cg_flags :: "runloop_flag set"
  cg_running :: bool
  cg_paths :: "string \<Rightarrow> string"
  cg_savefile :: string
  cg_savestate :: string
  cg_replay :: string
  cg_verbose :: bool
  cg_log_level :: u32
  cg_perfcnt :: bool
  cg_binds :: "keybind list list"
  cg_calls :: "string list"

record config_build =
  cb_menu :: bool
  cb_rgui :: bool
  cb_overlay :: bool
  cb_cheevos :: bool
  cb_networkgamepad :: bool
  cb_audiomixer :: bool
  cb_wasapi :: bool
  cb_ios :: bool

text \<open>
  What is outside: path functions of the base library, the environment of the process, default
  directories, constants of headers.  \<open>co_read_binds\<close> is \<open>config_read_keybinds_conf\<close>, and
  \<open>co_garbage\<close> what the two buffers of the overlay paths hold before they are written.
\<close>

record 'c config_outside =
  co_conf :: "'c conf_code"
  co_bind_env :: "'c bind_env"
  co_macros :: bind_macros
  co_tables :: tables
  co_read_binds :: "'c \<Rightarrow> keybind list list \<Rightarrow> keybind list list"
  co_users :: nat
  co_leds :: nat
  co_path_max :: nat
  co_getenv :: "string \<Rightarrow> string option"
  co_username_set :: bool
  co_is_directory :: "string \<Rightarrow> bool"
  co_mkdir :: "string \<Rightarrow> bool"
  co_resolve_relative :: "string \<Rightarrow> string \<Rightarrow> string"
  co_join :: "string \<Rightarrow> string \<Rightarrow> string"
  co_join_ext :: "string \<Rightarrow> string \<Rightarrow> string \<Rightarrow> string \<Rightarrow> string"
  co_dir_name :: "string \<Rightarrow> string \<Rightarrow> string \<Rightarrow> string"
  co_parent_dir :: "string \<Rightarrow> string"
  co_parent_dir_name :: "string \<Rightarrow> string"
  co_basename :: "string \<Rightarrow> string"
  co_config_dir :: string
  co_default_dir :: "string \<Rightarrow> string"
  co_constant :: "string \<Rightarrow> string"
  co_limit :: "string \<Rightarrow> u32"
  co_app_data :: "string option"
  co_global_config_dir :: string
  co_basedir :: "string \<Rightarrow> string"
  co_gamemode :: "bool \<Rightarrow> bool"
  co_has_gamemode :: bool
  co_delete :: "string \<Rightarrow> bool"
  co_garbage :: "string \<times> string"

subsection \<open>Steps\<close>

abbreviation upd_store :: "(store \<Rightarrow> store) \<Rightarrow> 'c config \<Rightarrow> 'c config" where
  "upd_store f s \<equiv> s\<lparr>cg_store := f (cg_store s)\<rparr>"

definition cg_call :: "string \<Rightarrow> 'c config \<Rightarrow> 'c config" where
  "cg_call f s = s\<lparr>cg_calls := cg_calls s @ [f]\<rparr>"

definition set_path_of :: "string \<Rightarrow> string \<Rightarrow> 'c config \<Rightarrow> 'c config" where
  "set_path_of k p s = s\<lparr>cg_paths := (cg_paths s)(k := p)\<rparr>"

text \<open>The macros \<open>configuration_set_\<close> mark the settings as modified.\<close>

definition conf_set_bool :: "string \<Rightarrow> bool \<Rightarrow> 'c config \<Rightarrow> 'c config" where
  "conf_set_bool k v = upd_store (\<lambda>t. t\<lparr>sv_bool := (sv_bool t)(k := v), sv_modified := True\<rparr>)"

definition conf_set_float :: "string \<Rightarrow> rat \<Rightarrow> 'c config \<Rightarrow> 'c config" where
  "conf_set_float k v = upd_store (\<lambda>t. t\<lparr>sv_float := (sv_float t)(k := v), sv_modified := True\<rparr>)"

definition conf_set_uint :: "string \<Rightarrow> u32 \<Rightarrow> 'c config \<Rightarrow> 'c config" where
  "conf_set_uint k v = upd_store (\<lambda>t. t\<lparr>sv_uint := (sv_uint t)(k := v), sv_modified := True\<rparr>)"

definition conf_set_path :: "string \<Rightarrow> string \<Rightarrow> 'c config \<Rightarrow> 'c config" where
  "conf_set_path k v = upd_store (\<lambda>t. t\<lparr>sv_path := (sv_path t)(k := v), sv_modified := True\<rparr>)"

definition conf_set_array :: "string \<Rightarrow> string \<Rightarrow> 'c config \<Rightarrow> 'c config" where
  "conf_set_array k v = upd_store (\<lambda>t. t\<lparr>sv_array := (sv_array t)(k := v), sv_modified := True\<rparr>)"

text \<open>Paths by their key, wherever the table points to.\<close>

definition global_paths :: "string set" where
  "global_paths = {''savefile_directory'', ''savestate_directory'',
     ''recording_output_directory'', ''recording_config_directory''}"

definition path_values :: "'c config \<Rightarrow> string \<Rightarrow> string" where
  "path_values s k = (if k \<in> global_paths then cg_global s k else sv_path (cg_store s) k)"

definition put_path_values :: "(string \<Rightarrow> string) \<Rightarrow> 'c config \<Rightarrow> 'c config" where
  "put_path_values v s =
     upd_store (\<lambda>t. t\<lparr>sv_path := (\<lambda>k. if k \<in> global_paths then sv_path t k else v k)\<rparr>)
       (s\<lparr>cg_global := (\<lambda>k. if k \<in> global_paths then v k else cg_global s k)\<rparr>)"

text \<open>Reading or writing every key of a table in order; \<open>None\<close>: the file has no such value.\<close>

definition load_keys :: "(string \<Rightarrow> 'v option) \<Rightarrow> string list \<Rightarrow> (string \<Rightarrow> 'v) \<Rightarrow> string \<Rightarrow> 'v" where
  "load_keys get ks v = fold (\<lambda>k v. case get k of None \<Rightarrow> v | Some x \<Rightarrow> v(k := x)) ks v"

definition save_keys :: "('c \<Rightarrow> string \<Rightarrow> 'v \<Rightarrow> 'c) \<Rightarrow> string list \<Rightarrow> (string \<Rightarrow> 'v) \<Rightarrow> 'c \<Rightarrow> 'c" where
  "save_keys put ks v c = fold (\<lambda>k c. put c k (v k)) ks c"

definition idents :: "entry list \<Rightarrow> string list" where
  "idents es = map en_ident es"

text \<open>The entries that the command line does not override.\<close>

definition not_overridden :: "string set \<Rightarrow> entry list \<Rightarrow> entry list" where
  "not_overridden over es =
     filter (\<lambda>e. case en_override e of None \<Rightarrow> True | Some x \<Rightarrow> x \<notin> over) es"

text \<open>The keys of a user, counted from 1.\<close>

definition user_key :: "string \<Rightarrow> nat \<Rightarrow> string \<Rightarrow> string" where
  "user_key a i b = a @ show_nat (i + 1) @ b"

definition player_suffixes :: "string list" where
  "player_suffixes = [''_mouse_index'', ''_joypad_index'', ''_analog_dpad_mode'', ''_device_reservation_type'']"

definition player_keys :: "nat \<Rightarrow> string list" where
  "player_keys users = concat (map (\<lambda>i. map (user_key ''input_player'' i) player_suffixes) [0..<users])"

definition remote_keys :: "nat \<Rightarrow> string list" where
  "remote_keys users = map (\<lambda>i. user_key ''network_remote_enable_user_p'' i []) [0..<users]"

end
