(* ===== verification/Config_Load.thy ===== *)
theory Config_Load
  imports Config_File
begin

unbundle bit_operations_syntax

text \<open>
  Loading a configuration (\<open>config_load_file\<close>): the file, the files that are appended to it,
  the values of the tables, and what is made of them afterwards.  The code for game consoles,
  Lakka and the Switch is left out, as is the log.
\<close>

subsection \<open>Finding the file\<close>

definition set_new_config :: "'c config_outside \<Rightarrow> string \<Rightarrow> 'c \<Rightarrow> 'c config \<Rightarrow> 'c option \<times> 'c config" where
  "set_new_config e p c s =
     (let c1 = set_string (co_conf e) c ''config_save_on_exit'' ''true''
      in case cf_write (co_conf e) c1 p of
           (ok, content) \<Rightarrow>
             let s1 = (case content of None \<Rightarrow> s | Some d \<Rightarrow> s\<lparr>cg_disk := (cg_disk s)(p \<mapsto> d)\<rparr>)
             in if ok then (Some c1, set_path_of ''RARCH_PATH_CONFIG'' p s1) else (None, s1))"

text \<open>In the data directory of the application, in the home directory, or a new one.\<close>

definition open_default_config_file :: "'c config_outside \<Rightarrow> 'c config \<Rightarrow> 'c option \<times> 'c config" where
  "open_default_config_file e s =
     (let main = co_constant e ''FILE_PATH_MAIN_CONFIG'';
          in_data = map_option (\<lambda>d. co_join e d main) (co_app_data e);
          in_home = map_option (\<lambda>h. co_join e h (CHR ''.'' # main)) (co_getenv e ''HOME'');
          found = (\<lambda>p. Option.bind p (\<lambda>q. map_option (\<lambda>c. (c, q)) (cg_disk s q)))
      in case (case found in_data of Some r \<Rightarrow> Some r | None \<Rightarrow> found in_home) of
           Some (c, p) \<Rightarrow> (Some c, set_path_of ''RARCH_PATH_CONFIG'' p s)
         | None \<Rightarrow>
             (case co_app_data e of
                None \<Rightarrow> (None, s)
              | Some d \<Rightarrow>
                  if \<not> co_mkdir e (co_basedir e d) then (None, s)
                  else (case cg_disk s (co_join e (co_global_config_dir e) main) of
                          Some c \<Rightarrow> set_new_config e (co_join e d main) c s
                        | None \<Rightarrow>
                            (case cf_new (co_conf e) of
                               None \<Rightarrow> (None, s)
                             | Some c \<Rightarrow> set_new_config e (co_join e d main) c s))))"

definition check_verbosity_settings :: "'c config_outside \<Rightarrow> 'c \<Rightarrow> 'c config \<Rightarrow> 'c config" where
  "check_verbosity_settings e c s =
     (let cf = co_conf e;
          s1 = (if ''RARCH_OVERRIDE_SETTING_LOG_TO_FILE'' \<in> cg_overridden s then conf_set_bool ''log_to_file'' True s
                else case get_bool cf c ''log_to_file'' of None \<Rightarrow> s | Some v \<Rightarrow> conf_set_bool ''log_to_file'' v s);
          s2 = (case get_uint cf c ''frontend_log_level'' of None \<Rightarrow> s1 | Some n \<Rightarrow> s1\<lparr>cg_log_level := n\<rparr>)
      in if ''RARCH_OVERRIDE_SETTING_VERBOSITY'' \<in> cg_overridden s2 then s2\<lparr>cg_verbose := True\<rparr>
         else case get_bool cf c ''log_verbosity'' of None \<Rightarrow> s2 | Some v \<Rightarrow> s2\<lparr>cg_verbose := v\<rparr>)"

text \<open>Several files are given as one text with bars between the names.\<close>

fun bar_names :: "string \<Rightarrow> string \<Rightarrow> string list" where
  "bar_names w [] = (if w = [] then [] else [w])"
| "bar_names w (c # cs) =
     (if c = CHR ''|'' then (if w = [] then bar_names [] cs else w # bar_names [] cs)
      else bar_names (w @ [c]) cs)"

definition append_files :: "'c config_outside \<Rightarrow> 'c config \<Rightarrow> string \<Rightarrow> 'c \<Rightarrow> 'c" where
  "append_files e s names c =
     fold (\<lambda>p c. case cg_disk s p of None \<Rightarrow> c | Some d \<Rightarrow> cf_append (co_conf e) c d)
       (bar_names [] (strlcpy (co_path_max e) names)) c"

definition append_configs :: "'c config_outside \<Rightarrow> 'c \<Rightarrow> 'c config \<Rightarrow> 'c \<times> 'c config" where
  "append_configs e c s =
     (let names = cg_paths s ''RARCH_PATH_CONFIG_APPEND''
      in if names = [] then (c, s)
         else let c1 = append_files e s names c in (c1, check_verbosity_settings e c1 s))"

text \<open>The overlay's path is compared before and after; the buffers are not initialised.\<close>

definition append_overrides ::
    "config_build \<Rightarrow> 'c config_outside \<Rightarrow> bool \<Rightarrow> 'c \<Rightarrow> 'c config \<Rightarrow> 'c \<times> 'c config" where
  "append_overrides b e without c s =
     (let names = cg_paths s ''RARCH_PATH_CONFIG_OVERRIDE''
      in if names = [] \<or> without then (c, s)
         else let c1 = append_files e s names c;
                  s1 = check_verbosity_settings e c1 s;
                  overlay = (\<lambda>c garbage. case get_path (co_conf e) c ''input_overlay'' (co_path_max e) of
                                None \<Rightarrow> garbage | Some p \<Rightarrow> p)
              in (c1, if cb_overlay b \<and> overlay c (fst (co_garbage e)) \<noteq> overlay c1 (snd (co_garbage e))
                      then s1\<lparr>cg_overridden := insert ''RARCH_OVERRIDE_SETTING_OVERLAY_PRESET'' (cg_overridden s1)\<rparr>
                      else s1))"

subsection \<open>The values of the tables\<close>

definition load_bools :: "config_build \<Rightarrow> 'c config_outside \<Rightarrow> 'c \<Rightarrow> 'c config \<Rightarrow> 'c config" where
  "load_bools b e c s =
     (let get = get_bool (co_conf e) c;
          s1 = upd_store (\<lambda>t. t\<lparr>sv_bool := load_keys get (idents (tb_bool (co_tables e))) (sv_bool t)\<rparr>) s
      in if cb_networkgamepad b
         then upd_store (\<lambda>t. t\<lparr>sv_bool := load_keys get (remote_keys (co_users e)) (sv_bool t),
                sv_modified := sv_modified t \<or> (\<exists>k \<in> set (remote_keys (co_users e)). get k \<noteq> None)\<rparr>) s1
         else s1)"

text \<open>Unsigned settings are read as signed numbers.\<close>

definition get_as_uint :: "'c conf_code \<Rightarrow> 'c \<Rightarrow> string \<Rightarrow> u32 option" where
  "get_as_uint cf c k = map_option word_of_int (get_int cf c k)"

definition load_ints :: "'c config_outside \<Rightarrow> 'c \<Rightarrow> store \<Rightarrow> store" where
  "load_ints e c t =
     t\<lparr>sv_int := load_keys (get_int (co_conf e) c) (idents (tb_int (co_tables e))) (sv_int t),
       sv_uint := load_keys (get_as_uint (co_conf e) c) (idents (tb_uint (co_tables e))) (sv_uint t)\<rparr>"

text \<open>A rewind buffer below 10000 is meant in megabytes; the test is made whatever was read.\<close>

definition load_size :: "'c conf_code \<Rightarrow> 'c \<Rightarrow> string \<Rightarrow> (string \<Rightarrow> size_t) \<Rightarrow> string \<Rightarrow> size_t" where
  "load_size cf c k v =
     (let v1 = (case get_size cf c k of None \<Rightarrow> v | Some n \<Rightarrow> v(k := n))
      in if k = ''rewind_buffer_size'' \<and> v1 k < 10000 then v1(k := v1 k * 1024 * 1024) else v1)"

definition load_sizes :: "'c config_outside \<Rightarrow> 'c \<Rightarrow> store \<Rightarrow> store" where
  "load_sizes e c t = t\<lparr>sv_size := fold (load_size (co_conf e) c) (idents (tb_size (co_tables e))) (sv_size t)\<rparr>"

definition led_keys :: "nat \<Rightarrow> string list" where
  "led_keys leds = map (\<lambda>i. user_key ''led'' i ''_map'') [0..<leds]"

definition load_devices :: "'c config_outside \<Rightarrow> 'c \<Rightarrow> store \<Rightarrow> store" where
  "load_devices e c t =
     (let get = get_as_uint (co_conf e) c;
          v1 = load_keys get (player_keys (co_users e)) (sv_uint t);
          v2 = (\<lambda>k. if k \<in> set (led_keys (co_leds e)) then - 1 else v1 k)
      in t\<lparr>sv_uint := load_keys get (led_keys (co_leds e)) v2\<rparr>)"

definition color_part :: "nat \<Rightarrow> u32 \<Rightarrow> rat" where
  "color_part shift color = of_nat (unat (drop_bit shift color AND 255)) / 255"

definition load_color :: "'c config_outside \<Rightarrow> 'c \<Rightarrow> store \<Rightarrow> store" where
  "load_color e c t =
     (case get_hex (co_conf e) c ''video_message_color'' of
        None \<Rightarrow> t
      | Some m \<Rightarrow> t\<lparr>sv_float := (sv_float t)(''video_msg_color_r'' := color_part 16 m,
                     ''video_msg_color_g'' := color_part 8 m, ''video_msg_color_b'' := color_part 0 m)\<rparr>)"

definition load_floats :: "'c config_outside \<Rightarrow> 'c \<Rightarrow> store \<Rightarrow> store" where
  "load_floats e c t =
     t\<lparr>sv_float := load_keys (get_float (co_conf e) c) (idents (tb_float (co_tables e))) (sv_float t)\<rparr>"

definition handled :: "entry list \<Rightarrow> string list" where
  "handled es = idents (filter en_handle es)"

definition load_arrays :: "'c config_outside \<Rightarrow> 'c \<Rightarrow> store \<Rightarrow> store" where
  "load_arrays e c t =
     t\<lparr>sv_array := load_keys (\<lambda>k. get_array (co_conf e) c k (co_path_max e)) (handled (tb_array (co_tables e)))
                     (sv_array t)\<rparr>"

definition load_paths :: "config_build \<Rightarrow> 'c config_outside \<Rightarrow> 'c \<Rightarrow> 'c config \<Rightarrow> 'c config" where
  "load_paths b e c s =
     (let get = (\<lambda>k. get_path (co_conf e) c k (co_path_max e));
          s1 = put_path_values (load_keys get (handled (tb_path (co_tables e))) (path_values s)) s
      in if cb_ios b then s1
         else case get ''libretro_directory'' of None \<Rightarrow> s1 | Some p \<Rightarrow> conf_set_path ''libretro_directory'' p s1)"

definition load_values :: "config_build \<Rightarrow> 'c config_outside \<Rightarrow> 'c \<Rightarrow> 'c config \<Rightarrow> 'c config" where
  "load_values b e c s =
     load_paths b e c
       (upd_store (\<lambda>t. load_arrays e c (load_floats e c (load_color e c
          (load_devices e c (load_sizes e c (load_ints e c t))))))
         (load_bools b e c s))"

end
