(* ===== verification/Config_Apply.thy ===== *)
theory Config_Apply
  imports Config_Load
begin

text \<open>
  What \<open>config_load_file\<close> does with the values once they are read: variables of the
  environment, limits, names of the playlists, the text \<open>default\<close> that stands for an empty
  path, old forms of settings, and the directories of saves and states.
\<close>

subsection \<open>Environment and limits\<close>

definition from_env :: "'c config_outside \<Rightarrow> string \<Rightarrow> string list \<Rightarrow> 'c config \<Rightarrow> 'c config" where
  "from_env e var ks s =
     (case co_getenv e var of
        None \<Rightarrow> s
      | Some v \<Rightarrow> fold (\<lambda>k. conf_set_path k (strlcpy (co_path_max e) v)) ks s)"

text \<open>The name of the user is kept from before the file was read if the command line gave it.\<close>

definition apply_environment :: "'c config_outside \<Rightarrow> string \<Rightarrow> 'c config \<Rightarrow> 'c config" where
  "apply_environment e user s =
     (let s1 = from_env e ''LIBRETRO_DIRECTORY'' [''libretro_directory'', ''libretro_info_path''] s;
          s2 = from_env e ''LIBRETRO_AUTOCONFIG_DIRECTORY'' [''joypad_autoconfig_dir''] s1;
          s3 = from_env e ''LIBRETRO_CHEATS_DIRECTORY'' [''cheat_database_path''] s2;
          s4 = from_env e ''LIBRETRO_DATABASE_DIRECTORY'' [''content_database_path''] s3;
          s5 = from_env e ''LIBRETRO_SYSTEM_DIRECTORY'' [''system_directory''] s4
      in if co_username_set e then conf_set_path ''netplay_nickname'' user s5 else s5)"

definition at_most :: "u32 \<Rightarrow> string \<Rightarrow> (string \<Rightarrow> u32) \<Rightarrow> string \<Rightarrow> u32" where
  "at_most m k v = (if m < v k then v(k := m) else v)"

definition at_least :: "u32 \<Rightarrow> string \<Rightarrow> (string \<Rightarrow> u32) \<Rightarrow> string \<Rightarrow> u32" where
  "at_least m k v = (if v k < m then v(k := m) else v)"

definition clamp_uints :: "config_build \<Rightarrow> 'c config_outside \<Rightarrow> (string \<Rightarrow> u32) \<Rightarrow> string \<Rightarrow> u32" where
  "clamp_uints b e v =
     (let lim = co_limit e;
          v1 = at_most (lim ''MAXIMUM_HARD_SYNC_FRAMES'') ''video_hard_sync_frames'' v;
          v2 = at_least (lim ''MINIMUM_MAX_SWAPCHAIN_IMAGES'') ''video_max_swapchain_images'' v1;
          v3 = at_most (lim ''MAXIMUM_MAX_SWAPCHAIN_IMAGES'') ''video_max_swapchain_images'' v2;
          v4 = at_most (lim ''MAXIMUM_FRAME_DELAY'') ''video_frame_delay'' v3;
          v5 = at_most 4 ''video_swap_interval'' (at_least 0 ''video_swap_interval'' v4)
      in if cb_wasapi b \<and> sint (v5 ''audio_wasapi_sh_buffer_length'') < 0
         then v5(''audio_wasapi_sh_buffer_length'' := 0) else v5)"

definition apply_limits :: "config_build \<Rightarrow> 'c config_outside \<Rightarrow> 'c config \<Rightarrow> 'c config" where
  "apply_limits b e s =
     (let s1 = cg_call ''AUDIO_ACTION_VOLUME_GAIN''
                 (upd_store (\<lambda>t. t\<lparr>sv_uint := clamp_uints b e (sv_uint t)\<rparr>) s)
      in if cb_audiomixer b then cg_call ''AUDIO_ACTION_MIXER_VOLUME_GAIN'' s1 else s1)"

definition apply_midi :: "'c config_outside \<Rightarrow> 'c config \<Rightarrow> 'c config" where
  "apply_midi e s =
     (let off = (\<lambda>k d s. if sv_array (cg_store s) k = ''Off'' then conf_set_array k (co_constant e d) s else s)
      in off ''midi_output'' ''DEFAULT_MIDI_OUTPUT'' (off ''midi_input'' ''DEFAULT_MIDI_INPUT'' s))"

subsection \<open>Paths\<close>

definition put_path :: "string \<Rightarrow> string \<Rightarrow> store \<Rightarrow> store" where
  "put_path k v t = t\<lparr>sv_path := (sv_path t)(k := v)\<rparr>"

text \<open>The file of a playlist: beside the configuration file, or in its own directory.\<close>

definition playlist_path :: "'c config_outside \<Rightarrow> string \<Rightarrow> string \<times> string \<times> string \<Rightarrow> store \<Rightarrow> store" where
  "playlist_path e config_path names t =
     (case names of (k, dir, file) \<Rightarrow>
        let t1 = (if sv_path t k = [] then put_path dir ''default'' t else t);
            d = sv_path t1 dir
        in put_path k (if d = [] \<or> d = ''default'' then co_resolve_relative e config_path (co_constant e file)
                       else co_join e d (co_constant e file)) t1)"

definition playlists :: "(string \<times> string \<times> string) list" where
  "playlists =
     [(''content_favorites_path'', ''content_favorites_directory'', ''FILE_PATH_CONTENT_FAVORITES''),
      (''content_history_path'', ''content_history_directory'', ''FILE_PATH_CONTENT_HISTORY''),
      (''content_image_history_path'', ''content_image_history_directory'', ''FILE_PATH_CONTENT_IMAGE_HISTORY''),
      (''content_music_history_path'', ''content_music_history_directory'', ''FILE_PATH_CONTENT_MUSIC_HISTORY''),
      (''content_video_history_path'', ''content_video_directory'', ''FILE_PATH_CONTENT_VIDEO_HISTORY'')]"

definition apply_playlists :: "'c config_outside \<Rightarrow> string \<Rightarrow> store \<Rightarrow> store" where
  "apply_playlists e config_path t = fold (playlist_path e config_path) playlists t"

definition apply_screenshot :: "'c config_outside \<Rightarrow> store \<Rightarrow> store" where
  "apply_screenshot e t =
     (let d = sv_path t ''screenshot_directory''
      in if d = ''default'' \<or> \<not> co_is_directory e d then put_path ''screenshot_directory'' [] t else t)"

definition clear_default :: "string \<Rightarrow> store \<Rightarrow> store" where
  "clear_default k t = (if sv_path t k = ''default'' then put_path k [] t else t)"

definition env_or_default :: "'c config_outside \<Rightarrow> string \<Rightarrow> string \<Rightarrow> 'c config \<Rightarrow> 'c config" where
  "env_or_default e var k s =
     (if co_getenv e var \<noteq> None then from_env e var [k] s else upd_store (clear_default k) s)"

definition last_defaults :: "config_build \<Rightarrow> string list" where
  "last_defaults b =
     [''dynamic_wallpapers_directory'', ''thumbnails_directory'', ''playlist_directory'',
      ''content_favorites_directory'', ''content_history_directory'', ''content_image_history_directory'',
      ''content_music_history_directory'', ''content_video_directory'', ''runtime_log_directory'']
     @ (if cb_menu b then [''rgui_browser_directory'', ''rgui_config_directory''] else [])
     @ (if cb_overlay b then [''overlay_directory'', ''osk_overlay_directory''] else [])
     @ [''system_directory'']"

definition apply_defaults :: "config_build \<Rightarrow> 'c config_outside \<Rightarrow> 'c config \<Rightarrow> 'c config" where
  "apply_defaults b e s =
     (let s1 = upd_store (fold clear_default [''menu_wallpaper'', ''rgui_menu_theme_preset'']) s;
          s2 = env_or_default e ''LIBRETRO_VIDEO_SHADER_DIRECTORY'' ''video_shader_dir'' s1;
          s3 = env_or_default e ''LIBRETRO_VIDEO_FILTER_DIRECTORY'' ''video_filter_dir'' s2;
          s4 = upd_store (fold clear_default [''audio_filter_dir'', ''core_assets_directory'']) s3;
          s5 = env_or_default e ''LIBRETRO_ASSETS_DIRECTORY'' ''assets_directory'' s4
      in upd_store (fold clear_default (last_defaults b)) s5)"

definition apply_log_dir :: "'c config_outside \<Rightarrow> 'c config \<Rightarrow> 'c config" where
  "apply_log_dir e s =
     (if sv_path (cg_store s) ''log_dir'' \<noteq> ''default'' then s
      else let d = co_default_dir e ''DEFAULT_DIR_LOGS''
           in if d \<noteq> [] then conf_set_path ''log_dir'' d s else upd_store (put_path ''log_dir'' []) s)"

subsection \<open>Other settings\<close>

definition apply_ratios :: "'c config \<Rightarrow> 'c config" where
  "apply_ratios s =
     (let s1 = (if sv_float (cg_store s) ''slowmotion_ratio'' < 1 then conf_set_float ''slowmotion_ratio'' 1 s else s)
      in if sv_float (cg_store s1) ''fastforward_ratio'' < 0 then conf_set_float ''fastforward_ratio'' 0 s1 else s1)"

text \<open>The old setting of the leaderboards becomes four new ones and is then emptied.\<close>

definition lboard_flags :: "string \<Rightarrow> bool \<times> bool \<times> bool \<times> bool" where
  "lboard_flags v =
     (if v = ''true'' then (True, True, True, True)
      else if v = ''trackers'' then (False, True, False, True)
      else if v = ''notifications'' then (True, True, True, False)
      else (False, False, False, False))"

definition apply_leaderboards :: "config_build \<Rightarrow> store \<Rightarrow> store" where
  "apply_leaderboards b t =
     (let v = sv_array t ''cheevos_leaderboards_enable''
      in if \<not> cb_cheevos b \<or> v = [] then t
         else case lboard_flags v of (start, submit, cancel, trackers) \<Rightarrow>
           t\<lparr>sv_bool := (sv_bool t)(''cheevos_visibility_lboard_start'' := start,
                ''cheevos_visibility_lboard_submit'' := submit, ''cheevos_visibility_lboard_cancel'' := cancel,
                ''cheevos_visibility_lboard_trackers'' := trackers),
             sv_array := (sv_array t)(''cheevos_leaderboards_enable'' := [])\<rparr>)"

subsection \<open>Directories of saves and states\<close>

text \<open>What the file says about a directory: the default, a directory that exists, or nothing usable.\<close>

definition chosen_directory :: "'c config_outside \<Rightarrow> 'c \<Rightarrow> string \<Rightarrow> string \<Rightarrow> (bool \<times> string) option" where
  "chosen_directory e c k default_kind =
     (case get_path (co_conf e) c k (co_path_max e) of
        None \<Rightarrow> None
      | Some p \<Rightarrow> if p = ''default'' then Some (False, co_default_dir e default_kind)
                  else if co_is_directory e p then Some (True, p) else None)"

definition apply_save_dir :: "'c config_outside \<Rightarrow> 'c \<Rightarrow> 'c config \<Rightarrow> 'c config" where
  "apply_save_dir e c s =
     (if ''RARCH_OVERRIDE_SETTING_SAVE_PATH'' \<in> cg_overridden s then s
      else case chosen_directory e c ''savefile_directory'' ''DEFAULT_DIR_SRAM'' of
             None \<Rightarrow> s
           | Some (named, p) \<Rightarrow>
               let s1 = s\<lparr>cg_global := (cg_global s)(''savefile_directory'' := p)\<rparr>
               in if named then s1\<lparr>cg_savefile := co_dir_name e p (cg_paths s1 ''RARCH_PATH_BASENAME'')
                                     (co_constant e ''FILE_PATH_SRM_EXTENSION'')\<rparr> else s1)"

definition apply_state_dir :: "'c config_outside \<Rightarrow> 'c \<Rightarrow> 'c config \<Rightarrow> 'c config" where
  "apply_state_dir e c s =
     (if ''RARCH_OVERRIDE_SETTING_STATE_PATH'' \<in> cg_overridden s then s
      else case chosen_directory e c ''savestate_directory'' ''DEFAULT_DIR_SAVESTATE'' of
             None \<Rightarrow> s
           | Some (named, p) \<Rightarrow>
               let s1 = s\<lparr>cg_global := (cg_global s)(''savestate_directory'' := p)\<rparr>
               in if named then s1\<lparr>cg_savestate := co_dir_name e p (cg_paths s1 ''RARCH_PATH_BASENAME'') ''.state'',
                                   cg_replay := co_dir_name e p (cg_paths s1 ''RARCH_PATH_BASENAME'') ''.replay''\<rparr>
                  else s1)"

subsection \<open>Binds and the end\<close>

definition check_menu_driver_compatibility :: "store \<Rightarrow> bool" where
  "check_menu_driver_compatibility t =
     (let video = sv_array t ''video_driver'';
          menu = sv_array t ''menu_driver''
      in menu = ''rgui'' \<or> menu = ''null'' \<or> video = ''null''
         \<or> take 3 video = ''d3d'' \<and> video \<in> set [''d3d9_hlsl'', ''d3d9_cg'', ''d3d10'', ''d3d11'', ''d3d12'']
         \<or> take 2 video = ''gl'' \<and> video \<in> set [''gl'', ''gl1'', ''glcore'']
         \<or> video \<in> set [''caca'', ''gdi'', ''gx2'', ''vulkan'', ''metal'', ''ctr'', ''vita2d'', ''rsx''])"

definition apply_menu_driver :: "config_build \<Rightarrow> 'c config \<Rightarrow> 'c config" where
  "apply_menu_driver b s =
     (if cb_menu b \<and> cb_rgui b \<and> \<not> check_menu_driver_compatibility (cg_store s)
      then conf_set_array ''menu_driver'' ''rgui'' s else s)"

definition apply_gamemode :: "'c config_outside \<Rightarrow> 'c config \<Rightarrow> 'c config" where
  "apply_gamemode e s =
     (let on = sv_bool (cg_store s) ''gamemode_enable''
      in if co_has_gamemode e \<and> \<not> co_gamemode e on \<and> on then conf_set_bool ''gamemode_enable'' False s else s)"

text \<open>The size of the favourites follows that of the history if the file has only the latter.\<close>

definition apply_favorites_size :: "'c config_outside \<Rightarrow> 'c \<Rightarrow> store \<Rightarrow> store" where
  "apply_favorites_size e c t =
     (if cf_has (co_conf e) c ''content_history_size'' \<and> \<not> cf_has (co_conf e) c ''content_favorites_size''
      then let n = sv_uint t ''content_history_size''
           in t\<lparr>sv_int := (sv_int t)(''content_favorites_size'' := (if 999 < n then - 1 else sint n))\<rparr>
      else t)"

definition apply_settings :: "config_build \<Rightarrow> 'c config_outside \<Rightarrow> 'c \<Rightarrow> string \<Rightarrow> 'c config \<Rightarrow> 'c config" where
  "apply_settings b e c user s =
     (let s1 = apply_midi e (apply_limits b e (apply_environment e user s));
          s2 = upd_store (apply_screenshot e) (upd_store (apply_playlists e (cg_paths s1 ''RARCH_PATH_CONFIG'')) s1);
          s3 = upd_store (apply_leaderboards b) (apply_ratios (apply_log_dir e (apply_defaults b e s2)));
          s4 = apply_state_dir e c (apply_save_dir e c s3);
          s5 = apply_menu_driver b (s4\<lparr>cg_binds := co_read_binds e c (cg_binds s4)\<rparr>);
          s6 = cg_call ''recording_driver_update_streaming_url''
                 (cg_call ''frontend_driver_set_sustained_performance_mode'' s5);
          s7 = (if cf_has (co_conf e) c ''user_language'' then s6 else cg_call ''MSG_HASH_USER_LANGUAGE'' s6)
      in upd_store (apply_favorites_size e c) (apply_gamemode e s7))"

subsection \<open>The whole\<close>

definition config_load_conf :: "config_build \<Rightarrow> 'c config_outside \<Rightarrow> bool \<Rightarrow> 'c \<Rightarrow> 'c config \<Rightarrow> 'c config" where
  "config_load_conf b e without c s =
     (case append_configs e c (check_verbosity_settings e c s) of (c1, s1) \<Rightarrow>
        case append_overrides b e without c1 s1 of (c2, s2) \<Rightarrow>
          let s3 = (if get_bool (co_conf e) c2 ''perfcnt_enable'' = Some True then s2\<lparr>cg_perfcnt := True\<rparr> else s2)
          in apply_settings b e c2 (sv_path (cg_store s3) ''netplay_nickname'') (load_values b e c2 s3))"

text \<open>\<open>None\<close> as path: the default file, whose absence is no error.\<close>

definition config_load_file ::
    "config_build \<Rightarrow> 'c config_outside \<Rightarrow> string option \<Rightarrow> 'c config \<Rightarrow> bool \<times> 'c config" where
  "config_load_file b e path s =
     (let without = (path = Some ''without-overrides'');
          (conf, s1) = (case (if without then Some (cg_paths s ''RARCH_PATH_CONFIG'') else path) of
                          None \<Rightarrow> open_default_config_file e s
                        | Some p \<Rightarrow> (cg_disk s p, s))
      in case conf of
           None \<Rightarrow> (path = None, s1)
         | Some c \<Rightarrow> (True, config_load_conf b e without c s1))"

definition config_parse_file :: "config_build \<Rightarrow> 'c config_outside \<Rightarrow> 'c config \<Rightarrow> 'c config" where
  "config_parse_file b e s = snd (config_load_file b e (Some (cg_paths s ''RARCH_PATH_CONFIG'')) s)"

end
