(* ===== verification/Config_Save.thy ===== *)
theory Config_Save
  imports Config_Apply Timing
begin

unbundle bit_operations_syntax

text \<open>
  Writing configurations: the whole configuration (\<open>config_save_file\<close>), what differs from it
  (\<open>config_save_overrides\<close>), the profile of a controller, and changing to another file.
\<close>

subsection \<open>The whole configuration\<close>

definition bool_text :: "bool \<Rightarrow> string" where
  "bool_text v = (if v then ''true'' else ''false'')"

definition put_bool :: "'c conf_code \<Rightarrow> 'c \<Rightarrow> string \<Rightarrow> bool \<Rightarrow> 'c" where
  "put_bool cf c k v = set_string cf c k (bool_text v)"

text \<open>Unsigned numbers are passed as \<open>int\<close>, and a size is first cut to 32 bits.\<close>

definition put_uint :: "'c conf_code \<Rightarrow> 'c \<Rightarrow> string \<Rightarrow> u32 \<Rightarrow> 'c" where
  "put_uint cf c k v = set_int cf c k (sint v)"

definition put_size :: "'c conf_code \<Rightarrow> 'c \<Rightarrow> string \<Rightarrow> size_t \<Rightarrow> 'c" where
  "put_size cf c k v = set_int cf c k (sint (ucast v :: u32))"

text \<open>An empty path whose entry has a default is written as \<open>default\<close>.\<close>

definition saved_path :: "entry \<Rightarrow> string \<Rightarrow> string" where
  "saved_path en p = (if en_default en \<and> p = [] then ''default'' else p)"

definition save_paths :: "config_build \<Rightarrow> 'c config_outside \<Rightarrow> 'c config \<Rightarrow> 'c \<Rightarrow> 'c" where
  "save_paths b e s c =
     (let cf = co_conf e;
          c1 = fold (\<lambda>en c. set_path cf c (en_ident en) (saved_path en (path_values s (en_ident en))))
                 (tb_path (co_tables e)) c
      in if cb_menu b then set_path cf c1 ''xmb_font'' (sv_path (cg_store s) ''xmb_font'') else c1)"

definition save_numbers :: "'c config_outside \<Rightarrow> 'c config \<Rightarrow> 'c \<Rightarrow> 'c" where
  "save_numbers e s c =
     (let cf = co_conf e; t = cg_store s; tb = co_tables e;
          keys = (\<lambda>es. idents (not_overridden (cg_overridden s) es));
          c1 = save_keys (set_string cf) (keys (tb_array tb)) (sv_array t) c;
          c2 = save_keys (set_float cf) (keys (tb_float tb)) (sv_float t) c1;
          c3 = save_keys (set_int cf) (keys (tb_int tb)) (sv_int t) c2;
          c4 = save_keys (put_uint cf) (keys (tb_uint tb)) (sv_uint t) c3
      in save_keys (put_size cf) (keys (tb_size tb)) (sv_size t) c4)"

definition device_keys :: "nat \<Rightarrow> string list" where
  "device_keys i = user_key ''input_device_p'' i [] # map (user_key ''input_player'' i) player_suffixes"

definition save_devices :: "'c config_outside \<Rightarrow> 'c config \<Rightarrow> 'c \<Rightarrow> 'c" where
  "save_devices e s c =
     save_keys (put_uint (co_conf e)) (concat (map device_keys [0..<co_users e])) (sv_uint (cg_store s)) c"

definition save_bools :: "config_build \<Rightarrow> 'c config_outside \<Rightarrow> 'c config \<Rightarrow> 'c \<Rightarrow> 'c" where
  "save_bools b e s c =
     (let cf = co_conf e; t = cg_store s;
          c1 = save_keys (put_bool cf) (idents (not_overridden (cg_overridden s) (tb_bool (co_tables e)))) (sv_bool t) c;
          c2 = (if cb_networkgamepad b then save_keys (put_bool cf) (remote_keys (co_users e)) (sv_bool t) c1 else c1);
          c3 = (if ''RARCH_OVERRIDE_SETTING_VERBOSITY'' \<in> cg_overridden s then c2
                else put_bool cf c2 ''log_verbosity'' (cg_verbose s))
      in put_bool cf c3 ''perfcnt_enable'' (cg_perfcnt s))"

definition color_value :: "store \<Rightarrow> u32" where
  "color_value t =
     (let part = (\<lambda>k. word_of_int (Timing.truncate (sv_float t k * 255)) AND 255 :: u32)
      in push_bit 16 (part ''video_msg_color_r'') + push_bit 8 (part ''video_msg_color_g'')
         + part ''video_msg_color_b'')"

text \<open>The screen settings of consoles are kept in \<open>global_t\<close>: \<open>screen\<close>.\<close>

record screen =
  sn_gamma :: u32
  sn_flicker :: bool
  sn_soft :: bool
  sn_soft_index :: u32
  sn_resolution :: u32
  sn_flicker_index :: u32

definition video_driver_save_settings :: "'c conf_code \<Rightarrow> screen \<Rightarrow> 'c \<Rightarrow> 'c" where
  "video_driver_save_settings cf g c =
     (let c1 = put_uint cf c ''gamma_correction'' (sn_gamma g);
          c2 = put_bool cf c1 ''flicker_filter_enable'' (sn_flicker g);
          c3 = put_bool cf c2 ''soft_filter_enable'' (sn_soft g);
          c4 = put_uint cf c3 ''soft_filter_index'' (sn_soft_index g);
          c5 = put_uint cf c4 ''current_resolution_id'' (sn_resolution g)
      in put_uint cf c5 ''flicker_filter_index'' (sn_flicker_index g))"

definition save_binds :: "config_build \<Rightarrow> 'c config_outside \<Rightarrow> 'c config \<Rightarrow> 'c \<Rightarrow> 'c" where
  "save_binds b e s c =
     fold (\<lambda>(i, bs) c. input_config_save_keybinds_user (co_bind_env e) (co_macros e) (cb_menu b) i bs c)
       (zip [0..<co_users e] (cg_binds s)) c"

definition saved_conf :: "config_build \<Rightarrow> 'c config_outside \<Rightarrow> screen \<Rightarrow> 'c config \<Rightarrow> 'c \<Rightarrow> 'c" where
  "saved_conf b e g s c =
     (let c1 = save_bools b e s (save_devices e s (save_numbers e s (save_paths b e s c)));
          c2 = set_hex (co_conf e) c1 ''video_message_color'' (color_value (cg_store s))
      in save_binds b e s (video_driver_save_settings (co_conf e) g c2))"

definition write_conf :: "'c config_outside \<Rightarrow> 'c \<Rightarrow> string \<Rightarrow> 'c config \<Rightarrow> bool \<times> 'c config" where
  "write_conf e c p s =
     (case cf_write (co_conf e) c p of
        (ok, None) \<Rightarrow> (ok, s)
      | (ok, Some d) \<Rightarrow> (ok, s\<lparr>cg_disk := (cg_disk s)(p \<mapsto> d)\<rparr>))"

definition open_or_new :: "'c config_outside \<Rightarrow> string \<Rightarrow> 'c config \<Rightarrow> 'c option" where
  "open_or_new e p s = (case cg_disk s p of Some c \<Rightarrow> Some c | None \<Rightarrow> cf_new (co_conf e))"

text \<open>While overrides are active nothing is saved, because the settings include them.\<close>

definition config_save_file ::
    "config_build \<Rightarrow> 'c config_outside \<Rightarrow> screen \<Rightarrow> string \<Rightarrow> 'c config \<Rightarrow> bool \<times> 'c config" where
  "config_save_file b e g p s =
     (case open_or_new e p s of
        None \<Rightarrow> (False, s)
      | Some c \<Rightarrow> if Overrides_active \<in> cg_flags s then (False, s)
                  else write_conf e (saved_conf b e g s c) p s)"

definition config_replace ::
    "config_build \<Rightarrow> 'c config_outside \<Rightarrow> screen \<Rightarrow> bool \<Rightarrow> string \<Rightarrow> 'c config \<Rightarrow> bool \<times> 'c config" where
  "config_replace b e g save_on_exit p s =
     (let current = cg_paths s ''RARCH_PATH_CONFIG''
      in if p = current then (False, s)
         else let s1 = (if save_on_exit \<and> current \<noteq> [] then snd (config_save_file b e g current s) else s);
                  s2 = cg_call ''RARCH_CTL_UNSET_BLOCK_CONFIG_READ'' (set_path_of ''RARCH_PATH_CONFIG'' p s1)
              in (True, cg_call ''task_push_start_dummy_core'' (set_path_of ''RARCH_PATH_CORE'' [] s2)))"

subsection \<open>Overrides\<close>

datatype override_type = Override_none | Override_core | Override_content_dir | Override_game | Override_as

text \<open>The entries whose values differ are written with the value in force.\<close>

definition save_changed ::
    "('c \<Rightarrow> string \<Rightarrow> 'v \<Rightarrow> 'c) \<Rightarrow> string list \<Rightarrow> (string \<Rightarrow> 'v) \<Rightarrow> (string \<Rightarrow> 'v) \<Rightarrow> 'c \<Rightarrow> 'c" where
  "save_changed put ks base now c = save_keys put (filter (\<lambda>k. base k \<noteq> now k) ks) now c"

definition cheevos_login :: "string list" where
  "cheevos_login = [''cheevos_token'', ''cheevos_password'', ''cheevos_username'']"

definition changed_values ::
    "config_build \<Rightarrow> 'c config_outside \<Rightarrow> 'c config \<Rightarrow> 'c config \<Rightarrow> 'c \<Rightarrow> 'c" where
  "changed_values b e base now c =
     (let cf = co_conf e; tb = co_tables e; t = cg_store base; u = cg_store now;
          c1 = save_changed (put_bool cf) (idents (tb_bool tb)) (sv_bool t) (sv_bool u) c;
          c2 = save_changed (set_int cf) (idents (tb_int tb)) (sv_int t) (sv_int u) c1;
          c3 = save_changed (put_uint cf) (idents (tb_uint tb)) (sv_uint t) (sv_uint u) c2;
          c4 = save_changed (put_size cf) (idents (tb_size tb)) (sv_size t) (sv_size u) c3;
          c5 = save_changed (set_float cf) (idents (tb_float tb)) (sv_float t) (sv_float u) c4;
          c6 = save_changed (set_string cf)
                 (filter (\<lambda>k. \<not> (cb_cheevos b \<and> k \<in> set cheevos_login)) (idents (tb_array tb)))
                 (sv_array t) (sv_array u) c5
      in save_changed (set_path cf)
           (filter (\<lambda>k. \<not> (cb_ios b \<and> k = ''libretro_directory'')) (idents (tb_path tb)))
           (path_values base) (path_values now) c6)"

text \<open>The name of a reserved device is written under the key of the kind of reservation.\<close>

definition reserved_key :: "nat \<Rightarrow> string" where
  "reserved_key i = user_key ''input_player'' i ''_reserved_device''"

definition changed_device :: "'c conf_code \<Rightarrow> store \<Rightarrow> store \<Rightarrow> nat \<Rightarrow> 'c \<Rightarrow> 'c" where
  "changed_device cf t u i c =
     (let c1 = save_changed (put_uint cf) (device_keys i) (sv_uint t) (sv_uint u) c
      in if sv_array t (reserved_key i) \<noteq> sv_array u (reserved_key i)
         then set_string cf c1 (user_key ''input_player'' i ''_device_reservation_type'')
                (sv_array u (reserved_key i))
         else c1)"

definition changed_bind :: "'c config_outside \<Rightarrow> nat \<Rightarrow> (nat \<times> string) \<times> keybind \<times> keybind \<Rightarrow> 'c \<Rightarrow> 'c" where
  "changed_bind e i x c =
     (case x of (en, old, new) \<Rightarrow>
        if kb_joyaxis old \<noteq> kb_joyaxis new \<or> kb_joykey old \<noteq> kb_joykey new
           \<or> kb_key old \<noteq> kb_key new \<or> kb_mbutton old \<noteq> kb_mbutton new
        then input_config_save_keybinds_user_override (co_bind_env e) (co_macros e) i en old new c else c)"

definition changed_user :: "config_build \<Rightarrow> 'c config_outside \<Rightarrow> 'c config \<Rightarrow> 'c config \<Rightarrow> nat \<Rightarrow> 'c \<Rightarrow> 'c" where
  "changed_user b e base now i c =
     fold (changed_bind e i)
       (zip (input_config_bind_map (cb_menu b)) (zip (cg_binds base ! i) (cg_binds now ! i)))
       (changed_device (co_conf e) (cg_store base) (cg_store now) i c)"

definition override_conf :: "config_build \<Rightarrow> 'c config_outside \<Rightarrow> 'c config \<Rightarrow> 'c config \<Rightarrow> 'c \<Rightarrow> 'c" where
  "override_conf b e base now c =
     fold (changed_user b e base now) [0..<co_users e] (changed_values b e base now c)"

definition override_file :: "'c config_outside \<Rightarrow> override_type \<Rightarrow> string \<Rightarrow> string \<Rightarrow> string \<Rightarrow> string" where
  "override_file e ty core content path =
     (let named = (\<lambda>n. co_join_ext e (co_config_dir e) core n (co_constant e ''FILE_PATH_CONFIG_EXTENSION''))
      in case ty of
           Override_core \<Rightarrow> named core
         | Override_game \<Rightarrow> named (co_basename e content)
         | Override_content_dir \<Rightarrow> named (co_parent_dir_name e content)
         | Override_as \<Rightarrow> named path
         | Override_none \<Rightarrow> [])"

text \<open>An empty settings structure, as \<open>calloc\<close> makes it.\<close>

definition zero_store :: store where
  "zero_store = \<lparr>sv_bool = (\<lambda>_. False), sv_int = (\<lambda>_. 0), sv_uint = (\<lambda>_. 0), sv_size = (\<lambda>_. 0), sv_float = (\<lambda>_. 0),
     sv_array = (\<lambda>_. []), sv_path = (\<lambda>_. []), sv_modified = False, sv_skip_window = False\<rparr>"

text \<open>
  The configuration without overrides is read into such a structure; what that changes outside it
  stays.
\<close>

definition load_base :: "config_build \<Rightarrow> 'c config_outside \<Rightarrow> 'c config \<Rightarrow> 'c config" where
  "load_base b e s =
     snd (config_load_file b e (Some ''without-overrides'') (s\<lparr>cg_store := zero_store\<rparr>))"

definition write_override ::
    "'c config_outside \<Rightarrow> bool \<Rightarrow> string \<Rightarrow> 'c \<Rightarrow> 'c config \<Rightarrow> int \<times> 'c config" where
  "write_override e delete p c s =
     (let cf = co_conf e;
          r = (if \<not> cf_modified cf c \<and> \<not> delete then - 1 else 0)
      in if p = [] then (r, s)
         else if (delete \<or> \<not> cf_modified cf c) \<and> cg_disk s p \<noteq> None
         then (if co_delete e p then (- 1, s\<lparr>cg_disk := (cg_disk s)(p := None)\<rparr>) else (r, s))
         else if cf_modified cf c
         then (case write_conf e c p s of
                 (True, s1) \<Rightarrow> (1, set_path_of ''RARCH_PATH_CONFIG_OVERRIDE'' p s1)
               | (False, s1) \<Rightarrow> (0, s1))
         else (r, s))"

text \<open>The state with the settings without overrides, and the one with the settings in force.\<close>

definition override_base :: "config_build \<Rightarrow> 'c config_outside \<Rightarrow> string \<Rightarrow> 'c config \<Rightarrow> 'c config" where
  "override_base b e core s =
     (let dir = co_join e (co_config_dir e) core
      in load_base b e (if co_is_directory e dir then s else cg_call (''path_mkdir '' @ dir) s))"

definition override_now :: "config_build \<Rightarrow> 'c config_outside \<Rightarrow> string \<Rightarrow> 'c config \<Rightarrow> 'c config" where
  "override_now b e core s = (override_base b e core s)\<lparr>cg_store := cg_store s, cg_binds := cg_binds s\<rparr>"

text \<open>\<open>None\<close>: there is no memory for the new file, whose flags are read nevertheless.\<close>

definition config_save_overrides ::
    "config_build \<Rightarrow> 'c config_outside \<Rightarrow> override_type \<Rightarrow> c_str \<Rightarrow> bool \<Rightarrow> string \<Rightarrow> 'c config
       \<Rightarrow> (int \<times> 'c config) option" where
  "config_save_overrides b e ty core delete path s =
     (let content = cg_paths s ''RARCH_PATH_BASENAME''
      in if string_is_empty core \<or> content = [] \<and> ty \<noteq> Override_core then Some (0, s)
         else
           let base = override_base b e (the core) s;
               now = override_now b e (the core) s
           in case cf_new (co_conf e) of
                None \<Rightarrow> None
              | Some c \<Rightarrow>
                  Some (write_override e delete (override_file e ty (the core) content path)
                          (override_conf b e base now c) now))"

subsection \<open>The profile of a controller\<close>

text \<open>Characters that may not be part of a file name.\<close>

definition invalid_chars :: "char set" where
  "invalid_chars = set (''~#%&*{}'' @ [CHR 0x5C] @ '':[]?/|'' @ [CHR 0x27, CHR 0x22])"

definition sanitised :: "string \<Rightarrow> string" where
  "sanitised name = map (\<lambda>c. if c \<in> invalid_chars then CHR ''_'' else c) name"

text \<open>\<open>driver\<close> is what the device reports, \<open>None\<close> when nothing can be written.\<close>

definition profile_driver :: "c_str \<Rightarrow> store \<Rightarrow> string option" where
  "profile_driver driver t =
     (if \<not> string_is_empty driver then driver
      else if sv_array t ''input_joypad_driver'' = [] then None else Some (sv_array t ''input_joypad_driver''))"

definition config_get_autoconf_profile_filename ::
    "'c config_outside \<Rightarrow> c_str \<Rightarrow> c_str \<Rightarrow> nat \<Rightarrow> store \<Rightarrow> string option" where
  "config_get_autoconf_profile_filename e device driver len t =
     (if string_is_empty device then None
      else case profile_driver driver t of
             None \<Rightarrow> None
           | Some d \<Rightarrow>
               let dir = co_join e (sv_path t ''joypad_autoconfig_dir'') d;
                   name = sanitised (the device)
               in Some (strlcpy len ((if co_is_directory e dir then co_join e d name else strlcpy len name) @ ''.cfg'')))"

record pad =
  pd_device :: c_str
  pd_driver :: c_str
  pd_reported_name :: string
  pd_vendor :: int
  pd_product :: int

definition profile_conf ::
    "config_build \<Rightarrow> 'c config_outside \<Rightarrow> pad \<Rightarrow> string \<Rightarrow> nat \<Rightarrow> keybind list \<Rightarrow> 'c \<Rightarrow> 'c" where
  "profile_conf b e pad driver meta binds c =
     (let cf = co_conf e; be = co_bind_env e; m = co_macros e;
          c1 = set_string cf (set_string cf c ''input_driver'' driver) ''input_device'' (pd_reported_name pad);
          c2 = (if pd_product pad \<noteq> 0 \<and> pd_vendor pad \<noteq> 0
                then set_int cf (set_int cf c1 ''input_vendor_id'' (pd_vendor pad)) ''input_product_id'' (pd_product pad)
                else c1)
      in fold (\<lambda>((_, base), kb) c.
                if kb_valid kb
                then save_keybind_axis be m (save_keybind_joykey be m c ''input'' base kb False) ''input'' base kb False
                else c)
           (take meta (zip (input_config_bind_map (cb_menu b)) binds)) c2)"

definition config_save_autoconf_profile ::
    "config_build \<Rightarrow> 'c config_outside \<Rightarrow> pad \<Rightarrow> nat \<Rightarrow> nat \<Rightarrow> 'c config \<Rightarrow> bool \<times> 'c config" where
  "config_save_autoconf_profile b e pad meta user s =
     (case (config_get_autoconf_profile_filename e (pd_device pad) (pd_driver pad) (co_path_max e) (cg_store s),
            profile_driver (pd_driver pad) (cg_store s)) of
        (Some name, Some driver) \<Rightarrow>
          let p = co_join e (sv_path (cg_store s) ''joypad_autoconfig_dir'') name
          in (case open_or_new e p s of
                None \<Rightarrow> (False, s)
              | Some c \<Rightarrow> write_conf e (profile_conf b e pad driver meta (cg_binds s ! user) c) p s)
      | _ \<Rightarrow> (False, s))"

end
