(* ===== verification/Config_Overrides.thy ===== *)
theory Config_Overrides
  imports Config_Save
begin

text \<open>
  Overrides of the configuration (\<open>config_load_override\<close> and its relatives), the value
  interface used at run time (\<open>config_set_runtime_value\<close>), and the one-entry file of
  salamander builds.
\<close>

subsection \<open>Loading and unloading overrides\<close>

text \<open>The files of a core, of a directory of content and of a game, the last two with content only.\<close>

definition override_files :: "'c config_outside \<Rightarrow> string \<Rightarrow> string \<Rightarrow> string list" where
  "override_files e core content =
     (let named = (\<lambda>n. co_join_ext e (co_config_dir e) core n ''.cfg'')
      in named core # (if content = [] then [] else [named (co_parent_dir_name e content), named (co_basename e content)]))"

definition join_bar :: "nat \<Rightarrow> string \<Rightarrow> string \<Rightarrow> string" where
  "join_bar len a b = strlcpy len (strlcpy (len - 2) a @ CHR ''|'' # b)"

text \<open>\<open>stacked\<close>: the file is added to those before, \<open>shown\<close>: a message is due.\<close>

definition stack_override ::
    "'c config_outside \<Rightarrow> string \<Rightarrow> bool \<times> bool \<times> 'c config \<Rightarrow> bool \<times> bool \<times> 'c config" where
  "stack_override e p x =
     (case x of (stacked, shown, s) \<Rightarrow>
        if cg_disk s p = None then (stacked, shown, s)
        else let now = cg_paths s ''RARCH_PATH_CONFIG_OVERRIDE''
             in (True, True, set_path_of ''RARCH_PATH_CONFIG_OVERRIDE''
                   (if stacked \<and> now \<noteq> [] then join_bar (co_path_max e) now p else p) s))"

definition forget_save_paths :: "'c config \<Rightarrow> 'c config" where
  "forget_save_paths s =
     s\<lparr>cg_overridden := cg_overridden s - {''RARCH_OVERRIDE_SETTING_STATE_PATH'', ''RARCH_OVERRIDE_SETTING_SAVE_PATH''}\<rparr>"

definition fix_save_paths :: "'c config \<Rightarrow> 'c config" where
  "fix_save_paths s =
     s\<lparr>cg_overridden := cg_overridden s \<union> {''RARCH_OVERRIDE_SETTING_STATE_PATH'', ''RARCH_OVERRIDE_SETTING_SAVE_PATH''}\<rparr>"

definition reload_config :: "config_build \<Rightarrow> 'c config_outside \<Rightarrow> 'c config \<Rightarrow> bool \<times> 'c config" where
  "reload_config b e s = config_load_file b e (Some (cg_paths s ''RARCH_PATH_CONFIG'')) (forget_save_paths s)"

definition finish_override :: "bool \<Rightarrow> 'c config \<Rightarrow> 'c config" where
  "finish_override shown s =
     (let s1 = (if sv_bool (cg_store s) ''notification_show_config_override_load'' \<and> shown
                then cg_call ''MSG_CONFIG_OVERRIDE_LOADED'' s else s);
          s2 = fix_save_paths s1
      in s2\<lparr>cg_flags := (if cg_paths s2 ''RARCH_PATH_CONFIG_OVERRIDE'' \<noteq> []
                         then insert Overrides_active (cg_flags s2) else cg_flags s2 - {Overrides_active})\<rparr>)"

definition config_load_override :: "config_build \<Rightarrow> 'c config_outside \<Rightarrow> c_str \<Rightarrow> 'c config \<Rightarrow> bool \<times> 'c config" where
  "config_load_override b e core s =
     (let s1 = set_path_of ''RARCH_PATH_CONFIG_OVERRIDE'' [] s
      in if string_is_empty core then (False, s1)
         else let appended = (cg_paths s1 ''RARCH_PATH_CONFIG_APPEND'' \<noteq> [])
              in case fold (stack_override e) (override_files e (the core) (cg_paths s1 ''RARCH_PATH_BASENAME''))
                        (appended, \<not> appended, s1) of
                   (stacked, shown, s2) \<Rightarrow>
                     if \<not> stacked then (False, s2)
                     else (case reload_config b e s2 of
                             (False, s3) \<Rightarrow> (False, s3)
                           | (True, s3) \<Rightarrow> (True, finish_override shown s3)))"

definition config_load_override_file :: "config_build \<Rightarrow> 'c config_outside \<Rightarrow> string \<Rightarrow> 'c config \<Rightarrow> bool \<times> 'c config" where
  "config_load_override_file b e p s =
     (let s1 = set_path_of ''RARCH_PATH_CONFIG_OVERRIDE'' [] s
      in if cg_disk s1 p = None then (False, s1)
         else (case reload_config b e (set_path_of ''RARCH_PATH_CONFIG_OVERRIDE'' p s1) of
                 (False, s2) \<Rightarrow> (False, s2)
               | (True, s2) \<Rightarrow> (True, finish_override True s2)))"

definition fullscreen_changed :: "bool \<Rightarrow> bool \<Rightarrow> 'c config \<Rightarrow> 'c config" where
  "fullscreen_changed before running s =
     (if sv_bool (cg_store s) ''video_fullscreen'' = before then s
      else let s1 = (if sv_bool (cg_store s) ''video_window_save_positions'' \<and> \<not> sv_bool (cg_store s) ''video_fullscreen''
                     then upd_store (\<lambda>t. t\<lparr>sv_skip_window := True\<rparr>) s else s)
           in if running then cg_call ''CMD_EVENT_REINIT'' s1 else s1)"

definition config_unload_override :: "config_build \<Rightarrow> 'c config_outside \<Rightarrow> 'c config \<Rightarrow> bool \<times> 'c config" where
  "config_unload_override b e s =
     (let s1 = set_path_of ''RARCH_PATH_CONFIG_OVERRIDE'' [] (s\<lparr>cg_flags := cg_flags s - {Overrides_active}\<rparr>)
      in case reload_config b e s1 of
           (False, s2) \<Rightarrow> (False, s2)
         | (True, s2) \<Rightarrow>
             (True, fix_save_paths (fullscreen_changed (sv_bool (cg_store s) ''video_fullscreen'') (cg_running s) s2)))"

subsection \<open>Values set at run time\<close>

definition config_runtime_path_size :: "nat \<Rightarrow> (string \<Rightarrow> nat) \<Rightarrow> string \<Rightarrow> nat" where
  "config_runtime_path_size largest size_of k =
     (if k = ''netplay_nickname'' then size_of k
      else if k = ''netplay_password'' then size_of k
      else if k = ''netplay_spectate_password'' then size_of k else largest)"

text \<open>\<open>parse_float\<close> is \<open>strtod\<close>; \<open>size_of\<close> the size of the buffer of a path.\<close>

definition set_typed ::
    "'c config_outside \<Rightarrow> (string \<Rightarrow> rat) \<Rightarrow> (string \<Rightarrow> nat) \<Rightarrow> string \<Rightarrow> string \<Rightarrow> 'c config \<Rightarrow> 'c config option" where
  "set_typed e parse_float size_of k v s =
     (let tb = co_tables e;
          has = (\<lambda>es. k \<in> set (idents es));
          mark = upd_store (\<lambda>t. t\<lparr>sv_modified := True\<rparr>) s
      in if has (tb_bool tb) then Some (conf_set_bool k (v = ''true'' \<or> v = ''1'') s)
         else if has (tb_int tb)
         then Some (upd_store (\<lambda>t. t\<lparr>sv_int := (sv_int t)(k := sint (word_of_int (strtol v) :: u32))\<rparr>) mark)
         else if has (tb_uint tb) then Some (conf_set_uint k (of_nat (fst (strtoul v))) s)
         else if has (tb_size tb)
         then Some (upd_store (\<lambda>t. t\<lparr>sv_size := (sv_size t)(k := of_nat (fst (strtoul v)))\<rparr>) mark)
         else if has (tb_float tb) then Some (conf_set_float k (parse_float v) s)
         else if has (tb_array tb) then Some (conf_set_array k (strlcpy (co_path_max e) v) s)
         else if has (tb_path tb)
         then Some (put_path_values ((path_values mark)
                (k := strlcpy (config_runtime_path_size (co_path_max e) size_of k) v)) mark)
         else None)"

definition config_set_runtime_value ::
    "'c config_outside \<Rightarrow> (string \<Rightarrow> rat) \<Rightarrow> (string \<Rightarrow> nat) \<Rightarrow> c_str \<Rightarrow> c_str \<Rightarrow> 'c config \<Rightarrow> bool \<times> 'c config" where
  "config_set_runtime_value e parse_float size_of key v s =
     (case (key, v) of
        (Some k, Some x) \<Rightarrow>
          if k = [] then (False, s)
          else (case set_typed e parse_float size_of k x s of None \<Rightarrow> (False, s) | Some s1 \<Rightarrow> (True, s1))
      | _ \<Rightarrow> (False, s))"

subsection \<open>The file of salamander builds\<close>

text \<open>\<open>default_config\<close> is \<open>g_defaults.path_config\<close>.\<close>

definition config_file_salamander_get_path :: "'c config_outside \<Rightarrow> string \<Rightarrow> string" where
  "config_file_salamander_get_path e default_config =
     (let file = co_constant e ''FILE_PATH_SALAMANDER_CONFIG''
      in if default_config \<noteq> [] then co_resolve_relative e default_config file else strlcpy (co_path_max e) file)"

definition config_load_file_salamander :: "'c config_outside \<Rightarrow> string \<Rightarrow> 'c config \<Rightarrow> 'c config" where
  "config_load_file_salamander e default_config s =
     (let p = config_file_salamander_get_path e default_config
      in if p = [] then s
         else case cg_disk s p of
                None \<Rightarrow> s
              | Some c \<Rightarrow>
                  (case get_path (co_conf e) c ''libretro_path'' (co_path_max e) of
                     None \<Rightarrow> s
                   | Some q \<Rightarrow> if q \<noteq> [] \<and> q \<noteq> ''builtin'' then set_path_of ''RARCH_PATH_CORE'' q s else s))"

definition config_save_file_salamander :: "'c config_outside \<Rightarrow> string \<Rightarrow> 'c config \<Rightarrow> 'c config" where
  "config_save_file_salamander e default_config s =
     (let core = cg_paths s ''RARCH_PATH_CORE'';
          p = config_file_salamander_get_path e default_config
      in if core = [] \<or> core = ''builtin'' \<or> p = [] then s
         else case open_or_new e p s of
                None \<Rightarrow> s
              | Some c \<Rightarrow> snd (write_conf e (set_path (co_conf e) c ''libretro_path'' core) p s))"

end
