(* ===== verification/Remapping.thy ===== *)
theory Remapping
  imports Config_Overrides
begin

text \<open>
  Remapping files: which button or key each button of a user stands for.  The file of a game goes
  before that of its directory, and that before the file of the core.
\<close>

subsection \<open>State\<close>

text \<open>
  Slots 0 to 15 are buttons, 16 to 23 the directions of the sticks.  \<open>rm_label u j\<close> says whether
  the core describes the slot.
\<close>

record 'c remap =
  rm_cfg :: "'c config"
  rm_id :: "nat \<Rightarrow> nat \<Rightarrow> u32"
  rm_key :: "nat \<Rightarrow> nat \<Rightarrow> u32"
  rm_device :: "nat \<Rightarrow> u32"
  rm_port :: "nat \<Rightarrow> u32"
  rm_file :: c_str
  rm_cache_active :: bool
  rm_label :: "nat \<Rightarrow> nat \<Rightarrow> bool"

text \<open>
  From outside: resetting the maps, the name of a controller, the markers for an unmapped button
  and an unknown key.
\<close>

record 'c remap_outside =
  ro_deinit :: "'c remap \<Rightarrow> 'c remap"
  ro_defaults :: "'c remap \<Rightarrow> 'c remap"
  ro_unmapped :: u32
  ro_key_unknown :: u32
  ro_pad_name :: "u32 \<Rightarrow> c_str"
  ro_sanitise :: "string \<Rightarrow> string"
  ro_slash :: string

abbreviation upd_cfg :: "('c config \<Rightarrow> 'c config) \<Rightarrow> 'c remap \<Rightarrow> 'c remap" where
  "upd_cfg f r \<equiv> r\<lparr>rm_cfg := f (rm_cfg r)\<rparr>"

definition key_strings :: "string list" where
  "key_strings =
     [''b'', ''y'', ''select'', ''start'', ''up'', ''down'', ''left'', ''right'', ''a'', ''x'', ''l'', ''r'',
      ''l2'', ''r2'', ''l3'', ''r3'', ''l_x+'', ''l_x-'', ''l_y+'', ''l_y-'', ''r_x+'', ''r_x-'', ''r_y+'', ''r_y-'']"

definition map_key :: "string \<Rightarrow> nat \<Rightarrow> nat \<Rightarrow> string" where
  "map_key kind i j = user_key ''input_player'' i (kind @ CHR ''_'' # key_strings ! j)"

definition slot_key :: "nat \<Rightarrow> nat \<Rightarrow> string" where
  "slot_key i j = map_key (if j < 16 then ''_btn'' else ''_stk'') i j"

definition turbo_bools :: "string list" where
  "turbo_bools = [''input_turbo_enable'', ''input_turbo_allow_dpad'']"

definition turbo_uints :: "string list" where
  "turbo_uints = [''input_turbo_mode'', ''input_turbo_button'', ''input_turbo_period'', ''input_turbo_duty_cycle'']"

definition device_key :: "nat \<Rightarrow> string" where
  "device_key i = user_key ''input_libretro_device_p'' i []"

definition port_key :: "nat \<Rightarrow> string" where
  "port_key i = user_key ''input_remap_port_p'' i []"

definition dpad_key :: "nat \<Rightarrow> string" where
  "dpad_key i = user_key ''input_player'' i ''_analog_dpad_mode''"

subsection \<open>Loading\<close>

definition upd_at :: "nat \<Rightarrow> nat \<Rightarrow> u32 \<Rightarrow> (nat \<Rightarrow> nat \<Rightarrow> u32) \<Rightarrow> nat \<Rightarrow> nat \<Rightarrow> u32" where
  "upd_at i j v f = f(i := (f i)(j := v))"

definition load_slot :: "'c config_outside \<Rightarrow> 'c remap_outside \<Rightarrow> 'c \<Rightarrow> nat \<Rightarrow> nat \<Rightarrow> 'c remap \<Rightarrow> 'c remap" where
  "load_slot e ro c i j r =
     (let get = get_int (co_conf e) c;
          r1 = (case get (slot_key i j) of
                  None \<Rightarrow> r
                | Some v \<Rightarrow> r\<lparr>rm_id := upd_at i j (if v = - 1 then ro_unmapped ro else word_of_int v) (rm_id r)\<rparr>)
      in r1\<lparr>rm_key := upd_at i j (case get (map_key ''_key'' i j) of None \<Rightarrow> ro_key_unknown ro
                                  | Some v \<Rightarrow> word_of_int v) (rm_key r1)\<rparr>)"

definition load_turbo :: "'c config_outside \<Rightarrow> 'c \<Rightarrow> store \<Rightarrow> store" where
  "load_turbo e c t =
     (let cf = co_conf e
      in t\<lparr>sv_bool := load_keys (get_bool cf c) turbo_bools (sv_bool t),
           sv_uint := load_keys (get_as_uint cf c) turbo_uints (sv_uint t),
           sv_int := load_keys (get_int cf c) [''input_turbo_bind''] (sv_int t)\<rparr>)"

definition load_user :: "'c config_outside \<Rightarrow> 'c remap_outside \<Rightarrow> 'c \<Rightarrow> nat \<Rightarrow> 'c remap \<Rightarrow> 'c remap" where
  "load_user e ro c i r =
     (let get = get_as_uint (co_conf e) c;
          r1 = fold (load_slot e ro c i) [0..<24] r;
          r2 = r1\<lparr>rm_device := (case get (device_key i) of None \<Rightarrow> rm_device r1 | Some v \<Rightarrow> (rm_device r1)(i := v)),
                  rm_port := (case get (port_key i) of None \<Rightarrow> rm_port r1 | Some v \<Rightarrow> (rm_port r1)(i := v))\<rparr>
      in upd_cfg (upd_store (\<lambda>t. load_turbo e c (t\<lparr>sv_uint := load_keys get [dpad_key i] (sv_uint t)\<rparr>))) r2)"

definition input_remapping_load_file ::
    "'c config_outside \<Rightarrow> 'c remap_outside \<Rightarrow> 'c option \<Rightarrow> string \<Rightarrow> 'c remap \<Rightarrow> bool \<times> 'c remap" where
  "input_remapping_load_file e ro conf p r =
     (case conf of
        None \<Rightarrow> (False, r)
      | Some c \<Rightarrow>
          if p = [] then (False, r)
          else let r1 = (if string_is_empty (rm_file r) then r else ro_deinit ro r);
                   r2 = (ro_defaults ro r1)\<lparr>rm_file := Some p\<rparr>;
                   r3 = upd_cfg (cg_call ''input_remapping_update_port_map'') (fold (load_user e ro c) [0..<co_users e] r2)
               in (True, r3\<lparr>rm_cache_active := True\<rparr>))"

subsection \<open>Saving\<close>

definition save_slot :: "'c config_outside \<Rightarrow> 'c remap_outside \<Rightarrow> 'c remap \<Rightarrow> nat \<Rightarrow> nat \<Rightarrow> 'c \<Rightarrow> 'c" where
  "save_slot e ro r i j c =
     (let cf = co_conf e; id = rm_id r i j; key = rm_key r i j; k = slot_key i j;
          c1 = (if id = of_nat j \<or> id = ro_unmapped ro \<and> \<not> rm_label r i j then cf_unset cf c k
                else if id = ro_unmapped ro then set_int cf c k (- 1) else put_uint cf c k id)
      in if key = ro_key_unknown ro then cf_unset cf c1 (map_key ''_key'' i j)
         else put_uint cf c1 (map_key ''_key'' i j) key)"

definition save_turbo :: "'c conf_code \<Rightarrow> store \<Rightarrow> 'c \<Rightarrow> 'c" where
  "save_turbo cf t c =
     (let c1 = save_keys (put_bool cf) turbo_bools (sv_bool t) c;
          c2 = put_uint cf c1 ''input_turbo_mode'' (sv_uint t ''input_turbo_mode'');
          c3 = set_int cf c2 ''input_turbo_bind'' (sv_int t ''input_turbo_bind'')
      in save_keys (put_uint cf) (tl turbo_uints) (sv_uint t) c3)"

definition save_user :: "'c config_outside \<Rightarrow> 'c remap_outside \<Rightarrow> 'c remap \<Rightarrow> nat \<Rightarrow> 'c \<Rightarrow> 'c" where
  "save_user e ro r i c =
     (let cf = co_conf e; t = cg_store (rm_cfg r);
          c1 = fold (save_slot e ro r i) [0..<24] c;
          c2 = put_uint cf c1 (device_key i) (rm_device r i);
          c3 = put_uint cf c2 (dpad_key i) (sv_uint t (dpad_key i));
          c4 = put_uint cf c3 (port_key i) (rm_port r i)
      in save_turbo cf t c4)"

text \<open>Ports of users that play, and those to which such a user is mapped.\<close>

definition saved_port :: "'c remap \<Rightarrow> nat \<Rightarrow> bool" where
  "saved_port r i \<longleftrightarrow>
     (let n = unat (sv_uint (cg_store (rm_cfg r)) ''input_max_users'')
      in i < n \<or> of_nat i \<in> rm_port r ` {0..<n})"

definition remap_conf :: "'c config_outside \<Rightarrow> 'c remap_outside \<Rightarrow> 'c remap \<Rightarrow> 'c \<Rightarrow> 'c" where
  "remap_conf e ro r c = fold (save_user e ro r) (filter (saved_port r) [0..<co_users e]) c"

definition input_remapping_save_file ::
    "'c config_outside \<Rightarrow> 'c remap_outside \<Rightarrow> string \<Rightarrow> 'c remap \<Rightarrow> bool \<times> 'c remap" where
  "input_remapping_save_file e ro p r =
     (let dir = co_parent_dir e p
      in if p = [] \<or> dir \<noteq> [] \<and> \<not> co_is_directory e dir \<and> \<not> co_mkdir e dir then (False, r)
         else case cf_new (co_conf e) of
                None \<Rightarrow> (False, r)
              | Some c \<Rightarrow>
                  (case write_conf e (remap_conf e ro r c) p (rm_cfg r) of
                     (ok, s) \<Rightarrow> (ok, r\<lparr>rm_cfg := s, rm_file := Some p\<rparr>)))"

subsection \<open>Which file is loaded\<close>

text \<open>The directory of the core, with the controller below it if remaps are sorted so.\<close>

definition remap_dir :: "'c config_outside \<Rightarrow> 'c remap_outside \<Rightarrow> string \<Rightarrow> 'c remap \<Rightarrow> string" where
  "remap_dir e ro core r =
     (let t = cg_store (rm_cfg r);
          pad = ro_pad_name ro (sv_uint t (user_key ''input_player'' 0 ''_joypad_index''))
      in if sv_bool t ''input_remap_sort_by_controller_enable'' \<and> \<not> string_is_empty pad
         then strlcpy (co_path_max e) (core @ ro_slash ro @ ro_sanitise ro (the pad))
         else strlcpy (co_path_max e) core)"

definition remap_files ::
    "'c config_outside \<Rightarrow> 'c remap_outside \<Rightarrow> string \<Rightarrow> string \<Rightarrow> 'c remap \<Rightarrow> (string \<times> runloop_flag \<times> string) list" where
  "remap_files e ro dir core r =
     (let content = cg_paths (rm_cfg r) ''RARCH_PATH_BASENAME'';
          file = (\<lambda>n. co_join_ext e dir (remap_dir e ro core r) n (co_constant e ''FILE_PATH_REMAP_EXTENSION''))
      in (if content = [] then []
          else [(file (co_basename e content), Remaps_game_active, ''MSG_GAME_REMAP_FILE_LOADED''),
                (file (co_parent_dir_name e content), Remaps_content_dir_active, ''MSG_DIRECTORY_REMAP_FILE_LOADED'')])
         @ [(file core, Remaps_core_active, ''MSG_CORE_REMAP_FILE_LOADED'')])"

fun load_first_remap ::
    "'c config_outside \<Rightarrow> 'c remap_outside \<Rightarrow> (string \<times> runloop_flag \<times> string) list \<Rightarrow> bool \<Rightarrow> 'c remap
       \<Rightarrow> bool \<times> 'c remap" where
  "load_first_remap e ro [] notify r = (False, r)"
| "load_first_remap e ro ((p, fl, msg) # fs) notify r =
     (case cg_disk (rm_cfg r) p of
        None \<Rightarrow> load_first_remap e ro fs notify r
      | Some c \<Rightarrow>
          (case input_remapping_load_file e ro (Some c) p r of
             (False, r1) \<Rightarrow> load_first_remap e ro fs notify r1
           | (True, r1) \<Rightarrow>
               let r2 = upd_cfg (\<lambda>s. s\<lparr>cg_flags := insert fl (cg_flags s)\<rparr>) r1
               in (True, if notify then upd_cfg (cg_call msg) r2 else r2)))"

definition config_load_remap ::
    "'c config_outside \<Rightarrow> 'c remap_outside \<Rightarrow> string \<Rightarrow> c_str \<Rightarrow> 'c remap \<Rightarrow> bool \<times> 'c remap" where
  "config_load_remap e ro dir core r =
     (if string_is_empty core \<or> dir = [] then (False, r)
      else load_first_remap e ro (remap_files e ro dir (the core) r)
             (sv_bool (cg_store (rm_cfg r)) ''notification_show_remap_load'') r)"

end
