(* ===== verification/Config_Steps.thy ===== *)
theory Config_Steps
  imports Remapping
begin

text \<open>
  What configuration files promise, and what follows for writing and reading whole tables.
\<close>

subsection \<open>The contract of configuration files\<close>

text \<open>Two files agree about a key.\<close>

definition same_entry :: "'c conf_code \<Rightarrow> 'c \<Rightarrow> 'c \<Rightarrow> string \<Rightarrow> bool" where
  "same_entry cf c d k \<longleftrightarrow>
     cf_has cf c k = cf_has cf d k \<and> get_bool cf c k = get_bool cf d k \<and> get_int cf c k = get_int cf d k
     \<and> get_uint cf c k = get_uint cf d k \<and> get_size cf c k = get_size cf d k
     \<and> get_float cf c k = get_float cf d k \<and> get_hex cf c k = get_hex cf d k
     \<and> get_array cf c k = get_array cf d k \<and> get_path cf c k = get_path cf d k"

definition no_entry :: "'c conf_code \<Rightarrow> 'c \<Rightarrow> string \<Rightarrow> bool" where
  "no_entry cf c k \<longleftrightarrow>
     \<not> cf_has cf c k \<and> get_bool cf c k = None \<and> get_int cf c k = None \<and> get_uint cf c k = None
     \<and> get_size cf c k = None \<and> get_float cf c k = None \<and> get_hex cf c k = None
     \<and> (\<forall>n. get_array cf c k n = None \<and> get_path cf c k n = None)"

definition puts_apart :: "'c conf_code \<Rightarrow> bool" where
  "puts_apart cf \<longleftrightarrow>
     (\<forall>c k j. k \<noteq> j \<longrightarrow> (\<forall>v. same_entry cf (set_string cf c j v) c k) \<and> (\<forall>v. same_entry cf (set_path cf c j v) c k)
        \<and> (\<forall>v. same_entry cf (set_int cf c j v) c k) \<and> (\<forall>v. same_entry cf (set_float cf c j v) c k)
        \<and> (\<forall>v. same_entry cf (set_hex cf c j v) c k) \<and> same_entry cf (cf_unset cf c j) c k)"

text \<open>Texts that survive: no quote, no new line, nothing at the start that is expanded.\<close>

definition plain_text :: "string \<Rightarrow> bool" where
  "plain_text v \<longleftrightarrow> CHR 0x22 \<notin> set v \<and> CHR 0x0A \<notin> set v \<and> take 1 v \<notin> {''~'', '':''}"

definition c_int :: "int \<Rightarrow> bool" where
  "c_int v \<longleftrightarrow> - (2 ^ 31) \<le> v \<and> v < 2 ^ 31"

text \<open>Numbers are printed with six digits after the point.\<close>

definition six_digits :: "rat \<Rightarrow> bool" where
  "six_digits v \<longleftrightarrow> of_int \<lfloor>v * 1000000\<rfloor> = v * 1000000"

text \<open>A file can be parsed again if no text has a quote or a new line.\<close>

definition all_plain :: "'c conf_code \<Rightarrow> 'c \<Rightarrow> bool" where
  "all_plain cf c \<longleftrightarrow>
     (\<forall>k n v. get_array cf c k n = Some v \<longrightarrow> CHR 0x22 \<notin> set v \<and> CHR 0x0A \<notin> set v)"

definition reads_back :: "'c conf_code \<Rightarrow> bool" where
  "reads_back cf \<longleftrightarrow>
     (\<forall>c k b. get_bool cf (set_string cf c k (bool_text b)) k = Some b)
     \<and> (\<forall>c k v. c_int v \<longrightarrow> get_int cf (set_int cf c k v) k = Some v
          \<and> get_size cf (set_int cf c k v) k = Some (word_of_int v))
     \<and> (\<forall>c k v. six_digits v \<longrightarrow> get_float cf (set_float cf c k v) k = Some v)
     \<and> (\<forall>c k v. get_hex cf (set_hex cf c k v) k = Some v)
     \<and> (\<forall>c k v n. plain_text v \<and> length v < n \<longrightarrow> get_array cf (set_string cf c k v) k n = Some v
          \<and> get_path cf (set_path cf c k v) k n = Some v)"

definition files_ok :: "'c conf_code \<Rightarrow> bool" where
  "files_ok cf \<longleftrightarrow>
     (\<forall>c k. cf_new cf = Some c \<longrightarrow> no_entry cf c k)
     \<and> (\<forall>c k. no_entry cf (cf_unset cf c k) k)
     \<and> (\<forall>c k. \<not> cf_has cf c k \<longrightarrow> no_entry cf c k)
     \<and> (\<forall>c d k. same_entry cf (cf_append cf c d) (if cf_has cf d k then d else c) k)
     \<and> (\<forall>c p d k. cf_write cf c p = (True, Some d) \<longrightarrow> all_plain cf c \<longrightarrow> same_entry cf d c k)
     \<and> (\<forall>c p. cf_modified cf c \<longrightarrow> cf_write cf c p \<noteq> (True, None))
     \<and> (\<forall>c k. (\<forall>v. cf_has cf (set_string cf c k v) k) \<and> (\<forall>v. cf_has cf (set_path cf c k v) k)
          \<and> (\<forall>v. cf_has cf (set_int cf c k v) k) \<and> (\<forall>v. cf_has cf (set_float cf c k v) k))"

definition conf_ok :: "'c conf_code \<Rightarrow> bool" where
  "conf_ok cf \<longleftrightarrow> puts_apart cf \<and> reads_back cf \<and> files_ok cf"

lemma same_entry_refl [simp]: "same_entry cf c c k"
  by (simp add: same_entry_def)

lemma same_entry_trans [trans]: "same_entry cf a b k \<Longrightarrow> same_entry cf b c k \<Longrightarrow> same_entry cf a c k"
  by (simp add: same_entry_def)

lemma same_entry_getters:
  assumes "same_entry cf c d k"
  shows "cf_has cf c k = cf_has cf d k" "get_bool cf c k = get_bool cf d k" "get_int cf c k = get_int cf d k"
    "get_size cf c k = get_size cf d k" "get_float cf c k = get_float cf d k" "get_hex cf c k = get_hex cf d k"
    "get_array cf c k = get_array cf d k" "get_path cf c k = get_path cf d k"
    "get_as_uint cf c k = get_as_uint cf d k"
  using assms by (simp_all add: same_entry_def get_as_uint_def)

lemma puts_apartD:
  assumes "conf_ok cf" and "k \<noteq> j"
  shows "same_entry cf (set_string cf c j s) c k" "same_entry cf (set_path cf c j s) c k"
    "same_entry cf (set_int cf c j i) c k" "same_entry cf (set_float cf c j r) c k"
    "same_entry cf (set_hex cf c j w) c k" "same_entry cf (cf_unset cf c j) c k"
    "same_entry cf (put_bool cf c j b) c k" "same_entry cf (put_uint cf c j w) c k"
    "same_entry cf (put_size cf c j z) c k"
  using assms by (simp_all add: conf_ok_def puts_apart_def put_bool_def put_uint_def put_size_def)

lemma c_int_sint [simp]: "c_int (sint (w :: u32))"
  using sint_ge [of w] sint_lt [of w] by (simp add: c_int_def)

lemma reads_backD:
  assumes "conf_ok cf"
  shows "get_bool cf (put_bool cf c k b) k = Some b"
    and "c_int v \<Longrightarrow> get_int cf (set_int cf c k v) k = Some v"
    and "get_as_uint cf (put_uint cf c k w) k = Some w"
    and "get_size cf (put_size cf c k z) k = Some (scast (ucast z :: u32))"
    and "six_digits r \<Longrightarrow> get_float cf (set_float cf c k r) k = Some r"
    and "plain_text t \<Longrightarrow> length t < n \<Longrightarrow> get_array cf (set_string cf c k t) k n = Some t"
    and "plain_text t \<Longrightarrow> length t < n \<Longrightarrow> get_path cf (set_path cf c k t) k n = Some t"
    and "get_hex cf (set_hex cf c k w) k = Some w"
proof -
  have r: "reads_back cf" using assms by (simp add: conf_ok_def)
  have i: "get_int cf (set_int cf c k v) k = Some v" "get_size cf (set_int cf c k v) k = Some (word_of_int v)"
    if "c_int v" for v
    using r that unfolding reads_back_def by blast+
  show "get_bool cf (put_bool cf c k b) k = Some b" using r unfolding reads_back_def put_bool_def by blast
  show "c_int v \<Longrightarrow> get_int cf (set_int cf c k v) k = Some v" by (rule i)
  show "get_as_uint cf (put_uint cf c k w) k = Some w" by (simp add: get_as_uint_def put_uint_def i)
  show "get_size cf (put_size cf c k z) k = Some (scast (ucast z :: u32))"
    by (simp only: put_size_def i c_int_sint scast_eq)
  show "six_digits r \<Longrightarrow> get_float cf (set_float cf c k r) k = Some r" "get_hex cf (set_hex cf c k w) k = Some w"
    using r unfolding reads_back_def by blast+
  show "plain_text t \<Longrightarrow> length t < n \<Longrightarrow> get_array cf (set_string cf c k t) k n = Some t"
    "plain_text t \<Longrightarrow> length t < n \<Longrightarrow> get_path cf (set_path cf c k t) k n = Some t"
    using r unfolding reads_back_def by blast+
qed

subsection \<open>Writes that leave other keys alone\<close>

text \<open>\<open>writes cf K f\<close>: \<open>f\<close> changes at most the keys in \<open>K\<close>.\<close>

definition writes :: "'c conf_code \<Rightarrow> string set \<Rightarrow> ('c \<Rightarrow> 'c) \<Rightarrow> bool" where
  "writes cf K f \<longleftrightarrow> (\<forall>c k. k \<notin> K \<longrightarrow> same_entry cf (f c) c k)"

lemma writesD: "writes cf K f \<Longrightarrow> k \<notin> K \<Longrightarrow> same_entry cf (f c) c k"
  by (simp add: writes_def)

lemma writes_mono: "writes cf K f \<Longrightarrow> K \<subseteq> L \<Longrightarrow> writes cf L f"
  by (auto simp: writes_def)

lemma writes_id [simp]: "writes cf K (\<lambda>c. c)"
  by (simp add: writes_def)

lemma writes_comp:
  assumes "writes cf K f" and "writes cf L g"
  shows "writes cf (K \<union> L) (\<lambda>c. g (f c))"
  using assms unfolding writes_def by (meson Un_iff same_entry_trans)

lemma writes_seq: "writes cf K f \<Longrightarrow> writes cf K g \<Longrightarrow> writes cf K (\<lambda>c. g (f c))"
  using writes_comp [of cf K f K g] by simp

lemma writes_if: "(P \<Longrightarrow> writes cf K f) \<Longrightarrow> (\<not> P \<Longrightarrow> writes cf K g) \<Longrightarrow> writes cf K (\<lambda>c. if P then f c else g c)"
  by (simp add: writes_def)

lemma writes_fold:
  assumes "\<And>x. x \<in> set xs \<Longrightarrow> writes cf K (f x)"
  shows "writes cf K (fold f xs)"
  using assms
proof (induction xs)
  case (Cons x xs)
  then have "writes cf K (f x)" "writes cf K (fold f xs)" by simp_all
  from writes_seq [OF this] show ?case by (simp add: comp_def)
qed (simp add: writes_def)

lemma writes_puts:
  assumes "conf_ok cf" and "j \<in> K"
  shows "writes cf K (\<lambda>c. set_string cf c j s)" "writes cf K (\<lambda>c. set_path cf c j s)"
    "writes cf K (\<lambda>c. set_int cf c j i)" "writes cf K (\<lambda>c. set_float cf c j r)"
    "writes cf K (\<lambda>c. set_hex cf c j w)" "writes cf K (\<lambda>c. put_bool cf c j b)"
    "writes cf K (\<lambda>c. put_uint cf c j w)" "writes cf K (\<lambda>c. put_size cf c j z)"
    "writes cf K (\<lambda>c. cf_unset cf c j)"
  using assms(2) by (auto simp: writes_def intro: puts_apartD [OF assms(1)])

lemma writes_save_keys:
  assumes "\<And>k v. k \<in> set ks \<Longrightarrow> writes cf K (\<lambda>c. put c k v)"
  shows "writes cf K (save_keys put ks v)"
proof -
  have "writes cf K (fold (\<lambda>k c. put c k (v k)) ks)" by (rule writes_fold) (rule assms)
  then show ?thesis by (simp add: writes_def save_keys_def)
qed

subsection \<open>Tables written and read\<close>

lemma load_keys_eq: "load_keys get ks v k = (if k \<in> set ks then case get k of None \<Rightarrow> v k | Some x \<Rightarrow> x else v k)"
proof (induction ks arbitrary: v)
  case (Cons a ks)
  then show ?case by (cases "get a") (auto simp: load_keys_def split: option.split)
qed (simp add: load_keys_def)

text \<open>
  A written table is read back whatever was in the file; the value depends on the key alone, so it
  does not matter whether a key occurs twice.
\<close>

lemma save_keys_read:
  assumes reads: "\<And>c. get (put c k (v k)) k = x"
    and apart: "\<And>c j. k \<noteq> j \<Longrightarrow> get (put c j (v j)) k = get c k"
    and k: "k \<in> set ks"
  shows "get (save_keys put ks v c) k = x"
  using k
proof (induction ks rule: rev_induct)
  case (snoc a ks)
  show ?case
  proof (cases "k = a")
    case True
    with reads show ?thesis by (simp add: save_keys_def)
  next
    case False
    with snoc apart show ?thesis by (simp add: save_keys_def)
  qed
qed simp

lemma writes_keeps:
  assumes "writes cf K f" and "k \<notin> K"
  shows "get_bool cf (f c) k = get_bool cf c k" "get_int cf (f c) k = get_int cf c k"
    "get_as_uint cf (f c) k = get_as_uint cf c k" "get_size cf (f c) k = get_size cf c k"
    "get_float cf (f c) k = get_float cf c k" "get_array cf (f c) k = get_array cf c k"
    "get_path cf (f c) k = get_path cf c k" "get_hex cf (f c) k = get_hex cf c k"
    "cf_has cf (f c) k = cf_has cf c k"
  using same_entry_getters [OF writesD [OF assms]] by auto

section \<open>Saving in steps\<close>

text \<open>
  What the stages of saving write, and what the stages of loading leave alone.
\<close>

subsection \<open>Keys of binds\<close>

definition bind_suffixes :: "string list" where
  "bind_suffixes = [''_btn'', ''_axis'', ''_mbtn'']"

definition keys_of_bind :: "'c bind_env \<Rightarrow> string \<Rightarrow> string \<Rightarrow> string list" where
  "keys_of_bind be prefix base = join_delim be prefix base CHR ''_'' # map (bind_key be prefix base) bind_suffixes"

definition bind_keys :: "config_build \<Rightarrow> 'c config_outside \<Rightarrow> string list" where
  "bind_keys b e =
     concat (map (\<lambda>i. concat (map (\<lambda>(level, base).
       case input_config_get_prefix i (level \<noteq> 0) of
         None \<Rightarrow> [] | Some prefix \<Rightarrow> keys_of_bind (co_bind_env e) prefix base)
       (input_config_bind_map (cb_menu b)))) [0..<co_users e])"

text \<open>The binds are written with the same function as the settings.\<close>

definition same_put :: "'c config_outside \<Rightarrow> bool" where
  "same_put e \<longleftrightarrow> conf_put (co_bind_env e) = set_string (co_conf e)"

lemma writes_bind:
  assumes "conf_ok (co_conf e)" and "same_put e" and "set (keys_of_bind (co_bind_env e) prefix base) \<subseteq> K"
  shows "writes (co_conf e) K (\<lambda>c. save_keybind_joykey (co_bind_env e) m c prefix base kb v)"
    and "writes (co_conf e) K (\<lambda>c. save_keybind_axis (co_bind_env e) m c prefix base kb v)"
    and "writes (co_conf e) K (\<lambda>c. save_keybind_mbutton (co_bind_env e) m c prefix base kb v)"
    and "writes (co_conf e) K (\<lambda>c. conf_put (co_bind_env e) c (join_delim (co_bind_env e) prefix base CHR ''_'') t)"
proof -
  have put: "writes (co_conf e) K (\<lambda>c. conf_put (co_bind_env e) c k t)"
    if "k \<in> set (keys_of_bind (co_bind_env e) prefix base)" for k t
    using writes_puts(1) [OF assms(1), of k K] assms(2,3) that by (auto simp: same_put_def)
  have k: "join_delim (co_bind_env e) prefix base CHR ''_'' \<in> set (keys_of_bind (co_bind_env e) prefix base)"
    "bind_key (co_bind_env e) prefix base ''_btn'' \<in> set (keys_of_bind (co_bind_env e) prefix base)"
    "bind_key (co_bind_env e) prefix base ''_axis'' \<in> set (keys_of_bind (co_bind_env e) prefix base)"
    "bind_key (co_bind_env e) prefix base ''_mbtn'' \<in> set (keys_of_bind (co_bind_env e) prefix base)"
    by (simp_all add: keys_of_bind_def bind_suffixes_def)
  note puts = put [OF k(1)] put [OF k(2)] put [OF k(3)] put [OF k(4)]
  show "writes (co_conf e) K (\<lambda>c. conf_put (co_bind_env e) c (join_delim (co_bind_env e) prefix base CHR ''_'') t)"
    by (rule puts(1))
  show "writes (co_conf e) K (\<lambda>c. save_keybind_joykey (co_bind_env e) m c prefix base kb v)"
    using puts(2) by (simp add: save_keybind_joykey_def save_keybind_hat_def Let_def writes_def)
  show "writes (co_conf e) K (\<lambda>c. save_keybind_axis (co_bind_env e) m c prefix base kb v)"
    using puts(3) by (simp add: save_keybind_axis_def Let_def writes_def)
  show "writes (co_conf e) K (\<lambda>c. save_keybind_mbutton (co_bind_env e) m c prefix base kb v)"
    using puts(4) by (simp add: save_keybind_mbutton_def Let_def writes_def split: option.split)
qed

lemma bind_keys_member:
  assumes "i < co_users e" and "(level, base) \<in> set (input_config_bind_map (cb_menu b))"
    and "input_config_get_prefix i (level \<noteq> 0) = Some prefix"
  shows "set (keys_of_bind (co_bind_env e) prefix base) \<subseteq> set (bind_keys b e)"
proof
  fix k
  assume k: "k \<in> set (keys_of_bind (co_bind_env e) prefix base)"
  let ?f = "\<lambda>i (level :: nat, base). case input_config_get_prefix i (level \<noteq> 0) of
         None \<Rightarrow> [] | Some prefix \<Rightarrow> keys_of_bind (co_bind_env e) prefix base"
  let ?F = "\<lambda>i. concat (map (?f i) (input_config_bind_map (cb_menu b)))"
  have "k \<in> set (?f i (level, base))" using k assms(3) by simp
  with assms(2) have "k \<in> set (?F i)" unfolding set_concat set_map by blast
  moreover have "i \<in> set [0..<co_users e]" using assms(1) by simp
  ultimately show "k \<in> set (bind_keys b e)"
    unfolding bind_keys_def set_concat [of "map ?F [0..<co_users e]"] set_map by blast
qed

lemma writes_user_binds:
  assumes "conf_ok (co_conf e)" and "same_put e" and "i < co_users e"
  shows "writes (co_conf e) (set (bind_keys b e))
    (input_config_save_keybinds_user (co_bind_env e) m (cb_menu b) i bs)"
proof -
  have "writes (co_conf e) (set (bind_keys b e)) (save_one (co_bind_env e) m i x)"
    if x: "x \<in> set (zip (input_config_bind_map (cb_menu b)) bs)" for x
  proof -
    obtain level base kb where x_eq: "x = ((level, base), kb)" by (metis surj_pair)
    with x have entry: "(level, base) \<in> set (input_config_bind_map (cb_menu b))" by (meson set_zip_leftD)
    show ?thesis
    proof (cases "input_config_get_prefix i (level \<noteq> 0)")
      case None
      then show ?thesis by (simp add: x_eq save_one_def writes_def)
    next
      case (Some prefix)
      note w = writes_bind [OF assms(1,2) bind_keys_member [OF assms(3) entry Some]]
      have "writes (co_conf e) (set (bind_keys b e))
          (\<lambda>c. save_keybind_mbutton (co_bind_env e) m
             (save_keybind_axis (co_bind_env e) m
               (save_keybind_joykey (co_bind_env e) m
                 (conf_put (co_bind_env e) c (join_delim (co_bind_env e) prefix base CHR ''_'')
                   (key_to_str (co_bind_env e) (kb_key kb))) prefix base kb True) prefix base kb True) prefix base kb True)"
        by (rule writes_seq [OF writes_seq [OF writes_seq [OF w(4) w(1)] w(2)] w(3)])
      then show ?thesis using Some by (simp add: x_eq save_one_def writes_def Let_def)
    qed
  qed
  from writes_fold [OF this] show ?thesis
    by (simp add: input_config_save_keybinds_user_def writes_def)
qed

lemma writes_save_binds:
  assumes "conf_ok (co_conf e)" and "same_put e"
  shows "writes (co_conf e) (set (bind_keys b e)) (save_binds b e s)"
proof -
  have "writes (co_conf e) (set (bind_keys b e)) ((\<lambda>(i, bs) c. input_config_save_keybinds_user
      (co_bind_env e) (co_macros e) (cb_menu b) i bs c) x)"
    if "x \<in> set (zip [0..<co_users e] (cg_binds s))" for x
  proof -
    obtain i bs where x: "x = (i, bs)" by (metis surj_pair)
    with that have "i < co_users e" by (auto dest: set_zip_leftD)
    with writes_user_binds [OF assms, of i b "co_macros e" bs] x show ?thesis by simp
  qed
  from writes_fold [OF this] show ?thesis by (simp add: save_binds_def writes_def)
qed

subsection \<open>Keys of the whole configuration\<close>

definition screen_keys :: "string list" where
  "screen_keys = [''gamma_correction'', ''flicker_filter_enable'', ''soft_filter_enable'', ''soft_filter_index'',
     ''current_resolution_id'', ''flicker_filter_index'']"

definition all_device_keys :: "'c config_outside \<Rightarrow> string list" where
  "all_device_keys e = concat (map device_keys [0..<co_users e])"

lemma writes_screen:
  assumes "conf_ok cf"
  shows "writes cf (set screen_keys) (video_driver_save_settings cf g)"
proof -
  have k: "''gamma_correction'' \<in> set screen_keys" "''flicker_filter_enable'' \<in> set screen_keys"
    "''soft_filter_enable'' \<in> set screen_keys" "''soft_filter_index'' \<in> set screen_keys"
    "''current_resolution_id'' \<in> set screen_keys" "''flicker_filter_index'' \<in> set screen_keys"
    by (simp_all add: screen_keys_def)
  note u = writes_puts(7) [OF assms] and p = writes_puts(6) [OF assms]
  note w1 = writes_seq [OF u [OF k(1)] p [OF k(2)]]
  note w2 = writes_seq [OF writes_seq [OF w1 p [OF k(3)]] u [OF k(4)]]
  note w3 = writes_seq [OF writes_seq [OF w2 u [OF k(5)]] u [OF k(6)]]
  show ?thesis
    unfolding video_driver_save_settings_def Let_def by (rule w3)
qed

lemma writes_save_paths:
  assumes "conf_ok (co_conf e)"
  shows "writes (co_conf e) (insert ''xmb_font'' (set (idents (tb_path (co_tables e))))) (save_paths b e s)"
proof -
  let ?K = "insert ''xmb_font'' (set (idents (tb_path (co_tables e))))"
  have "writes (co_conf e) ?K (fold (\<lambda>en c. set_path (co_conf e) c (en_ident en)
      (saved_path en (path_values s (en_ident en)))) (tb_path (co_tables e)))"
    by (rule writes_fold) (auto intro!: writes_puts(2) [OF assms] simp: idents_def)
  from writes_seq [OF this writes_puts(2) [OF assms, of "''xmb_font''" ?K]] this show ?thesis
    by (simp add: save_paths_def writes_def Let_def)
qed

lemma writes_table:
  assumes "conf_ok cf"
  shows "writes cf (set ks) (save_keys (put_bool cf) ks vb)" "writes cf (set ks) (save_keys (put_uint cf) ks vu)"
    "writes cf (set ks) (save_keys (put_size cf) ks vz)" "writes cf (set ks) (save_keys (set_int cf) ks vi)"
    "writes cf (set ks) (save_keys (set_float cf) ks vf)" "writes cf (set ks) (save_keys (set_string cf) ks vs)"
    "writes cf (set ks) (save_keys (set_path cf) ks vs)"
  by (rule writes_save_keys, rule writes_puts [OF assms], assumption)+

lemma set_not_overridden: "set (idents (not_overridden over es)) \<subseteq> set (idents es)"
  by (auto simp: not_overridden_def idents_def)

lemma writes_devices:
  assumes "conf_ok (co_conf e)"
  shows "writes (co_conf e) (set (all_device_keys e)) (save_devices e s)"
  using writes_table(2) [OF assms, of "all_device_keys e" "sv_uint (cg_store s)"]
  by (simp add: save_devices_def all_device_keys_def writes_def)

subsection \<open>Saving as a list of stages\<close>

text \<open>The keys of each stage of saving, in the order of the stages.\<close>

definition key_lists :: "config_build \<Rightarrow> 'c config_outside \<Rightarrow> string list list" where
  "key_lists b e =
     (let tb = co_tables e in
      [''xmb_font'' # idents (tb_path tb), idents (tb_array tb), idents (tb_float tb), idents (tb_int tb),
       idents (tb_uint tb), idents (tb_size tb), all_device_keys e, idents (tb_bool tb), remote_keys (co_users e),
       [''log_verbosity'', ''perfcnt_enable''], [''video_message_color''], screen_keys, bind_keys b e])"

fun apart :: "string list list \<Rightarrow> bool" where
  "apart [] = True"
| "apart (x # xs) = (list_all (\<lambda>y. list_all (\<lambda>k. k \<notin> set y) x) xs \<and> apart xs)"

definition keys_apart :: "config_build \<Rightarrow> 'c config_outside \<Rightarrow> bool" where
  "keys_apart b e \<longleftrightarrow> apart (key_lists b e)"

definition save_stages :: "config_build \<Rightarrow> 'c config_outside \<Rightarrow> screen \<Rightarrow> 'c config \<Rightarrow> ('c \<Rightarrow> 'c) list" where
  "save_stages b e g s =
     (let cf = co_conf e; t = cg_store s; tb = co_tables e;
          keys = (\<lambda>es. idents (not_overridden (cg_overridden s) es)) in
      [save_paths b e s, save_keys (set_string cf) (keys (tb_array tb)) (sv_array t),
       save_keys (set_float cf) (keys (tb_float tb)) (sv_float t), save_keys (set_int cf) (keys (tb_int tb)) (sv_int t),
       save_keys (put_uint cf) (keys (tb_uint tb)) (sv_uint t), save_keys (put_size cf) (keys (tb_size tb)) (sv_size t),
       save_devices e s, save_keys (put_bool cf) (keys (tb_bool tb)) (sv_bool t),
       (\<lambda>c. if cb_networkgamepad b then save_keys (put_bool cf) (remote_keys (co_users e)) (sv_bool t) c else c),
       (\<lambda>c. put_bool cf (if ''RARCH_OVERRIDE_SETTING_VERBOSITY'' \<in> cg_overridden s then c
                         else put_bool cf c ''log_verbosity'' (cg_verbose s)) ''perfcnt_enable'' (cg_perfcnt s)),
       (\<lambda>c. set_hex cf c ''video_message_color'' (color_value t)), video_driver_save_settings cf g,
       save_binds b e s])"

lemma saved_conf_stages: "saved_conf b e g s c = fold (\<lambda>f c. f c) (save_stages b e g s) c"
  by (simp add: saved_conf_def save_stages_def save_bools_def save_numbers_def Let_def)

lemma length_stages [simp]: "length (save_stages b e g s) = 13" "length (key_lists b e) = 13"
  by (simp_all add: save_stages_def key_lists_def Let_def)

lemma stages_write:
  assumes "conf_ok (co_conf e)" and "same_put e"
  shows "list_all2 (\<lambda>ks f. writes (co_conf e) (set ks) f) (key_lists b e) (save_stages b e g s)"
proof -
  have sub: "writes (co_conf e) (set (idents es)) (save_keys put (idents (not_overridden over es)) v)"
    if "\<And>ks. writes (co_conf e) (set ks) (save_keys put ks v)" for es over v and put :: "_ \<Rightarrow> _ \<Rightarrow> 'v \<Rightarrow> _"
    by (rule writes_mono [OF that set_not_overridden])
  have verbosity: "writes (co_conf e) {''log_verbosity'', ''perfcnt_enable''}
      (\<lambda>c. put_bool (co_conf e) (if P then c else put_bool (co_conf e) c ''log_verbosity'' v) ''perfcnt_enable'' w)" for P v w
    by (rule writes_seq [OF writes_if]) (auto intro!: writes_puts(6) [OF assms(1)])
  show ?thesis
    unfolding key_lists_def save_stages_def Let_def
    by (simp add: sub writes_table [OF assms(1)] writes_devices [OF assms(1)] verbosity
        writes_puts [OF assms(1)] writes_screen [OF assms(1)] writes_save_binds [OF assms] writes_if
        writes_save_paths [OF assms(1)])
qed

lemma fold_writes:
  assumes "list_all2 (\<lambda>ks f. writes cf (set ks) f) kss fs" and "\<And>ks. ks \<in> set kss \<Longrightarrow> k \<notin> set ks"
  shows "same_entry cf (fold (\<lambda>f c. f c) fs c) c k"
  using assms
proof (induction kss fs arbitrary: c rule: list_all2_induct)
  case (Cons ks kss f fs)
  have "same_entry cf (fold (\<lambda>f c. f c) fs (f c)) (f c) k" using Cons.IH Cons.prems by simp
  also have "same_entry cf (f c) c k" using Cons.hyps(1) Cons.prems by (simp add: writesD)
  finally show ?case by simp
qed simp

lemma apart_later:
  assumes "apart xs" and "i < length xs" and "k \<in> set (xs ! i)" and "y \<in> set (drop (Suc i) xs)"
  shows "k \<notin> set y"
  using assms
proof (induction xs arbitrary: i)
  case (Cons x xs)
  then show ?case by (cases i) (auto simp: list_all_iff)
qed simp

text \<open>What a key has in the end is what its stage wrote.\<close>

lemma stage_entry:
  assumes ok: "conf_ok (co_conf e)" "same_put e" "keys_apart b e"
    and i: "i < 13" and k: "k \<in> set (key_lists b e ! i)"
  shows "\<exists>c1. same_entry (co_conf e) (saved_conf b e g s c) ((save_stages b e g s ! i) c1) k"
proof -
  let ?fs = "save_stages b e g s" and ?ks = "key_lists b e"
  have split: "?fs = take i ?fs @ ?fs ! i # drop (Suc i) ?fs" using i by (simp add: id_take_nth_drop)
  let ?c1 = "fold (\<lambda>f c. f c) (take i ?fs) c"
  have "list_all2 (\<lambda>ks f. writes (co_conf e) (set ks) f) (drop (Suc i) ?ks) (drop (Suc i) ?fs)"
    using stages_write [OF ok(1,2)] by (rule list_all2_dropI)
  then have "same_entry (co_conf e) (fold (\<lambda>f c. f c) (drop (Suc i) ?fs) ((?fs ! i) ?c1)) ((?fs ! i) ?c1) k"
    by (rule fold_writes) (use ok(3) i k apart_later in \<open>auto simp: keys_apart_def\<close>)
  moreover have "saved_conf b e g s c = fold (\<lambda>f c. f c) (drop (Suc i) ?fs) ((?fs ! i) ?c1)"
    unfolding saved_conf_stages by (subst split) simp
  ultimately show ?thesis by auto
qed

end
