(* ===== verification/Config_Reading.thy ===== *)
theory Config_Reading
  imports Config_Steps
begin

text \<open>
  What is read back from a saved configuration, and what loading makes of a file.
\<close>

subsection \<open>A saved configuration\<close>

text \<open>Settings that a text file can hold.\<close>

definition storable :: "'c config_outside \<Rightarrow> store \<Rightarrow> bool" where
  "storable e t \<longleftrightarrow> (\<forall>k. c_int (sv_int t k))
     \<and> (\<forall>k. six_digits (sv_float t k))
     \<and> (\<forall>k. plain_text (sv_array t k) \<and> length (sv_array t k) < co_path_max e)"

definition saved_keys :: "'c config \<Rightarrow> entry list \<Rightarrow> string set" where
  "saved_keys s es = set (idents (not_overridden (cg_overridden s) es))"

lemma saved_keys_idents: "k \<in> saved_keys s es \<Longrightarrow> k \<in> set (idents es)"
  using set_not_overridden by (auto simp: saved_keys_def)

lemma read_table:
  assumes ok: "conf_ok cf" and k: "k \<in> set ks"
  shows "get_bool cf (save_keys (put_bool cf) ks vb c) k = Some (vb k)"
    and "get_as_uint cf (save_keys (put_uint cf) ks vu c) k = Some (vu k)"
    and "get_size cf (save_keys (put_size cf) ks vz c) k = Some (scast (ucast (vz k) :: u32))"
    and "six_digits (vf k) \<Longrightarrow> get_float cf (save_keys (set_float cf) ks vf c) k = Some (vf k)"
    and "c_int (vi k) \<Longrightarrow> get_int cf (save_keys (set_int cf) ks vi c) k = Some (vi k)"
    and "plain_text (vs k) \<Longrightarrow> length (vs k) < n \<Longrightarrow> get_array cf (save_keys (set_string cf) ks vs c) k n = Some (vs k)"
proof -
  show "get_bool cf (save_keys (put_bool cf) ks vb c) k = Some (vb k)"
    by (rule save_keys_read [OF _ _ k]) (simp_all add: puts_apartD [OF ok, THEN same_entry_getters(2)] reads_backD [OF ok])
  show "get_as_uint cf (save_keys (put_uint cf) ks vu c) k = Some (vu k)"
    by (rule save_keys_read [OF _ _ k]) (simp_all add: puts_apartD [OF ok, THEN same_entry_getters(9)] reads_backD [OF ok])
  show "get_size cf (save_keys (put_size cf) ks vz c) k = Some (scast (ucast (vz k) :: u32))"
    by (rule save_keys_read [OF _ _ k]) (simp_all add: puts_apartD [OF ok, THEN same_entry_getters(4)] reads_backD [OF ok])
  show "six_digits (vf k) \<Longrightarrow> get_float cf (save_keys (set_float cf) ks vf c) k = Some (vf k)"
    by (rule save_keys_read [OF _ _ k]) (simp_all add: puts_apartD [OF ok, THEN same_entry_getters(5)] reads_backD [OF ok])
  show "c_int (vi k) \<Longrightarrow> get_int cf (save_keys (set_int cf) ks vi c) k = Some (vi k)"
    by (rule save_keys_read [OF _ _ k]) (simp_all add: puts_apartD [OF ok, THEN same_entry_getters(3)] reads_backD [OF ok])
  show "get_array cf (save_keys (set_string cf) ks vs c) k n = Some (vs k)"
    if "plain_text (vs k)" "length (vs k) < n"
  proof -
    have "(\<lambda>c k. get_array cf c k n) (save_keys (set_string cf) ks vs c) k = Some (vs k)"
      by (rule save_keys_read [OF _ _ k]) (simp_all add: puts_apartD [OF ok, THEN same_entry_getters(7)] reads_backD [OF ok] that)
    then show ?thesis by simp
  qed
qed

lemma saved_values:
  assumes ok: "conf_ok (co_conf e)" "same_put e" "keys_apart b e" and st: "storable e (cg_store s)"
  shows "k \<in> saved_keys s (tb_bool (co_tables e)) \<Longrightarrow>
      get_bool (co_conf e) (saved_conf b e g s c) k = Some (sv_bool (cg_store s) k)"
    and "k \<in> saved_keys s (tb_int (co_tables e)) \<Longrightarrow>
      get_int (co_conf e) (saved_conf b e g s c) k = Some (sv_int (cg_store s) k)"
    and "k \<in> saved_keys s (tb_uint (co_tables e)) \<Longrightarrow>
      get_as_uint (co_conf e) (saved_conf b e g s c) k = Some (sv_uint (cg_store s) k)"
    and "k \<in> saved_keys s (tb_size (co_tables e)) \<Longrightarrow>
      get_size (co_conf e) (saved_conf b e g s c) k = Some (scast (ucast (sv_size (cg_store s) k) :: u32))"
    and "k \<in> saved_keys s (tb_float (co_tables e)) \<Longrightarrow>
      get_float (co_conf e) (saved_conf b e g s c) k = Some (sv_float (cg_store s) k)"
    and "k \<in> saved_keys s (tb_array (co_tables e)) \<Longrightarrow>
      get_array (co_conf e) (saved_conf b e g s c) k (co_path_max e) = Some (sv_array (cg_store s) k)"
proof -
  have stage: "\<exists>c1. same_entry (co_conf e) (saved_conf b e g s c) ((save_stages b e g s ! i) c1) k"
    if "i < 13" "k \<in> saved_keys s es" "set (idents es) \<subseteq> set (key_lists b e ! i)" for i es
    using stage_entry [OF ok that(1), of k] that(2,3) saved_keys_idents by blast
  note r = read_table [OF ok(1)]
  note defs = save_stages_def key_lists_def Let_def saved_keys_def
  show "get_bool (co_conf e) (saved_conf b e g s c) k = Some (sv_bool (cg_store s) k)"
    if "k \<in> saved_keys s (tb_bool (co_tables e))"
    using stage [OF _ that, of 7] r(1) that by (auto simp: defs dest!: same_entry_getters(2))
  show "get_int (co_conf e) (saved_conf b e g s c) k = Some (sv_int (cg_store s) k)"
    if "k \<in> saved_keys s (tb_int (co_tables e))"
    using stage [OF _ that, of 3] r(5) that st by (auto simp: defs storable_def dest!: same_entry_getters(3))
  show "get_as_uint (co_conf e) (saved_conf b e g s c) k = Some (sv_uint (cg_store s) k)"
    if "k \<in> saved_keys s (tb_uint (co_tables e))"
    using stage [OF _ that, of 4] r(2) that by (auto simp: defs dest!: same_entry_getters(9))
  show "get_size (co_conf e) (saved_conf b e g s c) k = Some (scast (ucast (sv_size (cg_store s) k) :: u32))"
    if "k \<in> saved_keys s (tb_size (co_tables e))"
    using stage [OF _ that, of 5] r(3) that by (auto simp: defs dest!: same_entry_getters(4))
  show "get_float (co_conf e) (saved_conf b e g s c) k = Some (sv_float (cg_store s) k)"
    if "k \<in> saved_keys s (tb_float (co_tables e))"
    using stage [OF _ that, of 2] r(4) that st by (auto simp: defs storable_def dest!: same_entry_getters(5))
  show "get_array (co_conf e) (saved_conf b e g s c) k (co_path_max e) = Some (sv_array (cg_store s) k)"
    if "k \<in> saved_keys s (tb_array (co_tables e))"
    using stage [OF _ that, of 1] r(6) that st by (auto simp: defs storable_def dest!: same_entry_getters(7))
qed

subsection \<open>Values that are read\<close>

lemma load_bools_parts [simp]:
  "sv_int (cg_store (load_bools b e c s)) = sv_int (cg_store s)"
  "sv_uint (cg_store (load_bools b e c s)) = sv_uint (cg_store s)"
  "sv_size (cg_store (load_bools b e c s)) = sv_size (cg_store s)"
  "sv_float (cg_store (load_bools b e c s)) = sv_float (cg_store s)"
  "sv_array (cg_store (load_bools b e c s)) = sv_array (cg_store s)"
  "sv_path (cg_store (load_bools b e c s)) = sv_path (cg_store s)"
  by (simp_all add: load_bools_def Let_def)

lemma load_paths_parts [simp]:
  "sv_bool (cg_store (load_paths b e c s)) = sv_bool (cg_store s)"
  "sv_int (cg_store (load_paths b e c s)) = sv_int (cg_store s)"
  "sv_uint (cg_store (load_paths b e c s)) = sv_uint (cg_store s)"
  "sv_size (cg_store (load_paths b e c s)) = sv_size (cg_store s)"
  "sv_float (cg_store (load_paths b e c s)) = sv_float (cg_store s)"
  "sv_array (cg_store (load_paths b e c s)) = sv_array (cg_store s)"
  by (simp_all add: load_paths_def put_path_values_def conf_set_path_def Let_def split: option.split)

lemmas load_store_defs = load_arrays_def load_floats_def load_color_def load_devices_def load_sizes_def load_ints_def

text \<open>The rewind buffer may be given in megabytes.\<close>

definition read_size :: "string \<Rightarrow> size_t \<Rightarrow> size_t" where
  "read_size k n = (if k = ''rewind_buffer_size'' \<and> n < 10000 then n * 1024 * 1024 else n)"

lemma load_sizes_read:
  assumes "k \<in> set ks" and "get_size cf c k = Some n"
  shows "fold (load_size cf c) ks v k = read_size k n"
  using assms(1)
proof (induction ks rule: rev_induct)
  case (snoc a ks)
  have step: "load_size cf c a w k = (if k = a then read_size k n else w k)" for w
    using assms(2) by (auto simp: load_size_def read_size_def Let_def split: option.split)
  with snoc show ?case by auto
qed simp

lemma loaded_values:
  shows "k \<in> set (idents (tb_bool (co_tables e))) \<Longrightarrow> get_bool (co_conf e) c k = Some vb \<Longrightarrow>
      sv_bool (cg_store (load_values b e c s)) k = vb"
    and "k \<in> set (idents (tb_int (co_tables e))) \<Longrightarrow> get_int (co_conf e) c k = Some vi \<Longrightarrow>
      sv_int (cg_store (load_values b e c s)) k = vi"
    and "k \<in> set (idents (tb_uint (co_tables e))) \<Longrightarrow> get_as_uint (co_conf e) c k = Some vu \<Longrightarrow>
      sv_uint (cg_store (load_values b e c s)) k = vu"
    and "k \<in> set (idents (tb_size (co_tables e))) \<Longrightarrow> get_size (co_conf e) c k = Some vz \<Longrightarrow>
      sv_size (cg_store (load_values b e c s)) k = read_size k vz"
    and "k \<in> set (idents (tb_float (co_tables e))) \<Longrightarrow> get_float (co_conf e) c k = Some vf \<Longrightarrow>
      sv_float (cg_store (load_values b e c s)) k = vf"
    and "k \<in> set (handled (tb_array (co_tables e))) \<Longrightarrow> get_array (co_conf e) c k (co_path_max e) = Some va \<Longrightarrow>
      sv_array (cg_store (load_values b e c s)) k = va"
proof -
  note defs = load_values_def load_store_defs Let_def load_keys_eq
  show "sv_bool (cg_store (load_values b e c s)) k = vb"
    if "k \<in> set (idents (tb_bool (co_tables e)))" "get_bool (co_conf e) c k = Some vb"
    using that by (simp add: load_values_def load_store_defs load_bools_def Let_def load_keys_eq split: option.split)
  show "sv_int (cg_store (load_values b e c s)) k = vi"
    if "k \<in> set (idents (tb_int (co_tables e)))" "get_int (co_conf e) c k = Some vi"
    using that by (simp add: defs split: option.split)
  show "sv_uint (cg_store (load_values b e c s)) k = vu"
    if "k \<in> set (idents (tb_uint (co_tables e)))" "get_as_uint (co_conf e) c k = Some vu"
    using that by (simp add: defs split: option.split)
  show "sv_size (cg_store (load_values b e c s)) k = read_size k vz"
    if "k \<in> set (idents (tb_size (co_tables e)))" "get_size (co_conf e) c k = Some vz"
    using load_sizes_read [OF that] by (simp add: defs split: option.split)
  show "sv_float (cg_store (load_values b e c s)) k = vf"
    if "k \<in> set (idents (tb_float (co_tables e)))" "get_float (co_conf e) c k = Some vf"
    using that by (simp add: defs split: option.split)
  show "sv_array (cg_store (load_values b e c s)) k = va"
    if "k \<in> set (handled (tb_array (co_tables e)))" "get_array (co_conf e) c k (co_path_max e) = Some va"
    using that by (simp add: defs split: option.split)
qed

subsection \<open>What loading adjusts\<close>

definition adjusted_bools :: "string list" where
  "adjusted_bools = [''cheevos_visibility_lboard_start'', ''cheevos_visibility_lboard_submit'',
     ''cheevos_visibility_lboard_cancel'', ''cheevos_visibility_lboard_trackers'', ''gamemode_enable'']"

definition adjusted_uints :: "string list" where
  "adjusted_uints = [''video_hard_sync_frames'', ''video_max_swapchain_images'', ''video_frame_delay'',
     ''video_swap_interval'', ''audio_wasapi_sh_buffer_length'']"

definition adjusted_floats :: "string list" where
  "adjusted_floats = [''slowmotion_ratio'', ''fastforward_ratio'']"

definition adjusted_arrays :: "string list" where
  "adjusted_arrays = [''midi_input'', ''midi_output'', ''cheevos_leaderboards_enable'', ''menu_driver'']"

definition adjusted_keys :: "string set" where
  "adjusted_keys = set (adjusted_bools @ ''content_favorites_size'' # adjusted_uints @ adjusted_floats @ adjusted_arrays)"

lemma conf_set_parts [simp]:
  "cg_store (conf_set_path k p s) = (cg_store s)\<lparr>sv_path := (sv_path (cg_store s))(k := p), sv_modified := True\<rparr>"
  "cg_store (conf_set_bool k vb s) = (cg_store s)\<lparr>sv_bool := (sv_bool (cg_store s))(k := vb), sv_modified := True\<rparr>"
  "cg_store (conf_set_float k vf s) = (cg_store s)\<lparr>sv_float := (sv_float (cg_store s))(k := vf), sv_modified := True\<rparr>"
  "cg_store (conf_set_array k p s) = (cg_store s)\<lparr>sv_array := (sv_array (cg_store s))(k := p), sv_modified := True\<rparr>"
  "cg_store (cg_call f s) = cg_store s"
  by (simp_all add: conf_set_path_def conf_set_bool_def conf_set_float_def conf_set_array_def cg_call_def)

text \<open>Two stores that differ in paths at most.\<close>

definition same_values :: "store \<Rightarrow> store \<Rightarrow> bool" where
  "same_values t u \<longleftrightarrow> sv_bool t = sv_bool u \<and> sv_int t = sv_int u \<and> sv_uint t = sv_uint u
     \<and> sv_size t = sv_size u \<and> sv_float t = sv_float u \<and> sv_array t = sv_array u"

lemma same_values_refl [simp]: "same_values t t"
  by (simp add: same_values_def)

lemma same_values_trans [trans]: "same_values t u \<Longrightarrow> same_values u v \<Longrightarrow> same_values t v"
  by (simp add: same_values_def)

lemma same_values_then: "same_values t' t \<Longrightarrow> same_values t' u = same_values t u"
  by (simp add: same_values_def)

lemma same_values_updates [simp]:
  "same_values (t\<lparr>sv_path := p\<rparr>) u = same_values t u" "same_values (t\<lparr>sv_modified := m\<rparr>) u = same_values t u"
  by (simp_all add: same_values_def)

lemma fold_same_values:
  assumes "\<And>x t. same_values (f x t) t"
  shows "same_values (fold f xs t) t"
proof (induction xs arbitrary: t)
  case (Cons x xs)
  from same_values_trans [OF Cons.IH [of "f x t"] assms [of x t]] show ?case by simp
qed simp

lemma put_path_values_same [simp]: "same_values (put_path k v t) u = same_values t u"
  by (simp add: put_path_def)

lemma clear_default_same: "same_values (clear_default k t) t"
  by (simp add: clear_default_def)

lemma from_env_same: "same_values (cg_store (from_env e var ks s)) (cg_store s)"
proof -
  have "same_values (cg_store (fold (\<lambda>k. conf_set_path k v) ks s)) (cg_store s)" for v
  proof (induction ks arbitrary: s)
    case (Cons k ks)
    from same_values_trans [OF Cons.IH [of "conf_set_path k v s"]] show ?case by simp
  qed simp
  then show ?thesis by (simp add: from_env_def split: option.split)
qed

lemmas same_steps [simp] = same_values_then [OF clear_default_same] same_values_then [OF from_env_same]

lemma environment_same: "same_values (cg_store (apply_environment e u s)) (cg_store s)"
  by (simp add: apply_environment_def Let_def)

lemma playlist_path_same: "same_values (playlist_path e p x t) t"
proof -
  obtain k d f where x: "x = (k, d, f)" by (metis surj_pair)
  show ?thesis
    unfolding x playlist_path_def prod.case Let_def put_path_values_same
    by (cases "sv_path t k = []") simp_all
qed

lemma playlists_same: "same_values (apply_playlists e p t) t"
  unfolding apply_playlists_def by (rule fold_same_values) (rule playlist_path_same)

lemma screenshot_same: "same_values (apply_screenshot e t) t"
  by (simp add: apply_screenshot_def Let_def)

lemma env_or_default_same: "same_values (cg_store (env_or_default e var k s)) (cg_store s)"
  by (simp add: env_or_default_def)

lemma defaults_same: "same_values (cg_store (apply_defaults b e s)) (cg_store s)"
proof -
  have fold: "same_values (fold clear_default ks t) u = same_values t u" for ks t u
    by (rule same_values_then, rule fold_same_values) (rule clear_default_same)
  show ?thesis
    by (simp add: apply_defaults_def Let_def fold same_values_then [OF env_or_default_same] del: fold.simps)
qed

lemma log_dir_same: "same_values (cg_store (apply_log_dir e s)) (cg_store s)"
  by (simp add: apply_log_dir_def Let_def)

text \<open>Two stores that agree outside a set of keys, paths aside.\<close>

definition agree :: "string set \<Rightarrow> store \<Rightarrow> store \<Rightarrow> bool" where
  "agree K t u \<longleftrightarrow> (\<forall>k. k \<notin> K \<longrightarrow> sv_bool t k = sv_bool u k \<and> sv_int t k = sv_int u k
     \<and> sv_uint t k = sv_uint u k \<and> sv_size t k = sv_size u k \<and> sv_float t k = sv_float u k
     \<and> sv_array t k = sv_array u k)"

lemma agree_refl [simp]: "agree K t t"
  by (simp add: agree_def)

lemma agree_trans [trans]: "agree K t u \<Longrightarrow> agree K u v \<Longrightarrow> agree K t v"
  by (simp add: agree_def)

lemma agree_same: "same_values t' t \<Longrightarrow> agree K t' u = agree K t u"
  by (simp add: agree_def same_values_def)

lemmas adjusted_defs = adjusted_bools_def adjusted_uints_def adjusted_floats_def adjusted_arrays_def

lemma limits_agree: "agree adjusted_keys (cg_store (apply_limits b e s)) (cg_store s)"
proof -
  have at: "k \<noteq> a \<Longrightarrow> at_most m a v k = v k" "k \<noteq> a \<Longrightarrow> at_least m a v k = v k" for k a m v
    by (simp_all add: at_most_def at_least_def)
  have "clamp_uints b e v k = v k" if "k \<notin> adjusted_keys" for v k
    using that by (simp add: clamp_uints_def Let_def at adjusted_keys_def adjusted_defs)
  then show ?thesis by (simp add: apply_limits_def Let_def agree_def)
qed

lemma midi_agree: "agree adjusted_keys (cg_store (apply_midi e s)) (cg_store s)"
  by (simp add: apply_midi_def Let_def agree_def adjusted_keys_def adjusted_defs)

lemma ratios_agree: "agree adjusted_keys (cg_store (apply_ratios s)) (cg_store s)"
  by (simp add: apply_ratios_def Let_def agree_def adjusted_keys_def adjusted_defs)

lemma leaderboards_agree: "agree adjusted_keys (apply_leaderboards b t) t"
  by (simp add: apply_leaderboards_def Let_def agree_def adjusted_keys_def adjusted_defs split: prod.split)

lemma menu_agree: "agree adjusted_keys (cg_store (apply_menu_driver b s)) (cg_store s)"
  by (simp add: apply_menu_driver_def agree_def adjusted_keys_def adjusted_defs)

lemma gamemode_agree: "agree adjusted_keys (cg_store (apply_gamemode e s)) (cg_store s)"
  by (simp add: apply_gamemode_def Let_def agree_def adjusted_keys_def adjusted_defs)

lemma favorites_agree: "agree adjusted_keys (apply_favorites_size e c t) t"
  by (simp add: apply_favorites_size_def Let_def agree_def adjusted_keys_def)

lemma dirs_store [simp]:
  "cg_store (apply_save_dir e c s) = cg_store s" "cg_store (apply_state_dir e c s) = cg_store s"
  by (simp_all add: apply_save_dir_def apply_state_dir_def Let_def split: option.split)

text \<open>Whatever is done after the values are read, no other setting changes.\<close>

lemma settings_agree: "agree adjusted_keys (cg_store (apply_settings b e c user s)) (cg_store s)"
proof -
  define s1 where "s1 = apply_midi e (apply_limits b e (apply_environment e user s))"
  define s2 where "s2 = upd_store (apply_screenshot e) (upd_store (apply_playlists e (cg_paths s1 ''RARCH_PATH_CONFIG'')) s1)"
  define s3 where "s3 = upd_store (apply_leaderboards b) (apply_ratios (apply_log_dir e (apply_defaults b e s2)))"
  define s4 where "s4 = apply_state_dir e c (apply_save_dir e c s3)"
  define s5 where "s5 = apply_menu_driver b (s4\<lparr>cg_binds := co_read_binds e c (cg_binds s4)\<rparr>)"
  define s6 where "s6 = cg_call ''recording_driver_update_streaming_url''
                 (cg_call ''frontend_driver_set_sustained_performance_mode'' s5)"
  define s7 where "s7 = (if cf_has (co_conf e) c ''user_language'' then s6 else cg_call ''MSG_HASH_USER_LANGUAGE'' s6)"
  have all: "apply_settings b e c user s = upd_store (apply_favorites_size e c) (apply_gamemode e s7)"
    unfolding apply_settings_def Let_def s7_def s6_def s5_def s4_def s3_def s2_def s1_def by (rule refl)
  have a1: "agree adjusted_keys (cg_store s1) (cg_store s)"
    unfolding s1_def
    by (rule agree_trans [OF midi_agree agree_trans [OF limits_agree]]) (simp add: agree_same [OF environment_same])
  have a2: "agree adjusted_keys (cg_store s2) (cg_store s1)"
    unfolding s2_def by (simp add: agree_same [OF screenshot_same] agree_same [OF playlists_same])
  have a3: "agree adjusted_keys (cg_store s3) (cg_store s2)"
  proof -
    have "agree adjusted_keys (cg_store (apply_ratios (apply_log_dir e (apply_defaults b e s2)))) (cg_store s2)"
      by (rule agree_trans [OF ratios_agree]) (simp add: agree_same [OF log_dir_same] agree_same [OF defaults_same])
    from agree_trans [OF leaderboards_agree this] show ?thesis by (simp add: s3_def)
  qed
  have a7: "agree adjusted_keys (cg_store s7) (cg_store s3)"
    using menu_agree [of b "s4\<lparr>cg_binds := co_read_binds e c (cg_binds s4)\<rparr>"]
    by (simp add: s7_def s6_def s5_def s4_def)
  have "agree adjusted_keys (apply_favorites_size e c (cg_store (apply_gamemode e s7))) (cg_store s7)"
    by (rule agree_trans [OF favorites_agree gamemode_agree])
  then show ?thesis
    unfolding all by (simp add: agree_trans [OF _ agree_trans [OF a7 agree_trans [OF a3 agree_trans [OF a2 a1]]]])
qed

section \<open>Sizes\<close>

text \<open>
  Sizes are written as numbers of 32 bits with a sign and read as 64 bits: which of them survive.
\<close>

lemma sint_cut:
  assumes "uint (z :: size_t) = 2 ^ 32 * q + m" "0 \<le> m" "m < 2 ^ 32"
  shows "sint (ucast z :: u32) = (if m < 2 ^ 31 then m else m - 2 ^ 32)"
proof -
  have "sint (ucast z :: u32) = (m + 2 ^ 31) mod 2 ^ 32 - 2 ^ 31"
    by (simp add: signed_ucast_eq signed_take_bit_eq_take_bit_shift take_bit_eq_mod assms(1) add.assoc)
  also have "(m + 2 ^ 31) mod 2 ^ 32 = (if m < 2 ^ 31 then m + 2 ^ 31 else m - 2 ^ 31)"
  proof (cases "m < 2 ^ 31")
    case False
    have "(m + 2 ^ 31) mod 2 ^ 32 = (m - 2 ^ 31) mod 2 ^ 32"
      using mod_add_self2 [of "m - 2 ^ 31" "2 ^ 32"] by (simp add: add.commute)
    with False assms show ?thesis by simp
  qed (use assms in simp)
  finally show ?thesis by simp
qed

lemma megabytes:
  assumes "(0 :: int) \<le> m" "m < 10000" "m * 2 ^ 20 = 2 ^ 32 * q + m"
  shows "m = 0"
proof (rule ccontr)
  assume "m \<noteq> 0"
  have "m * (2 ^ 20 - 1) = 2 ^ 32 * q" using assms(3) by (simp add: algebra_simps)
  then have "2 ^ 32 dvd m * (2 ^ 20 - 1)" by simp
  moreover have "coprime (2 ^ 32 :: int) (2 ^ 20 - 1)" by (simp only: coprime_power_left_iff) simp
  ultimately have "2 ^ 32 dvd m" by (simp only: coprime_dvd_mult_left_iff)
  then have "2 ^ 32 \<le> m" using assms(1) \<open>m \<noteq> 0\<close> by (intro zdvd_imp_le) auto
  with assms(2) show False by simp
qed

lemma uint_size: "uint (word_of_int i :: size_t) = i mod 2 ^ 64"
  by (simp add: uint_word_of_int)

lemma size_cut:
  assumes "uint (z :: size_t) = 2 ^ 32 * q + m" "0 \<le> m" "m < 2 ^ 32"
  shows "uint (scast (ucast z :: u32) :: size_t) = (if m < 2 ^ 31 then m else m + (2 ^ 64 - 2 ^ 32))"
proof -
  have "uint (scast (ucast z :: u32) :: size_t) = sint (ucast z :: u32) mod 2 ^ 64"
    by (simp only: scast_eq uint_size)
  also have "\<dots> = (if m < 2 ^ 31 then m else m + (2 ^ 64 - 2 ^ 32))"
  proof (cases "m < 2 ^ 31")
    case False
    have "(m - 2 ^ 32) mod 2 ^ 64 = (m + (2 ^ 64 - 2 ^ 32)) mod 2 ^ 64"
      using mod_add_self2 [of "m - 2 ^ 32" "2 ^ 64"] by (simp add: add.commute)
    with False assms(2,3) show ?thesis by (simp add: sint_cut [OF assms])
  qed (use assms in \<open>simp add: sint_cut [OF assms]\<close>)
  finally show ?thesis .
qed

lemma small_size:
  assumes "(z :: size_t) < 2 ^ 31"
  shows "scast (ucast z :: u32) = z"
  using size_cut [of z 0 "uint z"] assms by (simp add: word_less_def word_uint_eq_iff)

lemma read_small: "10000 \<le> z \<Longrightarrow> z < 2 ^ 31 \<Longrightarrow> read_size k (scast (ucast (z :: size_t) :: u32)) = z"
  by (simp only: small_size) (simp add: read_size_def not_less [symmetric])

text \<open>A size survives being written as a number of 32 bits if it has few bits, or almost all.\<close>

lemma size_survives:
  "read_size ''rewind_buffer_size'' (scast (ucast z :: u32)) = z \<longleftrightarrow>
     uint z = 0 \<or> 10000 \<le> uint z \<and> uint z < 2 ^ 31 \<or> 2 ^ 64 - 2 ^ 31 \<le> uint z"
proof -
  define q m where "q = uint z div 2 ^ 32" and "m = uint z mod 2 ^ 32"
  have z: "uint z = 2 ^ 32 * q + m" "0 \<le> m" "m < 2 ^ 32" by (simp_all add: q_def m_def)
  have q: "0 \<le> q" "q < 2 ^ 32"
    using uint_lt2p [of z] by (simp_all add: q_def pos_imp_zdiv_nonneg_iff div_less_iff_less_mult)
  note cut = size_cut [OF z]
  let ?w = "scast (ucast z :: u32) :: size_t"
  consider (small) "m < 10000" | (middle) "10000 \<le> m" "m < 2 ^ 31" | (large) "2 ^ 31 \<le> m" by linarith
  then show ?thesis
  proof cases
    case small
    then have w: "uint ?w = m" using cut by simp
    then have "uint (?w * 1024 * 1024) = m * 2 ^ 20"
      using small z(2) by (simp add: uint_word_ariths)
    then have "read_size ''rewind_buffer_size'' ?w = z \<longleftrightarrow> m * 2 ^ 20 = 2 ^ 32 * q + m"
      using w small z(1) by (simp add: read_size_def word_less_def word_uint_eq_iff)
    also have "\<dots> \<longleftrightarrow> uint z = 0"
    proof
      assume eq: "m * 2 ^ 20 = 2 ^ 32 * q + m"
      from megabytes [OF z(2) small this] eq z(1) show "uint z = 0" by simp
    qed (simp add: q_def m_def)
    finally show ?thesis using small z q by (cases "q = 0") auto
  next
    case middle
    then have w: "uint ?w = m" using cut by simp
    then have "read_size ''rewind_buffer_size'' ?w = z \<longleftrightarrow> m = 2 ^ 32 * q + m"
      using middle z(1) by (simp add: read_size_def word_less_def word_uint_eq_iff)
    then show ?thesis using middle z q by (cases "q = 0") auto
  next
    case large
    then have w: "uint ?w = m + (2 ^ 64 - 2 ^ 32)" using cut by simp
    then have "read_size ''rewind_buffer_size'' ?w = z \<longleftrightarrow> m + (2 ^ 64 - 2 ^ 32) = 2 ^ 32 * q + m"
      using z by (simp add: read_size_def word_less_def word_uint_eq_iff)
    then show ?thesis using large z q by (cases "q = 2 ^ 32 - 1") auto
  qed
qed

end
