(* ===== verification/Config_Properties.thy ===== *)
theory Config_Properties
  imports Config_Reading
begin

text \<open>
  What holds of saving and loading configurations, overrides and remaps.
\<close>

subsection \<open>Saving, then loading\<close>

text \<open>
  The settings of \<open>u\<close> are those that \<open>s\<close> had when it was saved: every setting of a table that the
  command line does not override and that loading does not adjust.
\<close>

definition restored :: "'c config_outside \<Rightarrow> 'c config \<Rightarrow> store \<Rightarrow> bool" where
  "restored e s u \<longleftrightarrow>
     (let t = cg_store s; tb = co_tables e; saved = (\<lambda>es. saved_keys s es - adjusted_keys)
      in (\<forall>k \<in> saved (tb_bool tb). sv_bool u k = sv_bool t k) \<and> (\<forall>k \<in> saved (tb_int tb). sv_int u k = sv_int t k)
       \<and> (\<forall>k \<in> saved (tb_uint tb). sv_uint u k = sv_uint t k)
       \<and> (\<forall>k \<in> saved (tb_float tb). sv_float u k = sv_float t k)
       \<and> (\<forall>k \<in> saved (tb_array tb). k \<in> set (handled (tb_array tb)) \<longrightarrow> sv_array u k = sv_array t k)
       \<and> (\<forall>k \<in> saved (tb_size tb). 10000 \<le> sv_size t k \<and> sv_size t k < 2 ^ 31 \<longrightarrow> sv_size u k = sv_size t k))"

text \<open>A session that reads the file \<open>p\<close> and no other.\<close>

definition reads_only :: "string \<Rightarrow> 'c config \<Rightarrow> bool" where
  "reads_only p r \<longleftrightarrow> p \<noteq> ''without-overrides''
     \<and> cg_paths r ''RARCH_PATH_CONFIG_APPEND'' = [] \<and> cg_paths r ''RARCH_PATH_CONFIG_OVERRIDE'' = []"

text \<open>The files that can be written and parsed again.\<close>

definition saves_to :: "config_build \<Rightarrow> 'c config_outside \<Rightarrow> screen \<Rightarrow> string \<Rightarrow> 'c config \<Rightarrow> 'c \<Rightarrow> bool" where
  "saves_to b e g p s d \<longleftrightarrow> Overrides_active \<notin> cg_flags s
     \<and> (\<exists>c. open_or_new e p s = Some c \<and> all_plain (co_conf e) (saved_conf b e g s c)
           \<and> cf_write (co_conf e) (saved_conf b e g s c) p = (True, Some d))"

lemma saves_to_disk: "saves_to b e g p s d \<Longrightarrow> cg_disk (snd (config_save_file b e g p s)) p = Some d"
  by (auto simp: saves_to_def config_save_file_def write_conf_def)

lemma verbosity_parts [simp]:
  "cg_paths (check_verbosity_settings e c s) = cg_paths s"
  by (simp add: check_verbosity_settings_def Let_def conf_set_bool_def split: option.split)

text \<open>Loading one file: its values, then the adjustments.\<close>

lemma load_only:
  assumes "reads_only p r" and "cg_disk r p = Some d"
  shows "\<exists>s1 user. config_load_file b e (Some p) r = (True, apply_settings b e d user (load_values b e d s1))"
  using assms by (simp add: reads_only_def config_load_file_def config_load_conf_def append_configs_def
      append_overrides_def Let_def) blast

text \<open>A setting that was saved is read back from a file with the same entries.\<close>

lemma loaded_saved:
  assumes ok: "conf_ok (co_conf e)" "same_put e" "keys_apart b e" "storable e (cg_store s)"
    and same: "\<And>k. same_entry (co_conf e) d (saved_conf b e g s c) k"
  shows "k \<in> saved_keys s (tb_bool (co_tables e)) \<Longrightarrow> sv_bool (cg_store (load_values b e d r)) k = sv_bool (cg_store s) k"
    and "k \<in> saved_keys s (tb_int (co_tables e)) \<Longrightarrow> sv_int (cg_store (load_values b e d r)) k = sv_int (cg_store s) k"
    and "k \<in> saved_keys s (tb_uint (co_tables e)) \<Longrightarrow> sv_uint (cg_store (load_values b e d r)) k = sv_uint (cg_store s) k"
    and "k \<in> saved_keys s (tb_float (co_tables e)) \<Longrightarrow> sv_float (cg_store (load_values b e d r)) k = sv_float (cg_store s) k"
    and "k \<in> saved_keys s (tb_array (co_tables e)) \<Longrightarrow> k \<in> set (handled (tb_array (co_tables e))) \<Longrightarrow>
      sv_array (cg_store (load_values b e d r)) k = sv_array (cg_store s) k"
    and "k \<in> saved_keys s (tb_size (co_tables e)) \<Longrightarrow> sv_size (cg_store (load_values b e d r)) k =
      read_size k (scast (ucast (sv_size (cg_store s) k) :: u32))"
  supply got = same_entry_getters [OF same] and sv = saved_values [OF ok]
  subgoal by (rule loaded_values(1) [OF saved_keys_idents]) (simp_all add: got sv)
  subgoal by (rule loaded_values(2) [OF saved_keys_idents]) (simp_all add: got sv)
  subgoal by (rule loaded_values(3) [OF saved_keys_idents]) (simp_all add: got sv)
  subgoal by (rule loaded_values(5) [OF saved_keys_idents]) (simp_all add: got sv)
  subgoal by (rule loaded_values(6)) (simp_all add: got sv)
  subgoal by (rule loaded_values(4) [OF saved_keys_idents]) (simp_all add: got sv)
  done

lemma load_after_save:
  assumes "conf_ok (co_conf e)" "same_put e" "keys_apart b e" "storable e (cg_store s)" "saves_to b e g p s d"
    and "reads_only p r" "cg_disk r p = cg_disk (snd (config_save_file b e g p s)) p"
  obtains c s1 user where "\<And>k. same_entry (co_conf e) d (saved_conf b e g s c) k"
    and "snd (config_load_file b e (Some p) r) = apply_settings b e d user (load_values b e d s1)"
proof -
  have d: "cg_disk r p = Some d" using assms(5,7) by (simp add: saves_to_disk)
  obtain c where w: "all_plain (co_conf e) (saved_conf b e g s c)"
    "cf_write (co_conf e) (saved_conf b e g s c) p = (True, Some d)"
    using assms(5) by (auto simp: saves_to_def)
  have same: "same_entry (co_conf e) d (saved_conf b e g s c) k" for k
    using assms(1) w unfolding conf_ok_def files_ok_def by blast
  obtain s1 user where "config_load_file b e (Some p) r = (True, apply_settings b e d user (load_values b e d s1))"
    using load_only [OF assms(6) d] by blast
  then show ?thesis using that [OF same] by simp
qed

text \<open>
  C11. Settings survive.  When the configuration is saved to a file and a later session, in whatever
  state, loads that file alone, every setting of the tables has the value it had when it was saved:
  switches, numbers, texts, and sizes between 10000 and 2^31, except the settings that loading
  adjusts and those that the command line overrides.
\<close>

theorem settings_round_trip:
  assumes "conf_ok (co_conf e)" "same_put e" "keys_apart b e" "storable e (cg_store s)"
    and "saves_to b e g p s d"
    and "reads_only p r" "cg_disk r p = cg_disk (snd (config_save_file b e g p s)) p"
  shows "restored e s (cg_store (snd (config_load_file b e (Some p) r)))"
proof -
  obtain c s1 user where same: "\<And>k. same_entry (co_conf e) d (saved_conf b e g s c) k"
    and load: "snd (config_load_file b e (Some p) r) = apply_settings b e d user (load_values b e d s1)"
    by (rule load_after_save [OF assms]) blast
  let ?v = "load_values b e d s1" and ?u = "apply_settings b e d user (load_values b e d s1)"
  note kept = settings_agree [of b e d user ?v, unfolded agree_def, rule_format]
  note lv = loaded_saved [OF assms(1-4) same, of _ s1]
  show ?thesis
    unfolding restored_def Let_def load
  proof (intro conjI ballI impI)
    fix k assume k: "k \<in> saved_keys s (tb_bool (co_tables e)) - adjusted_keys"
    show "sv_bool (cg_store ?u) k = sv_bool (cg_store s) k"
      using kept [of k] lv(1) [of k] k by simp
  next
    fix k assume k: "k \<in> saved_keys s (tb_int (co_tables e)) - adjusted_keys"
    show "sv_int (cg_store ?u) k = sv_int (cg_store s) k"
      using kept [of k] lv(2) [of k] k by simp
  next
    fix k assume k: "k \<in> saved_keys s (tb_uint (co_tables e)) - adjusted_keys"
    show "sv_uint (cg_store ?u) k = sv_uint (cg_store s) k"
      using kept [of k] lv(3) [of k] k by simp
  next
    fix k assume k: "k \<in> saved_keys s (tb_float (co_tables e)) - adjusted_keys"
    show "sv_float (cg_store ?u) k = sv_float (cg_store s) k"
      using kept [of k] lv(4) [of k] k by simp
  next
    fix k assume k: "k \<in> saved_keys s (tb_array (co_tables e)) - adjusted_keys" "k \<in> set (handled (tb_array (co_tables e)))"
    show "sv_array (cg_store ?u) k = sv_array (cg_store s) k"
      using kept [of k] lv(5) [of k] k by simp
  next
    fix k assume k: "k \<in> saved_keys s (tb_size (co_tables e)) - adjusted_keys"
      "10000 \<le> sv_size (cg_store s) k \<and> sv_size (cg_store s) k < 2 ^ 31"
    show "sv_size (cg_store ?u) k = sv_size (cg_store s) k"
      using kept [of k] lv(6) [of k] k read_small by simp
  qed
qed

text \<open>
  Which sizes of the rewind buffer survive.  After saving and loading, the rewind buffer has the
  size it had if and only if that is zero, or lies between 10000 and 2^31, or among the last 2^31
  sizes: a smaller one is taken for megabytes, and every other one is cut.
\<close>

theorem rewind_buffer_survives:
  assumes "conf_ok (co_conf e)" "same_put e" "keys_apart b e" "storable e (cg_store s)" "saves_to b e g p s d"
    and "reads_only p r" "cg_disk r p = cg_disk (snd (config_save_file b e g p s)) p"
    and "''rewind_buffer_size'' \<in> saved_keys s (tb_size (co_tables e))"
    and "z = sv_size (cg_store s) ''rewind_buffer_size''"
  shows "sv_size (cg_store (snd (config_load_file b e (Some p) r))) ''rewind_buffer_size'' = z
    \<longleftrightarrow> uint z = 0 \<or> 10000 \<le> uint z \<and> uint z < 2 ^ 31 \<or> 2 ^ 64 - 2 ^ 31 \<le> uint z"
proof -
  let ?k = "''rewind_buffer_size''"
  obtain c s1 user where same: "\<And>k. same_entry (co_conf e) d (saved_conf b e g s c) k"
    and load: "snd (config_load_file b e (Some p) r) = apply_settings b e d user (load_values b e d s1)"
    by (rule load_after_save [OF assms(1-7)]) blast
  have "?k \<notin> adjusted_keys" by (simp add: adjusted_keys_def adjusted_defs)
  then have "sv_size (cg_store (snd (config_load_file b e (Some p) r))) ?k = sv_size (cg_store (load_values b e d s1)) ?k"
    using settings_agree [of b e d user "load_values b e d s1"] by (simp add: load agree_def)
  also have "\<dots> = read_size ?k (scast (ucast z :: u32))"
    using loaded_saved(6) [OF assms(1-4) same assms(8)] by (simp only: assms(9))
  finally show ?thesis by (simp only: size_survives)
qed

end
