(* ===== verification/Override_Changes.thy ===== *)
theory Override_Changes
  imports Config_Properties
begin

text \<open>
  What a file of overrides holds: the settings that differ from the configuration and no others; the
  login of the achievements service never.
\<close>

subsection \<open>Keys of overrides\<close>

definition shared_arrays :: "config_build \<Rightarrow> 'c config_outside \<Rightarrow> string list" where
  "shared_arrays b e = filter (\<lambda>k. \<not> (cb_cheevos b \<and> k \<in> set cheevos_login)) (idents (tb_array (co_tables e)))"

definition shared_paths :: "config_build \<Rightarrow> 'c config_outside \<Rightarrow> string list" where
  "shared_paths b e = filter (\<lambda>k. \<not> (cb_ios b \<and> k = ''libretro_directory'')) (idents (tb_path (co_tables e)))"

definition override_keys :: "config_build \<Rightarrow> 'c config_outside \<Rightarrow> string list list" where
  "override_keys b e =
     (let tb = co_tables e
      in [idents (tb_bool tb), idents (tb_int tb), idents (tb_uint tb), idents (tb_size tb), idents (tb_float tb),
          shared_arrays b e, shared_paths b e, all_device_keys e @ bind_keys b e])"

definition override_stages ::
    "config_build \<Rightarrow> 'c config_outside \<Rightarrow> 'c config \<Rightarrow> 'c config \<Rightarrow> ('c \<Rightarrow> 'c) list" where
  "override_stages b e base now =
     (let cf = co_conf e; tb = co_tables e; t = cg_store base; u = cg_store now in
      [save_changed (put_bool cf) (idents (tb_bool tb)) (sv_bool t) (sv_bool u),
       save_changed (set_int cf) (idents (tb_int tb)) (sv_int t) (sv_int u),
       save_changed (put_uint cf) (idents (tb_uint tb)) (sv_uint t) (sv_uint u),
       save_changed (put_size cf) (idents (tb_size tb)) (sv_size t) (sv_size u),
       save_changed (set_float cf) (idents (tb_float tb)) (sv_float t) (sv_float u),
       save_changed (set_string cf) (shared_arrays b e) (sv_array t) (sv_array u),
       save_changed (set_path cf) (shared_paths b e) (path_values base) (path_values now),
       fold (changed_user b e base now) [0..<co_users e]])"

lemma override_conf_stages: "override_conf b e base now c = fold (\<lambda>f c. f c) (override_stages b e base now) c"
  by (simp add: override_conf_def changed_values_def override_stages_def shared_arrays_def shared_paths_def Let_def)

lemma apart_sets: "apart (x # xs) \<longleftrightarrow> (\<forall>y \<in> set xs. set x \<inter> set y = {}) \<and> apart xs"
  by (auto simp: list_all_iff)

lemma apart_reorder:
  assumes "apart [p, a, f, i, u, z, d, s, r, v, c, g, bs]" and "set a' \<subseteq> set a" and "set p' \<subseteq> set p"
  shows "apart [s, i, u, z, f, a', p', d @ bs]"
proof -
  have a': "set a' \<inter> Y = {}" "Y \<inter> set a' = {}" if "set a \<inter> Y = {}" for Y
    using that assms(2) by blast+
  have p': "set p' \<inter> Y = {}" "Y \<inter> set p' = {}" if "set p \<inter> Y = {}" for Y
    using that assms(3) by blast+
  have "apart [s, i, u, z, f, d, bs]" and d: "set d \<inter> set bs = {}"
    and a: "\<forall>y \<in> set [s, i, u, z, f, d, bs]. set a \<inter> set y = {}"
    and p: "\<forall>y \<in> set [s, i, u, z, f, d, bs]. set p \<inter> set y = {}" and ap: "set p \<inter> set a = {}"
    using assms(1) by (simp_all add: apart_sets Int_commute del: apart.simps(2))
  moreover have "set a' \<inter> set p' = {}" using ap assms(2,3) by blast
  ultimately show ?thesis
    by (simp add: apart_sets Int_Un_distrib a' p' del: apart.simps(2))
qed

lemma override_keys_apart:
  assumes "keys_apart b e"
  shows "apart (override_keys b e)"
  unfolding override_keys_def Let_def
  by (rule apart_reorder [OF assms [unfolded keys_apart_def key_lists_def Let_def]])
     (auto simp: shared_arrays_def shared_paths_def)

lemma writes_save_changed:
  assumes "\<And>ks v. writes cf (set ks) (save_keys put ks v)"
  shows "writes cf (set ks) (save_changed put ks base now)"
proof -
  have "writes cf (set ks) (save_keys put (filter (\<lambda>k. base k \<noteq> now k) ks) now)"
    by (rule writes_mono [OF assms]) auto
  then show ?thesis by (simp add: save_changed_def writes_def)
qed

lemma writes_changed_bind:
  assumes "conf_ok (co_conf e)" and "same_put e" and "i < co_users e"
    and "en \<in> set (input_config_bind_map (cb_menu b))"
  shows "writes (co_conf e) (set (bind_keys b e)) (changed_bind e i (en, old, new))"
proof -
  obtain level base where en: "en = (level, base)" by (cases en)
  show ?thesis
  proof (cases "input_config_get_prefix i (level \<noteq> 0)")
    case None
    then show ?thesis
      by (simp add: changed_bind_def en input_config_save_keybinds_user_override_def writes_def)
  next
    case (Some prefix)
    note w = writes_bind [OF assms(1,2) bind_keys_member [OF assms(3) assms(4) [unfolded en] Some]]
    let ?be = "co_bind_env e" and ?m = "co_macros e" and ?K = "set (bind_keys b e)"
    define f1 where "f1 = (\<lambda>c. conf_put ?be c (join_delim ?be prefix base CHR ''_'') (key_to_str ?be (kb_key new)))"
    define f2 where "f2 = (\<lambda>c. if kb_joykey old \<noteq> kb_joykey new
      then save_keybind_joykey ?be ?m (f1 c) prefix base new True else f1 c)"
    define f3 where "f3 = (\<lambda>c. if kb_joyaxis old \<noteq> kb_joyaxis new
      then save_keybind_axis ?be ?m (f2 c) prefix base new True else f2 c)"
    define f4 where "f4 = (\<lambda>c. if kb_mbutton old \<noteq> kb_mbutton new
      then save_keybind_mbutton ?be ?m (f3 c) prefix base new True else f3 c)"
    have w1: "writes (co_conf e) ?K f1" unfolding f1_def by (rule w(4))
    have w2: "writes (co_conf e) ?K f2" unfolding f2_def by (rule writes_if [OF writes_seq [OF w1 w(1)] w1])
    have w3: "writes (co_conf e) ?K f3" unfolding f3_def by (rule writes_if [OF writes_seq [OF w2 w(2)] w2])
    have w4: "writes (co_conf e) ?K f4" unfolding f4_def by (rule writes_if [OF writes_seq [OF w3 w(3)] w3])
    have "input_config_save_keybinds_user_override ?be ?m i en old new = (\<lambda>c. if kb_valid old then f4 c else c)"
      by (cases "kb_valid old") (simp_all add: input_config_save_keybinds_user_override_def en Some Let_def fun_eq_iff
          f1_def f2_def f3_def f4_def del: neq0_conv split del: if_split cong: if_cong)
    with w4 show ?thesis by (simp add: changed_bind_def writes_def)
  qed
qed

lemma writes_changed_device:
  assumes "conf_ok (co_conf e)" and "i < co_users e"
  shows "writes (co_conf e) (set (all_device_keys e)) (changed_device (co_conf e) t u i)"
proof -
  have sub: "set (device_keys i) \<subseteq> set (all_device_keys e)" using assms(2) by (auto simp: all_device_keys_def)
  have "user_key ''input_player'' i ''_device_reservation_type'' \<in> set (device_keys i)"
    by (simp add: device_keys_def player_suffixes_def)
  with sub have k: "user_key ''input_player'' i ''_device_reservation_type'' \<in> set (all_device_keys e)" by blast
  have "writes (co_conf e) (set (all_device_keys e)) (save_changed (put_uint (co_conf e)) (device_keys i) (sv_uint t) (sv_uint u))"
    by (rule writes_mono [OF writes_save_changed sub]) (rule writes_table [OF assms(1)])
  from writes_seq [OF this writes_puts(1) [OF assms(1) k]] this show ?thesis
    by (simp add: changed_device_def writes_def Let_def)
qed

lemma writes_changed_user:
  assumes "conf_ok (co_conf e)" and "same_put e" and "i < co_users e"
  shows "writes (co_conf e) (set (all_device_keys e @ bind_keys b e)) (changed_user b e base now i)"
proof -
  have dev: "writes (co_conf e) (set (all_device_keys e @ bind_keys b e))
      (changed_device (co_conf e) (cg_store base) (cg_store now) i)"
    by (rule writes_mono [OF writes_changed_device [OF assms(1,3)]]) simp
  have "writes (co_conf e) (set (all_device_keys e @ bind_keys b e)) (changed_bind e i x)"
    if "x \<in> set (zip (input_config_bind_map (cb_menu b)) ys)" for x ys
  proof -
    obtain en old new where x: "x = (en, old, new)" by (cases x)
    with that have "en \<in> set (input_config_bind_map (cb_menu b))" by (auto dest: set_zip_leftD)
    from writes_changed_bind [OF assms this] show ?thesis
      unfolding x by (rule writes_mono) simp
  qed
  from writes_seq [OF dev writes_fold [OF this]] show ?thesis
    by (simp add: changed_user_def writes_def)
qed

lemma override_stages_write:
  assumes "conf_ok (co_conf e)" and "same_put e"
  shows "list_all2 (\<lambda>ks f. writes (co_conf e) (set ks) f) (override_keys b e) (override_stages b e base now)"
proof -
  have "writes (co_conf e) (set (all_device_keys e @ bind_keys b e)) (fold (changed_user b e base now) [0..<co_users e])"
    by (rule writes_fold, rule writes_changed_user [OF assms]) simp
  then show ?thesis
    unfolding override_keys_def override_stages_def Let_def
    by (simp add: writes_save_changed writes_table [OF assms(1)])
qed

lemma length_override [simp]: "length (override_stages b e base now) = 8" "length (override_keys b e) = 8"
  by (simp_all add: override_stages_def override_keys_def Let_def)

text \<open>A key has what its stage made of what was there.\<close>

lemma override_entry:
  assumes ok: "conf_ok (co_conf e)" "same_put e" "keys_apart b e"
    and i: "i < 8" and k: "k \<in> set (override_keys b e ! i)"
  shows "\<exists>c1. same_entry (co_conf e) (override_conf b e base now c) ((override_stages b e base now ! i) c1) k
    \<and> same_entry (co_conf e) c1 c k"
proof -
  let ?fs = "override_stages b e base now" and ?ks = "override_keys b e"
  have split: "?fs = take i ?fs @ ?fs ! i # drop (Suc i) ?fs" using i by (simp add: id_take_nth_drop)
  let ?c1 = "fold (\<lambda>f c. f c) (take i ?fs) c"
  have later: "list_all2 (\<lambda>ks f. writes (co_conf e) (set ks) f) (drop (Suc i) ?ks) (drop (Suc i) ?fs)"
    and before: "list_all2 (\<lambda>ks f. writes (co_conf e) (set ks) f) (take i ?ks) (take i ?fs)"
    using override_stages_write [OF ok(1,2)] by (blast intro: list_all2_dropI list_all2_takeI)+
  have "same_entry (co_conf e) (fold (\<lambda>f c. f c) (drop (Suc i) ?fs) ((?fs ! i) ?c1)) ((?fs ! i) ?c1) k"
    using later by (rule fold_writes) (use override_keys_apart [OF ok(3)] i k apart_later in auto)
  moreover have "same_entry (co_conf e) ?c1 c k"
    using before
  proof (rule fold_writes)
    fix ks assume "ks \<in> set (take i ?ks)"
    then obtain j where j: "j < i" "ks = ?ks ! j" using i by (auto simp: in_set_conv_nth)
    have "?ks ! i \<in> set (drop (Suc j) ?ks)"
      using j(1) i by (auto simp: in_set_conv_nth intro!: exI [of _ "i - Suc j"])
    with apart_later [OF override_keys_apart [OF ok(3)], of j k] j i k show "k \<notin> set ks" by auto
  qed
  moreover have "override_conf b e base now c = fold (\<lambda>f c. f c) (drop (Suc i) ?fs) ((?fs ! i) ?c1)"
    unfolding override_conf_stages by (subst split) simp
  ultimately show ?thesis by auto
qed

lemma override_other:
  assumes "conf_ok (co_conf e)" "same_put e" and "\<And>ks. ks \<in> set (override_keys b e) \<Longrightarrow> k \<notin> set ks"
  shows "same_entry (co_conf e) (override_conf b e base now c) c k"
  unfolding override_conf_stages by (rule fold_writes [OF override_stages_write [OF assms(1,2)]]) (rule assms(3))

section \<open>Loading overrides\<close>

text \<open>
  Overrides that are saved and loaded again: the entries of the file, the file on top of the
  configuration, and the settings that result.
\<close>

subsection \<open>Entries of an override\<close>

lemma save_keys_other:
  assumes "\<And>c j. k \<noteq> j \<Longrightarrow> get (put c j (v j)) k = get c k" and "k \<notin> set ks"
  shows "get (save_keys put ks v c) k = get c k"
  using assms(2)
proof (induction ks arbitrary: c)
  case (Cons a ks)
  then show ?case using assms(1) by (simp add: save_keys_def)
qed (simp add: save_keys_def)

lemma save_changed_read:
  assumes reads: "\<And>c. get (put c k (now k)) k = x"
    and apart: "\<And>c j. k \<noteq> j \<Longrightarrow> get (put c j (now j)) k = get c k"
    and k: "k \<in> set ks"
  shows "get (save_changed put ks base now c) k = (if base k \<noteq> now k then x else get c k)"
proof (cases "base k = now k")
  case True
  then show ?thesis unfolding save_changed_def by (simp add: save_keys_other [of k get put now, OF apart])
next
  case False
  with k have "k \<in> set (filter (\<lambda>k. base k \<noteq> now k) ks)" by simp
  from save_keys_read [of get put k now x, OF reads apart this] False show ?thesis
    unfolding save_changed_def by simp
qed

lemma save_changed_value:
  assumes "k \<in> set ks" and "base k \<noteq> now k" and "\<And>c. get (put c k (now k)) k = x"
    and "\<And>c j. k \<noteq> j \<Longrightarrow> get (put c j (now j)) k = get c k"
  shows "get (save_changed put ks base now c) k = x"
  using save_changed_read [of get put k now x ks base c, OF assms(3,4,1)] assms(2) by simp

lemma append_entry:
  assumes "conf_ok cf"
  shows "same_entry cf (cf_append cf c d) (if cf_has cf d k then d else c) k"
  using assms by (simp add: conf_ok_def files_ok_def)

lemma has_puts:
  assumes "conf_ok cf"
  shows "cf_has cf (put_bool cf c k vb) k" "cf_has cf (put_uint cf c k vu) k" "cf_has cf (put_size cf c k vz) k"
    "cf_has cf (set_int cf c k vi) k" "cf_has cf (set_float cf c k vf) k" "cf_has cf (set_string cf c k vs) k"
    "cf_has cf (set_path cf c k vs) k"
  using assms by (simp_all add: conf_ok_def files_ok_def put_bool_def put_uint_def put_size_def)

text \<open>An entry of the new file is there exactly if the setting differs.\<close>

lemma override_has:
  assumes ok: "conf_ok (co_conf e)" "same_put e" "keys_apart b e" and new: "cf_new (co_conf e) = Some c"
  shows "k \<in> set (idents (tb_bool (co_tables e))) \<Longrightarrow> cf_has (co_conf e) (override_conf b e base now c) k
      = (sv_bool (cg_store base) k \<noteq> sv_bool (cg_store now) k)"
    and "k \<in> set (idents (tb_int (co_tables e))) \<Longrightarrow> cf_has (co_conf e) (override_conf b e base now c) k
      = (sv_int (cg_store base) k \<noteq> sv_int (cg_store now) k)"
    and "k \<in> set (idents (tb_uint (co_tables e))) \<Longrightarrow> cf_has (co_conf e) (override_conf b e base now c) k
      = (sv_uint (cg_store base) k \<noteq> sv_uint (cg_store now) k)"
    and "k \<in> set (idents (tb_size (co_tables e))) \<Longrightarrow> cf_has (co_conf e) (override_conf b e base now c) k
      = (sv_size (cg_store base) k \<noteq> sv_size (cg_store now) k)"
    and "k \<in> set (idents (tb_float (co_tables e))) \<Longrightarrow> cf_has (co_conf e) (override_conf b e base now c) k
      = (sv_float (cg_store base) k \<noteq> sv_float (cg_store now) k)"
    and "k \<in> set (shared_arrays b e) \<Longrightarrow> cf_has (co_conf e) (override_conf b e base now c) k
      = (sv_array (cg_store base) k \<noteq> sv_array (cg_store now) k)"
proof -
  let ?cf = "co_conf e"
  have none: "\<not> cf_has ?cf c k" using ok(1) new by (auto simp: conf_ok_def files_ok_def no_entry_def)
  have stage: "cf_has ?cf (override_conf b e base now c) k = (x \<noteq> y)"
    if "i < 8" "k \<in> set (override_keys b e ! i)" "\<And>c1. cf_has ?cf ((override_stages b e base now ! i) c1) k
         = (if x \<noteq> y then True else cf_has ?cf c1 k)" for i and x y :: 'v
    using override_entry [OF ok that(1,2), of base now c] that(3) none
    by (auto dest!: same_entry_getters(1))
  note h = has_puts [OF ok(1)] and ap = puts_apartD [OF ok(1), THEN same_entry_getters(1)]
  note defs = override_keys_def override_stages_def Let_def
  have read: "cf_has ?cf (save_changed put ks bs nw c1) k = (if bs k \<noteq> nw k then True else cf_has ?cf c1 k)"
    if "k \<in> set ks" "\<And>c v. cf_has ?cf (put c k v) k" "\<And>c j v. k \<noteq> j \<Longrightarrow> cf_has ?cf (put c j v) k = cf_has ?cf c k"
    for put :: "_ \<Rightarrow> _ \<Rightarrow> 'w \<Rightarrow> _" and ks bs nw c1
    by (rule save_changed_read) (use that in simp_all)
  show "cf_has ?cf (override_conf b e base now c) k = (sv_bool (cg_store base) k \<noteq> sv_bool (cg_store now) k)"
    if "k \<in> set (idents (tb_bool (co_tables e)))"
    by (rule stage [of 0]) (use that in \<open>simp_all add: defs read h ap\<close>)
  show "cf_has ?cf (override_conf b e base now c) k = (sv_int (cg_store base) k \<noteq> sv_int (cg_store now) k)"
    if "k \<in> set (idents (tb_int (co_tables e)))"
    by (rule stage [of 1]) (use that in \<open>simp_all add: defs read h ap\<close>)
  show "cf_has ?cf (override_conf b e base now c) k = (sv_uint (cg_store base) k \<noteq> sv_uint (cg_store now) k)"
    if "k \<in> set (idents (tb_uint (co_tables e)))"
    by (rule stage [of 2]) (use that in \<open>simp_all add: defs read h ap\<close>)
  show "cf_has ?cf (override_conf b e base now c) k = (sv_size (cg_store base) k \<noteq> sv_size (cg_store now) k)"
    if "k \<in> set (idents (tb_size (co_tables e)))"
    by (rule stage [of 3]) (use that in \<open>simp_all add: defs read h ap\<close>)
  show "cf_has ?cf (override_conf b e base now c) k = (sv_float (cg_store base) k \<noteq> sv_float (cg_store now) k)"
    if "k \<in> set (idents (tb_float (co_tables e)))"
    by (rule stage [of 4]) (use that in \<open>simp_all add: defs read h ap\<close>)
  show "cf_has ?cf (override_conf b e base now c) k = (sv_array (cg_store base) k \<noteq> sv_array (cg_store now) k)"
    if "k \<in> set (shared_arrays b e)"
    by (rule stage [of 5]) (use that in \<open>simp_all add: defs read h ap\<close>)
qed

text \<open>The entries hold the values in force.\<close>

lemma override_values:
  assumes ok: "conf_ok (co_conf e)" "same_put e" "keys_apart b e" and st: "storable e (cg_store now)"
  shows "k \<in> set (idents (tb_bool (co_tables e))) \<Longrightarrow> sv_bool (cg_store base) k \<noteq> sv_bool (cg_store now) k \<Longrightarrow>
      get_bool (co_conf e) (override_conf b e base now c) k = Some (sv_bool (cg_store now) k)"
    and "k \<in> set (idents (tb_int (co_tables e))) \<Longrightarrow> sv_int (cg_store base) k \<noteq> sv_int (cg_store now) k \<Longrightarrow>
      get_int (co_conf e) (override_conf b e base now c) k = Some (sv_int (cg_store now) k)"
    and "k \<in> set (idents (tb_uint (co_tables e))) \<Longrightarrow> sv_uint (cg_store base) k \<noteq> sv_uint (cg_store now) k \<Longrightarrow>
      get_as_uint (co_conf e) (override_conf b e base now c) k = Some (sv_uint (cg_store now) k)"
    and "k \<in> set (idents (tb_size (co_tables e))) \<Longrightarrow> sv_size (cg_store base) k \<noteq> sv_size (cg_store now) k \<Longrightarrow>
      get_size (co_conf e) (override_conf b e base now c) k = Some (scast (ucast (sv_size (cg_store now) k) :: u32))"
    and "k \<in> set (idents (tb_float (co_tables e))) \<Longrightarrow> sv_float (cg_store base) k \<noteq> sv_float (cg_store now) k \<Longrightarrow>
      get_float (co_conf e) (override_conf b e base now c) k = Some (sv_float (cg_store now) k)"
    and "k \<in> set (shared_arrays b e) \<Longrightarrow> sv_array (cg_store base) k \<noteq> sv_array (cg_store now) k \<Longrightarrow>
      get_array (co_conf e) (override_conf b e base now c) k (co_path_max e) = Some (sv_array (cg_store now) k)"
proof -
  let ?cf = "co_conf e" and ?d = "override_conf b e base now c"
  have stage: "get ?d k = x"
    if "i < 8" "k \<in> set (override_keys b e ! i)" "\<And>c1. get ((override_stages b e base now ! i) c1) k = x"
      "\<And>c d. same_entry ?cf c d k \<Longrightarrow> get c k = get d k" for i x and get :: "_ \<Rightarrow> _ \<Rightarrow> 'v option"
    using override_entry [OF ok that(1,2), of base now c] that(3,4) by metis
  note rb = reads_backD [OF ok(1)] and ap = puts_apartD [OF ok(1), THEN same_entry_getters(2)]
    puts_apartD [OF ok(1), THEN same_entry_getters(3)] puts_apartD [OF ok(1), THEN same_entry_getters(4)]
    puts_apartD [OF ok(1), THEN same_entry_getters(5)] puts_apartD [OF ok(1), THEN same_entry_getters(7)]
    puts_apartD [OF ok(1), THEN same_entry_getters(9)]
  note defs = override_keys_def override_stages_def Let_def
  show "get_bool ?cf ?d k = Some (sv_bool (cg_store now) k)"
    if "k \<in> set (idents (tb_bool (co_tables e)))" "sv_bool (cg_store base) k \<noteq> sv_bool (cg_store now) k"
  proof (rule stage [of 0])
    show "get_bool ?cf ((override_stages b e base now ! 0) c1) k = Some (sv_bool (cg_store now) k)" for c1
      by (simp add: defs, rule save_changed_value [where get = "get_bool ?cf"]) (use that rb ap in simp_all)
  qed (use that in \<open>auto simp: defs dest!: same_entry_getters(2)\<close>)
  show "get_int ?cf ?d k = Some (sv_int (cg_store now) k)"
    if "k \<in> set (idents (tb_int (co_tables e)))" "sv_int (cg_store base) k \<noteq> sv_int (cg_store now) k"
  proof (rule stage [of 1])
    show "get_int ?cf ((override_stages b e base now ! 1) c1) k = Some (sv_int (cg_store now) k)" for c1
      by (simp add: defs, rule save_changed_value [where get = "get_int ?cf"]) (use that rb ap st in \<open>simp_all add: storable_def\<close>)
  qed (use that in \<open>auto simp: defs dest!: same_entry_getters(3)\<close>)
  show "get_as_uint ?cf ?d k = Some (sv_uint (cg_store now) k)"
    if "k \<in> set (idents (tb_uint (co_tables e)))" "sv_uint (cg_store base) k \<noteq> sv_uint (cg_store now) k"
  proof (rule stage [of 2])
    show "get_as_uint ?cf ((override_stages b e base now ! 2) c1) k = Some (sv_uint (cg_store now) k)" for c1
      by (simp add: defs, rule save_changed_value [where get = "get_as_uint ?cf"]) (use that rb ap in simp_all)
  qed (use that in \<open>auto simp: defs dest!: same_entry_getters(9)\<close>)
  show "get_size ?cf ?d k = Some (scast (ucast (sv_size (cg_store now) k) :: u32))"
    if "k \<in> set (idents (tb_size (co_tables e)))" "sv_size (cg_store base) k \<noteq> sv_size (cg_store now) k"
  proof (rule stage [of 3])
    show "get_size ?cf ((override_stages b e base now ! 3) c1) k = Some (scast (ucast (sv_size (cg_store now) k) :: u32))" for c1
      by (simp add: defs, rule save_changed_value [where get = "get_size ?cf"]) (use that rb ap in simp_all)
  qed (use that in \<open>auto simp: defs dest!: same_entry_getters(4)\<close>)
  show "get_float ?cf ?d k = Some (sv_float (cg_store now) k)"
    if "k \<in> set (idents (tb_float (co_tables e)))" "sv_float (cg_store base) k \<noteq> sv_float (cg_store now) k"
  proof (rule stage [of 4])
    show "get_float ?cf ((override_stages b e base now ! 4) c1) k = Some (sv_float (cg_store now) k)" for c1
      by (simp add: defs, rule save_changed_value [where get = "get_float ?cf"]) (use that rb ap st in \<open>simp_all add: storable_def\<close>)
  qed (use that in \<open>auto simp: defs dest!: same_entry_getters(5)\<close>)
  show "get_array ?cf ?d k (co_path_max e) = Some (sv_array (cg_store now) k)"
    if "k \<in> set (shared_arrays b e)" "sv_array (cg_store base) k \<noteq> sv_array (cg_store now) k"
  proof (rule stage [of 5 "\<lambda>c k. get_array ?cf c k (co_path_max e)"])
    show "get_array ?cf ((override_stages b e base now ! 5) c1) k (co_path_max e) = Some (sv_array (cg_store now) k)" for c1
      by (simp add: defs, rule save_changed_value [where get = "\<lambda>c k. get_array ?cf c k (co_path_max e)"]) (use that rb ap st in \<open>simp_all add: storable_def\<close>)
  qed (use that in \<open>auto simp: defs dest!: same_entry_getters(7)\<close>)
qed

end
