(* ===== verification/Config_Override_Properties.thy ===== *)
theory Config_Override_Properties
  imports Override_Changes
begin

text \<open>
  Properties of overrides: what is saved comes back on top of the configuration, the login of the
  achievements service stays out and every other text goes in, and nothing is saved to the configuration while overrides are in force.
\<close>

subsection \<open>An override laid over a configuration\<close>

text \<open>The configuration file has an entry for every setting that overrides can hold.\<close>

definition complete :: "config_build \<Rightarrow> 'c config_outside \<Rightarrow> 'c \<Rightarrow> bool" where
  "complete b e c \<longleftrightarrow>
     (let cf = co_conf e; tb = co_tables e
      in (\<forall>k \<in> set (idents (tb_bool tb)). get_bool cf c k \<noteq> None) \<and> (\<forall>k \<in> set (idents (tb_int tb)). get_int cf c k \<noteq> None)
       \<and> (\<forall>k \<in> set (idents (tb_uint tb)). get_as_uint cf c k \<noteq> None)
       \<and> (\<forall>k \<in> set (idents (tb_float tb)). get_float cf c k \<noteq> None)
       \<and> (\<forall>k \<in> set (shared_arrays b e). get_array cf c k (co_path_max e) \<noteq> None))"

text \<open>All settings but those that loading adjusts, sizes, paths and the login of the achievements service.\<close>

definition as_overridden :: "config_build \<Rightarrow> 'c config_outside \<Rightarrow> store \<Rightarrow> store \<Rightarrow> bool" where
  "as_overridden b e t u \<longleftrightarrow>
     (let tb = co_tables e; keys = (\<lambda>es. set (idents es) - adjusted_keys)
      in (\<forall>k \<in> keys (tb_bool tb). sv_bool u k = sv_bool t k) \<and> (\<forall>k \<in> keys (tb_int tb). sv_int u k = sv_int t k)
       \<and> (\<forall>k \<in> keys (tb_uint tb). sv_uint u k = sv_uint t k) \<and> (\<forall>k \<in> keys (tb_float tb). sv_float u k = sv_float t k)
       \<and> (\<forall>k \<in> set (shared_arrays b e) \<inter> set (handled (tb_array tb)) - adjusted_keys. sv_array u k = sv_array t k))"

lemma complete_values:
  assumes "complete b e c"
  shows "k \<in> set (idents (tb_bool (co_tables e))) \<Longrightarrow> \<exists>v. get_bool (co_conf e) c k = Some v"
    and "k \<in> set (idents (tb_int (co_tables e))) \<Longrightarrow> \<exists>v. get_int (co_conf e) c k = Some v"
    and "k \<in> set (idents (tb_uint (co_tables e))) \<Longrightarrow> \<exists>v. get_as_uint (co_conf e) c k = Some v"
    and "k \<in> set (idents (tb_float (co_tables e))) \<Longrightarrow> \<exists>v. get_float (co_conf e) c k = Some v"
    and "k \<in> set (shared_arrays b e) \<Longrightarrow> \<exists>v. get_array (co_conf e) c k (co_path_max e) = Some v"
  using assms by (auto simp: complete_def Let_def)

text \<open>
  The settings \<open>t\<close> were read from \<open>c0\<close>; the override holds what differs in \<open>u\<close>; reading both gives
  \<open>u\<close>.
\<close>

lemma laid_over:
  assumes ok: "conf_ok (co_conf e)" "same_put e" "keys_apart b e" "storable e (cg_store now)"
    and new: "cf_new (co_conf e) = Some c"
    and same: "\<And>k. same_entry (co_conf e) d (override_conf b e base now c) k"
    and full: "complete b e c0"
    and base: "agree adjusted_keys (cg_store base) (cg_store (load_values b e c0 s0))"
  shows "as_overridden b e (cg_store now) (cg_store (load_values b e (cf_append (co_conf e) c0 d) s1))"
proof -
  let ?cf = "co_conf e" and ?x = "cf_append (co_conf e) c0 d" and ?o = "override_conf b e base now c"
  note over = same_entry_getters [OF append_entry [OF ok(1)]] and eq = same_entry_getters [OF same]
  note has = override_has [OF ok(1-3) new, where base = base and now = now]
    and val = override_values [OF ok, where base = base and c = c]
  note lv = loaded_values [where b = b and e = e]
  note ag = base [unfolded agree_def, rule_format]
  show ?thesis
    unfolding as_overridden_def Let_def
  proof (intro conjI ballI)
    fix k assume k: "k \<in> set (idents (tb_bool (co_tables e))) - adjusted_keys"
    then obtain v where v: "get_bool ?cf c0 k = Some v" using complete_values(1) [OF full] by blast
    have "sv_bool (cg_store base) k = v" using lv(1) [OF _ v] ag k by simp
    then have "get_bool ?cf ?x k = Some (sv_bool (cg_store now) k)"
      using has(1) val(1) v k by (simp add: over eq split: if_split)
    with k show "sv_bool (cg_store (load_values b e ?x s1)) k = sv_bool (cg_store now) k" by (simp add: lv(1))
  next
    fix k assume k: "k \<in> set (idents (tb_int (co_tables e))) - adjusted_keys"
    then obtain v where v: "get_int ?cf c0 k = Some v" using complete_values(2) [OF full] by blast
    have "sv_int (cg_store base) k = v" using lv(2) [OF _ v] ag k by simp
    then have "get_int ?cf ?x k = Some (sv_int (cg_store now) k)"
      using has(2) val(2) v k by (simp add: over eq split: if_split)
    with k show "sv_int (cg_store (load_values b e ?x s1)) k = sv_int (cg_store now) k" by (simp add: lv(2))
  next
    fix k assume k: "k \<in> set (idents (tb_uint (co_tables e))) - adjusted_keys"
    then obtain v where v: "get_as_uint ?cf c0 k = Some v" using complete_values(3) [OF full] by blast
    have "sv_uint (cg_store base) k = v" using lv(3) [OF _ v] ag k by simp
    then have "get_as_uint ?cf ?x k = Some (sv_uint (cg_store now) k)"
      using has(3) val(3) v k by (simp add: over eq split: if_split)
    with k show "sv_uint (cg_store (load_values b e ?x s1)) k = sv_uint (cg_store now) k" by (simp add: lv(3))
  next
    fix k assume k: "k \<in> set (idents (tb_float (co_tables e))) - adjusted_keys"
    then obtain v where v: "get_float ?cf c0 k = Some v" using complete_values(4) [OF full] by blast
    have "sv_float (cg_store base) k = v" using lv(5) [OF _ v] ag k by simp
    then have "get_float ?cf ?x k = Some (sv_float (cg_store now) k)"
      using has(5) val(5) v k by (simp add: over eq split: if_split)
    with k show "sv_float (cg_store (load_values b e ?x s1)) k = sv_float (cg_store now) k" by (simp add: lv(5))
  next
    fix k assume k: "k \<in> set (shared_arrays b e) \<inter> set (handled (tb_array (co_tables e))) - adjusted_keys"
    then obtain v where v: "get_array ?cf c0 k (co_path_max e) = Some v" using complete_values(5) [OF full] by blast
    have "sv_array (cg_store base) k = v" using lv(6) [OF _ v] ag k by simp
    then have "get_array ?cf ?x k (co_path_max e) = Some (sv_array (cg_store now) k)"
      using has(6) val(6) v k by (simp add: over eq split: if_split)
    with k show "sv_array (cg_store (load_values b e ?x s1)) k = sv_array (cg_store now) k" by (simp add: lv(6))
  qed
qed

subsection \<open>Saving and loading\<close>

lemma bar_names_plain:
  assumes "CHR ''|'' \<notin> set p"
  shows "bar_names w p = (if w @ p = [] then [] else [w @ p])"
  using assms by (induction p arbitrary: w) auto

lemma load_base_loads:
  assumes "cg_disk s (cg_paths s ''RARCH_PATH_CONFIG'') = Some c0" and "cg_paths s ''RARCH_PATH_CONFIG_APPEND'' = []"
  obtains user s1 where "load_base b e s = apply_settings b e c0 user (load_values b e c0 s1)"
  using assms by (simp add: load_base_def config_load_file_def config_load_conf_def append_configs_def
      append_overrides_def Let_def)

lemma base_loaded:
  assumes "cg_disk s (cg_paths s ''RARCH_PATH_CONFIG'') = Some c0" and "cg_paths s ''RARCH_PATH_CONFIG_APPEND'' = []"
  obtains user s1 where "override_base b e core s = apply_settings b e c0 user (load_values b e c0 s1)"
proof -
  define s0 where "s0 = (if co_is_directory e (co_join e (co_config_dir e) core) then s
    else cg_call (''path_mkdir '' @ co_join e (co_config_dir e) core) s)"
  have "cg_disk s0 = cg_disk s" "cg_paths s0 = cg_paths s" unfolding s0_def cg_call_def by simp_all
  moreover have "override_base b e core s = load_base b e s0"
    unfolding override_base_def Let_def s0_def by (rule refl)
  ultimately show ?thesis
    using load_base_loads [of s0 c0 b e] assms that by metis
qed

lemma verbosity_disk [simp]: "cg_disk (check_verbosity_settings e c s) = cg_disk s"
  by (simp add: check_verbosity_settings_def Let_def conf_set_bool_def split: option.split)

text \<open>Loading a configuration with one file of overrides.\<close>

lemma load_with_override:
  assumes "cg_disk r (cg_paths r ''RARCH_PATH_CONFIG'') = Some c0" and "cg_paths r ''RARCH_PATH_CONFIG_APPEND'' = []"
    and "cg_paths r ''RARCH_PATH_CONFIG'' \<noteq> ''without-overrides''"
    and "cg_paths r ''RARCH_PATH_CONFIG_OVERRIDE'' = p" "p \<noteq> []" "CHR ''|'' \<notin> set p" "length p < co_path_max e"
    and "cg_disk r p = Some d"
  obtains user s1 where "config_parse_file b e r =
    apply_settings b e (cf_append (co_conf e) c0 d) user (load_values b e (cf_append (co_conf e) c0 d) s1)"
proof -
  have "bar_names [] (strlcpy (co_path_max e) p) = [p]"
    using assms(5-7) bar_names_plain [of p "[]"] by (simp add: strlcpy_def)
  then have "append_files e s p c0 = cf_append (co_conf e) c0 d" if "cg_disk s = cg_disk r" for s
    using that assms(8) by (simp add: append_files_def)
  then show ?thesis
    using assms that by (auto simp: config_parse_file_def config_load_file_def config_load_conf_def
        append_configs_def append_overrides_def Let_def split: if_splits)
qed

lemma write_override_written:
  assumes "write_override e False p x s = (1, s')" and "cf_write (co_conf e) x p \<noteq> (True, None)"
  obtains d where "cf_write (co_conf e) x p = (True, Some d)" and "p \<noteq> []"
    and "cg_paths s' ''RARCH_PATH_CONFIG_OVERRIDE'' = p" and "cg_disk s' p = Some d"
proof -
  have p: "p \<noteq> []" and "cf_modified (co_conf e) x"
    using assms(1) by (auto simp: write_override_def Let_def split: if_splits)
  then obtain ok s1 where w: "write_conf e x p s = (ok, s1)" and r: "(case ok of
      True \<Rightarrow> (1, set_path_of ''RARCH_PATH_CONFIG_OVERRIDE'' p s1) | False \<Rightarrow> (0, s1)) = (1 :: int, s')"
    using assms(1) by (cases "write_conf e x p s") (simp add: write_override_def)
  from r have ok: "ok" "s' = set_path_of ''RARCH_PATH_CONFIG_OVERRIDE'' p s1" by (cases ok; simp)+
  then obtain d where "cf_write (co_conf e) x p = (True, Some d)" "s1 = s\<lparr>cg_disk := (cg_disk s)(p \<mapsto> d)\<rparr>"
    using w assms(2) by (cases "cf_write (co_conf e) x p") (auto simp: write_conf_def split: option.splits)
  with p ok(2) that show ?thesis by (simp add: set_path_of_def)
qed

lemma override_saved:
  assumes "conf_ok (co_conf e)" and "cf_new (co_conf e) = Some c"
    and "config_save_overrides b e ty (Some core) False path s = Some (1, s')"
  obtains p d where "cf_write (co_conf e) (override_conf b e (override_base b e core s) (override_now b e core s) c) p = (True, Some d)"
    and "p \<noteq> []" and "cg_paths s' ''RARCH_PATH_CONFIG_OVERRIDE'' = p" and "cg_disk s' p = Some d"
proof -
  define x where "x = override_conf b e (override_base b e core s) (override_now b e core s) c"
  define p where "p = override_file e ty core (cg_paths s ''RARCH_PATH_BASENAME'') path"
  have w: "write_override e False p x (override_now b e core s) = (1, s')"
    using assms(2,3) by (simp add: config_save_overrides_def x_def p_def Let_def split: if_splits)
  then have "cf_modified (co_conf e) x"
    by (auto simp: write_override_def Let_def split: if_splits)
  then have "cf_write (co_conf e) x p \<noteq> (True, None)"
    using assms(1) by (simp add: conf_ok_def files_ok_def)
  from write_override_written [OF w this] that show ?thesis unfolding x_def by metis
qed

text \<open>
  C12. Overrides bring back the settings.  When the settings in force are saved as overrides of a
  complete configuration, a later session that loads that configuration with those overrides has
  the switches, numbers and texts that were in force, whatever it had before, except the settings
  that loading adjusts and the login of the achievements service.
\<close>

theorem overrides_round_trip:
  assumes "conf_ok (co_conf e)" "same_put e" "keys_apart b e" "storable e (cg_store s)"
    and "cf_new (co_conf e) = Some c"
    and "all_plain (co_conf e) (override_conf b e (override_base b e core s) (override_now b e core s) c)"
    and "cg_disk s (cg_paths s ''RARCH_PATH_CONFIG'') = Some c0" "complete b e c0"
    and "cg_paths s ''RARCH_PATH_CONFIG_APPEND'' = []"
    and "config_save_overrides b e ty (Some core) False path s = Some (1, s')"
    and "cg_disk r = cg_disk s'" "cg_disk r (cg_paths r ''RARCH_PATH_CONFIG'') = Some c0"
    and "cg_paths r ''RARCH_PATH_CONFIG'' \<noteq> ''without-overrides''" "cg_paths r ''RARCH_PATH_CONFIG_APPEND'' = []"
    and "cg_paths r ''RARCH_PATH_CONFIG_OVERRIDE'' = p" "p = cg_paths s' ''RARCH_PATH_CONFIG_OVERRIDE''"
    and "CHR ''|'' \<notin> set p" "length p < co_path_max e"
  shows "as_overridden b e (cg_store s) (cg_store (config_parse_file b e r))"
proof -
  let ?base = "override_base b e core s" and ?now = "override_now b e core s"
  obtain d where d: "cf_write (co_conf e) (override_conf b e ?base ?now c) p = (True, Some d)"
    and p: "p \<noteq> []" and disk: "cg_disk s' p = Some d"
    using override_saved [OF assms(1,5,10)] assms(16) by metis
  have same: "same_entry (co_conf e) d (override_conf b e ?base ?now c) k" for k
    using assms(1) d assms(6) unfolding conf_ok_def files_ok_def by blast
  obtain user s1 where base: "?base = apply_settings b e c0 user (load_values b e c0 s1)"
    by (rule base_loaded [OF assms(7,9)])
  let ?x = "cf_append (co_conf e) c0 d"
  obtain user2 s2 where load: "config_parse_file b e r = apply_settings b e ?x user2 (load_values b e ?x s2)"
    by (rule load_with_override [OF assms(12,14,13,15) p assms(17,18)]) (simp_all add: assms(11) disk)
  have agree_base: "agree adjusted_keys (cg_store ?base) (cg_store (load_values b e c0 s1))"
    unfolding base by (rule settings_agree)
  have store: "cg_store ?now = cg_store s" by (simp add: override_now_def)
  have st: "storable e (cg_store ?now)" using assms(4) by (simp only: store)
  have "as_overridden b e (cg_store ?now) (cg_store (load_values b e ?x s2))"
    by (rule laid_over [OF assms(1-3) st assms(5) same assms(8) agree_base])
  then show ?thesis
    using settings_agree [of b e ?x user2 "load_values b e ?x s2"]
    by (simp add: as_overridden_def agree_def Let_def load store)
qed

lemma login_no_entry:
  assumes "conf_ok (co_conf e)" "same_put e" "keys_apart b e"
    and "cb_cheevos b" "cf_new (co_conf e) = Some c"
    and "k \<in> set cheevos_login" "k \<in> set (idents (tb_array (co_tables e)))"
  shows "no_entry (co_conf e) (override_conf b e base now c) k"
proof -
  have apart: "set (idents (tb_path (co_tables e))) \<inter> set (idents (tb_array (co_tables e))) = {}"
    "\<forall>y \<in> {idents (tb_bool (co_tables e)), idents (tb_int (co_tables e)), idents (tb_uint (co_tables e)),
       idents (tb_size (co_tables e)), idents (tb_float (co_tables e)), all_device_keys e, bind_keys b e}.
       set (idents (tb_array (co_tables e))) \<inter> set y = {}"
    using assms(3) by (simp_all add: keys_apart_def key_lists_def Let_def apart_sets Int_commute del: apart.simps(2))
  have "k \<notin> set (shared_arrays b e)" using assms(4,6) by (simp add: shared_arrays_def)
  moreover have "k \<notin> set (shared_paths b e)" using apart(1) assms(7) by (auto simp: shared_paths_def)
  moreover have "k \<notin> set y" if "y \<in> {idents (tb_bool (co_tables e)), idents (tb_int (co_tables e)), idents (tb_uint (co_tables e)),
       idents (tb_size (co_tables e)), idents (tb_float (co_tables e)), all_device_keys e, bind_keys b e}" for y
    using apart(2) that assms(7) by blast
  ultimately have "k \<notin> set ks" if "ks \<in> set (override_keys b e)" for ks
    using that by (simp add: override_keys_def Let_def) (elim disjE; simp)
  then have "same_entry (co_conf e) (override_conf b e base now c) c k"
    by (rule override_other [OF assms(1,2)])
  moreover have "no_entry (co_conf e) c k"
    using assms(1,5) by (simp add: conf_ok_def files_ok_def)
  ultimately show ?thesis by (simp add: same_entry_def no_entry_def)
qed

text \<open>
  C33. Which text settings a file of overrides has.  With the achievements built in, the user name,
  the password and the token of the achievements service never have an entry, whatever differs.
  They are the only ones: any other setting of the table of texts has an entry exactly if it
  differs from the configuration without overrides, and the entry holds its value as it is.  The
  table also has the user name and the password of the WebDAV service and the keys of the streaming
  services, which therefore are written.
\<close>

theorem achievements_login_kept_out:
  assumes "conf_ok (co_conf e)" "same_put e" "keys_apart b e" "storable e (cg_store now)"
    and "cb_cheevos b" "cf_new (co_conf e) = Some c" "k \<in> set (idents (tb_array (co_tables e)))"
  shows "(k \<in> set cheevos_login \<longrightarrow> no_entry (co_conf e) (override_conf b e base now c) k)
    \<and> (k \<notin> set cheevos_login \<longrightarrow>
        (cf_has (co_conf e) (override_conf b e base now c) k \<longleftrightarrow> sv_array (cg_store base) k \<noteq> sv_array (cg_store now) k)
        \<and> (sv_array (cg_store base) k \<noteq> sv_array (cg_store now) k \<longrightarrow>
             get_array (co_conf e) (override_conf b e base now c) k (co_path_max e) = Some (sv_array (cg_store now) k)))"
proof (cases "k \<in> set cheevos_login")
  case True
  with login_no_entry [OF assms(1-3,5-6) True assms(7)] show ?thesis by simp
next
  case False
  with assms(7) have "k \<in> set (shared_arrays b e)" by (simp add: shared_arrays_def)
  with False override_has(6) [OF assms(1-3,6)] override_values(6) [OF assms(1-4)] show ?thesis by simp
qed

end
