(* ===== verification/Config_Unloading.thy ===== *)
theory Config_Unloading
  imports Config_Override_Properties
begin

text \<open>
  Overrides in force: which files they come from and in which order, what they forbid, what is left
  when they are unloaded, and two ways in which saving them goes wrong.
\<close>

subsection \<open>What loading leaves alone\<close>

lemma conf_set_frame [simp]:
  "cg_paths (conf_set_path k p s) = cg_paths s" "cg_flags (conf_set_path k p s) = cg_flags s"
  "cg_paths (conf_set_bool k vb s) = cg_paths s" "cg_flags (conf_set_bool k vb s) = cg_flags s"
  "cg_paths (conf_set_float k vf s) = cg_paths s" "cg_flags (conf_set_float k vf s) = cg_flags s"
  "cg_paths (conf_set_array k p s) = cg_paths s" "cg_flags (conf_set_array k p s) = cg_flags s"
  "cg_paths (cg_call f s) = cg_paths s" "cg_flags (cg_call f s) = cg_flags s"
  "cg_disk (conf_set_path k p s) = cg_disk s" "cg_disk (cg_call f s) = cg_disk s"
  "cg_disk (conf_set_bool k vb s) = cg_disk s" "cg_disk (conf_set_float k vf s) = cg_disk s"
  "cg_disk (conf_set_array k p s) = cg_disk s"
  by (simp_all add: conf_set_path_def conf_set_bool_def conf_set_float_def conf_set_array_def cg_call_def)

lemma from_env_frame [simp]:
  "cg_paths (from_env e var ks s) = cg_paths s" "cg_flags (from_env e var ks s) = cg_flags s"
  "cg_disk (from_env e var ks s) = cg_disk s"
proof -
  have "cg_paths (fold (\<lambda>k. conf_set_path k v) ks s) = cg_paths s"
    "cg_flags (fold (\<lambda>k. conf_set_path k v) ks s) = cg_flags s"
    "cg_disk (fold (\<lambda>k. conf_set_path k v) ks s) = cg_disk s" for v
    by (induction ks arbitrary: s) simp_all
  then show "cg_paths (from_env e var ks s) = cg_paths s" "cg_flags (from_env e var ks s) = cg_flags s"
    "cg_disk (from_env e var ks s) = cg_disk s"
    by (simp_all add: from_env_def split: option.split)
qed

lemma stage_frame [simp]:
  "cg_paths (apply_environment e u s) = cg_paths s" "cg_flags (apply_environment e u s) = cg_flags s" "cg_disk (apply_environment e u s) = cg_disk s"
  "cg_paths (apply_limits b e s) = cg_paths s" "cg_flags (apply_limits b e s) = cg_flags s" "cg_disk (apply_limits b e s) = cg_disk s"
  "cg_paths (apply_midi e s) = cg_paths s" "cg_flags (apply_midi e s) = cg_flags s" "cg_disk (apply_midi e s) = cg_disk s"
  "cg_paths (env_or_default e var k s) = cg_paths s" "cg_flags (env_or_default e var k s) = cg_flags s" "cg_disk (env_or_default e var k s) = cg_disk s"
  "cg_paths (apply_log_dir e s) = cg_paths s" "cg_flags (apply_log_dir e s) = cg_flags s" "cg_disk (apply_log_dir e s) = cg_disk s"
  "cg_paths (apply_ratios s) = cg_paths s" "cg_flags (apply_ratios s) = cg_flags s" "cg_disk (apply_ratios s) = cg_disk s"
  "cg_paths (apply_save_dir e c s) = cg_paths s" "cg_flags (apply_save_dir e c s) = cg_flags s" "cg_disk (apply_save_dir e c s) = cg_disk s"
  "cg_paths (apply_state_dir e c s) = cg_paths s" "cg_flags (apply_state_dir e c s) = cg_flags s" "cg_disk (apply_state_dir e c s) = cg_disk s"
  "cg_paths (apply_menu_driver b s) = cg_paths s" "cg_flags (apply_menu_driver b s) = cg_flags s" "cg_disk (apply_menu_driver b s) = cg_disk s"
  "cg_paths (apply_gamemode e s) = cg_paths s" "cg_flags (apply_gamemode e s) = cg_flags s" "cg_disk (apply_gamemode e s) = cg_disk s"
  by (simp_all add: apply_environment_def apply_limits_def apply_midi_def env_or_default_def
      apply_log_dir_def apply_ratios_def apply_save_dir_def apply_state_dir_def apply_menu_driver_def
      apply_gamemode_def Let_def split: option.split)

lemma defaults_frame [simp]:
  "cg_paths (apply_defaults b e s) = cg_paths s" "cg_flags (apply_defaults b e s) = cg_flags s" "cg_disk (apply_defaults b e s) = cg_disk s"
  by (simp_all add: apply_defaults_def Let_def)

lemma apply_frame [simp]:
  "cg_paths (apply_settings b e c user s) = cg_paths s" "cg_flags (apply_settings b e c user s) = cg_flags s" "cg_disk (apply_settings b e c user s) = cg_disk s"
  by (simp_all add: apply_settings_def Let_def)

lemma values_frame [simp]:
  "cg_paths (load_values b e c s) = cg_paths s" "cg_flags (load_values b e c s) = cg_flags s" "cg_disk (load_values b e c s) = cg_disk s"
  by (simp_all add: load_values_def load_bools_def load_paths_def put_path_values_def Let_def split: option.split)

lemma verbosity_flags [simp]: "cg_flags (check_verbosity_settings e c s) = cg_flags s"
  by (simp add: check_verbosity_settings_def Let_def split: option.split)

lemma load_frame:
  assumes "config_load_file b e (Some p) s = (ok, s')"
  shows "cg_paths s' = cg_paths s" and "cg_flags s' = cg_flags s" and "cg_disk s' = cg_disk s"
proof -
  have "cg_paths (config_load_conf b e w c s) = cg_paths s \<and> cg_flags (config_load_conf b e w c s) = cg_flags s
      \<and> cg_disk (config_load_conf b e w c s) = cg_disk s" for w c
    by (simp add: config_load_conf_def append_configs_def append_overrides_def Let_def)
  with assms show "cg_paths s' = cg_paths s" "cg_flags s' = cg_flags s" "cg_disk s' = cg_disk s"
    by (cases "p = ''without-overrides''"; cases "cg_disk s p"; cases "cg_disk s (cg_paths s ''RARCH_PATH_CONFIG'')";
        auto simp: config_load_file_def Let_def)+
qed

subsection \<open>Stacking\<close>

text \<open>What is stacked are the files that exist, in their order, joined by bars.\<close>

fun bar_text :: "string list \<Rightarrow> string" where
  "bar_text [] = []"
| "bar_text [p] = p"
| "bar_text (p # q # ps) = p @ CHR ''|'' # bar_text (q # ps)"

lemma bar_text_snoc: "ps \<noteq> [] \<Longrightarrow> bar_text (ps @ [q]) = bar_text ps @ CHR ''|'' # q"
  by (induction ps rule: bar_text.induct) simp_all

lemma bar_names_text:
  assumes "list_all (\<lambda>p. p \<noteq> [] \<and> CHR ''|'' \<notin> set p) ps"
  shows "bar_names [] (bar_text ps) = ps"
proof -
  have bar: "bar_names w (p @ CHR ''|'' # cs) = (w @ p) # bar_names [] cs"
    if "CHR ''|'' \<notin> set p" "w @ p \<noteq> []" for w p cs
    using that by (induction p arbitrary: w) auto
  show ?thesis
    using assms by (induction ps rule: bar_text.induct) (simp_all add: bar bar_names_plain)
qed

lemma bar_text_length: "length (bar_text ps) \<le> sum_list (map (\<lambda>p. length p + 1) ps)"
  by (induction ps rule: bar_text.induct) simp_all

definition on_disk :: "'c config \<Rightarrow> string \<Rightarrow> bool" where
  "on_disk s p \<longleftrightarrow> cg_disk s p \<noteq> None"

lemma stack_step:
  assumes "length (bar_text (ps @ [p])) + 2 < co_path_max e" and "list_all (\<lambda>p. p \<noteq> []) (ps @ [p])"
    and "cg_paths s ''RARCH_PATH_CONFIG_OVERRIDE'' = bar_text ps"
  shows "stack_override e p (ps \<noteq> [], shown, s) =
    (if on_disk s p then (True, True, set_path_of ''RARCH_PATH_CONFIG_OVERRIDE'' (bar_text (ps @ [p])) s)
     else (ps \<noteq> [], shown, s))"
proof (cases "ps = []")
  case True
  then show ?thesis using assms(3) by (auto simp: stack_override_def on_disk_def Let_def)
next
  case False
  then have ne: "bar_text ps \<noteq> []"
    using assms(2) by (cases ps rule: bar_text.cases) auto
  have "join_bar (co_path_max e) (bar_text ps) p = bar_text (ps @ [p])"
    using assms(1) False by (simp add: join_bar_def strlcpy_def bar_text_snoc)
  with False ne assms(3) show ?thesis by (auto simp: stack_override_def on_disk_def Let_def)
qed

lemma set_path_of_parts [simp]:
  "set_path_of k p (set_path_of k q s) = set_path_of k p s" "cg_disk (set_path_of k p s) = cg_disk s"
  "on_disk (set_path_of k p s) q = on_disk s q"
  "cg_paths (set_path_of k p s) = (cg_paths s)(k := p)" "cg_flags (set_path_of k p s) = cg_flags s"
  by (simp_all add: set_path_of_def on_disk_def)

lemma set_path_of_same: "cg_paths s k = p \<Longrightarrow> set_path_of k p s = s"
  by (auto simp: set_path_of_def)

lemma stack_files:
  assumes "sum_list (map (\<lambda>p. length p + 1) (ps @ fs)) + 2 < co_path_max e"
    and "list_all (\<lambda>p. p \<noteq> []) (ps @ fs)" and "cg_paths s ''RARCH_PATH_CONFIG_OVERRIDE'' = bar_text ps"
  shows "\<exists>sh. fold (stack_override e) fs (ps \<noteq> [], shown, s) =
    (ps @ filter (on_disk s) fs \<noteq> [], sh,
     set_path_of ''RARCH_PATH_CONFIG_OVERRIDE'' (bar_text (ps @ filter (on_disk s) fs)) s)"
  using assms
proof (induction fs arbitrary: ps shown s)
  case Nil
  then show ?case by (simp add: set_path_of_same)
next
  case (Cons p fs)
  have len: "length (bar_text (ps @ [p])) + 2 < co_path_max e"
    using Cons.prems(1) bar_text_length [of "ps @ [p]"] by simp
  have ne: "list_all (\<lambda>p. p \<noteq> []) (ps @ [p])" using Cons.prems(2) by simp
  note step = stack_step [OF len ne Cons.prems(3), of shown]
  show ?case
  proof (cases "on_disk s p")
    case True
    let ?s = "set_path_of ''RARCH_PATH_CONFIG_OVERRIDE'' (bar_text (ps @ [p])) s"
    have "\<exists>sh. fold (stack_override e) fs (ps @ [p] \<noteq> [], True, ?s) =
        ((ps @ [p]) @ filter (on_disk ?s) fs \<noteq> [], sh,
         set_path_of ''RARCH_PATH_CONFIG_OVERRIDE'' (bar_text ((ps @ [p]) @ filter (on_disk ?s) fs)) ?s)"
      by (rule Cons.IH) (use Cons.prems in simp_all)
    moreover have "on_disk ?s = on_disk s" by (simp add: fun_eq_iff)
    ultimately show ?thesis using True step by simp
  next
    case False
    have "\<exists>sh. fold (stack_override e) fs (ps \<noteq> [], shown, s) =
        (ps @ filter (on_disk s) fs \<noteq> [], sh,
         set_path_of ''RARCH_PATH_CONFIG_OVERRIDE'' (bar_text (ps @ filter (on_disk s) fs)) s)"
      by (rule Cons.IH) (use Cons.prems in simp_all)
    then show ?thesis using False step by simp
  qed
qed

lemma append_later:
  assumes "conf_ok (co_conf e)" and "list_all (on_disk s) fs"
  shows "same_entry (co_conf e)
    (fold (\<lambda>p c. case cg_disk s p of None \<Rightarrow> c | Some d \<Rightarrow> cf_append (co_conf e) c d) fs c)
    (case find (\<lambda>p. cf_has (co_conf e) (the (cg_disk s p)) k) (rev fs) of None \<Rightarrow> c | Some p \<Rightarrow> the (cg_disk s p)) k"
  using assms(2)
proof (induction fs rule: rev_induct)
  case (snoc p fs)
  then obtain d where d: "cg_disk s p = Some d" by (auto simp: on_disk_def)
  let ?c = "fold (\<lambda>p c. case cg_disk s p of None \<Rightarrow> c | Some d \<Rightarrow> cf_append (co_conf e) c d) fs c"
  have "same_entry (co_conf e) (cf_append (co_conf e) ?c d) (if cf_has (co_conf e) d k then d else ?c) k"
    by (rule append_entry [OF assms(1)])
  with snoc d show ?case by (auto intro: same_entry_trans)
qed simp

text \<open>
  C13. The most specific override wins.  When the overrides of a core are stacked, each entry of the
  configuration that is loaded comes from the file of the game if that exists and has the entry,
  otherwise from the file of the directory, otherwise from the file of the core, and otherwise from
  the configuration itself.
\<close>

theorem most_specific_override_wins:
  assumes "conf_ok (co_conf e)"
    and "fs = override_files e core (cg_paths s ''RARCH_PATH_BASENAME'')"
    and "cg_paths s ''RARCH_PATH_CONFIG_OVERRIDE'' = []"
    and "list_all (\<lambda>p. p \<noteq> [] \<and> CHR ''|'' \<notin> set p) fs"
    and "sum_list (map (\<lambda>p. length p + 1) fs) + 2 < co_path_max e"
    and "fold (stack_override e) fs (False, shown, s) = (stacked, sh, s')"
  shows "same_entry (co_conf e) (append_files e s' (cg_paths s' ''RARCH_PATH_CONFIG_OVERRIDE'') c)
    (case find (\<lambda>p. cf_has (co_conf e) (the (cg_disk s p)) k) (rev (filter (on_disk s) fs)) of
       None \<Rightarrow> c | Some p \<Rightarrow> the (cg_disk s p)) k"
proof -
  let ?fs = "filter (on_disk s) fs"
  have ne: "list_all (\<lambda>p. p \<noteq> []) fs" using assms(4) by (simp add: list_all_iff)
  have "s' = set_path_of ''RARCH_PATH_CONFIG_OVERRIDE'' (bar_text ?fs) s"
    using stack_files [of "[]" fs e s shown] assms(3,5,6) ne by auto
  then have "cg_paths s' ''RARCH_PATH_CONFIG_OVERRIDE'' = bar_text ?fs" "cg_disk s' = cg_disk s" by simp_all
  moreover have "length (bar_text ?fs) < co_path_max e"
  proof -
    have "sum_list (map (\<lambda>p. length p + 1) ?fs) \<le> sum_list (map (\<lambda>p. length p + 1) fs)"
      by (induction fs) simp_all
    with bar_text_length [of ?fs] assms(5) show ?thesis by linarith
  qed
  moreover have "bar_names [] (bar_text ?fs) = ?fs"
    by (rule bar_names_text) (use assms(4) in \<open>auto simp: list_all_iff\<close>)
  ultimately have "append_files e s' (cg_paths s' ''RARCH_PATH_CONFIG_OVERRIDE'') c =
      fold (\<lambda>p c. case cg_disk s p of None \<Rightarrow> c | Some d \<Rightarrow> cf_append (co_conf e) c d) ?fs c"
    by (simp add: append_files_def strlcpy_def)
  with append_later [OF assms(1), of s ?fs] show ?thesis by (simp add: list_all_iff)
qed

end
