(* ===== verification/Override_Faults.thy ===== *)
theory Override_Faults
  imports Config_Unloading
begin

text \<open>
  Overrides that are in force forbid saving the configuration, unloading them gives the
  configuration back, and two faults: a setting that the configuration does not have, and the
  name of a reserved device.
\<close>

subsection \<open>While overrides are in force\<close>

lemma finish_flags:
  "(Overrides_active \<in> cg_flags (finish_override shown s)) = (cg_paths s ''RARCH_PATH_CONFIG_OVERRIDE'' \<noteq> [])"
  by (simp add: finish_override_def fix_save_paths_def cg_call_def Let_def)

lemma reload_frame:
  assumes "reload_config b e s = (ok, s')"
  shows "cg_paths s' = cg_paths s" "cg_flags s' = cg_flags s"
  using load_frame [of b e "cg_paths s ''RARCH_PATH_CONFIG''" "forget_save_paths s" ok s'] assms
  by (simp_all add: reload_config_def forget_save_paths_def)

text \<open>
  C14. No override ends up in the configuration.  Once the overrides of a core have been loaded from
  some file, the configuration cannot be saved: every attempt is refused and changes nothing.
\<close>

theorem overrides_block_saving:
  assumes "config_load_override b e (Some core) s = (True, s')"
    and "fs = override_files e core (cg_paths s ''RARCH_PATH_BASENAME'')"
    and "cg_paths s ''RARCH_PATH_CONFIG_APPEND'' = []"
    and "list_all (\<lambda>p. p \<noteq> []) fs" and "sum_list (map (\<lambda>p. length p + 1) fs) + 2 < co_path_max e"
  shows "config_save_file b e g p s' = (False, s')"
proof -
  let ?s1 = "set_path_of ''RARCH_PATH_CONFIG_OVERRIDE'' [] s" and ?fs = "filter (on_disk s) fs"
  have "cg_paths ?s1 ''RARCH_PATH_BASENAME'' = cg_paths s ''RARCH_PATH_BASENAME''"
    "cg_paths ?s1 ''RARCH_PATH_CONFIG_APPEND'' = []" "on_disk ?s1 = on_disk s"
    using assms(3) by (simp_all add: fun_eq_iff)
  moreover obtain sh where "fold (stack_override e) fs (False, True, ?s1) =
      (?fs \<noteq> [], sh, set_path_of ''RARCH_PATH_CONFIG_OVERRIDE'' (bar_text ?fs) ?s1)"
    using stack_files [of "[]" fs e ?s1 True] assms(4,5) calculation(3) by auto
  moreover define s2 where "s2 = set_path_of ''RARCH_PATH_CONFIG_OVERRIDE'' (bar_text ?fs) ?s1"
  ultimately have ne: "?fs \<noteq> []" and "case reload_config b e s2 of (ok, s3) \<Rightarrow> ok \<and> s' = finish_override sh s3"
    using assms(1,2) by (simp_all add: config_load_override_def string_is_empty_def Let_def
        split: if_splits prod.splits bool.splits)
  then obtain s3 where reload: "reload_config b e s2 = (True, s3)" "s' = finish_override sh s3"
    by (cases "reload_config b e s2") simp
  moreover have "bar_text ?fs \<noteq> []"
  proof -
    have "list_all (\<lambda>p. p \<noteq> []) ?fs" using assms(4) by (auto simp: list_all_iff)
    with ne show ?thesis by (cases ?fs rule: bar_text.cases) auto
  qed
  ultimately have "Overrides_active \<in> cg_flags s'"
    using reload_frame [OF reload(1)] reload(2) s2_def by (simp add: finish_flags)
  then show ?thesis by (simp add: config_save_file_def split: option.split)
qed

subsection \<open>Unloading\<close>

text \<open>The settings are those of the file \<open>c\<close>, the ones that loading adjusts aside.\<close>

definition reads_as :: "config_build \<Rightarrow> 'c config_outside \<Rightarrow> 'c \<Rightarrow> store \<Rightarrow> bool" where
  "reads_as b e c u \<longleftrightarrow>
     (let cf = co_conf e; tb = co_tables e; keys = (\<lambda>es. set (idents es) - adjusted_keys)
      in (\<forall>k \<in> keys (tb_bool tb). get_bool cf c k = Some (sv_bool u k))
       \<and> (\<forall>k \<in> keys (tb_int tb). get_int cf c k = Some (sv_int u k))
       \<and> (\<forall>k \<in> keys (tb_uint tb). get_as_uint cf c k = Some (sv_uint u k))
       \<and> (\<forall>k \<in> keys (tb_float tb). get_float cf c k = Some (sv_float u k))
       \<and> (\<forall>k \<in> set (shared_arrays b e) \<inter> set (handled (tb_array tb)) - adjusted_keys.
             get_array cf c k (co_path_max e) = Some (sv_array u k)))"

lemma complete_reads:
  assumes "complete b e c"
  shows "reads_as b e c (cg_store (apply_settings b e c user (load_values b e c s)))"
proof -
  note same = settings_agree [of b e c user "load_values b e c s", unfolded agree_def, rule_format]
  note got = complete_values [OF assms] and lv = loaded_values [where b = b and e = e and c = c and s = s]
  show ?thesis
    unfolding reads_as_def Let_def
  proof (intro conjI ballI)
    fix k assume "k \<in> set (idents (tb_bool (co_tables e))) - adjusted_keys"
    then show "get_bool (co_conf e) c k = Some (sv_bool (cg_store (apply_settings b e c user (load_values b e c s))) k)"
      using got(1) lv(1) same by fastforce
  next
    fix k assume "k \<in> set (idents (tb_int (co_tables e))) - adjusted_keys"
    then show "get_int (co_conf e) c k = Some (sv_int (cg_store (apply_settings b e c user (load_values b e c s))) k)"
      using got(2) lv(2) same by fastforce
  next
    fix k assume "k \<in> set (idents (tb_uint (co_tables e))) - adjusted_keys"
    then show "get_as_uint (co_conf e) c k = Some (sv_uint (cg_store (apply_settings b e c user (load_values b e c s))) k)"
      using got(3) lv(3) same by fastforce
  next
    fix k assume "k \<in> set (idents (tb_float (co_tables e))) - adjusted_keys"
    then show "get_float (co_conf e) c k = Some (sv_float (cg_store (apply_settings b e c user (load_values b e c s))) k)"
      using got(4) lv(5) same by fastforce
  next
    fix k assume "k \<in> set (shared_arrays b e) \<inter> set (handled (tb_array (co_tables e))) - adjusted_keys"
    then show "get_array (co_conf e) c k (co_path_max e) = Some (sv_array (cg_store (apply_settings b e c user (load_values b e c s))) k)"
      using got(5) lv(6) same by fastforce
  qed
qed

lemma fullscreen_same: "same_values (cg_store (fullscreen_changed before running s)) (cg_store s)"
  by (simp add: fullscreen_changed_def same_values_def Let_def)

lemma reads_as_same: "same_values t u \<Longrightarrow> reads_as b e c t = reads_as b e c u"
  by (simp add: reads_as_def same_values_def)

text \<open>
  Unloading overrides gives the configuration back: when it has an entry for every setting, the
  settings are afterwards those of its file alone, whatever the overrides had made of them.
\<close>

theorem unloading_gives_configuration:
  assumes "cg_disk s (cg_paths s ''RARCH_PATH_CONFIG'') = Some c" "complete b e c"
    and "cg_paths s ''RARCH_PATH_CONFIG'' \<noteq> ''without-overrides''" "cg_paths s ''RARCH_PATH_CONFIG_APPEND'' = []"
  shows "reads_as b e c (cg_store (snd (config_unload_override b e s)))"
proof -
  let ?s1 = "set_path_of ''RARCH_PATH_CONFIG_OVERRIDE'' [] (s\<lparr>cg_flags := cg_flags s - {Overrides_active}\<rparr>)"
  have "reads_only (cg_paths ?s1 ''RARCH_PATH_CONFIG'') (forget_save_paths ?s1)"
    "cg_disk (forget_save_paths ?s1) (cg_paths ?s1 ''RARCH_PATH_CONFIG'') = Some c"
    using assms by (simp_all add: reads_only_def forget_save_paths_def)
  from load_only [OF this, of b e] obtain s2 user where
    "reload_config b e ?s1 = (True, apply_settings b e c user (load_values b e c s2))"
    by (auto simp: reload_config_def)
  then have "snd (config_unload_override b e s) =
      fix_save_paths (fullscreen_changed (sv_bool (cg_store s) ''video_fullscreen'') (cg_running s)
        (apply_settings b e c user (load_values b e c s2)))"
    by (simp add: config_unload_override_def)
  then show ?thesis
    using iffD2 [OF reads_as_same [OF fullscreen_same] complete_reads [OF assms(2), of user s2]]
    by (simp add: fix_save_paths_def)
qed

subsection \<open>A setting that the configuration does not have\<close>

lemma verbosity_bools: "k \<noteq> ''log_to_file'' \<Longrightarrow> sv_bool (cg_store (check_verbosity_settings e c s)) k = sv_bool (cg_store s) k"
  by (simp add: check_verbosity_settings_def Let_def split: option.split)

lemma values_bool:
  "sv_bool (cg_store (load_values b e c s)) k = sv_bool (cg_store (load_bools b e c s)) k"
  by (simp add: load_values_def load_store_defs Let_def split: option.split)

lemma missing_bool:
  assumes "get_bool (co_conf e) c k = None"
  shows "sv_bool (cg_store (load_bools b e c s)) k = sv_bool (cg_store s) k"
  using assms by (simp add: load_bools_def Let_def load_keys_eq)

text \<open>In the base, such a switch is off, whatever its default.\<close>

lemma base_misses:
  assumes "cg_disk s (cg_paths s ''RARCH_PATH_CONFIG'') = Some c0" "cg_paths s ''RARCH_PATH_CONFIG_APPEND'' = []"
    and "get_bool (co_conf e) c0 k = None" "k \<noteq> ''log_to_file''" "k \<notin> adjusted_keys"
  shows "\<not> sv_bool (cg_store (load_base b e s)) k"
proof -
  let ?s0 = "s\<lparr>cg_store := zero_store\<rparr>"
  define v where "v = check_verbosity_settings e c0 ?s0"
  define s1 where "s1 = (if get_bool (co_conf e) c0 ''perfcnt_enable'' = Some True then v\<lparr>cg_perfcnt := True\<rparr> else v)"
  define user where "user = sv_path (cg_store s1) ''netplay_nickname''"
  have l: "load_base b e s = apply_settings b e c0 user (load_values b e c0 s1)"
    using assms(1,2) by (simp add: load_base_def config_load_file_def config_load_conf_def append_configs_def
        append_overrides_def Let_def user_def s1_def v_def)
  have s1: "cg_store s1 = cg_store (check_verbosity_settings e c0 ?s0)" by (simp add: s1_def v_def)
  have "sv_bool (cg_store (load_base b e s)) k = sv_bool (cg_store s1) k"
    using settings_agree [of b e c0 user "load_values b e c0 s1"] assms(3,5)
    by (simp add: l agree_def values_bool missing_bool)
  also have "\<dots> = False" by (simp add: s1 verbosity_bools [OF assms(4)] zero_store_def)
  finally show ?thesis by simp
qed

text \<open>
  C34. A switch that was turned off is lost.  A switch for which the configuration has no entry is
  not written to an override when it is off: the base is an empty structure, in which every switch
  is off, although the default may be on.
\<close>

theorem override_loses_switch:
  assumes "conf_ok (co_conf e)" "same_put e" "keys_apart b e" "cf_new (co_conf e) = Some c"
    and "cg_disk s (cg_paths s ''RARCH_PATH_CONFIG'') = Some c0" "cg_paths s ''RARCH_PATH_CONFIG_APPEND'' = []"
    and "k \<in> set (idents (tb_bool (co_tables e)))" "k \<noteq> ''log_to_file''" "k \<notin> adjusted_keys"
    and "get_bool (co_conf e) c0 k = None" "\<not> sv_bool (cg_store s) k"
  shows "\<not> cf_has (co_conf e) (override_conf b e (override_base b e core s) (override_now b e core s) c) k"
proof -
  define s0 where "s0 = (if co_is_directory e (co_join e (co_config_dir e) core) then s
    else cg_call (''path_mkdir '' @ co_join e (co_config_dir e) core) s)"
  have "cg_disk s0 = cg_disk s" "cg_paths s0 = cg_paths s" unfolding s0_def cg_call_def by simp_all
  moreover have "override_base b e core s = load_base b e s0"
    unfolding override_base_def Let_def s0_def by (rule refl)
  ultimately have "\<not> sv_bool (cg_store (override_base b e core s)) k"
    using base_misses [of s0 c0 e k b] assms(5,6,8,9,10) by simp
  moreover have "sv_bool (cg_store (override_now b e core s)) k = sv_bool (cg_store s) k"
    by (simp add: override_now_def)
  ultimately show ?thesis
    using override_has(1) [OF assms(1-4,7)] assms(11) by simp
qed

subsection \<open>The name of a reserved device\<close>

text \<open>
  The name of a reserved device takes the place of the kind of reservation.  When the device
  reserved for a user differs, an override has its name under the key of the kind of reservation,
  so that neither can be read back, and no entry under the key of the name.
\<close>

theorem reserved_name_misplaced:
  assumes "conf_ok cf" "sv_array t (reserved_key i) \<noteq> sv_array u (reserved_key i)"
    and "plain_text (sv_array u (reserved_key i))" "length (sv_array u (reserved_key i)) < n"
  shows "get_array cf (changed_device cf t u i c) (user_key ''input_player'' i ''_device_reservation_type'') n
      = Some (sv_array u (reserved_key i))
    \<and> same_entry cf (changed_device cf t u i c) c (reserved_key i)"
proof (rule conjI)
  show "get_array cf (changed_device cf t u i c) (user_key ''input_player'' i ''_device_reservation_type'') n
      = Some (sv_array u (reserved_key i))"
    using assms by (simp add: changed_device_def reads_backD(6) Let_def)
  have other: "reserved_key i \<notin> set (device_keys i)"
    by (simp add: reserved_key_def device_keys_def player_suffixes_def user_key_def)
  have "writes cf (set (device_keys i)) (save_changed (put_uint cf) (device_keys i) (sv_uint t) (sv_uint u))"
    by (rule writes_save_changed) (rule writes_table [OF assms(1)])
  note w = writesD [OF this other, of c]
  have "reserved_key i \<noteq> user_key ''input_player'' i ''_device_reservation_type''"
    by (simp add: reserved_key_def user_key_def)
  from same_entry_trans [OF puts_apartD(1) [OF assms(1) this] w] assms(2)
  show "same_entry cf (changed_device cf t u i c) c (reserved_key i)"
    by (simp add: changed_device_def Let_def)
qed

end
