(* ===== verification/Config_Witnesses.thy ===== *)
theory Config_Witnesses
  imports Override_Faults
begin

text \<open>
  Configuration files as maps from keys to values, for which the contract holds, and a small
  frontend that uses them; the properties of the configuration are applied to it.
\<close>

datatype xc_value = XC_text string | XC_int int | XC_float rat | XC_hex u32

type_synonym xc_file = "string \<Rightarrow> xc_value option"

definition xc_text :: "xc_file \<Rightarrow> string \<Rightarrow> string option" where
  "xc_text c k = (case c k of Some (XC_text t) \<Rightarrow> Some t | _ \<Rightarrow> None)"

definition xc_int :: "xc_file \<Rightarrow> string \<Rightarrow> int option" where
  "xc_int c k = (case c k of Some (XC_int v) \<Rightarrow> Some v | _ \<Rightarrow> None)"

definition xc_bounded :: "xc_file \<Rightarrow> string \<Rightarrow> nat \<Rightarrow> string option" where
  "xc_bounded c k n = (case xc_text c k of Some t \<Rightarrow> if length t < n then Some t else None | None \<Rightarrow> None)"

definition xc_conf :: "xc_file conf_code" where
  "xc_conf = \<lparr>cf_new = Some (\<lambda>_. None), cf_append = (\<lambda>c d k. case d k of None \<Rightarrow> c k | Some v \<Rightarrow> Some v),
     cf_write = (\<lambda>c p. (True, Some c)), cf_modified = (\<lambda>c. True), cf_has = (\<lambda>c k. c k \<noteq> None),
     cf_unset = (\<lambda>c k. c(k := None)), set_string = (\<lambda>c k v. c(k \<mapsto> XC_text v)), set_path = (\<lambda>c k v. c(k \<mapsto> XC_text v)),
     set_int = (\<lambda>c k v. c(k \<mapsto> XC_int v)), set_float = (\<lambda>c k v. c(k \<mapsto> XC_float v)),
     set_hex = (\<lambda>c k v. c(k \<mapsto> XC_hex v)),
     get_bool = (\<lambda>c k. map_option (\<lambda>t. t = ''true'') (xc_text c k)), get_int = xc_int,
     get_uint = (\<lambda>c k. map_option word_of_int (xc_int c k)), get_size = (\<lambda>c k. map_option word_of_int (xc_int c k)),
     get_float = (\<lambda>c k. case c k of Some (XC_float v) \<Rightarrow> Some v | _ \<Rightarrow> None),
     get_hex = (\<lambda>c k. case c k of Some (XC_hex v) \<Rightarrow> Some v | _ \<Rightarrow> None),
     get_array = xc_bounded, get_path = xc_bounded\<rparr>"

lemmas xc_defs = xc_bounded_def xc_text_def xc_int_def

lemma xc_select [simp]:
  "cf_new xc_conf = Some (\<lambda>_. None)" "cf_append xc_conf c d k = (case d k of None \<Rightarrow> c k | Some v \<Rightarrow> Some v)"
  "cf_write xc_conf c p = (True, Some c)" "cf_modified xc_conf c" "cf_has xc_conf c k = (c k \<noteq> None)"
  "cf_unset xc_conf c k = c(k := None)" "set_string xc_conf c k t = c(k \<mapsto> XC_text t)"
  "set_path xc_conf c k t = c(k \<mapsto> XC_text t)" "set_int xc_conf c k i = c(k \<mapsto> XC_int i)"
  "set_float xc_conf c k r = c(k \<mapsto> XC_float r)" "set_hex xc_conf c k w = c(k \<mapsto> XC_hex w)"
  "get_bool xc_conf c k = map_option (\<lambda>t. t = ''true'') (xc_text c k)" "get_int xc_conf = xc_int"
  "get_uint xc_conf c k = map_option word_of_int (xc_int c k)" "get_size xc_conf c k = map_option word_of_int (xc_int c k)"
  "get_float xc_conf c k = (case c k of Some (XC_float r) \<Rightarrow> Some r | _ \<Rightarrow> None)"
  "get_hex xc_conf c k = (case c k of Some (XC_hex w) \<Rightarrow> Some w | _ \<Rightarrow> None)"
  "get_array xc_conf = xc_bounded" "get_path xc_conf = xc_bounded"
  by (simp_all add: xc_conf_def)

lemma xc_same_value: "c k = d k \<Longrightarrow> same_entry xc_conf c d k"
  by (simp add: same_entry_def xc_defs fun_eq_iff)

lemma xc_none: "c k = None \<Longrightarrow> no_entry xc_conf c k"
  by (simp add: no_entry_def xc_defs)

lemma xc_ok: "conf_ok xc_conf"
proof -
  have "puts_apart xc_conf"
    unfolding puts_apart_def by (auto intro!: xc_same_value)
  moreover have "reads_back xc_conf"
    by (simp add: reads_back_def xc_defs bool_text_def)
  moreover have "files_ok xc_conf"
    unfolding files_ok_def by (auto intro!: xc_same_value xc_none split: option.split)
  ultimately show ?thesis by (simp add: conf_ok_def)
qed

subsection \<open>A small frontend\<close>

definition xc_entry :: "string \<Rightarrow> entry" where
  "xc_entry k = \<lparr>en_ident = k, en_override = None, en_default = True, en_handle = True\<rparr>"

definition xc_tables :: tables where
  "xc_tables = \<lparr>tb_bool = [xc_entry ''video_fullscreen''], tb_int = [xc_entry ''state_slot''],
     tb_uint = [xc_entry ''video_scale''], tb_size = [xc_entry ''rewind_buffer_size''],
     tb_float = [xc_entry ''video_refresh_rate''],
     tb_array = [xc_entry ''video_driver'', xc_entry ''cheevos_token''], tb_path = [xc_entry ''log_dir'']\<rparr>"

definition xc_binds :: "xc_file bind_env" where
  "xc_binds = \<lparr>conf_put = set_string xc_conf, conf_array = get_array xc_conf, conf_entry = xc_text,
     join_delim = (\<lambda>p q d. p @ d # q), key_to_str = (\<lambda>_. ''nul''), uninit_text = []\<rparr>"

definition xc_macros :: bind_macros where
  "xc_macros = \<lparr>no_btn = 0xFFFF, axis_none = 0xFFFFFFFF, axis_dir_none = 0xFFFF,
     axis_neg = (\<lambda>i. word_of_int i * 0x10000 + 0xFFFF), axis_pos = (\<lambda>i. word_of_int i + 0xFFFF0000),
     axis_neg_get = (\<lambda>a. a div 0x10000), axis_pos_get = (\<lambda>a. a mod 0x10000),
     hat_up = 0x8000, hat_down = 0x4000, hat_left = 0x2000, hat_right = 0x1000, hat_map = (\<lambda>h d. h + d),
     get_hat = (\<lambda>b. b mod 0x1000), get_hat_dir = (\<lambda>b. b div 0x1000), mouse_left = 1, mouse_right = 2,
     mouse_middle = 3, mouse_button_4 = 4, mouse_button_5 = 5, mouse_wheelup = 6, mouse_wheeldown = 7,
     mouse_horiz_wheelup = 8, mouse_horiz_wheeldown = 9\<rparr>"

definition xc_out :: "xc_file config_outside" where
  "xc_out = \<lparr>co_conf = xc_conf, co_bind_env = xc_binds, co_macros = xc_macros, co_tables = xc_tables,
     co_read_binds = (\<lambda>c bs. bs), co_users = 0, co_leds = 0, co_path_max = 4096, co_getenv = (\<lambda>_. None),
     co_username_set = False, co_is_directory = (\<lambda>_. True), co_mkdir = (\<lambda>_. True),
     co_resolve_relative = (\<lambda>p q. q), co_join = (\<lambda>d f. d @ CHR ''/'' # f),
     co_join_ext = (\<lambda>d c n x. d @ CHR ''/'' # c @ CHR ''/'' # n @ x), co_dir_name = (\<lambda>d p x. d @ p @ x),
     co_parent_dir = (\<lambda>p. []), co_parent_dir_name = (\<lambda>p. ''roms''), co_basename = (\<lambda>p. ''game''),
     co_config_dir = ''/config'', co_default_dir = (\<lambda>_. []), co_constant = (\<lambda>k. if k = ''FILE_PATH_CONFIG_EXTENSION'' then ''.cfg'' else k),
     co_limit = (\<lambda>_. 0), co_app_data = None, co_global_config_dir = [], co_basedir = (\<lambda>p. p),
     co_gamemode = (\<lambda>_. False), co_has_gamemode = False, co_delete = (\<lambda>_. True), co_garbage = ([], [])\<rparr>"

definition xc_build :: config_build where
  "xc_build = \<lparr>cb_menu = False, cb_rgui = False, cb_overlay = False, cb_cheevos = True, cb_networkgamepad = False,
     cb_audiomixer = False, cb_wasapi = False, cb_ios = False\<rparr>"

definition xc_screen :: screen where
  "xc_screen = \<lparr>sn_gamma = 0, sn_flicker = False, sn_soft = False, sn_soft_index = 0, sn_resolution = 0, sn_flicker_index = 0\<rparr>"

definition xc_store :: store where
  "xc_store = zero_store\<lparr>sv_bool := (\<lambda>k. k = ''video_fullscreen''), sv_int := (\<lambda>k. if k = ''state_slot'' then 7 else 0),
     sv_uint := (\<lambda>k. if k = ''video_scale'' then 3 else 0), sv_size := (\<lambda>_. 20971520), sv_float := (\<lambda>_. 60),
     sv_array := (\<lambda>k. if k = ''video_driver'' then ''gl'' else if k = ''cheevos_token'' then ''secret'' else [])\<rparr>"

definition xc_state :: "xc_file config" where
  "xc_state = \<lparr>cg_store = xc_store, cg_global = (\<lambda>_. []), cg_disk = (\<lambda>_. None), cg_overridden = {}, cg_flags = {},
     cg_running = False, cg_paths = (\<lambda>k. if k = ''RARCH_PATH_CONFIG'' then ''/main.cfg'' else []), cg_savefile = [],
     cg_savestate = [], cg_replay = [], cg_verbose = False, cg_log_level = 1, cg_perfcnt = False, cg_binds = [],
     cg_calls = []\<rparr>"

lemma xc_apart: "keys_apart xc_build xc_out"
  by (simp add: keys_apart_def key_lists_def Let_def xc_out_def xc_tables_def xc_entry_def idents_def all_device_keys_def
      remote_keys_def screen_keys_def bind_keys_def)

section \<open>Witnesses\<close>

text \<open>
  The properties of the configuration at concrete files and settings.
\<close>

definition xc_saved :: xc_file where
  "xc_saved = saved_conf xc_build xc_out xc_screen xc_state (\<lambda>_. None)"

lemmas xc_unfold = xc_out_def xc_tables_def xc_entry_def xc_build_def xc_state_def xc_store_def xc_screen_def
  xc_binds_def zero_store_def

lemmas xc_saving = saved_conf_def save_paths_def save_numbers_def save_devices_def save_bools_def
  video_driver_save_settings_def save_binds_def save_keys_def saved_path_def path_values_def global_paths_def
  put_bool_def put_uint_def put_size_def bool_text_def idents_def not_overridden_def color_value_def

lemma xc_basics:
  "same_put xc_out" "conf_ok (co_conf xc_out)" "storable xc_out xc_store" "cg_store xc_state = xc_store"
  "co_conf xc_out = xc_conf" "co_tables xc_out = xc_tables" "co_path_max xc_out = 4096"
  "cf_new (co_conf xc_out) = Some (\<lambda>_. None)"
  by (simp_all add: same_put_def xc_unfold xc_ok storable_def c_int_def six_digits_def plain_text_def)

lemma xc_saved_values:
  "xc_saved = [''log_dir'' \<mapsto> XC_text ''default'', ''video_driver'' \<mapsto> XC_text ''gl'', ''cheevos_token'' \<mapsto> XC_text ''secret'',
     ''video_refresh_rate'' \<mapsto> XC_float 60, ''state_slot'' \<mapsto> XC_int 7, ''video_scale'' \<mapsto> XC_int 3,
     ''rewind_buffer_size'' \<mapsto> XC_int 20971520, ''video_fullscreen'' \<mapsto> XC_text ''true'',
     ''log_verbosity'' \<mapsto> XC_text ''false'', ''perfcnt_enable'' \<mapsto> XC_text ''false'',
     ''video_message_color'' \<mapsto> XC_hex (color_value xc_store), ''gamma_correction'' \<mapsto> XC_int 0,
     ''flicker_filter_enable'' \<mapsto> XC_text ''false'', ''soft_filter_enable'' \<mapsto> XC_text ''false'',
     ''soft_filter_index'' \<mapsto> XC_int 0, ''current_resolution_id'' \<mapsto> XC_int 0, ''flicker_filter_index'' \<mapsto> XC_int 0]"
  unfolding xc_saved_def
  by (simp add: xc_saving xc_unfold Let_def fun_eq_iff)

lemma xc_saved_plain: "all_plain xc_conf xc_saved"
  unfolding all_plain_def xc_saved_values by (auto simp: xc_defs split: if_splits option.splits)

definition xc_new_session :: "xc_file config" where
  "xc_new_session = xc_state\<lparr>cg_store := zero_store, cg_disk := [''/main.cfg'' \<mapsto> xc_saved]\<rparr>"

lemma xc_session:
  "saves_to xc_build xc_out xc_screen ''/main.cfg'' xc_state xc_saved" "reads_only ''/main.cfg'' xc_new_session"
  "cg_disk xc_new_session ''/main.cfg'' = cg_disk (snd (config_save_file xc_build xc_out xc_screen ''/main.cfg'' xc_state)) ''/main.cfg''"
proof -
  have new: "open_or_new xc_out ''/main.cfg'' xc_state = Some (\<lambda>_. None)"
    by (simp add: open_or_new_def xc_unfold)
  show s: "saves_to xc_build xc_out xc_screen ''/main.cfg'' xc_state xc_saved"
    using new xc_saved_plain by (simp add: saves_to_def xc_basics flip: xc_saved_def) (simp add: xc_unfold)
  show "reads_only ''/main.cfg'' xc_new_session"
    by (simp add: reads_only_def xc_new_session_def xc_unfold)
  show "cg_disk xc_new_session ''/main.cfg'' = cg_disk (snd (config_save_file xc_build xc_out xc_screen ''/main.cfg'' xc_state)) ''/main.cfg''"
    unfolding saves_to_disk [OF s] by (simp add: xc_new_session_def)
qed

lemma settings_round_trip_witness:
  "restored xc_out xc_state (cg_store (snd (config_load_file xc_build xc_out (Some ''/main.cfg'') xc_new_session)))"
  by (rule settings_round_trip [OF xc_basics(2,1) xc_apart _ xc_session]) (simp add: xc_basics)

lemma rewind_buffer_survives_witness:
  "sv_size (cg_store (snd (config_load_file xc_build xc_out (Some ''/main.cfg'') xc_new_session))) ''rewind_buffer_size'' = 20971520"
proof -
  have st: "storable xc_out (cg_store xc_state)" by (simp add: xc_basics)
  have k: "''rewind_buffer_size'' \<in> saved_keys xc_state (tb_size (co_tables xc_out))"
    by (simp add: saved_keys_def idents_def not_overridden_def xc_unfold)
  have z: "20971520 = sv_size (cg_store xc_state) ''rewind_buffer_size''" by (simp add: xc_unfold)
  show ?thesis
    using rewind_buffer_survives [OF xc_basics(2,1) xc_apart st xc_session k z] by simp
qed

subsection \<open>Overrides\<close>

text \<open>The configuration above is in use, and some settings have been changed.\<close>

definition xc_changed :: "xc_file config" where
  "xc_changed = xc_state\<lparr>cg_disk := [''/main.cfg'' \<mapsto> xc_saved],
     cg_paths := (\<lambda>k. if k = ''RARCH_PATH_CONFIG'' then ''/main.cfg'' else if k = ''RARCH_PATH_BASENAME'' then ''/roms/game'' else []),
     cg_store := xc_store\<lparr>sv_bool := (\<lambda>k. False), sv_int := (\<lambda>k. 2),
       sv_array := (\<lambda>k. if k = ''video_driver'' then ''vulkan'' else if k = ''cheevos_token'' then ''other'' else [])\<rparr>\<rparr>"

lemma xc_changed_facts:
  "storable xc_out (cg_store xc_changed)" "cg_disk xc_changed (cg_paths xc_changed ''RARCH_PATH_CONFIG'') = Some xc_saved"
  "cg_paths xc_changed ''RARCH_PATH_CONFIG_APPEND'' = []" "cg_paths xc_changed ''RARCH_PATH_CONFIG'' = ''/main.cfg''"
  "cg_paths xc_changed ''RARCH_PATH_BASENAME'' = ''/roms/game''" "cb_cheevos xc_build"
  by (simp_all add: xc_changed_def xc_unfold storable_def c_int_def six_digits_def plain_text_def)

lemma xc_complete: "complete xc_build xc_out xc_saved"
  unfolding complete_def xc_saved_values
  by (simp add: xc_basics shared_arrays_def cheevos_login_def idents_def get_as_uint_def xc_unfold xc_defs Let_def) blast

text \<open>Writing plain texts keeps a file plain.\<close>

definition xc_plain :: "string \<Rightarrow> bool" where
  "xc_plain v \<longleftrightarrow> CHR 0x22 \<notin> set v \<and> CHR 0x0A \<notin> set v"

lemma xc_put_plain:
  assumes "all_plain xc_conf c" and "\<And>t. v = XC_text t \<Longrightarrow> xc_plain t"
  shows "all_plain xc_conf (c(k \<mapsto> v))"
  using assms unfolding all_plain_def
  by (cases v) (auto simp: xc_defs xc_plain_def split: option.splits if_splits xc_value.splits)

lemma xc_empty_plain: "all_plain xc_conf (\<lambda>_. None)"
  by (simp add: all_plain_def xc_defs)

lemma xc_save_plain:
  assumes "all_plain xc_conf c" and "\<And>k c. k \<in> set ks \<Longrightarrow> all_plain xc_conf c \<Longrightarrow> all_plain xc_conf (put c k (now k))"
  shows "all_plain xc_conf (save_changed put ks base now c)"
proof -
  have "all_plain xc_conf (save_keys put js now c)" if "set js \<subseteq> set ks" for js
    using that assms(1)
  proof (induction js arbitrary: c)
    case (Cons a js)
    then show ?case using assms(2) by (simp add: save_keys_def)
  qed (simp add: save_keys_def)
  then show ?thesis by (simp add: save_changed_def)
qed

lemma xc_override_plain:
  "all_plain (co_conf xc_out) (override_conf xc_build xc_out (override_base xc_build xc_out core xc_changed)
     (override_now xc_build xc_out core xc_changed) (\<lambda>_. None))"
proof -
  let ?u = "cg_store xc_changed"
  have now: "cg_store (override_now xc_build xc_out core xc_changed) = ?u" by (simp add: override_now_def)
  have paths: "xc_plain (path_values (override_now xc_build xc_out core xc_changed) ''log_dir'')"
    by (simp add: path_values_def global_paths_def now xc_plain_def) (simp add: xc_changed_def xc_unfold)
  have texts: "xc_plain (sv_array ?u k)" "xc_plain (bool_text v)" for k v
    by (simp_all add: xc_plain_def bool_text_def xc_changed_def)
  have users: "co_users xc_out = 0" and log: "idents (tb_path xc_tables) = [''log_dir'']"
    by (simp_all add: xc_unfold idents_def)
  show ?thesis
    unfolding override_conf_def changed_values_def Let_def xc_basics now users
    by (simp, intro xc_save_plain)
      (auto intro!: xc_put_plain simp: texts paths log put_bool_def put_uint_def put_size_def xc_empty_plain)
qed

definition xc_overridden :: "xc_file config" where
  "xc_overridden = snd (the (config_save_overrides xc_build xc_out Override_game (Some ''core'') False [] xc_changed))"

lemma xc_base:
  "cg_disk (override_now xc_build xc_out core xc_changed) = cg_disk xc_changed"
  "cg_paths (override_now xc_build xc_out core xc_changed) = cg_paths xc_changed"
proof -
  have base: "override_base xc_build xc_out core xc_changed = load_base xc_build xc_out xc_changed"
    by (simp add: override_base_def xc_out_def)
  obtain ok s where "config_load_file xc_build xc_out (Some ''without-overrides'') (xc_changed\<lparr>cg_store := zero_store\<rparr>) = (ok, s)"
    by (metis surj_pair)
  with load_frame [OF this] show "cg_disk (override_now xc_build xc_out core xc_changed) = cg_disk xc_changed"
    "cg_paths (override_now xc_build xc_out core xc_changed) = cg_paths xc_changed"
    by (simp_all add: override_now_def base load_base_def)
qed

lemma xc_saves:
  "config_save_overrides xc_build xc_out Override_game (Some ''core'') False [] xc_changed = Some (1, xc_overridden)"
  "cg_paths xc_overridden = (cg_paths xc_changed)(''RARCH_PATH_CONFIG_OVERRIDE'' := ''/config/core/game.cfg'')"
  "cg_disk xc_overridden ''/main.cfg'' = Some xc_saved"
proof -
  have p: "override_file xc_out Override_game ''core'' ''/roms/game'' [] = ''/config/core/game.cfg''"
    by (simp add: override_file_def xc_out_def Let_def)
  have none: "cg_disk xc_changed ''/config/core/game.cfg'' = None" by (simp add: xc_changed_def)
  note w = write_override_def write_conf_def set_path_of_def
  have save: "config_save_overrides xc_build xc_out Override_game (Some ''core'') False [] xc_changed =
    Some (1, set_path_of ''RARCH_PATH_CONFIG_OVERRIDE'' ''/config/core/game.cfg''
      ((override_now xc_build xc_out ''core'' xc_changed)\<lparr>cg_disk := (cg_disk xc_changed)(''/config/core/game.cfg'' \<mapsto>
        override_conf xc_build xc_out (override_base xc_build xc_out ''core'' xc_changed)
          (override_now xc_build xc_out ''core'' xc_changed) (\<lambda>_. None))\<rparr>))"
    by (simp add: config_save_overrides_def xc_basics xc_changed_facts string_is_empty_def p Let_def w xc_base none)
  then show "config_save_overrides xc_build xc_out Override_game (Some ''core'') False [] xc_changed = Some (1, xc_overridden)"
    by (simp add: xc_overridden_def)
  show "cg_paths xc_overridden = (cg_paths xc_changed)(''RARCH_PATH_CONFIG_OVERRIDE'' := ''/config/core/game.cfg'')"
    "cg_disk xc_overridden ''/main.cfg'' = Some xc_saved"
    by (simp_all add: xc_overridden_def save xc_base) (simp add: xc_changed_def)
qed

lemma overrides_round_trip_witness:
  "as_overridden xc_build xc_out (cg_store xc_changed)
     (cg_store (config_parse_file xc_build xc_out (xc_overridden\<lparr>cg_store := zero_store\<rparr>)))"
  by (rule overrides_round_trip [where p = "''/config/core/game.cfg''", OF xc_basics(2,1) xc_apart xc_changed_facts(1) xc_basics(8) xc_override_plain
        xc_changed_facts(2) xc_complete xc_changed_facts(3) xc_saves(1)])
     (simp_all add: xc_saves xc_changed_facts xc_basics)

lemma achievements_login_kept_out_witness:
  "no_entry xc_conf (override_conf xc_build xc_out xc_state xc_changed (\<lambda>_. None)) ''cheevos_token''
   \<and> (cf_has xc_conf (override_conf xc_build xc_out xc_state xc_changed (\<lambda>_. None)) ''video_driver'' \<longleftrightarrow>
       sv_array (cg_store xc_state) ''video_driver'' \<noteq> ''vulkan'')"
proof -
  have k: "''cheevos_token'' \<in> set (idents (tb_array (co_tables xc_out)))" "''video_driver'' \<in> set (idents (tb_array (co_tables xc_out)))"
    by (simp_all add: xc_basics idents_def xc_unfold)
  have v: "sv_array (cg_store xc_changed) ''video_driver'' = ''vulkan''" by (simp add: xc_changed_def)
  note t = achievements_login_kept_out [OF xc_basics(2,1) xc_apart xc_changed_facts(1,6) xc_basics(8)]
  from t [OF k(1), of xc_state] t [OF k(2), of xc_state] v show ?thesis
    by (simp add: xc_basics cheevos_login_def)
qed

text \<open>The game has an override; the core has one as well.\<close>

definition xc_stacked :: "xc_file config" where
  "xc_stacked = xc_changed\<lparr>cg_disk := [''/main.cfg'' \<mapsto> xc_saved,
     ''/config/core/core.cfg'' \<mapsto> [''video_scale'' \<mapsto> XC_int 1, ''state_slot'' \<mapsto> XC_int 1],
     ''/config/core/game.cfg'' \<mapsto> [''video_scale'' \<mapsto> XC_int 2]]\<rparr>"

lemma xc_files:
  "override_files xc_out ''core'' (cg_paths xc_stacked ''RARCH_PATH_BASENAME'') =
     [''/config/core/core.cfg'', ''/config/core/roms.cfg'', ''/config/core/game.cfg'']"
  by (simp add: override_files_def xc_stacked_def xc_changed_def xc_out_def Let_def)

lemma xc_disks:
  "cg_disk xc_stacked ''/config/core/core.cfg'' = Some [''video_scale'' \<mapsto> XC_int 1, ''state_slot'' \<mapsto> XC_int 1]"
  "cg_disk xc_stacked ''/config/core/roms.cfg'' = None"
  "cg_disk xc_stacked ''/config/core/game.cfg'' = Some [''video_scale'' \<mapsto> XC_int 2]"
  "cg_disk xc_stacked ''/main.cfg'' = Some xc_saved"
  "cg_paths xc_stacked ''RARCH_PATH_CONFIG_APPEND'' = []" "cg_paths xc_stacked ''RARCH_PATH_CONFIG'' = ''/main.cfg''"
  "cg_paths xc_stacked ''RARCH_PATH_CONFIG_OVERRIDE'' = []"
  by (simp_all add: xc_stacked_def xc_changed_def)

lemma most_specific_override_wins_witness:
  "\<exists>s'. same_entry xc_conf (append_files xc_out s' (cg_paths s' ''RARCH_PATH_CONFIG_OVERRIDE'') xc_saved)
     [''video_scale'' \<mapsto> XC_int 2] ''video_scale''"
proof -
  let ?fs = "[''/config/core/core.cfg'', ''/config/core/roms.cfg'', ''/config/core/game.cfg'']"
  obtain stacked sh s' where r: "fold (stack_override xc_out) ?fs (False, True, xc_stacked) = (stacked, sh, s')"
    by (metis surj_pair)
  have "same_entry (co_conf xc_out) (append_files xc_out s' (cg_paths s' ''RARCH_PATH_CONFIG_OVERRIDE'') xc_saved)
    (case find (\<lambda>p. cf_has (co_conf xc_out) (the (cg_disk xc_stacked p)) ''video_scale'') (rev (filter (on_disk xc_stacked) ?fs)) of
       None \<Rightarrow> xc_saved | Some p \<Rightarrow> the (cg_disk xc_stacked p)) ''video_scale''"
    by (rule most_specific_override_wins [OF xc_basics(2) xc_files [symmetric] xc_disks(7) _ _ r]) (simp_all add: xc_basics)
  then show ?thesis by (simp add: xc_basics on_disk_def xc_disks) blast
qed

lemma overrides_block_saving_witness:
  "\<exists>s'. config_load_override xc_build xc_out (Some ''core'') xc_stacked = (True, s')
     \<and> config_save_file xc_build xc_out xc_screen ''/main.cfg'' s' = (False, s')"
proof -
  let ?fs = "[''/config/core/core.cfg'', ''/config/core/roms.cfg'', ''/config/core/game.cfg'']"
  let ?s1 = "set_path_of ''RARCH_PATH_CONFIG_OVERRIDE'' [] xc_stacked"
  have on: "on_disk ?s1 = on_disk xc_stacked" by (simp add: fun_eq_iff)
  obtain sh where "fold (stack_override xc_out) ?fs (False, True, ?s1) = (True, sh,
      set_path_of ''RARCH_PATH_CONFIG_OVERRIDE'' (bar_text (filter (on_disk xc_stacked) ?fs)) ?s1)"
    using stack_files [of "[]" ?fs xc_out ?s1 True] by (auto simp: on xc_basics on_disk_def xc_disks)
  moreover define s2 where "s2 = set_path_of ''RARCH_PATH_CONFIG_OVERRIDE'' (bar_text (filter (on_disk xc_stacked) ?fs)) ?s1"
  ultimately have stack: "fold (stack_override xc_out) ?fs (False, True, ?s1) = (True, sh, s2)" by simp
  have files: "override_files xc_out ''core'' (cg_paths ?s1 ''RARCH_PATH_BASENAME'') = ?fs"
    "cg_paths ?s1 ''RARCH_PATH_CONFIG_APPEND'' = []"
    using xc_files by (simp_all add: xc_disks)
  have "cg_disk s2 (cg_paths s2 ''RARCH_PATH_CONFIG'') = Some xc_saved" "cg_paths s2 ''RARCH_PATH_CONFIG'' = ''/main.cfg''"
    by (simp_all add: s2_def xc_disks)
  then obtain s3 where "reload_config xc_build xc_out s2 = (True, s3)"
    by (simp add: reload_config_def config_load_file_def forget_save_paths_def)
  then have "config_load_override xc_build xc_out (Some ''core'') xc_stacked = (True, finish_override sh s3)"
    using stack files unfolding config_load_override_def Let_def by (simp add: string_is_empty_def)
  then obtain s' where l: "config_load_override xc_build xc_out (Some ''core'') xc_stacked = (True, s')" by blast
  have "config_save_file xc_build xc_out xc_screen ''/main.cfg'' s' = (False, s')"
    by (rule overrides_block_saving [OF l xc_files [symmetric] xc_disks(5)]) (simp_all add: xc_basics)
  with l show ?thesis by blast
qed

lemma unloading_gives_configuration_witness:
  "reads_as xc_build xc_out xc_saved (cg_store (snd (config_unload_override xc_build xc_out xc_stacked)))"
  by (rule unloading_gives_configuration [OF _ xc_complete]) (simp_all add: xc_disks)

subsection \<open>Faults\<close>

text \<open>The configuration has no entry for the switch, which is off.\<close>

definition xc_partial :: "xc_file config" where
  "xc_partial = xc_changed\<lparr>cg_disk := [''/main.cfg'' \<mapsto> (\<lambda>_. None)]\<rparr>"

lemma override_loses_switch_witness:
  "override_conf xc_build xc_out (override_base xc_build xc_out ''core'' xc_partial)
     (override_now xc_build xc_out ''core'' xc_partial) (\<lambda>_. None) ''video_fullscreen'' = None"
proof -
  have "\<not> cf_has (co_conf xc_out) (override_conf xc_build xc_out (override_base xc_build xc_out ''core'' xc_partial)
     (override_now xc_build xc_out ''core'' xc_partial) (\<lambda>_. None)) ''video_fullscreen''"
    by (rule override_loses_switch [OF xc_basics(2,1) xc_apart xc_basics(8), where ?c0.0 = "\<lambda>_. None"])
       (simp_all add: xc_partial_def xc_changed_def xc_basics idents_def xc_tables_def xc_entry_def
          adjusted_keys_def adjusted_defs xc_defs)
  then show ?thesis by (simp add: xc_basics)
qed

lemma reserved_name_misplaced_witness:
  "get_array xc_conf (changed_device xc_conf zero_store (zero_store\<lparr>sv_array := (\<lambda>_. ''Pad'')\<rparr>) 0 xc_saved)
      ''input_player1_device_reservation_type'' 64 = Some ''Pad''
   \<and> same_entry xc_conf (changed_device xc_conf zero_store (zero_store\<lparr>sv_array := (\<lambda>_. ''Pad'')\<rparr>) 0 xc_saved)
      xc_saved ''input_player1_reserved_device''"
proof -
  have k: "user_key ''input_player'' 0 ''_device_reservation_type'' = ''input_player1_device_reservation_type''"
    "reserved_key 0 = ''input_player1_reserved_device''"
    by code_simp+
  have "sv_array zero_store (reserved_key 0) = []" by (simp add: zero_store_def)
  then show ?thesis
    using reserved_name_misplaced [OF xc_ok, of zero_store 0 "zero_store\<lparr>sv_array := (\<lambda>_. ''Pad'')\<rparr>" 64 xc_saved]
    by (simp add: plain_text_def k)
qed

end
