(* ===== verification/Room_Wire.thy ===== *)
theory Room_Wire
  imports RL_Prelude
begin

text \<open>
  Messages between a room member and the room (\<open>network/room_member.cpp\<close>): how every
  message is written, and how every message that comes in is read.

  The class \<open>Packet\<close> and the declarations of \<open>network/room.h\<close> belong to the
  emulator the files are patched into and are not in the repository.  A packet is the bytes it
  holds; how a value of each type is written to it and read from it is an argument, the codec
  \<open>c\<close>.  Reading gets the old value of the target and leaves it when the packet is used
  up.  The values of uninitialised locals and the codes of the messages are arguments too.
\<close>

subsection \<open>Data\<close>

type_synonym mac = "u8 list"

datatype packet_type =
  Beacon | Data_frame | Authentication | Association_response | Deauthentication | Node_map_frame
| Other_frame u8

definition packet_type_code :: "packet_type \<Rightarrow> u8" where
  "packet_type_code t =
     (case t of Beacon \<Rightarrow> 0 | Data_frame \<Rightarrow> 1 | Authentication \<Rightarrow> 2 | Association_response \<Rightarrow> 3
      | Deauthentication \<Rightarrow> 4 | Node_map_frame \<Rightarrow> 5 | Other_frame w \<Rightarrow> w)"

definition packet_type_of :: "u8 \<Rightarrow> packet_type" where
  "packet_type_of w =
     (if w = 0 then Beacon else if w = 1 then Data_frame else if w = 2 then Authentication
      else if w = 3 then Association_response else if w = 4 then Deauthentication
      else if w = 5 then Node_map_frame else Other_frame w)"

record wifi_packet =
  pk_type :: packet_type
  pk_data :: "u8 list"
  pk_transmitter :: mac
  pk_destination :: mac
  pk_channel :: u8

record chat_entry =
  ch_nickname :: string
  ch_username :: string
  ch_message :: string

record status_entry =
  st_type :: u8
  st_nickname :: string
  st_username :: string

record game_info =
  g_name :: string
  g_id :: u64

record member_info =
  mi_nickname :: string
  mi_username :: string
  mi_display_name :: string
  mi_avatar_url :: string
  mi_game :: game_info
  mi_mac :: mac

record room_info =
  ri_name :: string
  ri_description :: string
  ri_member_slots :: u32
  ri_port :: u16
  ri_preferred_game :: string
  ri_host_username :: string

datatype room_message =
  Id_join_request | Id_join_success | Id_join_success_as_mod | Id_room_information
| Id_set_game_info | Id_wifi_packet | Id_chat_message | Id_status_message
| Id_name_collision | Id_mac_collision | Id_console_id_collision | Id_version_mismatch
| Id_wrong_password | Id_close_room | Id_room_is_full | Id_host_kicked | Id_host_banned
| Id_mod_kick | Id_mod_ban | Id_mod_unban | Id_mod_get_ban_list | Id_mod_ban_list_response
| Id_mod_permission_denied | Id_mod_no_such_user

subsection \<open>What the code gets from outside\<close>

record 'a field =
  enc :: "'a \<Rightarrow> u8 list"
  dec :: "'a \<Rightarrow> u8 list \<Rightarrow> 'a \<times> u8 list"

record codec =
  f_u8 :: "u8 field"
  f_u16 :: "u16 field"
  f_u32 :: "u32 field"
  f_u64 :: "u64 field"
  f_string :: "string field"
  f_mac :: "mac field"
  f_bytes :: "u8 list field"
  f_strings :: "string list field"
  message_code :: "room_message \<Rightarrow> u8"
  message_of :: "u8 \<Rightarrow> room_message option"
  uninit_u8 :: u8
  uninit_u32 :: u32
  network_version :: u32

definition empty_mac :: mac where
  "empty_mac = replicate 6 0"

definition empty_game :: game_info where
  "empty_game = \<lparr>g_name = [], g_id = 0\<rparr>"

definition empty_member :: member_info where
  "empty_member = \<lparr>mi_nickname = [], mi_username = [], mi_display_name = [], mi_avatar_url = [],
     mi_game = empty_game, mi_mac = empty_mac\<rparr>"

subsection \<open>Messages that go out\<close>

definition put_message :: "codec \<Rightarrow> room_message \<Rightarrow> u8 list" where
  "put_message c m = enc (f_u8 c) (message_code c m)"

definition join_request_packet :: "codec \<Rightarrow> string \<Rightarrow> string \<Rightarrow> mac \<Rightarrow> string \<Rightarrow> string \<Rightarrow> u8 list" where
  "join_request_packet c nickname console_id_hash preferred_mac password token =
     put_message c Id_join_request @ enc (f_string c) nickname @ enc (f_string c) console_id_hash
     @ enc (f_mac c) preferred_mac @ enc (f_u32 c) (network_version c) @ enc (f_string c) password
     @ enc (f_string c) token"

definition wifi_packet_bytes :: "codec \<Rightarrow> wifi_packet \<Rightarrow> u8 list" where
  "wifi_packet_bytes c p =
     put_message c Id_wifi_packet @ enc (f_u8 c) (packet_type_code (pk_type p))
     @ enc (f_u8 c) (pk_channel p) @ enc (f_mac c) (pk_transmitter p)
     @ enc (f_mac c) (pk_destination p) @ enc (f_bytes c) (pk_data p)"

definition chat_message_packet :: "codec \<Rightarrow> string \<Rightarrow> u8 list" where
  "chat_message_packet c message = put_message c Id_chat_message @ enc (f_string c) message"

definition game_info_packet :: "codec \<Rightarrow> game_info \<Rightarrow> u8 list" where
  "game_info_packet c g =
     put_message c Id_set_game_info @ enc (f_string c) (g_name g) @ enc (f_u64 c) (g_id g)"

definition moderation_packet :: "codec \<Rightarrow> room_message \<Rightarrow> string \<Rightarrow> u8 list" where
  "moderation_packet c m nickname = put_message c m @ enc (f_string c) nickname"

definition ban_list_request_packet :: "codec \<Rightarrow> u8 list" where
  "ban_list_request_packet c = put_message c Id_mod_get_ban_list"

subsection \<open>Messages that come in\<close>

text \<open>The first byte is the message; every reader skips it.\<close>

definition read_wifi_packet :: "codec \<Rightarrow> u8 list \<Rightarrow> wifi_packet" where
  "read_wifi_packet c bytes =
     (let p0 = drop 1 bytes;
          (frame_type, p1) = dec (f_u8 c) (uninit_u8 c) p0;
          (channel, p2) = dec (f_u8 c) 0 p1;
          (transmitter, p3) = dec (f_mac c) empty_mac p2;
          (destination, p4) = dec (f_mac c) empty_mac p3;
          (frame, p5) = dec (f_bytes c) [] p4
      in \<lparr>pk_type = packet_type_of frame_type, pk_data = frame, pk_transmitter = transmitter,
          pk_destination = destination, pk_channel = channel\<rparr>)"

definition read_chat :: "codec \<Rightarrow> u8 list \<Rightarrow> chat_entry" where
  "read_chat c bytes =
     (let p0 = drop 1 bytes;
          (nickname, p1) = dec (f_string c) [] p0;
          (user, p2) = dec (f_string c) [] p1;
          (message, p3) = dec (f_string c) [] p2
      in \<lparr>ch_nickname = nickname, ch_username = user,
          ch_message = takeWhile (\<lambda>x. x \<noteq> CHR 0x00) message\<rparr>)"

definition read_status :: "codec \<Rightarrow> u8 list \<Rightarrow> status_entry" where
  "read_status c bytes =
     (let p0 = drop 1 bytes;
          (type, p1) = dec (f_u8 c) 0 p0;
          (nickname, p2) = dec (f_string c) [] p1;
          (user, p3) = dec (f_string c) [] p2
      in \<lparr>st_type = type, st_nickname = nickname, st_username = user\<rparr>)"

definition read_ban_list :: "codec \<Rightarrow> u8 list \<Rightarrow> string list \<times> string list" where
  "read_ban_list c bytes =
     (let p0 = drop 1 bytes;
          (names, p1) = dec (f_strings c) [] p0;
          (addresses, p2) = dec (f_strings c) [] p1
      in (names, addresses))"

definition read_mac :: "codec \<Rightarrow> mac \<Rightarrow> u8 list \<Rightarrow> mac" where
  "read_mac c old bytes = fst (dec (f_mac c) old (drop 1 bytes))"

definition read_room_header :: "codec \<Rightarrow> u8 list \<Rightarrow> room_info \<times> u8 list" where
  "read_room_header c p0 =
     (let (name, p1) = dec (f_string c) [] p0;
          (description, p2) = dec (f_string c) [] p1;
          (slots, p3) = dec (f_u32 c) 0 p2;
          (port, p4) = dec (f_u16 c) 0 p3;
          (game, p5) = dec (f_string c) [] p4;
          (host, p6) = dec (f_string c) [] p5
      in (\<lparr>ri_name = name, ri_description = description, ri_member_slots = slots, ri_port = port,
           ri_preferred_game = game, ri_host_username = host\<rparr>, p6))"

definition read_member :: "codec \<Rightarrow> member_info \<Rightarrow> u8 list \<Rightarrow> member_info \<times> u8 list" where
  "read_member c old p0 =
     (let (nickname, p1) = dec (f_string c) (mi_nickname old) p0;
          (mac, p2) = dec (f_mac c) (mi_mac old) p1;
          (game, p3) = dec (f_string c) (g_name (mi_game old)) p2;
          (gid, p4) = dec (f_u64 c) (g_id (mi_game old)) p3;
          (user, p5) = dec (f_string c) (mi_username old) p4;
          (display, p6) = dec (f_string c) (mi_display_name old) p5;
          (avatar, p7) = dec (f_string c) (mi_avatar_url old) p6
      in (\<lparr>mi_nickname = nickname, mi_username = user, mi_display_name = display,
           mi_avatar_url = avatar, mi_game = \<lparr>g_name = game, g_id = gid\<rparr>, mi_mac = mac\<rparr>, p7))"

text \<open>
  The list of members is resized to the number announced, keeping what is there, and then read
  over.  The user name of the entry with the own nickname becomes the own user name.
\<close>

fun read_members ::
    "codec \<Rightarrow> string \<Rightarrow> member_info list \<Rightarrow> string \<Rightarrow> u8 list \<Rightarrow> member_info list \<times> string" where
  "read_members c nickname [] user p = ([], user)"
| "read_members c nickname (old # olds) user p =
     (let (m, p1) = read_member c old p;
          user1 = (if mi_nickname m = nickname then mi_username m else user);
          (ms, user2) = read_members c nickname olds user1 p1
      in (m # ms, user2))"

definition resize_to :: "nat \<Rightarrow> 'a \<Rightarrow> 'a list \<Rightarrow> 'a list" where
  "resize_to n x xs = take n xs @ replicate (n - length xs) x"

definition read_room_information ::
    "codec \<Rightarrow> string \<Rightarrow> string \<Rightarrow> member_info list \<Rightarrow> u8 list \<Rightarrow> room_info \<times> member_info list \<times> string" where
  "read_room_information c nickname user members bytes =
     (let (info, p1) = read_room_header c (drop 1 bytes);
          (num, p2) = dec (f_u32 c) (uninit_u32 c) p1;
          (ms, user1) = read_members c nickname (resize_to (unat num) empty_member members) user p2
      in (info, ms, user1))"

subsection \<open>What is relied on\<close>

text \<open>Addresses have six bytes; the length of a string or of a block of bytes is sent in 32 bits.\<close>

definition field_ok :: "('a \<Rightarrow> bool) \<Rightarrow> 'a field \<Rightarrow> bool" where
  "field_ok P f \<longleftrightarrow> (\<forall>v old r. P v \<longrightarrow> dec f old (enc f v @ r) = (v, r))"

definition any :: "'a \<Rightarrow> bool" where
  "any x = True"

definition mac_ok :: "mac \<Rightarrow> bool" where
  "mac_ok m \<longleftrightarrow> length m = 6"

definition short :: "'a list \<Rightarrow> bool" where
  "short xs \<longleftrightarrow> length xs < 2 ^ 32"

definition codec_ok :: "codec \<Rightarrow> bool" where
  "codec_ok c \<longleftrightarrow>
     (\<forall>v. enc (f_u8 c) v = [v]) \<and> field_ok any (f_u8 c) \<and> field_ok any (f_u16 c)
     \<and> field_ok any (f_u32 c) \<and> field_ok any (f_u64 c) \<and> field_ok short (f_string c)
     \<and> field_ok mac_ok (f_mac c) \<and> field_ok short (f_bytes c)
     \<and> (\<forall>m. message_of c (message_code c m) = Some m)"

lemma field_okD: "field_ok P f \<Longrightarrow> P v \<Longrightarrow> dec f old (enc f v @ r) = (v, r)"
  by (simp add: field_ok_def)

lemma field_ok_last: "field_ok P f \<Longrightarrow> P v \<Longrightarrow> dec f old (enc f v) = (v, [])"
  using field_okD [of P f v old "[]"] by simp

lemma codec_okD:
  assumes "codec_ok c"
  shows "enc (f_u8 c) v = [v]" "field_ok any (f_u8 c)" "field_ok any (f_u16 c)" "field_ok any (f_u32 c)"
    "field_ok any (f_u64 c)" "field_ok short (f_string c)" "field_ok mac_ok (f_mac c)"
    "field_ok short (f_bytes c)" "message_of c (message_code c m) = Some m"
  using assms by (auto simp: codec_ok_def)

lemma any_iff [simp]: "any x"
  by (simp add: any_def)

lemma packet_type_code_inverse:
  "(\<And>w. t = Other_frame w \<Longrightarrow> 5 < w) \<Longrightarrow> packet_type_of (packet_type_code t) = t"
  by (cases t) (auto simp: packet_type_of_def packet_type_code_def)

lemma packet_type_of_inverse: "packet_type_code (packet_type_of w) = w"
  by (simp add: packet_type_of_def packet_type_code_def)

lemma put_message_head: "codec_ok c \<Longrightarrow> put_message c m = [message_code c m]"
  by (simp add: put_message_def codec_okD)

text \<open>Frames as the console sends them.\<close>

definition wifi_ok :: "wifi_packet \<Rightarrow> bool" where
  "wifi_ok p \<longleftrightarrow>
     mac_ok (pk_transmitter p) \<and> mac_ok (pk_destination p) \<and> short (pk_data p)
     \<and> (\<forall>w. pk_type p = Other_frame w \<longrightarrow> 5 < w)"

lemma read_wifi_packet_bytes:
  assumes "codec_ok c" "wifi_ok p"
  shows "read_wifi_packet c (wifi_packet_bytes c p) = p"
proof -
  note ok = codec_okD [OF assms(1)]
  from assms(2) show ?thesis
    unfolding read_wifi_packet_def wifi_packet_bytes_def put_message_head [OF assms(1)]
    by (simp add: wifi_ok_def field_okD [OF ok(2)] field_okD [OF ok(7)] field_ok_last [OF ok(8)]
        packet_type_code_inverse)
qed

lemma read_chat_message:
  assumes "codec_ok c" "short nick" "short user" "short text"
  shows "read_chat c (put_message c Id_chat_message @ enc (f_string c) nick @ enc (f_string c) user
      @ enc (f_string c) text)
    = \<lparr>ch_nickname = nick, ch_username = user, ch_message = takeWhile (\<lambda>x. x \<noteq> CHR 0x00) text\<rparr>"
  unfolding read_chat_def put_message_head [OF assms(1)]
  by (simp add: assms field_okD [OF codec_okD(6) [OF assms(1)]] field_ok_last [OF codec_okD(6) [OF assms(1)]])

end
