(* ===== verification/Room_Member.thy ===== *)
theory Room_Member
  imports Room_Wire
begin

text \<open>
  The room member (\<open>network/room_member.cpp\<close>): its state, one round of the receive loop,
  joining and leaving.  ENet is outside the repository: what a call of it answers is an argument.

  Callbacks are recorded in the order they are invoked.  A failed \<open>ASSERT\<close> and a read of
  a packet without bytes are faults.
\<close>

subsection \<open>State\<close>

datatype member_state = Uninitialized | Idle | Joining | Joined | Moderator

datatype member_error =
  Lost_connection | Host_kicked | Unknown_error | Name_collision | Mac_collision
| Console_id_collision | Wrong_version | Wrong_password | Could_not_connect | Room_is_full
| Host_banned | Permission_denied | No_such_user

datatype member_note =
  On_state member_state
| On_error member_error
| On_wifi wifi_packet
| On_chat chat_entry
| On_status status_entry
| On_room room_info "member_info list"
| On_bans "string list \<times> string list"

datatype room_fault = Assertion_failed | Empty_packet

datatype wire_out = Out_packet "u8 list" | Out_disconnect | Out_disconnect_now | Out_reset

record member =
  m_client :: bool
  m_server :: bool
  m_members :: "member_info list"
  m_room :: room_info
  m_game :: game_info
  m_immediate :: bool
  m_state :: member_state
  m_nickname :: string
  m_username :: string
  m_mac :: mac
  m_send :: "u8 list list"
  m_notes :: "member_note list"
  m_wire :: "wire_out list"

definition notify :: "member_note \<Rightarrow> member \<Rightarrow> member" where
  "notify n m = m\<lparr>m_notes := m_notes m @ [n]\<rparr>"

definition set_state :: "member_state \<Rightarrow> member \<Rightarrow> member" where
  "set_state new m = (if m_state m \<noteq> new then notify (On_state new) (m\<lparr>m_state := new\<rparr>) else m)"

definition set_error :: "member_error \<Rightarrow> member \<Rightarrow> member" where
  "set_error e m = notify (On_error e) m"

definition is_connected :: "member \<Rightarrow> bool" where
  "is_connected m \<longleftrightarrow> m_state m \<in> {Joining, Joined, Moderator}"

text \<open>\<open>Send\<close> only queues; the receive loop transmits.\<close>

definition send :: "u8 list \<Rightarrow> member \<Rightarrow> member" where
  "send p m = m\<lparr>m_send := m_send m @ [p]\<rparr>"

subsection \<open>What the application sends\<close>

definition send_wifi_packet :: "codec \<Rightarrow> wifi_packet \<Rightarrow> member \<Rightarrow> member" where
  "send_wifi_packet c p m = send (wifi_packet_bytes c p) m"

definition send_chat_message :: "codec \<Rightarrow> string \<Rightarrow> member \<Rightarrow> member" where
  "send_chat_message c text m = send (chat_message_packet c text) m"

definition send_game_info :: "codec \<Rightarrow> game_info \<Rightarrow> member \<Rightarrow> member" where
  "send_game_info c g m =
     (let m1 = m\<lparr>m_game := g\<rparr> in if is_connected m1 then send (game_info_packet c g) m1 else m1)"

definition send_moderation_request ::
    "codec \<Rightarrow> room_message \<Rightarrow> string \<Rightarrow> member \<Rightarrow> room_fault + member" where
  "send_moderation_request c r nickname m =
     (if r \<notin> {Id_mod_kick, Id_mod_ban, Id_mod_unban} then Inl Assertion_failed
      else Inr (if is_connected m then send (moderation_packet c r nickname) m else m))"

definition request_ban_list :: "codec \<Rightarrow> member \<Rightarrow> member" where
  "request_ban_list c m = (if is_connected m then send (ban_list_request_packet c) m else m)"

subsection \<open>The receive loop\<close>

definition refused :: "member_error \<Rightarrow> member \<Rightarrow> member" where
  "refused e m = set_error e (set_state Idle m)"

definition handle_room_information :: "codec \<Rightarrow> u8 list \<Rightarrow> member \<Rightarrow> member" where
  "handle_room_information c bytes m =
     (let (info, ms, user) = read_room_information c (m_nickname m) (m_username m) (m_members m) bytes;
          room = (m_room m)\<lparr>ri_name := ri_name info, ri_description := ri_description info,
                    ri_member_slots := ri_member_slots info, ri_port := ri_port info,
                    ri_preferred_game := ri_preferred_game info, ri_host_username := ri_host_username info\<rparr>
      in notify (On_room room ms) (m\<lparr>m_room := room, m_members := ms, m_username := user\<rparr>))"

definition handle_join :: "codec \<Rightarrow> room_message \<Rightarrow> u8 list \<Rightarrow> member \<Rightarrow> room_fault + member" where
  "handle_join c r bytes m =
     (if m_members m = [] then Inl Assertion_failed
      else Inr (set_state (if r = Id_join_success_as_mod then Moderator else Joined)
                  (m\<lparr>m_mac := read_mac c (m_mac m) bytes\<rparr>)))"

definition handle_message :: "codec \<Rightarrow> room_message \<Rightarrow> u8 list \<Rightarrow> member \<Rightarrow> room_fault + member" where
  "handle_message c r bytes m =
     (case r of
        Id_wifi_packet \<Rightarrow> Inr (notify (On_wifi (read_wifi_packet c bytes)) m)
      | Id_chat_message \<Rightarrow> Inr (notify (On_chat (read_chat c bytes)) m)
      | Id_status_message \<Rightarrow> Inr (notify (On_status (read_status c bytes)) m)
      | Id_room_information \<Rightarrow> Inr (handle_room_information c bytes m)
      | Id_join_success \<Rightarrow> handle_join c r bytes m
      | Id_join_success_as_mod \<Rightarrow> handle_join c r bytes m
      | Id_mod_ban_list_response \<Rightarrow> Inr (notify (On_bans (read_ban_list c bytes)) m)
      | Id_room_is_full \<Rightarrow> Inr (refused Room_is_full m)
      | Id_name_collision \<Rightarrow> Inr (refused Name_collision m)
      | Id_mac_collision \<Rightarrow> Inr (refused Mac_collision m)
      | Id_console_id_collision \<Rightarrow> Inr (refused Console_id_collision m)
      | Id_version_mismatch \<Rightarrow> Inr (refused Wrong_version m)
      | Id_wrong_password \<Rightarrow> Inr (refused Wrong_password m)
      | Id_close_room \<Rightarrow> Inr (refused Lost_connection m)
      | Id_host_kicked \<Rightarrow> Inr (refused Host_kicked m)
      | Id_host_banned \<Rightarrow> Inr (refused Host_banned m)
      | Id_mod_permission_denied \<Rightarrow> Inr (set_error Permission_denied m)
      | Id_mod_no_such_user \<Rightarrow> Inr (set_error No_such_user m)
      | _ \<Rightarrow> Inr m)"

datatype enet_event = Ev_receive "u8 list" | Ev_disconnect | Ev_none | Ev_connect

definition handle_event :: "codec \<Rightarrow> enet_event \<Rightarrow> member \<Rightarrow> room_fault + member" where
  "handle_event c ev m =
     (case ev of
        Ev_receive [] \<Rightarrow> Inl Empty_packet
      | Ev_receive (b # bs) \<Rightarrow>
          (case message_of c b of Some r \<Rightarrow> handle_message c r (b # bs) m | None \<Rightarrow> Inr m)
      | Ev_disconnect \<Rightarrow> Inr (if m_state m \<in> {Joined, Moderator} then refused Lost_connection m else m)
      | Ev_none \<Rightarrow> Inr m
      | Ev_connect \<Rightarrow> Inl Assertion_failed)"

text \<open>What is queued is transmitted at the end of every round.\<close>

definition transmit :: "member \<Rightarrow> member" where
  "transmit m = m\<lparr>m_wire := m_wire m @ map Out_packet (m_send m), m_send := []\<rparr>"

text \<open>One round of the loop: \<open>None\<close> when ENet has no event.\<close>

definition member_round :: "codec \<Rightarrow> enet_event option \<Rightarrow> member \<Rightarrow> room_fault + member" where
  "member_round c ev m =
     (case (case ev of None \<Rightarrow> Inr m | Some x \<Rightarrow> handle_event c x m) of
        Inl f \<Rightarrow> Inl f | Inr m1 \<Rightarrow> Inr (transmit m1))"

text \<open>
  Disconnecting: the answers of the wait for the room, at most until its deadline.
\<close>

datatype wait_poll = Poll_error | Poll_nothing | Poll_event enet_event | Poll_now_immediate

fun graceful :: "wait_poll list \<Rightarrow> bool" where
  "graceful [] = False"
| "graceful (Poll_now_immediate # ps) = False"
| "graceful (Poll_error # ps) = False"
| "graceful (Poll_nothing # ps) = graceful ps"
| "graceful (Poll_event ev # ps) = (if ev = Ev_disconnect then True else graceful ps)"

definition disconnect :: "wait_poll list \<Rightarrow> member \<Rightarrow> member" where
  "disconnect polls m =
     (let m1 = m\<lparr>m_members := [], m_room := (m_room m)\<lparr>ri_member_slots := 0, ri_name := []\<rparr>\<rparr>
      in if \<not> m_server m1 then m1
         else if m_immediate m1
         then m1\<lparr>m_wire := m_wire m1 @ [Out_disconnect_now], m_server := False\<rparr>
         else m1\<lparr>m_wire := m_wire m1 @ Out_disconnect # (if graceful polls then [] else [Out_reset]),
                 m_server := False\<rparr>)"

text \<open>The whole loop over the answers of ENet: \<open>Running\<close> when they are used up.\<close>

datatype loop_result = Faulted room_fault | Left member | Running member

fun member_loop :: "codec \<Rightarrow> wait_poll list \<Rightarrow> enet_event option list \<Rightarrow> member \<Rightarrow> loop_result" where
  "member_loop c polls evs m =
     (if \<not> is_connected m then Left (disconnect polls m)
      else case evs of
             [] \<Rightarrow> Running m
           | ev # evs' \<Rightarrow> (case member_round c ev m of Inl f \<Rightarrow> Faulted f | Inr m1 \<Rightarrow> member_loop c polls evs' m1))"

declare member_loop.simps [simp del]

subsection \<open>Leaving and joining\<close>

text \<open>
  Leaving, in two parts: the state is set to idle; once the loop thread has ended, the client is
  destroyed.
\<close>

definition leave_begin :: "bool \<Rightarrow> member \<Rightarrow> member" where
  "leave_begin immediate m = set_state Idle (m\<lparr>m_immediate := immediate\<rparr>)"

definition leave_end :: "member \<Rightarrow> member" where
  "leave_end m = m\<lparr>m_client := False, m_server := False, m_send := []\<rparr>"

text \<open>Without a loop thread the two parts follow each other.\<close>

definition leave_no_loop :: "bool \<Rightarrow> member \<Rightarrow> member" where
  "leave_no_loop immediate m = leave_end (leave_begin immediate m)"

datatype join_poll = Join_cancelled | Join_nothing | Join_error | Join_event enet_event

datatype join_outcome = Wait_cancelled | Wait_timeout | Wait_error | Wait_event enet_event

fun join_wait :: "join_poll list \<Rightarrow> join_outcome" where
  "join_wait [] = Wait_timeout"
| "join_wait (Join_cancelled # ps) = Wait_cancelled"
| "join_wait (Join_error # ps) = Wait_error"
| "join_wait (Join_event ev # ps) = Wait_event ev"
| "join_wait (Join_nothing # ps) = join_wait ps"

record join_world =
  jw_host :: bool
  jw_address :: bool
  jw_peer :: bool
  jw_polls :: "join_poll list"

record join_args =
  ja_nickname :: string
  ja_hash :: string
  ja_mac :: mac
  ja_password :: string
  ja_token :: string

text \<open>
  Joining when no loop thread is running.  The result says whether the loop thread was started.
\<close>

definition join_connect :: "codec \<Rightarrow> join_world \<Rightarrow> join_args \<Rightarrow> member \<Rightarrow> bool \<times> member" where
  "join_connect c w a m =
     (case join_wait (jw_polls w) of
        Wait_cancelled \<Rightarrow> (False, leave_no_loop True m)
      | Wait_event ev \<Rightarrow>
          if ev = Ev_connect
          then let m1 = send (join_request_packet c (ja_nickname a) (ja_hash a) (ja_mac a) (ja_password a)
                                (ja_token a)) (m\<lparr>m_nickname := ja_nickname a\<rparr>)
               in (True, send_game_info c (m_game m1) m1)
          else (False, refused Could_not_connect (leave_no_loop True m))
      | _ \<Rightarrow> (False, refused Could_not_connect (leave_no_loop True m)))"

definition join :: "codec \<Rightarrow> join_world \<Rightarrow> join_args \<Rightarrow> member \<Rightarrow> bool \<times> member" where
  "join c w a m =
     (if \<not> m_client m \<and> \<not> jw_host w then (False, refused Unknown_error m)
      else let m1 = set_state Joining (m\<lparr>m_client := True, m_immediate := False\<rparr>)
           in if \<not> jw_address w
              then (False, leave_no_loop True (refused Could_not_connect m1))
              else if \<not> jw_peer w then (False, refused Unknown_error (m1\<lparr>m_server := False\<rparr>))
              else join_connect c w a (m1\<lparr>m_server := True\<rparr>))"

end
