(* ===== verification/Room_Session.thy ===== *)
theory Room_Session
  imports Room_Member C_Text
begin

text \<open>
  The room session behind the C interface (\<open>citra_libretro/room_session.cpp\<close>): the
  snapshot the application polls, the calls of the emulator's life cycle and of the interface, the
  worker thread of a session, and the member's loop thread.

  The three threads interleave.  A step of the machine is what one thread does between two points
  at which another thread can get in: the application's calls hold \<open>api_mutex\<close> from
  beginning to end, so a call that waits for the worker is two steps and keeps the others out; the
  worker and the loop thread are program counters.  A step that is not enabled leaves the room as
  it is, like a thread that is scheduled while it waits.
\<close>

subsection \<open>Checking the arguments of a join\<close>

definition bounded :: "c_str \<Rightarrow> nat \<Rightarrow> string option" where
  "bounded value limit =
     (case value of None \<Rightarrow> None | Some s \<Rightarrow> if limit < length s then None else Some s)"

text \<open>Digits of one part: how many, their value, and the rest.\<close>

fun ipv4_digits :: "nat \<Rightarrow> nat \<Rightarrow> string \<Rightarrow> (nat \<times> nat \<times> string) option" where
  "ipv4_digits n v [] = Some (n, v, [])"
| "ipv4_digits n v (x # xs) =
     (if is_digit x
      then let v1 = v * 10 + (of_char x - 48)
           in if 3 < n + 1 \<or> 255 < v1 then None else ipv4_digits (n + 1) v1 xs
      else Some (n, v, x # xs))"

definition ipv4_part :: "string \<Rightarrow> string option" where
  "ipv4_part s =
     (case ipv4_digits 0 0 s of
        None \<Rightarrow> None
      | Some (n, v, rest) \<Rightarrow> if n = 0 \<or> 1 < n \<and> take 1 s = ''0'' then None else Some rest)"

definition ipv4_dot :: "string \<Rightarrow> string option" where
  "ipv4_dot s = (if take 1 s = ''.'' then Some (drop 1 s) else None)"

fun ipv4_parts :: "nat \<Rightarrow> string \<Rightarrow> string option" where
  "ipv4_parts 0 s = Some s"
| "ipv4_parts (Suc k) s =
     (case ipv4_part s of
        None \<Rightarrow> None
      | Some rest \<Rightarrow>
          if k = 0 then Some rest
          else (case ipv4_dot rest of None \<Rightarrow> None | Some rest' \<Rightarrow> ipv4_parts k rest'))"

definition ipv4 :: "string \<Rightarrow> bool" where
  "ipv4 s \<longleftrightarrow> ipv4_parts 4 s = Some [] \<and> s \<noteq> ''0.0.0.0'' \<and> s \<noteq> ''255.255.255.255''"

definition nickname_chars :: string where
  "nickname_chars = ''ABCDEFGHIJKLMNOPQRSTUVWXYZabcdefghijklmnopqrstuvwxyz0123456789._ -''"

record join_request =
  jr_ip :: string
  jr_port :: u16
  jr_nickname :: string
  jr_password :: string

definition check_join :: "c_str \<Rightarrow> u32 \<Rightarrow> c_str \<Rightarrow> c_str \<Rightarrow> join_request option" where
  "check_join address port nickname secret =
     (case bounded address 15 of
        None \<Rightarrow> None
      | Some ip \<Rightarrow>
          if \<not> ipv4 ip \<or> port < 1 \<or> 65535 < port then None
          else (case bounded nickname 20 of
             None \<Rightarrow> None
           | Some nick \<Rightarrow>
               if length nick < 4 \<or> \<not> set nick \<subseteq> set nickname_chars then None
               else (case bounded secret 128 of
                  None \<Rightarrow> None
                | Some pw \<Rightarrow> Some \<lparr>jr_ip = ip, jr_port = ucast port, jr_nickname = nick,
                                 jr_password = pw\<rparr>)))"

subsection \<open>State\<close>

datatype room_phase = Offline | Idle_room | Joining_room | Joined_room | Leaving

text \<open>
  The member names in the snapshot: the entries in use; \<open>member_count\<close> is their number.
\<close>

record snapshot =
  sn_state :: room_phase
  sn_error :: nat
  sn_members :: "string list"

datatype worker_pc = W_join join_request string mac | W_watch | W_leave | W_wait | W_idle | W_finish | W_exited

datatype loop_pc = L_none | L_check | L_body | L_exited

text \<open>A call that waits for the worker.\<close>

datatype waiting = Wait_ready string mac | Wait_stopped | Wait_shutdown

record room =
  snap :: snapshot
  has_member :: bool
  bound :: bool
  worker :: "worker_pc option"
  cancel :: bool
  finished :: bool
  owns_network :: bool
  ready :: bool
  console_hash :: string
  console_mac :: mac
  calling :: "waiting option"
  mem :: member
  loop :: loop_pc

definition initial_member :: member where
  "initial_member = \<lparr>m_client = False, m_server = False, m_members = [],
     m_room = \<lparr>ri_name = [], ri_description = [], ri_member_slots = 0, ri_port = 0,
               ri_preferred_game = [], ri_host_username = []\<rparr>,
     m_game = empty_game, m_immediate = False, m_state = Idle, m_nickname = [], m_username = [],
     m_mac = empty_mac, m_send = [], m_notes = [], m_wire = []\<rparr>"

definition initial_room :: room where
  "initial_room = \<lparr>snap = \<lparr>sn_state = Offline, sn_error = 0, sn_members = []\<rparr>, has_member = False, bound = False,
     worker = None, cancel = False, finished = True, owns_network = False, ready = False,
     console_hash = [], console_mac = replicate 6 255, calling = None, mem = initial_member,
     loop = L_none\<rparr>"

definition set_snap :: "(snapshot \<Rightarrow> snapshot) \<Rightarrow> room \<Rightarrow> room" where
  "set_snap f r = r\<lparr>snap := f (snap r)\<rparr>"

definition clear_members :: "room \<Rightarrow> room" where
  "clear_members = set_snap (sn_members_update (\<lambda>_. []))"

definition phase :: "room_phase \<Rightarrow> room \<Rightarrow> room" where
  "phase p = set_snap (sn_state_update (\<lambda>_. p))"

definition fail :: "nat \<Rightarrow> room \<Rightarrow> room" where
  "fail e = set_snap (sn_error_update (\<lambda>_. e))"

subsection \<open>Callbacks\<close>

definition error_index :: "member_error \<Rightarrow> nat" where
  "error_index e =
     (case e of Lost_connection \<Rightarrow> 0 | Host_kicked \<Rightarrow> 1 | Unknown_error \<Rightarrow> 2 | Name_collision \<Rightarrow> 3
      | Mac_collision \<Rightarrow> 4 | Console_id_collision \<Rightarrow> 5 | Wrong_version \<Rightarrow> 6 | Wrong_password \<Rightarrow> 7
      | Could_not_connect \<Rightarrow> 8 | Room_is_full \<Rightarrow> 9 | Host_banned \<Rightarrow> 10 | Permission_denied \<Rightarrow> 11
      | No_such_user \<Rightarrow> 12)"

definition shown_members :: "member_info list \<Rightarrow> string list" where
  "shown_members ms = map (\<lambda>m. take 20 (mi_nickname m)) (take 254 ms)"

definition seen :: "member_note \<Rightarrow> snapshot \<Rightarrow> snapshot" where
  "seen n s =
     (case n of
        On_state st \<Rightarrow> if st = Joined \<or> st = Moderator then s\<lparr>sn_state := Joined_room\<rparr> else s
      | On_error e \<Rightarrow> s\<lparr>sn_error := error_index e + 1\<rparr>
      | On_room info ms \<Rightarrow> s\<lparr>sn_members := shown_members ms\<rparr>
      | _ \<Rightarrow> s)"

definition callback :: "member_note \<Rightarrow> room \<Rightarrow> room" where
  "callback n r = (if cancel r then r else set_snap (seen n) r)"

text \<open>The member after one of its operations: the callbacks it made are run.\<close>

definition with_member :: "member \<Rightarrow> room \<Rightarrow> room" where
  "with_member m r = fold callback (m_notes m) (r\<lparr>mem := m\<lparr>m_notes := []\<rparr>\<rparr>)"

subsection \<open>The worker\<close>

text \<open>
  What the worker finds at a step: the world of a join, where its call throws (at once, or when
  the loop thread cannot be started), and whether the ten seconds for the answer of the room are
  over.  A join that is cancelled before it starts sees that at its first poll.
\<close>

datatype throw = No_throw | Throw_first | Throw_at_thread

record worker_world =
  ww_join :: join_world
  ww_throws :: throw
  ww_late :: bool

definition worker_step :: "codec \<Rightarrow> worker_world \<Rightarrow> room \<Rightarrow> room" where
  "worker_step c w r =
     (case worker r of
        Some (W_join q hash mac) \<Rightarrow>
          if ww_throws w = Throw_first then fail 100 (r\<lparr>worker := Some W_leave\<rparr>)
          else let jw = (if cancel r then (ww_join w)\<lparr>jw_polls := [Join_cancelled]\<rparr> else ww_join w);
                   (started, m) = join c jw \<lparr>ja_nickname = jr_nickname q, ja_hash = hash,
                     ja_mac = mac, ja_password = jr_password q, ja_token = []\<rparr> (mem r)
               in if started \<and> ww_throws w = Throw_at_thread
                  then fail 100 (with_member (m\<lparr>m_send := m_send (mem r)\<rparr>) (r\<lparr>worker := Some W_leave\<rparr>))
                  else (with_member m (r\<lparr>worker := Some W_watch\<rparr>))
                         \<lparr>loop := if started then L_check else loop r\<rparr>
      | Some W_watch \<Rightarrow>
          if cancel r \<or> \<not> is_connected (mem r) then r\<lparr>worker := Some W_leave\<rparr>
          else if m_state (mem r) = Joining \<and> ww_late w then fail 101 (r\<lparr>worker := Some W_leave\<rparr>)
          else r
      | Some W_leave \<Rightarrow> with_member (leave_begin True (mem r)) (r\<lparr>worker := Some W_wait\<rparr>)
      | Some W_wait \<Rightarrow>
          if loop r = L_none \<or> loop r = L_exited
          then r\<lparr>mem := leave_end (mem r), loop := L_none, worker := Some W_idle\<rparr>
          else r
      | Some W_idle \<Rightarrow> clear_members (phase Idle_room (r\<lparr>worker := Some W_finish\<rparr>))
      | Some W_finish \<Rightarrow> r\<lparr>finished := True, worker := Some W_exited\<rparr>
      | Some W_exited \<Rightarrow> r
      | None \<Rightarrow> r)"

text \<open>The member's loop thread; a fault ends the program, which is \<open>None\<close>.\<close>

definition loop_step :: "codec \<Rightarrow> wait_poll list \<Rightarrow> enet_event option \<Rightarrow> room \<Rightarrow> room option" where
  "loop_step c polls ev r =
     (case loop r of
        L_check \<Rightarrow>
          Some (if is_connected (mem r) then r\<lparr>loop := L_body\<rparr>
                else with_member (disconnect polls (mem r)) (r\<lparr>loop := L_exited\<rparr>))
      | L_body \<Rightarrow>
          (case member_round c ev (mem r) of
             Inl f \<Rightarrow> None
           | Inr m \<Rightarrow> Some (with_member m (r\<lparr>loop := L_check\<rparr>)))
      | _ \<Rightarrow> Some r)"

subsection \<open>Calls\<close>

text \<open>
  Whether the network is there already, whether it can be initialised, and exceptions: before the
  member is stored, or after that, when a callback is bound.
\<close>

record init_world =
  iw_expired :: bool
  iw_init :: bool
  iw_throws_first :: bool
  iw_throws_binding :: bool

definition initialize :: "init_world \<Rightarrow> room \<Rightarrow> room" where
  "initialize w r =
     (if has_member r then r
      else if iw_throws_first w then fail 100 r
      else if iw_expired w \<and> \<not> iw_init w then fail 100 r
      else let r1 = (if iw_expired w then r\<lparr>owns_network := True, mem := initial_member\<rparr> else r)
           in if iw_throws_binding w then fail 100 (r1\<lparr>has_member := True\<rparr>)
              else r1\<lparr>has_member := True, bound := True\<rparr>)"

definition game_ready :: "string \<Rightarrow> mac \<Rightarrow> room \<Rightarrow> room" where
  "game_ready hash mac r =
     (if has_member r \<and> bound r then r\<lparr>cancel := True, calling := Some (Wait_ready hash mac)\<rparr> else r)"

definition game_stopped :: "room \<Rightarrow> room" where
  "game_stopped r = r\<lparr>ready := False, cancel := True, calling := Some Wait_stopped\<rparr>"

definition shutdown :: "room \<Rightarrow> room" where
  "shutdown r = r\<lparr>ready := False, cancel := True, calling := Some Wait_shutdown\<rparr>"

text \<open>The rest of such a call, once the worker has been joined.\<close>

definition call_returns :: "room \<Rightarrow> room" where
  "call_returns r =
     (if worker r \<noteq> None \<and> worker r \<noteq> Some W_exited then r
      else let r1 = r\<lparr>worker := None, calling := None\<rparr>
           in case calling r of
             Some (Wait_ready hash mac) \<Rightarrow>
               fail 0 (phase Idle_room (r1\<lparr>console_hash := hash, console_mac := mac, ready := True\<rparr>))
           | Some Wait_stopped \<Rightarrow> clear_members (phase Offline (r1\<lparr>console_hash := []\<rparr>))
           | Some Wait_shutdown \<Rightarrow>
               clear_members (phase Offline (r1\<lparr>console_hash := [], has_member := False, bound := False,
                                           owns_network := False\<rparr>))
           | None \<Rightarrow> r)"

text \<open>Joining: the code returned and the room.  The worker may fail to start.\<close>

definition room_join :: "bool \<Rightarrow> c_str \<Rightarrow> u32 \<Rightarrow> c_str \<Rightarrow> c_str \<Rightarrow> room \<Rightarrow> int \<times> room" where
  "room_join thread_starts address port nickname secret r =
     (case check_join address port nickname secret of
        None \<Rightarrow> (1, r)
      | Some q \<Rightarrow>
          if \<not> ready r then (2, r)
          else if \<not> finished r then (3, r)
          else let r1 = clear_members (fail 0 (phase Joining_room (r\<lparr>worker := None, cancel := False\<rparr>)))
               in if thread_starts
                  then (0, r1\<lparr>finished := False, worker := Some (W_join q (console_hash r) (console_mac r))\<rparr>)
                  else (- 1, fail 100 (phase Idle_room r1)))"

definition room_leave :: "room \<Rightarrow> int \<times> room" where
  "room_leave r =
     (let r1 = r\<lparr>cancel := True\<rparr> in (0, if finished r1 then r1 else phase Leaving r1))"

text \<open>Reading the snapshot; the protocol version and the default port are of the network library.\<close>

definition room_snapshot :: "bool \<Rightarrow> room \<Rightarrow> snapshot option" where
  "room_snapshot buffer_ok r = (if buffer_ok then Some (snap r) else None)"

definition room_active :: "room \<Rightarrow> bool" where
  "room_active r \<longleftrightarrow> \<not> finished r"

subsection \<open>The machine\<close>

datatype room_event =
  Ev_initialize init_world
| Ev_game_ready string mac
| Ev_game_stopped
| Ev_shutdown
| Ev_call_returns
| Ev_join bool c_str u32 c_str c_str
| Ev_leave
| Ev_worker worker_world
| Ev_loop "wait_poll list" "enet_event option"

fun room_step :: "codec \<Rightarrow> room_event \<Rightarrow> room \<Rightarrow> room option" where
  "room_step c (Ev_worker w) r = Some (worker_step c w r)"
| "room_step c (Ev_loop polls ev) r = loop_step c polls ev r"
| "room_step c Ev_call_returns r = Some (call_returns r)"
| "room_step c (Ev_initialize w) r = Some (if calling r = None then initialize w r else r)"
| "room_step c (Ev_game_ready hash mac) r = Some (if calling r = None then game_ready hash mac r else r)"
| "room_step c Ev_game_stopped r = Some (if calling r = None then game_stopped r else r)"
| "room_step c Ev_shutdown r = Some (if calling r = None then shutdown r else r)"
| "room_step c (Ev_join starts address port nick secret) r =
     Some (if calling r = None then snd (room_join starts address port nick secret r) else r)"
| "room_step c Ev_leave r = Some (if calling r = None then snd (room_leave r) else r)"

fun room_run :: "codec \<Rightarrow> room_event list \<Rightarrow> room \<Rightarrow> room option" where
  "room_run c [] r = Some r"
| "room_run c (ev # evs) r = (case room_step c ev r of None \<Rightarrow> None | Some r1 \<Rightarrow> room_run c evs r1)"

inductive reachable_room :: "codec \<Rightarrow> room \<Rightarrow> bool" for c where
  start: "reachable_room c initial_room"
| step: "reachable_room c r \<Longrightarrow> room_step c ev r = Some r1 \<Longrightarrow> reachable_room c r1"

end
