(* ===== verification/Room_Facts.thy ===== *)
theory Room_Facts
  imports Room_Session
begin

text \<open>
  Facts on the threads of a room session: what callbacks can do to the snapshot, the invariant of
  the room and that every step keeps it.
\<close>

subsection \<open>Callbacks\<close>

lemma set_snap_view [simp]:
  "snap (set_snap f r) = f (snap r)" "has_member (set_snap f r) = has_member r"
  "bound (set_snap f r) = bound r" "worker (set_snap f r) = worker r" "cancel (set_snap f r) = cancel r"
  "finished (set_snap f r) = finished r" "ready (set_snap f r) = ready r"
  "calling (set_snap f r) = calling r" "mem (set_snap f r) = mem r" "loop (set_snap f r) = loop r"
  by (simp_all add: set_snap_def)

lemma with_member_eq:
  "with_member m r =
     r\<lparr>mem := m\<lparr>m_notes := []\<rparr>, snap := (if cancel r then snap r else fold seen (m_notes m) (snap r))\<rparr>"
proof -
  have "fold callback ns x = x\<lparr>snap := (if cancel x then snap x else fold seen ns (snap x))\<rparr>" for ns x
    by (induction ns arbitrary: x) (simp_all add: callback_def set_snap_def)
  then show ?thesis by (simp add: with_member_def)
qed

definition snap_ok :: "snapshot \<Rightarrow> bool" where
  "snap_ok s \<longleftrightarrow>
     length (sn_members s) \<le> 254 \<and> (\<forall>n\<in>set (sn_members s). length n \<le> 20)
     \<and> (sn_error s \<le> 13 \<or> sn_error s \<in> {100, 101})"

lemma snap_ok_seen: "snap_ok s \<Longrightarrow> snap_ok (seen n s)"
  by (cases n) (auto simp: snap_ok_def seen_def shown_members_def error_index_def split: member_error.split)

lemma snap_ok_fold: "snap_ok s \<Longrightarrow> snap_ok (fold seen ns s)"
  by (induction ns arbitrary: s) (simp_all add: snap_ok_seen)

lemma seen_state: "sn_state (fold seen ns s) \<in> {sn_state s, Joined_room}"
proof (induction ns arbitrary: s)
  case (Cons n ns)
  have "sn_state (seen n s) \<in> {sn_state s, Joined_room}" by (cases n) (auto simp: seen_def)
  with Cons.IH [of "seen n s"] show ?case by auto
qed simp

text \<open>Only a success makes the application see a joined room.\<close>

definition quiet :: "member_note list \<Rightarrow> bool" where
  "quiet ns \<longleftrightarrow> On_state Joined \<notin> set ns \<and> On_state Moderator \<notin> set ns"

lemma quiet_simps [simp]:
  "quiet []" "quiet (xs @ ys) \<longleftrightarrow> quiet xs \<and> quiet ys"
  "quiet (x # xs) \<longleftrightarrow> x \<noteq> On_state Joined \<and> x \<noteq> On_state Moderator \<and> quiet xs"
  by (auto simp: quiet_def)

lemma quiet_state: "quiet ns \<Longrightarrow> sn_state (fold seen ns s) = sn_state s"
proof (induction ns arbitrary: s)
  case (Cons n ns)
  from Cons.prems have "sn_state (seen n s) = sn_state s" by (cases n) (auto simp: seen_def)
  with Cons show ?case by simp
qed simp

subsection \<open>Operations of the member\<close>

lemma set_state_view [simp]:
  "m_state (set_state st m) = st" "m_client (set_state st m) = m_client m"
  "m_server (set_state st m) = m_server m" "m_send (set_state st m) = m_send m"
  "m_notes (set_state st m) = m_notes m @ (if m_state m = st then [] else [On_state st])"
  by (simp_all add: set_state_def notify_def)

lemma set_error_view [simp]:
  "m_state (set_error e m) = m_state m" "m_client (set_error e m) = m_client m"
  "m_server (set_error e m) = m_server m" "m_send (set_error e m) = m_send m"
  "m_notes (set_error e m) = m_notes m @ [On_error e]"
  by (simp_all add: set_error_def notify_def)

lemma leave_end_view [simp]:
  "m_state (leave_end m) = m_state m" "\<not> m_client (leave_end m)" "\<not> m_server (leave_end m)"
  "m_send (leave_end m) = []" "m_notes (leave_end m) = m_notes m"
  by (simp_all add: leave_end_def)

lemma leave_begin_view [simp]:
  "m_state (leave_begin i m) = Idle" "m_client (leave_begin i m) = m_client m"
  "m_server (leave_begin i m) = m_server m" "m_send (leave_begin i m) = m_send m"
  "m_notes (leave_begin i m) = m_notes m @ (if m_state m = Idle then [] else [On_state Idle])"
  by (simp_all add: leave_begin_def)

lemma send_view [simp]:
  "m_state (send p m) = m_state m" "m_notes (send p m) = m_notes m" "m_client (send p m) = m_client m"
  by (simp_all add: send_def)

lemma disconnect_view [simp]:
  "m_state (disconnect polls m) = m_state m" "m_notes (disconnect polls m) = m_notes m"
  "\<not> m_server (disconnect polls m)"
  by (simp_all add: disconnect_def Let_def)

lemmas join_ops = refused_def leave_no_loop_def send_game_info_def

text \<open>A join tells the application nothing but errors, and starts the loop in the state joining.\<close>

lemma join_view:
  assumes "join c w a m = (started, m')" "m_notes m = []"
  shows "quiet (m_notes m')" "started \<Longrightarrow> m_state m' = Joining"
  using assms by (auto simp: join_def join_connect_def join_ops Let_def is_connected_def
      split: if_splits join_outcome.splits)

lemma is_connected_cong: "m_state m = m_state m' \<Longrightarrow> is_connected m = is_connected m'"
  by (simp add: is_connected_def)

subsection \<open>The invariant\<close>

definition running :: "worker_pc option \<Rightarrow> bool" where
  "running w \<longleftrightarrow> w \<noteq> None \<and> w \<noteq> Some W_exited"

definition cleaned :: "worker_pc option \<Rightarrow> bool" where
  "cleaned w \<longleftrightarrow> w = None \<or> (\<exists>pc\<in>{W_idle, W_finish, W_exited}. w = Some pc)"

text \<open>
  The invariant, part by part: what the snapshot holds; that \<open>finished\<close> tells whether
  the worker is running; that a session that is joining or joined has a worker that will clean up;
  what the loop thread can be at; that nothing is left of the transport after the clean-up; and
  what the life cycle calls have established.
\<close>

definition snap_part :: "snapshot \<Rightarrow> worker_pc option \<Rightarrow> bool" where
  "snap_part s w \<longleftrightarrow>
     snap_ok s \<and> (sn_state s \<in> {Joining_room, Joined_room} \<longrightarrow> running w \<and> w \<noteq> Some W_finish)"

definition loop_part :: "worker_pc option \<Rightarrow> loop_pc \<Rightarrow> member \<Rightarrow> bool" where
  "loop_part w l m \<longleftrightarrow>
     m_notes m = []
     \<and> (l \<noteq> L_none \<longrightarrow> w \<in> {Some W_watch, Some W_leave, Some W_wait})
     \<and> (l = L_exited \<longrightarrow> \<not> is_connected m)
     \<and> (w = Some W_wait \<and> l = L_none \<longrightarrow> \<not> is_connected m)
     \<and> (cleaned w \<longrightarrow> \<not> is_connected m \<and> \<not> m_client m \<and> \<not> m_server m \<and> m_send m = [])"

definition life_part :: "bool \<Rightarrow> bool \<Rightarrow> worker_pc option \<Rightarrow> room_phase \<Rightarrow> waiting option \<Rightarrow> bool" where
  "life_part has rdy w st call \<longleftrightarrow>
     (rdy \<or> running w \<longrightarrow> has) \<and> (st = Offline \<longrightarrow> \<not> rdy)
     \<and> (call \<in> {Some Wait_stopped, Some Wait_shutdown} \<longrightarrow> \<not> rdy)
     \<and> ((\<exists>h a. call = Some (Wait_ready h a)) \<longrightarrow> has)"

definition room_inv :: "room \<Rightarrow> bool" where
  "room_inv r \<longleftrightarrow>
     snap_part (snap r) (worker r) \<and> (finished r \<longleftrightarrow> \<not> running (worker r))
     \<and> loop_part (worker r) (loop r) (mem r)
     \<and> life_part (has_member r \<and> bound r) (ready r) (worker r) (sn_state (snap r)) (calling r)"

lemmas room_parts = room_inv_def snap_part_def loop_part_def life_part_def

lemma running_simps [simp]:
  "\<not> running None" "running (Some pc) \<longleftrightarrow> pc \<noteq> W_exited"
  by (simp_all add: running_def)

lemma cleaned_simps [simp]:
  "cleaned None" "cleaned (Some pc) \<longleftrightarrow> pc \<in> {W_idle, W_finish, W_exited}"
  by (auto simp: cleaned_def)

lemma snap_ok_simps [simp]:
  "snap_ok (s\<lparr>sn_state := p\<rparr>) \<longleftrightarrow> snap_ok s"
  "snap_ok s \<Longrightarrow> snap_ok (s\<lparr>sn_members := []\<rparr>)"
  "snap_ok s \<Longrightarrow> e \<in> {0, 100, 101} \<Longrightarrow> snap_ok (s\<lparr>sn_error := e\<rparr>)"
  by (auto simp: snap_ok_def)

lemma room_inv_initial: "room_inv initial_room"
  by (simp add: room_parts initial_room_def initial_member_def snap_ok_def is_connected_def)

lemmas room_ops = set_snap_def clear_members_def phase_def fail_def

lemma loop_part_initial: "\<not> running w \<Longrightarrow> loop_part w L_none initial_member"
  by (simp add: loop_part_def initial_member_def is_connected_def running_def)

lemma stopped_loop: "room_inv r \<Longrightarrow> \<not> running (worker r) \<Longrightarrow> loop r = L_none"
  by (auto simp: room_inv_def loop_part_def running_def)

lemma room_inv_initialize:
  assumes "room_inv r"
  shows "room_inv (initialize w r)"
proof (cases "has_member r")
  case False
  with assms have n: "\<not> running (worker r)" "\<not> ready r" by (auto simp: room_inv_def life_part_def)
  from False assms n loop_part_initial [OF n(1)] stopped_loop [OF assms n(1)] show ?thesis
    by (simp add: initialize_def room_inv_def snap_part_def life_part_def room_ops Let_def)
qed (use assms in \<open>simp add: initialize_def\<close>)

lemma room_inv_ready: "room_inv r \<Longrightarrow> room_inv (game_ready h a r)"
  by (simp add: room_inv_def life_part_def game_ready_def)

lemma room_inv_stopped: "room_inv r \<Longrightarrow> room_inv (game_stopped r)"
  by (simp add: room_inv_def life_part_def game_stopped_def)

lemma room_inv_shutdown: "room_inv r \<Longrightarrow> room_inv (shutdown r)"
  by (simp add: room_inv_def life_part_def shutdown_def)

lemma room_inv_leave: "room_inv r \<Longrightarrow> room_inv (snd (room_leave r))"
  by (auto simp: room_inv_def snap_part_def life_part_def room_leave_def room_ops Let_def)

lemma room_inv_join:
  assumes "room_inv r"
  shows "room_inv (snd (room_join st a p n s r))"
proof (cases "check_join a p n s")
  case (Some q)
  show ?thesis
  proof (cases "ready r \<and> finished r")
    case True
    with assms have "\<not> running (worker r)" by (simp add: room_inv_def)
    from True Some assms stopped_loop [OF assms this] show ?thesis
      by (auto simp: room_join_def room_parts room_ops Let_def running_def)
  qed (use assms Some in \<open>auto simp: room_join_def\<close>)
qed (use assms in \<open>simp add: room_join_def\<close>)

lemma room_inv_returns:
  assumes "room_inv r"
  shows "room_inv (call_returns r)"
proof (cases "running (worker r)")
  case False
  from stopped_loop [OF assms this] have l: "loop r = L_none" .
  from False have "worker r = None \<or> worker r = Some W_exited" by (auto simp: running_def)
  then have "loop_part None L_none (mem r)" using assms l by (auto simp: room_inv_def loop_part_def)
  with False assms l show ?thesis
    by (auto simp: call_returns_def running_def room_inv_def snap_part_def life_part_def room_ops Let_def
        split: option.split waiting.split)
qed (use assms in \<open>auto simp: call_returns_def running_def\<close>)

subsection \<open>The threads keep it\<close>

lemma snap_part_member:
  assumes "snap_part (snap r) w" "quiet (m_notes m)"
  shows "snap_part (if cancel r then snap r else fold seen (m_notes m) (snap r)) w"
  using assms by (auto simp: snap_part_def snap_ok_fold quiet_state)

lemma room_inv_worker:
  assumes "room_inv r"
  shows "room_inv (worker_step c w r)"
proof (cases "worker r")
  case (Some pc)
  show ?thesis
  proof (cases pc)
    case (W_join q hash mac)
    define jw where "jw = (if cancel r then (ww_join w)\<lparr>jw_polls := [Join_cancelled]\<rparr> else ww_join w)"
    obtain started m where j: "join c jw \<lparr>ja_nickname = jr_nickname q, ja_hash = hash, ja_mac = mac,
        ja_password = jr_password q, ja_token = []\<rparr> (mem r) = (started, m)" by fastforce
    have q: "quiet (m_notes m)" "started \<Longrightarrow> m_state m = Joining"
      using join_view [OF j] assms by (auto simp: room_inv_def loop_part_def)
    have l: "loop r = L_none" using assms Some W_join by (auto simp: room_inv_def loop_part_def)
    show ?thesis
      using Some W_join assms q l
      by (simp add: worker_step_def j jw_def [symmetric] with_member_eq room_parts room_ops
          snap_ok_fold quiet_state is_connected_def)
  next
    case W_leave
    then show ?thesis
      using Some assms
      by (simp add: worker_step_def with_member_eq room_parts snap_ok_fold quiet_state is_connected_def)
  next
    case W_wait
    then show ?thesis
      using Some assms by (auto simp: worker_step_def room_parts is_connected_def)
  qed (use Some assms in \<open>auto simp: worker_step_def room_parts room_ops\<close>)
qed (use assms in \<open>simp add: worker_step_def\<close>)

lemma room_inv_loop:
  assumes "room_inv r" "loop_step c polls ev r = Some r1"
  shows "room_inv r1"
proof (cases "loop r")
  case L_check
  show ?thesis
  proof (cases "is_connected (mem r)")
    case True
    with L_check assms(2) have r1: "r1 = r\<lparr>loop := L_body\<rparr>" by (simp add: loop_step_def)
    from L_check assms(1) have "loop_part (worker r) L_body (mem r)" by (auto simp: room_inv_def loop_part_def)
    with assms(1) show ?thesis by (simp add: r1 room_inv_def)
  next
    case False
    then have f: "\<not> is_connected (disconnect polls (mem r) \<lparr>m_notes := []\<rparr>)"
      by (simp add: is_connected_def)
    from L_check assms(1) have w: "worker r \<in> {Some W_watch, Some W_leave, Some W_wait}"
      "m_notes (mem r) = []" by (simp_all add: room_inv_def loop_part_def)
    from False L_check assms(2)
    have r1: "r1 = r\<lparr>loop := L_exited, mem := disconnect polls (mem r) \<lparr>m_notes := []\<rparr>\<rparr>"
      by (cases "cancel r") (auto simp: loop_step_def with_member_eq w)
    have "loop_part (worker r) L_exited (disconnect polls (mem r) \<lparr>m_notes := []\<rparr>)"
      using w f by (auto simp: loop_part_def)
    with assms(1) show ?thesis by (simp add: r1 room_inv_def)
  qed
next
  case L_body
  with assms(1) have w: "worker r \<in> {Some W_watch, Some W_leave, Some W_wait}"
    by (simp add: room_inv_def loop_part_def)
  from L_body assms(2) obtain m where m: "member_round c ev (mem r) = Inr m"
    "r1 = with_member m (r\<lparr>loop := L_check\<rparr>)" by (auto simp: loop_step_def split: sum.splits)
  have "snap_part (snap r1) (worker r)"
    using assms(1) w seen_state [of "m_notes m" "snap r"]
    by (auto simp: m(2) with_member_eq room_inv_def snap_part_def snap_ok_fold)
  moreover have "sn_state (snap r1) = Offline \<longrightarrow> sn_state (snap r) = Offline"
    using seen_state [of "m_notes m" "snap r"] by (auto simp: m(2) with_member_eq)
  moreover have "loop_part (worker r) L_check (m\<lparr>m_notes := []\<rparr>)" using w by (auto simp: loop_part_def)
  moreover have "worker r1 = worker r" "loop r1 = L_check" "mem r1 = m\<lparr>m_notes := []\<rparr>" "finished r1 = finished r"
    "ready r1 = ready r" "has_member r1 = has_member r" "bound r1 = bound r" "calling r1 = calling r"
    by (simp_all add: m(2) with_member_eq)
  ultimately show ?thesis
    using assms(1) by (simp add: room_inv_def life_part_def)
qed (use assms in \<open>simp_all add: loop_step_def\<close>)

lemma room_inv_step:
  assumes "room_inv r" "room_step c ev r = Some r1"
  shows "room_inv r1"
  using assms
  by (cases ev) (auto simp: room_inv_initialize room_inv_ready room_inv_stopped room_inv_shutdown
      room_inv_leave room_inv_join room_inv_returns room_inv_worker split: if_splits dest: room_inv_loop)

lemma reachable_room_inv: "reachable_room c r \<Longrightarrow> room_inv r"
  by (induction rule: reachable_room.induct) (auto simp: room_inv_initial dest: room_inv_step)

section \<open>Progress\<close>

text \<open>
  A session that is cancelled comes to its end: a rank that every event keeps or lowers, and that
  a worker step or a step of the loop thread lowers.  The one thing that can undo it is the
  answer of the room to the join, handled after the worker has begun to leave (\<open>overtaken\<close>).
\<close>

subsection \<open>The rank\<close>

fun worker_rank :: "worker_pc option \<Rightarrow> nat" where
  "worker_rank (Some (W_join q h m)) = 6"
| "worker_rank (Some W_watch) = 5"
| "worker_rank (Some W_leave) = 4"
| "worker_rank (Some W_wait) = 3"
| "worker_rank (Some W_idle) = 2"
| "worker_rank (Some W_finish) = 1"
| "worker_rank _ = 0"

fun loop_rank :: "loop_pc \<Rightarrow> nat" where
  "loop_rank L_body = 2"
| "loop_rank L_check = 1"
| "loop_rank _ = 0"

definition rank :: "room \<Rightarrow> nat" where
  "rank r = 3 * worker_rank (worker r) + (if worker r = Some W_wait then loop_rank (loop r) else 0)"

lemma loop_rank_le: "loop_rank l \<le> 2"
  by (cases l) simp_all

lemma rank_le: "rank r \<le> 18"
proof -
  have "worker_rank w \<le> 6" for w by (cases w rule: worker_rank.cases) simp_all
  then show ?thesis using loop_rank_le [of "loop r"] by (auto simp: rank_def)
qed

text \<open>Waiting for the loop thread.\<close>

definition blocked :: "room \<Rightarrow> bool" where
  "blocked r \<longleftrightarrow> worker r = Some W_wait \<and> loop r \<in> {L_check, L_body}"

text \<open>
  The loop thread has handled a success of the join after the worker began to leave: the worker
  waits for a loop that believes it is in the room.
\<close>

definition overtaken :: "room \<Rightarrow> bool" where
  "overtaken r \<longleftrightarrow> worker r = Some W_wait \<and> is_connected (mem r)"

definition draining :: "room \<Rightarrow> bool" where
  "draining r \<longleftrightarrow> cancel r \<and> \<not> overtaken r"

lemma notify_view [simp]:
  "m_state (notify n m) = m_state m" "m_notes (notify n m) = m_notes m @ [n]"
  by (simp_all add: notify_def)

lemma transmit_view [simp]: "m_state (transmit m) = m_state m"
  by (simp add: transmit_def)

subsection \<open>One step\<close>

definition progress :: "room_event \<Rightarrow> room \<Rightarrow> room \<Rightarrow> bool" where
  "progress ev r r1 \<longleftrightarrow>
     draining r1 \<and> \<not> finished r1
     \<and> (rank r1 < rank r
        \<or> rank r1 = rank r \<and> blocked r1 = blocked r
          \<and> \<not> (blocked r \<and> (\<exists>p e. ev = Ev_loop p e)) \<and> \<not> (\<not> blocked r \<and> (\<exists>w. ev = Ev_worker w)))"

lemma progress_same:
  assumes "draining r" "\<not> finished r" "cancel r1" "worker r1 = worker r" "loop r1 = loop r" "mem r1 = mem r"
    "finished r1 = finished r" "\<not> (\<exists>p e. ev = Ev_loop p e)" "\<not> (\<exists>w. ev = Ev_worker w)"
  shows "progress ev r r1"
  using assms by (auto simp: progress_def draining_def overtaken_def rank_def blocked_def)

lemma worker_progress:
  assumes "room_inv r" "draining r" "\<not> finished r"
  shows "finished (worker_step c w r) \<or> progress (Ev_worker w) r (worker_step c w r)"
proof -
  from assms(1,3) obtain pc where pc: "worker r = Some pc" "pc \<noteq> W_exited"
    by (auto simp: room_inv_def running_def)
  show ?thesis
  proof (cases pc)
    case (W_join q h a)
    show ?thesis
      using assms pc W_join
      by (auto simp: worker_step_def progress_def draining_def overtaken_def rank_def blocked_def with_member_eq
          fail_def set_snap_def split: prod.split)
  next
    case W_leave
    have "loop_rank l < 3" for l using loop_rank_le [of l] by simp
    with assms pc W_leave show ?thesis
      by (auto simp: worker_step_def progress_def draining_def overtaken_def rank_def blocked_def with_member_eq is_connected_def)
  qed (use assms pc in \<open>auto simp: worker_step_def progress_def draining_def overtaken_def rank_def blocked_def
        clear_members_def phase_def set_snap_def intro: loop_pc.exhaust\<close>)
qed

lemma loop_progress:
  assumes "room_inv r" "draining r" "\<not> finished r" "loop_step c p e r = Some r1" "\<not> overtaken r1"
  shows "progress (Ev_loop p e) r r1"
proof (cases "loop r")
  case L_check
  with assms show ?thesis
    by (auto simp: loop_step_def progress_def draining_def overtaken_def rank_def blocked_def with_member_eq
        is_connected_def split: if_splits)
next
  case L_body
  from L_body assms(4) obtain m where m: "member_round c e (mem r) = Inr m"
    "r1 = with_member m (r\<lparr>loop := L_check\<rparr>)" by (auto simp: loop_step_def split: sum.splits)
  from L_body assms(2,3,5) show ?thesis
    by (auto simp: m(2) progress_def draining_def overtaken_def rank_def blocked_def with_member_eq)
qed (use assms in \<open>auto simp: loop_step_def progress_def blocked_def rank_def\<close>)

lemma step_progress:
  assumes "room_inv r" "draining r" "\<not> finished r" "room_step c ev r = Some r1" "\<not> overtaken r1"
  shows "finished r1 \<or> progress ev r r1"
proof (cases ev)
  case (Ev_worker w)
  with worker_progress [OF assms(1-3), of c w] assms(4) show ?thesis by simp
next
  case (Ev_loop p e)
  with loop_progress [OF assms(1-3)] assms(4,5) show ?thesis by simp
next
  case Ev_call_returns
  have "worker r \<noteq> None \<and> worker r \<noteq> Some W_exited"
    using assms(1,3) by (auto simp: room_inv_def running_def)
  with Ev_call_returns assms show ?thesis
    by (auto simp: call_returns_def draining_def overtaken_def intro!: progress_same)
next
  case (Ev_join st a p n s)
  have "snd (room_join st a p n s r) = r"
    using assms(3) by (auto simp: room_join_def split: option.split)
  with Ev_join assms show ?thesis
    by (auto simp: draining_def overtaken_def intro!: progress_same)
next
  case (Ev_initialize w)
  have "initialize w r = r"
    using assms(1,3) by (simp add: initialize_def room_inv_def life_part_def)
  with Ev_initialize assms show ?thesis by (auto simp: draining_def overtaken_def intro!: progress_same)
qed (use assms in \<open>auto simp: draining_def overtaken_def game_ready_def game_stopped_def shutdown_def room_leave_def
      phase_def set_snap_def Let_def intro!: progress_same\<close>)

end
