(* ===== verification/Room_Address.thy ===== *)
theory Room_Address
  imports Room_Session
begin

text \<open>
  The check of the address in a join accepts exactly the dotted decimal IPv4 addresses in their
  canonical form, without the two the interface excludes.
\<close>

subsection \<open>Parts\<close>

definition no_digit :: "string \<Rightarrow> bool" where
  "no_digit s \<longleftrightarrow> s = [] \<or> \<not> is_digit (hd s)"

lemma digit_char_of_digit:
  assumes "is_digit c"
  shows "c = digit_char (of_char c - 48)" "of_char c - 48 < (10 :: nat)"
proof -
  from assms have b: "(48 :: nat) \<le> of_char c" "of_char c \<le> (57 :: nat)" by (simp_all add: is_digit_def)
  then have "48 + (of_char c - 48) = (of_char c :: nat)" by simp
  then show "c = digit_char (of_char c - 48)" by (simp add: digit_char_def)
  show "of_char c - 48 < (10 :: nat)" using b by simp
qed

lemma show_nat_snoc: "0 < v \<Longrightarrow> d < 10 \<Longrightarrow> show_nat (v * 10 + d) = show_nat v @ [digit_char d]"
  by (subst show_nat.simps) simp

text \<open>The digits that are read on after a first one that is not zero print their value.\<close>

lemma ipv4_digits_sound:
  assumes "ipv4_digits n v s = Some (n', v', rest)" "0 < v" "v \<le> 255"
  shows "show_nat v @ s = show_nat v' @ rest \<and> v' \<le> 255 \<and> no_digit rest \<and> 0 < v'"
  using assms
proof (induction s arbitrary: n v)
  case (Cons x xs)
  show ?case
  proof (cases "is_digit x")
    case True
    define d :: nat where "d = of_char x - 48"
    have d: "x = digit_char d" "d < 10" using digit_char_of_digit [OF True] by (simp_all add: d_def)
    from Cons.prems True have r: "ipv4_digits (n + 1) (v * 10 + d) xs = Some (n', v', rest)"
      "v * 10 + d \<le> 255" by (auto simp: d_def Let_def split: if_splits)
    from Cons.IH [OF r(1) _ r(2)] Cons.prems(2) show ?thesis
      by (simp add: show_nat_snoc [OF Cons.prems(2) d(2)] d(1))
  qed (use Cons.prems in \<open>auto simp: no_digit_def\<close>)
qed (auto simp: no_digit_def)

lemma ipv4_part_sound:
  assumes "ipv4_part s = Some rest"
  shows "\<exists>v\<le>255. s = show_nat v @ rest \<and> no_digit rest"
proof -
  from assms obtain n v where d: "ipv4_digits 0 0 s = Some (n, v, rest)" "n \<noteq> 0"
    "1 < n \<longrightarrow> take 1 s \<noteq> ''0''" by (auto simp: ipv4_part_def split: option.splits prod.splits if_splits)
  then obtain x xs where s: "s = x # xs" "is_digit x" by (cases s) (auto split: if_splits)
  define k :: nat where "k = of_char x - 48"
  have k: "x = digit_char k" "k < 10" using digit_char_of_digit [OF s(2)] by (simp_all add: k_def)
  from d(1) s have r: "ipv4_digits 1 k xs = Some (n, v, rest)" by (auto simp: k_def Let_def split: if_splits)
  have one: "show_nat k = [x]" using k by (simp add: show_nat.simps [of k])
  show ?thesis
  proof (cases "k = 0")
    case False
    then show ?thesis using ipv4_digits_sound [OF r] k one s by auto
  next
    case True
    then have "take 1 s = ''0''" using k s by (simp add: digit_char_zero)
    with d(2,3) have n: "n = 1" by simp
    have "no_digit xs"
    proof (rule ccontr)
      assume "\<not> no_digit xs"
      then obtain y ys where y: "xs = y # ys" "is_digit y" by (cases xs) (auto simp: no_digit_def)
      have "1 < n" if "ipv4_digits a b t = Some (n, v, rest)" "1 < a" for a b t
        using that by (induction t arbitrary: a b) (auto simp: Let_def split: if_splits)
      moreover from r y obtain b where "ipv4_digits 2 b ys = Some (n, v, rest)"
        by (auto simp: Let_def numeral_2_eq_2 split: if_splits)
      ultimately show False using n by force
    qed
    moreover from this r have "rest = xs" by (cases xs) (auto simp: no_digit_def)
    ultimately show ?thesis using True one s by auto
  qed
qed

lemma ipv4_digits_stop [simp]: "no_digit s \<Longrightarrow> ipv4_digits n v s = Some (n, v, s)"
  by (cases s) (auto simp: no_digit_def)

lemma show_nat_small:
  assumes "v \<le> 255"
  shows "(v < 10 \<and> show_nat v = [digit_char v])
    \<or> (10 \<le> v \<and> v < 100 \<and> show_nat v = [digit_char (v div 10), digit_char (v mod 10)])
    \<or> (100 \<le> v \<and> show_nat v = [digit_char (v div 100), digit_char (v div 10 mod 10), digit_char (v mod 10)])"
proof -
  consider "v < 10" | "10 \<le> v" "v < 100" "v div 10 < 10" | "100 \<le> v" "\<not> v div 10 < 10" "v div 10 div 10 < 10"
    using assms by linarith
  then show ?thesis
  proof cases
    case 3
    have "v div 10 div 10 = v div 100" by (simp add: div_mult2_eq [symmetric])
    moreover from this 3 have "show_nat (v div 100) = [digit_char (v div 100)]"
      by (simp add: show_nat.simps [of "v div 100"])
    ultimately show ?thesis
      using 3 by (simp add: show_nat.simps [of v] show_nat.simps [of "v div 10"])
  qed (simp_all add: show_nat.simps [of v] show_nat.simps [of "v div 10"])
qed

lemma ipv4_part_complete:
  assumes "v \<le> 255" "no_digit rest"
  shows "ipv4_part (show_nat v @ rest) = Some rest"
  using show_nat_small [OF assms(1)]
proof (elim disjE conjE)
  assume "v < 10" "show_nat v = [digit_char v]"
  then show ?thesis using assms by (simp add: ipv4_part_def)
next
  assume v: "10 \<le> v" "v < 100" "show_nat v = [digit_char (v div 10), digit_char (v mod 10)]"
  then have "v div 10 < 10" "0 < v div 10" "v div 10 * 10 + v mod 10 = v"
    using div_mult_mod_eq [of v 10] by linarith+
  with v assms show ?thesis by (simp add: ipv4_part_def digit_char_0 Let_def)
next
  assume v: "100 \<le> v" "show_nat v = [digit_char (v div 100), digit_char (v div 10 mod 10), digit_char (v mod 10)]"
  have h: "v div 100 < 10" "0 < v div 100" using v(1) assms(1) by linarith+
  have "v div 100 * 10 + v div 10 mod 10 = v div 10" using div_mult2_eq [of v 10 10] by simp
  moreover from this have "(v div 100 * 10 + v div 10 mod 10) * 10 + v mod 10 = v" by simp
  ultimately show ?thesis using v h assms by (simp add: ipv4_part_def digit_char_0 Let_def)
qed

subsection \<open>Addresses\<close>

lemma no_digit_dot [simp]: "no_digit (CHR ''.'' # s)" "no_digit []"
  by (simp_all add: no_digit_def is_digit_def)

lemma ipv4_parts_step:
  "ipv4_parts (Suc (Suc k)) s = Some t \<longleftrightarrow>
     (\<exists>v\<le>255. \<exists>s'. s = show_nat v @ CHR ''.'' # s' \<and> ipv4_parts (Suc k) s' = Some t)"
proof
  assume "ipv4_parts (Suc (Suc k)) s = Some t"
  then obtain rest where r: "ipv4_part s = Some rest" "take 1 rest = ''.''"
    "ipv4_parts (Suc k) (drop 1 rest) = Some t"
    by (subst (asm) ipv4_parts.simps(2)) (auto simp: ipv4_dot_def split: option.splits if_splits)
  then show "\<exists>v\<le>255. \<exists>s'. s = show_nat v @ CHR ''.'' # s' \<and> ipv4_parts (Suc k) s' = Some t"
    using ipv4_part_sound [OF r(1)] by (cases rest) auto
next
  assume "\<exists>v\<le>255. \<exists>s'. s = show_nat v @ CHR ''.'' # s' \<and> ipv4_parts (Suc k) s' = Some t"
  then show "ipv4_parts (Suc (Suc k)) s = Some t"
    by (auto simp: ipv4_part_complete ipv4_dot_def)
qed

lemma ipv4_parts_last:
  "ipv4_parts (Suc 0) s = Some [] \<longleftrightarrow> (\<exists>v\<le>255. s = show_nat v)"
proof
  assume "ipv4_parts (Suc 0) s = Some []"
  then have "ipv4_part s = Some []" by (simp split: option.splits)
  from ipv4_part_sound [OF this] show "\<exists>v\<le>255. s = show_nat v" by simp
next
  assume "\<exists>v\<le>255. s = show_nat v"
  then show "ipv4_parts (Suc 0) s = Some []" using ipv4_part_complete [of _ "[]"] by auto
qed

type_synonym address = "nat \<times> nat \<times> nat \<times> nat"

fun dotted :: "address \<Rightarrow> string" where
  "dotted (a, b, c, d) =
     show_nat a @ CHR ''.'' # show_nat b @ CHR ''.'' # show_nat c @ CHR ''.'' # show_nat d"

fun octets :: "address \<Rightarrow> bool" where
  "octets (a, b, c, d) \<longleftrightarrow> a \<le> 255 \<and> b \<le> 255 \<and> c \<le> 255 \<and> d \<le> 255"

lemma ipv4_parts_dotted: "ipv4_parts 4 s = Some [] \<longleftrightarrow> (\<exists>q. octets q \<and> s = dotted q)"
proof -
  have "(4::nat) = Suc (Suc (Suc (Suc 0)))" by simp
  then show ?thesis
    by (simp only: ipv4_parts_step ipv4_parts_last split_paired_Ex dotted.simps octets.simps) blast
qed

lemma dotted_inject: "dotted q = dotted q' \<Longrightarrow> q = q'"
proof -
  have dot: "no_digit_first (CHR ''.'' # t)" for t by (simp add: no_digit_first_def digit_def)
  have first: "x = x' \<and> t = t'"
    if "show_nat x @ CHR ''.'' # t = show_nat x' @ CHR ''.'' # t'" for x x' t t'
    using arg_cong [OF that, of "scan 10 0"] scan_show [OF dot] by simp
  have last: "x = x'" if "show_nat x = show_nat x'" for x x'
    using arg_cong [OF that, of "scan 10 0"] scan_show [of "[]"] by (simp add: no_digit_first_def)
  assume "dotted q = dotted q'"
  then show ?thesis by (cases q; cases q') (auto dest!: first last)
qed

text \<open>
  C25. The address check of a join accepts exactly the canonical dotted forms of four numbers up to
  255, without leading zeros, signs, blanks or missing parts, other than the all-zero and the
  broadcast address; and each accepted text is the form of only one address.
\<close>

theorem ipv4_canonical:
  "ipv4 s \<longleftrightarrow>
     (\<exists>!q. octets q \<and> q \<noteq> (0, 0, 0, 0) \<and> q \<noteq> (255, 255, 255, 255) \<and> s = dotted q)"
proof -
  have z: "dotted (0, 0, 0, 0) = ''0.0.0.0''" "dotted (255, 255, 255, 255) = ''255.255.255.255''"
    by code_simp+
  have "ipv4 s \<longleftrightarrow> (\<exists>q. octets q \<and> s = dotted q)
      \<and> s \<noteq> dotted (0, 0, 0, 0) \<and> s \<noteq> dotted (255, 255, 255, 255)"
    by (simp only: ipv4_def ipv4_parts_dotted z)
  also have "\<dots> \<longleftrightarrow> (\<exists>q. octets q \<and> q \<noteq> (0, 0, 0, 0) \<and> q \<noteq> (255, 255, 255, 255) \<and> s = dotted q)"
    using dotted_inject by metis
  also have "\<dots> \<longleftrightarrow> (\<exists>!q. octets q \<and> q \<noteq> (0, 0, 0, 0) \<and> q \<noteq> (255, 255, 255, 255) \<and> s = dotted q)"
    using dotted_inject by metis
  finally show ?thesis .
qed

end
