(* ===== verification/Room_Codec.thy ===== *)
theory Room_Codec
  imports Room_Wire
begin

text \<open>
  One way to write and read packets that has the properties the room member relies on: numbers
  with the high byte first, texts and blocks after their length in 32 bits, addresses as they are.
\<close>

definition bytes32 :: "u32 \<Rightarrow> u8 list" where
  "bytes32 w = [ucast (drop_bit 24 w), ucast (drop_bit 16 w), ucast (drop_bit 8 w), ucast w]"

fun read32 :: "u32 \<Rightarrow> u8 list \<Rightarrow> u32 \<times> u8 list" where
  "read32 old (a # b # c # d # r) =
     (push_bit 24 (ucast a) OR push_bit 16 (ucast b) OR push_bit 8 (ucast c) OR ucast d, r)"
| "read32 old r = (old, [])"

definition bytes16 :: "u16 \<Rightarrow> u8 list" where
  "bytes16 w = [ucast (drop_bit 8 w), ucast w]"

fun read16 :: "u16 \<Rightarrow> u8 list \<Rightarrow> u16 \<times> u8 list" where
  "read16 old (a # b # r) = (push_bit 8 (ucast a) OR ucast b, r)"
| "read16 old r = (old, [])"

definition bytes64 :: "u64 \<Rightarrow> u8 list" where
  "bytes64 w = bytes32 (ucast (drop_bit 32 w)) @ bytes32 (ucast w)"

definition read64 :: "u64 \<Rightarrow> u8 list \<Rightarrow> u64 \<times> u8 list" where
  "read64 old p = (let (h, p1) = read32 0 p; (l, p2) = read32 0 p1 in (push_bit 32 (ucast h) OR ucast l, p2))"

fun read8 :: "u8 \<Rightarrow> u8 list \<Rightarrow> u8 \<times> u8 list" where
  "read8 old (a # r) = (a, r)"
| "read8 old [] = (old, [])"

definition block_bytes :: "u8 list \<Rightarrow> u8 list" where
  "block_bytes xs = bytes32 (of_nat (length xs)) @ xs"

definition read_block :: "u8 list \<Rightarrow> u8 list \<Rightarrow> u8 list \<times> u8 list" where
  "read_block old p = (let (n, p1) = read32 0 p in (take (unat n) p1, drop (unat n) p1))"

definition char_byte :: "char \<Rightarrow> u8" where
  "char_byte x = of_nat (of_char x)"

definition byte_char :: "u8 \<Rightarrow> char" where
  "byte_char b = char_of (unat b)"

definition message_list :: "room_message list" where
  "message_list = [Id_join_request, Id_join_success, Id_join_success_as_mod, Id_room_information,
     Id_set_game_info, Id_wifi_packet, Id_chat_message, Id_status_message, Id_name_collision,
     Id_mac_collision, Id_console_id_collision, Id_version_mismatch, Id_wrong_password, Id_close_room,
     Id_room_is_full, Id_host_kicked, Id_host_banned, Id_mod_kick, Id_mod_ban, Id_mod_unban,
     Id_mod_get_ban_list, Id_mod_ban_list_response, Id_mod_permission_denied, Id_mod_no_such_user]"

definition plain_code :: "room_message \<Rightarrow> u8" where
  "plain_code m = of_nat (length (takeWhile (\<lambda>x. x \<noteq> m) message_list))"

definition plain_codec :: codec where
  "plain_codec =
     \<lparr>f_u8 = \<lparr>enc = \<lambda>v. [v], dec = read8\<rparr>, f_u16 = \<lparr>enc = bytes16, dec = read16\<rparr>,
      f_u32 = \<lparr>enc = bytes32, dec = read32\<rparr>, f_u64 = \<lparr>enc = bytes64, dec = read64\<rparr>,
      f_string = \<lparr>enc = \<lambda>s. block_bytes (map char_byte s),
                  dec = \<lambda>old p. (case read_block [] p of (xs, r) \<Rightarrow> (map byte_char xs, r))\<rparr>,
      f_mac = \<lparr>enc = \<lambda>m. m, dec = \<lambda>old p. (take 6 p, drop 6 p)\<rparr>,
      f_bytes = \<lparr>enc = block_bytes, dec = read_block\<rparr>,
      f_strings = \<lparr>enc = \<lambda>xs. [], dec = \<lambda>old p. ([], p)\<rparr>,
      message_code = plain_code, message_of = \<lambda>b. find (\<lambda>m. plain_code m = b) message_list,
      uninit_u8 = 0, uninit_u32 = 0, network_version = 4\<rparr>"

lemma read32_bytes32 [simp]: "read32 old (bytes32 w @ r) = (w, r)"
proof -
  have "push_bit 24 (ucast (ucast (drop_bit 24 w) :: u8)) OR push_bit 16 (ucast (ucast (drop_bit 16 w) :: u8))
      OR push_bit 8 (ucast (ucast (drop_bit 8 w) :: u8)) OR ucast (ucast w :: u8) = w" (is "?v = w")
  proof (rule bit_word_eqI)
    fix n assume "n < LENGTH(32)"
    then consider "n < 8" | "8 \<le> n" "n < 16" | "16 \<le> n" "n < 24" | "24 \<le> n" "n < 32" by fastforce
    then show "bit ?v n = bit w n" by cases (auto simp: bit_simps less_diff_conv2)
  qed
  then show ?thesis by (simp add: bytes32_def)
qed

lemma read16_bytes16 [simp]: "read16 old (bytes16 w @ r) = (w, r)"
proof -
  have "push_bit 8 (ucast (ucast (drop_bit 8 w) :: u8)) OR ucast (ucast w :: u8) = w"
    by (rule bit_word_eqI) (auto simp: bit_simps)
  then show ?thesis by (simp add: bytes16_def)
qed

lemma read64_bytes64 [simp]: "read64 old (bytes64 w @ r) = (w, r)"
proof -
  have "push_bit 32 (ucast (ucast (drop_bit 32 w) :: u32)) OR ucast (ucast w :: u32) = w"
    by (rule bit_word_eqI) (auto simp: bit_simps)
  then show ?thesis by (simp add: bytes64_def read64_def)
qed

lemma read_block_bytes [simp]: "length xs < 2 ^ 32 \<Longrightarrow> read_block old (block_bytes xs @ r) = (xs, r)"
  by (simp add: read_block_def block_bytes_def unsigned_of_nat take_bit_nat_eq_self)

lemma of_char_less: "(of_char x :: nat) < 256"
  using nat_of_char_less_256 by (simp add: of_char_def)

lemma plain_codec_ok: "codec_ok plain_codec"
proof -
  have "find (\<lambda>x. plain_code x = plain_code m) message_list = Some m" for m
    by (cases m) (simp_all add: message_list_def plain_code_def)
  moreover have "map byte_char (map char_byte s) = s" for s
  proof -
    have "byte_char (char_byte x) = x" for x
      using of_char_less [of x] by (simp add: byte_char_def char_byte_def unsigned_of_nat take_bit_nat_eq_self)
    then show ?thesis by (simp add: o_def)
  qed
  ultimately show ?thesis
    by (simp add: codec_ok_def field_ok_def plain_codec_def short_def mac_ok_def)
qed

end
