(* ===== verification/Room_Properties.thy ===== *)
theory Room_Properties
  imports Room_Facts Room_Address Room_Codec
begin

text \<open>
  The properties of the room session: its invariant, that a cancelled session ends, the two races
  between its threads, the answers of the interface, and that a frame reaches the other console as
  it was sent.
\<close>

subsection \<open>Runs\<close>

lemma room_run_append:
  "room_run c (xs @ ys) r = (case room_run c xs r of None \<Rightarrow> None | Some r1 \<Rightarrow> room_run c ys r1)"
  by (induction xs arbitrary: r) (auto split: option.split)

lemma room_run_reachable: "reachable_room c r \<Longrightarrow> room_run c evs r = Some r1 \<Longrightarrow> reachable_room c r1"
  by (induction evs arbitrary: r) (auto split: option.splits intro: reachable_room.step)

text \<open>A life with a game, a join that fails for want of a network, and its clean-up.\<close>

definition no_network :: worker_world where
  "no_network = \<lparr>ww_join = \<lparr>jw_host = False, jw_address = False, jw_peer = False, jw_polls = []\<rparr>,
     ww_throws = No_throw, ww_late = False\<rparr>"

definition network_up :: init_world where
  "network_up = \<lparr>iw_expired = True, iw_init = True, iw_throws_first = False, iw_throws_binding = False\<rparr>"

definition sample_join :: room_event where
  "sample_join = Ev_join True (Some ''10.0.0.1'') 24872 (Some ''Nate'') (Some [])"

definition started_events :: "room_event list" where
  "started_events = [Ev_initialize network_up, Ev_game_ready ''h'' (replicate 6 255), Ev_call_returns, sample_join]"

definition sample_request :: join_request where
  "sample_request = \<lparr>jr_ip = ''10.0.0.1'', jr_port = 24872, jr_nickname = ''Nate'', jr_password = []\<rparr>"

lemma sample_check: "check_join (Some ''10.0.0.1'') 24872 (Some ''Nate'') (Some []) = Some sample_request"
  by code_simp

definition started_room :: room where
  "started_room = initial_room \<lparr>owns_network := True, has_member := True, bound := True, ready := True,
     cancel := False, console_hash := ''h'', finished := False,
     worker := Some (W_join sample_request ''h'' (replicate 6 255)),
     snap := \<lparr>sn_state = Joining_room, sn_error = 0, sn_members = []\<rparr>\<rparr>"

lemma started_run: "room_run c started_events initial_room = Some started_room"
  by (simp add: started_events_def initialize_def network_up_def game_ready_def call_returns_def
      sample_join_def room_join_def sample_check room_ops Let_def initial_room_def started_room_def)

lemma started_reachable: "reachable_room c started_room"
  using room_run_reachable [OF reachable_room.start started_run] .

subsection \<open>The invariant of the session\<close>

lemma room_inv_parts:
  assumes inv: "room_inv r"
  shows "length (sn_members (snap r)) \<le> 254"
    and "\<forall>name\<in>set (sn_members (snap r)). length name \<le> 20"
    and "sn_error (snap r) \<le> 13 \<or> sn_error (snap r) \<in> {100, 101}"
    and "room_active r \<longleftrightarrow> running (worker r)"
    and "sn_state (snap r) \<in> {Joining_room, Joined_room} \<Longrightarrow> room_active r"
    and "ready r \<or> room_active r \<Longrightarrow> has_member r \<and> bound r"
    and "sn_state (snap r) = Offline \<Longrightarrow> \<not> ready r"
    and "\<not> room_active r \<Longrightarrow> \<not> is_connected (mem r) \<and> \<not> m_client (mem r) \<and> \<not> m_server (mem r)
           \<and> m_send (mem r) = [] \<and> loop r = L_none"
proof -
  show "length (sn_members (snap r)) \<le> 254"
    and "\<forall>name\<in>set (sn_members (snap r)). length name \<le> 20"
    and "sn_error (snap r) \<le> 13 \<or> sn_error (snap r) \<in> {100, 101}"
    and "room_active r \<longleftrightarrow> running (worker r)"
    and "sn_state (snap r) \<in> {Joining_room, Joined_room} \<Longrightarrow> room_active r"
    and "ready r \<or> room_active r \<Longrightarrow> has_member r \<and> bound r"
    and "sn_state (snap r) = Offline \<Longrightarrow> \<not> ready r"
    using inv by (auto simp: room_inv_def snap_part_def snap_ok_def life_part_def room_active_def)
  show "\<not> is_connected (mem r) \<and> \<not> m_client (mem r) \<and> \<not> m_server (mem r)
           \<and> m_send (mem r) = [] \<and> loop r = L_none" if "\<not> room_active r"
  proof -
    from that inv have n: "\<not> running (worker r)" by (simp add: room_inv_def room_active_def)
    then have "cleaned (worker r)" by (auto simp: running_def cleaned_def)
    with inv stopped_loop [OF inv n] show ?thesis by (simp add: room_inv_def loop_part_def)
  qed
qed

text \<open>
  C2. At every point of every interleaving of the application's calls, the worker and the loop
  thread: the snapshot shows at most 254 members with names of at most 20 bytes and an error that
  is documented; a session is active exactly while its worker runs; joining or joined is only
  shown while the worker is there to clean up; a game is ready, or a worker runs, only with the
  callbacks bound; the interface is offline only without a game; and when no session is active,
  no client, server or queued packet is left of the transport, the member is not connected and
  its loop thread is gone.
\<close>

theorem room_session_invariant:
  assumes "reachable_room c r"
  shows "length (sn_members (snap r)) \<le> 254 \<and> (\<forall>name\<in>set (sn_members (snap r)). length name \<le> 20)
    \<and> (sn_error (snap r) \<le> 13 \<or> sn_error (snap r) \<in> {100, 101})
    \<and> (room_active r \<longleftrightarrow> running (worker r))
    \<and> (sn_state (snap r) \<in> {Joining_room, Joined_room} \<longrightarrow> room_active r)
    \<and> (ready r \<or> room_active r \<longrightarrow> has_member r \<and> bound r)
    \<and> (sn_state (snap r) = Offline \<longrightarrow> \<not> ready r)
    \<and> (\<not> room_active r \<longrightarrow> \<not> is_connected (mem r) \<and> \<not> m_client (mem r) \<and> \<not> m_server (mem r)
           \<and> m_send (mem r) = [] \<and> loop r = L_none)"
  using room_inv_parts [OF reachable_room_inv [OF assms]] by blast

theorem room_session_invariant_witness:
  "room_active started_room \<and> has_member started_room \<and> bound started_room"
proof -
  have "sn_state (snap started_room) \<in> {Joining_room, Joined_room}" by (simp add: started_room_def)
  with room_session_invariant [OF started_reachable] show ?thesis by blast
qed

subsection \<open>A cancelled session ends\<close>

definition over :: "room \<Rightarrow> bool" where
  "over x \<longleftrightarrow> finished x \<or> overtaken x"

lemma segment_progress:
  assumes "room_inv r" "draining r" "\<not> finished r" "room_run c evs r = Some r1"
    and "\<And>k x. k \<le> length evs \<Longrightarrow> room_run c (take k evs) r = Some x \<Longrightarrow> \<not> over x"
  shows "room_inv r1 \<and> draining r1 \<and> \<not> finished r1
    \<and> (rank r1 < rank r
       \<or> rank r1 = rank r \<and> blocked r1 = blocked r \<and> \<not> (blocked r \<and> (\<exists>p e. Ev_loop p e \<in> set evs))
         \<and> \<not> (\<not> blocked r \<and> (\<exists>w. Ev_worker w \<in> set evs)))"
  using assms
proof (induction evs arbitrary: r)
  case (Cons ev evs)
  from Cons.prems(4) obtain x where x: "room_step c ev r = Some x" "room_run c evs x = Some r1"
    by (auto split: option.splits)
  have nf: "\<not> finished x" "\<not> overtaken x" using Cons.prems(5) [of 1 x] x(1) by (simp_all add: over_def)
  have p: "progress ev r x"
    using step_progress [OF Cons.prems(1-3) x(1) nf(2)] nf(1) by simp
  have later: "\<not> over y" if "k \<le> length evs" "room_run c (take k evs) x = Some y" for k y
    using Cons.prems(5) [of "Suc k" y] that x(1) by simp
  have "room_inv r1 \<and> draining r1 \<and> \<not> finished r1
    \<and> (rank r1 < rank x
       \<or> rank r1 = rank x \<and> blocked r1 = blocked x \<and> \<not> (blocked x \<and> (\<exists>p e. Ev_loop p e \<in> set evs))
         \<and> \<not> (\<not> blocked x \<and> (\<exists>w. Ev_worker w \<in> set evs)))"
    using Cons.IH [OF room_inv_step [OF Cons.prems(1) x(1)] _ nf(1) x(2) later] p
    by (simp add: progress_def)
  with p show ?case unfolding progress_def by auto
qed simp

lemma segments_finish:
  assumes "room_inv r" "cancel r" "\<forall>seg\<in>set segs. (\<exists>w. Ev_worker w \<in> set seg) \<and> (\<exists>p e. Ev_loop p e \<in> set seg)"
    "room_run c (concat segs) r \<noteq> None" "rank r < length segs"
  shows "\<exists>k x. k \<le> length (concat segs) \<and> room_run c (take k (concat segs)) r = Some x \<and> over x"
  using assms
proof (induction segs arbitrary: r)
  case (Cons seg segs)
  show ?case
  proof (cases "\<exists>k x. k \<le> length seg \<and> room_run c (take k seg) r = Some x \<and> over x")
    case True
    then obtain k x where "k \<le> length seg" "room_run c (take k seg) r = Some x" "over x" by blast
    then show ?thesis by (intro exI [of _ k] exI [of _ x]) simp
  next
    case False
    from Cons.prems(4) obtain r1 where r1: "room_run c seg r = Some r1" "room_run c (concat segs) r1 \<noteq> None"
      by (auto simp: room_run_append split: option.splits)
    have "\<not> over r" using False by (metis le0 room_run.simps(1) take0)
    then have "draining r" "\<not> finished r" using Cons.prems(2) by (simp_all add: draining_def over_def)
    from segment_progress [OF Cons.prems(1) this r1(1)] Cons.prems(3) False
    have p: "room_inv r1" "cancel r1" "rank r1 < rank r" by (auto simp: draining_def)
    from Cons.IH [OF p(1,2) _ r1(2)] Cons.prems(3,5) p(3)
    obtain k x where k: "k \<le> length (concat segs)" "room_run c (take k (concat segs)) r1 = Some x" "over x"
      by auto
    then show ?thesis
      using r1(1) by (intro exI [of _ "length seg + k"] exI [of _ x]) (simp add: room_run_append)
  qed
qed simp

text \<open>
  C7. A cancelled session ends, or is overtaken: from any reachable point where the cancel flag is
  up, whatever else the application, the room and the network do, within 19 rounds in each of which
  the worker and the loop thread are scheduled at least once there is a point at which the session
  has been reported as finished, or at which the worker already waits for the loop thread while the
  member counts as connected, which only a success of the join handled after the worker has begun to
  leave brings about.  In that second case the session may never end.
\<close>

theorem cancelled_session_ends:
  assumes "reachable_room c r" "cancel r" "length segs = 19"
    and "\<forall>seg\<in>set segs. (\<exists>w. Ev_worker w \<in> set seg) \<and> (\<exists>p e. Ev_loop p e \<in> set seg)"
    and "room_run c (concat segs) r \<noteq> None"
  shows "\<exists>k x. k \<le> length (concat segs) \<and> room_run c (take k (concat segs)) r = Some x
           \<and> (\<not> room_active x \<or> worker x = Some W_wait \<and> is_connected (mem x))"
  using segments_finish [OF reachable_room_inv [OF assms(1)] assms(2,4,5)] rank_le [of r] assms(3)
  by (simp add: over_def overtaken_def room_active_def)

definition leave_room :: room where
  "leave_room = started_room\<lparr>cancel := True, snap := \<lparr>sn_state = Leaving, sn_error = 0, sn_members = []\<rparr>\<rparr>"

lemma leave_room_reachable: "reachable_room c leave_room"
proof (rule reachable_room.step [OF started_reachable])
  show "room_step c Ev_leave started_room = Some leave_room"
    by (simp add: room_leave_def phase_def set_snap_def started_room_def initial_room_def leave_room_def Let_def)
qed

lemma calm_run:
  assumes "list_all (\<lambda>ev. (\<exists>w. ev = Ev_worker w) \<or> ev = Ev_loop [] None) evs"
  shows "room_run c evs r \<noteq> None"
  using assms
proof (induction evs arbitrary: r)
  case (Cons ev evs)
  then have "room_step c ev r \<noteq> None"
    by (auto simp: loop_step_def member_round_def split: loop_pc.splits)
  with Cons show ?case by (auto split: option.splits)
qed simp

theorem cancelled_session_ends_witness:
  "\<exists>k x. room_run plain_codec (take k (concat (replicate 19 [Ev_worker no_network, Ev_loop [] None]))) leave_room
     = Some x \<and> (\<not> room_active x \<or> worker x = Some W_wait \<and> is_connected (mem x))"
proof -
  let ?segs = "replicate 19 [Ev_worker no_network, Ev_loop [] None]"
  have run: "room_run plain_codec (concat ?segs) leave_room \<noteq> None"
    by (rule calm_run) (auto simp: list_all_iff)
  have w: "cancel leave_room" by (simp add: leave_room_def)
  have segs: "\<forall>seg\<in>set ?segs. (\<exists>w. Ev_worker w \<in> set seg) \<and> (\<exists>p e. Ev_loop p e \<in> set seg)"
    by auto
  from cancelled_session_ends [OF leave_room_reachable w _ segs run] show ?thesis by auto
qed

subsection \<open>Two races\<close>

text \<open>Events other than a join and the calls of the life cycle.\<close>

definition background :: "room_event \<Rightarrow> bool" where
  "background ev =
     (case ev of Ev_game_ready h a \<Rightarrow> False | Ev_game_stopped \<Rightarrow> False | Ev_shutdown \<Rightarrow> False
      | Ev_join b a p n s \<Rightarrow> False | _ \<Rightarrow> True)"

definition stale :: "room \<Rightarrow> bool" where
  "stale r \<longleftrightarrow> sn_state (snap r) = Leaving \<and> worker r \<in> {Some W_finish, Some W_exited}
     \<and> (worker r = Some W_exited \<longrightarrow> finished r) \<and> loop r = L_none \<and> has_member r \<and> calling r = None"

lemma stale_worker:
  assumes "stale r"
  shows "stale (worker_step c w r)" "worker (worker_step c w r) = Some W_exited"
proof -
  from assms consider "worker r = Some W_finish" | "worker r = Some W_exited" by (auto simp: stale_def)
  then show "stale (worker_step c w r)" "worker (worker_step c w r) = Some W_exited"
    using assms by (cases; simp add: worker_step_def stale_def)+
qed

lemma stale_step:
  assumes "stale r" "background ev" "room_step c ev r = Some r1" "\<not> (\<exists>w. ev = Ev_worker w)"
  shows "stale r1 \<and> worker r1 = worker r"
proof -
  from assms(2,4) consider "ev = Ev_call_returns" | "ev = Ev_leave" | w where "ev = Ev_initialize w" | p e where "ev = Ev_loop p e"
    by (cases ev) (simp_all add: background_def)
  then show ?thesis
  proof cases
    case 4
    then show ?thesis using assms(1,3) by (simp add: stale_def loop_step_def)
  qed (use assms(1,3) in \<open>auto simp: stale_def room_leave_def call_returns_def initialize_def phase_def set_snap_def Let_def
        split: if_splits\<close>)
qed

lemma stale_run:
  assumes "stale r" "list_all background evs" "room_run c evs r = Some r1"
  shows "stale r1 \<and> (worker r = Some W_exited \<or> (\<exists>w. Ev_worker w \<in> set evs) \<longrightarrow> worker r1 = Some W_exited)"
  using assms
proof (induction evs arbitrary: r)
  case (Cons ev evs)
  then obtain x where x: "room_step c ev r = Some x" "room_run c evs x = Some r1" by (auto split: option.splits)
  from Cons.prems have b: "background ev" "list_all background evs" by simp_all
  show ?case
  proof (cases "\<exists>w. ev = Ev_worker w")
    case True
    then obtain w where "x = worker_step c w r" using x(1) by auto
    then show ?thesis using stale_worker [OF Cons.prems(1)] Cons.IH [OF _ b(2) x(2)] by simp
  next
    case False
    then have "\<And>w. Ev_worker w \<noteq> ev" by blast
    then show ?thesis using stale_step [OF Cons.prems(1) b(1) x(1) False] Cons.IH [OF _ b(2) x(2)] by auto
  qed
qed simp

text \<open>
  C26. A leave that comes between the worker's last two steps, storing the idle state and reporting
  the end, leaves a session that is over shown as leaving.  From any reachable state in which the
  worker is at that point and no call waits for it, after the leave and whatever the threads do,
  further leaves and initialisations included, the state shown is leaving, and once the worker has
  taken its last step no session is active.  Only a join or a call of the life cycle (a game that is
  ready or stopped, the shutdown) shows another state.
\<close>

theorem leave_race_leaves_leaving:
  assumes "reachable_room c r" "worker r = Some W_finish" "calling r = None"
    and "list_all background evs" "room_run c (Ev_leave # evs) r = Some r1"
  shows "sn_state (snap r1) = Leaving \<and> ((\<exists>w. Ev_worker w \<in> set evs) \<longrightarrow> \<not> room_active r1)"
proof -
  have inv: "room_inv r" by (rule reachable_room_inv [OF assms(1)])
  then have "loop r = L_none" "has_member r" "\<not> finished r"
    using assms(2) by (auto simp: room_inv_def loop_part_def life_part_def running_def cleaned_def)
  then have "stale (snd (room_leave r))"
    using assms(2,3) by (simp add: stale_def room_leave_def phase_def set_snap_def Let_def)
  moreover from assms(5,3) have "room_run c evs (snd (room_leave r)) = Some r1" by simp
  ultimately show ?thesis
    using stale_run [of "snd (room_leave r)" evs c r1] assms(4) by (auto simp: stale_def room_active_def)
qed

definition last_step_room :: room where
  "last_step_room = started_room\<lparr>worker := Some W_finish, mem := (mem started_room)\<lparr>m_immediate := True\<rparr>,
      snap := \<lparr>sn_state = Idle_room, sn_error = 3, sn_members = []\<rparr>\<rparr>"

lemma last_step_reachable: "reachable_room c last_step_room"
proof (rule room_run_reachable [OF started_reachable])
  show "room_run c (replicate 5 (Ev_worker no_network)) started_room = Some last_step_room"
    by (simp add: last_step_room_def numeral_eq_Suc started_room_def worker_step_def no_network_def join_def refused_def
        set_state_def set_error_def notify_def with_member_eq seen_def error_index_def is_connected_def
        leave_begin_def leave_end_def room_ops initial_room_def initial_member_def Let_def)
qed

theorem leave_race_leaves_leaving_witness:
  "\<exists>r1. room_run plain_codec [Ev_leave, Ev_worker no_network, Ev_leave] last_step_room = Some r1
     \<and> sn_state (snap r1) = Leaving \<and> \<not> room_active r1"
proof -
  obtain r1 where r1: "room_run plain_codec [Ev_leave, Ev_worker no_network, Ev_leave] last_step_room = Some r1"
    by (simp add: last_step_room_def started_room_def)
  have "list_all background [Ev_worker no_network, Ev_leave]" by (simp add: background_def)
  from leave_race_leaves_leaving [OF last_step_reachable _ _ this r1] r1 show ?thesis
    by (auto simp: last_step_room_def started_room_def initial_room_def)
qed

text \<open>A worker that waits for a loop thread which believes it is in the room.\<close>

definition hung :: "room \<Rightarrow> bool" where
  "hung r \<longleftrightarrow> worker r = Some W_wait \<and> m_state (mem r) \<in> {Joined, Moderator} \<and> loop r \<in> {L_check, L_body}
     \<and> \<not> finished r \<and> has_member r"

text \<open>The room stays up and lets the member stay: silence, or frames of the others.\<close>

definition stays :: "codec \<Rightarrow> room_event \<Rightarrow> bool" where
  "stays c ev =
     (case ev of
        Ev_loop p (Some e) \<Rightarrow> (\<exists>b bs. e = Ev_receive (b # bs) \<and> message_of c b = Some Id_wifi_packet)
      | _ \<Rightarrow> True)"

lemma hung_step:
  assumes "hung r" "stays c ev" "room_step c ev r = Some r1"
  shows "hung r1"
proof (cases ev)
  case (Ev_loop p e)
  show ?thesis
  proof (cases "loop r = L_check")
    case True
    with assms Ev_loop show ?thesis by (auto simp: hung_def loop_step_def is_connected_def)
  next
    case False
    with assms(1) have "loop r = L_body" by (simp add: hung_def)
    then obtain m where m: "member_round c e (mem r) = Inr m" "r1 = with_member m (r\<lparr>loop := L_check\<rparr>)"
      using assms(3) Ev_loop by (auto simp: loop_step_def split: sum.splits)
    have "m_state m = m_state (mem r)"
      using m(1) assms(2) Ev_loop
      by (cases e) (auto simp: member_round_def handle_event_def handle_message_def stays_def)
    with assms(1) m(2) show ?thesis by (auto simp: hung_def with_member_eq)
  qed
qed (use assms in \<open>auto simp: hung_def worker_step_def call_returns_def initialize_def game_ready_def
      game_stopped_def shutdown_def room_join_def room_leave_def phase_def set_snap_def Let_def
      split: option.splits if_splits\<close>)

lemma hung_run: "hung r \<Longrightarrow> list_all (stays c) evs \<Longrightarrow> room_run c evs r = Some r1 \<Longrightarrow> hung r1"
  by (induction evs arbitrary: r) (auto split: option.splits dest: hung_step)

definition room_found :: worker_world where
  "room_found = \<lparr>ww_join = \<lparr>jw_host = True, jw_address = True, jw_peer = True, jw_polls = [Join_event Ev_connect]\<rparr>,
     ww_throws = No_throw, ww_late = False\<rparr>"

definition member_list_message :: "codec \<Rightarrow> u8 list" where
  "member_list_message c =
     put_message c Id_room_information @ enc (f_string c) [] @ enc (f_string c) [] @ enc (f_u32 c) 8
     @ enc (f_u16 c) 24872 @ enc (f_string c) [] @ enc (f_string c) [] @ enc (f_u32 c) 1"

definition hang_events :: "codec \<Rightarrow> room_event list" where
  "hang_events c = started_events @
     [Ev_worker room_found, Ev_loop [] None, Ev_loop [] (Some (Ev_receive (member_list_message c))),
      Ev_loop [] None, Ev_leave, Ev_worker no_network, Ev_worker no_network,
      Ev_loop [] (Some (Ev_receive (put_message c Id_join_success)))]"

lemma member_list_read:
  assumes "codec_ok c"
  shows "\<exists>info ms user'. read_room_information c nick user [] (member_list_message c) = (info, ms, user') \<and> ms \<noteq> []"
proof -
  note ok = codec_okD [OF assms] have s: "short ([] :: string)" by (simp add: short_def)
  have "read_room_header c (drop 1 (member_list_message c))
      = (\<lparr>ri_name = [], ri_description = [], ri_member_slots = 8, ri_port = 24872, ri_preferred_game = [],
          ri_host_username = []\<rparr>, enc (f_u32 c) 1)"
    unfolding member_list_message_def put_message_head [OF assms]
    by (simp add: read_room_header_def field_okD [OF ok(6) s] field_okD [OF ok(4)] field_okD [OF ok(3)])
  then show ?thesis
    by (auto simp: read_room_information_def field_ok_last [OF ok(4)] resize_to_def split: prod.split)
qed

lemma list_round:
  assumes "codec_ok c" "m_members m = []"
  shows "\<exists>m'. member_round c (Some (Ev_receive (member_list_message c))) m = Inr m' \<and> m_members m' \<noteq> []
           \<and> m_state m' = m_state m"
proof -
  obtain info ms user' where r: "read_room_information c (m_nickname m) (m_username m) [] (member_list_message c)
      = (info, ms, user')" "ms \<noteq> []" using member_list_read [OF assms(1)] by blast
  obtain t where t: "member_list_message c = message_code c Id_room_information # t"
    unfolding member_list_message_def put_message_head [OF assms(1)] by simp
  have "handle_event c (Ev_receive (member_list_message c)) m
      = Inr (handle_room_information c (member_list_message c) m)"
    by (simp add: handle_event_def t codec_okD(9) [OF assms(1)] handle_message_def)
  with r assms(2) show ?thesis
    by (simp add: member_round_def handle_room_information_def notify_def transmit_def Let_def)
qed

lemma success_round:
  assumes "codec_ok c" "m_members m \<noteq> []"
  shows "\<exists>m'. member_round c (Some (Ev_receive (put_message c Id_join_success))) m = Inr m' \<and> m_state m' = Joined"
  using assms by (simp add: member_round_def handle_event_def put_message_head codec_okD(9) handle_message_def
      handle_join_def)

text \<open>A member that knows the members of the room and waits for the answer to its join.\<close>

definition awaiting :: "room \<Rightarrow> bool" where
  "awaiting r \<longleftrightarrow> worker r = Some W_watch \<and> loop r = L_check \<and> m_state (mem r) = Joining
     \<and> m_members (mem r) \<noteq> [] \<and> calling r = None \<and> \<not> finished r \<and> has_member r"

lemma awaiting_run:
  assumes c: "codec_ok c"
  shows "\<exists>r. room_run c [Ev_worker room_found, Ev_loop [] None,
      Ev_loop [] (Some (Ev_receive (member_list_message c)))] started_room = Some r \<and> awaiting r"
proof -
  have "\<exists>r. room_step c (Ev_worker room_found) started_room = Some r \<and> worker r = Some W_watch
      \<and> loop r = L_check \<and> m_state (mem r) = Joining \<and> m_members (mem r) = []
      \<and> calling r = None \<and> \<not> finished r \<and> has_member r"
    by (simp add: worker_step_def started_room_def initial_room_def room_found_def join_def join_connect_def
        initial_member_def set_state_def notify_def send_def send_game_info_def is_connected_def with_member_eq Let_def)
  then obtain r1 where r1: "room_step c (Ev_worker room_found) started_room = Some r1" "worker r1 = Some W_watch"
    "loop r1 = L_check" "m_state (mem r1) = Joining" "m_members (mem r1) = []" "calling r1 = None"
    "\<not> finished r1" "has_member r1" by blast
  obtain m where m: "member_round c (Some (Ev_receive (member_list_message c))) (mem r1) = Inr m"
    "m_members m \<noteq> []" "m_state m = Joining" using list_round [OF c r1(5)] r1(4) by auto
  define r where "r = with_member m (r1\<lparr>loop := L_check\<rparr>)"
  have "room_run c [Ev_worker room_found, Ev_loop [] None,
      Ev_loop [] (Some (Ev_receive (member_list_message c)))] started_room = Some r"
    using r1 m(1) by (simp add: loop_step_def is_connected_def r_def)
  moreover have "awaiting r" using r1 m by (simp add: awaiting_def r_def with_member_eq)
  ultimately show ?thesis by blast
qed

lemma overtaken:
  assumes c: "codec_ok c" and r: "awaiting r"
  shows "\<exists>r1. room_run c [Ev_loop [] None, Ev_leave, Ev_worker no_network, Ev_worker no_network,
      Ev_loop [] (Some (Ev_receive (put_message c Id_join_success)))] r = Some r1
    \<and> hung r1 \<and> cancel r1 \<and> sn_state (snap r1) = Leaving"
proof -
  define x where "x = phase Leaving (r\<lparr>loop := L_body, cancel := True\<rparr>)"
  define m where "m = leave_begin True (mem r) \<lparr>m_notes := []\<rparr>"
  have run: "room_run c [Ev_loop [] None, Ev_leave, Ev_worker no_network, Ev_worker no_network] r
      = Some (x\<lparr>worker := Some W_wait, mem := m\<rparr>)"
    using r by (simp add: awaiting_def loop_step_def is_connected_def room_leave_def worker_step_def
        phase_def set_snap_def with_member_eq x_def m_def)
  have "m_members m \<noteq> []" using r by (simp add: awaiting_def m_def leave_begin_def set_state_def notify_def)
  then obtain m1 where m1: "member_round c (Some (Ev_receive (put_message c Id_join_success))) m = Inr m1"
    "m_state m1 = Joined" using success_round [OF c] by blast
  define r1 where "r1 = with_member m1 (x\<lparr>worker := Some W_wait, mem := m, loop := L_check\<rparr>)"
  have "room_run c [Ev_loop [] (Some (Ev_receive (put_message c Id_join_success)))] (x\<lparr>worker := Some W_wait, mem := m\<rparr>)
      = Some r1" using m1(1) by (simp add: loop_step_def r1_def x_def phase_def set_snap_def)
  with run have "room_run c ([Ev_loop [] None, Ev_leave, Ev_worker no_network, Ev_worker no_network]
      @ [Ev_loop [] (Some (Ev_receive (put_message c Id_join_success)))]) r = Some r1"
    by (simp only: room_run_append option.case)
  moreover have "hung r1" "cancel r1" "sn_state (snap r1) = Leaving"
    using m1(2) r by (simp_all add: awaiting_def hung_def r1_def with_member_eq x_def phase_def set_snap_def)
  ultimately show ?thesis by (intro exI [of _ r1]) simp
qed

lemma hang_run:
  assumes "codec_ok c"
  shows "\<exists>r. room_run c (hang_events c) initial_room = Some r \<and> hung r \<and> cancel r \<and> sn_state (snap r) = Leaving"
proof -
  obtain r where r: "room_run c [Ev_worker room_found, Ev_loop [] None,
      Ev_loop [] (Some (Ev_receive (member_list_message c)))] started_room = Some r" "awaiting r"
    using awaiting_run [OF assms] by blast
  obtain r1 where r1: "room_run c [Ev_loop [] None, Ev_leave, Ev_worker no_network, Ev_worker no_network,
      Ev_loop [] (Some (Ev_receive (put_message c Id_join_success)))] r = Some r1"
    "hung r1" "cancel r1" "sn_state (snap r1) = Leaving" using overtaken [OF assms r(2)] by blast
  have "hang_events c = started_events @ [Ev_worker room_found, Ev_loop [] None,
      Ev_loop [] (Some (Ev_receive (member_list_message c)))] @ [Ev_loop [] None, Ev_leave,
      Ev_worker no_network, Ev_worker no_network, Ev_loop [] (Some (Ev_receive (put_message c Id_join_success)))]"
    by (simp add: hang_events_def)
  then have "room_run c (hang_events c) initial_room = Some r1"
    by (simp only: room_run_append started_run option.case r(1) r1(1))
  with r1 show ?thesis by blast
qed

text \<open>
  A leave that overtakes the success of the join hangs: when the loop thread handles the
  success after the worker has set the state to idle, the state is joined again, the loop runs on
  and the worker waits for it.  As long as the room lets the member stay, the session is never
  reported as finished, and a call of the life cycle that waits for the worker never returns.
\<close>

theorem leave_overtakes_success:
  assumes "codec_ok c"
  shows "\<exists>r. room_run c (hang_events c) initial_room = Some r \<and> cancel r \<and> sn_state (snap r) = Leaving
     \<and> (\<forall>evs r1. list_all (stays c) evs \<longrightarrow> room_run c evs r = Some r1
          \<longrightarrow> room_active r1 \<and> call_returns r1 = r1)"
proof -
  obtain r where r: "room_run c (hang_events c) initial_room = Some r" "hung r" "cancel r"
    "sn_state (snap r) = Leaving" using hang_run [OF assms] by blast
  have "room_active r1 \<and> call_returns r1 = r1" if "list_all (stays c) evs" "room_run c evs r = Some r1" for evs r1
    using hung_run [OF r(2) that] by (simp add: hung_def room_active_def call_returns_def)
  with r show ?thesis by blast
qed

theorem leave_overtakes_success_witness:
  "\<exists>r. room_run plain_codec (hang_events plain_codec) initial_room = Some r \<and> cancel r \<and> sn_state (snap r) = Leaving"
  using leave_overtakes_success [OF plain_codec_ok] by blast

subsection \<open>Frames\<close>

fun receive_all :: "codec \<Rightarrow> u8 list list \<Rightarrow> member \<Rightarrow> room_fault + member" where
  "receive_all c [] m = Inr m"
| "receive_all c (b # bs) m =
     (case member_round c (Some (Ev_receive b)) m of Inl f \<Rightarrow> Inl f | Inr m1 \<Rightarrow> receive_all c bs m1)"

lemma frame_round:
  assumes "codec_ok c" "wifi_ok p"
  shows "member_round c (Some (Ev_receive (wifi_packet_bytes c p))) m = Inr (transmit (notify (On_wifi p) m))"
proof -
  obtain t where t: "wifi_packet_bytes c p = message_code c Id_wifi_packet # t"
    unfolding wifi_packet_bytes_def put_message_head [OF assms(1)] by simp
  have "handle_event c (Ev_receive (wifi_packet_bytes c p)) m = Inr (notify (On_wifi p) m)"
    unfolding handle_event_def
    by (simp add: t codec_okD(9) [OF assms(1)] handle_message_def)
       (simp add: t [symmetric] read_wifi_packet_bytes [OF assms])
  then show ?thesis by (simp add: member_round_def)
qed

lemma queue_frames:
  "m_send (fold (send_wifi_packet c) ps m) = m_send m @ map (wifi_packet_bytes c) ps
   \<and> m_wire (fold (send_wifi_packet c) ps m) = m_wire m"
  by (induction ps arbitrary: m) (simp_all add: send_wifi_packet_def send_def)

lemma receive_frames:
  assumes "codec_ok c" "list_all wifi_ok ps"
  shows "\<exists>m'. receive_all c (map (wifi_packet_bytes c) ps) m = Inr m' \<and> m_notes m' = m_notes m @ map On_wifi ps
           \<and> m_state m' = m_state m"
  using assms(2)
proof (induction ps arbitrary: m)
  case (Cons p ps)
  then have "wifi_ok p" by simp
  from Cons.IH [of "transmit (notify (On_wifi p) m)"] Cons.prems show ?case
    by (auto simp: frame_round [OF assms(1) \<open>wifi_ok p\<close>] transmit_def notify_def)
qed simp

text \<open>
  C27. Frames arrive as they were sent: the frames a member sends between two rounds of its loop are
  transmitted in the next one, in their order and after what was queued before, and a member that
  receives those packets invokes the frame callback with exactly those frames in that order and
  stays in its state.
\<close>

theorem frames_arrive:
  assumes "codec_ok c" "list_all wifi_ok ps"
  shows "\<exists>bs m2. member_round c None (fold (send_wifi_packet c) ps m) = Inr m2
      \<and> m_wire m2 = m_wire m @ map Out_packet (m_send m) @ map Out_packet bs \<and> m_send m2 = []
      \<and> (\<exists>r2. receive_all c bs r = Inr r2 \<and> m_notes r2 = m_notes r @ map On_wifi ps \<and> m_state r2 = m_state r)"
proof -
  let ?bs = "map (wifi_packet_bytes c) ps"
  have "member_round c None (fold (send_wifi_packet c) ps m) = Inr (transmit (fold (send_wifi_packet c) ps m))"
    by (simp add: member_round_def)
  moreover have "m_wire (transmit (fold (send_wifi_packet c) ps m))
      = m_wire m @ map Out_packet (m_send m) @ map Out_packet ?bs"
    "m_send (transmit (fold (send_wifi_packet c) ps m)) = []"
    using queue_frames [of c ps m] by (simp_all add: transmit_def)
  ultimately show ?thesis using receive_frames [OF assms, of r] by blast
qed

definition sample_frame :: wifi_packet where
  "sample_frame = \<lparr>pk_type = Data_frame, pk_data = [170, 187], pk_transmitter = [0, 31, 50, 1, 2, 3],
     pk_destination = replicate 6 255, pk_channel = 11\<rparr>"

theorem frames_arrive_witness:
  "\<exists>bs r2. receive_all plain_codec bs initial_member = Inr r2
     \<and> m_notes r2 = [On_wifi sample_frame, On_wifi (sample_frame\<lparr>pk_type := Beacon\<rparr>)]"
proof -
  have "list_all wifi_ok [sample_frame, sample_frame\<lparr>pk_type := Beacon\<rparr>]"
    by (simp add: wifi_ok_def mac_ok_def short_def sample_frame_def)
  from frames_arrive [OF plain_codec_ok this, of initial_member initial_member] show ?thesis
    by (auto simp: initial_member_def)
qed

end
