(* ===== verification/Uds_State.thy ===== *)
theory Uds_State
  imports Room_Wire
begin

text \<open>
  State of the local wireless service (\<open>core/hle/service/nwm/nwm_uds.cpp\<close>).

  The layout of the 802.11 and EAPoL frames, of the structures shared with the game and the
  constants of the header are not in the repository: building and reading frames are functions of
  the argument \<open>e\<close>.  The fields the code uses of those structures are the records below;
  node ids and the masks of nodes have 16 bits, counts of nodes 8 bits.

  A handler either ends in a state or in a fault: a failed assertion, or an access outside a buffer
  or an array.  What it does outside (frames sent, events signalled, the beacon timer) is recorded
  in order.  The locks make every handler atomic.
\<close>

subsection \<open>Ordered maps\<close>

fun put_by :: "('k \<Rightarrow> 'k \<Rightarrow> bool) \<Rightarrow> 'k \<Rightarrow> 'v \<Rightarrow> ('k \<times> 'v) list \<Rightarrow> ('k \<times> 'v) list" where
  "put_by lt k v [] = [(k, v)]"
| "put_by lt k v ((k', v') # xs) =
     (if k = k' then (k, v) # xs
      else if lt k k' then (k, v) # (k', v') # xs
      else (k', v') # put_by lt k v xs)"

definition erase_key :: "'k \<Rightarrow> ('k \<times> 'v) list \<Rightarrow> ('k \<times> 'v) list" where
  "erase_key k xs = filter (\<lambda>x. fst x \<noteq> k) xs"

fun mac_less :: "mac \<Rightarrow> mac \<Rightarrow> bool" where
  "mac_less xs [] = False"
| "mac_less [] (y # ys) = True"
| "mac_less (x # xs) (y # ys) = (x < y \<or> x = y \<and> mac_less xs ys)"

lemma map_of_put_by [simp]: "map_of (put_by lt k v xs) = (map_of xs)(k \<mapsto> v)"
  by (induction xs) (auto simp: fun_upd_twist)

lemma map_of_erase_key [simp]: "map_of (erase_key k xs) = (map_of xs)(k := None)"
  by (induction xs) (auto simp: erase_key_def)

subsection \<open>Data\<close>

record node_info =
  ni_seed :: u64
  ni_username :: "u16 list"
  ni_id :: u16

record network_info =
  nw_host :: mac
  nw_channel :: u8
  nw_id :: u32
  nw_total :: u8
  nw_max :: u8
  nw_app_size :: u8
  nw_app_data :: "u8 list"
  nw_tagged :: bool

datatype net_status =
  Not_connected | Connected_as_host | Connecting | Connected_as_client | Connected_as_spectator

datatype status_reason = Reason_none | Reason_established

record conn_status =
  cs_status :: net_status
  cs_reason :: status_reason
  cs_node_id :: u16
  cs_changed :: u16
  cs_nodes :: "u16 list"
  cs_total :: u8
  cs_max :: u8
  cs_bitmask :: u16

datatype connection_type = Client | Spectator | Other_connection u8

record node =
  nd_connected :: bool
  nd_spec :: bool
  nd_id :: u16

record bind_node =
  bn_id :: u32
  bn_channel :: u8
  bn_node :: u16
  bn_packets :: "u8 list list"

record logoff =
  lo_assigned :: u16
  lo_connected :: u8
  lo_max :: u8
  lo_nodes :: "node_info list"

record secure_header =
  se_src :: u16
  se_dest :: u16
  se_channel :: u8
  se_management :: bool
  se_size :: nat

datatype ether_type = Ether_eapol | Ether_secure | Ether_other

datatype uds_fault = Uds_assertion | Uds_bounds

datatype uds_out =
  Sent wifi_packet
| Signal_status
| Signal_connection
| Signal_bind u8
| Schedule_beacon
| Unschedule_beacon

record uds =
  initialized :: bool
  current_node :: node_info
  conn :: conn_status
  node_map :: "(mac \<times> node) list"
  node_infos :: "node_info list"
  net :: network_info
  channel :: u8
  conn_type :: connection_type
  beacons :: "wifi_packet list"
  binds :: "(u8 \<times> bind_node) list"
  outs :: "uds_out list"

subsection \<open>What the code gets from outside\<close>

record frames =
  assoc_successful :: "u8 list \<Rightarrow> bool"
  assoc_id :: "u8 list \<Rightarrow> u16"
  ether_type_of :: "u8 list \<Rightarrow> ether_type"
  is_eapol_start :: "u8 list \<Rightarrow> bool"
  eapol_start_frame :: "u16 \<Rightarrow> connection_type \<Rightarrow> node_info \<Rightarrow> u8 list"
  read_eapol_start :: "u8 list \<Rightarrow> node_info \<times> connection_type"
  eapol_logoff_frame :: "mac \<Rightarrow> u16 \<Rightarrow> node_info list \<Rightarrow> u8 \<Rightarrow> u8 \<Rightarrow> u8 list"
  read_eapol_logoff :: "u8 list \<Rightarrow> logoff"
  auth_frame :: "nat \<Rightarrow> u8 list"
  auth_seq :: "u8 list \<Rightarrow> nat"
  assoc_response_frame :: "u16 \<Rightarrow> u32 \<Rightarrow> u8 list"
  data_payload :: "u8 list \<Rightarrow> u8 \<Rightarrow> u16 \<Rightarrow> u16 \<Rightarrow> u16 \<Rightarrow> u8 list"
  read_secure :: "u8 list \<Rightarrow> secure_header"
  beacon_frame :: "network_info \<Rightarrow> node_info list \<Rightarrow> u8 list"
  network_of_bytes :: "u8 list \<Rightarrow> network_info"
  node_default :: node_info
  node_reset :: "node_info \<Rightarrow> node_info"
  node_id_spec :: u16
  uds_max_nodes :: nat
  payload_offset :: nat
  default_channel :: u8
  app_data_size :: nat

text \<open>The room member's address if it is in a room, and the address of the console.\<close>

record uds_world =
  uw_room :: "mac option"
  uw_console :: mac

definition broadcast_mac :: mac where
  "broadcast_mac = replicate 6 255"

definition broadcast_node_id :: u16 where
  "broadcast_node_id = 65535"

definition host_dest_node_id :: u16 where
  "host_dest_node_id = 1"

definition max_beacon_frames :: nat where
  "max_beacon_frames = 15"

definition zero_conn :: "frames \<Rightarrow> conn_status" where
  "zero_conn e = \<lparr>cs_status = Not_connected, cs_reason = Reason_none, cs_node_id = 0, cs_changed = 0,
     cs_nodes = replicate (uds_max_nodes e) 0, cs_total = 0, cs_max = 0, cs_bitmask = 0\<rparr>"

subsection \<open>Small steps\<close>

definition emit :: "uds_out list \<Rightarrow> uds \<Rightarrow> uds" where
  "emit xs u = u\<lparr>outs := outs u @ xs\<rparr>"

text \<open>A frame leaves the console only through a room the member is in.\<close>

definition send_packet :: "uds_world \<Rightarrow> wifi_packet \<Rightarrow> uds \<Rightarrow> uds" where
  "send_packet w p u =
     (case uw_room w of None \<Rightarrow> u | Some m \<Rightarrow> emit [Sent (p\<lparr>pk_transmitter := m\<rparr>)] u)"

definition frame :: "packet_type \<Rightarrow> u8 list \<Rightarrow> mac \<Rightarrow> u8 \<Rightarrow> wifi_packet" where
  "frame t d dest ch = \<lparr>pk_type = t, pk_data = d, pk_transmitter = [], pk_destination = dest, pk_channel = ch\<rparr>"

definition get_mac_address :: "uds_world \<Rightarrow> mac" where
  "get_mac_address w = (case uw_room w of Some m \<Rightarrow> m | None \<Rightarrow> uw_console w)"

definition upd_conn :: "(conn_status \<Rightarrow> conn_status) \<Rightarrow> uds \<Rightarrow> uds" where
  "upd_conn f u = u\<lparr>conn := f (conn u)\<rparr>"

definition node_bit :: "nat \<Rightarrow> u16" where
  "node_bit i = push_bit i 1"

text \<open>The node id for a new client: the first free bit of the mask, or none.\<close>

definition get_next_available_node_id :: "uds \<Rightarrow> u16 option" where
  "get_next_available_node_id u =
     (case find (\<lambda>i. \<not> bit (cs_bitmask (conn u)) i) [0..<unat (cs_max (conn u))] of
        Some i \<Rightarrow> Some (of_nat (i + 1)) | None \<Rightarrow> None)"

definition get_node_mac_address :: "u16 \<Rightarrow> u8 \<Rightarrow> uds \<Rightarrow> mac option" where
  "get_node_mac_address dest flags u =
     (if bit flags 1 \<or> dest = broadcast_node_id then Some broadcast_mac
      else if dest = host_dest_node_id then Some (nw_host (net u))
      else map_option fst (find (\<lambda>x. nd_id (snd x) = dest \<and> nd_connected (snd x)) (node_map u)))"

definition connected_somehow :: "net_status \<Rightarrow> bool" where
  "connected_somehow s \<longleftrightarrow> s \<in> {Connected_as_host, Connected_as_client, Connected_as_spectator}"

end
