(* ===== verification/Uds_Frames.thy ===== *)
theory Uds_Frames
  imports Uds_State RL_Prelude
begin

text \<open>
  What the local wireless service does with the frames it receives: beacons, the authentication,
  association and EAPoL sequence of a connection, data, the map of nodes and deauthentication.
\<close>

unbundle bit_operations_syntax

subsection \<open>The map of nodes\<close>

definition node_can_broad :: "mac \<times> node \<Rightarrow> bool" where
  "node_can_broad x \<longleftrightarrow> nd_connected (snd x) \<and> \<not> nd_spec (snd x)"

text \<open>The number of entries in 8 bytes, then each address with its node id in 2 bytes.\<close>

definition node_map_bytes :: "(mac \<times> node) list \<Rightarrow> u8 list" where
  "node_map_bytes nm =
     (let xs = filter node_can_broad nm
      in le_bytes 8 (length xs) @ concat (map (\<lambda>x. fst x @ le_bytes 2 (unat (nd_id (snd x)))) xs))"

definition broadcast_node_map :: "uds_world \<Rightarrow> uds \<Rightarrow> uds" where
  "broadcast_node_map w u =
     send_packet w (frame Node_map_frame (node_map_bytes (node_map u)) broadcast_mac (channel u)) u"

text \<open>Entries are read as many as the frame says there are.\<close>

fun read_node_entries ::
    "nat \<Rightarrow> u8 list \<Rightarrow> (mac \<times> node) list \<Rightarrow> uds_fault + (mac \<times> node) list" where
  "read_node_entries 0 d nm = Inr nm"
| "read_node_entries (Suc n) d nm =
     (if length d < 8 then Inl Uds_bounds
      else read_node_entries n (drop 8 d)
             (put_by mac_less (take 6 d)
                \<lparr>nd_connected = True, nd_spec = (case map_of nm (take 6 d) of Some x \<Rightarrow> nd_spec x | None \<Rightarrow> False),
                 nd_id = of_nat (le_value (take 2 (drop 6 d)))\<rparr> nm))"

definition read_node_map :: "u8 list \<Rightarrow> uds_fault + (mac \<times> node) list" where
  "read_node_map d =
     (if length d < 8 then Inl Uds_bounds else read_node_entries (le_value (take 8 d)) (drop 8 d) [])"

definition handle_node_map :: "wifi_packet \<Rightarrow> uds \<Rightarrow> uds_fault + uds" where
  "handle_node_map p u =
     (if cs_status (conn u) = Connected_as_host then Inr u
      else case read_node_map (pk_data p) of Inl f \<Rightarrow> Inl f | Inr nm \<Rightarrow> Inr (u\<lparr>node_map := nm\<rparr>))"

subsection \<open>Beacons\<close>

fun remove_first :: "('a \<Rightarrow> bool) \<Rightarrow> 'a list \<Rightarrow> 'a list" where
  "remove_first P [] = []"
| "remove_first P (x # xs) = (if P x then xs else x # remove_first P xs)"

definition handle_beacon :: "wifi_packet \<Rightarrow> uds \<Rightarrow> uds" where
  "handle_beacon p u =
     (let bs = remove_first (\<lambda>q. pk_transmitter q = pk_transmitter p) (beacons u) @ [p]
      in u\<lparr>beacons := if max_beacon_frames < length bs then tl bs else bs\<rparr>)"

subsection \<open>The sequence of a connection\<close>

definition handle_association_response :: "frames \<Rightarrow> uds_world \<Rightarrow> wifi_packet \<Rightarrow> uds \<Rightarrow> uds_fault + uds" where
  "handle_association_response e w p u =
     (if \<not> assoc_successful e (pk_data p) then Inl Uds_assertion
      else if cs_status (conn u) \<noteq> Connecting then Inr u
      else Inr (send_packet w (frame Data_frame
                  (eapol_start_frame e (assoc_id e (pk_data p)) (conn_type u) (current_node u))
                  (pk_transmitter p) (channel u)) u))"

definition send_association_response :: "frames \<Rightarrow> uds_world \<Rightarrow> mac \<Rightarrow> uds \<Rightarrow> uds" where
  "send_association_response e w a u =
     (if cs_status (conn u) \<noteq> Connected_as_host then u
      else send_packet w (frame Association_response (assoc_response_frame e 1 (nw_id (net u))) a (channel u)) u)"

definition handle_authentication :: "frames \<Rightarrow> uds_world \<Rightarrow> wifi_packet \<Rightarrow> uds \<Rightarrow> uds" where
  "handle_authentication e w p u =
     (if auth_seq e (pk_data p) \<noteq> 1 then u
      else if cs_status (conn u) \<noteq> Connected_as_host then u
      else if map_of (node_map u) (pk_transmitter p) \<noteq> None then u
      else if cs_max (conn u) = cs_total (conn u) then u
      else let u1 = u\<lparr>node_map := put_by mac_less (pk_transmitter p)
                        \<lparr>nd_connected = False, nd_spec = False, nd_id = 0\<rparr> (node_map u)\<rparr>;
               u2 = send_packet w (frame Authentication (auth_frame e 2) (pk_transmitter p) (channel u)) u1
           in send_association_response e w (pk_transmitter p) u2)"

text \<open>A client is given the next node id; the arrays have to be large enough for it.\<close>

definition accept_client :: "uds_world \<Rightarrow> mac \<Rightarrow> node_info \<Rightarrow> uds \<Rightarrow> uds_fault + node_info \<times> uds" where
  "accept_client w a ni u =
     (case get_next_available_node_id u of
        None \<Rightarrow> Inl Uds_assertion
      | Some nid \<Rightarrow>
          let i = unat nid - 1; ni1 = ni\<lparr>ni_id := nid\<rparr>
          in if length (cs_nodes (conn u)) \<le> i \<or> length (node_infos u) \<le> i then Inl Uds_bounds
             else let u1 = upd_conn (\<lambda>c. c\<lparr>cs_bitmask := cs_bitmask c OR node_bit i,
                               cs_changed := cs_changed c OR node_bit i,
                               cs_nodes := (cs_nodes c)[i := nid], cs_total := cs_total c + 1\<rparr>) u;
                      u2 = u1\<lparr>node_infos := (node_infos u1)[i := ni1],
                              net := (net u1)\<lparr>nw_total := nw_total (net u1) + 1\<rparr>,
                              node_map := put_by mac_less a \<lparr>nd_connected = True, nd_spec = False, nd_id = nid\<rparr>
                                            (node_map u1)\<rparr>
                  in Inr (ni1, broadcast_node_map w u2))"

definition accept_spectator :: "frames \<Rightarrow> mac \<Rightarrow> uds \<Rightarrow> uds" where
  "accept_spectator e a u =
     u\<lparr>node_map := put_by mac_less a \<lparr>nd_connected = True, nd_spec = True, nd_id = node_id_spec e\<rparr> (node_map u)\<rparr>"

definition finish_accept :: "frames \<Rightarrow> uds_world \<Rightarrow> mac \<Rightarrow> u16 \<Rightarrow> uds \<Rightarrow> uds" where
  "finish_accept e w a nid u =
     emit [Signal_status]
       (send_packet w (frame Data_frame
          (eapol_logoff_frame e a nid (node_infos u) (nw_max (net u)) (nw_total (net u))) broadcast_mac (channel u)) u)"

definition handle_eapol_start :: "frames \<Rightarrow> uds_world \<Rightarrow> wifi_packet \<Rightarrow> uds \<Rightarrow> uds_fault + uds" where
  "handle_eapol_start e w p u =
     (if cs_status (conn u) \<noteq> Connected_as_host then Inr u
      else case map_of (node_map u) (pk_transmitter p) of
        None \<Rightarrow> Inr u
      | Some nd \<Rightarrow>
          if nd_connected nd then Inr u
          else if cs_max (conn u) = cs_total (conn u) then Inl Uds_assertion
          else let (ni, ct) = read_eapol_start e (pk_data p)
               in if ct = Client
                  then (case accept_client w (pk_transmitter p) ni u of
                          Inl f \<Rightarrow> Inl f
                        | Inr (ni1, u1) \<Rightarrow> Inr (finish_accept e w (pk_transmitter p) (ni_id ni1) u1))
                  else if ct = Spectator
                  then Inr (finish_accept e w (pk_transmitter p) (ni_id ni) (accept_spectator e (pk_transmitter p) u))
                  else Inr (finish_accept e w (pk_transmitter p) (ni_id ni) u))"

text \<open>The nodes a logoff frame names are stored at the index their id gives; id 0 is skipped.\<close>

fun store_nodes :: "node_info list \<Rightarrow> bool \<Rightarrow> uds \<Rightarrow> uds_fault + uds" where
  "store_nodes [] changed u = Inr u"
| "store_nodes (ni # nis) changed u =
     (if ni_id ni = 0 then store_nodes nis changed u
      else let i = unat (ni_id ni) - 1
           in if length (cs_nodes (conn u)) \<le> i \<or> length (node_infos u) \<le> i then Inl Uds_bounds
              else store_nodes nis changed
                     (upd_conn (\<lambda>c. c\<lparr>cs_bitmask := cs_bitmask c OR node_bit i,
                                cs_changed := if changed then cs_changed c OR node_bit i else cs_changed c,
                                cs_nodes := (cs_nodes c)[i := ni_id ni]\<rparr>)
                        (u\<lparr>node_infos := (node_infos u)[i := ni]\<rparr>)))"

definition handle_logoff_connecting :: "frames \<Rightarrow> wifi_packet \<Rightarrow> uds \<Rightarrow> uds_fault + uds" where
  "handle_logoff_connecting e p u =
     (let lo = read_eapol_logoff e (pk_data p);
          u1 = upd_conn (\<lambda>c. c\<lparr>cs_node_id := lo_assigned lo, cs_total := lo_connected lo, cs_max := lo_max lo\<rparr>)
                 (u\<lparr>net := (net u)\<lparr>nw_host := pk_transmitter p, nw_total := lo_connected lo, nw_max := lo_max lo\<rparr>,
                    node_infos := replicate (unat (lo_max lo)) (node_default e)\<rparr>)
      in case store_nodes (lo_nodes lo) True u1 of
           Inl f \<Rightarrow> Inl f
         | Inr u2 \<Rightarrow>
             let u3 = upd_conn (\<lambda>c. c\<lparr>cs_status := if conn_type u2 = Client then Connected_as_client
                                 else if conn_type u2 = Spectator then Connected_as_spectator else cs_status c,
                                 cs_reason := Reason_established\<rparr>) u2
             in Inr (emit [Signal_status, Signal_connection] u3))"

definition handle_logoff_connected :: "frames \<Rightarrow> wifi_packet \<Rightarrow> uds \<Rightarrow> uds_fault + uds" where
  "handle_logoff_connected e p u =
     (let lo = read_eapol_logoff e (pk_data p);
          old = cs_bitmask (conn u);
          u1 = upd_conn (\<lambda>c. c\<lparr>cs_total := lo_connected lo, cs_nodes := replicate (uds_max_nodes e) 0,
                                cs_bitmask := 0\<rparr>)
                 (u\<lparr>net := (net u)\<lparr>nw_total := lo_connected lo\<rparr>,
                    node_infos := replicate (unat (nw_max (net u))) (node_default e)\<rparr>)
      in case store_nodes (lo_nodes lo) False u1 of
           Inl f \<Rightarrow> Inl f
         | Inr u2 \<Rightarrow> Inr (emit [Signal_status] (upd_conn (\<lambda>c. c\<lparr>cs_changed := old XOR cs_bitmask c\<rparr>) u2)))"

definition handle_eapol :: "frames \<Rightarrow> uds_world \<Rightarrow> wifi_packet \<Rightarrow> uds \<Rightarrow> uds_fault + uds" where
  "handle_eapol e w p u =
     (if is_eapol_start e (pk_data p) then handle_eapol_start e w p u
      else if cs_status (conn u) = Connecting then handle_logoff_connecting e p u
      else if cs_status (conn u) = Connected_as_client \<or> cs_status (conn u) = Connected_as_spectator
      then handle_logoff_connected e p u else Inr u)"

subsection \<open>Data\<close>

definition handle_secure_data :: "frames \<Rightarrow> uds_world \<Rightarrow> wifi_packet \<Rightarrow> uds \<Rightarrow> uds_fault + uds" where
  "handle_secure_data e w p u =
     (let se = read_secure e (pk_data p); st = cs_status (conn u); me = cs_node_id (conn u)
      in if \<not> connected_somehow st then Inr u
         else if se_src se = me then Inr u
         else if se_dest se \<noteq> me \<and> se_dest se \<noteq> broadcast_node_id
         then if pk_destination p \<noteq> broadcast_mac \<and> st \<noteq> Connected_as_host then Inr u
              else if st = Connected_as_host then Inr (send_packet w (p\<lparr>pk_destination := broadcast_mac\<rparr>) u)
              else Inr u
         else if se_management se then Inl Uds_assertion
         else case map_of (binds u) (se_channel se) of
                None \<Rightarrow> Inr u
              | Some b \<Rightarrow>
                  if bn_node b \<noteq> broadcast_node_id \<and> bn_node b \<noteq> se_src se then Inr u
                  else Inr (emit [Signal_bind (se_channel se)]
                         (u\<lparr>binds := put_by (<) (se_channel se) (b\<lparr>bn_packets := bn_packets b @ [pk_data p]\<rparr>)
                                      (binds u)\<rparr>)))"

definition handle_data :: "frames \<Rightarrow> uds_world \<Rightarrow> wifi_packet \<Rightarrow> uds \<Rightarrow> uds_fault + uds" where
  "handle_data e w p u =
     (case ether_type_of e (pk_data p) of
        Ether_eapol \<Rightarrow> handle_eapol e w p u
      | Ether_secure \<Rightarrow> handle_secure_data e w p u
      | Ether_other \<Rightarrow> Inr u)"

subsection \<open>Deauthentication\<close>

fun update_first :: "('a \<Rightarrow> bool) \<Rightarrow> ('a \<Rightarrow> 'a) \<Rightarrow> 'a list \<Rightarrow> 'a list" where
  "update_first P f [] = []"
| "update_first P f (x # xs) = (if P x then f x # xs else x # update_first P f xs)"

definition handle_deauthentication :: "frames \<Rightarrow> wifi_packet \<Rightarrow> uds \<Rightarrow> uds_fault + uds" where
  "handle_deauthentication e p u =
     (if cs_status (conn u) \<noteq> Connected_as_host then Inr u
      else case map_of (node_map u) (pk_transmitter p) of
        None \<Rightarrow> Inr u
      | Some nd \<Rightarrow>
          let u1 = u\<lparr>node_map := erase_key (pk_transmitter p) (node_map u)\<rparr>; i = unat (nd_id nd) - 1
          in if \<not> nd_connected nd then Inr u1
             else if \<not> list_ex (\<lambda>ni. ni_id ni = nd_id nd) (node_infos u1) then Inr u1
             else if \<not> nd_spec nd \<and> (nd_id nd = 0 \<or> length (cs_nodes (conn u)) \<le> i) then Inl Uds_bounds
             else let u2 = (if nd_spec nd then u1
                            else (upd_conn (\<lambda>c. c\<lparr>cs_bitmask := cs_bitmask c AND NOT (node_bit i),
                                     cs_changed := cs_changed c OR node_bit i, cs_total := cs_total c - 1,
                                     cs_nodes := (cs_nodes c)[i := 0]\<rparr>) u1)
                                 \<lparr>net := (net u1)\<lparr>nw_total := nw_total (net u1) - 1\<rparr>\<rparr>)
                  in Inr (emit [Signal_status]
                       (u2\<lparr>node_infos := update_first (\<lambda>ni. ni_id ni = nd_id nd) (node_reset e) (node_infos u2)\<rparr>)))"

subsection \<open>Any frame\<close>

definition on_wifi_packet :: "frames \<Rightarrow> uds_world \<Rightarrow> wifi_packet \<Rightarrow> uds \<Rightarrow> uds_fault + uds" where
  "on_wifi_packet e w p u =
     (if \<not> initialized u then Inr u
      else case pk_type p of
        Beacon \<Rightarrow> Inr (handle_beacon p u)
      | Authentication \<Rightarrow> Inr (handle_authentication e w p u)
      | Association_response \<Rightarrow> handle_association_response e w p u
      | Data_frame \<Rightarrow> handle_data e w p u
      | Deauthentication \<Rightarrow> handle_deauthentication e p u
      | Node_map_frame \<Rightarrow> handle_node_map p u
      | Other_frame x \<Rightarrow> Inr u)"

end
