(* ===== verification/Uds_Commands.thy ===== *)
theory Uds_Commands
  imports Uds_Frames
begin

text \<open>
  The commands a game gives the local wireless service: life cycle, hosting, connecting and
  disconnecting, binding, sending and receiving, application data, and the beacon timer.  The
  parsing of the command buffer and the descriptions of results in it are left out; the results
  are the ones the code distinguishes.
\<close>

datatype uds_result =
  Success
| Bind_args_zero
| Bind_max
| Bind_buffer
| Not_host
| Host_not_kicked
| Wrong_status
| Send_not_connected
| Send_bad_node
| Send_bad_address
| Send_too_large
| Recv_not_connected
| Recv_bad_node
| Recv_too_large
| Called_as_host
| Data_too_large
| Not_initialized
| Node_not_found

subsection \<open>Life cycle\<close>

definition shutdown_hle :: "uds \<Rightarrow> uds" where
  "shutdown_hle u =
     emit (map (\<lambda>b. Signal_bind (fst b)) (binds u)) (u\<lparr>initialized := False\<rparr>) \<lparr>binds := [], node_map := []\<rparr>"

text \<open>The first six bytes of the friend code seed are replaced by the address.\<close>

definition spoof_friend_code_seed :: "bool \<Rightarrow> uds_world \<Rightarrow> node_info \<Rightarrow> node_info" where
  "spoof_friend_code_seed force w ni =
     (if force
      then ni\<lparr>ni_seed := of_nat (le_value (get_mac_address w)) OR (ni_seed ni AND push_bit 48 (mask 16))\<rparr>
      else ni)"

definition uds_initialize :: "frames \<Rightarrow> bool \<Rightarrow> node_info \<Rightarrow> uds \<Rightarrow> uds_fault + uds" where
  "uds_initialize e size_matches ni u =
     (if \<not> size_matches then Inl Uds_assertion
      else Inr (u\<lparr>current_node := ni, initialized := True, conn := zero_conn e, node_infos := [ni], binds := []\<rparr>))"

definition get_connection_status :: "uds \<Rightarrow> conn_status \<times> uds" where
  "get_connection_status u = (conn u, upd_conn (\<lambda>c. c\<lparr>cs_changed := 0\<rparr>) u)"

definition get_node_information :: "u16 \<Rightarrow> uds \<Rightarrow> uds_result + node_info" where
  "get_node_information nid u =
     (if \<not> initialized u then Inl Not_initialized
      else case find (\<lambda>ni. ni_id ni = nid) (node_infos u) of None \<Rightarrow> Inl Node_not_found | Some ni \<Rightarrow> Inr ni)"

subsection \<open>Binding\<close>

definition max_bind_nodes :: nat where
  "max_bind_nodes = 16"

definition min_recv_buffer_size :: u32 where
  "min_recv_buffer_size = 0x5F4"

definition bind_hle :: "u32 \<Rightarrow> u32 \<Rightarrow> u8 \<Rightarrow> u16 \<Rightarrow> uds \<Rightarrow> uds_fault + uds_result \<times> uds" where
  "bind_hle bid sz ch nid u =
     (if ch = 0 \<or> bid = 0 then Inr (Bind_args_zero, u)
      else if max_bind_nodes \<le> length (binds u) then Inr (Bind_max, u)
      else if sz < min_recv_buffer_size then Inr (Bind_buffer, u)
      else if map_of (binds u) ch \<noteq> None then Inl Uds_assertion
      else Inr (Success, u\<lparr>binds := put_by (<) ch \<lparr>bn_id = bid, bn_channel = ch, bn_node = nid, bn_packets = []\<rparr>
                             (binds u)\<rparr>))"

definition unbind_hle :: "u32 \<Rightarrow> uds \<Rightarrow> uds" where
  "unbind_hle bid u =
     (case find (\<lambda>b. bn_id (snd b) = bid) (binds u) of
        None \<Rightarrow> u
      | Some b \<Rightarrow> emit [Signal_bind (fst b)] (u\<lparr>binds := erase_key (fst b) (binds u)\<rparr>))"

subsection \<open>Hosting\<close>

definition begin_hosting_network :: "frames \<Rightarrow> uds_world \<Rightarrow> u8 list \<Rightarrow> uds \<Rightarrow> uds_fault + uds" where
  "begin_hosting_network e w buffer u =
     (let nw = network_of_bytes e buffer
      in if unat (nw_max nw) \<le> 1 \<or> app_data_size e < unat (nw_app_size nw) then Inl Uds_assertion
         else if uds_max_nodes e = 0 then Inl Uds_bounds
         else let me = (current_node u)\<lparr>ni_id := 1\<rparr>;
                  nw1 = nw\<lparr>nw_tagged := True, nw_total := 1, nw_host := get_mac_address w,
                           nw_channel := if nw_channel nw \<noteq> 0 then nw_channel nw else default_channel e\<rparr>;
                  u1 = upd_conn (\<lambda>c. c\<lparr>cs_status := Connected_as_host, cs_reason := Reason_established,
                                      cs_max := nw_max nw, cs_total := 1, cs_node_id := 1,
                                      cs_nodes := (cs_nodes c)[0 := 1], cs_bitmask := cs_bitmask c OR 1,
                                      cs_changed := cs_changed c OR 1\<rparr>) u
              in Inr (emit [Signal_status, Schedule_beacon]
                   (u1\<lparr>net := nw1, current_node := me,
                       node_infos := (replicate (unat (nw_max nw)) (node_default e))[0 := me],
                       channel := if nw_channel nw \<noteq> 0 then nw_channel nw else channel u1\<rparr>)))"

definition eject_client_hle :: "uds_world \<Rightarrow> u16 \<Rightarrow> uds \<Rightarrow> uds_result \<times> uds" where
  "eject_client_hle w nid u =
     (if nid = 1 then (Host_not_kicked, u)
      else if cs_status (conn u) \<noteq> Connected_as_host then (Not_host, u)
      else case (if nid \<noteq> broadcast_node_id then get_node_mac_address nid 0 u else Some broadcast_mac) of
        None \<Rightarrow> (Success, u)
      | Some a \<Rightarrow>
          let p = frame Deauthentication [] a (channel u)
          in (Success, if nid = broadcast_node_id then send_packet w p (send_packet w p (send_packet w p u))
                       else send_packet w p u))"

definition update_network_attribute_hle :: "u16 \<Rightarrow> u8 \<Rightarrow> uds_result" where
  "update_network_attribute_hle bitmask flag = Success"

definition clear_binds :: "uds \<Rightarrow> uds" where
  "clear_binds u = emit (map (\<lambda>b. Signal_bind (fst b)) (binds u)) u \<lparr>binds := []\<rparr>"

definition fresh_status :: "frames \<Rightarrow> net_status \<Rightarrow> uds \<Rightarrow> uds" where
  "fresh_status e st u =
     u\<lparr>conn := (zero_conn e)\<lparr>cs_status := st, cs_node_id := cs_node_id (conn u)\<rparr>, node_map := []\<rparr>"

definition destroy_network_hle :: "frames \<Rightarrow> uds \<Rightarrow> uds_result \<times> uds" where
  "destroy_network_hle e u =
     (let u1 = emit [Unschedule_beacon] u
      in if cs_status (conn u1) \<noteq> Connected_as_host then (Wrong_status, u1)
         else (Success, clear_binds (emit [Signal_status] (fresh_status e Not_connected u1))))"

text \<open>The timer's callback: a beacon, and the timer again, as long as the network is hosted.\<close>

definition beacon_broadcast :: "frames \<Rightarrow> uds_world \<Rightarrow> uds \<Rightarrow> uds" where
  "beacon_broadcast e w u =
     (if cs_status (conn u) \<noteq> Connected_as_host then u
      else emit [Schedule_beacon]
             (send_packet w (frame Beacon (beacon_frame e (net u) (node_infos u)) broadcast_mac (channel u)) u))"

subsection \<open>Connecting\<close>

definition start_connection_sequence :: "frames \<Rightarrow> uds_world \<Rightarrow> mac \<Rightarrow> uds \<Rightarrow> uds" where
  "start_connection_sequence e w server u =
     send_packet w (frame Authentication (auth_frame e 1) server (channel u))
       (upd_conn (\<lambda>c. c\<lparr>cs_status := Connecting\<rparr>) u)"

definition connect_to_network_hle ::
    "frames \<Rightarrow> uds_world \<Rightarrow> network_info \<Rightarrow> connection_type \<Rightarrow> uds \<Rightarrow> uds" where
  "connect_to_network_hle e w nw ct u =
     start_connection_sequence e w (nw_host nw) (u\<lparr>net := nw, conn_type := ct\<rparr>)"

definition disconnect_network_hle :: "frames \<Rightarrow> uds_world \<Rightarrow> uds \<Rightarrow> uds_result \<times> uds" where
  "disconnect_network_hle e w u =
     (if cs_status (conn u) = Connected_as_host then (Called_as_host, fresh_status e Connected_as_host u)
      else let u1 = emit [Signal_status] (fresh_status e Not_connected u)
           in (Success, clear_binds (send_packet w (frame Deauthentication [] (nw_host (net u1)) (channel u1)) u1)))"

subsection \<open>Sending and receiving\<close>

definition max_send_size :: nat where
  "max_send_size = 0x5C6"

definition send_to_hle :: "frames \<Rightarrow> uds_world \<Rightarrow> u32 \<Rightarrow> u8 \<Rightarrow> u32 \<Rightarrow> u8 \<Rightarrow> u8 list \<Rightarrow> uds \<Rightarrow> uds_fault + uds_result \<times> uds" where
  "send_to_hle e w dest ch sz flags input u =
     (if length input < unat sz then Inl Uds_assertion
      else if cs_status (conn u) \<notin> {Connected_as_client, Connected_as_host} then Inr (Send_not_connected, u)
      else if dest = 0 then Inr (Send_bad_node, u)
      else if dest = ucast (cs_node_id (conn u)) then Inr (Send_bad_node, u)
      else case get_node_mac_address (ucast dest) flags u of
        None \<Rightarrow> Inr (Send_bad_address, u)
      | Some a \<Rightarrow>
          if max_send_size < unat sz then Inr (Send_too_large, u)
          else Inr (Success, send_packet w (frame Data_frame
                 (data_payload e (take (unat sz) input) ch (ucast dest) (cs_node_id (conn u)) 0) a (channel u)) u))"

text \<open>
  Pulling: the result with the number of bytes, the buffer and the header.  The buffer is as large
  as the game says, at most \<open>0x172\<close> words, and zero where nothing is written.  Neither its
  size nor that of the frame is compared with the size in the frame's header before the copy.
\<close>

definition pull_packet_hle ::
    "frames \<Rightarrow> u32 \<Rightarrow> u32 \<Rightarrow> u32 \<Rightarrow> uds
     \<Rightarrow> uds_fault + (uds_result + nat \<times> u8 list \<times> secure_header option) \<times> uds" where
  "pull_packet_hle e bid max_size max_aligned u =
     (let sz = 4 * min (unat max_aligned) 0x172
      in if \<not> connected_somehow (cs_status (conn u)) then Inr (Inl Recv_not_connected, u)
         else case find (\<lambda>b. bn_id (snd b) = bid) (binds u) of
           None \<Rightarrow> Inr (Inl Recv_bad_node, u)
         | Some (ch, b) \<Rightarrow>
             (case bn_packets b of
                [] \<Rightarrow> Inr (Inr (0, replicate sz 0, None), u)
              | p # ps \<Rightarrow>
                  let se = read_secure e p
                  in if unat max_size < se_size se then Inr (Inl Recv_too_large, u)
                     else if sz < se_size se \<or> length p < payload_offset e + se_size se then Inl Uds_bounds
                     else Inr (Inr (se_size se,
                             take (se_size se) (drop (payload_offset e) p) @ replicate (sz - se_size se) 0, Some se),
                           u\<lparr>binds := put_by (<) ch (b\<lparr>bn_packets := ps\<rparr>) (binds u)\<rparr>)))"

definition get_channel :: "uds \<Rightarrow> u8" where
  "get_channel u = (if cs_status (conn u) \<noteq> Not_connected then channel u else 0)"

definition get_received_beacons :: "mac \<Rightarrow> uds \<Rightarrow> wifi_packet list \<times> uds" where
  "get_received_beacons sender u =
     (if sender \<noteq> broadcast_mac
      then (case find (\<lambda>p. pk_transmitter p = sender) (beacons u) of
              None \<Rightarrow> ([], u)
            | Some p \<Rightarrow> ([p], u\<lparr>beacons := remove_first (\<lambda>p. pk_transmitter p = sender) (beacons u)\<rparr>))
      else (beacons u, u\<lparr>beacons := []\<rparr>))"

subsection \<open>Application data\<close>

definition set_application_data :: "frames \<Rightarrow> u32 \<Rightarrow> u8 list \<Rightarrow> uds \<Rightarrow> uds_fault + uds_result \<times> uds" where
  "set_application_data e sz input u =
     (if length input \<noteq> unat sz then Inl Uds_assertion
      else if app_data_size e < unat sz then Inr (Data_too_large, u)
      else Inr (Success, u\<lparr>net := (net u)\<lparr>nw_app_size := ucast sz,
                   nw_app_data := input @ drop (unat sz) (nw_app_data (net u))\<rparr>\<rparr>))"

definition get_application_data :: "u32 \<Rightarrow> uds \<Rightarrow> u8 \<times> u8 list" where
  "get_application_data sz u =
     (if unat sz < unat (nw_app_size (net u)) then (0, [])
      else (nw_app_size (net u), take (unat (nw_app_size (net u))) (nw_app_data (net u))))"

end
