(* ===== verification/Uds_Host.thy ===== *)
theory Uds_Host
  imports Uds_Commands
begin

text \<open>
  The host of a local wireless network: the invariant that ties the mask of nodes, the array of
  node ids, the node information, the counts and the map of clients together, and that the frames
  a host receives and the commands of its game keep it.
\<close>

subsection \<open>The invariant\<close>

definition client_at :: "(mac \<rightharpoonup> node) \<Rightarrow> mac \<Rightarrow> nat \<Rightarrow> bool" where
  "client_at nm a i \<longleftrightarrow>
     (\<exists>nd. nm a = Some nd \<and> nd_connected nd \<and> \<not> nd_spec nd \<and> unat (nd_id nd) = i + 1)"

text \<open>The slots: the mask, the ids and the node information agree.\<close>

definition slots_ok :: "conn_status \<Rightarrow> node_info list \<Rightarrow> bool" where
  "slots_ok c nis \<longleftrightarrow>
     length nis = unat (cs_max c) \<and> unat (cs_max c) \<le> 16 \<and> length (cs_nodes c) = 16
     \<and> bit (cs_bitmask c) 0 \<and> (\<forall>i. bit (cs_bitmask c) i \<longrightarrow> i < unat (cs_max c))
     \<and> (\<forall>i<16. unat (cs_nodes c ! i) = (if bit (cs_bitmask c) i then i + 1 else 0))
     \<and> (\<forall>i<length nis. unat (ni_id (nis ! i)) = (if bit (cs_bitmask c) i then i + 1 else 0))
     \<and> unat (cs_total c) = bit_count (cs_bitmask c)"

text \<open>The clients: every slot but the host's belongs to exactly one, and each has one.\<close>

definition clients_ok :: "frames \<Rightarrow> u16 \<Rightarrow> (mac \<rightharpoonup> node) \<Rightarrow> bool" where
  "clients_ok e bm nm \<longleftrightarrow>
     (\<forall>a nd. nm a = Some nd \<longrightarrow> nd_connected nd \<longrightarrow> nd_spec nd \<longrightarrow> nd_id nd = node_id_spec e)
     \<and> (\<forall>a nd. nm a = Some nd \<longrightarrow> nd_connected nd \<longrightarrow> \<not> nd_spec nd \<longrightarrow> (\<exists>i\<ge>1. bit bm i \<and> client_at nm a i))
     \<and> (\<forall>i\<ge>1. bit bm i \<longrightarrow> (\<exists>a. client_at nm a i))
     \<and> (\<forall>a b i. client_at nm a i \<longrightarrow> client_at nm b i \<longrightarrow> a = b)"

lemma clients_okI:
  assumes "\<And>a nd. nm a = Some nd \<Longrightarrow> nd_connected nd \<Longrightarrow> nd_spec nd \<Longrightarrow> nd_id nd = node_id_spec e"
    and "\<And>a nd. nm a = Some nd \<Longrightarrow> nd_connected nd \<Longrightarrow> \<not> nd_spec nd \<Longrightarrow> \<exists>i\<ge>1. bit bm i \<and> client_at nm a i"
    and "\<And>i. 1 \<le> i \<Longrightarrow> bit bm i \<Longrightarrow> \<exists>a. client_at nm a i"
    and "\<And>a b i. client_at nm a i \<Longrightarrow> client_at nm b i \<Longrightarrow> a = b"
  shows "clients_ok e bm nm"
  using assms unfolding clients_ok_def by blast

lemma clients_okD:
  assumes "clients_ok e bm nm"
  shows "nm a = Some nd \<Longrightarrow> nd_connected nd \<Longrightarrow> nd_spec nd \<Longrightarrow> nd_id nd = node_id_spec e"
    and "nm a = Some nd \<Longrightarrow> nd_connected nd \<Longrightarrow> \<not> nd_spec nd \<Longrightarrow> \<exists>i\<ge>1. bit bm i \<and> client_at nm a i"
    and "1 \<le> i \<Longrightarrow> bit bm i \<Longrightarrow> \<exists>a. client_at nm a i"
    and "client_at nm a i \<Longrightarrow> client_at nm b i \<Longrightarrow> a = b"
  using assms unfolding clients_ok_def by blast+

lemma client_at_inj: "client_at nm a i \<Longrightarrow> client_at nm a j \<Longrightarrow> i = j"
  by (auto simp: client_at_def)

lemma client_at_bit:
  assumes "clients_ok e bm nm" "client_at nm a i"
  shows "1 \<le> i" "bit bm i"
proof -
  from assms(2) obtain nd where nd: "nm a = Some nd" "nd_connected nd" "\<not> nd_spec nd" by (auto simp: client_at_def)
  from clients_okD(2) [OF assms(1) nd] obtain j where "1 \<le> j" "bit bm j" "client_at nm a j" by blast
  with client_at_inj [OF assms(2)] show "1 \<le> i" "bit bm i" by auto
qed

definition host_inv :: "frames \<Rightarrow> uds \<Rightarrow> bool" where
  "host_inv e u \<longleftrightarrow>
     cs_status (conn u) = Connected_as_host \<and> initialized u
     \<and> slots_ok (conn u) (node_infos u) \<and> clients_ok e (cs_bitmask (conn u)) (map_of (node_map u))
     \<and> nw_total (net u) = cs_total (conn u) \<and> nw_max (net u) = cs_max (conn u)"

text \<open>What is relied on: the parts of the header.\<close>

definition header_ok :: "frames \<Rightarrow> bool" where
  "header_ok e \<longleftrightarrow>
     uds_max_nodes e = 16 \<and> ni_id (node_default e) = 0 \<and> (\<forall>ni. ni_id (node_reset e ni) = 0)
     \<and> 16 < unat (node_id_spec e)"

subsection \<open>Bits\<close>

lemma bit_node_bit [simp]: "bit (node_bit i) j \<longleftrightarrow> j = i \<and> i < 16"
  by (auto simp: node_bit_def bit_simps)

lemma bit_set_slot: "i < 16 \<Longrightarrow> bit (bm OR node_bit i) j \<longleftrightarrow> bit bm j \<or> j = i"
  by (auto simp: bit_simps)

lemma bit_clear_slot: "bit (bm AND NOT (node_bit i)) j \<longleftrightarrow> bit bm j \<and> j \<noteq> i"
  by (auto simp: bit_simps dest: bit_imp_le_length)

lemma count_set_slot: "i < 16 \<Longrightarrow> \<not> bit bm i \<Longrightarrow> bit_count (bm OR node_bit i) = Suc (bit_count bm)"
proof -
  assume a: "i < 16" "\<not> bit bm i"
  have "{j. bit (bm OR node_bit i) j} = insert i {j. bit bm j}" by (auto simp: bit_set_slot a)
  then show ?thesis using a(2) by (simp add: bit_count_card)
qed

lemma count_clear_slot: "bit bm i \<Longrightarrow> Suc (bit_count (bm AND NOT (node_bit i))) = bit_count bm"
proof -
  assume a: "bit bm i"
  have "{j. bit bm j} = insert i {j. bit (bm AND NOT (node_bit i)) j}" using a by (auto simp: bit_clear_slot)
  moreover have "i \<notin> {j. bit (bm AND NOT (node_bit i)) j}" by (simp add: bit_clear_slot)
  ultimately show ?thesis unfolding bit_count_card by (metis card_insert_disjoint finite_bits)
qed

lemma count_le: "bit_count (bm :: u16) \<le> 16"
proof -
  have "{j. bit bm j} \<subseteq> {..<16}" using bit_imp_le_length [of bm] by auto
  from card_mono [OF _ this] show ?thesis by (simp add: bit_count_card)
qed

subsection \<open>Slots\<close>

lemma slots_set:
  assumes "slots_ok c nis" "i < unat (cs_max c)" "\<not> bit (cs_bitmask c) i" "unat nid = i + 1" "ni_id ni = nid"
  shows "slots_ok (c\<lparr>cs_bitmask := cs_bitmask c OR node_bit i, cs_changed := x,
      cs_nodes := (cs_nodes c)[i := nid], cs_total := cs_total c + 1\<rparr>) (nis[i := ni])"
proof -
  have i: "i < 16" using assms(1,2) by (simp add: slots_ok_def)
  have t: "unat (cs_total c + 1) = Suc (bit_count (cs_bitmask c))"
    using assms(1) count_le [of "cs_bitmask c"] by (simp add: slots_ok_def unat_word_ariths)
  show ?thesis
    using assms i t by (auto simp: slots_ok_def bit_set_slot count_set_slot nth_list_update)
qed

lemma slots_clear:
  assumes "slots_ok c nis" "bit (cs_bitmask c) i" "1 \<le> i" "ni_id ni = 0"
  shows "slots_ok (c\<lparr>cs_bitmask := cs_bitmask c AND NOT (node_bit i), cs_changed := x,
      cs_nodes := (cs_nodes c)[i := 0], cs_total := cs_total c - 1\<rparr>) (nis[i := ni])"
proof -
  have n: "Suc (bit_count (cs_bitmask c AND NOT (node_bit i))) = unat (cs_total c)"
    using assms(1) count_clear_slot [OF assms(2)] by (simp add: slots_ok_def)
  then have "unat (cs_total c - 1) = bit_count (cs_bitmask c AND NOT (node_bit i))"
    by (metis diff_Suc_1 nat.distinct(1) unat_0 unat_minus_one)
  with assms show ?thesis
    by (auto simp: slots_ok_def bit_clear_slot nth_list_update)
qed

subsection \<open>Clients\<close>

lemma clients_same:
  assumes "clients_ok e bm nm" "\<And>b i. client_at (nm(a := x)) b i \<longleftrightarrow> client_at nm b i"
    and "\<And>nd. x = Some nd \<Longrightarrow> nd_connected nd \<Longrightarrow> nd_spec nd \<and> nd_id nd = node_id_spec e"
  shows "clients_ok e bm (nm(a := x))"
  by (rule clients_okI; (unfold assms(2))?)
     (use assms clients_okD [OF assms(1)] in \<open>auto split: if_splits\<close>)

lemma clients_idle:
  assumes "clients_ok e bm nm" "\<And>nd. nm a = Some nd \<Longrightarrow> \<not> nd_connected nd" "\<And>nd. x = Some nd \<Longrightarrow> \<not> nd_connected nd"
  shows "clients_ok e bm (nm(a := x))"
  by (rule clients_same [OF assms(1)]) (use assms(2,3) in \<open>auto simp: client_at_def\<close>)

lemma clients_spectator:
  assumes "clients_ok e bm nm" "\<And>nd. nm a = Some nd \<Longrightarrow> nd_connected nd \<Longrightarrow> nd_spec nd"
    and "\<And>nd. x = Some nd \<Longrightarrow> nd_connected nd \<Longrightarrow> nd_spec nd \<and> nd_id nd = node_id_spec e"
  shows "clients_ok e bm (nm(a := x))"
  by (rule clients_same [OF assms(1)]) (use assms(2,3) in \<open>auto simp: client_at_def\<close>)

lemma clients_add:
  assumes "clients_ok e bm nm" "\<And>nd. nm a = Some nd \<Longrightarrow> \<not> nd_connected nd"
    and "1 \<le> i" "i < 16" "\<not> bit bm i" "unat nid = i + 1"
  shows "clients_ok e (bm OR node_bit i) (nm(a \<mapsto> \<lparr>nd_connected = True, nd_spec = False, nd_id = nid\<rparr>))"
    (is "clients_ok e ?bm ?nm")
proof -
  have c: "client_at ?nm b j \<longleftrightarrow> (b = a \<and> j = i) \<or> client_at nm b j" for b j
    using assms(2,6) by (auto simp: client_at_def)
  have n: "\<not> client_at nm b i" for b
    using client_at_bit(2) [OF assms(1)] assms(5) by blast
  show ?thesis
  proof (rule clients_okI)
    fix b nd assume "?nm b = Some nd" "nd_connected nd" "\<not> nd_spec nd"
    then show "\<exists>i\<ge>1. bit ?bm i \<and> client_at ?nm b i"
      using clients_okD(2) [OF assms(1), of b nd] assms(3,4) unfolding c
      by (cases "b = a") (auto simp: bit_set_slot)
  next
    fix j assume "1 \<le> j" "bit ?bm j"
    then show "\<exists>b. client_at ?nm b j"
      using clients_okD(3) [OF assms(1), of j] assms(4) unfolding c by (auto simp: bit_set_slot)
  next
    fix b b' j assume "client_at ?nm b j" "client_at ?nm b' j"
    then show "b = b'" using n clients_okD(4) [OF assms(1)] unfolding c by auto
  qed (use clients_okD(1) [OF assms(1)] in \<open>auto split: if_splits\<close>)
qed

lemma clients_remove:
  assumes "clients_ok e bm nm" "client_at nm a i"
  shows "clients_ok e (bm AND NOT (node_bit i)) (nm(a := None))" (is "clients_ok e ?bm ?nm")
proof -
  have c: "client_at ?nm b j \<longleftrightarrow> b \<noteq> a \<and> client_at nm b j" for b j
    by (auto simp: client_at_def)
  have only: "b = a" if "client_at nm b i" for b
    using clients_okD(4) [OF assms(1) that assms(2)] .
  show ?thesis
  proof (rule clients_okI)
    fix b nd assume nd: "?nm b = Some nd" "nd_connected nd" "\<not> nd_spec nd"
    then obtain j where j: "1 \<le> j" "bit bm j" "client_at nm b j" "b \<noteq> a"
      using clients_okD(2) [OF assms(1), of b nd] by (auto split: if_splits)
    then have "j \<noteq> i" using only by auto
    with j show "\<exists>j\<ge>1. bit ?bm j \<and> client_at ?nm b j" unfolding c by (auto simp: bit_clear_slot)
  next
    fix j assume j: "1 \<le> j" "bit ?bm j"
    then obtain b where b: "client_at nm b j" "j \<noteq> i"
      using clients_okD(3) [OF assms(1), of j] by (auto simp: bit_clear_slot)
    then have "b \<noteq> a" using client_at_inj assms(2) by blast
    with b show "\<exists>b. client_at ?nm b j" unfolding c by blast
  next
    fix b b' j assume "client_at ?nm b j" "client_at ?nm b' j"
    then show "b = b'" using clients_okD(4) [OF assms(1)] unfolding c by blast
  qed (use clients_okD(1) [OF assms(1)] in \<open>auto split: if_splits\<close>)
qed

subsection \<open>Frames and commands keep the invariant\<close>

lemma uds_view [simp]:
  "conn (emit xs u) = conn u" "node_infos (emit xs u) = node_infos u" "node_map (emit xs u) = node_map u"
  "net (emit xs u) = net u" "initialized (emit xs u) = initialized u" "binds (emit xs u) = binds u"
  "channel (emit xs u) = channel u"
  by (simp_all add: emit_def)

lemma send_packet_view [simp]:
  "conn (send_packet w p u) = conn u" "node_infos (send_packet w p u) = node_infos u"
  "node_map (send_packet w p u) = node_map u" "net (send_packet w p u) = net u"
  "initialized (send_packet w p u) = initialized u" "binds (send_packet w p u) = binds u"
  "channel (send_packet w p u) = channel u"
  by (simp_all add: send_packet_def split: option.split)

lemma broadcast_view [simp]:
  "conn (broadcast_node_map w u) = conn u" "node_infos (broadcast_node_map w u) = node_infos u"
  "node_map (broadcast_node_map w u) = node_map u" "net (broadcast_node_map w u) = net u"
  "initialized (broadcast_node_map w u) = initialized u"
  by (simp_all add: broadcast_node_map_def)

lemma host_inv_cong:
  assumes "host_inv e u" "conn u' = conn u" "node_infos u' = node_infos u" "node_map u' = node_map u"
    "net u' = net u" "initialized u' = initialized u"
  shows "host_inv e u'"
  using assms by (simp add: host_inv_def)

lemma host_inv_beacon: "host_inv e u \<Longrightarrow> host_inv e (handle_beacon p u)"
  by (erule host_inv_cong) (simp_all add: handle_beacon_def Let_def)

lemma host_inv_authentication:
  assumes "host_inv e u"
  shows "host_inv e (handle_authentication e w p u)"
proof (cases "map_of (node_map u) (pk_transmitter p)")
  case None
  have "clients_ok e (cs_bitmask (conn u)) ((map_of (node_map u))(pk_transmitter p \<mapsto>
      \<lparr>nd_connected = False, nd_spec = False, nd_id = 0\<rparr>))"
    using assms None by (intro clients_idle) (auto simp: host_inv_def)
  with assms show ?thesis
    by (simp add: handle_authentication_def send_association_response_def host_inv_def Let_def)
qed (use assms in \<open>simp add: handle_authentication_def\<close>)

lemma next_id_facts:
  assumes "slots_ok c nis" "cs_max c \<noteq> cs_total c" "conn u = c"
  obtains i nid where "get_next_available_node_id u = Some nid" "unat nid = i + 1" "i < unat (cs_max c)"
    "\<not> bit (cs_bitmask c) i" "1 \<le> i"
proof -
  have "\<not> (\<forall>i<unat (cs_max c). bit (cs_bitmask c) i)"
  proof
    assume "\<forall>i<unat (cs_max c). bit (cs_bitmask c) i"
    then have "{i. bit (cs_bitmask c) i} = {..<unat (cs_max c)}" using assms(1) by (auto simp: slots_ok_def)
    then have "unat (cs_total c) = unat (cs_max c)" using assms(1) by (simp add: slots_ok_def bit_count_card)
    with assms(2) show False by (metis word_unat_eq_iff)
  qed
  then obtain i where f: "find (\<lambda>i. \<not> bit (cs_bitmask c) i) [0..<unat (cs_max c)] = Some i"
    by (cases "find (\<lambda>i. \<not> bit (cs_bitmask c) i) [0..<unat (cs_max c)]") (auto simp: find_None_iff)
  then have i: "i < unat (cs_max c)" "\<not> bit (cs_bitmask c) i" by (auto simp: find_Some_iff)
  moreover have "unat (of_nat (i + 1) :: u16) = i + 1"
    using i(1) assms(1) by (simp add: slots_ok_def unsigned_of_nat take_bit_nat_eq_self del: of_nat_add of_nat_Suc)
  moreover have "i \<noteq> 0"
  proof
    assume "i = 0"
    with i(2) assms(1) show False by (simp add: slots_ok_def)
  qed
  ultimately show ?thesis using f assms(3) by (intro that [of "of_nat (i + 1)" i]) (auto simp: get_next_available_node_id_def)
qed

lemma accept_client_inv:
  assumes "host_inv e u" "cs_max (conn u) \<noteq> cs_total (conn u)"
    and "\<And>nd. map_of (node_map u) a = Some nd \<Longrightarrow> \<not> nd_connected nd"
  shows "\<exists>ni1 u1. accept_client w a ni u = Inr (ni1, u1) \<and> host_inv e u1"
proof -
  have s: "slots_ok (conn u) (node_infos u)" using assms(1) by (simp add: host_inv_def)
  obtain i nid where n: "get_next_available_node_id u = Some nid" "unat nid = i + 1" "i < unat (cs_max (conn u))"
    "\<not> bit (cs_bitmask (conn u)) i" "1 \<le> i" using next_id_facts [OF s assms(2) refl] by blast
  then have i: "i < 16" "i < length (cs_nodes (conn u))" "i < length (node_infos u)" using s by (auto simp: slots_ok_def)
  have "clients_ok e (cs_bitmask (conn u) OR node_bit i) ((map_of (node_map u))(a \<mapsto>
      \<lparr>nd_connected = True, nd_spec = False, nd_id = nid\<rparr>))"
    using assms(1,3) n i by (intro clients_add) (auto simp: host_inv_def)
  moreover note slots_set [OF s n(3,4,2), of "ni\<lparr>ni_id := nid\<rparr>" "cs_changed (conn u) OR node_bit i"]
  ultimately show ?thesis
    using assms(1) n i by (simp add: accept_client_def upd_conn_def host_inv_def Let_def)
qed

lemma host_inv_eapol:
  assumes "host_inv e u" "handle_eapol e w p u = Inr u1"
  shows "host_inv e u1"
proof (cases "is_eapol_start e (pk_data p)")
  case True
  have st: "cs_status (conn u) = Connected_as_host" using assms(1) by (simp add: host_inv_def)
  show ?thesis
  proof (cases "map_of (node_map u) (pk_transmitter p)")
    case (Some nd)
    show ?thesis
    proof (cases "nd_connected nd \<or> cs_max (conn u) = cs_total (conn u)")
      case False
      obtain ni ct where r: "read_eapol_start e (pk_data p) = (ni, ct)" by fastforce
      have fin: "host_inv e (finish_accept e w a n x)" if "host_inv e x" for a n x
        using that by (rule host_inv_cong) (simp_all add: finish_accept_def)
      have "clients_ok e (cs_bitmask (conn u)) ((map_of (node_map u))(pk_transmitter p \<mapsto>
          \<lparr>nd_connected = True, nd_spec = True, nd_id = node_id_spec e\<rparr>))"
        using assms(1) Some False by (intro clients_spectator) (auto simp: host_inv_def)
      then have spec: "host_inv e (accept_spectator e (pk_transmitter p) u)"
        using assms(1) by (simp add: accept_spectator_def host_inv_def)
      obtain ni1 u2 where "accept_client w (pk_transmitter p) ni u = Inr (ni1, u2)" "host_inv e u2"
        using accept_client_inv [OF assms(1), of "pk_transmitter p" w ni] False Some by auto
      then show ?thesis
        using assms True st Some False fin spec
        by (auto simp: handle_eapol_def handle_eapol_start_def r split: if_splits)
    qed (use assms True st Some in \<open>auto simp: handle_eapol_def handle_eapol_start_def split: if_splits\<close>)
  qed (use assms True st in \<open>auto simp: handle_eapol_def handle_eapol_start_def\<close>)
qed (use assms in \<open>auto simp: handle_eapol_def host_inv_def\<close>)

lemma host_inv_secure:
  assumes "host_inv e u" "handle_secure_data e w p u = Inr u1"
  shows "host_inv e u1"
  using assms(1)
  by (rule host_inv_cong)
     (use assms(2) in \<open>auto simp: handle_secure_data_def Let_def split: if_splits option.splits\<close>)

lemma update_first_at:
  assumes "i < length xs" "P (xs ! i)" "\<And>j. j < i \<Longrightarrow> \<not> P (xs ! j)"
  shows "update_first P f xs = xs[i := f (xs ! i)]"
  using assms
proof (induction xs arbitrary: i)
  case (Cons x xs)
  show ?case
  proof (cases i)
    case 0
    with Cons.prems show ?thesis by simp
  next
    case (Suc j)
    have "\<not> P x" using Cons.prems(3) [of 0] Suc by simp
    moreover have "update_first P f xs = xs[j := f (xs ! j)]"
    proof (rule Cons.IH)
      show "\<not> P (xs ! k)" if "k < j" for k using Cons.prems(3) [of "Suc k"] Suc that by simp
    qed (use Cons.prems Suc in simp_all)
    ultimately show ?thesis using Suc by simp
  qed
qed simp

lemma slot_of_client:
  assumes "host_inv e u" "client_at (map_of (node_map u)) a i"
  shows "i < length (node_infos u)" "bit (cs_bitmask (conn u)) i" "1 \<le> i"
    and "\<And>j. j < length (node_infos u) \<Longrightarrow> unat (ni_id (node_infos u ! j)) = i + 1 \<longleftrightarrow> j = i"
proof -
  have c: "clients_ok e (cs_bitmask (conn u)) (map_of (node_map u))" and s: "slots_ok (conn u) (node_infos u)"
    using assms(1) by (simp_all add: host_inv_def)
  note b = client_at_bit [OF c assms(2)]
  then show "bit (cs_bitmask (conn u)) i" "1 \<le> i" by simp_all
  then show l: "i < length (node_infos u)" using s by (simp add: slots_ok_def)
  show "unat (ni_id (node_infos u ! j)) = i + 1 \<longleftrightarrow> j = i" if "j < length (node_infos u)" for j
    using s that b l by (auto simp: slots_ok_def)
qed

lemma host_inv_deauthentication:
  assumes "header_ok e" "host_inv e u" "handle_deauthentication e p u = Inr u1"
  shows "host_inv e u1"
proof (cases "map_of (node_map u) (pk_transmitter p)")
  case (Some nd)
  let ?u = "u\<lparr>node_map := erase_key (pk_transmitter p) (node_map u)\<rparr>"
  have st: "cs_status (conn u) = Connected_as_host" using assms(2) by (simp add: host_inv_def)
  have c: "clients_ok e (cs_bitmask (conn u)) (map_of (node_map u))" and s: "slots_ok (conn u) (node_infos u)"
    using assms(2) by (simp_all add: host_inv_def)
  consider "\<not> nd_connected nd" | "nd_connected nd" "nd_spec nd" | "nd_connected nd" "\<not> nd_spec nd" by blast
  then show ?thesis
  proof cases
    case 1
    have "clients_ok e (cs_bitmask (conn u)) ((map_of (node_map u))(pk_transmitter p := None))"
      using c 1 Some by (intro clients_idle) auto
    with assms 1 Some st show ?thesis by (auto simp: handle_deauthentication_def host_inv_def)
  next
    case 2
    have "ni_id ni \<noteq> nd_id nd" if "ni \<in> set (node_infos u)" for ni
    proof -
      from that obtain j where "j < length (node_infos u)" "node_infos u ! j = ni" by (metis in_set_conv_nth)
      then have "unat (ni_id ni) \<le> 16" using s by (auto simp: slots_ok_def)
      moreover have "nd_id nd = node_id_spec e" using clients_okD(1) [OF c Some 2] .
      ultimately show ?thesis using assms(1) by (auto simp: header_ok_def)
    qed
    then have none: "\<not> list_ex (\<lambda>ni. ni_id ni = nd_id nd) (node_infos u)" by (auto simp: list_ex_iff)
    have "clients_ok e (cs_bitmask (conn u)) ((map_of (node_map u))(pk_transmitter p := None))"
      using c 2 Some by (intro clients_spectator) auto
    with assms(2,3) 2 Some st none show ?thesis by (auto simp: handle_deauthentication_def host_inv_def)
  next
    case 3
    obtain i where i: "client_at (map_of (node_map u)) (pk_transmitter p) i"
      using clients_okD(2) [OF c Some 3] by blast
    note sl = slot_of_client [OF assms(2) i]
    have id: "unat (nd_id nd) = i + 1" using i Some by (simp add: client_at_def)
    have i16: "i < 16" using sl(2) bit_imp_le_length [of "cs_bitmask (conn u)" i] by simp
    have eq: "ni_id (node_infos u ! j) = nd_id nd \<longleftrightarrow> j = i" if "j < length (node_infos u)" for j
      using sl(4) [OF that] id by (metis word_unat_eq_iff)
    have found: "list_ex (\<lambda>ni. ni_id ni = nd_id nd) (node_infos u)"
      using eq [OF sl(1)] sl(1) by (auto simp: list_ex_length)
    have upd: "update_first (\<lambda>ni. ni_id ni = nd_id nd) (node_reset e) (node_infos u)
        = (node_infos u)[i := node_reset e (node_infos u ! i)]"
      by (rule update_first_at) (use eq sl(1) in auto)
    have "ni_id (node_reset e (node_infos u ! i)) = 0" using assms(1) by (simp add: header_ok_def)
    note slots_clear [OF s sl(2,3) this, of "cs_changed (conn u) OR node_bit i"]
    moreover note clients_remove [OF c i]
    ultimately show ?thesis
      using assms(2,3) 3 Some st found upd id i16 s
      by (auto simp: handle_deauthentication_def host_inv_def upd_conn_def slots_ok_def Let_def split: if_splits)
  qed
qed (use assms in \<open>auto simp: handle_deauthentication_def split: if_splits\<close>)

lemma host_inv_frame:
  assumes "header_ok e" "host_inv e u" "on_wifi_packet e w p u = Inr u1"
  shows "host_inv e u1"
  using assms host_inv_beacon [OF assms(2), of p] host_inv_authentication [OF assms(2), of w p]
    host_inv_eapol [OF assms(2), of w p u1] host_inv_secure [OF assms(2), of w p u1]
    host_inv_deauthentication [OF assms(1,2), of p u1]
  by (auto simp: on_wifi_packet_def handle_association_response_def handle_node_map_def handle_data_def
      host_inv_def split: packet_type.splits ether_type.splits if_splits)

subsection \<open>The life of the service\<close>

text \<open>
  Every frame, every command of the game that changes the state, and the timer, in any order:
  initialising and shutting down, hosting again, destroying, connecting and disconnecting too.
\<close>

datatype host_event =
  Host_frame uds_world wifi_packet
| Host_initialize bool node_info
| Host_shutdown
| Host_begin uds_world "u8 list"
| Host_destroy
| Host_connect uds_world network_info connection_type
| Host_disconnect uds_world
| Host_status
| Host_bind u32 u32 u8 u16
| Host_unbind u32
| Host_eject uds_world u16
| Host_send uds_world u32 u8 u32 u8 "u8 list"
| Host_pull u32 u32 u32
| Host_beacons mac
| Host_app_data u32 "u8 list"
| Host_timer uds_world

definition host_step :: "frames \<Rightarrow> host_event \<Rightarrow> uds \<Rightarrow> uds_fault + uds" where
  "host_step e ev u =
     (case ev of
        Host_frame w p \<Rightarrow> on_wifi_packet e w p u
      | Host_initialize b ni \<Rightarrow> uds_initialize e b ni u
      | Host_shutdown \<Rightarrow> Inr (shutdown_hle u)
      | Host_begin w buffer \<Rightarrow> begin_hosting_network e w buffer u
      | Host_destroy \<Rightarrow> Inr (snd (destroy_network_hle e u))
      | Host_connect w nw ct \<Rightarrow> Inr (connect_to_network_hle e w nw ct u)
      | Host_disconnect w \<Rightarrow> Inr (snd (disconnect_network_hle e w u))
      | Host_status \<Rightarrow> Inr (snd (get_connection_status u))
      | Host_bind b sz ch n \<Rightarrow> map_sum id snd (bind_hle b sz ch n u)
      | Host_unbind b \<Rightarrow> Inr (unbind_hle b u)
      | Host_eject w n \<Rightarrow> Inr (snd (eject_client_hle w n u))
      | Host_send w d ch sz fl xs \<Rightarrow> map_sum id snd (send_to_hle e w d ch sz fl xs u)
      | Host_pull b m a \<Rightarrow> map_sum id snd (pull_packet_hle e b m a u)
      | Host_beacons a \<Rightarrow> Inr (snd (get_received_beacons a u))
      | Host_app_data sz xs \<Rightarrow> map_sum id snd (set_application_data e sz xs u)
      | Host_timer w \<Rightarrow> Inr (beacon_broadcast e w u))"

fun host_run :: "frames \<Rightarrow> host_event list \<Rightarrow> uds \<Rightarrow> uds_fault + uds" where
  "host_run e [] u = Inr u"
| "host_run e (ev # evs) u = (case host_step e ev u of Inl f \<Rightarrow> Inl f | Inr u1 \<Rightarrow> host_run e evs u1)"

text \<open>
  Hosting clears neither the mask nor the map of nodes.  A network begins clean when neither has
  anything left of another one, as after initialising, destroying and disconnecting.
\<close>

definition fresh_uds :: "frames \<Rightarrow> uds \<Rightarrow> bool" where
  "fresh_uds e u \<longleftrightarrow> initialized u \<and> cs_bitmask (conn u) = 0 \<and> cs_nodes (conn u) = replicate 16 0 \<and> node_map u = []"

fun begins_clean :: "frames \<Rightarrow> host_event list \<Rightarrow> uds \<Rightarrow> bool" where
  "begins_clean e [] u \<longleftrightarrow> True"
| "begins_clean e (ev # evs) u \<longleftrightarrow>
     (case ev of
        Host_begin w buffer \<Rightarrow> initialized u \<longrightarrow> fresh_uds e u \<and> unat (nw_max (network_of_bytes e buffer)) \<le> 16
      | _ \<Rightarrow> True)
     \<and> (case host_step e ev u of Inl f \<Rightarrow> True | Inr u1 \<Rightarrow> begins_clean e evs u1)"

lemma fresh_after:
  "header_ok e \<Longrightarrow> node_map u = [] \<Longrightarrow> uds_initialize e True ni u = Inr u1 \<Longrightarrow> fresh_uds e u1"
  "header_ok e \<Longrightarrow> initialized u \<Longrightarrow> destroy_network_hle e u = (Success, u1) \<Longrightarrow> fresh_uds e u1"
  "header_ok e \<Longrightarrow> initialized u \<Longrightarrow> disconnect_network_hle e w u = (r, u1) \<Longrightarrow> fresh_uds e u1"
  by (auto simp: fresh_uds_def uds_initialize_def zero_conn_def header_ok_def destroy_network_hle_def
      disconnect_network_hle_def clear_binds_def fresh_status_def emit_def send_packet_def Let_def
      split: if_splits option.splits)

lemma slots_changed: "slots_ok (c\<lparr>cs_changed := x\<rparr>) nis = slots_ok c nis"
  by (simp add: slots_ok_def)

lemma host_inv_begin:
  assumes "header_ok e" "fresh_uds e u" "begin_hosting_network e w buffer u = Inr u1"
    and "unat (nw_max (network_of_bytes e buffer)) \<le> 16"
  shows "host_inv e u1"
proof -
  let ?max = "unat (nw_max (network_of_bytes e buffer))"
  have m: "1 < ?max" using assms(3) by (auto simp: begin_hosting_network_def Let_def split: if_splits)
  have b: "bit (1 :: u16) i \<longleftrightarrow> i = 0" for i by (simp add: bit_1_iff)
  have one: "bit_count (1 :: u16) = 1" by (simp add: bit_count_card b)
  have "slots_ok (conn u1) (node_infos u1)"
    using assms m by (auto simp: begin_hosting_network_def upd_conn_def fresh_uds_def header_ok_def
        slots_ok_def nth_list_update one b Let_def split: if_splits)
  moreover have "clients_ok e (cs_bitmask (conn u1)) (map_of (node_map u1))"
    using assms m by (auto simp: begin_hosting_network_def upd_conn_def fresh_uds_def clients_ok_def
        client_at_def b Let_def split: if_splits)
  ultimately show ?thesis
    using assms m by (auto simp: begin_hosting_network_def upd_conn_def fresh_uds_def host_inv_def Let_def
        split: if_splits)
qed

text \<open>
  A host that disconnects stays a host with an empty connection: no node is in the mask, the
  counts are zero and nobody can authenticate, until the next network begins.
\<close>

definition emptied_host :: "frames \<Rightarrow> uds \<Rightarrow> bool" where
  "emptied_host e u \<longleftrightarrow>
     cs_status (conn u) = Connected_as_host \<and> fresh_uds e u \<and> cs_max (conn u) = 0 \<and> cs_total (conn u) = 0"

lemma emptied_cong:
  assumes "emptied_host e u" "conn u' = conn u" "node_map u' = node_map u" "initialized u' = initialized u"
  shows "emptied_host e u'"
  using assms by (simp add: emptied_host_def fresh_uds_def)

lemma emptied_frame:
  assumes "emptied_host e u" "on_wifi_packet e w p u = Inr u1"
  shows "emptied_host e u1"
  by (rule emptied_cong [OF assms(1)])
     (use assms in \<open>auto simp: emptied_host_def fresh_uds_def on_wifi_packet_def handle_beacon_def handle_authentication_def
        handle_association_response_def handle_data_def handle_eapol_def handle_eapol_start_def handle_secure_data_def
        handle_deauthentication_def handle_node_map_def Let_def
        split: packet_type.splits ether_type.splits if_splits option.splits\<close>)

text \<open>Commands that keep the connection, the nodes and the network.\<close>

definition quiet_command :: "host_event \<Rightarrow> bool" where
  "quiet_command ev \<longleftrightarrow>
     (case ev of Host_bind b sz ch n \<Rightarrow> True | Host_unbind b \<Rightarrow> True | Host_eject w n \<Rightarrow> True
      | Host_send w d ch sz fl xs \<Rightarrow> True | Host_pull b m a \<Rightarrow> True | Host_beacons a \<Rightarrow> True
      | Host_timer w \<Rightarrow> True | _ \<Rightarrow> False)"

lemma quiet_step:
  assumes "quiet_command ev" "host_step e ev u = Inr u1"
  shows "conn u1 = conn u \<and> node_infos u1 = node_infos u \<and> node_map u1 = node_map u \<and> net u1 = net u
    \<and> initialized u1 = initialized u"
proof (cases ev)
  case (Host_pull b m a)
  show ?thesis
    by (use assms(2) Host_pull in \<open>auto simp: host_step_def pull_packet_hle_def Let_def
          split: if_splits option.splits list.splits prod.splits\<close>)
qed (use assms in \<open>auto simp: quiet_command_def host_step_def bind_hle_def unbind_hle_def
      eject_client_hle_def send_to_hle_def get_received_beacons_def beacon_broadcast_def Let_def
      split: if_splits option.splits\<close>)

lemma host_inv_frames:
  "header_ok e \<Longrightarrow> host_inv e u \<Longrightarrow> host_run e (map (\<lambda>(w, p). Host_frame w p) fs) u = Inr u1 \<Longrightarrow> host_inv e u1"
  by (induction fs arbitrary: u) (auto simp: host_step_def split: sum.splits dest: host_inv_frame)

text \<open>A console that hosts is consistent, or it has disconnected as host.\<close>

definition hosting :: "uds \<Rightarrow> bool" where
  "hosting u \<longleftrightarrow> initialized u \<and> cs_status (conn u) = Connected_as_host"

definition host_state :: "frames \<Rightarrow> uds \<Rightarrow> bool" where
  "host_state e u \<longleftrightarrow> (hosting u \<longrightarrow> host_inv e u \<or> emptied_host e u)"

text \<open>Only beginning a network makes a console a host.\<close>

lemma store_nodes_status: "store_nodes nis ch u = Inr u1 \<Longrightarrow> cs_status (conn u1) = cs_status (conn u) \<and> initialized u1 = initialized u
    \<and> conn_type u1 = conn_type u"
  by (induction nis ch u rule: store_nodes.induct) (auto simp: upd_conn_def Let_def split: if_splits)

lemma frame_not_host:
  assumes "on_wifi_packet e w p u = Inr u1" "hosting u1"
  shows "hosting u"
proof (rule ccontr)
  assume n: "\<not> hosting u"
  then have i: "initialized u" "cs_status (conn u) \<noteq> Connected_as_host"
    using assms by (auto simp: on_wifi_packet_def hosting_def split: if_splits)
  have l: "\<not> hosting u1" if "handle_logoff_connecting e p u = Inr u1"
    using that i by (auto simp: handle_logoff_connecting_def hosting_def upd_conn_def Let_def split: sum.splits if_splits
        dest!: store_nodes_status)
  have l2: "\<not> hosting u1" if "handle_logoff_connected e p u = Inr u1"
    using that i by (auto simp: handle_logoff_connected_def hosting_def upd_conn_def Let_def split: sum.splits
        dest!: store_nodes_status)
  show False
    using assms i l l2
    by (auto simp: on_wifi_packet_def handle_beacon_def handle_authentication_def
        handle_association_response_def handle_data_def handle_eapol_def handle_eapol_start_def handle_secure_data_def
        handle_deauthentication_def handle_node_map_def hosting_def Let_def
        split: packet_type.splits ether_type.splits if_splits option.splits sum.splits)
qed

lemma host_state_step:
  assumes "header_ok e" "host_state e u" "host_step e ev u = Inr u1" "begins_clean e [ev] u"
  shows "host_state e u1"
proof -
  consider (frame) w p where "ev = Host_frame w p" | (quiet) "quiet_command ev" | (start) w buffer where "ev = Host_begin w buffer"
    | (status) "ev = Host_status" | (data) sz xs where "ev = Host_app_data sz xs"
    | (init) b ni where "ev = Host_initialize b ni" | (shutdown) "ev = Host_shutdown" | (destroy) "ev = Host_destroy"
    | (connect) w nw ct where "ev = Host_connect w nw ct" | (leave) w where "ev = Host_disconnect w"
    by (cases ev) (simp_all add: quiet_command_def)
  then show ?thesis
  proof cases
    case frame
    with assms(3) have "on_wifi_packet e w p u = Inr u1" by (simp add: host_step_def)
    then show ?thesis
      using assms(2) frame_not_host host_inv_frame [OF assms(1)] emptied_frame unfolding host_state_def by blast
  next
    case quiet
    note q = quiet_step [OF quiet assms(3)]
    then show ?thesis using assms(2) host_inv_cong emptied_cong unfolding host_state_def hosting_def by metis
  next
    case start
    have "host_inv e u1" if "hosting u1"
      by (rule host_inv_begin [OF assms(1), of u w buffer])
         (use assms(3,4) start that in \<open>auto simp: host_step_def hosting_def begin_hosting_network_def upd_conn_def Let_def
            split: if_splits\<close>)
    then show ?thesis by (simp add: host_state_def)
  next
    case status
    with assms(2,3) show ?thesis
      by (auto simp: host_state_def hosting_def host_step_def get_connection_status_def upd_conn_def host_inv_def
          slots_changed emptied_host_def fresh_uds_def)
  next
    case data
    with assms(2,3) show ?thesis
      by (auto simp: host_state_def hosting_def host_step_def set_application_data_def host_inv_def
          emptied_host_def fresh_uds_def split: if_splits)
  next
    case leave
    with assms(3) have "hosting u1 \<Longrightarrow> emptied_host e u1"
      using assms(1)
      by (auto simp: host_step_def hosting_def emptied_host_def fresh_uds_def header_ok_def disconnect_network_hle_def
          fresh_status_def clear_binds_def zero_conn_def Let_def split: if_splits)
    then show ?thesis by (simp add: host_state_def)
  next
    case destroy
    with assms(3) show ?thesis unfolding host_state_def
      by (cases "cs_status (conn u) = Connected_as_host")
         (auto simp: host_step_def hosting_def destroy_network_hle_def fresh_status_def clear_binds_def Let_def)
  qed (use assms(3) in \<open>auto simp: host_state_def host_step_def hosting_def uds_initialize_def zero_conn_def
      shutdown_hle_def connect_to_network_hle_def start_connection_sequence_def upd_conn_def split: if_splits\<close>)
qed

lemma host_state_run:
  "header_ok e \<Longrightarrow> host_state e u \<Longrightarrow> begins_clean e evs u \<Longrightarrow> host_run e evs u = Inr u1 \<Longrightarrow> host_state e u1"
  by (induction evs arbitrary: u) (auto split: sum.splits dest: host_state_step)

end
