(* ===== verification/Uds_Data.thy ===== *)
theory Uds_Data
  imports Main Uds_Commands
begin

text \<open>
  The contract of a channel that hands out messages in the order they arrive: its specification as a
  queue, the interface of an implementation, and that an implementation answers every interleaving
  of arrivals and pulls as the queue does.
\<close>

datatype 'm queue_op = Arrives 'm | Pulled

text \<open>The queue: what the pulls of a sequence of operations return, and what is left.\<close>

fun queue_run :: "'m queue_op list \<Rightarrow> 'm list \<Rightarrow> 'm option list \<times> 'm list" where
  "queue_run [] q = ([], q)"
| "queue_run (Arrives m # ops) q = queue_run ops (q @ [m])"
| "queue_run (Pulled # ops) [] = map_prod (\<lambda>rs. None # rs) id (queue_run ops [])"
| "queue_run (Pulled # ops) (m # q) = map_prod (\<lambda>rs. Some m # rs) id (queue_run ops q)"

fun arrivals :: "'m queue_op list \<Rightarrow> 'm list" where
  "arrivals [] = []"
| "arrivals (Arrives m # ops) = m # arrivals ops"
| "arrivals (Pulled # ops) = arrivals ops"

text \<open>A channel that is driven by the operations, as long as none of them fails.\<close>

fun channel_run ::
    "('p \<Rightarrow> 's \<Rightarrow> 'e + 's) \<Rightarrow> ('s \<Rightarrow> 'e + 'm option \<times> 's) \<Rightarrow> 'p queue_op list \<Rightarrow> 's \<Rightarrow> 'e + 'm option list \<times> 's" where
  "channel_run arrive pull [] s = Inr ([], s)"
| "channel_run arrive pull (Arrives p # ops) s =
     (case arrive p s of Inl x \<Rightarrow> Inl x | Inr s1 \<Rightarrow> channel_run arrive pull ops s1)"
| "channel_run arrive pull (Pulled # ops) s =
     (case pull s of
        Inl x \<Rightarrow> Inl x
      | Inr (r, s1) \<Rightarrow> map_sum id (map_prod (\<lambda>rs. r # rs) id) (channel_run arrive pull ops s1))"

text \<open>Operations with the messages replaced by what carries them.\<close>

fun with_carriers :: "'m queue_op list \<Rightarrow> 'p list \<Rightarrow> 'p queue_op list" where
  "with_carriers [] ps = []"
| "with_carriers (Pulled # ops) ps = Pulled # with_carriers ops ps"
| "with_carriers (Arrives m # ops) (p # ps) = Arrives p # with_carriers ops ps"
| "with_carriers (Arrives m # ops) [] = []"

lemma arrivals_carriers: "length ps = length (arrivals ops) \<Longrightarrow> arrivals (with_carriers ops ps) = ps"
  by (induction ops ps rule: with_carriers.induct) auto

locale message_channel =
  fixes holds :: "'m list \<Rightarrow> 's \<Rightarrow> bool"
    and carries :: "'p \<Rightarrow> 'm \<Rightarrow> bool"
    and arrive :: "'p \<Rightarrow> 's \<Rightarrow> 'e + 's"
    and pull :: "'s \<Rightarrow> 'e + 'm option \<times> 's"
  assumes arrive_law: "holds q s \<Longrightarrow> carries p m \<Longrightarrow> \<exists>s1. arrive p s = Inr s1 \<and> holds (q @ [m]) s1"
    and pull_law: "holds (m # q) s \<Longrightarrow> \<exists>s1. pull s = Inr (Some m, s1) \<and> holds q s1"
    and pull_empty_law: "holds [] s \<Longrightarrow> \<exists>s1. pull s = Inr (None, s1) \<and> holds [] s1"
begin

lemma refines_queue:
  assumes "holds q s" "list_all2 carries ps (arrivals ops)"
  shows "\<exists>s1. channel_run arrive pull (with_carriers ops ps) s = Inr (fst (queue_run ops q), s1)
    \<and> holds (snd (queue_run ops q)) s1"
  using assms
proof (induction ops q arbitrary: ps s rule: queue_run.induct)
  case (2 m ops q)
  then obtain p ps' where p: "ps = p # ps'" "carries p m" "list_all2 carries ps' (arrivals ops)"
    by (auto simp: list_all2_Cons2)
  obtain s1 where "arrive p s = Inr s1" "holds (q @ [m]) s1" using arrive_law [OF 2(2) p(2)] by blast
  with 2(1) [of s1 ps'] p show ?case by auto
next
  case (3 ops)
  obtain s1 where "pull s = Inr (None, s1)" "holds [] s1" using pull_empty_law [OF 3(2)] by blast
  with 3(1) [of s1 ps] 3(3) show ?case by auto
next
  case (4 ops m q)
  obtain s1 where "pull s = Inr (Some m, s1)" "holds q s1" using pull_law [OF 4(2)] by blast
  with 4(1) [of s1 ps] 4(3) show ?case by auto
qed auto

end

section \<open>Channels of the service\<close>

text \<open>
  Data from one console to another: what is asked of the frames, the queue of a bound channel, and
  that data is pulled in the order and with the bytes it was sent.  At the end there are concrete
  frames, for the witnesses.
\<close>

subsection \<open>What is asked of data frames\<close>

text \<open>A data frame that was made for some data reads back as that data and its header.\<close>

definition secure_ok :: "frames \<Rightarrow> bool" where
  "secure_ok e \<longleftrightarrow>
     (\<forall>xs ch dest src sq. length xs \<le> max_send_size \<longrightarrow>
        ether_type_of e (data_payload e xs ch dest src sq) = Ether_secure
        \<and> read_secure e (data_payload e xs ch dest src sq)
            = \<lparr>se_src = src, se_dest = dest, se_channel = ch, se_management = False, se_size = length xs\<rparr>
        \<and> (\<exists>hd tl. data_payload e xs ch dest src sq = hd @ xs @ tl \<and> length hd = payload_offset e))"

lemma secure_okD:
  assumes "secure_ok e" "length xs \<le> max_send_size"
  shows "ether_type_of e (data_payload e xs ch dest src sq) = Ether_secure"
    and "read_secure e (data_payload e xs ch dest src sq)
           = \<lparr>se_src = src, se_dest = dest, se_channel = ch, se_management = False, se_size = length xs\<rparr>"
    and "take (length xs) (drop (payload_offset e) (data_payload e xs ch dest src sq)) = xs"
    and "payload_offset e + length xs \<le> length (data_payload e xs ch dest src sq)"
proof -
  from assms obtain hd tl where "data_payload e xs ch dest src sq = hd @ xs @ tl" "length hd = payload_offset e"
    unfolding secure_ok_def by blast
  then show "take (length xs) (drop (payload_offset e) (data_payload e xs ch dest src sq)) = xs"
    "payload_offset e + length xs \<le> length (data_payload e xs ch dest src sq)" by simp_all
qed (use assms in \<open>simp_all add: secure_ok_def\<close>)

subsection \<open>The queue of a channel\<close>

lemma put_by_present:
  fixes k :: "'k :: linorder"
  assumes "sorted_wrt (<) (map fst xs)" "k \<in> fst ` set xs"
  shows "put_by (<) k v xs = map (\<lambda>x. if fst x = k then (k, v) else x) xs"
  using assms
proof (induction xs)
  case (Cons x xs)
  have "map (\<lambda>y. if fst y = k then (k, v) else y) xs = xs" if "fst x = k"
    by (rule map_idI) (use Cons.prems(1) that in auto)
  moreover have "\<not> k < fst x" using Cons.prems by auto
  ultimately show ?case using Cons by (cases x) auto
qed simp

definition bound_queue :: "u32 \<Rightarrow> u8 \<Rightarrow> u16 \<Rightarrow> u8 list list \<Rightarrow> uds \<Rightarrow> bool" where
  "bound_queue bid ch n q u \<longleftrightarrow>
     sorted_wrt (<) (map fst (binds u))
     \<and> (\<exists>b. find (\<lambda>x. bn_id (snd x) = bid) (binds u) = Some (ch, b) \<and> bn_node b = n \<and> bn_packets b = q)"

lemma bound_queueE:
  assumes "bound_queue bid ch n q u"
  obtains b where "sorted_wrt (<) (map fst (binds u))" "find (\<lambda>x. bn_id (snd x) = bid) (binds u) = Some (ch, b)"
    "bn_node b = n" "bn_packets b = q" "bn_id b = bid" "map_of (binds u) ch = Some b"
proof -
  obtain b where b: "sorted_wrt (<) (map fst (binds u))" "find (\<lambda>x. bn_id (snd x) = bid) (binds u) = Some (ch, b)"
    "bn_node b = n" "bn_packets b = q" using assms by (auto simp: bound_queue_def)
  obtain i where i: "i < length (binds u)" "binds u ! i = (ch, b)" "bn_id (snd (binds u ! i)) = bid"
    using b(2) unfolding find_Some_iff by metis
  then have s: "(ch, b) \<in> set (binds u)" "bn_id b = bid" by (metis nth_mem, simp)
  moreover have "distinct (map fst (binds u))" using b(1) strict_sorted_iff by blast
  ultimately have "map_of (binds u) ch = Some b" by simp
  with that b s show ?thesis by blast
qed

lemma bound_queue_put:
  assumes "bound_queue bid ch n q u" "map_of (binds u) ch = Some b"
    and "binds v = put_by (<) ch (b\<lparr>bn_packets := q1\<rparr>) (binds u)"
  shows "bound_queue bid ch n q1 v"
proof -
  let ?b = "b\<lparr>bn_packets := q1\<rparr>"
  obtain b' where b: "sorted_wrt (<) (map fst (binds u))" "find (\<lambda>x. bn_id (snd x) = bid) (binds u) = Some (ch, b')"
    "bn_node b' = n" "bn_id b' = bid" "map_of (binds u) ch = Some b'" using assms(1) by (rule bound_queueE)
  with assms(2) have bb: "b' = b" by simp
  let ?f = "\<lambda>x. if fst x = ch then (ch, ?b) else x"
  have k: "ch \<in> fst ` set (binds u)" using assms(2) by (metis domI dom_map_of_conv_image_fst)
  have p: "binds v = map ?f (binds u)" unfolding assms(3) by (rule put_by_present [OF b(1) k])
  have "map fst (map ?f (binds u)) = map fst (binds u)" by (auto simp: comp_def)
  then have "sorted_wrt (<) (map fst (binds v))" using b(1) p by (metis (no_types, lifting))
  moreover have "find (\<lambda>x. bn_id (snd x) = bid) (map ?f xs) = map_option ?f (find (\<lambda>x. bn_id (snd x) = bid) xs)"
    if "\<And>c. (ch, c) \<in> set xs \<Longrightarrow> c = b" for xs
    using that bb b(4) by (induction xs) (auto, metis)
  moreover have "c = b" if "(ch, c) \<in> set (binds u)" for c
    using that assms(2) strict_sorted_iff b(1) by (metis map_of_eq_Some_iff option.inject)
  ultimately show ?thesis unfolding bound_queue_def p using b bb by auto
qed

subsection \<open>Many messages\<close>

text \<open>A game that sends one message after the other, as long as nothing goes wrong.\<close>

fun send_all :: "frames \<Rightarrow> uds_world \<Rightarrow> u32 \<Rightarrow> u8 \<Rightarrow> u8 \<Rightarrow> u8 list list \<Rightarrow> uds \<Rightarrow> uds_fault + uds_result \<times> uds" where
  "send_all e w dest ch fl [] u = Inr (Success, u)"
| "send_all e w dest ch fl (xs # xss) u =
     (case send_to_hle e w dest ch (of_nat (length xs)) fl xs u of
        Inl f \<Rightarrow> Inl f
      | Inr (r, u1) \<Rightarrow> if r = Success then send_all e w dest ch fl xss u1 else Inr (r, u1))"

text \<open>
  The channel as a queue of messages: a frame arrives, and a pull gives the bytes it is told of, or
  nothing if there was no header.
\<close>

definition channel_arrive :: "frames \<Rightarrow> uds_world \<Rightarrow> wifi_packet \<Rightarrow> uds \<Rightarrow> (uds_fault + uds_result) + uds" where
  "channel_arrive e w p u = map_sum Inl id (on_wifi_packet e w p u)"

definition channel_pull ::
    "frames \<Rightarrow> u32 \<Rightarrow> u32 \<Rightarrow> u32 \<Rightarrow> uds \<Rightarrow> (uds_fault + uds_result) + u8 list option \<times> uds" where
  "channel_pull e bid sz al u =
     (case pull_packet_hle e bid sz al u of
        Inl f \<Rightarrow> Inl (Inl f)
      | Inr (Inl r, u1) \<Rightarrow> Inl (Inr r)
      | Inr (Inr (k, buf, hdr), u1) \<Rightarrow> Inr (if hdr = None then None else Some (take k buf), u1))"

lemma send_one:
  assumes "send_to_hle e w dest ch (of_nat (length xs)) fl xs u = Inr (Success, u1)"
    and "length xs \<le> max_send_size" "uw_room w = Some m"
  shows "\<exists>p. outs u1 = outs u @ [Sent p] \<and> pk_type p = Data_frame \<and> conn u1 = conn u
    \<and> pk_data p = data_payload e xs ch (ucast dest) (cs_node_id (conn u)) 0"
proof -
  have "unat (of_nat (length xs) :: u32) = length xs"
    using assms(2) by (simp add: unsigned_of_nat take_bit_nat_eq_self max_send_size_def)
  with assms show ?thesis
    by (auto simp: send_to_hle_def send_packet_def frame_def emit_def split: if_splits option.splits)
qed

lemma send_all_frames:
  assumes "send_all e w dest ch fl xss u = Inr (Success, u1)"
    and "\<forall>xs\<in>set xss. length xs \<le> max_send_size" "uw_room w = Some m"
  shows "\<exists>ps. outs u1 = outs u @ map Sent ps
    \<and> list_all2 (\<lambda>p xs. pk_type p = Data_frame
        \<and> pk_data p = data_payload e xs ch (ucast dest) (cs_node_id (conn u)) 0) ps xss"
  using assms(1,2)
proof (induction xss arbitrary: u)
  case (Cons xs xss)
  obtain u2 where u2: "send_to_hle e w dest ch (of_nat (length xs)) fl xs u = Inr (Success, u2)"
    "send_all e w dest ch fl xss u2 = Inr (Success, u1)"
    using Cons.prems(1) by (auto split: sum.splits prod.splits if_splits)
  obtain p where "outs u2 = outs u @ [Sent p]" "pk_type p = Data_frame" "conn u2 = conn u"
    "pk_data p = data_payload e xs ch (ucast dest) (cs_node_id (conn u)) 0"
    using send_one [OF u2(1) _ assms(3)] Cons.prems(2) by auto
  moreover from this Cons.IH [OF u2(2)] Cons.prems(2) obtain ps where "outs u1 = outs u2 @ map Sent ps"
    "list_all2 (\<lambda>p xs. pk_type p = Data_frame
        \<and> pk_data p = data_payload e xs ch (ucast dest) (cs_node_id (conn u)) 0) ps xss" by auto
  ultimately show ?case by (intro exI [of _ "p # ps"]) simp
qed simp

lemma receive_one:
  assumes "secure_ok e" "initialized v" "connected_somehow (cs_status (conn v))"
    and "bound_queue bid ch n q v" "length xs \<le> max_send_size" "pk_type p = Data_frame"
    and "pk_data p = data_payload e xs ch dest src sq" "src \<noteq> cs_node_id (conn v)"
    and "dest = cs_node_id (conn v) \<or> dest = broadcast_node_id" "n = src \<or> n = broadcast_node_id"
  shows "\<exists>v1. on_wifi_packet e w p v = Inr v1 \<and> initialized v1 \<and> conn v1 = conn v
    \<and> bound_queue bid ch n (q @ [pk_data p]) v1"
proof -
  obtain b where b: "bn_node b = n" "bn_packets b = q" "map_of (binds v) ch = Some b"
    using assms(4) by (rule bound_queueE)
  let ?v = "emit [Signal_bind ch] (v\<lparr>binds := put_by (<) ch (b\<lparr>bn_packets := bn_packets b @ [pk_data p]\<rparr>) (binds v)\<rparr>)"
  have "on_wifi_packet e w p v = Inr ?v"
    using assms(2,3,6,8-10) b secure_okD(1,2) [OF assms(1,5)]
    by (auto simp: on_wifi_packet_def handle_data_def handle_secure_data_def assms(7) Let_def)
  moreover have "bound_queue bid ch n (q @ [pk_data p]) ?v"
    by (rule bound_queue_put [OF assms(4) b(3)]) (simp add: emit_def b(2))
  ultimately show ?thesis using assms(2) by (auto simp: emit_def)
qed

lemma pull_one:
  assumes "secure_ok e" "connected_somehow (cs_status (conn v))" "bound_queue bid ch n (d # q) v"
    and "d = data_payload e xs ch dest src sq" "length xs \<le> max_send_size"
    and "length xs \<le> unat sz" "length xs \<le> 4 * unat al"
  shows "\<exists>v1. channel_pull e bid sz al v = Inr (Some xs, v1) \<and> conn v1 = conn v \<and> initialized v1 = initialized v
    \<and> bound_queue bid ch n q v1"
proof -
  obtain b where b: "find (\<lambda>x. bn_id (snd x) = bid) (binds v) = Some (ch, b)" "bn_packets b = d # q"
    "map_of (binds v) ch = Some b" using assms(3) by (rule bound_queueE)
  let ?v = "v\<lparr>binds := put_by (<) ch (b\<lparr>bn_packets := q\<rparr>) (binds v)\<rparr>"
  have "length xs \<le> 4 * min (unat al) 0x172" using assms(5,7) by (simp add: max_send_size_def min_def)
  moreover have "bound_queue bid ch n q ?v" by (rule bound_queue_put [OF assms(3) b(3)]) simp
  ultimately show ?thesis
    using assms(2,6) b secure_okD [OF assms(1,5), of ch dest src sq]
    by (auto simp: channel_pull_def pull_packet_hle_def Let_def assms(4))
qed

lemma pull_nothing:
  assumes "connected_somehow (cs_status (conn v))" "bound_queue bid ch n [] v"
  shows "channel_pull e bid sz al v = Inr (None, v)"
proof -
  obtain b where "find (\<lambda>x. bn_id (snd x) = bid) (binds v) = Some (ch, b)" "bn_packets b = []"
    using assms(2) by (rule bound_queueE)
  with assms(1) show ?thesis by (auto simp: channel_pull_def pull_packet_hle_def Let_def)
qed

text \<open>
  A console \<open>me\<close> with a channel bound to the sender or to all, and what messages fit the sender, the
  largest message and the receiver's buffer.
\<close>

definition listens :: "u16 \<Rightarrow> uds \<Rightarrow> bool" where
  "listens me v \<longleftrightarrow> initialized v \<and> connected_somehow (cs_status (conn v)) \<and> cs_node_id (conn v) = me"

definition message_fits :: "u32 \<Rightarrow> u32 \<Rightarrow> u8 list \<Rightarrow> bool" where
  "message_fits sz al xs \<longleftrightarrow> length xs \<le> max_send_size \<and> length xs \<le> unat sz \<and> length xs \<le> 4 * unat al"

definition data_carried :: "frames \<Rightarrow> u8 \<Rightarrow> u16 \<Rightarrow> u16 \<Rightarrow> wifi_packet \<Rightarrow> u8 list \<Rightarrow> bool" where
  "data_carried e ch dest src p xs \<longleftrightarrow> pk_type p = Data_frame \<and> pk_data p = data_payload e xs ch dest src 0"

definition channel_holds ::
    "frames \<Rightarrow> u32 \<Rightarrow> u8 \<Rightarrow> u16 \<Rightarrow> u16 \<Rightarrow> u16 \<Rightarrow> u16 \<Rightarrow> u32 \<Rightarrow> u32 \<Rightarrow> u8 list list \<Rightarrow> uds \<Rightarrow> bool" where
  "channel_holds e bid ch n dest src me sz al q v \<longleftrightarrow>
     secure_ok e \<and> src \<noteq> me \<and> (dest = me \<or> dest = broadcast_node_id) \<and> (n = src \<or> n = broadcast_node_id)
     \<and> listens me v \<and> (\<forall>xs\<in>set q. message_fits sz al xs)
     \<and> bound_queue bid ch n (map (\<lambda>xs. data_payload e xs ch dest src 0) q) v"

interpretation uds_channel: message_channel "channel_holds e bid ch n dest src me sz al"
    "\<lambda>p xs. data_carried e ch dest src p xs \<and> message_fits sz al xs" "channel_arrive e w" "channel_pull e bid sz al"
  for e bid ch n dest src me sz al w
proof
  show "\<exists>v1. channel_arrive e w p v = Inr v1 \<and> channel_holds e bid ch n dest src me sz al (q @ [xs]) v1"
    if h: "channel_holds e bid ch n dest src me sz al q v"
      and c: "data_carried e ch dest src p xs \<and> message_fits sz al xs" for q v p xs
  proof -
    note h' = h [unfolded channel_holds_def listens_def] and c' = c [unfolded data_carried_def message_fits_def]
    have "\<exists>v1. on_wifi_packet e w p v = Inr v1 \<and> initialized v1 \<and> conn v1 = conn v
        \<and> bound_queue bid ch n (map (\<lambda>xs. data_payload e xs ch dest src 0) q @ [pk_data p]) v1"
      by (rule receive_one [where xs = xs and dest = dest and src = src and sq = 0]) (use h' c' in auto)
    then obtain v1 where v1: "on_wifi_packet e w p v = Inr v1" "initialized v1" "conn v1 = conn v"
      "bound_queue bid ch n (map (\<lambda>xs. data_payload e xs ch dest src 0) q @ [pk_data p]) v1" by blast
    then have "channel_holds e bid ch n dest src me sz al (q @ [xs]) v1"
      unfolding channel_holds_def listens_def using h' c c' by simp
    with v1(1) show ?thesis by (simp add: channel_arrive_def)
  qed
  show "\<exists>v1. channel_pull e bid sz al v = Inr (Some xs, v1) \<and> channel_holds e bid ch n dest src me sz al q v1"
    if h: "channel_holds e bid ch n dest src me sz al (xs # q) v" for xs q v
  proof -
    note h' = h [unfolded channel_holds_def listens_def]
    have m: "message_fits sz al xs" using h' by simp
    have "bound_queue bid ch n (data_payload e xs ch dest src 0 # map (\<lambda>xs. data_payload e xs ch dest src 0) q) v"
      using h' by simp
    from pull_one [OF _ _ this refl, of sz al] h' m [unfolded message_fits_def] show ?thesis
      unfolding channel_holds_def listens_def by auto
  qed
  show "\<exists>v1. channel_pull e bid sz al v = Inr (None, v1) \<and> channel_holds e bid ch n dest src me sz al [] v1"
    if h: "channel_holds e bid ch n dest src me sz al [] v" for v
    using pull_nothing [of v bid ch n e sz al] h by (auto simp: channel_holds_def listens_def)
qed

subsection \<open>Concrete frames\<close>

definition plain_node_info :: node_info where
  "plain_node_info = \<lparr>ni_seed = 0, ni_username = [], ni_id = 0\<rparr>"

definition plain_network :: "u8 \<Rightarrow> network_info" where
  "plain_network m = \<lparr>nw_host = [], nw_channel = 0, nw_id = 7, nw_total = 0, nw_max = m, nw_app_size = 0,
     nw_app_data = [], nw_tagged = False\<rparr>"

text \<open>
  The first byte tells data from the rest, the second the start of a connection from its end.  A
  beacon's network has as many nodes as its first byte says.
\<close>

definition plain_frames :: frames where
  "plain_frames = \<lparr>
     assoc_successful = (\<lambda>d. True), assoc_id = (\<lambda>d. 1),
     ether_type_of = (\<lambda>d. if take 1 d = [1] then Ether_eapol else if take 1 d = [2] then Ether_secure else Ether_other),
     is_eapol_start = (\<lambda>d. take 1 (drop 1 d) = [1]),
     eapol_start_frame = (\<lambda>a ct ni. [1, 1]),
     read_eapol_start = (\<lambda>d. (plain_node_info, Client)),
     eapol_logoff_frame = (\<lambda>a n nis mx tot. [1, 2]),
     read_eapol_logoff = (\<lambda>d. \<lparr>lo_assigned = of_nat (le_value (take 2 (drop 2 d))), lo_connected = 2, lo_max = 2,
        lo_nodes = [plain_node_info\<lparr>ni_id := of_nat (le_value (take 2 (drop 2 d)))\<rparr>]\<rparr>),
     auth_frame = (\<lambda>n. le_bytes 2 n), auth_seq = (\<lambda>d. le_value (take 2 d)),
     assoc_response_frame = (\<lambda>a n. []),
     data_payload = (\<lambda>xs ch dest src sq.
        [2] @ le_bytes 2 (unat src) @ le_bytes 2 (unat dest) @ [ch] @ le_bytes 2 (length xs) @ xs),
     read_secure = (\<lambda>d. \<lparr>se_src = of_nat (le_value (take 2 (drop 1 d))), se_dest = of_nat (le_value (take 2 (drop 3 d))),
        se_channel = (if drop 5 d = [] then 0 else hd (drop 5 d)), se_management = False,
        se_size = le_value (take 2 (drop 6 d))\<rparr>),
     beacon_frame = (\<lambda>nw nis. []),
     network_of_bytes = (\<lambda>d. plain_network (if d = [] then 0 else hd d)),
     node_default = plain_node_info, node_reset = (\<lambda>ni. plain_node_info), node_id_spec = 17,
     uds_max_nodes = 16, payload_offset = 8, default_channel = 11, app_data_size = 200\<rparr>"

definition plain_uds :: uds where
  "plain_uds = \<lparr>initialized = True, current_node = plain_node_info, conn = zero_conn plain_frames, node_map = [],
     node_infos = [plain_node_info], net = plain_network 0, channel = 11, conn_type = Client, beacons = [],
     binds = [], outs = []\<rparr>"

lemma plain_secure_ok: "secure_ok plain_frames"
proof -
  have n: "le_value (le_bytes 2 (length xs)) = length xs" if "length xs \<le> max_send_size" for xs :: "u8 list"
    using that by (simp add: le_value_bytes max_send_size_def del: le_bytes.simps)
  have "\<exists>hd tl. data_payload plain_frames xs ch dest src sq = hd @ xs @ tl \<and> length hd = payload_offset plain_frames"
    for xs ch dest src sq
    by (rule exI [of _ "[2] @ le_bytes 2 (unat src) @ le_bytes 2 (unat dest) @ [ch] @ le_bytes 2 (length xs)"],
        rule exI [of _ "[]"]) (simp add: plain_frames_def del: le_bytes.simps)
  then show ?thesis
    by (auto simp: secure_ok_def plain_frames_def le_value_id n simp del: le_bytes.simps)
qed

end
