(* ===== verification/Uds_Properties.thy ===== *)
theory Uds_Properties
  imports Uds_Host Uds_Data
begin

text \<open>
  The properties of the local wireless service: a hosted network stays consistent, the map of
  nodes is read as it was sent, and data is pulled as it was sent; and the frames and sizes that
  make the service fail.
\<close>

unbundle bit_operations_syntax

subsection \<open>A hosted network\<close>

definition clients :: "uds \<Rightarrow> mac set" where
  "clients u = {a. \<exists>nd. map_of (node_map u) a = Some nd \<and> nd_connected nd \<and> \<not> nd_spec nd}"

definition client_id :: "uds \<Rightarrow> mac \<Rightarrow> nat" where
  "client_id u a = (case map_of (node_map u) a of Some nd \<Rightarrow> unat (nd_id nd) | None \<Rightarrow> 0)"

lemma client_slot:
  assumes "host_inv e u" "a \<in> clients u"
  shows "client_at (map_of (node_map u)) a (client_id u a - 1)" "2 \<le> client_id u a"
proof -
  from assms(2) obtain nd where nd: "map_of (node_map u) a = Some nd" "nd_connected nd" "\<not> nd_spec nd"
    by (auto simp: clients_def)
  have c: "clients_ok e (cs_bitmask (conn u)) (map_of (node_map u))" using assms(1) by (simp add: host_inv_def)
  obtain i where i: "1 \<le> i" "client_at (map_of (node_map u)) a i" using clients_okD(2) [OF c nd] by blast
  then have "client_id u a = i + 1" using nd by (auto simp: client_id_def client_at_def)
  with i show "client_at (map_of (node_map u)) a (client_id u a - 1)" "2 \<le> client_id u a" by simp_all
qed

lemma clients_card:
  assumes "host_inv e u"
  shows "unat (cs_total (conn u)) = Suc (card (clients u))"
proof -
  let ?bm = "cs_bitmask (conn u)" and ?nm = "map_of (node_map u)"
  have c: "clients_ok e ?bm ?nm" and s: "slots_ok (conn u) (node_infos u)"
    using assms by (simp_all add: host_inv_def)
  have "bij_betw (\<lambda>a. client_id u a - 1) (clients u) {i. bit ?bm i \<and> 1 \<le> i}"
  proof (rule bij_betw_imageI)
    show "inj_on (\<lambda>a. client_id u a - 1) (clients u)"
      by (rule inj_onI) (use client_slot(1) [OF assms] clients_okD(4) [OF c] in metis)
    have "\<exists>a\<in>clients u. client_id u a - 1 = i" if i: "bit ?bm i" "1 \<le> i" for i
    proof -
      from clients_okD(3) [OF c i(2,1)] obtain a where "client_at ?nm a i" by blast
      then show ?thesis by (intro bexI [of _ a]) (auto simp: client_at_def client_id_def clients_def)
    qed
    then show "(\<lambda>a. client_id u a - 1) ` clients u = {i. bit ?bm i \<and> 1 \<le> i}"
      using client_at_bit [OF c client_slot(1) [OF assms]] by fastforce
  qed
  then have "card (clients u) = card {i. bit ?bm i \<and> 1 \<le> i}" by (rule bij_betw_same_card)
  moreover have "{i. bit ?bm i} = insert 0 {i. bit ?bm i \<and> 1 \<le> i}"
    using s by (auto simp: slots_ok_def not_less_eq_eq)
  moreover have "finite {i. bit ?bm i \<and> 1 \<le> i}" by (rule finite_subset [OF _ finite_bits]) auto
  ultimately have "bit_count ?bm = Suc (card (clients u))" by (simp add: bit_count_card)
  then show ?thesis using s by (simp add: slots_ok_def)
qed

lemma host_inv_counts:
  assumes h: "host_inv e u1"
  shows "unat (cs_total (conn u1)) = Suc (card (clients u1))" "nw_total (net u1) = cs_total (conn u1)"
    and "cs_total (conn u1) \<le> cs_max (conn u1)"
    and "\<forall>a\<in>clients u1. 2 \<le> client_id u1 a \<and> client_id u1 a \<le> unat (cs_max (conn u1))"
    and "inj_on (client_id u1) (clients u1)"
    and "\<forall>i<16. bit (cs_bitmask (conn u1)) i \<longleftrightarrow> i = 0 \<or> i + 1 \<in> client_id u1 ` clients u1"
    and "\<forall>i<16. unat (cs_nodes (conn u1) ! i) = (if bit (cs_bitmask (conn u1)) i then i + 1 else 0)"
proof -
  let ?bm = "cs_bitmask (conn u1)" and ?nm = "map_of (node_map u1)"
  have c: "clients_ok e ?bm ?nm" and s: "slots_ok (conn u1) (node_infos u1)" and n: "nw_total (net u1) = cs_total (conn u1)"
    using h by (simp_all add: host_inv_def)
  show "unat (cs_total (conn u1)) = Suc (card (clients u1))" by (rule clients_card [OF h])
  show "nw_total (net u1) = cs_total (conn u1)" by (rule n)
  have "{i. bit ?bm i} \<subseteq> {..<unat (cs_max (conn u1))}" using s by (auto simp: slots_ok_def)
  from card_mono [OF _ this] show "cs_total (conn u1) \<le> cs_max (conn u1)"
    using s by (simp add: slots_ok_def bit_count_card word_le_nat_alt)
  have b: "bit ?bm (client_id u1 a - 1)" if "a \<in> clients u1" for a
    using client_at_bit(2) [OF c client_slot(1) [OF h that]] .
  show "\<forall>a\<in>clients u1. 2 \<le> client_id u1 a \<and> client_id u1 a \<le> unat (cs_max (conn u1))"
    using b client_slot(2) [OF h] s by (fastforce simp: slots_ok_def)
  show "inj_on (client_id u1) (clients u1)"
    by (rule inj_onI) (use client_slot(1) [OF h] clients_okD(4) [OF c] in metis)
  have "i = 0 \<or> i + 1 \<in> client_id u1 ` clients u1" if i: "bit ?bm i" for i
  proof (cases "i = 0")
    case False
    then obtain a where a: "client_at ?nm a i" using clients_okD(3) [OF c _ i] by force
    then have "a \<in> clients u1" "client_id u1 a = i + 1" by (auto simp: client_at_def client_id_def clients_def)
    then show ?thesis by (intro disjI2 image_eqI [of _ _ a]) simp_all
  qed simp
  moreover have "bit ?bm i" if "i = 0 \<or> i + 1 \<in> client_id u1 ` clients u1" for i
  proof (cases "i = 0")
    case False
    with that have "i + 1 \<in> client_id u1 ` clients u1" by blast
    then obtain a where a: "i + 1 = client_id u1 a" "a \<in> clients u1" by (rule imageE)
    from b [OF a(2)] show ?thesis by (simp add: a(1) [symmetric])
  qed (use s in \<open>simp add: slots_ok_def\<close>)
  ultimately show "\<forall>i<16. bit ?bm i \<longleftrightarrow> i = 0 \<or> i + 1 \<in> client_id u1 ` clients u1" by blast
  show "\<forall>i<16. unat (cs_nodes (conn u1) ! i) = (if bit ?bm i then i + 1 else 0)"
    using s by (simp add: slots_ok_def)
qed

text \<open>
  C1. Take any sequence of frames, timer events and commands of the game, initialising, shutting
  down, hosting, destroying, connecting and disconnecting included, that fails no assertion, from a
  state in which the console does not host.  Hosting clears neither the mask nor the map of nodes,
  so it is asked that each network begins when nothing of another one is left there (as
  initialising after a shutdown, destroying and disconnecting leave them) and for at most 16 nodes.
  Whenever the console is then initialised and a host, either it has disconnected as host since its
  network began, and has an empty connection: no clients, an empty mask, counts of zero (the network
  information keeps its old count); or its network is consistent: the count of nodes, kept in 8 bits
  and also advertised, is one more than the number of connected clients and never exceeds the
  maximum; every client has an id from 2 to the maximum and no two clients have the same; and the
  mask and the array of ids have exactly the host's and the clients' ids.
\<close>

theorem hosted_network_consistent:
  assumes "header_ok e" "\<not> hosting u0" "begins_clean e evs u0" "host_run e evs u0 = Inr u1" "hosting u1"
  shows "(clients u1 = {} \<and> cs_total (conn u1) = 0 \<and> cs_max (conn u1) = 0 \<and> cs_bitmask (conn u1) = 0)
    \<or> (unat (cs_total (conn u1)) = Suc (card (clients u1)) \<and> nw_total (net u1) = cs_total (conn u1)
      \<and> cs_total (conn u1) \<le> cs_max (conn u1)
      \<and> (\<forall>a\<in>clients u1. 2 \<le> client_id u1 a \<and> client_id u1 a \<le> unat (cs_max (conn u1)))
      \<and> inj_on (client_id u1) (clients u1)
      \<and> (\<forall>i<16. bit (cs_bitmask (conn u1)) i \<longleftrightarrow> i = 0 \<or> i + 1 \<in> client_id u1 ` clients u1)
      \<and> (\<forall>i<16. unat (cs_nodes (conn u1) ! i) = (if bit (cs_bitmask (conn u1)) i then i + 1 else 0)))"
proof -
  have "host_state e u0" using assms(2) by (simp add: host_state_def)
  from host_state_run [OF assms(1) this assms(3,4)] assms(5) consider "host_inv e u1" | "emptied_host e u1"
    unfolding host_state_def by blast
  then show ?thesis
  proof cases
    case 1
    from host_inv_counts [OF this] show ?thesis by (intro disjI2 conjI)
  qed (simp add: emptied_host_def fresh_uds_def clients_def)
qed

subsection \<open>The map of nodes\<close>

definition plain_node :: "u16 \<Rightarrow> node" where
  "plain_node i = \<lparr>nd_connected = True, nd_spec = False, nd_id = i\<rparr>"

definition entry_bytes :: "mac \<times> node \<Rightarrow> u8 list" where
  "entry_bytes x = fst x @ le_bytes 2 (unat (nd_id (snd x)))"

lemma read_entries:
  assumes "\<forall>x\<in>set xs. length (fst x) = 6" "distinct (map fst xs)" "\<forall>a\<in>dom (map_of nm). a \<notin> fst ` set xs"
  shows "\<exists>nm'. read_node_entries (length xs) (concat (map entry_bytes xs) @ rest) nm = Inr nm'
    \<and> map_of nm' = map_of nm ++ map_of (map (\<lambda>x. (fst x, plain_node (nd_id (snd x)))) xs)"
  using assms
proof (induction xs arbitrary: nm)
  case (Cons x xs)
  define d where "d = concat (map entry_bytes (x # xs)) @ rest"
  have l: "length (fst x) = 6" using Cons.prems(1) by simp
  have t: "take 6 d = fst x" "take 2 (drop 6 d) = le_bytes 2 (unat (nd_id (snd x)))"
    "drop 8 d = concat (map entry_bytes xs) @ rest" "\<not> length d < 8"
    using l by (simp_all add: d_def entry_bytes_def)
  have n: "map_of nm (fst x) = None" using Cons.prems(3) by (auto simp: dom_def)
  let ?nm = "put_by mac_less (fst x) (plain_node (nd_id (snd x))) nm"
  have "read_node_entries (length (x # xs)) d nm = read_node_entries (length xs) (concat (map entry_bytes xs) @ rest) ?nm"
    by (simp add: t le_value_id n plain_node_def del: le_bytes.simps)
  moreover have dm: "\<forall>a\<in>dom (map_of ?nm). a \<notin> fst ` set xs"
    using Cons.prems(2,3) by (auto split: if_splits)
  moreover have pr: "\<forall>x\<in>set xs. length (fst x) = 6" "distinct (map fst xs)" using Cons.prems(1,2) by simp_all
  moreover obtain nm' where nm': "read_node_entries (length xs) (concat (map entry_bytes xs) @ rest) ?nm = Inr nm'"
    "map_of nm' = map_of ?nm ++ map_of (map (\<lambda>x. (fst x, plain_node (nd_id (snd x)))) xs)"
    using Cons.IH [OF pr dm] by blast
  moreover have "map_of (map (\<lambda>x. (fst x, plain_node (nd_id (snd x)))) xs) (fst x) = None"
    using Cons.prems(2) by (auto simp: map_of_eq_None_iff image_image)
  ultimately show ?case unfolding d_def by (auto simp: map_add_def fun_eq_iff split: option.split)
qed simp

lemma broad_nodes:
  assumes "distinct (map fst nm)"
  shows "map_of (map (\<lambda>x. (fst x, plain_node (nd_id (snd x)))) (filter node_can_broad nm)) a = (case map_of nm a of
     Some nd \<Rightarrow> if nd_connected nd \<and> \<not> nd_spec nd then Some (plain_node (nd_id nd)) else None | None \<Rightarrow> None)"
  using assms
proof (induction nm)
  case (Cons x nm)
  have "map_of nm (fst x) = None" using Cons.prems by (simp add: map_of_eq_None_iff)
  with Cons show ?case by (cases "a = fst x") (auto simp: node_can_broad_def)
qed simp

text \<open>
  C28. A client that receives the map of nodes a host broadcasts has exactly the host's connected
  clients in its own map, with their ids, and as connected and no spectators; what it had before
  is gone.
\<close>

theorem node_map_round_trip:
  assumes "\<forall>x\<in>set nm. mac_ok (fst x)" "distinct (map fst nm)" "length nm < 2 ^ 64"
    and "cs_status (conn u) \<noteq> Connected_as_host" "pk_data p = node_map_bytes nm"
  shows "\<exists>u1. handle_node_map p u = Inr u1
    \<and> map_of (node_map u1) = (\<lambda>a. case map_of nm a of
         Some nd \<Rightarrow> if nd_connected nd \<and> \<not> nd_spec nd then Some (plain_node (nd_id nd)) else None | None \<Rightarrow> None)"
proof -
  let ?xs = "filter node_can_broad nm"
  have b: "node_map_bytes nm = le_bytes 8 (length ?xs) @ concat (map entry_bytes ?xs)"
    by (simp add: node_map_bytes_def entry_bytes_def [abs_def] Let_def)
  have "length ?xs \<le> length nm" by simp
  with assms(3) have "length ?xs < 2 ^ 64" by (rule le_less_trans [rotated])
  then have n: "le_value (take 8 (node_map_bytes nm)) = length ?xs" by (simp add: b le_value_bytes)
  have ok: "\<forall>x\<in>set ?xs. length (fst x) = 6" "distinct (map fst ?xs)" "\<forall>a\<in>dom (map_of []). a \<notin> fst ` set ?xs"
    using assms(1,2) by (auto simp: mac_ok_def distinct_map_filter)
  obtain nm' where nm': "read_node_entries (length ?xs) (concat (map entry_bytes ?xs) @ []) [] = Inr nm'"
    "map_of nm' = map_of [] ++ map_of (map (\<lambda>x. (fst x, plain_node (nd_id (snd x)))) ?xs)"
    using read_entries [OF ok] by blast
  have "read_node_map (node_map_bytes nm) = Inr nm'"
    unfolding read_node_map_def n using nm'(1) by (simp add: b)
  then show ?thesis
    using assms(4,5) nm'(2) by (auto simp: handle_node_map_def broad_nodes [OF assms(2)])
qed

subsection \<open>Data\<close>

text \<open>
  C4. A channel between two consoles is a queue.  A game sends messages, none larger than the
  largest message nor than the receiver asks for; the frames arrive in that order at a connected
  console that has the channel bound to the sender or to all; and its game pulls as often and
  whenever it wants.  In every interleaving each pull returns what it would return from a queue of
  the messages, byte for byte and nothing when it is empty, and the queue's rest is what waits.
\<close>

theorem channel_refines_queue:
  assumes "secure_ok e" "uw_room w = Some m" "send_all e w dest ch fl (arrivals ops) u = Inr (Success, u1)"
    and "\<forall>xs\<in>set (arrivals ops). message_fits sz al xs"
    and "listens me v" "cs_node_id (conn u) \<noteq> me" "ucast dest = me \<or> ucast dest = broadcast_node_id"
    and "bound_queue bid ch n [] v" "n = cs_node_id (conn u) \<or> n = broadcast_node_id"
  shows "\<exists>ps v1. outs u1 = outs u @ map Sent ps
    \<and> channel_run (channel_arrive e w') (channel_pull e bid sz al) (with_carriers ops ps) v
        = Inr (fst (queue_run ops []), v1)
    \<and> bound_queue bid ch n (map (\<lambda>xs. data_payload e xs ch (ucast dest) (cs_node_id (conn u)) 0) (snd (queue_run ops []))) v1"
proof -
  let ?src = "cs_node_id (conn u)"
  have l: "\<forall>xs\<in>set (arrivals ops). length xs \<le> max_send_size" using assms(4) by (simp add: message_fits_def)
  obtain ps where ps: "outs u1 = outs u @ map Sent ps" "list_all2 (\<lambda>p xs. pk_type p = Data_frame
      \<and> pk_data p = data_payload e xs ch (ucast dest) ?src 0) ps (arrivals ops)"
    using send_all_frames [OF assms(3) l assms(2)] by blast
  have "list_all2 (\<lambda>p xs. data_carried e ch (ucast dest) ?src p xs \<and> message_fits sz al xs) ps (arrivals ops)"
    using ps(2) assms(4) by (auto simp: list_all2_conv_all_nth data_carried_def)
  moreover have "channel_holds e bid ch n (ucast dest) ?src me sz al [] v"
    using assms by (auto simp: channel_holds_def)
  ultimately obtain v1 where
    "channel_run (channel_arrive e w') (channel_pull e bid sz al) (with_carriers ops ps) v = Inr (fst (queue_run ops []), v1)"
    "channel_holds e bid ch n (ucast dest) ?src me sz al (snd (queue_run ops [])) v1"
    using uds_channel.refines_queue by blast
  with ps(1) show ?thesis by (auto simp: channel_holds_def)
qed

subsection \<open>Faults\<close>

definition start_frame :: "frames \<Rightarrow> mac \<Rightarrow> wifi_packet \<Rightarrow> bool" where
  "start_frame e a p \<longleftrightarrow>
     pk_type p = Data_frame \<and> pk_transmitter p = a \<and> ether_type_of e (pk_data p) = Ether_eapol
     \<and> is_eapol_start e (pk_data p)"

definition authenticated :: "uds \<Rightarrow> mac \<Rightarrow> bool" where
  "authenticated u a \<longleftrightarrow> (\<exists>nd. map_of (node_map u) a = Some nd \<and> \<not> nd_connected nd)"

lemma start_accepts:
  assumes "host_inv e u" "start_frame e a p" "snd (read_eapol_start e (pk_data p)) = Client"
    and "authenticated u a" "authenticated u b" "a \<noteq> b" "cs_total (conn u) + 1 = cs_max (conn u)"
  shows "\<exists>u1. on_wifi_packet e w p u = Inr u1 \<and> authenticated u1 b \<and> cs_total (conn u1) = cs_max (conn u1)
    \<and> cs_status (conn u1) = Connected_as_host \<and> initialized u1"
proof -
  have s: "slots_ok (conn u) (node_infos u)" "cs_status (conn u) = Connected_as_host" "initialized u"
    using assms(1) by (simp_all add: host_inv_def)
  have ne: "cs_max (conn u) \<noteq> cs_total (conn u)" using assms(7) by (metis add_cancel_left_right zero_neq_one)
  obtain ni where ni: "read_eapol_start e (pk_data p) = (ni, Client)" using assms(3) by (cases "read_eapol_start e (pk_data p)") auto
  obtain i nid where n: "get_next_available_node_id u = Some nid" "unat nid = i + 1" "i < unat (cs_max (conn u))"
    using next_id_facts [OF s(1) ne refl] by metis
  then have i: "i < length (cs_nodes (conn u))" "i < length (node_infos u)" using s(1) by (auto simp: slots_ok_def)
  from assms(4) obtain nd where "map_of (node_map u) a = Some nd" "\<not> nd_connected nd" by (auto simp: authenticated_def)
  with assms(2,5-7) s(2,3) ne n(1,2) i ni show ?thesis
    by (auto simp: on_wifi_packet_def handle_data_def handle_eapol_def handle_eapol_start_def accept_client_def
        start_frame_def authenticated_def finish_accept_def broadcast_node_map_def send_packet_def emit_def upd_conn_def
        Let_def split: option.splits)
qed

text \<open>
  C29. Authentication does not reserve a place: when two clients have authenticated with a host that
  has one place left, and then both start their connections, the first is accepted and the second's
  frame fails the assertion that there is a place.
\<close>

theorem last_place_race_asserts:
  assumes "host_inv e u" "cs_total (conn u) + 1 = cs_max (conn u)"
    and "authenticated u a" "authenticated u b" "a \<noteq> b"
    and "start_frame e a p" "snd (read_eapol_start e (pk_data p)) = Client" "start_frame e b q"
  shows "\<exists>u1. on_wifi_packet e w p u = Inr u1 \<and> on_wifi_packet e w q u1 = Inl Uds_assertion"
proof -
  obtain u1 where u1: "on_wifi_packet e w p u = Inr u1" "authenticated u1 b" "cs_total (conn u1) = cs_max (conn u1)"
    "cs_status (conn u1) = Connected_as_host" "initialized u1"
    using start_accepts [OF assms(1,6,7,3,4,5,2)] by blast
  moreover have "on_wifi_packet e w q u1 = Inl Uds_assertion"
    using u1(2-) assms(8)
    by (auto simp: on_wifi_packet_def handle_data_def handle_eapol_def handle_eapol_start_def start_frame_def
        authenticated_def)
  ultimately show ?thesis by blast
qed

text \<open>Frames that are too short, and data larger than the game's buffer, are read and written out of bounds.\<close>

lemma short_node_map_out_of_bounds:
  "length (pk_data p) < 8 \<Longrightarrow> cs_status (conn u) \<noteq> Connected_as_host \<Longrightarrow> handle_node_map p u = Inl Uds_bounds"
  by (simp add: handle_node_map_def read_node_map_def)

lemma pull_out_of_bounds:
  assumes "connected_somehow (cs_status (conn u))" "bound_queue bid ch n (d # q) u"
    and "4 * unat al < se_size (read_secure e d)" "se_size (read_secure e d) \<le> unat sz"
  shows "pull_packet_hle e bid sz al u = Inl Uds_bounds"
proof -
  obtain b where "find (\<lambda>x. bn_id (snd x) = bid) (binds u) = Some (ch, b)" "bn_packets b = d # q"
    using assms(2) by (rule bound_queueE)
  with assms(1,3,4) show ?thesis by (auto simp: pull_packet_hle_def Let_def)
qed

subsection \<open>Examples\<close>

definition ex_mac :: "u8 \<Rightarrow> mac" where
  "ex_mac k = [2, 0, 0, 0, 0, k]"

definition ex_world :: "u8 \<Rightarrow> uds_world" where
  "ex_world k = \<lparr>uw_room = Some (ex_mac k), uw_console = ex_mac k\<rparr>"

definition ex_frame :: "packet_type \<Rightarrow> u8 list \<Rightarrow> u8 \<Rightarrow> wifi_packet" where
  "ex_frame ty d k = (frame ty d (ex_mac 1) 11)\<lparr>pk_transmitter := ex_mac k\<rparr>"

text \<open>A host with room for one client more, and a client that authenticates and connects.\<close>

definition ex_host :: "u8 \<Rightarrow> uds" where
  "ex_host mx = projr (begin_hosting_network plain_frames (ex_world 1) [mx] plain_uds)"

definition ex_connect :: "u8 \<Rightarrow> host_event list" where
  "ex_connect k = [Host_frame (ex_world 1) (ex_frame Authentication [1, 0] k),
     Host_frame (ex_world 1) (ex_frame Data_frame [1, 1] k)]"

lemma plain_header_ok: "header_ok plain_frames"
  by (simp add: header_ok_def plain_frames_def plain_node_info_def)

lemma plain_fresh: "fresh_uds plain_frames plain_uds"
  by (simp add: fresh_uds_def plain_uds_def zero_conn_def plain_frames_def)

lemma ex_host_begins: "begin_hosting_network plain_frames (ex_world 1) [2] plain_uds = Inr (ex_host 2)"
  by (simp add: ex_host_def begin_hosting_network_def plain_frames_def plain_network_def Let_def)

lemma ex_host_conn:
  "cs_node_id (conn (ex_host 2)) = 1" "cs_status (conn (ex_host 2)) = Connected_as_host"
  by (simp_all add: ex_host_def begin_hosting_network_def plain_frames_def plain_network_def upd_conn_def emit_def Let_def)

text \<open>A network with a client, left as host; then another one, with another client.\<close>

definition ex_life :: "host_event list" where
  "ex_life = Host_begin (ex_world 1) [2] # ex_connect 2 @ [Host_disconnect (ex_world 1), Host_begin (ex_world 1) [3]]
     @ ex_connect 4"

theorem hosted_network_consistent_witness:
  "\<exists>u. host_run plain_frames ex_life plain_uds = Inr u \<and> cs_total (conn u) = 2 \<and> card (clients u) = 1"
proof -
  have "map_sum id (\<lambda>u. (cs_total (conn u), hosting u)) (host_run plain_frames ex_life plain_uds) = Inr (2, True)"
    by code_simp
  then obtain u where u: "host_run plain_frames ex_life plain_uds = Inr u" "cs_total (conn u) = 2" "hosting u"
    by (cases "host_run plain_frames ex_life plain_uds") auto
  have n: "\<not> hosting plain_uds" by (simp add: hosting_def plain_uds_def zero_conn_def)
  have c: "begins_clean plain_frames ex_life plain_uds" by code_simp
  from hosted_network_consistent [OF plain_header_ok n c u(1,3)] u(2) have "unat (cs_total (conn u)) = Suc (card (clients u))"
    by auto
  with u show ?thesis by simp
qed

theorem node_map_round_trip_witness:
  "\<exists>u1. handle_node_map (ex_frame Node_map_frame (node_map_bytes [(ex_mac 2, plain_node 2)]) 1) plain_uds = Inr u1
    \<and> map_of (node_map u1) (ex_mac 2) = Some (plain_node 2)"
  using node_map_round_trip [of "[(ex_mac 2, plain_node 2)]" plain_uds
      "ex_frame Node_map_frame (node_map_bytes [(ex_mac 2, plain_node 2)]) 1"]
  by (auto simp: mac_ok_def ex_mac_def plain_uds_def zero_conn_def ex_frame_def frame_def plain_node_def)

text \<open>A client with id 2 and a channel bound to the host.\<close>

definition ex_client :: uds where
  "ex_client = plain_uds\<lparr>conn := (zero_conn plain_frames)\<lparr>cs_status := Connected_as_client, cs_node_id := 2\<rparr>,
     binds := [(1, \<lparr>bn_id = 5, bn_channel = 1, bn_node = 1, bn_packets = []\<rparr>)]\<rparr>"

definition ex_messages :: "u8 list list" where
  "ex_messages = [[10, 20, 30], [], [40]]"

definition ex_sent :: uds where
  "ex_sent = snd (projr (send_all plain_frames (ex_world 1) 0xFFFF 1 0 ex_messages (ex_host 2)))"

text \<open>A pull too early, two messages, a pull, a third message and two pulls.\<close>

definition ex_ops :: "u8 list queue_op list" where
  "ex_ops = [Pulled, Arrives [10, 20, 30], Arrives [], Pulled, Arrives [40], Pulled, Pulled]"

theorem channel_refines_queue_witness:
  "\<exists>ps v1. outs ex_sent = outs (ex_host 2) @ map Sent ps
    \<and> channel_run (channel_arrive plain_frames (ex_world 2)) (channel_pull plain_frames 5 100 25) (with_carriers ex_ops ps)
        ex_client = Inr ([None, Some [10, 20, 30], Some [], Some [40]], v1)"
proof -
  have q: "fst (queue_run ex_ops []) = [None, Some [10, 20, 30], Some [], Some [40]]" by (simp add: ex_ops_def)
  have "\<exists>ps v1. outs ex_sent = outs (ex_host 2) @ map Sent ps
    \<and> channel_run (channel_arrive plain_frames (ex_world 2)) (channel_pull plain_frames 5 100 25) (with_carriers ex_ops ps)
        ex_client = Inr (fst (queue_run ex_ops []), v1)
    \<and> bound_queue 5 1 1 (map (\<lambda>xs. data_payload plain_frames xs 1 (ucast (0xFFFF :: u32)) (cs_node_id (conn (ex_host 2))) 0)
        (snd (queue_run ex_ops []))) v1"
  proof (rule channel_refines_queue [OF plain_secure_ok, where m = "ex_mac 1" and w = "ex_world 1" and me = 2 and fl = 0])
    have "\<exists>u. send_all plain_frames (ex_world 1) 0xFFFF 1 0 (arrivals ex_ops) (ex_host 2) = Inr (Success, u)"
      by (simp add: ex_ops_def send_to_hle_def max_send_size_def send_packet_def emit_def get_node_mac_address_def
          broadcast_node_id_def ex_world_def ex_host_conn)
    then show "send_all plain_frames (ex_world 1) 0xFFFF 1 0 (arrivals ex_ops) (ex_host 2) = Inr (Success, ex_sent)"
      by (cases "send_all plain_frames (ex_world 1) 0xFFFF 1 0 (arrivals ex_ops) (ex_host 2)")
         (auto simp: ex_sent_def ex_ops_def ex_messages_def)
    show "cs_node_id (conn (ex_host 2)) \<noteq> 2" "1 = cs_node_id (conn (ex_host 2)) \<or> 1 = broadcast_node_id"
      by (simp_all add: ex_host_conn)
  qed (simp_all add: ex_world_def ex_ops_def max_send_size_def ex_client_def plain_uds_def connected_somehow_def
      broadcast_node_id_def bound_queue_def listens_def message_fits_def)
  then show ?thesis unfolding q by blast
qed

text \<open>Two clients authenticate before either starts its connection.\<close>

definition ex_crowded :: uds where
  "ex_crowded = projr (host_run plain_frames
     [Host_frame (ex_world 1) (ex_frame Authentication [1, 0] 2), Host_frame (ex_world 1) (ex_frame Authentication [1, 0] 3)]
     (ex_host 2))"

theorem last_place_race_asserts_witness:
  "\<exists>u1. on_wifi_packet plain_frames (ex_world 1) (ex_frame Data_frame [1, 1] 2) ex_crowded = Inr u1
    \<and> on_wifi_packet plain_frames (ex_world 1) (ex_frame Data_frame [1, 1] 3) u1 = Inl Uds_assertion"
proof (rule last_place_race_asserts [where a = "ex_mac 2" and b = "ex_mac 3"])
  let ?evs = "map (\<lambda>(w, p). Host_frame w p)
    [(ex_world 1, ex_frame Authentication [1, 0] 2), (ex_world 1, ex_frame Authentication [1, 0] 3)]"
  have "map_sum id (\<lambda>u. 0 :: nat) (host_run plain_frames ?evs (ex_host 2)) = Inr 0" by code_simp
  then have "host_run plain_frames ?evs (ex_host 2) = Inr ex_crowded"
    by (cases "host_run plain_frames ?evs (ex_host 2)") (auto simp: ex_crowded_def)
  then show "host_inv plain_frames ex_crowded"
    by (rule host_inv_frames [OF plain_header_ok host_inv_begin [OF plain_header_ok plain_fresh ex_host_begins], rotated])
       (simp add: plain_frames_def plain_network_def)
  show "cs_total (conn ex_crowded) + 1 = cs_max (conn ex_crowded)" by code_simp
  have "map_option nd_connected (map_of (node_map ex_crowded) (ex_mac k)) = Some False" if "k = 2 \<or> k = 3" for k
    using that by (rule disjE; hypsubst; code_simp)
  then show "authenticated ex_crowded (ex_mac 2)" "authenticated ex_crowded (ex_mac 3)"
    by (auto simp: authenticated_def)
qed (simp_all add: ex_mac_def start_frame_def ex_frame_def frame_def plain_frames_def)

end
