(* ===== verification/Cia_Policy.thy ===== *)
theory Cia_Policy
  imports RL_Prelude
begin

text \<open>
  The checks the importer of update files makes before anything else reads the file
  (\<open>citra_libretro/cia_update_policy.h\<close>): numbers in the file, the header with its sections, the
  signature's size, and that a path has no links.

  A check that fails is a status; it leaves the code as an exception and becomes the status the
  importer returns.  A file is its bytes; a path is the list of its parts, where an absolute one
  begins with \<open>''/''\<close>; what the file system says of a path is an argument.
\<close>

unbundle bit_operations_syntax

datatype cia_status =
  Cia_success
| Cia_invalid_file
| Cia_unsupported
| Cia_wrong_environment
| Cia_install_failed
| Cia_already_installed
| Cia_busy
| Cia_cancelled
| Cia_no_space

definition max_input :: u64 where
  "max_input = push_bit 30 8"

subsection \<open>Numbers\<close>

text \<open>A number of \<open>n\<close> bytes at the start of \<open>p\<close>, the most significant byte last, or first.\<close>

definition byte_integer :: "bool \<Rightarrow> u8 list \<Rightarrow> nat \<Rightarrow> u64" where
  "byte_integer big p n =
     fold (\<lambda>i v. v OR push_bit (8 * i) (ucast (p ! (if big then n - 1 - i else i)))) [0..<n] 0"

definition align :: "u64 \<Rightarrow> u64" where
  "align n = (n + 63) AND NOT 63"

subsection \<open>Files and paths\<close>

definition read_file :: "u8 list \<Rightarrow> u64 \<Rightarrow> nat \<Rightarrow> cia_status + u8 list" where
  "read_file f off n =
     (if 2 ^ 63 \<le> unat off \<or> n \<noteq> 0 \<and> length f < unat off + n then Inl Cia_invalid_file
      else Inr (take n (drop (unat off) f)))"

type_synonym path = "string list"

definition is_absolute :: "path \<Rightarrow> bool" where
  "is_absolute p \<longleftrightarrow> take 1 p = [''/'']"

text \<open>No part below \<open>base\<close> is a link, or leads up or elsewhere.\<close>

fun no_links :: "(path \<Rightarrow> bool) \<Rightarrow> path \<Rightarrow> path \<Rightarrow> cia_status + unit" where
  "no_links link base [] = Inr ()"
| "no_links link base (part # rel) =
     (if part = ''..'' \<or> is_absolute [part] then Inl Cia_wrong_environment
      else if link (base @ [part]) then Inl Cia_wrong_environment
      else no_links link (base @ [part]) rel)"

text \<open>The root asked for has to be the one directory below the application's documents.\<close>

definition root_path :: "(path \<Rightarrow> path) \<Rightarrow> (path \<Rightarrow> bool) \<Rightarrow> path \<Rightarrow> path \<Rightarrow> cia_status + path" where
  "root_path canonical link requested documents =
     (let expected = canonical documents @ [''RoomExperiment-v1'', ''3DS'']
      in case no_links link (canonical documents) [''RoomExperiment-v1'', ''3DS''] of
           Inl s \<Rightarrow> Inl s
         | Inr _ \<Rightarrow> if is_absolute requested \<and> canonical requested = expected then Inr expected
                    else Inl Cia_wrong_environment)"

subsection \<open>The header\<close>

record sections =
  sc_ticket :: u64
  sc_tmd :: u64
  sc_content :: u64
  sc_end :: u64
  sc_ticket_size :: u32
  sc_tmd_size :: u32

definition cia_header :: "u8 list \<Rightarrow> u64 \<Rightarrow> cia_status + sections" where
  "cia_header h file_size =
     (if \<not> (length h = 0x2020 \<and> 0x2020 \<le> file_size \<and> file_size \<le> max_input) then Inl Cia_invalid_file
      else if \<not> (byte_integer False h 4 = 0x2020 \<and> byte_integer False (drop 4 h) 2 = 0
                 \<and> byte_integer False (drop 6 h) 2 = 0) then Inl Cia_unsupported
      else
        let cert = byte_integer False (drop 8 h) 4; tik = byte_integer False (drop 12 h) 4;
            tmd = byte_integer False (drop 16 h) 4; meta = byte_integer False (drop 20 h) 4;
            content = byte_integer False (drop 24 h) 8
        in if \<not> (cert \<le> 0x100000 \<and> 0x164 \<le> tik \<and> tik \<le> 0x100000 \<and> 0x9c4 \<le> tmd \<and> tmd \<le> 0x100000
                 \<and> meta \<le> 0x100000 \<and> content \<le> max_input) then Inl Cia_invalid_file
           else
             let t = align (0x2020 + cert); m = align (t + tik); c = align (m + tmd);
                 s = \<lparr>sc_ticket = t, sc_tmd = m, sc_content = c, sc_end = c + content,
                      sc_ticket_size = ucast tik, sc_tmd_size = ucast tmd\<rparr>
             in if sc_end s \<le> file_size \<and> (meta = 0 \<or> align (sc_end s) + meta \<le> file_size) then Inr s
                else Inl Cia_invalid_file)"

definition signed_body :: "u8 list \<Rightarrow> cia_status + nat" where
  "signed_body d =
     (if length d < 4 then Inl Cia_invalid_file
      else let k = byte_integer True d 4
           in if k = 0x10000 \<or> k = 0x10003 then Inr 0x240
              else if k = 0x10001 \<or> k = 0x10004 then Inr 0x140
              else if k = 0x10002 \<or> k = 0x10005 then Inr 0x40
              else Inl Cia_invalid_file)"

subsection \<open>Alignment\<close>

lemma align_value:
  assumes "unat n + 63 < 2 ^ 64"
  shows "unat (align n) = 64 * ((unat n + 63) div 64)"
proof -
  have "x AND NOT (mask 6) = push_bit 6 (drop_bit 6 x)" for x :: u64
    by (rule bit_word_eqI) (auto simp: bit_simps)
  moreover have "align n = (n + 63) AND NOT (mask 6)" by (simp add: align_def mask_eq_exp_minus_1)
  ultimately have "align n = push_bit 6 (drop_bit 6 (n + 63))" by simp
  moreover have w: "take_bit 64 (unat x) = unat x" for x :: u64
    by (rule take_bit_nat_eq_self) (use unsigned_less [of x] in simp)
  ultimately have "unat (align n) = take_bit 64 (push_bit 6 (drop_bit 6 (unat (n + 63))))"
    using w by (simp only: unsigned_push_bit_eq unsigned_drop_bit_eq) simp
  moreover have "unat (n + 63) = unat n + 63" using assms by (subst unat_add_lem [THEN iffD1]) simp_all
  moreover have "64 * ((unat n + 63) div 64) < 2 ^ 64" using assms by linarith
  ultimately show ?thesis by (simp add: take_bit_nat_eq_self push_bit_eq_mult drop_bit_eq_div mult.commute)
qed

lemma align_bounds:
  assumes "unat n + 63 < 2 ^ 64"
  shows "unat n \<le> unat (align n)" "unat (align n) < unat n + 64" "64 dvd unat (align n)"
proof -
  have "unat n + 63 = 64 * ((unat n + 63) div 64) + (unat n + 63) mod 64" "(unat n + 63) mod 64 < 64"
    by simp_all
  then show "unat n \<le> unat (align n)" "unat (align n) < unat n + 64"
    unfolding align_value [OF assms] by linarith+
qed (simp add: align_value [OF assms])

lemma align_add:
  assumes "unat a + unat b + 63 < 2 ^ 64"
  shows "unat (align (a + b)) = 64 * ((unat a + unat b + 63) div 64)"
    and "unat a + unat b \<le> unat (align (a + b))" "unat (align (a + b)) < unat a + unat b + 64"
    and "64 dvd unat (align (a + b))"
proof -
  have "unat (a + b) = unat a + unat b" using assms by (subst unat_add_lem [THEN iffD1]) simp_all
  then show "unat (align (a + b)) = 64 * ((unat a + unat b + 63) div 64)"
    "unat a + unat b \<le> unat (align (a + b))" "unat (align (a + b)) < unat a + unat b + 64"
    "64 dvd unat (align (a + b))"
    using align_value [of "a + b"] align_bounds [of "a + b"] assms by simp_all
qed

subsection \<open>The header's sections\<close>

lemma max_input_value [simp]: "unat max_input = 2 ^ 33"
  by (simp add: max_input_def)

text \<open>The sections are in order, aligned, apart from each other and within the file.\<close>

definition sections_ok :: "sections \<Rightarrow> nat \<Rightarrow> bool" where
  "sections_ok s n \<longleftrightarrow>
     0x2020 \<le> unat (sc_ticket s) \<and> unat (sc_ticket s) + unat (sc_ticket_size s) \<le> unat (sc_tmd s)
     \<and> unat (sc_tmd s) + unat (sc_tmd_size s) \<le> unat (sc_content s) \<and> sc_content s \<le> sc_end s
     \<and> unat (sc_end s) \<le> n \<and> 64 dvd unat (sc_ticket s) \<and> 64 dvd unat (sc_tmd s) \<and> 64 dvd unat (sc_content s)"

lemma header_sections:
  assumes "cia_header h n = Inr s"
  obtains cert tik tmd meta content where
    "s = (let t = align (0x2020 + cert); m = align (t + tik); c = align (m + tmd)
          in \<lparr>sc_ticket = t, sc_tmd = m, sc_content = c, sc_end = c + content,
              sc_ticket_size = ucast tik, sc_tmd_size = ucast tmd\<rparr>)"
    "unat cert \<le> 0x100000" "unat tik \<le> 0x100000" "unat tmd \<le> 0x100000" "unat content \<le> 2 ^ 33"
    "tik = byte_integer False (drop 12 h) 4" "tmd = byte_integer False (drop 16 h) 4"
    "content = byte_integer False (drop 24 h) 8" "unat (sc_end s) \<le> unat n" "unat n \<le> 2 ^ 33"
proof (rule that [of "byte_integer False (drop 8 h) 4" "byte_integer False (drop 12 h) 4"
      "byte_integer False (drop 16 h) 4" "byte_integer False (drop 24 h) 8"])
qed (use assms max_input_value in \<open>auto simp: cia_header_def Let_def word_le_nat_alt split: if_splits\<close>)

lemma header_sections_ok:
  assumes "cia_header h n = Inr s"
  shows "sections_ok s (unat n)" "unat (sc_ticket_size s) = unat (byte_integer False (drop 12 h) 4)"
    "unat (sc_tmd_size s) = unat (byte_integer False (drop 16 h) 4)"
    "unat (sc_end s) = unat (sc_content s) + unat (byte_integer False (drop 24 h) 8)" "unat n \<le> 2 ^ 33"
proof -
  obtain cert tik tmd meta content where s:
    "s = (let t = align (0x2020 + cert); m = align (t + tik); c = align (m + tmd)
          in \<lparr>sc_ticket = t, sc_tmd = m, sc_content = c, sc_end = c + content,
              sc_ticket_size = ucast tik, sc_tmd_size = ucast tmd\<rparr>)"
    "unat cert \<le> 0x100000" "unat tik \<le> 0x100000" "unat tmd \<le> 0x100000" "unat content \<le> 2 ^ 33"
    "tik = byte_integer False (drop 12 h) 4" "tmd = byte_integer False (drop 16 h) 4"
    "content = byte_integer False (drop 24 h) 8" "unat (sc_end s) \<le> unat n" "unat n \<le> 2 ^ 33"
    using assms by (rule header_sections)
  let ?t = "align (0x2020 + cert)" and ?m = "align (align (0x2020 + cert) + tik)"
  let ?c = "align (?m + tmd)"
  have t: "unat (0x2020 :: u64) + unat cert \<le> unat ?t" "unat ?t < 0x2020 + unat cert + 64" "64 dvd unat ?t"
    using align_add [of "0x2020" cert] s(2) by simp_all
  have m: "unat ?t + unat tik \<le> unat ?m" "unat ?m < unat ?t + unat tik + 64" "64 dvd unat ?m"
    using align_add [of ?t tik] t(2) s(2,3) by simp_all
  have c: "unat ?m + unat tmd \<le> unat ?c" "unat ?c < unat ?m + unat tmd + 64" "64 dvd unat ?c"
    using align_add [of ?m tmd] t(2) m(2) s(2-4) by simp_all
  have e: "unat (?c + content) = unat ?c + unat content"
    using t(2) m(2) c(2) s(2-5) by (subst unat_add_lem [THEN iffD1]) simp_all
  have z: "unat (ucast tik :: u32) = unat tik" "unat (ucast tmd :: u32) = unat tmd"
    using s(3,4) by (simp_all add: unsigned_ucast_eq take_bit_nat_eq_self)
  have f: "sc_ticket s = ?t" "sc_tmd s = ?m" "sc_content s = ?c" "sc_end s = ?c + content"
    "sc_ticket_size s = ucast tik" "sc_tmd_size s = ucast tmd" by (simp_all add: s(1) Let_def)
  show "unat (sc_end s) = unat (sc_content s) + unat (byte_integer False (drop 24 h) 8)" "unat n \<le> 2 ^ 33"
    "unat (sc_ticket_size s) = unat (byte_integer False (drop 12 h) 4)"
    "unat (sc_tmd_size s) = unat (byte_integer False (drop 16 h) 4)"
    using e z s(6-8,10) by (simp_all add: f)
  show "sections_ok s (unat n)"
    using t m c e z s(9) by (simp add: sections_ok_def f word_le_nat_alt)
qed

end
