(* ===== verification/Cia_Import.thy ===== *)
theory Cia_Import
  imports Cia_Policy C_Text
begin

text \<open>
  The importer of update files (\<open>citra_libretro/cia_update.cpp\<close>): admission, the private copy, the
  verification of the copy, the installation into a staging directory, its verification and the
  commit by one exclusive rename.

  The file system, the frontend, the upstream installer and parser and the hash are outside: what
  they answer, call by call, is in the argument.  The caller's cancellation is polled; poll \<open>k\<close>
  answers \<open>cancel k\<close>, and the number of polls is threaded through.
\<close>

subsection \<open>Steps that may fail\<close>

definition after :: "cia_status + 'a \<Rightarrow> ('a \<Rightarrow> cia_status + 'b) \<Rightarrow> cia_status + 'b" where
  "after r k = (case r of Inl s \<Rightarrow> Inl s | Inr x \<Rightarrow> k x)"

definition require :: "bool \<Rightarrow> cia_status \<Rightarrow> cia_status + 'b \<Rightarrow> cia_status + 'b" where
  "require b s k = (if b then k else Inl s)"

lemma after_simps [simp]: "after (Inl s) k = Inl s" "after (Inr x) k = k x"
  by (simp_all add: after_def)

lemma after_Inr: "after r k = Inr y \<longleftrightarrow> (\<exists>x. r = Inr x \<and> k x = Inr y)"
  by (cases r) simp_all

lemma require_Inr [simp]: "require b s k = Inr y \<longleftrightarrow> b \<and> k = Inr y"
  by (simp add: require_def)

subsection \<open>Chunks\<close>

definition chunk_size :: u64 where
  "chunk_size = 65536"

lemma chunk_less: "(w :: u64) \<noteq> 0 \<Longrightarrow> unat (w - min w chunk_size) < unat w"
  by (simp add: chunk_size_def unat_sub min_def unat_gt_0 word_le_nat_alt)

text \<open>The file from \<open>off\<close> on, \<open>sz\<close> bytes in chunks, each read and then handed to \<open>step\<close>.\<close>

function chunk_loop ::
    "(u8 list \<Rightarrow> 's \<Rightarrow> cia_status + 's) \<Rightarrow> (nat \<Rightarrow> bool) \<Rightarrow> u8 list \<Rightarrow> u64 \<Rightarrow> u64 \<Rightarrow> 's \<Rightarrow> nat
     \<Rightarrow> cia_status + 's \<times> nat" where
  "chunk_loop step cancel f off sz s k =
     (if sz = 0 then Inr (s, k)
      else if cancel k then Inl Cia_cancelled
      else let n = min sz chunk_size
           in case read_file f off (unat n) of
                Inl x \<Rightarrow> Inl x
              | Inr b \<Rightarrow>
                  (case step b s of
                     Inl x \<Rightarrow> Inl x
                   | Inr s1 \<Rightarrow> chunk_loop step cancel f (off + n) (sz - n) s1 (Suc k)))"
  by pat_completeness auto

termination
  by (relation "measure (\<lambda>(step, cancel, f, off, sz, s, k). unat sz)") (simp_all add: chunk_less)

declare chunk_loop.simps [simp del]

record 's hasher =
  h_new :: 's
  h_update :: "u8 list \<Rightarrow> 's \<Rightarrow> 's"
  h_final :: "'s \<Rightarrow> u8 list"

definition hash_file ::
    "'s hasher \<Rightarrow> (nat \<Rightarrow> bool) \<Rightarrow> u8 list \<Rightarrow> u64 \<Rightarrow> u64 \<Rightarrow> nat \<Rightarrow> cia_status + u8 list \<times> nat" where
  "hash_file H cancel f off sz k =
     after (chunk_loop (\<lambda>b s. Inr (h_update H b s)) cancel f off sz (h_new H) k) (\<lambda>(s, k1). Inr (h_final H s, k1))"

text \<open>The private copy; the file's stream is good after chunk \<open>i\<close> if \<open>good i\<close>.\<close>

definition copy_file ::
    "(nat \<Rightarrow> bool) \<Rightarrow> (nat \<Rightarrow> bool) \<Rightarrow> bool \<Rightarrow> u8 list \<Rightarrow> u64 \<Rightarrow> nat \<Rightarrow> cia_status + u8 list \<times> nat" where
  "copy_file cancel good closes f sz k =
     after (chunk_loop (\<lambda>b (c, i). if good i then Inr (c @ b, Suc i) else Inl Cia_install_failed) cancel f 0 sz
              ([], 0 :: nat) k)
       (\<lambda>((c, i), k1). require closes Cia_install_failed (Inr (c, k1)))"

subsection \<open>Verification\<close>

definition be :: "u8 list \<Rightarrow> nat \<Rightarrow> nat \<Rightarrow> u64" where
  "be d off n = byte_integer True (drop off d) n"

text \<open>The contents, one after the other, from number \<open>i\<close> on; \<open>n\<close> are left.\<close>

fun check_contents ::
    "'s hasher \<Rightarrow> (nat \<Rightarrow> bool) \<Rightarrow> u8 list \<Rightarrow> u8 list \<Rightarrow> u8 list \<Rightarrow> nat \<Rightarrow> u64 \<Rightarrow> nat \<Rightarrow> nat \<Rightarrow> u32 list \<Rightarrow> u64 \<Rightarrow> nat
     \<Rightarrow> cia_status + u8 list list \<times> u64 \<times> nat" where
  "check_contents H cancel f header tmd body ending 0 i ids off k = Inr ([], off, k)"
| "check_contents H cancel f header tmd body ending (Suc n) i ids off k =
     (let c = body + 0x9c4 + i * 0x30; bytes = be tmd (c + 8) 8; cid = ucast (be tmd c 4) :: u32
      in require (be tmd (c + 4) 2 = of_nat i \<and> bit (header ! (0x20 + i div 8)) (7 - i mod 8)) Cia_unsupported
        (require (be tmd (c + 6) 2 AND (1 OR 0x4000 OR 0x8000) = 0) Cia_unsupported
        (require (cid \<notin> set ids) Cia_invalid_file
        (require (0x200 \<le> bytes \<and> bytes \<le> ending - off) Cia_invalid_file
        (after (hash_file H cancel f off bytes k) (\<lambda>(hash, k1).
         require (hash = take 32 (drop (c + 16) tmd)) Cia_invalid_file
        (after (check_contents H cancel f header tmd body ending n (Suc i) (cid # ids) (off + bytes) k1) (\<lambda>(hs, r).
         Inr (hash # hs, r)))))))))"

record verified =
  ve_title :: u64
  ve_count :: nat
  ve_bytes :: u64
  ve_hashes :: "u8 list list"

definition verify_update ::
    "'s hasher \<Rightarrow> (nat \<Rightarrow> bool) \<Rightarrow> u8 list \<Rightarrow> u64 \<Rightarrow> nat \<Rightarrow> cia_status + verified \<times> nat" where
  "verify_update H cancel f sz k =
     after (read_file f 0 0x2020) (\<lambda>header.
     after (cia_header header sz) (\<lambda>s.
     after (read_file f (sc_tmd s) (unat (sc_tmd_size s))) (\<lambda>tmd.
     after (signed_body tmd) (\<lambda>body.
     require (body + 0x9c4 \<le> length tmd) Cia_invalid_file
    (let count = unat (be tmd (body + 0x9e) 2); tid = be tmd (body + 0x4c) 8
     in require (0 < count \<and> count \<le> 256 \<and> body + 0x9c4 + count * 0x30 \<le> length tmd) Cia_unsupported
       (require (drop_bit 32 tid = 0x0004000e) Cia_unsupported
       (after (read_file f (sc_ticket s) (unat (sc_ticket_size s))) (\<lambda>ticket.
        after (signed_body ticket) (\<lambda>tbody.
        require (tbody + 0x164 + 8 \<le> length ticket) Cia_invalid_file
       (require (be ticket (tbody + 0x9c) 8 = tid) Cia_invalid_file
       (let index_size = unat (be ticket (tbody + 0x164 + 4) 4)
        in require (0x14 \<le> index_size \<and> tbody + 0x164 + index_size \<le> length ticket) Cia_invalid_file
          (after (check_contents H cancel f header tmd body (sc_end s) count 0 [] (sc_content s) k)
             (\<lambda>(hashes, off, k1).
           require (off = sc_end s) Cia_invalid_file
             (Inr (\<lparr>ve_title = tid, ve_count = count, ve_bytes = sc_end s - sc_content s, ve_hashes = hashes\<rparr>,
                   k1)))))))))))))))"

subsection \<open>What the file system, the frontend and the upstream code answer\<close>

text \<open>
  The file is read for its header when it is admitted and once more for the copy.  Questions that
  are asked several times have an answer for each time: links at the root (0), before staging (1)
  and before the commit (2); the destination at both checks (0, 1) and at the rename (2); whether the
  user path was taken over (0 to 2).
\<close>

record cia_world =
  cw_lock :: bool
  cw_frontend :: bool
  cw_powered :: bool
  cw_root :: "path option"
  cw_path :: bool
  cw_home :: "path option"
  cw_canonical :: "path \<Rightarrow> path"
  cw_link :: "nat \<Rightarrow> path \<Rightarrow> bool"
  cw_extension :: string
  cw_regular :: bool
  cw_is_link :: bool
  cw_file :: "u8 list"
  cw_later :: "u8 list"
  cw_make_root :: bool
  cw_space :: u64
  cw_make_staging :: bool
  cw_copy_good :: "nat \<Rightarrow> bool"
  cw_copy_closes :: bool
  cw_accepts :: "u8 list \<Rightarrow> bool"
  cw_container :: "u8 list \<Rightarrow> (u64 \<times> u64 \<times> u32 \<times> (nat \<Rightarrow> u64)) option"
  cw_user_path :: "nat \<Rightarrow> bool"
  cw_sdmc :: "u64 \<Rightarrow> bool"
  cw_relative :: path
  cw_destination :: "nat \<Rightarrow> bool"
  cw_make_user :: bool
  cw_write :: "u64 \<Rightarrow> u8 list \<Rightarrow> bool"
  cw_results :: bool
  cw_installed :: "nat \<Rightarrow> u8 list option"
  cw_installed_tmd :: "(u64 \<times> u32 \<times> nat) option"
  cw_make_parent :: bool
  cw_rename :: bool

datatype user_path = Path_before | Path_root | Path_staged

text \<open>What the import changes: the title at the destination is what was installed there.\<close>

record cia_disk =
  cd_user :: user_path
  cd_compress :: bool
  cd_title :: "u8 list list option"

record cia_result =
  cr_status :: cia_status
  cr_title :: u64
  cr_version :: u32
  cr_count :: nat
  cr_bytes :: u64

subsection \<open>Admission and copy\<close>

definition lower_char :: "char \<Rightarrow> char" where
  "lower_char c = (if 65 \<le> (of_char c :: nat) \<and> (of_char c :: nat) \<le> 90 then char_of ((of_char c :: nat) + 32) else c)"

definition admit :: "cia_world \<Rightarrow> cia_status + path" where
  "admit w =
     require (cw_lock w \<and> \<not> cw_frontend w \<and> \<not> cw_powered w) Cia_busy
       (case cw_root w of
          None \<Rightarrow> Inl Cia_invalid_file
        | Some requested \<Rightarrow>
            require (cw_path w) Cia_invalid_file
              (case cw_home w of
                 None \<Rightarrow> Inl Cia_wrong_environment
               | Some home \<Rightarrow>
                   after (root_path (cw_canonical w) (cw_link w 0) requested (home @ [''Documents''])) (\<lambda>base.
                   require (map lower_char (cw_extension w) = ''.cia'' \<and> cw_regular w \<and> \<not> cw_is_link w) Cia_invalid_file
                  (require (0x2020 \<le> (of_nat (length (cw_file w)) :: u64) \<and> of_nat (length (cw_file w)) \<le> max_input)
                     Cia_invalid_file (Inr base)))))"

text \<open>The copy, of as many bytes as the file had at first.\<close>

definition private_copy :: "(nat \<Rightarrow> bool) \<Rightarrow> cia_world \<Rightarrow> nat \<Rightarrow> cia_status + u8 list \<times> nat" where
  "private_copy cancel w k =
     (let sz = of_nat (length (cw_file w))
      in after (read_file (cw_file w) 0 0x2020) (\<lambda>header.
         after (cia_header header sz) (\<lambda>s.
         require (\<not> cancel k) Cia_cancelled
        (require (cw_make_root w) Cia_install_failed
        (require (sz * 2 + push_bit 20 64 < cw_space w) Cia_no_space
        (require (cw_make_staging w) Cia_install_failed
        (copy_file cancel (cw_copy_good w) (cw_copy_closes w) (cw_later w) sz (Suc k))))))))"

subsection \<open>Staging and commit\<close>

text \<open>The upstream installer gets the copy chunk by chunk, with the offset.\<close>

definition install_chunks :: "(nat \<Rightarrow> bool) \<Rightarrow> cia_world \<Rightarrow> u8 list \<Rightarrow> nat \<Rightarrow> cia_status + u64 \<times> nat" where
  "install_chunks cancel w f k =
     chunk_loop (\<lambda>b off. if cw_write w off b then Inr (off + of_nat (length b)) else Inl Cia_install_failed)
       cancel f 0 (of_nat (length f)) 0 k"

text \<open>Each installed content is read again and has to have the size and the hash that were verified.\<close>

fun check_installed ::
    "'s hasher \<Rightarrow> (nat \<Rightarrow> bool) \<Rightarrow> cia_world \<Rightarrow> (nat \<Rightarrow> u64) \<Rightarrow> u8 list list \<Rightarrow> nat \<Rightarrow> nat
     \<Rightarrow> cia_status + u8 list list \<times> nat" where
  "check_installed H cancel w sizes [] i k = Inr ([], k)"
| "check_installed H cancel w sizes (hash # hashes) i k =
     (case cw_installed w i of
        None \<Rightarrow> Inl Cia_install_failed
      | Some bs \<Rightarrow>
          require (of_nat (length bs) = sizes i) Cia_install_failed
            (after (hash_file H cancel bs 0 (of_nat (length bs)) k) (\<lambda>(h, k1).
             require (h = hash) Cia_install_failed
            (after (check_installed H cancel w sizes hashes (Suc i) k1) (\<lambda>(bss, k2). Inr (bs # bss, k2))))))"

definition leave_at :: "bool \<Rightarrow> cia_status \<Rightarrow> cia_disk \<Rightarrow> cia_status \<times> cia_disk \<Rightarrow> cia_status \<times> cia_disk" where
  "leave_at b s d k = (if b then k else (s, d))"

definition commit ::
    "(nat \<Rightarrow> bool) \<Rightarrow> cia_world \<Rightarrow> path \<Rightarrow> u8 list list \<Rightarrow> nat \<Rightarrow> cia_disk \<Rightarrow> cia_status \<times> cia_disk" where
  "commit cancel w base contents k d =
     leave_at (\<not> cancel k) Cia_cancelled d
    (leave_at (no_links (cw_link w 2) base (cw_relative w) = Inr ()) Cia_wrong_environment d
    (leave_at (\<not> cw_destination w 1) Cia_already_installed d
    (leave_at (cw_make_parent w) Cia_install_failed d
    (let d1 = d\<lparr>cd_user := Path_root\<rparr>
     in leave_at (cw_user_path w 2) Cia_wrong_environment d1
       (leave_at (cw_rename w \<and> \<not> cw_destination w 2) Cia_install_failed d1
          (Cia_success, d1\<lparr>cd_title := Some contents\<rparr>))))))"

definition stage_and_commit ::
    "'s hasher \<Rightarrow> (nat \<Rightarrow> bool) \<Rightarrow> cia_world \<Rightarrow> path \<Rightarrow> u8 list \<Rightarrow> verified \<Rightarrow> u32 \<Rightarrow> (nat \<Rightarrow> u64) \<Rightarrow> nat \<Rightarrow> cia_disk
     \<Rightarrow> cia_status \<times> cia_disk" where
  "stage_and_commit H cancel w base f v version sizes k d =
     (let d1 = d\<lparr>cd_user := Path_root\<rparr>
      in leave_at (cw_user_path w 0) Cia_wrong_environment d1
        (leave_at (cw_sdmc w (ve_title v)) Cia_unsupported d1
        (leave_at (no_links (cw_link w 1) base (cw_relative w) = Inr ()) Cia_wrong_environment d1
        (leave_at (\<not> cw_destination w 0) Cia_already_installed d1
        (leave_at (cw_make_user w) Cia_install_failed d1
        (let d2 = d1\<lparr>cd_user := Path_staged\<rparr>
         in leave_at (cw_user_path w 1) Cia_wrong_environment d2
           (let d3 = d2\<lparr>cd_compress := False\<rparr>
            in leave_at (\<not> cancel k) Cia_cancelled d3
              (case install_chunks cancel w f (Suc k) of
                 Inl s \<Rightarrow> (s, d3)
               | Inr (off, k1) \<Rightarrow>
                   leave_at (cw_results w) Cia_install_failed d3
                     (case check_installed H cancel w sizes (ve_hashes v) 0 k1 of
                        Inl s \<Rightarrow> (s, d3)
                      | Inr (contents, k2) \<Rightarrow>
                          leave_at (cw_installed_tmd w = Some (ve_title v, version, ve_count v)) Cia_install_failed d3
                            (commit cancel w base contents k2 d3))))))))))"

subsection \<open>The import\<close>

text \<open>
  On every way out the user path is set to the root and the compression setting is put back; the
  staging directory, which is not part of the state here, is removed.  Setting the user path is taken
  to work: if it threw, the destructor would drop the exception and with it the compression setting.
\<close>

definition put_back :: "cia_disk \<Rightarrow> cia_status \<times> cia_disk \<Rightarrow> cia_status \<times> cia_disk" where
  "put_back d r = (fst r, (snd r)\<lparr>cd_user := Path_root, cd_compress := cd_compress d\<rparr>)"

definition import_update ::
    "'s hasher \<Rightarrow> (nat \<Rightarrow> bool) \<Rightarrow> cia_world \<Rightarrow> cia_result \<Rightarrow> cia_disk \<Rightarrow> cia_status \<times> cia_result \<times> cia_disk" where
  "import_update H cancel w r d =
     (case admit w of
        Inl s \<Rightarrow> (s, r, d)
      | Inr base \<Rightarrow>
          (case private_copy cancel w 0 of
             Inl s \<Rightarrow> (s, r, d)
           | Inr (f, k) \<Rightarrow>
               (case verify_update H cancel f (of_nat (length (cw_file w))) k of
                  Inl s \<Rightarrow> (s, r, d)
                | Inr (v, k1) \<Rightarrow>
                    (case (if cw_accepts w f then cw_container w f else None) of
                       None \<Rightarrow> (if cw_accepts w f then Cia_invalid_file else Cia_unsupported, r, d)
                     | Some (tid, ticket_tid, version, sizes) \<Rightarrow>
                         if tid = ve_title v \<and> ticket_tid = ve_title v
                         then let r1 = r\<lparr>cr_title := ve_title v, cr_version := version, cr_count := ve_count v,
                                         cr_bytes := ve_bytes v\<rparr>;
                                  (s, d1) = put_back d (stage_and_commit H cancel w base f v version sizes k1 d)
                              in (s, r1, d1)
                         else (Cia_invalid_file, r, d)))))"

text \<open>
  The C function: the result structure has to be there with its size; it says failed until the
  import returns, and then has its status.
\<close>

definition install_update_cia ::
    "'s hasher \<Rightarrow> (nat \<Rightarrow> bool) \<Rightarrow> cia_world \<Rightarrow> (cia_result \<times> u32) option \<Rightarrow> cia_disk
     \<Rightarrow> cia_status \<times> cia_result option \<times> cia_disk" where
  "install_update_cia H cancel w result d =
     (case result of
        None \<Rightarrow> (Cia_invalid_file, None, d)
      | Some (r, sz) \<Rightarrow>
          if sz \<noteq> 32 then (Cia_invalid_file, Some r, d)
          else let r0 = \<lparr>cr_status = Cia_install_failed, cr_title = 0, cr_version = 0, cr_count = 0, cr_bytes = 0\<rparr>;
                   (s, r1, d1) = import_update H cancel w r0 d
               in (s, Some (r1\<lparr>cr_status := s\<rparr>), d1))"

end
