(* ===== verification/Cia_Facts.thy ===== *)
theory Cia_Facts
  imports Cia_Import
begin

text \<open>
  Facts about the importer of update files: a loop over chunks hands on exactly the bytes of its
  range, it ends, and what a verification that succeeds has checked.
\<close>

subsection \<open>Chunks\<close>

lemma read_file_Inr:
  assumes "read_file f off n = Inr b" "n \<noteq> 0"
  shows "b = take n (drop (unat off) f)" "unat off + n \<le> length f" "unat off < 2 ^ 63" "length b = n"
  using assms by (auto simp: read_file_def split: if_splits)

lemma read_file_in_range:
  "unat off + n \<le> length f \<Longrightarrow> length f < 2 ^ 63 \<Longrightarrow> read_file f off n = Inr (take n (drop (unat off) f))"
  by (simp add: read_file_def)

lemma chunk_parts:
  assumes "(w :: u64) \<noteq> 0"
  shows "unat (min w chunk_size) \<noteq> 0" "unat (w - min w chunk_size) = unat w - unat (min w chunk_size)"
    "unat (min w chunk_size) \<le> unat w"
  using assms by (simp_all add: chunk_size_def unat_sub min_def unat_gt_0 word_le_nat_alt unat_eq_0)

lemma slice_split: "m \<le> n \<Longrightarrow> take m (drop k f) @ take (n - m) (drop (k + m) f) = take n (drop k f)"
  by (metis add.commute drop_drop le_add_diff_inverse take_add)

lemma chunk_loop_done [simp]: "chunk_loop step cancel f off 0 s k = Inr (s, k)"
  by (simp add: chunk_loop.simps [of step cancel f off 0])

text \<open>A loop that succeeds has handed on its range, cut into chunks.\<close>

lemma chunk_loop_success:
  assumes "chunk_loop step cancel f off sz s k = Inr (s1, k1)"
    and "\<And>b s s'. step b s = Inr s' \<Longrightarrow> s' = g b s"
  shows "\<exists>bs. s1 = fold g bs s \<and> concat bs = take (unat sz) (drop (unat off) f) \<and> k1 = k + length bs
    \<and> (sz \<noteq> 0 \<longrightarrow> unat off + unat sz \<le> length f)"
  using assms
proof (induction step cancel f off sz s k rule: chunk_loop.induct)
  case (1 step cancel f off sz s k)
  have unf: "(if sz = 0 then Inr (s, k) else if cancel k then Inl Cia_cancelled
     else let n = min sz chunk_size in case read_file f off (unat n) of Inl x \<Rightarrow> Inl x
       | Inr b \<Rightarrow> (case step b s of Inl x \<Rightarrow> Inl x
            | Inr s1 \<Rightarrow> chunk_loop step cancel f (off + n) (sz - n) s1 (Suc k))) = Inr (s1, k1)"
    using "1.prems"(1) by (subst (asm) chunk_loop.simps)
  show ?case
  proof (cases "sz = 0")
    case True
    with unf show ?thesis by (intro exI [of _ "[]"]) simp
  next
    case False
    define n where "n = min sz chunk_size"
    note p = chunk_parts [OF False, folded n_def]
    have c: "\<not> cancel k" using unf False by auto
    obtain b where b: "read_file f off (unat n) = Inr b"
      using unf False c by (cases "read_file f off (unat n)") (auto simp: n_def [symmetric] Let_def)
    obtain s2 where s2: "step b s = Inr s2"
      using unf False c b by (cases "step b s") (auto simp: n_def [symmetric] Let_def)
    have r: "chunk_loop step cancel f (off + n) (sz - n) s2 (Suc k) = Inr (s1, k1)"
      using unf False c b s2 by (simp add: n_def [symmetric] Let_def)
    note rd = read_file_Inr [OF b p(1)]
    have "unat n < 2 ^ 63" using p(3) by (simp add: n_def chunk_size_def min_def word_le_nat_alt split: if_splits)
    then have o: "unat (off + n) = unat off + unat n" using rd(3) by (subst unat_add_lem [THEN iffD1]) simp_all
    obtain bs where bs: "s1 = fold g bs s2" "concat bs = take (unat (sz - n)) (drop (unat (off + n)) f)"
      "k1 = Suc k + length bs" "sz - n \<noteq> 0 \<longrightarrow> unat (off + n) + unat (sz - n) \<le> length f"
      using 1(1) [OF False c n_def b s2 r "1.prems"(2)] by blast
    have "b @ concat bs = take (unat sz) (drop (unat off) f)"
      using slice_split [OF p(3), of "unat off" f] by (simp add: bs(2) rd(1) o p(2))
    moreover have "unat off + unat sz \<le> length f"
      using bs(4) rd(2) p(2,3) o by (cases "sz - n = 0") (auto simp: unat_eq_0 [symmetric])
    ultimately show ?thesis
      using bs(1,3) "1.prems"(2) [OF s2] by (intro exI [of _ "b # bs"]) simp
  qed
qed

text \<open>A loop over a range within the file, not cancelled and with steps that work, succeeds.\<close>

lemma chunk_loop_complete:
  assumes "unat off + unat sz \<le> length f" "length f < 2 ^ 63" "\<And>j. \<not> cancel j"
    and "\<And>b s. \<exists>s'. step b s = Inr s'"
  shows "\<exists>s1 k1. chunk_loop step cancel f off sz s k = Inr (s1, k1)"
  using assms
proof (induction step cancel f off sz s k rule: chunk_loop.induct)
  case (1 step cancel f off sz s k)
  show ?case
  proof (cases "sz = 0")
    case True
    then show ?thesis by simp
  next
    case False
    define n where "n = min sz chunk_size"
    note p = chunk_parts [OF False, folded n_def]
    have b: "read_file f off (unat n) = Inr (take (unat n) (drop (unat off) f))"
      using "1.prems"(1,2) p(3) by (intro read_file_in_range) linarith+
    obtain s2 where s2: "step (take (unat n) (drop (unat off) f)) s = Inr s2" using "1.prems"(4) by blast
    have "unat (off + n) = unat off + unat n"
      using "1.prems"(1,2) p(3) by (subst unat_add_lem [THEN iffD1]) simp_all
    then have "unat (off + n) + unat (sz - n) \<le> length f" using "1.prems"(1) p(2,3) by simp
    from 1(1) [OF False "1.prems"(3) n_def b s2 this "1.prems"(2-4)]
    obtain s1 k1 where r: "chunk_loop step cancel f (off + n) (sz - n) s2 (Suc k) = Inr (s1, k1)" by blast
    have "\<not> cancel k" by (rule "1.prems"(3))
    with False b s2 r have "chunk_loop step cancel f off sz s k = Inr (s1, k1)"
      by (subst chunk_loop.simps) (simp add: n_def Let_def)
    then show ?thesis by blast
  qed
qed

subsection \<open>The hash of a range\<close>

text \<open>A hash that is fed in pieces is the digest of the pieces one after the other.\<close>

definition hasher_ok :: "'s hasher \<Rightarrow> (u8 list \<Rightarrow> u8 list) \<Rightarrow> bool" where
  "hasher_ok H D \<longleftrightarrow> (\<forall>bs. h_final H (fold (h_update H) bs (h_new H)) = D (concat bs))"

lemma hash_file_success:
  assumes "hasher_ok H D" "hash_file H cancel f off sz k = Inr (hash, k1)"
  shows "hash = D (take (unat sz) (drop (unat off) f))" "sz \<noteq> 0 \<Longrightarrow> unat off + unat sz \<le> length f"
proof -
  obtain s where s: "chunk_loop (\<lambda>b s. Inr (h_update H b s)) cancel f off sz (h_new H) k = Inr (s, k1)" "hash = h_final H s"
    using assms(2) by (auto simp: hash_file_def after_Inr)
  obtain bs where "s = fold (h_update H) bs (h_new H)" "concat bs = take (unat sz) (drop (unat off) f)"
    "sz \<noteq> 0 \<longrightarrow> unat off + unat sz \<le> length f"
    using chunk_loop_success [OF s(1), of "h_update H"] by auto
  with s(2) assms(1) show "hash = D (take (unat sz) (drop (unat off) f))" "sz \<noteq> 0 \<Longrightarrow> unat off + unat sz \<le> length f"
    by (auto simp: hasher_ok_def)
qed

lemma hash_file_complete:
  assumes "hasher_ok H D" "unat off + unat sz \<le> length f" "length f < 2 ^ 63" "\<And>j. \<not> cancel j"
  shows "\<exists>k1. hash_file H cancel f off sz k = Inr (D (take (unat sz) (drop (unat off) f)), k1)"
proof -
  have "\<exists>s k1. chunk_loop (\<lambda>b s. Inr (h_update H b s)) cancel f off sz (h_new H) k = Inr (s, k1)"
    by (rule chunk_loop_complete) (use assms(2-4) in auto)
  then obtain s k1 where "chunk_loop (\<lambda>b s. Inr (h_update H b s)) cancel f off sz (h_new H) k = Inr (s, k1)" by blast
  then have "hash_file H cancel f off sz k = Inr (h_final H s, k1)" by (simp add: hash_file_def)
  with hash_file_success(1) [OF assms(1) this] show ?thesis by auto
qed

subsection \<open>The contents\<close>

definition content_size :: "u8 list \<Rightarrow> nat \<Rightarrow> nat \<Rightarrow> nat" where
  "content_size tmd body i = unat (be tmd (body + 0x9c4 + i * 0x30 + 8) 8)"

definition content_hash :: "u8 list \<Rightarrow> nat \<Rightarrow> nat \<Rightarrow> u8 list" where
  "content_hash tmd body i = take 32 (drop (body + 0x9c4 + i * 0x30 + 16) tmd)"

text \<open>The contents \<open>i\<close>, \<open>i + 1\<close>, and so on, \<open>n\<close> of them, from \<open>off\<close> on: their bytes.\<close>

fun content_bytes :: "u8 list \<Rightarrow> u8 list \<Rightarrow> nat \<Rightarrow> nat \<Rightarrow> nat \<Rightarrow> nat \<Rightarrow> u8 list list" where
  "content_bytes f tmd body 0 i off = []"
| "content_bytes f tmd body (Suc n) i off =
     take (content_size tmd body i) (drop off f) # content_bytes f tmd body n (Suc i) (off + content_size tmd body i)"

lemma content_bytes_length [simp]: "length (content_bytes f tmd body n i off) = n"
  by (induction n arbitrary: i off) simp_all

lemma content_bytes_concat:
  "concat (content_bytes f tmd body n i off) = take (\<Sum>j=i..<i + n. content_size tmd body j) (drop off f)"
proof (induction n arbitrary: i off)
  case (Suc n)
  have "(\<Sum>j=i..<i + Suc n. content_size tmd body j)
      = content_size tmd body i + (\<Sum>j=Suc i..<Suc i + n. content_size tmd body j)"
    by (simp add: sum.atLeast_Suc_lessThan)
  with Suc [of "Suc i" "off + content_size tmd body i"] show ?case
    by (simp add: take_add add.commute)
qed simp

lemma check_contents_all:
  assumes "hasher_ok H D" "check_contents H cancel f header tmd body ending n i ids off k = Inr (hs, off1, k1)"
    and "off \<le> ending"
  shows "hs = map D (content_bytes f tmd body n i (unat off)) \<and> hs = map (content_hash tmd body) [i..<i + n]
    \<and> unat off1 = unat off + (\<Sum>j=i..<i + n. content_size tmd body j) \<and> off1 \<le> ending"
  using assms(2,3)
proof (induction n arbitrary: i ids off k hs)
  case (Suc n)
  let ?c = "body + 0x9c4 + i * 0x30"
  let ?bytes = "be tmd (?c + 8) 8"
  obtain hash k2 hs2 where r: "0x200 \<le> ?bytes" "?bytes \<le> ending - off"
    "hash_file H cancel f off ?bytes k = Inr (hash, k2)" "hash = take 32 (drop (?c + 16) tmd)" "hs = hash # hs2"
    "check_contents H cancel f header tmd body ending n (Suc i) (ucast (be tmd ?c 4) # ids) (off + ?bytes) k2 = Inr (hs2, off1, k1)"
    using Suc.prems(1) by (auto simp: Let_def after_Inr)
  have b: "unat off + content_size tmd body i \<le> unat ending"
    using r(2) Suc.prems(2) by (auto simp: unat_sub word_le_nat_alt content_size_def)
  then have "unat (off + ?bytes) = unat off + content_size tmd body i"
    using unsigned_less [of ending, where 'a = nat] unfolding content_size_def
    by (subst unat_add_lem [THEN iffD1]) simp_all
  with b have o: "unat (off + ?bytes) = unat off + content_size tmd body i" "off + ?bytes \<le> ending"
    by (simp_all add: word_le_nat_alt)
  have s: "hash = D (take (content_size tmd body i) (drop (unat off) f))"
    using hash_file_success(1) [OF assms(1) r(3)] by (simp add: content_size_def)
  note ih = Suc.IH [OF r(6) o(2)]
  have u: "[i..<i + Suc n] = i # [Suc i..<Suc i + n]" by (simp add: upt_conv_Cons del: upt_Suc)
  have z: "(\<Sum>j=i..<i + Suc n. content_size tmd body j)
      = content_size tmd body i + (\<Sum>j=Suc i..<Suc i + n. content_size tmd body j)"
    by (simp add: sum.atLeast_Suc_lessThan)
  have "hash = content_hash tmd body i" using r(4) by (simp add: content_hash_def)
  with s r(5) ih o(1) show ?case unfolding u z by (auto simp del: upt_Suc sum.op_ivl_Suc)
qed simp

lemmas check_contents_success =
  check_contents_all [THEN conjunct1] check_contents_all [THEN conjunct2, THEN conjunct1]
  check_contents_all [THEN conjunct2, THEN conjunct2, THEN conjunct1]
  check_contents_all [THEN conjunct2, THEN conjunct2, THEN conjunct2]

subsection \<open>Failures\<close>

text \<open>No failure has the status of success.\<close>

named_theorems fails \<open>what fails does not do so with the status of success\<close>

lemma read_file_fails [fails]: "read_file f off n \<noteq> Inl Cia_success"
  by (simp add: read_file_def)

lemma cia_header_fails [fails]: "cia_header h n \<noteq> Inl Cia_success"
  by (simp add: cia_header_def Let_def)

lemma signed_body_fails [fails]: "signed_body d \<noteq> Inl Cia_success"
  by (simp add: signed_body_def Let_def)

lemma no_links_fails [fails]: "no_links link b rel \<noteq> Inl Cia_success"
  by (induction rel arbitrary: b) auto

lemma root_path_fails [fails]: "root_path canonical link requested documents \<noteq> Inl Cia_success"
  using no_links_fails [of link "canonical documents" "[''RoomExperiment-v1'', ''3DS'']"]
  unfolding root_path_def Let_def by (auto split: sum.split simp del: no_links.simps)

lemma after_fails [fails]: "r \<noteq> Inl Cia_success \<Longrightarrow> (\<And>x. k x \<noteq> Inl Cia_success) \<Longrightarrow> after r k \<noteq> Inl Cia_success"
  by (cases r) auto

lemma require_fails [fails]: "s \<noteq> Cia_success \<Longrightarrow> k \<noteq> Inl Cia_success \<Longrightarrow> require b s k \<noteq> Inl Cia_success"
  by (simp add: require_def)

lemma fails_cases:
  "after r k = Inl s \<longleftrightarrow> r = Inl s \<or> (\<exists>x. r = Inr x \<and> k x = Inl s)"
  "require b s' r = Inl s \<longleftrightarrow> b \<and> r = Inl s \<or> \<not> b \<and> s' = s"
  by (cases r) (auto simp: require_def)

lemma chunk_loop_fails [fails]:
  "(\<And>b s. step b s \<noteq> Inl Cia_success) \<Longrightarrow> chunk_loop step cancel f off sz s k \<noteq> Inl Cia_success"
proof (induction step cancel f off sz s k rule: chunk_loop.induct)
  case (1 step cancel f off sz s k)
  show ?case
    by (subst chunk_loop.simps)
       (use 1 read_file_fails [of f off] in \<open>auto simp: Let_def split: sum.split\<close>)
qed

lemma hash_file_fails [fails]: "hash_file H cancel f off sz k \<noteq> Inl Cia_success"
  unfolding hash_file_def by (intro fails) (auto split: prod.split)

lemma copy_file_fails [fails]: "copy_file cancel good closes f sz k \<noteq> Inl Cia_success"
  unfolding copy_file_def by (intro fails) (auto simp: require_def split: prod.split)

lemma check_contents_fails [fails]:
  "check_contents H cancel f header tmd body ending n i ids off k \<noteq> Inl Cia_success"
  by (induction n arbitrary: i ids off k)
     (auto simp: Let_def fails_cases fails split: prod.splits)

lemma check_installed_fails [fails]: "check_installed H cancel w sizes hashes i k \<noteq> Inl Cia_success"
  by (induction hashes arbitrary: i k)
     (auto simp: fails_cases fails split: prod.splits option.splits)

lemma verify_update_fails [fails]: "verify_update H cancel f sz k \<noteq> Inl Cia_success"
  unfolding verify_update_def Let_def by (intro fails) (auto simp: require_def split: prod.split)

lemma admit_fails [fails]: "admit w \<noteq> Inl Cia_success"
  unfolding admit_def by (auto simp: fails_cases fails split: option.splits)

lemma private_copy_fails [fails]: "private_copy cancel w k \<noteq> Inl Cia_success"
  unfolding private_copy_def Let_def by (intro fails) simp_all

lemma install_chunks_fails [fails]: "install_chunks cancel w f k \<noteq> Inl Cia_success"
  unfolding install_chunks_def by (intro fails) simp

section \<open>A concrete file\<close>

text \<open>
  A small update file with one content, for the witnesses: its header, its ticket and its metadata
  as the importer reads them, with a digest that adds up the bytes.
\<close>

subsection \<open>Numbers of a few bytes\<close>

lemma byte_integer_little:
  "byte_integer False (a # b # p) 2 = ucast a OR push_bit 8 (ucast b)"
  "byte_integer False (a # b # c # d # p) 4 = ucast a OR push_bit 8 (ucast b) OR push_bit 16 (ucast c) OR push_bit 24 (ucast d)"
  "byte_integer False (a # b # c # d # e # f # g # h # p) 8
     = ucast a OR push_bit 8 (ucast b) OR push_bit 16 (ucast c) OR push_bit 24 (ucast d)
       OR push_bit 32 (ucast e) OR push_bit 40 (ucast f) OR push_bit 48 (ucast g) OR push_bit 56 (ucast h)"
  by (simp_all add: byte_integer_def upt_rec or.assoc)

lemma byte_integer_big:
  "byte_integer True (a # b # p) 2 = ucast b OR push_bit 8 (ucast a)"
  "byte_integer True (a # b # c # d # p) 4 = ucast d OR push_bit 8 (ucast c) OR push_bit 16 (ucast b) OR push_bit 24 (ucast a)"
  "byte_integer True (a # b # c # d # e # f # g # h # p) 8
     = ucast h OR push_bit 8 (ucast g) OR push_bit 16 (ucast f) OR push_bit 24 (ucast e)
       OR push_bit 32 (ucast d) OR push_bit 40 (ucast c) OR push_bit 48 (ucast b) OR push_bit 56 (ucast a)"
  by (simp_all add: byte_integer_def upt_rec or.assoc)

lemmas byte_integer_eval = byte_integer_little byte_integer_big

subsection \<open>The file\<close>

definition ex_header :: "u8 list" where
  "ex_header = [0x20, 0x20, 0, 0, 0, 0, 0, 0, 0, 0, 0, 0, 0xB8, 2, 0, 0, 0x34, 0x0B, 0, 0, 0, 0, 0, 0,
     0, 2, 0, 0, 0, 0, 0, 0, 0x80] @ replicate 0x1fff 0"

definition ex_title :: "u8 list" where
  "ex_title = [0, 4, 0, 0xe, 0, 0, 0, 1]"

definition ex_ticket :: "u8 list" where
  "ex_ticket = [0, 1, 0, 4] @ replicate 0x1d8 0 @ ex_title @ replicate 0xc4 0 @ [0, 0, 0, 0x14] @ replicate 12 0"

definition ex_tmd :: "u8 list" where
  "ex_tmd = [0, 1, 0, 4] @ replicate 0x188 0 @ ex_title @ replicate 0x4a 0 @ [0, 1] @ replicate 0x924 0
     @ [0, 0, 0, 0, 0, 0, 0, 0, 0, 0, 0, 0, 0, 0, 2, 0] @ replicate 32 0"

definition ex_file :: "u8 list" where
  "ex_file = ex_header @ replicate 0x20 0 @ ex_ticket @ replicate 8 0 @ ex_tmd @ replicate 12 0 @ replicate 0x200 0"

definition sum_hasher :: "u8 hasher" where
  "sum_hasher = \<lparr>h_new = 0, h_update = (\<lambda>b s. s + sum_list b), h_final = (\<lambda>s. replicate 32 s)\<rparr>"

definition sum_digest :: "u8 list \<Rightarrow> u8 list" where
  "sum_digest xs = replicate 32 (sum_list xs)"

lemma sum_hasher_ok: "hasher_ok sum_hasher sum_digest"
proof -
  have "fold (\<lambda>b s. s + sum_list b) bs s = s + sum_list (concat bs)" for bs :: "u8 list list" and s
    by (induction bs arbitrary: s) (simp_all add: add.assoc)
  then show ?thesis by (simp add: hasher_ok_def sum_hasher_def sum_digest_def)
qed

lemma ex_lengths:
  "length ex_header = 0x2020" "length ex_ticket = 0x2b8" "length ex_tmd = 0xb34" "length ex_file = 0x3040"
  by (simp_all add: ex_header_def ex_ticket_def ex_tmd_def ex_title_def ex_file_def)

definition ex_sections :: sections where
  "ex_sections = \<lparr>sc_ticket = 0x2040, sc_tmd = 0x2300, sc_content = 0x2e40, sc_end = 0x3040,
     sc_ticket_size = 0x2b8, sc_tmd_size = 0xb34\<rparr>"

lemma ex_header_reads: "cia_header ex_header 0x3040 = Inr ex_sections"
proof -
  have f: "byte_integer False ex_header 4 = 0x2020" "byte_integer False (drop 4 ex_header) 2 = 0"
    "byte_integer False (drop 6 ex_header) 2 = 0" "byte_integer False (drop 8 ex_header) 4 = 0"
    "byte_integer False (drop 12 ex_header) 4 = 0x2b8" "byte_integer False (drop 16 ex_header) 4 = 0xb34"
    "byte_integer False (drop 20 ex_header) 4 = 0" "byte_integer False (drop 24 ex_header) 8 = 0x200"
    by (simp_all add: ex_header_def byte_integer_eval)
  have m: "max_input = 0x200000000" by (simp add: max_input_def)
  show ?thesis
    by (simp add: cia_header_def ex_lengths f m Let_def align_def ex_sections_def)
qed

lemma ex_reads:
  "read_file ex_file 0 0x2020 = Inr ex_header"
  "read_file ex_file 0x2040 0x2b8 = Inr ex_ticket" "read_file ex_file 0x2300 0xb34 = Inr ex_tmd"
  "read_file ex_file 0x2e40 0x200 = Inr (replicate 0x200 0)"
  by (simp_all add: read_file_def ex_lengths) (simp_all add: ex_file_def ex_lengths)

lemma ex_tmd_reads:
  "signed_body ex_tmd = Inr 0x140" "be ex_tmd 0x1de 2 = 1" "be ex_tmd 0x18c 8 = 0x4000e00000001"
  "be ex_tmd 0xb04 4 = 0" "be ex_tmd 0xb08 2 = 0" "be ex_tmd 0xb0a 2 = 0" "be ex_tmd 0xb0c 8 = 0x200"
  "take 32 (drop 0xb14 ex_tmd) = replicate 32 0"
  by (simp_all add: signed_body_def be_def ex_tmd_def ex_title_def byte_integer_eval)

lemma ex_ticket_reads:
  "signed_body ex_ticket = Inr 0x140" "be ex_ticket 0x1dc 8 = 0x4000e00000001" "be ex_ticket 0x2a8 4 = 0x14"
  by (simp_all add: signed_body_def be_def ex_ticket_def ex_title_def byte_integer_eval)

subsection \<open>Its verification\<close>

text \<open>A range that fits in one chunk.\<close>

lemma chunk_loop_once:
  assumes "sz \<noteq> 0" "sz \<le> chunk_size" "\<not> cancel k" "read_file f off (unat sz) = Inr b" "step b s = Inr s1"
  shows "chunk_loop step cancel f off sz s k = Inr (s1, Suc k)"
  using assms by (subst chunk_loop.simps) (simp add: min_def Let_def)

lemma zero_content_hash:
  assumes "read_file f off (unat sz) = Inr (replicate n 0)" "sz \<noteq> 0" "sz \<le> chunk_size"
  shows "hash_file sum_hasher (\<lambda>j. False) f off sz k = Inr (replicate 32 0, Suc k)"
proof -
  have "chunk_loop (\<lambda>b s. Inr (h_update sum_hasher b s)) (\<lambda>j. False) f off sz (h_new sum_hasher) k = Inr (0, Suc k)"
    by (rule chunk_loop_once [OF assms(2,3) _ assms(1)]) (simp_all add: sum_hasher_def sum_list_replicate)
  then show ?thesis by (simp add: hash_file_def sum_hasher_def)
qed

definition ex_verified :: verified where
  "ex_verified = \<lparr>ve_title = 0x4000e00000001, ve_count = 1, ve_bytes = 0x200, ve_hashes = [replicate 32 0]\<rparr>"

lemma ex_verified_simps [simp]:
  "ve_title ex_verified = 0x4000e00000001" "ve_count ex_verified = 1" "ve_bytes ex_verified = 0x200"
  "ve_hashes ex_verified = [replicate 32 0]"
  by (simp_all add: ex_verified_def)

lemma ex_contents:
  "check_contents sum_hasher (\<lambda>j. False) ex_file ex_header ex_tmd 0x140 0x3040 (Suc 0) 0 [] 0x2e40 k
     = Inr ([replicate 32 0], 0x3040, Suc k)"
proof -
  have "hash_file sum_hasher (\<lambda>j. False) ex_file 0x2e40 0x200 k = Inr (replicate 32 0, Suc k)"
    using zero_content_hash [of ex_file "0x2e40" "0x200" "0x200" k] by (simp add: ex_reads chunk_size_def)
  moreover have "ex_header ! 0x20 = 0x80" by (simp add: ex_header_def)
  ultimately show ?thesis by (simp add: ex_tmd_reads Let_def require_def)
qed

lemma ex_verifies: "verify_update sum_hasher (\<lambda>j. False) ex_file 0x3040 k = Inr (ex_verified, Suc k)"
  by (simp add: verify_update_def ex_reads ex_header_reads ex_sections_def ex_tmd_reads ex_ticket_reads ex_lengths
      ex_contents ex_verified_def Let_def require_def del: check_contents.simps)

subsection \<open>Its import\<close>

definition ex_cia_world :: cia_world where
  "ex_cia_world = \<lparr>cw_lock = True, cw_frontend = False, cw_powered = False,
     cw_root = Some [''/'', ''Documents'', ''RoomExperiment-v1'', ''3DS''], cw_path = True, cw_home = Some [''/''],
     cw_canonical = (\<lambda>p. p), cw_link = (\<lambda>t p. False), cw_extension = ''.CIA'', cw_regular = True, cw_is_link = False,
     cw_file = ex_file, cw_later = ex_file, cw_make_root = True, cw_space = 0x10000000, cw_make_staging = True,
     cw_copy_good = (\<lambda>i. True), cw_copy_closes = True, cw_accepts = (\<lambda>f. True),
     cw_container = (\<lambda>f. Some (0x4000e00000001, 0x4000e00000001, 16, \<lambda>i. 0x200)), cw_user_path = (\<lambda>t. True),
     cw_sdmc = (\<lambda>t. True), cw_relative = [''Nintendo 3DS'', ''title''], cw_destination = (\<lambda>t. False),
     cw_make_user = True, cw_write = (\<lambda>off b. True), cw_results = True,
     cw_installed = (\<lambda>i. if i = 0 then Some (replicate 0x200 0) else None),
     cw_installed_tmd = Some (0x4000e00000001, 16, 1), cw_make_parent = True, cw_rename = True\<rparr>"

definition ex_disk :: cia_disk where
  "ex_disk = \<lparr>cd_user = Path_before, cd_compress = True, cd_title = None\<rparr>"

lemma ex_whole_file: "read_file ex_file 0 (unat (0x3040 :: u64)) = Inr ex_file"
  using ex_lengths(4) by (simp add: read_file_def)

lemma ex_copy: "private_copy (\<lambda>j. False) ex_cia_world k = Inr (ex_file, k + 2)"
proof -
  have "chunk_loop (\<lambda>b (c, i). if True then Inr (c @ b, Suc i) else Inl Cia_install_failed) (\<lambda>j. False) ex_file 0
      (0x3040 :: u64) ([], 0 :: nat) (Suc k) = Inr ((ex_file, 1), Suc (Suc k))"
    by (rule chunk_loop_once [OF _ _ _ ex_whole_file]) (simp_all add: chunk_size_def)
  then show ?thesis
    by (simp add: private_copy_def copy_file_def ex_cia_world_def ex_lengths ex_reads ex_header_reads require_def Let_def)
qed

lemma ex_admitted: "admit ex_cia_world = Inr [''/'', ''Documents'', ''RoomExperiment-v1'', ''3DS'']"
proof -
  have "map lower_char ''.CIA'' = ''.cia''" by code_simp
  then show ?thesis
    by (simp add: admit_def ex_cia_world_def root_path_def is_absolute_def ex_lengths max_input_def require_def Let_def)
qed

lemma ex_staged:
  "stage_and_commit sum_hasher (\<lambda>j. False) ex_cia_world base ex_file ex_verified 16 (\<lambda>i. 0x200) k ex_disk
     = (Cia_success, ex_disk\<lparr>cd_user := Path_root, cd_compress := False, cd_title := Some [replicate 0x200 0]\<rparr>)"
proof -
  have "chunk_loop (\<lambda>b off. if True then Inr (off + of_nat (length b)) else Inl Cia_install_failed) (\<lambda>j. False) ex_file 0
      (0x3040 :: u64) (0 :: u64) (Suc k) = Inr (0x3040, Suc (Suc k))"
    by (rule chunk_loop_once [OF _ _ _ ex_whole_file]) (simp_all add: chunk_size_def ex_lengths)
  then have "install_chunks (\<lambda>j. False) ex_cia_world ex_file (Suc k) = Inr (0x3040, Suc (Suc k))"
    by (simp add: install_chunks_def ex_cia_world_def ex_lengths)
  moreover have "hash_file sum_hasher (\<lambda>j. False) (replicate 0x200 0) 0 0x200 i = Inr (replicate 32 0, Suc i)" for i
    using zero_content_hash [of "replicate 0x200 0" 0 "0x200" "0x200" i] by (simp add: read_file_def chunk_size_def)
  ultimately show ?thesis
    by (simp add: stage_and_commit_def commit_def leave_at_def ex_cia_world_def ex_disk_def
        is_absolute_def require_def Let_def)
qed

lemma ex_import:
  "import_update sum_hasher (\<lambda>j. False) ex_cia_world r ex_disk
     = (Cia_success, r\<lparr>cr_title := 0x4000e00000001, cr_version := 16, cr_count := 1, cr_bytes := 0x200\<rparr>,
        ex_disk\<lparr>cd_user := Path_root, cd_title := Some [replicate 0x200 0]\<rparr>)"
proof -
  have w: "cw_file ex_cia_world = ex_file" "cw_accepts ex_cia_world f"
    "cw_container ex_cia_world f = Some (0x4000e00000001, 0x4000e00000001, 16, \<lambda>i. 0x200)" for f
    by (simp_all add: ex_cia_world_def)
  show ?thesis
    by (simp add: import_update_def ex_admitted ex_copy w ex_lengths ex_verifies ex_staged put_back_def ex_disk_def [symmetric]
        Let_def del: replicate.simps)
qed

end
