(* ===== verification/Cia_Properties.thy ===== *)
theory Cia_Properties
  imports Cia_Facts
begin

text \<open>
  The properties of the importer of update files: the sections of a header that is accepted, the
  hash of a range, what a verified file is made of, and that an import changes all or nothing.
\<close>

subsection \<open>The header\<close>

text \<open>
  C30. A header that is accepted has its ticket, its metadata and its contents one after the other
  and apart, each aligned to 64 bytes and within the file, as exact numbers: none of the 64-bit
  sums wraps round, whatever the bytes of the header.
\<close>

theorem accepted_header_in_bounds:
  assumes "cia_header h n = Inr s"
  shows "0x2020 \<le> unat (sc_ticket s)
    \<and> unat (sc_ticket s) + unat (byte_integer False (drop 12 h) 4) \<le> unat (sc_tmd s)
    \<and> unat (sc_tmd s) + unat (byte_integer False (drop 16 h) 4) \<le> unat (sc_content s)
    \<and> unat (sc_content s) + unat (byte_integer False (drop 24 h) 8) = unat (sc_end s) \<and> unat (sc_end s) \<le> unat n
    \<and> 64 dvd unat (sc_ticket s) \<and> 64 dvd unat (sc_tmd s) \<and> 64 dvd unat (sc_content s)"
  using header_sections_ok [OF assms] by (simp add: sections_ok_def)

subsection \<open>The hash of a range\<close>

text \<open>
  C31. Hashing a range of a file chunk by chunk ends, and if it is not cancelled it succeeds exactly
  when the range is within the file; the hash is then the digest of the range's bytes in one piece.
\<close>

theorem hash_of_range:
  assumes "hasher_ok H D" "length f < 2 ^ 63" "sz \<noteq> 0"
  shows "map_sum (\<lambda>s. ()) fst (hash_file H (\<lambda>j. False) f off sz k)
    = (if unat off + unat sz \<le> length f then Inr (D (take (unat sz) (drop (unat off) f))) else Inl ())"
proof (cases "hash_file H (\<lambda>j. False) f off sz k")
  case (Inl s)
  have "\<not> unat off + unat sz \<le> length f"
    using hash_file_complete [OF assms(1) _ assms(2), of off sz "\<lambda>j. False" k] Inl by auto
  with Inl show ?thesis by simp
next
  case (Inr x)
  then have "hash_file H (\<lambda>j. False) f off sz k = Inr (fst x, snd x)" by simp
  from hash_file_success [OF assms(1) this] Inr assms(3) show ?thesis by simp
qed

subsection \<open>A verified file\<close>

lemma verify_update_parts:
  assumes "verify_update H cancel f sz k = Inr (v, k1)"
  obtains s tmd body off where
    "cia_header (take 0x2020 f) sz = Inr s" "tmd = take (unat (sc_tmd_size s)) (drop (unat (sc_tmd s)) f)"
    "signed_body tmd = Inr body" "be tmd (body + 0x4c) 8 = ve_title v" "drop_bit 32 (ve_title v) = 0x0004000e"
    "unat (be tmd (body + 0x9e) 2) = ve_count v" "0 < ve_count v" "ve_count v \<le> 256"
    "check_contents H cancel f (take 0x2020 f) tmd body (sc_end s) (ve_count v) 0 [] (sc_content s) k
       = Inr (ve_hashes v, off, k1)" "off = sc_end s" "ve_bytes v = sc_end s - sc_content s"
proof -
  obtain header where h: "read_file f 0 0x2020 = Inr header"
    using assms by (auto simp: verify_update_def after_Inr)
  then have "header = take 0x2020 f" by (simp add: read_file_def split: if_splits)
  with h have h: "read_file f 0 0x2020 = Inr (take 0x2020 f)" by simp
  obtain s where s: "cia_header (take 0x2020 f) sz = Inr s"
    using assms h by (auto simp: verify_update_def after_Inr)
  obtain tmd where t: "read_file f (sc_tmd s) (unat (sc_tmd_size s)) = Inr tmd"
    using assms h s by (auto simp: verify_update_def after_Inr)
  then have tmd: "tmd = take (unat (sc_tmd_size s)) (drop (unat (sc_tmd s)) f)"
    by (simp add: read_file_def split: if_splits)
  obtain body where b: "signed_body tmd = Inr body" using assms h s t by (auto simp: verify_update_def after_Inr)
  show ?thesis
    by (rule that [OF s tmd b]) (use assms h s t b in \<open>auto simp: verify_update_def after_Inr Let_def\<close>)
qed

text \<open>
  C32. A file that is verified is an update, and its contents, by number and size as the metadata
  says, lie one after the other and fill the content section exactly; each has the digest the
  metadata has for it, and these are the hashes that are kept for the installed contents.
\<close>

theorem verified_contents:
  assumes "hasher_ok H D" "verify_update H cancel f sz k = Inr (v, k1)"
  shows "\<exists>s tmd body. cia_header (take 0x2020 f) sz = Inr s
    \<and> tmd = take (unat (sc_tmd_size s)) (drop (unat (sc_tmd s)) f) \<and> signed_body tmd = Inr body
    \<and> drop_bit 32 (be tmd (body + 0x4c) 8) = 0x0004000e \<and> 0 < ve_count v \<and> ve_count v \<le> 256
    \<and> concat (content_bytes f tmd body (ve_count v) 0 (unat (sc_content s)))
        = take (unat (sc_end s) - unat (sc_content s)) (drop (unat (sc_content s)) f)
    \<and> map D (content_bytes f tmd body (ve_count v) 0 (unat (sc_content s))) = ve_hashes v
    \<and> map (content_hash tmd body) [0..<ve_count v] = ve_hashes v"
proof -
  obtain s tmd body off where p:
    "cia_header (take 0x2020 f) sz = Inr s" "tmd = take (unat (sc_tmd_size s)) (drop (unat (sc_tmd s)) f)"
    "signed_body tmd = Inr body" "be tmd (body + 0x4c) 8 = ve_title v" "drop_bit 32 (ve_title v) = 0x0004000e"
    "0 < ve_count v" "ve_count v \<le> 256"
    "check_contents H cancel f (take 0x2020 f) tmd body (sc_end s) (ve_count v) 0 [] (sc_content s) k
       = Inr (ve_hashes v, off, k1)" "off = sc_end s"
    using assms(2) by (rule verify_update_parts)
  have "sc_content s \<le> sc_end s" using header_sections_ok(1) [OF p(1)] by (simp add: sections_ok_def)
  note c = check_contents_success [OF assms(1) p(8) this]
  have "concat (content_bytes f tmd body (ve_count v) 0 (unat (sc_content s)))
      = take (unat (sc_end s) - unat (sc_content s)) (drop (unat (sc_content s)) f)"
    using c(3) p(9) by (simp add: content_bytes_concat)
  with p c(1,2) show ?thesis by (intro exI [of _ s] exI [of _ tmd] exI [of _ body]) simp
qed

subsection \<open>The commit\<close>

lemma check_installed_hashes:
  assumes "hasher_ok H D" "check_installed H cancel w sizes hashes i k = Inr (contents, k1)"
    and "\<And>j bs. cw_installed w j = Some bs \<Longrightarrow> length bs < 2 ^ 64"
  shows "map D contents = hashes \<and> (\<forall>j<length contents. cw_installed w (i + j) = Some (contents ! j))"
  using assms(2)
proof (induction hashes arbitrary: i k contents)
  case (Cons hash hashes)
  obtain bs k2 bss where b: "cw_installed w i = Some bs" "hash_file H cancel bs 0 (of_nat (length bs)) k = Inr (hash, k2)"
    "check_installed H cancel w sizes hashes (Suc i) k2 = Inr (bss, k1)" "contents = bs # bss"
    using Cons.prems by (auto simp: after_Inr split: option.splits)
  have "unat (of_nat (length bs) :: u64) = length bs"
    using assms(3) [OF b(1)] by (simp add: unsigned_of_nat take_bit_nat_eq_self)
  with hash_file_success(1) [OF assms(1) b(2)] have "hash = D bs" by simp
  with Cons.IH [OF b(3)] b(1,4) show ?case by (auto simp: nth_Cons split: nat.split)
qed simp

lemma leave_at_cases: "leave_at b s d k = (x, d1) \<longleftrightarrow> b \<and> k = (x, d1) \<or> \<not> b \<and> x = s \<and> d1 = d"
  by (auto simp: leave_at_def)

lemma commit_result:
  assumes "commit cancel w base contents k d = (s, d1)"
  shows "if s = Cia_success then cd_title d1 = Some contents \<and> \<not> cw_destination w 1 \<and> \<not> cw_destination w 2
    else cd_title d1 = cd_title d"
  using assms by (auto simp: commit_def leave_at_cases Let_def)

lemma stage_and_commit_result:
  assumes "stage_and_commit H cancel w base f v version sizes k d = (s, d1)"
  shows "if s = Cia_success
    then (\<exists>contents k1 k2. check_installed H cancel w sizes (ve_hashes v) 0 k1 = Inr (contents, k2)
      \<and> cd_title d1 = Some contents) \<and> (\<forall>t\<in>{0, 1, 2}. \<not> cw_destination w t)
    else cd_title d1 = cd_title d"
proof -
  let ?d1 = "d\<lparr>cd_user := Path_root\<rparr>"
  let ?d2 = "?d1\<lparr>cd_user := Path_staged\<rparr>"
  let ?d3 = "?d2\<lparr>cd_compress := False\<rparr>"
  show ?thesis
  proof (cases "s = Cia_success")
    case True
    obtain contents k1 k2 where "check_installed H cancel w sizes (ve_hashes v) 0 k1 = Inr (contents, k2)"
      "commit cancel w base contents k2 ?d3 = (s, d1)" "\<not> cw_destination w 0"
      using assms True install_chunks_fails [of cancel w f "Suc k"]
        check_installed_fails [of H cancel w sizes "ve_hashes v" 0]
      unfolding stage_and_commit_def Let_def leave_at_cases
      by (auto split: sum.splits simp: leave_at_cases)
    with True commit_result [OF this(2)] show ?thesis by auto
  next
    case False
    then show ?thesis
      using assms unfolding stage_and_commit_def Let_def leave_at_cases
      by (auto split: sum.splits simp: leave_at_cases dest!: commit_result)
  qed
qed

lemma import_update_cases:
  assumes "import_update H cancel w r d = (s, r1, d1)"
  obtains "s \<noteq> Cia_success" "d1 = d"
    | f k v k1 base version sizes k2 d2 where "private_copy cancel w 0 = Inr (f, k)"
      "verify_update H cancel f (of_nat (length (cw_file w))) k = Inr (v, k1)"
      "stage_and_commit H cancel w base f v version sizes k2 d = (s, d2)"
      "d1 = d2\<lparr>cd_user := Path_root, cd_compress := cd_compress d\<rparr>"
proof (cases "admit w")
  case (Inl x)
  with assms admit_fails [of w] that(1) show ?thesis by (auto simp: import_update_def)
next
  case a: (Inr base)
  show ?thesis
  proof (cases "private_copy cancel w 0")
    case (Inl x)
    with a assms private_copy_fails [of cancel w 0] that(1) show ?thesis by (auto simp: import_update_def)
  next
    case p: (Inr fk)
    obtain f k where fk: "fk = (f, k)" by fastforce
    show ?thesis
    proof (cases "verify_update H cancel f (of_nat (length (cw_file w))) k")
      case (Inl x)
      with a p fk assms verify_update_fails [of H cancel f "of_nat (length (cw_file w))" k] that(1)
      show ?thesis by (auto simp: import_update_def)
    next
      case v: (Inr vk)
      obtain v k1 where vk: "vk = (v, k1)" by fastforce
      note defs = import_update_def a p fk v vk sum.case prod.case
      show ?thesis
      proof (cases "if cw_accepts w f then cw_container w f else None")
        case None
        with assms that(1) show ?thesis by (auto simp: defs split: if_splits)
      next
        case (Some x)
        obtain tid ticket version sizes where x: "x = (tid, ticket, version, sizes)" by (cases x) auto
        obtain s2 d2 where st: "stage_and_commit H cancel w base f v version sizes k1 d = (s2, d2)" by fastforce
        have acc: "cw_accepts w f" "cw_container w f = Some x" using Some by (auto split: if_splits)
        show ?thesis
        proof (cases "tid = ve_title v \<and> ticket = ve_title v")
          case True
          have "s = s2" "d1 = d2\<lparr>cd_user := Path_root, cd_compress := cd_compress d\<rparr>"
            using assms st acc True by (simp_all add: defs x put_back_def Let_def)
          then show ?thesis using that(2) [of f k v k1 base version sizes k1 d2] p fk v vk st by simp
        next
          case False
          with assms acc that(1) show ?thesis by (auto simp: defs x)
        qed
      qed
    qed
  qed
qed

lemma import_update_result:
  assumes "import_update H cancel w r d = (s, r1, d1)"
  shows "if s = Cia_success
    then \<exists>f k v k1 base version sizes k2 d2. private_copy cancel w 0 = Inr (f, k)
      \<and> verify_update H cancel f (of_nat (length (cw_file w))) k = Inr (v, k1) \<and> cd_title d1 = cd_title d2
      \<and> stage_and_commit H cancel w base f v version sizes k2 d = (Cia_success, d2)
    else cd_title d1 = cd_title d"
    and "cd_compress d1 = cd_compress d"
  using assms by (rule import_update_cases; use stage_and_commit_result in fastforce)+

text \<open>
  C3. An import changes all or nothing.  Unless it reports success, the title's destination is as it
  was, and the compression setting always is.  If it reports success, there was nothing at the
  destination, neither at the two checks nor at the rename, and what is there now has the digests
  of the contents that were verified in the private copy.
\<close>

theorem import_all_or_nothing:
  assumes "hasher_ok H D" "install_update_cia H cancel w result d = (s, r, d1)"
    and "\<forall>i bs. cw_installed w i = Some bs \<longrightarrow> length bs < 2 ^ 64"
  shows "cd_compress d1 = cd_compress d \<and> (if s = Cia_success
    then (\<forall>t\<in>{0, 1, 2}. \<not> cw_destination w t)
      \<and> (\<exists>f k v k1 contents. private_copy cancel w 0 = Inr (f, k)
        \<and> verify_update H cancel f (of_nat (length (cw_file w))) k = Inr (v, k1)
        \<and> cd_title d1 = Some contents \<and> map D contents = ve_hashes v)
    else cd_title d1 = cd_title d)"
proof -
  consider "s \<noteq> Cia_success" "d1 = d" | r0 r1 where "import_update H cancel w r0 d = (s, r1, d1)"
    using assms(2) by (auto simp: install_update_cia_def Let_def split: option.splits if_splits prod.splits)
  then have i: "if s = Cia_success
    then \<exists>f k v k1 base version sizes k2 d2. private_copy cancel w 0 = Inr (f, k)
      \<and> verify_update H cancel f (of_nat (length (cw_file w))) k = Inr (v, k1) \<and> cd_title d1 = cd_title d2
      \<and> stage_and_commit H cancel w base f v version sizes k2 d = (Cia_success, d2)
    else cd_title d1 = cd_title d" "cd_compress d1 = cd_compress d"
    by (cases; use import_update_result in fastforce)+
  note i(2)
  moreover have "if s = Cia_success
    then (\<forall>t\<in>{0, 1, 2}. \<not> cw_destination w t)
      \<and> (\<exists>f k v k1 contents. private_copy cancel w 0 = Inr (f, k)
        \<and> verify_update H cancel f (of_nat (length (cw_file w))) k = Inr (v, k1)
        \<and> cd_title d1 = Some contents \<and> map D contents = ve_hashes v)
    else cd_title d1 = cd_title d"
  proof (cases "s = Cia_success")
    case True
    then obtain f k v k1 base version sizes k2 d2 where f: "private_copy cancel w 0 = Inr (f, k)"
      "verify_update H cancel f (of_nat (length (cw_file w))) k = Inr (v, k1)" "cd_title d1 = cd_title d2"
      "stage_and_commit H cancel w base f v version sizes k2 d = (Cia_success, d2)" using i(1) by auto
    from stage_and_commit_result [OF f(4)] obtain contents k3 k4 where c:
      "check_installed H cancel w sizes (ve_hashes v) 0 k3 = Inr (contents, k4)" "cd_title d2 = Some contents"
      "\<forall>t\<in>{0, 1, 2}. \<not> cw_destination w t" by auto
    have "map D contents = ve_hashes v"
      using check_installed_hashes [OF assms(1) c(1)] assms(3) by blast
    with f c True show ?thesis by auto
  qed (use i(1) in simp)
  ultimately show ?thesis by (intro conjI)
qed

subsection \<open>Examples\<close>

theorem accepted_header_in_bounds_witness:
  "cia_header ex_header 0x3040 = Inr ex_sections \<and> unat (sc_end ex_sections) \<le> unat (0x3040 :: u64)"
  using accepted_header_in_bounds [OF ex_header_reads] ex_header_reads by simp

theorem hash_of_range_witness:
  "map_sum (\<lambda>s. ()) fst (hash_file sum_hasher (\<lambda>j. False) [1, 2, 3, 4, 5] 1 3 0) = Inr (sum_digest [2, 3, 4])"
  using hash_of_range [OF sum_hasher_ok, of "[1, 2, 3, 4, 5]" 3 1 0] by simp

theorem verified_contents_witness:
  "verify_update sum_hasher (\<lambda>j. False) ex_file 0x3040 0 = Inr (ex_verified, 1)
    \<and> (\<exists>s tmd body. cia_header (take 0x2020 ex_file) 0x3040 = Inr s \<and> signed_body tmd = Inr body
      \<and> map sum_digest (content_bytes ex_file tmd body 1 0 (unat (sc_content s))) = [replicate 32 0])"
proof -
  have v: "verify_update sum_hasher (\<lambda>j. False) ex_file 0x3040 0 = Inr (ex_verified, 1)" by (simp add: ex_verifies)
  from verified_contents [OF sum_hasher_ok v] obtain s tmd body where
    "cia_header (take 0x2020 ex_file) 0x3040 = Inr s" "signed_body tmd = Inr body"
    "map sum_digest (content_bytes ex_file tmd body (ve_count ex_verified) 0 (unat (sc_content s))) = ve_hashes ex_verified"
    by blast
  with v show ?thesis by (auto simp: ex_verified_def)
qed

theorem import_all_or_nothing_witness:
  "\<exists>s r d1. install_update_cia sum_hasher (\<lambda>j. False) ex_cia_world (Some (r, 32)) ex_disk = (s, Some r, d1)
    \<and> s = Cia_success \<and> cd_compress d1 \<and> cd_title d1 \<noteq> None"
proof -
  let ?r = "\<lparr>cr_status = Cia_success, cr_title = 0x4000e00000001, cr_version = 16, cr_count = 1, cr_bytes = 0x200\<rparr>"
  let ?d = "ex_disk\<lparr>cd_user := Path_root, cd_title := Some [replicate 0x200 0]\<rparr>"
  have i: "install_update_cia sum_hasher (\<lambda>j. False) ex_cia_world (Some (?r, 32)) ex_disk = (Cia_success, Some ?r, ?d)"
    by (simp add: install_update_cia_def ex_import del: replicate.simps)
  have l: "\<forall>i bs. cw_installed ex_cia_world i = Some bs \<longrightarrow> length bs < 2 ^ 64"
    by (auto simp: ex_cia_world_def split: if_splits)
  note p = import_all_or_nothing [OF sum_hasher_ok i l]
  have "cd_compress ?d" using p by (simp add: ex_disk_def)
  moreover have "cd_title ?d \<noteq> None" using p by auto
  ultimately show ?thesis using i by blast
qed

end
