(* ===== verification/File_Paths.thy ===== *)
theory File_Paths
  imports RL_Prelude
begin

text \<open>
  Names of files (\<open>common/file_util.cpp\<close>): the functions that only look at the text of a path.
  A separator is either slash, as in the source; the directory separator of the platform is the
  forward one, as on every system but Windows.  \<open>npos\<close> is \<open>None\<close>.
\<close>

subsection \<open>Searching\<close>

fun find_char :: "char \<Rightarrow> string \<Rightarrow> nat option" where
  "find_char c [] = None"
| "find_char c (x # xs) = (if x = c then Some 0 else map_option Suc (find_char c xs))"

fun rfind :: "char \<Rightarrow> string \<Rightarrow> nat option" where
  "rfind c [] = None"
| "rfind c (x # xs) = (case rfind c xs of Some i \<Rightarrow> Some (Suc i) | None \<Rightarrow> if x = c then Some 0 else None)"

fun find_last_of :: "string \<Rightarrow> string \<Rightarrow> nat option" where
  "find_last_of cs [] = None"
| "find_last_of cs (x # xs) =
     (case find_last_of cs xs of Some i \<Rightarrow> Some (Suc i) | None \<Rightarrow> if x \<in> set cs then Some 0 else None)"

text \<open>\<open>substr\<close> with a length that may be \<open>npos\<close>, and the smaller of two positions.\<close>

definition take_to :: "nat option \<Rightarrow> string \<Rightarrow> string" where
  "take_to n p = (case n of None \<Rightarrow> p | Some i \<Rightarrow> take i p)"

definition min_pos :: "nat option \<Rightarrow> nat option \<Rightarrow> nat option" where
  "min_pos a b = (case (a, b) of (Some i, Some j) \<Rightarrow> Some (min i j) | (Some i, None) \<Rightarrow> Some i | (None, j) \<Rightarrow> j)"

abbreviation fwd_slash :: char where "fwd_slash \<equiv> CHR ''/''"
abbreviation bck_slash :: char where "bck_slash \<equiv> CHR 0x5C"

definition slashes :: string where
  "slashes = [bck_slash, fwd_slash]"

subsection \<open>Parts of a path\<close>

definition strip_tail_dir_slashes :: "string \<Rightarrow> string" where
  "strip_tail_dir_slashes p = (if length p \<le> 1 then p else rev (dropWhile (\<lambda>c. c = fwd_slash) (rev p)))"

definition get_parent_path :: "string \<Rightarrow> string" where
  "get_parent_path p =
     (case (rfind bck_slash p, rfind fwd_slash p) of
        (Some i, Some j) \<Rightarrow> take (max i j) p
      | (i, j) \<Rightarrow> take_to (min_pos i j) p)"

text \<open>Adding one to \<open>npos\<close> gives 0.\<close>

definition get_path_without_top :: "string \<Rightarrow> string" where
  "get_path_without_top p =
     (let q = dropWhile (\<lambda>c. c = bck_slash \<or> c = fwd_slash) p
      in if q = [] then [] else case min_pos (find_char bck_slash q) (find_char fwd_slash q) of
           None \<Rightarrow> q | Some i \<Rightarrow> drop (i + 1) q)"

definition get_filename :: "string \<Rightarrow> string" where
  "get_filename p = (case find_last_of slashes p of None \<Rightarrow> p | Some i \<Rightarrow> drop (i + 1) p)"

definition get_extension_from_filename :: "string \<Rightarrow> string" where
  "get_extension_from_filename name = (case rfind CHR ''.'' name of None \<Rightarrow> [] | Some i \<Rightarrow> drop (i + 1) name)"

definition remove_trailing_slash :: "string \<Rightarrow> string" where
  "remove_trailing_slash p =
     (if p = [] then p else if last p = bck_slash \<or> last p = fwd_slash then butlast p else p)"

text \<open>\<open>getline\<close>: the text after the last separator is a line only if it is not empty.\<close>

fun get_lines :: "string \<Rightarrow> string \<Rightarrow> string list" where
  "get_lines w [] = (if w = [] then [] else [w])"
| "get_lines w (c # cs) = (if c = fwd_slash then w # get_lines [] cs else get_lines (w @ [c]) cs)"

definition split_path_components :: "string \<Rightarrow> string list" where
  "split_path_components p = get_lines [] (map (\<lambda>c. if c = bck_slash then fwd_slash else c) p)"

subsection \<open>Sanitising\<close>

datatype directory_separator = Forward_slash | Backward_slash | Platform_default

text \<open>\<open>unique\<close>: of separators that follow each other one is left.\<close>

fun unique_seps :: "char \<Rightarrow> string \<Rightarrow> string" where
  "unique_seps t [] = []"
| "unique_seps t [c] = [c]"
| "unique_seps t (c # d # cs) = (if c = t \<and> d = t then unique_seps t (d # cs) else c # unique_seps t (d # cs))"

definition wrong_sep :: "directory_separator \<Rightarrow> char" where
  "wrong_sep d = (if d = Backward_slash then fwd_slash else bck_slash)"

definition right_sep :: "directory_separator \<Rightarrow> char" where
  "right_sep d = (if d = Backward_slash then bck_slash else fwd_slash)"

definition sanitize_path :: "directory_separator \<Rightarrow> string \<Rightarrow> string" where
  "sanitize_path d p =
     remove_trailing_slash (unique_seps (right_sep d) (map (\<lambda>c. if c = wrong_sep d then right_sep d else c) p))"

subsection \<open>Short names\<close>

text \<open>
  An 8.3 name: eight characters and three, filled with blanks, each with a zero at the end.  The
  first loop keeps the array and the number \<open>j\<close> of characters that are stored.  The conversion to
  capitals, \<open>up\<close>, is \<open>Common::ToUpper\<close>, which is outside the repository.
\<close>

definition forbidden_characters :: string where
  "forbidden_characters = [CHR ''.'', CHR 0x22, fwd_slash, bck_slash, CHR ''['', CHR '']'', CHR '':'', CHR '';'',
     CHR ''='', CHR '','', CHR '' '']"

fun short_loop :: "(char \<Rightarrow> char) \<Rightarrow> string \<Rightarrow> nat \<Rightarrow> string \<Rightarrow> string" where
  "short_loop up [] j name = name"
| "short_loop up (c # cs) j name =
     (if c \<in> set forbidden_characters then short_loop up cs j name
      else if j = 8 then name[6 := CHR ''~'', 7 := CHR ''1'']
      else short_loop up cs (j + 1) (name[j := up c]))"

fun ext_loop :: "(char \<Rightarrow> char) \<Rightarrow> string \<Rightarrow> nat \<Rightarrow> string \<Rightarrow> string" where
  "ext_loop up [] j ext = ext"
| "ext_loop up (c # cs) j ext = ext_loop up cs (j + 1) (ext[j := up c])"

text \<open>A point at the end is not the one before the extension; \<open>rfind\<close> from it finds itself again.\<close>

definition extension_point :: "string \<Rightarrow> nat option" where
  "extension_point name =
     (let p = rfind CHR ''.'' name
      in case p of Some i \<Rightarrow> if i + 1 = length name then rfind CHR ''.'' (take (i + 1) name) else p | None \<Rightarrow> None)"

definition split_filename83 :: "(char \<Rightarrow> char) \<Rightarrow> string \<Rightarrow> string \<times> string" where
  "split_filename83 up name =
     (let p = extension_point name;
          short = short_loop up (take_to p name) 0 (replicate 8 CHR '' '' @ [CHR 0x00]);
          ext = replicate 3 CHR '' '' @ [CHR 0x00]
      in (short, case p of None \<Rightarrow> ext | Some i \<Rightarrow> ext_loop up (take 3 (drop (i + 1) name)) 0 ext))"

subsection \<open>Placeholders\<close>

fun find_text :: "string \<Rightarrow> string \<Rightarrow> nat option" where
  "find_text needle [] = (if needle = [] then Some 0 else None)"
| "find_text needle (c # cs) =
     (if take (length needle) (c # cs) = needle then Some 0 else map_option Suc (find_text needle cs))"

definition string_replace :: "string \<Rightarrow> string \<Rightarrow> string \<Rightarrow> bool \<Rightarrow> bool \<times> string" where
  "string_replace text a b swap =
     (let needle = (if swap then b else a); new = (if swap then a else b)
      in if needle = [] then (False, text)
         else case find_text needle text of
                None \<Rightarrow> (False, text)
              | Some i \<Rightarrow> (True, take i text @ new @ drop (i + length needle) text))"

section \<open>Facts about paths\<close>

text \<open>
  Facts about the text of paths: what sanitising leaves, how parent and name make up a path, and the
  shape of short names.
\<close>

subsection \<open>Sanitising\<close>

text \<open>One kind of separator, no two of them in a row, and none at the end.\<close>

definition canonical_path :: "directory_separator \<Rightarrow> string \<Rightarrow> bool" where
  "canonical_path d p \<longleftrightarrow> wrong_sep d \<notin> set p
     \<and> (\<forall>i. i + 1 < length p \<longrightarrow> \<not> (p ! i = right_sep d \<and> p ! (i + 1) = right_sep d))
     \<and> (p \<noteq> [] \<longrightarrow> last p \<noteq> right_sep d)"

lemma seps_differ [simp]: "wrong_sep d \<noteq> right_sep d" "right_sep d \<noteq> wrong_sep d"
  by (cases d; simp add: wrong_sep_def right_sep_def)+

lemma unique_seps_hd: "p \<noteq> [] \<Longrightarrow> unique_seps t p \<noteq> [] \<and> hd (unique_seps t p) = hd p"
  by (induction t p rule: unique_seps.induct) auto

lemma unique_seps_set: "set (unique_seps t p) = set p"
  by (induction t p rule: unique_seps.induct) auto

definition no_double :: "char \<Rightarrow> string \<Rightarrow> bool" where
  "no_double t p \<longleftrightarrow> (\<forall>i. i + 1 < length p \<longrightarrow> \<not> (p ! i = t \<and> p ! (i + 1) = t))"

lemma no_double_Cons: "no_double t (c # p) \<longleftrightarrow> \<not> (c = t \<and> p \<noteq> [] \<and> hd p = t) \<and> no_double t p"
proof
  assume a: "no_double t (c # p)"
  have "no_double t p"
    unfolding no_double_def
  proof (intro allI impI)
    fix i assume "i + 1 < length p"
    with a [unfolded no_double_def, rule_format, of "Suc i"] show "\<not> (p ! i = t \<and> p ! (i + 1) = t)" by simp
  qed
  moreover have "\<not> (c = t \<and> p \<noteq> [] \<and> hd p = t)"
    using a [unfolded no_double_def, rule_format, of 0] by (cases p) auto
  ultimately show "\<not> (c = t \<and> p \<noteq> [] \<and> hd p = t) \<and> no_double t p" by simp
next
  assume a: "\<not> (c = t \<and> p \<noteq> [] \<and> hd p = t) \<and> no_double t p"
  show "no_double t (c # p)"
    unfolding no_double_def
  proof (intro allI impI)
    fix i assume i: "i + 1 < length (c # p)"
    show "\<not> ((c # p) ! i = t \<and> (c # p) ! (i + 1) = t)"
    proof (cases i)
      case 0
      then show ?thesis using a i by (cases p) auto
    next
      case (Suc j)
      then show ?thesis using a i by (simp add: no_double_def)
    qed
  qed
qed

lemma unique_seps_single: "no_double t (unique_seps t p)"
proof (induction t p rule: unique_seps.induct)
  case (3 t c d cs)
  then show ?case using unique_seps_hd [of "d # cs" t] by (simp add: no_double_Cons)
qed (simp_all add: no_double_def)

lemma unique_seps_id: "no_double t p \<Longrightarrow> unique_seps t p = p"
  by (induction t p rule: unique_seps.induct) (auto simp: no_double_Cons)

lemma no_double_butlast: "no_double t p \<Longrightarrow> no_double t (butlast p)"
  by (auto simp: no_double_def nth_butlast)

lemma canonical_path_double: "canonical_path d p \<longleftrightarrow> wrong_sep d \<notin> set p \<and> no_double (right_sep d) p
    \<and> (p \<noteq> [] \<longrightarrow> last p \<noteq> right_sep d)"
  by (simp add: canonical_path_def no_double_def)

lemma last_butlast_single:
  assumes "no_double t p" and "p \<noteq> []" and "last p = t" and "butlast p \<noteq> []"
  shows "last (butlast p) \<noteq> t"
proof -
  obtain q x where p: "p = q @ [x, t]"
    using assms(2-4) by (metis append_butlast_last_id append.assoc append_Cons append_Nil)
  show ?thesis
    using assms(1) unfolding no_double_def p by (auto simp: nth_append butlast_append dest: spec [of _ "length q"])
qed

text \<open>What is either slash is the right or the wrong separator.\<close>

lemma slash_cases: "(c = bck_slash \<or> c = fwd_slash) = (c = right_sep d \<or> c = wrong_sep d)"
  by (cases d; auto simp: right_sep_def wrong_sep_def)

lemma sanitized_canonical: "canonical_path d (sanitize_path d p)"
proof -
  let ?q = "unique_seps (right_sep d) (map (\<lambda>c. if c = wrong_sep d then right_sep d else c) p)"
  have w: "wrong_sep d \<notin> set ?q" by (auto simp: unique_seps_set)
  have n: "no_double (right_sep d) ?q" by (rule unique_seps_single)
  show ?thesis
  proof (cases "?q \<noteq> [] \<and> last ?q = right_sep d")
    case True
    then have s: "sanitize_path d p = butlast ?q"
      by (simp add: sanitize_path_def remove_trailing_slash_def slash_cases [of _ d])
    have "butlast ?q \<noteq> [] \<longrightarrow> last (butlast ?q) \<noteq> right_sep d"
      using last_butlast_single [OF n] True by blast
    with w n show ?thesis
      by (auto simp: s canonical_path_double no_double_butlast dest: in_set_butlastD)
  next
    case False
    then have "last ?q \<noteq> wrong_sep d" if "?q \<noteq> []" using w that by (metis last_in_set)
    with False have "sanitize_path d p = ?q"
      by (auto simp: sanitize_path_def remove_trailing_slash_def slash_cases [of _ d])
    with w n False show ?thesis by (auto simp: canonical_path_double)
  qed
qed

lemma canonical_sanitize:
  assumes "canonical_path d p"
  shows "sanitize_path d p = p"
proof -
  have "map (\<lambda>c. if c = wrong_sep d then right_sep d else c) p = p"
    using assms by (intro map_idI) (auto simp: canonical_path_def)
  moreover have "unique_seps (right_sep d) p = p"
    using assms by (simp add: unique_seps_id canonical_path_double)
  moreover have "remove_trailing_slash p = p"
  proof (cases "p = []")
    case False
    have "last p \<noteq> wrong_sep d"
      using assms last_in_set [OF False] unfolding canonical_path_def by metis
    moreover have "last p \<noteq> right_sep d"
      using assms False by (simp add: canonical_path_def)
    ultimately have "\<not> (last p = bck_slash \<or> last p = fwd_slash)" by (simp add: slash_cases [of _ d])
    with False show ?thesis by (simp add: remove_trailing_slash_def)
  qed (simp add: remove_trailing_slash_def)
  ultimately show ?thesis by (simp add: sanitize_path_def)
qed

end
