(* ===== verification/Posix_Files.thy ===== *)
theory Posix_Files
  imports File_Paths
begin

text \<open>
  Files and directories (\<open>common/file_util.cpp\<close>).  The calls of the system are those of POSIX, on a
  tree with symbolic links: a list that gives the file, directory or link at each place, a place
  being the names on the way from the root.  The order of the list is the order in which a directory
  is read.  \<open>fs_denied\<close> holds the places at which the system refuses changes.  What can go wrong with
  the data of a file is given for each place: the position of the first byte that cannot be read, and
  how many bytes of what is written there are stored and how many the stream accepts before it reports
  an error (the stream is buffered, so that an error can show later than it happens, or not at all).
\<close>

subsection \<open>The system\<close>

type_synonym place = "string list"

datatype fs_node = Fs_file "u8 list" | Fs_dir | Fs_link string

record file_system =
  fs_nodes :: "(place \<times> fs_node) list"
  fs_denied :: "place \<Rightarrow> bool"
  fs_unreadable :: "place \<Rightarrow> nat option"
  fs_room :: "place \<Rightarrow> (nat \<times> nat) option"

definition fs_at :: "file_system \<Rightarrow> place \<Rightarrow> fs_node option" where
  "fs_at s l = (if l = [] then Some Fs_dir else map_of (fs_nodes s) l)"

text \<open>
  Names between slashes; empty names and single points stay where they are.  A path is taken from
  the root, and two points are not a name.
\<close>

definition place_of :: "string \<Rightarrow> place" where
  "place_of p = filter (\<lambda>n. n \<noteq> [] \<and> n \<noteq> ''.'') (get_lines [] p)"

definition fs_put :: "place \<Rightarrow> fs_node \<Rightarrow> file_system \<Rightarrow> file_system" where
  "fs_put l n s = s\<lparr>fs_nodes := filter (\<lambda>e. fst e \<noteq> l) (fs_nodes s) @ [(l, n)]\<rparr>"

definition fs_remove :: "place \<Rightarrow> file_system \<Rightarrow> file_system" where
  "fs_remove l s = s\<lparr>fs_nodes := filter (\<lambda>e. fst e \<noteq> l) (fs_nodes s)\<rparr>"

text \<open>What is in a directory: the last names of the places directly below it.\<close>

definition fs_below :: "file_system \<Rightarrow> place \<Rightarrow> string list" where
  "fs_below s l = map (\<lambda>e. last (fst e)) (filter (\<lambda>e. fst e \<noteq> [] \<and> butlast (fst e) = l) (fs_nodes s))"

text \<open>
  Following links: the place a path leads to.  A link replaces the way up to it, from the root if its
  text starts with a slash; the last name is only followed if \<open>follow\<close> says so.  More than \<open>n\<close> links
  are refused.
\<close>

fun follow_links :: "file_system \<Rightarrow> nat \<Rightarrow> bool \<Rightarrow> place \<Rightarrow> place \<Rightarrow> place option" where
  "follow_links s n follow here [] = Some here"
| "follow_links s n follow here (x # rest) =
     (case fs_at s (here @ [x]) of
        Some (Fs_link t) \<Rightarrow>
          if rest = [] \<and> \<not> follow then Some (here @ [x])
          else (case n of
                  0 \<Rightarrow> None
                | Suc m \<Rightarrow> follow_links s m follow (if take 1 t = ''/'' then [] else here) (place_of t @ rest))
      | _ \<Rightarrow> follow_links s n follow (here @ [x]) rest)"

definition max_links :: nat where
  "max_links = 40"

definition resolve :: "file_system \<Rightarrow> string \<Rightarrow> place option" where
  "resolve s p = follow_links s max_links True [] (place_of p)"

text \<open>The place of the last name itself, which may be a link.\<close>

definition resolve_name :: "file_system \<Rightarrow> string \<Rightarrow> place option" where
  "resolve_name s p = follow_links s max_links False [] (place_of p)"

text \<open>\<open>stat\<close>; an empty path does not exist, and a path that ends in a slash names a directory.\<close>

definition posix_stat :: "file_system \<Rightarrow> string \<Rightarrow> fs_node option" where
  "posix_stat s p =
     (if p = [] then None
      else case Option.bind (resolve s p) (fs_at s) of
             Some (Fs_file d) \<Rightarrow> if last p = fwd_slash then None else Some (Fs_file d)
           | n \<Rightarrow> n)"

datatype errno = Eexist | Eother

text \<open>Making, removing and renaming act on the last name itself and do not follow it.\<close>

definition posix_mkdir :: "file_system \<Rightarrow> string \<Rightarrow> (errno, file_system) sum" where
  "posix_mkdir s p =
     (case resolve_name s p of
        None \<Rightarrow> Inl Eother
      | Some l \<Rightarrow>
          if p = [] then Inl Eother
          else if fs_at s l \<noteq> None then Inl Eexist
          else if fs_at s (butlast l) \<noteq> Some Fs_dir \<or> fs_denied s l then Inl Eother
          else Inr (fs_put l Fs_dir s))"

definition is_plain_entry :: "fs_node option \<Rightarrow> bool" where
  "is_plain_entry n = (case n of Some (Fs_file d) \<Rightarrow> True | Some (Fs_link t) \<Rightarrow> True | _ \<Rightarrow> False)"

definition posix_unlink :: "file_system \<Rightarrow> string \<Rightarrow> file_system option" where
  "posix_unlink s p =
     (case resolve_name s p of
        None \<Rightarrow> None
      | Some l \<Rightarrow>
          if p = [] \<or> last p = fwd_slash \<or> \<not> is_plain_entry (fs_at s l) \<or> fs_denied s l then None
          else Some (fs_remove l s))"

definition posix_rmdir :: "file_system \<Rightarrow> string \<Rightarrow> file_system option" where
  "posix_rmdir s p =
     (case resolve_name s p of
        None \<Rightarrow> None
      | Some l \<Rightarrow>
          if p = [] \<or> l = [] \<or> fs_at s l \<noteq> Some Fs_dir \<or> fs_below s l \<noteq> [] \<or> fs_denied s l then None
          else Some (fs_remove l s))"

text \<open>Opening a file for writing from its beginning follows links.\<close>

definition posix_open_write :: "file_system \<Rightarrow> string \<Rightarrow> file_system option" where
  "posix_open_write s p =
     (case resolve s p of
        None \<Rightarrow> None
      | Some l \<Rightarrow>
          if p = [] \<or> last p = fwd_slash \<or> fs_at s l = Some Fs_dir \<or> fs_at s (butlast l) \<noteq> Some Fs_dir \<or> fs_denied s l
          then None else Some (fs_put l (Fs_file []) s))"

text \<open>
  Renaming takes everything below along; a file or link can replace a file or link, a directory one
  that is empty, and a directory cannot be moved into itself.
\<close>

definition posix_rename :: "file_system \<Rightarrow> string \<Rightarrow> string \<Rightarrow> file_system option" where
  "posix_rename s p q =
     (case (resolve_name s p, resolve_name s q) of
        (Some a, Some b) \<Rightarrow>
          let moved = s\<lparr>fs_nodes := map (\<lambda>e. if take (length a) (fst e) = a then (b @ drop (length a) (fst e), snd e) else e)
                                      (filter (\<lambda>e. fst e \<noteq> b) (fs_nodes s))\<rparr>
          in if p = [] \<or> q = [] \<or> a = [] \<or> b = [] \<or> fs_at s (butlast b) \<noteq> Some Fs_dir \<or> fs_denied s a \<or> fs_denied s b
             then None
             else if is_plain_entry (fs_at s a)
             then if last p = fwd_slash \<or> last q = fwd_slash \<or> fs_at s b = Some Fs_dir then None
                  else if a = b then Some s else Some moved
             else if fs_at s a = Some Fs_dir
             then if is_plain_entry (fs_at s b) then None
                  else if a = b then Some s
                  else if take (length a) b = a \<or> fs_below s b \<noteq> [] then None else Some moved
             else None
      | _ \<Rightarrow> None)"

definition posix_readdir :: "file_system \<Rightarrow> string \<Rightarrow> string list option" where
  "posix_readdir s p =
     (if posix_stat s p = Some Fs_dir then Some (''.'' # ''..'' # fs_below s (the (resolve s p))) else None)"

subsection \<open>Files and directories\<close>

definition file_exists :: "file_system \<Rightarrow> string \<Rightarrow> bool" where
  "file_exists s p = (posix_stat s (strip_tail_dir_slashes p) \<noteq> None)"

definition is_directory :: "file_system \<Rightarrow> string \<Rightarrow> bool" where
  "is_directory s p = (posix_stat s (strip_tail_dir_slashes p) = Some Fs_dir)"

text \<open>A file that is not there counts as deleted.\<close>

definition delete_file :: "string \<Rightarrow> file_system \<Rightarrow> bool \<times> file_system" where
  "delete_file p s =
     (if \<not> file_exists s p then (True, s)
      else if is_directory s p then (False, s)
      else case posix_unlink s p of None \<Rightarrow> (False, s) | Some s1 \<Rightarrow> (True, s1))"

text \<open>\<open>EEXIST\<close> counts as success, whatever it is that exists.\<close>

definition create_dir :: "string \<Rightarrow> file_system \<Rightarrow> bool \<times> file_system" where
  "create_dir p s =
     (case posix_mkdir s p of Inr s1 \<Rightarrow> (True, s1) | Inl Eexist \<Rightarrow> (True, s) | Inl Eother \<Rightarrow> (False, s))"

text \<open>The beginnings of a path up to each slash, with the slash.\<close>

definition sub_paths :: "string \<Rightarrow> string list" where
  "sub_paths p = map (\<lambda>i. take (i + 1) p) (filter (\<lambda>i. p ! i = fwd_slash) [0..<length p])"

text \<open>\<open>n\<close> is the counter that stops the loop on paths that are too deep.\<close>

fun full_path_loop :: "nat \<Rightarrow> string list \<Rightarrow> file_system \<Rightarrow> bool \<times> file_system" where
  "full_path_loop n [] s = (True, s)"
| "full_path_loop n (p # ps) s =
     (case (if is_directory s p then (True, s) else create_dir p s) of
        (False, s1) \<Rightarrow> (False, s1)
      | (True, s1) \<Rightarrow> if n \<le> 1 then (False, s1) else full_path_loop (n - 1) ps s1)"

definition create_full_path :: "string \<Rightarrow> file_system \<Rightarrow> bool \<times> file_system" where
  "create_full_path p s = (if file_exists s p then (True, s) else full_path_loop 100 (sub_paths p) s)"

definition delete_dir :: "string \<Rightarrow> file_system \<Rightarrow> bool \<times> file_system" where
  "delete_dir p s =
     (if \<not> is_directory s p then (False, s)
      else case posix_rmdir s p of None \<Rightarrow> (False, s) | Some s1 \<Rightarrow> (True, s1))"

definition rename_path :: "string \<Rightarrow> string \<Rightarrow> file_system \<Rightarrow> bool \<times> file_system" where
  "rename_path p q s = (case posix_rename s p q of None \<Rightarrow> (False, s) | Some s1 \<Rightarrow> (True, s1))"

text \<open>The size of a file; 0 for what is not a file.\<close>

definition get_size :: "file_system \<Rightarrow> string \<Rightarrow> u64" where
  "get_size s p =
     (if \<not> file_exists s p \<or> is_directory s p then 0
      else case posix_stat s p of Some (Fs_file d) \<Rightarrow> of_nat (length d) | _ \<Rightarrow> 0)"

subsection \<open>Copying a file\<close>

text \<open>
  The input is what is left of the file, read in pieces of 1024 bytes until one is shorter; \<open>bad\<close> is
  the position that cannot be read, which makes the read of its piece fail, and \<open>room\<close> what the output
  accepts, beyond which a write is short.  The result is the one of the function and all that was given
  to the output.
\<close>

function copy_loop :: "nat option \<Rightarrow> nat option \<Rightarrow> u8 list \<Rightarrow> u8 list \<Rightarrow> bool \<times> u8 list" where
  "copy_loop bad room input out =
     (let part = take 1024 input; upto = length out + length part
      in if (case bad of None \<Rightarrow> False | Some k \<Rightarrow> k < upto) then (False, out)
         else if (case room of None \<Rightarrow> False | Some k \<Rightarrow> k < upto) then (False, out @ part)
         else if length part < 1024 then (True, out @ part)
         else copy_loop bad room (drop 1024 input) (out @ part))"
  by pat_completeness auto

termination
  by (relation "measure (\<lambda>(b, r, i, out). length i)") auto

declare copy_loop.simps [simp del]

definition bytes_at :: "file_system \<Rightarrow> place \<Rightarrow> u8 list" where
  "bytes_at s l = (case fs_at s l of Some (Fs_file d) \<Rightarrow> d | _ \<Rightarrow> [])"

text \<open>
  The input is read from what the file holds when it is read: opening the output can have emptied it.
  A directory can be opened for reading too; reading it fails.  The streams are closed without looking
  at the result: what is not stored by then is lost.
\<close>

definition copy_file :: "string \<Rightarrow> string \<Rightarrow> file_system \<Rightarrow> bool \<times> file_system" where
  "copy_file src dst s =
     (case posix_stat s src of
        None \<Rightarrow> (False, s)
      | Some n \<Rightarrow>
          (case posix_open_write s dst of
             None \<Rightarrow> (False, s)
           | Some s1 \<Rightarrow>
               let a = the (resolve s src); b = the (resolve s dst);
                   (ok, out) = (if n = Fs_dir then (False, [])
                                else copy_loop (fs_unreadable s a) (map_option snd (fs_room s b)) (bytes_at s1 a) []);
                   stored = (case fs_room s b of None \<Rightarrow> out | Some (k, _) \<Rightarrow> take k out)
               in (ok, fs_put b (Fs_file stored) s1)))"

text \<open>
  What a name given to \<open>IOFile::Open\<close> stands for: a file, or a descriptor that is duplicated; a
  number that is no \<open>int\<close> makes \<open>stoi\<close> throw.
\<close>

datatype open_kind = Open_named string | Open_descriptor nat | Open_refused | Open_throws

definition digit_value :: "string \<Rightarrow> nat" where
  "digit_value t = fold (\<lambda>c n. 10 * n + (of_char c - 48)) t 0"

definition open_target :: "string \<Rightarrow> open_kind" where
  "open_target name =
     (if take 5 name \<noteq> ''fd://'' then Open_named name
      else let t = drop 5 name
           in if t = [] \<or> \<not> (\<forall>c \<in> set t. of_char c \<in> {48..57 :: nat}) then Open_refused
              else if 2 ^ 31 \<le> digit_value t then Open_throws else Open_descriptor (digit_value t))"

text \<open>\<open>dup_ok\<close> says of which descriptors there is a duplicate; \<open>None\<close> is the exception.\<close>

definition create_empty_file :: "(nat \<Rightarrow> bool) \<Rightarrow> string \<Rightarrow> file_system \<Rightarrow> (bool \<times> file_system) option" where
  "create_empty_file dup_ok p s =
     (case open_target p of
        Open_named q \<Rightarrow> Some (case posix_open_write s q of None \<Rightarrow> (False, s) | Some s1 \<Rightarrow> (True, s1))
      | Open_descriptor n \<Rightarrow> Some (dup_ok n, s)
      | Open_refused \<Rightarrow> Some (False, s)
      | Open_throws \<Rightarrow> None)"

subsection \<open>Trees\<close>

text \<open>
  The entries of a directory are listed first; the callback is then given each of them, and the
  walk stops when it fails.
\<close>

fun each_entry :: "(string \<Rightarrow> string \<Rightarrow> 's \<Rightarrow> bool \<times> u64 \<times> 's) \<Rightarrow> string \<Rightarrow> string list \<Rightarrow> u64 \<Rightarrow> 's
    \<Rightarrow> bool \<times> u64 \<times> 's" where
  "each_entry f dir [] n s = (True, n, s)"
| "each_entry f dir (e # es) n s =
     (if e = ''.'' \<or> e = ''..'' then each_entry f dir es n s
      else case f dir e s of
             (False, k, s1) \<Rightarrow> (False, n, s1)
           | (True, k, s1) \<Rightarrow> each_entry f dir es (n + k) s1)"

definition foreach_directory_entry ::
    "(string \<Rightarrow> string \<Rightarrow> file_system \<Rightarrow> bool \<times> u64 \<times> file_system) \<Rightarrow> string \<Rightarrow> file_system \<Rightarrow> bool \<times> u64 \<times> file_system" where
  "foreach_directory_entry f dir s =
     (case posix_readdir s dir of None \<Rightarrow> (False, 0, s) | Some es \<Rightarrow> each_entry f dir es 0 s)"

text \<open>Removing the directory itself may fail without anyone noticing.\<close>

fun delete_dir_recursively :: "nat \<Rightarrow> string \<Rightarrow> file_system \<Rightarrow> bool \<times> file_system" where
  "delete_dir_recursively n dir s =
     (case foreach_directory_entry (\<lambda>d e s.
             let p = d @ fwd_slash # e
             in if is_directory s p
                then (case n of 0 \<Rightarrow> (False, 0, s)
                      | Suc m \<Rightarrow> (case delete_dir_recursively m p s of (ok, s1) \<Rightarrow> (ok, 0, s1)))
                else (case delete_file p s of (ok, s1) \<Rightarrow> (ok, 0, s1))) dir s of
        (False, _, s1) \<Rightarrow> (False, s1)
      | (True, _, s1) \<Rightarrow> (True, snd (delete_dir dir s1)))"

declare delete_dir_recursively.simps [simp del]

datatype fst_entry = Fst_entry (entry_dir: bool) (entry_size: u64) (entry_physical: string) (entry_virtual: string)
  (entry_children: "fst_entry list")

text \<open>
  A directory as a tree with the number of entries in it; one that lies too deep counts as empty.
  A stop can be requested before each entry of the outermost directory: \<open>stop\<close> for the names that
  are not reached any more.
\<close>

fun scan_directory_tree :: "file_system \<Rightarrow> (string \<Rightarrow> bool) \<Rightarrow> nat \<Rightarrow> string \<Rightarrow> fst_entry list \<Rightarrow> u64 \<times> fst_entry list" where
  "scan_directory_tree s stop n dir children =
     (case posix_readdir s dir of
        None \<Rightarrow> (0, children)
      | Some es \<Rightarrow>
          (case each_entry (\<lambda>d e cs.
                  let p = d @ fwd_slash # e
                  in if stop e then (False, 0, cs)
                     else if is_directory s p
                     then (case n of
                             0 \<Rightarrow> (True, 1, cs @ [Fst_entry True 0 p e []])
                           | Suc m \<Rightarrow>
                               (case scan_directory_tree s (\<lambda>_. False) m p [] of
                                  (k, below) \<Rightarrow> (True, k + 1, cs @ [Fst_entry True k p e below])))
                     else (True, 1, cs @ [Fst_entry False (get_size s p) p e []])) dir es 0 children of
             (True, k, cs) \<Rightarrow> (k, cs)
           | (False, _, cs) \<Rightarrow> (0, cs)))"

declare scan_directory_tree.simps [simp del]

fun all_files :: "fst_entry \<Rightarrow> fst_entry list" where
  "all_files (Fst_entry d z p v cs) =
     concat (map (\<lambda>e. if entry_dir e then all_files e else [e]) cs)"

subsection \<open>Copying a directory\<close>

text \<open>
  \<open>n\<close> bounds how deep directories are nested, \<open>None\<close>: they are nested deeper.  What exists already is
  left as it is.
\<close>

definition make_path :: "string \<Rightarrow> file_system \<Rightarrow> file_system" where
  "make_path p s = (if file_exists s p then s else snd (create_full_path p s))"

fun copy_dir :: "nat \<Rightarrow> string \<Rightarrow> string \<Rightarrow> file_system \<Rightarrow> file_system option" where
  "copy_dir 0 src dst s = None"
| "copy_dir (Suc n) src dst s =
     (if src = dst \<or> \<not> file_exists s src then Some s
      else let s1 = make_path dst s
           in case posix_readdir s1 src of
                None \<Rightarrow> Some s1
              | Some es \<Rightarrow>
                  fold (\<lambda>e r. Option.bind r (\<lambda>s.
                      if e = ''.'' \<or> e = ''..'' then Some s
                      else if is_directory s (src @ e)
                      then copy_dir n (src @ e @ [fwd_slash]) (dst @ e @ [fwd_slash]) (make_path (dst @ e @ [fwd_slash]) s)
                      else if file_exists s (dst @ e) then Some s
                      else Some (snd (copy_file (src @ e) (dst @ e) s)))) es (Some s1))"

declare copy_dir.simps [simp del]

end
