(* ===== verification/Io_Files.thy ===== *)
theory Io_Files
  imports Posix_Files
begin

text \<open>
  Open files (\<open>IOFile\<close> and \<open>CryptoIOFile\<close> of \<open>common/file_util.cpp\<close>).  A stream is the content of
  its file with a position; \<open>st_room\<close> is the number of bytes that still fit on the disk, so that a
  write can be cut short.  An encrypted file is XORed with a key stream, of which \<open>ctr\<close> is the byte
  at each position, as counter mode does; it has two ciphers, each with a position of its own.  C does
  not say what a stream does when it is read directly after a write, or written directly after a read:
  \<open>st_undefined\<close> is raised when that happens, and whatever the definitions give then means nothing.
\<close>

unbundle bit_operations_syntax

subsection \<open>Streams\<close>

datatype stream_use = Positioned | After_read | After_write

record stream =
  st_content :: "u8 list"
  st_pos :: nat
  st_room :: nat
  st_last :: stream_use
  st_undefined :: bool

text \<open>The next use of a stream, which must not come directly after the use \<open>bad\<close>.\<close>

definition used :: "stream_use \<Rightarrow> stream_use \<Rightarrow> stream \<Rightarrow> stream" where
  "used bad now f = f\<lparr>st_undefined := st_undefined f \<or> st_last f = bad, st_last := now\<rparr>"

text \<open>
  \<open>fread\<close> counts whole elements, but the position moves by the bytes that were there.  A read that
  meets the end of the file may be followed by a write.
\<close>

definition c_fread :: "nat \<Rightarrow> nat \<Rightarrow> stream \<Rightarrow> nat \<times> u8 list \<times> stream" where
  "c_fread n esize f =
     (if n * esize = 0 then (0, [], f)
      else let bytes = take (n * esize) (drop (st_pos f) (st_content f))
           in (length bytes div esize, bytes,
               used After_write (if length bytes < n * esize then Positioned else After_read)
                 (f\<lparr>st_pos := st_pos f + length bytes\<rparr>)))"

text \<open>Writing behind the end fills the gap with zeros.\<close>

definition put_bytes :: "nat \<Rightarrow> u8 list \<Rightarrow> u8 list \<Rightarrow> u8 list" where
  "put_bytes pos bytes content =
     take pos (content @ replicate (pos - length content) 0) @ bytes @ drop (pos + length bytes) content"

definition c_fwrite :: "u8 list \<Rightarrow> nat \<Rightarrow> stream \<Rightarrow> nat \<times> stream" where
  "c_fwrite bytes esize f =
     (let kept = take (st_room f) bytes
      in (length kept div esize,
          used After_read After_write
            (f\<lparr>st_content := put_bytes (st_pos f) kept (st_content f), st_pos := st_pos f + length kept,
               st_room := st_room f - length kept\<rparr>)))"

datatype seek_origin = Seek_set | Seek_cur | Seek_end

text \<open>A position before the beginning is refused.\<close>

definition c_fseek :: "int \<Rightarrow> seek_origin \<Rightarrow> stream \<Rightarrow> stream option" where
  "c_fseek off origin f =
     (let p = off + (case origin of Seek_set \<Rightarrow> 0 | Seek_cur \<Rightarrow> int (st_pos f) | Seek_end \<Rightarrow> int (length (st_content f)))
      in if p < 0 then None else Some (f\<lparr>st_pos := nat p, st_last := Positioned\<rparr>))"

definition c_fflush :: "stream \<Rightarrow> stream" where
  "c_fflush f = (if st_last f = After_write then f\<lparr>st_last := Positioned\<rparr> else f)"

subsection \<open>Files\<close>

record io_file =
  m_file :: "stream option"
  m_good :: bool

definition no_count :: u64 where
  "no_count = - 1"

text \<open>\<open>ok\<close> is what \<open>fclose\<close> and \<open>fflush\<close> return.\<close>

definition io_close :: "bool \<Rightarrow> io_file \<Rightarrow> bool \<times> io_file" where
  "io_close ok f = (let good = m_good f \<and> m_file f \<noteq> None \<and> ok in (good, \<lparr>m_file = None, m_good = good\<rparr>))"

definition io_open :: "bool \<Rightarrow> stream option \<Rightarrow> io_file \<Rightarrow> bool \<times> io_file" where
  "io_open ok opened f =
     (let f1 = snd (io_close ok f); good = (opened \<noteq> None) in (good, f1\<lparr>m_file := opened, m_good := good\<rparr>))"

definition io_swap :: "io_file \<times> io_file \<Rightarrow> io_file \<times> io_file" where
  "io_swap x = (snd x, fst x)"

text \<open>The size is found by going to the end and back.\<close>

definition stream_size :: "stream \<Rightarrow> u64 \<times> stream" where
  "stream_size f =
     (let pos = st_pos f
      in case c_fseek 0 Seek_end f of
           None \<Rightarrow> (0, f)
         | Some g \<Rightarrow>
             (let esize = st_pos g
              in if esize \<noteq> pos then case c_fseek (int pos) Seek_set g of None \<Rightarrow> (0, g) | Some h \<Rightarrow> (of_nat esize, h)
                 else (of_nat esize, g)))"

definition io_get_size :: "io_file \<Rightarrow> u64 \<times> io_file" where
  "io_get_size f = (case m_file f of None \<Rightarrow> (0, f) | Some g \<Rightarrow> (case stream_size g of (n, h) \<Rightarrow> (n, f\<lparr>m_file := Some h\<rparr>)))"

definition io_seek :: "int \<Rightarrow> seek_origin \<Rightarrow> io_file \<Rightarrow> bool \<times> io_file" where
  "io_seek off origin f =
     (let f1 = (case Option.bind (m_file f) (c_fseek off origin) of
                  None \<Rightarrow> f\<lparr>m_good := False\<rparr> | Some g \<Rightarrow> f\<lparr>m_file := Some g\<rparr>)
      in (m_good f1, f1))"

definition io_tell :: "io_file \<Rightarrow> u64" where
  "io_tell f = (case m_file f of None \<Rightarrow> no_count | Some g \<Rightarrow> of_nat (st_pos g))"

definition io_flush :: "bool \<Rightarrow> io_file \<Rightarrow> bool \<times> io_file" where
  "io_flush ok f =
     (let good = m_good f \<and> m_file f \<noteq> None \<and> ok
      in (good, f\<lparr>m_file := map_option c_fflush (m_file f), m_good := good\<rparr>))"

text \<open>The number of elements, or that of a file that is not open; the bytes that arrived.\<close>

definition io_read :: "nat \<Rightarrow> nat \<Rightarrow> io_file \<Rightarrow> u64 \<times> u8 list \<times> io_file" where
  "io_read n esize f =
     (case m_file f of
        None \<Rightarrow> (no_count, [], f\<lparr>m_good := False\<rparr>)
      | Some g \<Rightarrow> if n = 0 then (0, [], f)
                  else case c_fread n esize g of (k, bytes, h) \<Rightarrow> (of_nat k, bytes, f\<lparr>m_file := Some h\<rparr>))"

text \<open>
  Reading at a place, past the stream: the position is as it was before.  What was written before has
  been flushed.
\<close>

definition io_read_at :: "nat \<Rightarrow> nat \<Rightarrow> io_file \<Rightarrow> u64 \<times> u8 list \<times> io_file" where
  "io_read_at n off f =
     (case m_file f of
        None \<Rightarrow> (no_count, [], f\<lparr>m_good := False\<rparr>)
      | Some g \<Rightarrow> if n = 0 then (0, [], f)
                  else let bytes = take n (drop off (st_content g)) in (of_nat (length bytes), bytes, f))"

definition io_write :: "u8 list \<Rightarrow> nat \<Rightarrow> io_file \<Rightarrow> u64 \<times> io_file" where
  "io_write bytes esize f =
     (case m_file f of
        None \<Rightarrow> (no_count, f\<lparr>m_good := False\<rparr>)
      | Some g \<Rightarrow> if bytes = [] then (0, f)
                  else case c_fwrite bytes esize g of (k, h) \<Rightarrow> (of_nat k, f\<lparr>m_file := Some h\<rparr>))"

text \<open>Growing a file fills it with zeros; \<open>ok\<close> is what the system returns.\<close>

definition io_resize :: "bool \<Rightarrow> nat \<Rightarrow> io_file \<Rightarrow> bool \<times> io_file" where
  "io_resize ok n f =
     (case m_file f of
        None \<Rightarrow> (False, f\<lparr>m_good := False\<rparr>)
      | Some g \<Rightarrow>
          (let f1 = (if ok then f\<lparr>m_file := Some (g\<lparr>st_content := take n (st_content g) @
                                    replicate (n - length (st_content g)) 0\<rparr>)\<rparr>
                     else f\<lparr>m_good := False\<rparr>)
           in (m_good f1, f1)))"

subsection \<open>Encrypted files\<close>

text \<open>\<open>cr_read\<close> and \<open>cr_write\<close> are the positions of the two ciphers.\<close>

record crypto_file =
  cr_file :: io_file
  cr_read :: nat
  cr_write :: nat

definition process_data :: "(nat \<Rightarrow> u8) \<Rightarrow> nat \<Rightarrow> u8 list \<Rightarrow> u8 list" where
  "process_data ctr pos bytes = map2 (\<lambda>i b. b XOR ctr (pos + i)) [0..<length bytes] bytes"

text \<open>After a result that counts, one cipher has moved and the other is set to the file's position.\<close>

definition counted :: "u64 \<Rightarrow> bool" where
  "counted n \<longleftrightarrow> n \<noteq> no_count \<and> n \<noteq> 0"

definition crypto_read :: "(nat \<Rightarrow> u8) \<Rightarrow> nat \<Rightarrow> nat \<Rightarrow> crypto_file \<Rightarrow> u64 \<times> u8 list \<times> crypto_file" where
  "crypto_read ctr n esize c =
     (case io_read n esize (cr_file c) of
        (k, bytes, f) \<Rightarrow>
          if counted k
          then let m = unat k * esize
               in (k, process_data ctr (cr_read c) (take m bytes) @ drop m bytes,
                   c\<lparr>cr_file := f, cr_read := cr_read c + m, cr_write := unat (io_tell f)\<rparr>)
          else (k, bytes, c\<lparr>cr_file := f\<rparr>))"

definition crypto_read_at :: "(nat \<Rightarrow> u8) \<Rightarrow> nat \<Rightarrow> nat \<Rightarrow> crypto_file \<Rightarrow> u64 \<times> u8 list \<times> crypto_file" where
  "crypto_read_at ctr n off c =
     (case io_read_at n off (cr_file c) of
        (k, bytes, f) \<Rightarrow>
          if counted k
          then (k, process_data ctr off bytes,
                c\<lparr>cr_file := f, cr_read := off + unat k, cr_write := unat (io_tell f)\<rparr>)
          else (k, bytes, c\<lparr>cr_file := f\<rparr>))"

definition crypto_write :: "(nat \<Rightarrow> u8) \<Rightarrow> u8 list \<Rightarrow> nat \<Rightarrow> crypto_file \<Rightarrow> u64 \<times> crypto_file" where
  "crypto_write ctr bytes esize c =
     (case io_write (process_data ctr (cr_write c) bytes) esize (cr_file c) of
        (k, f) \<Rightarrow>
          (k, c\<lparr>cr_file := f, cr_write := cr_write c + length bytes,
                cr_read := (if counted k then unat (io_tell f) else cr_read c)\<rparr>))"

definition crypto_seek :: "int \<Rightarrow> seek_origin \<Rightarrow> crypto_file \<Rightarrow> bool \<times> crypto_file" where
  "crypto_seek off origin c =
     (case io_seek off origin (cr_file c) of
        (ok, f) \<Rightarrow>
          if ok then (True, c\<lparr>cr_file := f, cr_read := unat (io_tell f), cr_write := unat (io_tell f)\<rparr>)
          else (False, c\<lparr>cr_file := f\<rparr>))"

definition crypto_open :: "stream option \<Rightarrow> crypto_file" where
  "crypto_open opened =
     \<lparr>cr_file = snd (io_open True opened \<lparr>m_file = None, m_good = True\<rparr>), cr_read = 0, cr_write = 0\<rparr>"

text \<open>
  Loading an archive sets the keys anew, which puts both ciphers at the beginning, before \<open>base\<close>, the
  serialisation of the plain file, opens and positions it.
\<close>

definition crypto_serialize :: "bool \<Rightarrow> (crypto_file \<Rightarrow> crypto_file) \<Rightarrow> crypto_file \<Rightarrow> crypto_file" where
  "crypto_serialize loading base c = base (if loading then c\<lparr>cr_read := 0, cr_write := 0\<rparr> else c)"

subsection \<open>Whole files as texts\<close>

text \<open>The size is cut to 32 bits.\<close>

definition read_file_to_string :: "stream option \<Rightarrow> u64 \<times> u8 list" where
  "read_file_to_string opened =
     (let f = snd (io_open True opened \<lparr>m_file = None, m_good = True\<rparr>)
      in if m_file f = None then (0, [])
         else case io_get_size f of
                (n, f1) \<Rightarrow> (case io_read (unat (ucast n :: u32)) 1 f1 of (k, bytes, _) \<Rightarrow> (k, bytes)))"

definition write_string_to_file :: "stream option \<Rightarrow> u8 list \<Rightarrow> u64 \<times> stream option" where
  "write_string_to_file opened text =
     (case io_write text 1 (snd (io_open True opened \<lparr>m_file = None, m_good = True\<rparr>)) of (k, f) \<Rightarrow> (k, m_file f))"

end
