(* ===== verification/File_Properties.thy ===== *)
theory File_Properties
  imports Io_Files
begin

text \<open>
  An encrypted file beside a plain one: sequences of reads, writes and seeks on both, and that the
  encrypted file is the plain one of its decrypted content as long as its ciphers are in step.
\<close>

subsection \<open>The key stream\<close>

lemma process_length [simp]: "length (process_data ctr p bs) = length bs"
  by (simp add: process_data_def)

lemma process_nth: "i < length bs \<Longrightarrow> process_data ctr p bs ! i = bs ! i XOR ctr (p + i)"
  by (simp add: process_data_def)

lemma process_Nil [simp]: "process_data ctr p [] = []"
  by (simp add: process_data_def)

lemma process_twice [simp]: "process_data ctr p (process_data ctr p bs) = bs"
  by (rule nth_equalityI) (simp_all add: process_nth xor.assoc)

lemma process_take: "process_data ctr p (take n bs) = take n (process_data ctr p bs)"
  by (rule nth_equalityI) (simp_all add: process_nth)

lemma process_drop: "n \<le> length bs \<Longrightarrow> process_data ctr (p + n) (drop n bs) = drop n (process_data ctr p bs)"
  by (rule nth_equalityI) (simp_all add: process_nth ac_simps)

lemma process_append: "process_data ctr p (as @ bs) = process_data ctr p as @ process_data ctr (p + length as) bs"
  by (rule nth_equalityI) (auto simp: process_nth nth_append ac_simps)

lemma process_taken: "process_data ctr p (take n (drop p content)) = take n (drop p (process_data ctr 0 content))"
proof (cases "p \<le> length content")
  case True
  then show ?thesis using process_drop [of p content ctr 0] by (simp add: process_take)
qed simp

lemma process_put:
  assumes "p \<le> length content"
  shows "process_data ctr 0 (put_bytes p (process_data ctr p bs) content) = put_bytes p bs (process_data ctr 0 content)"
proof (cases "p + length bs \<le> length content")
  case True
  then show ?thesis
    using assms process_drop [of "p + length bs" content ctr 0]
    by (simp add: put_bytes_def process_append process_take)
next
  case False
  then show ?thesis using assms by (simp add: put_bytes_def process_append process_take)
qed

subsection \<open>Operations\<close>

datatype file_op = Op_read nat nat | Op_write "u8 list" nat | Op_seek int seek_origin

datatype file_result = Read_gave u64 "u8 list" | Write_gave u64 | Seek_gave bool

fun io_step :: "file_op \<Rightarrow> io_file \<Rightarrow> file_result \<times> io_file" where
  "io_step (Op_read n e) f = (case io_read n e f of (k, bs, g) \<Rightarrow> (Read_gave k bs, g))"
| "io_step (Op_write bs e) f = (case io_write bs e f of (k, g) \<Rightarrow> (Write_gave k, g))"
| "io_step (Op_seek off origin) f = (case io_seek off origin f of (ok, g) \<Rightarrow> (Seek_gave ok, g))"

fun crypto_step :: "(nat \<Rightarrow> u8) \<Rightarrow> file_op \<Rightarrow> crypto_file \<Rightarrow> file_result \<times> crypto_file" where
  "crypto_step ctr (Op_read n e) c = (case crypto_read ctr n e c of (k, bs, d) \<Rightarrow> (Read_gave k bs, d))"
| "crypto_step ctr (Op_write bs e) c = (case crypto_write ctr bs e c of (k, d) \<Rightarrow> (Write_gave k, d))"
| "crypto_step ctr (Op_seek off origin) c = (case crypto_seek off origin c of (ok, d) \<Rightarrow> (Seek_gave ok, d))"

fun run_ops :: "(file_op \<Rightarrow> 'f \<Rightarrow> file_result \<times> 'f) \<Rightarrow> file_op list \<Rightarrow> 'f \<Rightarrow> file_result list \<times> 'f" where
  "run_ops f [] x = ([], x)"
| "run_ops f (p # ps) x = (let (r, y) = f p x; (rs, z) = run_ops f ps y in (r # rs, z))"

text \<open>
  What a caller keeps to: whole elements, no gap behind the end, room on the disk, positions that
  fit in the signed 64 bits of the calls, and the file is positioned between a write and a read and
  between a read that does not meet the end and a write.
\<close>

definition offset_target :: "int \<Rightarrow> seek_origin \<Rightarrow> stream \<Rightarrow> int" where
  "offset_target off origin f =
     off + (case origin of Seek_set \<Rightarrow> 0 | Seek_cur \<Rightarrow> int (st_pos f) | Seek_end \<Rightarrow> int (length (st_content f)))"

fun op_fits :: "file_op \<Rightarrow> stream \<Rightarrow> bool" where
  "op_fits (Op_read n e) f \<longleftrightarrow> \<not> st_undefined f \<and> st_last f \<noteq> After_write \<and> 0 < e \<and> e dvd length (take (n * e) (drop (st_pos f) (st_content f)))"
| "op_fits (Op_write bs e) f \<longleftrightarrow> \<not> st_undefined f \<and> st_last f \<noteq> After_read \<and> 0 < e \<and> e dvd length bs \<and> st_pos f \<le> length (st_content f)
     \<and> length bs \<le> st_room f \<and> st_pos f + length bs < 2 ^ 63"
| "op_fits (Op_seek off origin) f \<longleftrightarrow> \<not> st_undefined f \<and> 0 \<le> offset_target off origin f \<and> offset_target off origin f < 2 ^ 63"

fun ops_fit :: "file_op list \<Rightarrow> io_file \<Rightarrow> bool" where
  "ops_fit [] f = True"
| "ops_fit (p # ps) f = ((case m_file f of None \<Rightarrow> False | Some g \<Rightarrow> op_fits p g) \<and> ops_fit ps (snd (io_step p f)))"

subsection \<open>In step\<close>

definition in_step :: "crypto_file \<Rightarrow> bool" where
  "in_step c = (case m_file (cr_file c) of
     None \<Rightarrow> False
   | Some g \<Rightarrow> m_good (cr_file c) \<and> cr_read c = st_pos g \<and> cr_write c = st_pos g \<and> st_pos g < 2 ^ 63
       \<and> length (st_content g) < 2 ^ 63)"

definition plain_file :: "(nat \<Rightarrow> u8) \<Rightarrow> crypto_file \<Rightarrow> io_file" where
  "plain_file ctr c = (cr_file c)\<lparr>m_file := map_option (\<lambda>g. g\<lparr>st_content := process_data ctr 0 (st_content g)\<rparr>) (m_file (cr_file c))\<rparr>"

lemma of_nat_counted:
  assumes "0 < k" "k < 2 ^ 63"
  shows "counted (of_nat k :: u64)" and "unat (of_nat k :: u64) = k"
proof -
  show u: "unat (of_nat k :: u64) = k"
    using assms by (simp add: unat_of_nat)
  have "unat no_count = 2 ^ 64 - 1" unfolding no_count_def by (simp add: unsigned_minus_1_eq_mask mask_eq_exp_minus_1)
  with u assms(2) have "(of_nat k :: u64) \<noteq> no_count" by auto
  moreover have "(of_nat k :: u64) \<noteq> 0" using u assms(1) by auto
  ultimately show "counted (of_nat k :: u64)" by (simp add: counted_def)
qed

definition stepped :: "stream \<Rightarrow> crypto_file" where
  "stepped g = \<lparr>cr_file = \<lparr>m_file = Some g, m_good = True\<rparr>, cr_read = st_pos g, cr_write = st_pos g\<rparr>"

lemma in_step_stepped: "in_step c \<longleftrightarrow> (\<exists>g. c = stepped g \<and> st_pos g < 2 ^ 63 \<and> length (st_content g) < 2 ^ 63)"
  unfolding in_step_def stepped_def by (cases c; cases "cr_file c") (auto split: option.splits)

definition plain_stream :: "(nat \<Rightarrow> u8) \<Rightarrow> stream \<Rightarrow> stream" where
  "plain_stream ctr g = g\<lparr>st_content := process_data ctr 0 (st_content g)\<rparr>"

lemma plain_stream_simps [simp]:
  "st_pos (plain_stream ctr g) = st_pos g" "st_room (plain_stream ctr g) = st_room g"
  "st_last (plain_stream ctr g) = st_last g" "st_undefined (plain_stream ctr g) = st_undefined g"
  "st_content (plain_stream ctr g) = process_data ctr 0 (st_content g)"
  by (simp_all add: plain_stream_def)

lemma plain_stepped [simp]: "plain_file ctr (stepped g) = \<lparr>m_file = Some (plain_stream ctr g), m_good = True\<rparr>"
  by (simp add: plain_file_def stepped_def plain_stream_def)

text \<open>Each operation: what the encrypted file does, as one step of the stream.\<close>

lemma whole_elements:
  fixes m :: nat
  assumes "0 < e" "e dvd m" "0 < m" "m < 2 ^ 63"
  shows "0 < m div e" and "m div e < 2 ^ 63" and "m div e * e = m"
proof -
  show "m div e * e = m" using assms(2) by simp
  then show "0 < m div e" using assms(3) by (metis mult_zero_left neq0_conv)
  show "m div e < 2 ^ 63" using assms(4) div_le_dividend [of m e] by (rule le_less_trans [rotated])
qed

definition after_read :: "nat \<Rightarrow> stream \<Rightarrow> stream" where
  "after_read m g =
     (let k = length (take m (drop (st_pos g) (st_content g)))
      in if m = 0 then g
         else used After_write (if k < m then Positioned else After_read) (g\<lparr>st_pos := st_pos g + k\<rparr>))"

lemma after_read_simps [simp]:
  "st_pos (after_read m g) = st_pos g + length (take m (drop (st_pos g) (st_content g)))"
  "st_content (after_read m g) = st_content g"
  by (simp_all add: after_read_def used_def Let_def)

lemma after_read_plain: "after_read m (plain_stream ctr g) = plain_stream ctr (after_read m g)"
  by (simp add: after_read_def used_def Let_def plain_stream_def)

lemma used_plain: "used u v (plain_stream ctr g) = plain_stream ctr (used u v g)"
  by (simp add: used_def plain_stream_def)

lemma used_simps [simp]: "st_pos (used u v g) = st_pos g" "st_content (used u v g) = st_content g"
  by (simp_all add: used_def)

lemma io_read_stream:
  assumes "bytes = take (n * e) (drop (st_pos g) (st_content g))"
  shows "io_read n e \<lparr>m_file = Some g, m_good = True\<rparr>
    = (of_nat (length bytes div e), bytes, \<lparr>m_file = Some (after_read (n * e) g), m_good = True\<rparr>)"
  unfolding io_read_def assms by (cases "n * e = 0") (auto simp: c_fread_def Let_def after_read_def)

lemma tell_open: "st_pos g < 2 ^ 64 \<Longrightarrow> unat (io_tell \<lparr>m_file = Some g, m_good = True\<rparr>) = st_pos g"
  by (simp add: io_tell_def unat_of_nat)

lemma stepped_read:
  assumes "op_fits (Op_read n e) (plain_stream ctr g)" and "length (st_content g) < 2 ^ 63"
    and b: "bytes = take (n * e) (drop (st_pos g) (st_content g))"
  shows "crypto_read ctr n e (stepped g) =
    (of_nat (length bytes div e), process_data ctr (st_pos g) bytes, stepped (after_read (n * e) g))"
proof (cases "bytes = []")
  case True
  then show ?thesis
    using after_read_simps(1) [of "n * e" g, folded b]
    by (simp add: crypto_read_def stepped_def io_read_stream [OF b] counted_def del: after_read_simps(1))
next
  case False
  have "0 < e" "e dvd length bytes" using assms(1) by (simp_all add: b)
  moreover have l: "length bytes < 2 ^ 63" "st_pos g + length bytes < 2 ^ 64"
    using assms(2) False unfolding b by auto
  ultimately have k: "0 < length bytes div e" "length bytes div e < 2 ^ 63" "length bytes div e * e = length bytes"
    using False whole_elements [of e "length bytes"] by auto
  show ?thesis
    using of_nat_counted [OF k(1,2)] k(3) l after_read_simps(1) [of "n * e" g, folded b]
    by (simp add: crypto_read_def stepped_def io_read_stream [OF b] tell_open Let_def del: after_read_simps(1))
qed

definition after_write :: "u8 list \<Rightarrow> stream \<Rightarrow> stream" where
  "after_write bs g =
     (if bs = [] then g
      else used After_read After_write
        (g\<lparr>st_content := put_bytes (st_pos g) bs (st_content g),
           st_pos := st_pos g + length bs, st_room := st_room g - length bs\<rparr>))"

lemma after_write_simps:
  "st_pos (after_write bs g) = st_pos g + length bs"
  "st_pos g \<le> length (st_content g) \<Longrightarrow> length (st_content (after_write bs g)) = max (length (st_content g)) (st_pos g + length bs)"
  by (auto simp: after_write_def put_bytes_def)

lemma io_write_stream:
  assumes "length bs \<le> st_room g"
  shows "io_write bs e \<lparr>m_file = Some g, m_good = True\<rparr>
    = (of_nat (length bs div e), \<lparr>m_file = Some (after_write bs g), m_good = True\<rparr>)"
  using assms by (simp add: io_write_def c_fwrite_def after_write_def)

lemma after_write_plain:
  assumes "st_pos g \<le> length (st_content g)"
  shows "after_write bs (plain_stream ctr g) = plain_stream ctr (after_write (process_data ctr (st_pos g) bs) g)"
proof (cases "bs = []")
  case False
  then have "process_data ctr (st_pos g) bs \<noteq> []" by (metis process_length length_0_conv)
  with False show ?thesis
    by (simp add: after_write_def plain_stream_def used_def process_put [OF assms])
qed (simp add: after_write_def)

lemma stepped_write:
  assumes "op_fits (Op_write bs e) g"
  shows "crypto_write ctr bs e (stepped g) =
    (of_nat (length bs div e),
     stepped (after_write (process_data ctr (st_pos g) bs) g))"
proof (cases "bs = []")
  case True
  then show ?thesis
    by (simp add: crypto_write_def stepped_def io_write_def counted_def after_write_def)
next
  case False
  have l: "length bs < 2 ^ 63" "length bs \<le> st_room g" "st_pos g + length bs < 2 ^ 64" using assms(1) by simp_all
  have k: "0 < length bs div e" "length bs div e < 2 ^ 63"
    using False assms l(1) whole_elements [of e "length bs"] by auto
  have "process_data ctr (st_pos g) bs \<noteq> []" using False by (metis process_length length_0_conv)
  then show ?thesis
    using of_nat_counted [OF k] l
    by (simp add: crypto_write_def stepped_def io_write_stream tell_open after_write_simps(1))
qed

definition moved :: "nat \<Rightarrow> stream \<Rightarrow> stream" where
  "moved p g = g\<lparr>st_pos := p, st_last := Positioned\<rparr>"

lemma moved_simps [simp]: "st_pos (moved p g) = p" "st_content (moved p g) = st_content g"
  by (simp_all add: moved_def)

lemma moved_plain: "moved p (plain_stream ctr g) = plain_stream ctr (moved p g)"
  by (simp add: moved_def plain_stream_def)

lemma seek_stream:
  assumes "op_fits (Op_seek off origin) g"
  shows "io_seek off origin \<lparr>m_file = Some g, m_good = True\<rparr>
    = (True, \<lparr>m_file = Some (moved (nat (offset_target off origin g)) g), m_good = True\<rparr>)"
  using assms by (simp add: moved_def io_seek_def c_fseek_def offset_target_def Let_def)

lemma stepped_seek:
  assumes "op_fits (Op_seek off origin) g"
  shows "crypto_seek off origin (stepped g) = (True, stepped (moved (nat (offset_target off origin g)) g))"
proof -
  have "nat (offset_target off origin g) < 2 ^ 64" using assms by auto
  then show ?thesis
    by (simp add: crypto_seek_def stepped_def seek_stream [OF assms] tell_open)
qed

text \<open>One operation on both files.\<close>

lemma offset_target_plain [simp]: "offset_target off origin (plain_stream ctr g) = offset_target off origin g"
  by (simp add: offset_target_def split: seek_origin.split)

lemma crypto_step_refines:
  assumes "in_step c" and "m_file (plain_file ctr c) = Some h" and "op_fits p h"
  shows "fst (crypto_step ctr p c) = fst (io_step p (plain_file ctr c))
    \<and> plain_file ctr (snd (crypto_step ctr p c)) = snd (io_step p (plain_file ctr c)) \<and> in_step (snd (crypto_step ctr p c))"
proof -
  obtain g where c: "c = stepped g" and b: "st_pos g < 2 ^ 63" "length (st_content g) < 2 ^ 63"
    using assms(1) unfolding in_step_stepped by blast
  have h: "h = plain_stream ctr g" using assms(2) by (simp add: c)
  show ?thesis
  proof (cases p)
    case (Op_read n e)
    let ?b = "take (n * e) (drop (st_pos g) (st_content g))"
    have q: "process_data ctr (st_pos g) ?b = take (n * e) (drop (st_pos (plain_stream ctr g)) (st_content (plain_stream ctr g)))"
      by (simp add: process_taken)
    have "st_pos (after_read (n * e) g) < 2 ^ 63" using b by simp
    then show ?thesis
      using assms(3) b
      unfolding Op_read c h crypto_step.simps io_step.simps plain_stepped io_read_stream [OF q] after_read_plain
      by (subst (1 2 3) stepped_read [OF _ _ refl]) (auto simp: in_step_stepped)
  next
    case (Op_write bs e)
    have f: "op_fits (Op_write bs e) g" using assms(3) by (simp add: Op_write h)
    then have p: "st_pos g \<le> length (st_content g)" "length bs \<le> st_room g" by simp_all
    have "io_write bs e \<lparr>m_file = Some (plain_stream ctr g), m_good = True\<rparr>
      = (of_nat (length bs div e), \<lparr>m_file = Some (plain_stream ctr (after_write (process_data ctr (st_pos g) bs) g)), m_good = True\<rparr>)"
      using io_write_stream [of bs "plain_stream ctr g" e] p by (simp add: after_write_plain)
    then show ?thesis
      using f b p after_write_simps [where g = g and bs = "process_data ctr (st_pos g) bs"]
      unfolding Op_write c crypto_step.simps io_step.simps plain_stepped stepped_write [OF f]
      by (auto simp: in_step_stepped)
  next
    case (Op_seek off origin)
    have f: "op_fits (Op_seek off origin) g" "op_fits (Op_seek off origin) (plain_stream ctr g)"
      using assms(3) by (simp_all add: Op_seek h)
    then have "nat (offset_target off origin g) < 2 ^ 63" by auto
    then show ?thesis
      using b unfolding Op_seek c crypto_step.simps io_step.simps plain_stepped stepped_seek [OF f(1)] seek_stream [OF f(2)]
      unfolding offset_target_plain moved_plain by (auto simp: in_step_stepped)
  qed
qed

lemma run_ops_refine:
  "in_step c \<Longrightarrow> ops_fit ps (plain_file ctr c) \<Longrightarrow>
     fst (run_ops (crypto_step ctr) ps c) = fst (run_ops io_step ps (plain_file ctr c))
     \<and> plain_file ctr (snd (run_ops (crypto_step ctr) ps c)) = snd (run_ops io_step ps (plain_file ctr c))
     \<and> in_step (snd (run_ops (crypto_step ctr) ps c))"
proof (induction ps arbitrary: c)
  case (Cons p ps)
  obtain h where h: "m_file (plain_file ctr c) = Some h" "op_fits p h"
    using Cons.prems(2) by (auto split: option.splits)
  note s = crypto_step_refines [OF Cons.prems(1) h]
  have "ops_fit ps (plain_file ctr (snd (crypto_step ctr p c)))"
    using Cons.prems(2) s by simp
  note r = Cons.IH [OF _ this]
  show ?case using s r by (auto simp: Let_def split: prod.splits)
qed simp

text \<open>A read at a place: the file stays where it is, and so does the cipher for writing, but not that for reading.\<close>

lemma stepped_read_at:
  assumes "bytes = take n (drop off (st_content g))" "bytes \<noteq> []" "length (st_content g) < 2 ^ 63" "st_pos g < 2 ^ 63"
  shows "crypto_read_at ctr n off (stepped g)
    = (of_nat (length bytes), process_data ctr off bytes, (stepped g)\<lparr>cr_read := off + length bytes\<rparr>)"
proof -
  have "0 < length bytes" "length bytes < 2 ^ 63" "n \<noteq> 0" using assms by auto
  then show ?thesis
    using of_nat_counted [of "length bytes"] assms(4)
    by (simp add: crypto_read_at_def io_read_at_def stepped_def assms(1) [symmetric] tell_open Let_def)
qed

lemma desynced_read:
  assumes "bytes = take m (drop (st_pos g) (st_content g))" "length (st_content g) < 2 ^ 63"
  shows "fst (snd (crypto_read ctr m 1 ((stepped g)\<lparr>cr_read := r\<rparr>))) = process_data ctr r bytes"
proof -
  have i: "io_read m 1 \<lparr>m_file = Some g, m_good = True\<rparr>
      = (of_nat (length bytes div 1), bytes, \<lparr>m_file = Some (after_read (m * 1) g), m_good = True\<rparr>)"
    by (rule io_read_stream) (simp only: assms(1) mult_1_right)
  show ?thesis
  proof (cases "bytes = []")
    case True
    with i show ?thesis by (simp add: crypto_read_def stepped_def counted_def)
  next
    case False
    then have "0 < length bytes" "length bytes < 2 ^ 63" using assms by auto
    with i show ?thesis
      using of_nat_counted [of "length bytes"] by (simp add: crypto_read_def stepped_def Let_def)
  qed
qed

lemma process_eq_iff:
  "process_data ctr p bs = process_data ctr q bs \<longleftrightarrow> (\<forall>i < length bs. ctr (p + i) = ctr (q + i))"
proof
  assume a: "process_data ctr p bs = process_data ctr q bs"
  show "\<forall>i < length bs. ctr (p + i) = ctr (q + i)"
  proof (intro allI impI)
    fix i assume i: "i < length bs"
    have "bs ! i XOR ctr (p + i) = bs ! i XOR ctr (q + i)"
      using a process_nth [OF i] by metis
    then have "bs ! i XOR (bs ! i XOR ctr (p + i)) = bs ! i XOR (bs ! i XOR ctr (q + i))" by simp
    then show "ctr (p + i) = ctr (q + i)" by (simp flip: xor.assoc)
  qed
next
  assume "\<forall>i < length bs. ctr (p + i) = ctr (q + i)"
  then show "process_data ctr p bs = process_data ctr q bs"
    by (intro nth_equalityI) (simp_all add: process_nth)
qed

section \<open>Properties\<close>

text \<open>
  Properties of encrypted files.
\<close>

text \<open>
  C15. Encrypted files.  An encrypted file whose two ciphers stand at the position of the file
  behaves like a plain file with its decrypted content.  This is so for sequences of reads, writes and
  seeks in which reads meet whole elements, writes have whole elements, fit on the disk and start at most
  at the end of the file, positions fit in 63 bits, and the file is positioned between a write and a read
  and between a read and a write, as C requires.  They give the same counts, the same bytes and the same
  results, leave the plain file's content encrypted, and leave the ciphers in step.
\<close>

theorem crypto_refines_plain:
  assumes "in_step c" and "ops_fit ops (plain_file ctr c)"
  shows "fst (run_ops (crypto_step ctr) ops c) = fst (run_ops io_step ops (plain_file ctr c))
    \<and> plain_file ctr (snd (run_ops (crypto_step ctr) ops c)) = snd (run_ops io_step ops (plain_file ctr c))
    \<and> in_step (snd (run_ops (crypto_step ctr) ops c))"
  using assms by (rule run_ops_refine)

definition sample_stream :: stream where
  "sample_stream = \<lparr>st_content = [10, 20, 30, 40], st_pos = 0, st_room = 100, st_last = Positioned, st_undefined = False\<rparr>"

definition sample_key :: "nat \<Rightarrow> u8" where
  "sample_key i = of_nat i"

definition sample_ops :: "file_op list" where
  "sample_ops = [Op_read 1 2, Op_seek 0 Seek_cur, Op_write [1, 2, 3] 1, Op_seek 1 Seek_set, Op_read 4 1]"

lemma sample_in_step:
  "in_step (stepped sample_stream)" "m_file (cr_file (stepped sample_stream)) = Some sample_stream"
  by (simp_all add: in_step_def stepped_def sample_stream_def)

lemma crypto_refines_plain_witness:
  "fst (run_ops (crypto_step sample_key) sample_ops (stepped sample_stream))
     = [Read_gave 1 [10, 21], Seek_gave True, Write_gave 3, Seek_gave True, Read_gave 4 [21, 1, 2, 3]]"
proof -
  note run = sample_stream_def sample_ops_def process_data_def io_read_def c_fread_def io_write_def c_fwrite_def
    io_seek_def c_fseek_def used_def put_bytes_def offset_target_def plain_stream_def sample_key_def upt_rec Let_def
  have s: "ops_fit sample_ops (plain_file sample_key (stepped sample_stream))"
    by (simp add: run)
  have "fst (run_ops io_step sample_ops (plain_file sample_key (stepped sample_stream)))
     = [Read_gave 1 [10, 21], Seek_gave True, Write_gave 3, Seek_gave True, Read_gave 4 [21, 1, 2, 3]]"
    by (simp add: run)
  with crypto_refines_plain [OF sample_in_step(1) s] show ?thesis by simp
qed

text \<open>
  C38. Reading at a place.  A read at a place of an encrypted file gives the decrypted bytes from
  there, but leaves the cipher for reading behind them instead of at the position of the file.  The
  next read in sequence is right only if the key stream happens to be the same at both places.
\<close>

theorem read_at_desyncs:
  assumes "in_step c" and "m_file (cr_file c) = Some g" and "0 < n" and "off < length (st_content g)"
  shows "case crypto_read_at ctr n off c of
    (_, bytes, d) \<Rightarrow> bytes = take n (drop off (process_data ctr 0 (st_content g)))
      \<and> (fst (snd (crypto_read ctr m 1 d)) = take m (drop (st_pos g) (process_data ctr 0 (st_content g)))
         \<longleftrightarrow> (\<forall>i < length (take m (drop (st_pos g) (st_content g))). ctr (off + length bytes + i) = ctr (st_pos g + i)))"
proof -
  let ?b = "take n (drop off (st_content g))"
  have c: "c = stepped g" "st_pos g < 2 ^ 63" "length (st_content g) < 2 ^ 63"
    using assms(1,2) by (auto simp: in_step_stepped stepped_def)
  have b: "?b \<noteq> []" using assms(3,4) by simp
  show ?thesis
    unfolding c(1) stepped_read_at [OF refl b c(3,2)] desynced_read [OF refl c(3)] prod.case process_taken [symmetric]
    by (simp only: process_eq_iff process_length simp_thms)
qed

lemma read_at_desyncs_witness:
  "case crypto_read_at sample_key 2 2 (stepped sample_stream) of
     (_, bytes, d) \<Rightarrow> bytes = [28, 43] \<and> fst (snd (crypto_read sample_key 1 1 d)) \<noteq> [10]"
proof -
  have g: "(0 :: nat) < 2" "2 < length (st_content sample_stream)"
    by (simp_all add: sample_stream_def)
  have p: "process_data sample_key 0 (st_content sample_stream) = [10, 21, 28, 43]"
    by (simp add: process_data_def sample_stream_def sample_key_def upt_rec)
  have l: "take 1 (drop (st_pos sample_stream) (st_content sample_stream)) = [10]" "st_pos sample_stream = 0"
    "st_content sample_stream \<noteq> []"
    by (simp_all add: sample_stream_def)
  show ?thesis
    using read_at_desyncs [OF sample_in_step g, of sample_key 1] unfolding p l(1,2) using l(3)
    by (auto simp: sample_key_def split: prod.splits)
qed

end
