(* ===== verification/Tree_Facts.thy ===== *)
theory Tree_Facts
  imports Posix_Files "HOL-Library.Sublist"
begin

text \<open>
  Facts about the tree of files: places of paths, what each call of the system changes, the tree
  that stays well formed, and that the walks over directories change nothing outside them.
\<close>

subsection \<open>Places\<close>

definition is_name :: "string \<Rightarrow> bool" where
  "is_name n \<longleftrightarrow> n \<noteq> [] \<and> n \<noteq> ''.''"

lemma get_lines_join:
  "filter is_name (get_lines w (d @ fwd_slash # e)) = filter is_name (get_lines w d) @ filter is_name (get_lines [] e)"
  by (induction w d rule: get_lines.induct) (auto simp: is_name_def)

lemma place_of_names: "place_of p = filter is_name (get_lines [] p)"
  by (simp add: place_of_def is_name_def [abs_def])

lemma place_of_join [simp]: "place_of (d @ fwd_slash # e) = place_of d @ place_of e"
  by (simp add: place_of_names get_lines_join)

lemma place_of_Nil [simp]: "place_of [] = []"
  by (simp add: place_of_def)

lemma place_of_slashes [simp]: "place_of (p @ replicate k fwd_slash) = place_of p"
proof (induction k arbitrary: p)
  case (Suc k)
  have "place_of (p @ replicate (Suc k) fwd_slash) = place_of ((p @ [fwd_slash]) @ replicate k fwd_slash)" by simp
  also have "\<dots> = place_of (p @ [fwd_slash])" by (rule Suc)
  also have "\<dots> = place_of p" by simp
  finally show ?case .
qed simp

lemma get_lines_plain: "fwd_slash \<notin> set p \<Longrightarrow> get_lines w p = (if w @ p = [] then [] else [w @ p])"
  by (induction w p rule: get_lines.induct) auto

lemma place_of_name: "is_name e \<Longrightarrow> fwd_slash \<notin> set e \<Longrightarrow> place_of e = [e]"
  by (simp add: place_of_names get_lines_plain is_name_def)

lemma stripped: "\<exists>k. p = strip_tail_dir_slashes p @ replicate k fwd_slash"
proof (cases "length p \<le> 1")
  case True
  then show ?thesis by (intro exI [of _ 0]) (simp add: strip_tail_dir_slashes_def)
next
  case False
  have "rev p = takeWhile (\<lambda>c. c = fwd_slash) (rev p) @ dropWhile (\<lambda>c. c = fwd_slash) (rev p)" by simp
  moreover have "takeWhile (\<lambda>c. c = fwd_slash) (rev p) = replicate (length (takeWhile (\<lambda>c. c = fwd_slash) (rev p))) fwd_slash"
    by (rule replicate_eqI) (auto dest: set_takeWhileD)
  ultimately have "p = rev (dropWhile (\<lambda>c. c = fwd_slash) (rev p)) @ replicate (length (takeWhile (\<lambda>c. c = fwd_slash) (rev p))) fwd_slash"
    by (metis rev_append rev_replicate rev_rev_ident)
  with False show ?thesis unfolding strip_tail_dir_slashes_def by auto
qed

lemma place_of_strip [simp]: "place_of (strip_tail_dir_slashes p) = place_of p"
  using stripped [of p] by (metis place_of_slashes)

lemma strip_last: "place_of p \<noteq> [] \<Longrightarrow> strip_tail_dir_slashes p \<noteq> [] \<and> last (strip_tail_dir_slashes p) \<noteq> fwd_slash"
proof -
  assume a: "place_of p \<noteq> []"
  then have n: "strip_tail_dir_slashes p \<noteq> []" by (metis place_of_strip place_of_Nil)
  show ?thesis
  proof (cases "length p \<le> 1")
    case True
    then obtain c where "p = [c]" using a by (cases p) auto
    with a show ?thesis by (auto simp: strip_tail_dir_slashes_def place_of_def)
  next
    case False
    let ?q = "dropWhile (\<lambda>c. c = fwd_slash) (rev p)"
    have "?q \<noteq> []" using n False by (simp add: strip_tail_dir_slashes_def)
    then have "hd ?q \<noteq> fwd_slash" by (rule hd_dropWhile)
    with False n \<open>?q \<noteq> []\<close> show ?thesis by (simp add: strip_tail_dir_slashes_def last_rev)
  qed
qed

text \<open>Places without links on the way, and without any below either: a path leads where it says.\<close>

definition clear_way :: "place \<Rightarrow> file_system \<Rightarrow> bool" where
  "clear_way l s \<longleftrightarrow> (\<forall>k t. prefix k l \<longrightarrow> fs_at s k \<noteq> Some (Fs_link t))"

definition link_free :: "place \<Rightarrow> file_system \<Rightarrow> bool" where
  "link_free l s \<longleftrightarrow> (\<forall>k t. prefix k l \<or> prefix l k \<longrightarrow> fs_at s k \<noteq> Some (Fs_link t))"

lemma link_free_clear: "link_free l s \<Longrightarrow> clear_way l s"
  by (simp add: link_free_def clear_way_def)

lemma link_free_below: "link_free l s \<Longrightarrow> prefix l k \<Longrightarrow> link_free k s"
  unfolding link_free_def by (meson prefix_order.order_trans prefix_same_cases)

lemma follow_clear: "clear_way (here @ xs) s \<Longrightarrow> follow_links s n f here xs = Some (here @ xs)"
proof (induction xs arbitrary: here)
  case (Cons x xs)
  have "prefix (here @ [x]) (here @ x # xs)" by simp
  then have "fs_at s (here @ [x]) \<noteq> Some (Fs_link t)" for t using Cons.prems unfolding clear_way_def by blast
  moreover have "follow_links s n f (here @ [x]) xs = Some ((here @ [x]) @ xs)"
    using Cons.IH [of "here @ [x]"] Cons.prems by simp
  ultimately show ?case by (auto split: option.split fs_node.split)
qed simp

lemma resolve_clear [simp]:
  "clear_way (place_of p) s \<Longrightarrow> resolve s p = Some (place_of p)"
  "clear_way (place_of p) s \<Longrightarrow> resolve_name s p = Some (place_of p)"
  by (simp_all add: resolve_def resolve_name_def follow_clear)

text \<open>What is at a path, for every path but those of the root.\<close>

lemma stat_strip: "clear_way (place_of p) s \<Longrightarrow> place_of p \<noteq> [] \<Longrightarrow>
    posix_stat s (strip_tail_dir_slashes p) = fs_at s (place_of p)"
  using strip_last [of p] by (auto simp: posix_stat_def split: option.splits fs_node.splits)

lemma is_directory_at: "clear_way (place_of p) s \<Longrightarrow> place_of p \<noteq> [] \<Longrightarrow>
    is_directory s p \<longleftrightarrow> fs_at s (place_of p) = Some Fs_dir"
  by (simp add: is_directory_def stat_strip)

lemma file_exists_at: "clear_way (place_of p) s \<Longrightarrow> place_of p \<noteq> [] \<Longrightarrow>
    file_exists s p \<longleftrightarrow> fs_at s (place_of p) \<noteq> None"
  by (simp add: file_exists_def stat_strip)

subsection \<open>Changes\<close>

lemma map_of_filter_key: "map_of (filter (\<lambda>e. fst e \<noteq> l) xs) k = (if k = l then None else map_of xs k)"
  by (induction xs) auto

lemma fs_at_Nil [simp]: "fs_at s [] = Some Fs_dir"
  by (simp add: fs_at_def)

lemma fs_at_put: "fs_at (fs_put l n s) k = (if k = [] then Some Fs_dir else if k = l then Some n else fs_at s k)"
  by (auto simp: fs_at_def fs_put_def map_of_filter_key map_add_def split: option.splits)

lemma fs_at_remove: "fs_at (fs_remove l s) k = (if k = [] then Some Fs_dir else if k = l then None else fs_at s k)"
  by (simp add: fs_at_def fs_remove_def map_of_filter_key)

lemma fs_denied_kept [simp]: "fs_denied (fs_put l n s) = fs_denied s" "fs_denied (fs_remove l s) = fs_denied s"
  "fs_unreadable (fs_put l n s) = fs_unreadable s" "fs_unreadable (fs_remove l s) = fs_unreadable s"
  "fs_room (fs_put l n s) = fs_room s" "fs_room (fs_remove l s) = fs_room s"
  by (simp_all add: fs_put_def fs_remove_def)

text \<open>A tree: every place is there once and its names are names, and above it are directories.\<close>

definition fs_wf :: "file_system \<Rightarrow> bool" where
  "fs_wf s \<longleftrightarrow> distinct (map fst (fs_nodes s))
     \<and> (\<forall>l \<in> set (map fst (fs_nodes s)). l \<noteq> [] \<and> fs_at s (butlast l) = Some Fs_dir
          \<and> is_name (last l) \<and> last l \<noteq> ''..'' \<and> fwd_slash \<notin> set (last l))"

lemma fs_at_listed: "l \<noteq> [] \<Longrightarrow> fs_at s l \<noteq> None \<longleftrightarrow> l \<in> set (map fst (fs_nodes s))"
  by (simp add: fs_at_def map_of_eq_None_iff)

lemma wf_parent: "fs_wf s \<Longrightarrow> l \<noteq> [] \<Longrightarrow> fs_at s l \<noteq> None \<Longrightarrow> fs_at s (butlast l) = Some Fs_dir"
  unfolding fs_wf_def using fs_at_listed by blast

lemma wf_above:
  "fs_wf s \<Longrightarrow> fs_at s (l @ k) \<noteq> None \<Longrightarrow> k \<noteq> [] \<Longrightarrow> fs_at s l = Some Fs_dir"
proof (induction k rule: rev_induct)
  case (snoc x k)
  have "fs_at s (butlast (l @ k @ [x])) = Some Fs_dir"
    using wf_parent [OF snoc.prems(1), of "l @ k @ [x]"] snoc.prems(2) by simp
  then have "fs_at s (l @ k) = Some Fs_dir" by (simp add: butlast_append)
  with snoc.IH snoc.prems(1) show ?case by (cases "k = []") simp_all
qed simp

lemma fs_below_iff:
  assumes "fs_wf s"
  shows "e \<in> set (fs_below s l) \<longleftrightarrow> fs_at s (l @ [e]) \<noteq> None"
proof
  assume "e \<in> set (fs_below s l)"
  then obtain k where k: "k \<in> set (map fst (fs_nodes s))" "k \<noteq> []" "butlast k = l" "last k = e"
    by (auto simp: fs_below_def)
  then have "k = l @ [e]" by auto
  with k(1,2) show "fs_at s (l @ [e]) \<noteq> None" using fs_at_listed [of k s] by blast
next
  assume "fs_at s (l @ [e]) \<noteq> None"
  then have "l @ [e] \<in> set (map fst (fs_nodes s))" by (subst fs_at_listed [symmetric]) simp_all
  then obtain x where "x \<in> set (fs_nodes s)" "fst x = l @ [e]" by auto
  then show "e \<in> set (fs_below s l)"
    unfolding fs_below_def by (auto intro!: image_eqI [of _ _ x])
qed

lemma wf_listed_name:
  assumes "fs_wf s" "fs_at s (l @ [e]) \<noteq> None"
  shows "is_name e" "e \<noteq> ''..''" "fwd_slash \<notin> set e"
proof -
  have "l @ [e] \<in> set (map fst (fs_nodes s))" using assms(2) by (subst fs_at_listed [symmetric]) simp_all
  with assms(1) have "is_name (last (l @ [e])) \<and> last (l @ [e]) \<noteq> ''..'' \<and> fwd_slash \<notin> set (last (l @ [e]))"
    unfolding fs_wf_def by blast
  then show "is_name e" "e \<noteq> ''..''" "fwd_slash \<notin> set e" by simp_all
qed

lemma wf_no_child: "fs_wf s \<Longrightarrow> fs_at s l \<noteq> Some Fs_dir \<Longrightarrow> k \<noteq> [] \<Longrightarrow> fs_at s (l @ k) = None"
  using wf_above by blast

lemma wf_remove:
  assumes "fs_wf s" "\<And>e. fs_at s (l @ [e]) = None"
  shows "fs_wf (fs_remove l s)"
  unfolding fs_wf_def
proof (intro conjI ballI)
  show "distinct (map fst (fs_nodes (fs_remove l s)))"
    using assms(1) by (simp add: fs_wf_def fs_remove_def distinct_map inj_on_def)
next
  fix k assume "k \<in> set (map fst (fs_nodes (fs_remove l s)))"
  then have k: "k \<in> set (map fst (fs_nodes s))" "k \<noteq> l" by (auto simp: fs_remove_def)
  then have w: "k \<noteq> []" "fs_at s (butlast k) = Some Fs_dir" "is_name (last k)" "last k \<noteq> ''..''" "fwd_slash \<notin> set (last k)"
    using assms(1) by (auto simp: fs_wf_def)
  then show "k \<noteq> []" "is_name (last k)" "last k \<noteq> ''..''" "fwd_slash \<notin> set (last k)" by simp_all
  have "fs_at s k \<noteq> None" using k(1) w(1) fs_at_listed by blast
  then have "butlast k \<noteq> l" using assms(2) [of "last k"] w(1) by auto
  with w(2) show "fs_at (fs_remove l s) (butlast k) = Some Fs_dir" by (simp add: fs_at_remove)
qed

lemma wf_put:
  assumes "fs_wf s" "l \<noteq> []" "fs_at s (butlast l) = Some Fs_dir"
    and "is_name (last l)" "last l \<noteq> ''..''" "fwd_slash \<notin> set (last l)"
    and "fs_at s l = Some Fs_dir \<Longrightarrow> n = Fs_dir"
  shows "fs_wf (fs_put l n s)"
  unfolding fs_wf_def
proof (intro conjI ballI)
  show "distinct (map fst (fs_nodes (fs_put l n s)))"
    using assms(1) by (auto simp: fs_wf_def fs_put_def distinct_map inj_on_def)
next
  fix k assume "k \<in> set (map fst (fs_nodes (fs_put l n s)))"
  then consider "k = l" | "k \<in> set (map fst (fs_nodes s))" by (auto simp: fs_put_def)
  then have w: "k \<noteq> []" "fs_at s (butlast k) = Some Fs_dir" "is_name (last k)" "last k \<noteq> ''..''" "fwd_slash \<notin> set (last k)"
    using assms by (cases; auto simp: fs_wf_def)+
  then show "k \<noteq> []" "is_name (last k)" "last k \<noteq> ''..''" "fwd_slash \<notin> set (last k)" by simp_all
  show "fs_at (fs_put l n s) (butlast k) = Some Fs_dir"
    using w(2) assms(7) by (auto simp: fs_at_put)
qed

subsection \<open>Removing\<close>

text \<open>
  Without links at \<open>d\<close>, only places below \<open>d\<close> change, and only by going away.
\<close>

definition shrinks :: "place \<Rightarrow> file_system \<Rightarrow> file_system \<Rightarrow> bool" where
  "shrinks d s s' \<longleftrightarrow> fs_denied s' = fs_denied s
     \<and> (link_free d s \<longrightarrow> (\<forall>l. fs_at s' l = fs_at s l \<or> prefix d l \<and> fs_at s' l = None) \<and> (fs_wf s \<longrightarrow> fs_wf s'))"

lemma shrinks_refl [simp]: "shrinks d s s"
  by (simp add: shrinks_def)

lemma shrinks_changes:
  assumes "shrinks d s s'" "link_free d s"
  shows "fs_at s' l = fs_at s l \<or> prefix d l \<and> fs_at s' l = None" "fs_wf s \<Longrightarrow> fs_wf s'"
  using assms by (simp_all add: shrinks_def)

lemma shrinks_none: "shrinks d s s' \<Longrightarrow> link_free d s \<Longrightarrow> fs_at s l = None \<Longrightarrow> fs_at s' l = None"
  by (metis shrinks_def)

lemma shrinks_some: "shrinks d s s' \<Longrightarrow> link_free d s \<Longrightarrow> fs_at s' l = Some n \<Longrightarrow> fs_at s l = Some n"
  unfolding shrinks_def by (metis option.distinct(1))

lemma shrinks_link_free: "shrinks d s s' \<Longrightarrow> link_free d s \<Longrightarrow> link_free k s \<Longrightarrow> link_free k s'"
  using shrinks_some unfolding link_free_def by blast

lemma shrinks_trans:
  assumes "shrinks d s s1" "shrinks d s1 s2"
  shows "shrinks d s s2"
proof (cases "link_free d s")
  case True
  then have "link_free d s1" using shrinks_link_free [OF assms(1) True] by blast
  with True assms show ?thesis unfolding shrinks_def by metis
qed (use assms in \<open>simp add: shrinks_def\<close>)

lemma shrinks_mono: "prefix d d' \<Longrightarrow> shrinks d' s s' \<Longrightarrow> shrinks d s s'"
  using link_free_below [of d s d'] unfolding shrinks_def by (meson prefix_order.order_trans)

lemma stat_file_place: "clear_way (place_of p) s \<Longrightarrow> posix_stat s p = Some (Fs_file d) \<Longrightarrow>
    place_of p \<noteq> [] \<and> fs_at s (place_of p) = Some (Fs_file d)"
  by (auto simp: posix_stat_def split: if_splits option.splits fs_node.splits)

lemma unlink_denied: "posix_unlink s p = Some s' \<Longrightarrow> fs_denied s' = fs_denied s"
  by (auto simp: posix_unlink_def split: option.splits if_splits)

lemma unlink_clear:
  assumes "clear_way (place_of p) s" "posix_unlink s p = Some s'"
  shows "s' = fs_remove (place_of p) s" "place_of p \<noteq> []" "fs_at s (place_of p) \<noteq> Some Fs_dir"
  using assms by (auto simp: posix_unlink_def is_plain_entry_def split: option.splits if_splits fs_node.splits)

lemma unlink_shrinks: "posix_unlink s p = Some s' \<Longrightarrow> shrinks (place_of p) s s'"
proof -
  assume a: "posix_unlink s p = Some s'"
  have "(\<forall>l. fs_at s' l = fs_at s l \<or> prefix (place_of p) l \<and> fs_at s' l = None) \<and> (fs_wf s \<longrightarrow> fs_wf s')"
    if "link_free (place_of p) s"
  proof -
    note u = unlink_clear [OF link_free_clear [OF that] a]
    have "fs_wf s \<longrightarrow> fs_wf s'"
      using wf_remove [of s "place_of p"] wf_no_child [of s "place_of p"] u by simp
    then show ?thesis using u by (auto simp: fs_at_remove)
  qed
  with unlink_denied [OF a] show ?thesis by (simp add: shrinks_def)
qed

lemma unlink_gone: "clear_way (place_of p) s \<Longrightarrow> posix_unlink s p = Some s' \<Longrightarrow> fs_at s' (place_of p) = None"
  using unlink_clear [of p s s'] by (simp add: fs_at_remove)

lemma delete_file_shrinks: "shrinks (place_of p) s (snd (delete_file p s))"
  using unlink_shrinks [of s p] by (auto simp: delete_file_def split: option.splits)

lemma rmdir_denied: "posix_rmdir s p = Some s' \<Longrightarrow> fs_denied s' = fs_denied s"
  by (auto simp: posix_rmdir_def split: option.splits if_splits)

lemma rmdir_shrinks: "posix_rmdir s p = Some s' \<Longrightarrow> shrinks (place_of p) s s'"
proof -
  assume a: "posix_rmdir s p = Some s'"
  have "(\<forall>l. fs_at s' l = fs_at s l \<or> prefix (place_of p) l \<and> fs_at s' l = None) \<and> (fs_wf s \<longrightarrow> fs_wf s')"
    if "link_free (place_of p) s"
  proof -
    have l: "place_of p \<noteq> []" "fs_below s (place_of p) = []" and s': "s' = fs_remove (place_of p) s"
      using a link_free_clear [OF that] by (auto simp: posix_rmdir_def split: if_splits)
    have "fs_wf s \<longrightarrow> fs_wf s'"
      using wf_remove [of s "place_of p"] fs_below_iff [of s _ "place_of p"] l(2) by (auto simp: s')
    with l show ?thesis by (auto simp: s' fs_at_remove)
  qed
  with rmdir_denied [OF a] show ?thesis by (simp add: shrinks_def)
qed

lemma delete_dir_shrinks: "shrinks (place_of p) s (snd (delete_dir p s))"
  using rmdir_shrinks [of s p] by (auto simp: delete_dir_def split: option.splits)

subsection \<open>Walking over a directory\<close>

lemma each_entry_rel:
  assumes "\<And>s. R s s" and "\<And>s s1 s2. R s s1 \<Longrightarrow> R s1 s2 \<Longrightarrow> R s s2" and "\<And>e s. R s (snd (snd (f d e s)))"
  shows "R s (snd (snd (each_entry f d es n s)))"
proof (induction es arbitrary: n s)
  case (Cons e es)
  show ?case
  proof (cases "e = ''.'' \<or> e = ''..''")
    case False
    obtain ok k s1 where f: "f d e s = (ok, k, s1)" by (metis prod_cases3)
    then have "R s s1" using assms(3) [of s e] by simp
    with f False show ?thesis using assms(2) [OF _ Cons.IH] by (cases ok) simp_all
  qed (use Cons.IH in simp)
qed (simp add: assms(1))

lemma each_entry_all:
  assumes "each_entry f d es n s = (True, m, s')" and "I s"
    and "\<And>e s k s1. e \<in> set es \<Longrightarrow> e \<noteq> ''.'' \<Longrightarrow> e \<noteq> ''..'' \<Longrightarrow> I s \<Longrightarrow> f d e s = (True, k, s1) \<Longrightarrow> I s1 \<and> Q e s1"
    and "\<And>e e' s k s1. I s \<Longrightarrow> Q e s \<Longrightarrow> f d e' s = (True, k, s1) \<Longrightarrow> Q e s1"
  shows "I s' \<and> (\<forall>e \<in> set es. e \<noteq> ''.'' \<longrightarrow> e \<noteq> ''..'' \<longrightarrow> Q e s') \<and> (\<forall>e. Q e s \<longrightarrow> Q e s')"
  using assms(1-3)
proof (induction es arbitrary: n s)
  case (Cons e es)
  show ?case
  proof (cases "e = ''.'' \<or> e = ''..''")
    case True
    with Cons.prems(1) have "each_entry f d es n s = (True, m, s')" by simp
    from Cons.IH [OF this Cons.prems(2)] Cons.prems(3) True show ?thesis by auto
  next
    case False
    obtain k s1 where f: "f d e s = (True, k, s1)" and r: "each_entry f d es (n + k) s1 = (True, m, s')"
      using Cons.prems(1) False by (auto split: prod.splits bool.splits)
    have i: "I s1" "Q e s1" using Cons.prems(3) [OF _ _ _ Cons.prems(2) f] False by simp_all
    from Cons.IH [OF r i(1)] Cons.prems(3) have
      a: "I s'" "\<forall>e \<in> set es. e \<noteq> ''.'' \<longrightarrow> e \<noteq> ''..'' \<longrightarrow> Q e s'" "\<forall>e. Q e s1 \<longrightarrow> Q e s'" by auto
    then show ?thesis using i(2) assms(4) [OF Cons.prems(2) _ f] by auto
  qed
qed simp

lemma each_entry_ok:
  assumes "I s" and "\<And>e s. e \<in> set es \<Longrightarrow> e \<noteq> ''.'' \<Longrightarrow> e \<noteq> ''..'' \<Longrightarrow> I s \<Longrightarrow> fst (f d e s) \<and> I (snd (snd (f d e s)))"
  shows "fst (each_entry f d es n s)"
  using assms
proof (induction es arbitrary: n s)
  case (Cons e es)
  show ?case
  proof (cases "e = ''.'' \<or> e = ''..''")
    case False
    obtain ok k s1 where f: "f d e s = (ok, k, s1)" by (metis prod_cases3)
    with Cons.prems(2) [of e s] Cons.prems(1) False have "ok" "I s1" by auto
    then show ?thesis using Cons.IH [of s1] Cons.prems(2) f False by auto
  qed (use Cons in auto)
qed simp

subsection \<open>Removing a tree\<close>

definition delete_callback :: "nat \<Rightarrow> string \<Rightarrow> string \<Rightarrow> file_system \<Rightarrow> bool \<times> u64 \<times> file_system" where
  "delete_callback n d e s =
     (let p = d @ fwd_slash # e
      in if is_directory s p
         then (case n of 0 \<Rightarrow> (False, 0, s) | Suc m \<Rightarrow> (case delete_dir_recursively m p s of (ok, s1) \<Rightarrow> (ok, 0, s1)))
         else (case delete_file p s of (ok, s1) \<Rightarrow> (ok, 0, s1)))"

lemma delete_dir_recursively_callback:
  "delete_dir_recursively n dir s =
     (case foreach_directory_entry (delete_callback n) dir s of
        (False, _, s1) \<Rightarrow> (False, s1)
      | (True, _, s1) \<Rightarrow> (True, snd (delete_dir dir s1)))"
  by (subst delete_dir_recursively.simps) (simp add: delete_callback_def [abs_def])

lemma foreach_shrinks:
  assumes "\<And>e s. shrinks l s (snd (snd (f dir e s)))"
  shows "shrinks l s (snd (snd (foreach_directory_entry f dir s)))"
proof (cases "posix_readdir s dir")
  case (Some es)
  have "shrinks l s (snd (snd (each_entry f dir es 0 s)))"
    using assms by (intro each_entry_rel [where R = "shrinks l"]) (auto intro: shrinks_trans)
  with Some show ?thesis by (simp add: foreach_directory_entry_def)
qed (simp add: foreach_directory_entry_def)

lemma delete_tree_shrinks_if:
  assumes "\<And>e s. shrinks (place_of dir) s (snd (snd (delete_callback n dir e s)))"
  shows "shrinks (place_of dir) s (snd (delete_dir_recursively n dir s))"
proof -
  obtain ok k s1 where f: "foreach_directory_entry (delete_callback n) dir s = (ok, k, s1)" by (metis prod_cases3)
  then have "shrinks (place_of dir) s s1" 
    using foreach_shrinks [where f = "delete_callback n" and dir = dir and l = "place_of dir" and s = s] assms by simp
  then show ?thesis
    using shrinks_trans [OF _ delete_dir_shrinks [of dir s1]]
    by (cases ok) (simp_all add: delete_dir_recursively_callback f)
qed

lemma delete_recursively_shrinks: "shrinks (place_of dir) s (snd (delete_dir_recursively n dir s))"
proof (induction n arbitrary: dir s)
  case 0
  have "shrinks (place_of dir) s (snd (snd (delete_callback 0 dir e s)))" for e s
    using shrinks_mono [OF _ delete_file_shrinks [of "dir @ fwd_slash # e" s], of "place_of dir"]
    by (cases "delete_file (dir @ fwd_slash # e) s") (simp add: delete_callback_def Let_def)
  then show ?case by (rule delete_tree_shrinks_if)
next
  case (Suc n)
  have "shrinks (place_of dir) s (snd (snd (delete_callback (Suc n) dir e s)))" for e s
    using shrinks_mono [OF _ delete_file_shrinks [of "dir @ fwd_slash # e" s], of "place_of dir"]
      shrinks_mono [OF _ Suc.IH [of "dir @ fwd_slash # e" s], of "place_of dir"]
    by (cases "delete_file (dir @ fwd_slash # e) s"; cases "delete_dir_recursively n (dir @ fwd_slash # e) s")
      (simp add: delete_callback_def Let_def)
  then show ?case by (rule delete_tree_shrinks_if)
qed

lemma delete_callback_shrinks: "shrinks (place_of dir) s (snd (snd (delete_callback n dir e s)))"
  using shrinks_mono [OF _ delete_file_shrinks [of "dir @ fwd_slash # e" s], of "place_of dir"]
    shrinks_mono [OF _ delete_recursively_shrinks [of "dir @ fwd_slash # e" s "n - 1"], of "place_of dir"]
  by (cases n; cases "delete_file (dir @ fwd_slash # e) s"; cases "delete_dir_recursively (n - 1) (dir @ fwd_slash # e) s")
    (simp_all add: delete_callback_def Let_def)

text \<open>What is left below a place.\<close>

definition no_files :: "place \<Rightarrow> file_system \<Rightarrow> bool" where
  "no_files l s \<longleftrightarrow> (\<forall>k d. fs_at s (l @ k) \<noteq> Some (Fs_file d))"

definition all_gone :: "place \<Rightarrow> file_system \<Rightarrow> bool" where
  "all_gone l s \<longleftrightarrow> (\<forall>k. fs_at s (l @ k) = None)"

definition none_denied :: "place \<Rightarrow> file_system \<Rightarrow> bool" where
  "none_denied l s \<longleftrightarrow> (\<forall>k. \<not> fs_denied s (l @ k))"

text \<open>What a successful removal promises of a place.\<close>

definition cleared :: "place \<Rightarrow> file_system \<Rightarrow> bool" where
  "cleared l s \<longleftrightarrow> no_files l s \<and> (none_denied l s \<longrightarrow> all_gone l s)"

lemma none_denied_shrinks: "shrinks d s s' \<Longrightarrow> none_denied l s' = none_denied l s"
  by (simp add: none_denied_def shrinks_def)

lemma cleared_shrinks:
  assumes "shrinks d s s'" "link_free d s" "cleared l s"
  shows "cleared l s'"
proof -
  have "no_files l s'"
    using assms(3) shrinks_some [OF assms(1,2)] unfolding cleared_def no_files_def by blast
  moreover have "all_gone l s \<Longrightarrow> all_gone l s'"
    using shrinks_none [OF assms(1,2)] unfolding all_gone_def by blast
  ultimately show ?thesis
    using assms(3) none_denied_shrinks [OF assms(1)] unfolding cleared_def by blast
qed

lemma gone_cleared: "fs_wf s \<Longrightarrow> l \<noteq> [] \<Longrightarrow> fs_at s l = None \<Longrightarrow> cleared l s"
proof -
  assume a: "fs_wf s" "l \<noteq> []" "fs_at s l = None"
  have "fs_at s (l @ k) = None" for k
    using wf_no_child [OF a(1), of l k] a(3) by (cases "k = []") simp_all
  then show ?thesis by (simp add: cleared_def no_files_def all_gone_def)
qed

lemma delete_file_cleared:
  assumes "delete_file p s = (True, s')" "fs_wf s" "place_of p \<noteq> []" "link_free (place_of p) s"
  shows "cleared (place_of p) s'"
proof -
  note c = link_free_clear [OF assms(4)]
  have s: "shrinks (place_of p) s s'" using delete_file_shrinks [of p s] assms(1) by simp
  then have w: "fs_wf s'" using assms(2,4) by (simp add: shrinks_def)
  have "fs_at s' (place_of p) = None"
    using assms(1,3) unlink_gone [OF c] file_exists_at [OF c]
    by (auto simp: delete_file_def split: if_splits option.splits)
  then show ?thesis using gone_cleared [OF w assms(3)] by blast
qed

lemma delete_file_ok:
  assumes "clear_way (place_of p) s" "place_of p \<noteq> []" "p \<noteq> []" "last p \<noteq> fwd_slash"
    "fs_at s (place_of p) \<noteq> Some Fs_dir" "\<not> fs_denied s (place_of p)"
  shows "fst (delete_file p s)"
proof (cases "fs_at s (place_of p)")
  case None
  then show ?thesis using assms(1,2) by (simp add: delete_file_def file_exists_at)
next
  case (Some n)
  have "n \<noteq> Fs_link t" for t using assms(1) Some unfolding clear_way_def by blast
  then obtain d where "n = Fs_file d" using Some assms(5) by (cases n) auto
  with Some assms show ?thesis
    by (simp add: delete_file_def is_directory_at posix_unlink_def is_plain_entry_def)
qed

text \<open>Names that a directory lists.\<close>

lemma listed_place:
  assumes "fs_wf s" "e \<in> set (fs_below s (place_of dir))"
  shows "place_of (dir @ fwd_slash # e) = place_of dir @ [e]" "last (dir @ fwd_slash # e) \<noteq> fwd_slash"
    "e \<noteq> ''.''" "e \<noteq> ''..''"
proof -
  have "fs_at s (place_of dir @ [e]) \<noteq> None" using assms fs_below_iff by blast
  note n = wf_listed_name [OF assms(1) this]
  then show "place_of (dir @ fwd_slash # e) = place_of dir @ [e]" "e \<noteq> ''.''" "e \<noteq> ''..''"
    by (simp_all add: place_of_name) (simp add: is_name_def)
  have e: "e \<noteq> []" using n(1) by (simp add: is_name_def)
  then have "last e \<noteq> fwd_slash" using n(3) last_in_set [OF e] by metis
  with e show "last (dir @ fwd_slash # e) \<noteq> fwd_slash" by simp
qed

lemma readdir_listed:
  "clear_way (place_of dir) s \<Longrightarrow> posix_readdir s dir = Some es \<Longrightarrow>
     set es = {''.'', ''..''} \<union> set (fs_below s (place_of dir)) \<and> fs_at s (place_of dir) = Some Fs_dir"
  by (auto simp: posix_readdir_def posix_stat_def split: if_splits option.splits fs_node.splits)

text \<open>After the walk: what is below the directory was an entry of it, and each entry is cleared.\<close>

lemma entries_cleared:
  assumes "fs_wf s" and "\<forall>e \<in> set (fs_below s l). cleared (l @ [e]) s'" and "shrinks l s s'" and "link_free l s"
  shows "\<And>e k d. fs_at s' (l @ e # k) \<noteq> Some (Fs_file d)"
    and "none_denied l s' \<Longrightarrow> fs_at s' (l @ e # k) = None"
proof -
  have below: "cleared (l @ [e]) s'" if "fs_at s' (l @ e # k) \<noteq> None" for e k
  proof -
    have "fs_at s (l @ e # k) \<noteq> None" 
      using that shrinks_none [OF assms(3,4), of "l @ e # k"] by (cases "fs_at s (l @ e # k)") simp_all
    then have "fs_at s (l @ [e]) \<noteq> None"
      using wf_above [OF assms(1), of "l @ [e]" k] by (cases "k = []") auto
    then have "e \<in> set (fs_below s l)" using fs_below_iff [OF assms(1), of e l] by blast
    then show ?thesis by (rule bspec [OF assms(2)])
  qed
  show "fs_at s' (l @ e # k) \<noteq> Some (Fs_file d)" for e k d
  proof
    assume a: "fs_at s' (l @ e # k) = Some (Fs_file d)"
    then have "no_files (l @ [e]) s'" using below [of e k] by (simp add: cleared_def)
    with a show False unfolding no_files_def by (metis append.assoc append_Cons append_Nil)
  qed
  show "fs_at s' (l @ e # k) = None" if n: "none_denied l s'"
  proof (rule ccontr)
    assume a: "fs_at s' (l @ e # k) \<noteq> None"
    have "none_denied (l @ [e]) s'" using n by (simp add: none_denied_def)
    with below [OF a] have "all_gone (l @ [e]) s'" by (simp add: cleared_def)
    with a show False unfolding all_gone_def by (metis append.assoc append_Cons append_Nil)
  qed
qed

lemma delete_dir_cleared:
  assumes "fs_wf s" "place_of dir \<noteq> []" and "\<And>e k d. fs_at s (place_of dir @ e # k) \<noteq> Some (Fs_file d)"
    and "\<And>e k. none_denied (place_of dir) s \<Longrightarrow> fs_at s (place_of dir @ e # k) = None"
    and "\<And>d. fs_at s (place_of dir) \<noteq> Some (Fs_file d)" and "link_free (place_of dir) s"
  shows "cleared (place_of dir) (snd (delete_dir dir s))"
proof -
  let ?l = "place_of dir"
  note c = link_free_clear [OF assms(6)] and sh = delete_dir_shrinks [of dir s]
  have "cleared ?l s" if "fs_at s ?l = None"
    using gone_cleared assms(1,2) that by blast
  moreover have "cleared ?l (snd (delete_dir dir s))" if d: "fs_at s ?l = Some Fs_dir"
  proof -
    have nf: "no_files ?l s"
      unfolding no_files_def using assms(3,5) by (metis append.right_neutral neq_Nil_conv)
    then have "no_files ?l (snd (delete_dir dir s))"
      using shrinks_some [OF sh assms(6)] unfolding no_files_def by blast
    moreover have "all_gone ?l (snd (delete_dir dir s))" if n: "none_denied ?l (snd (delete_dir dir s))"
    proof -
      have n: "none_denied ?l s" using n none_denied_shrinks [OF delete_dir_shrinks] by blast
      have "fs_below s ?l = []"
      proof (rule ccontr)
        assume "fs_below s ?l \<noteq> []"
        then obtain e where "e \<in> set (fs_below s ?l)" by (metis list.set_sel(1))
        then show False using assms(4) [OF n, of e "[]"] fs_below_iff [OF assms(1)] by blast
      qed
      moreover have "\<not> fs_denied s ?l" using n unfolding none_denied_def by (metis append.right_neutral)
      ultimately have "snd (delete_dir dir s) = fs_remove ?l s"
        using d assms(2) c by (auto simp: delete_dir_def is_directory_at posix_rmdir_def)
      then show ?thesis
        using assms(4) [OF n] assms(2) unfolding all_gone_def by (auto simp: fs_at_remove neq_Nil_conv)
    qed
    ultimately show ?thesis by (simp add: cleared_def)
  qed
  moreover have "fs_at s ?l \<noteq> Some (Fs_link t)" for t using c unfolding clear_way_def by blast
  ultimately show ?thesis
    using assms(5) cleared_shrinks [OF sh assms(6)] by (cases "fs_at s ?l"; metis fs_node.exhaust)
qed

lemma delete_recursively_cleared:
  "delete_dir_recursively n dir s = (True, s') \<Longrightarrow> fs_wf s \<Longrightarrow> place_of dir \<noteq> [] \<Longrightarrow>
     link_free (place_of dir) s \<Longrightarrow> cleared (place_of dir) s'"
proof (induction n arbitrary: dir s s' rule: less_induct)
  case (less n)
  let ?l = "place_of dir"
  note free = less.prems(4) and way = link_free_clear [OF less.prems(4)]
  obtain k s1 where f: "foreach_directory_entry (delete_callback n) dir s = (True, k, s1)"
    and s': "s' = snd (delete_dir dir s1)"
    using less.prems(1) by (auto simp: delete_dir_recursively_callback split: prod.splits bool.splits)
  obtain es where es: "posix_readdir s dir = Some es" and w: "each_entry (delete_callback n) dir es 0 s = (True, k, s1)"
    using f by (auto simp: foreach_directory_entry_def split: option.splits)
  let ?I = "\<lambda>s. fs_wf s \<and> link_free ?l s"
  have keeps: "?I s3" if "?I s2" "delete_callback n dir e s2 = (ok, j, s3)" for e s2 ok j s3
    using delete_callback_shrinks [of dir s2 n e] that shrinks_link_free [of ?l s2 s3 ?l]
    by (simp add: shrinks_def)
  have entry: "?I s3 \<and> cleared (?l @ [e]) s3"
    if e: "e \<in> set es" "e \<noteq> ''.''" "e \<noteq> ''..''" and i: "?I s2" and c: "delete_callback n dir e s2 = (True, j, s3)"
    for e s2 j s3
  proof -
    have b: "e \<in> set (fs_below s ?l)" using e readdir_listed [OF way es] by auto
    have p: "place_of (dir @ fwd_slash # e) = ?l @ [e]" by (rule listed_place(1) [OF less.prems(2) b])
    then have q: "place_of (dir @ fwd_slash # e) \<noteq> []" by simp
    have w3: "?I s3" by (rule keeps [OF i c])
    have i2: "fs_wf s2" and f2: "link_free (place_of (dir @ fwd_slash # e)) s2"
      using i link_free_below [of ?l s2 "?l @ [e]"] unfolding p by simp_all
    show ?thesis
    proof (cases "is_directory s2 (dir @ fwd_slash # e)")
      case True
      with c obtain m where m: "n = Suc m" "delete_dir_recursively m (dir @ fwd_slash # e) s2 = (True, s3)"
        by (cases n) (auto simp: delete_callback_def Let_def split: prod.splits)
      with less.IH [OF _ m(2) i2 q f2] w3 show ?thesis unfolding p by simp
    next
      case False
      with c have "delete_file (dir @ fwd_slash # e) s2 = (True, s3)"
        by (auto simp: delete_callback_def Let_def split: prod.splits)
      with delete_file_cleared [OF _ i2 q f2] w3 show ?thesis unfolding p by blast
    qed
  qed
  have stays: "cleared (?l @ [e]) s3" if "?I s2" "cleared (?l @ [e]) s2" "delete_callback n dir e' s2 = (True, j, s3)" for e e' s2 j s3
    using cleared_shrinks [OF delete_callback_shrinks [of dir s2 n e'] _ that(2)] that(1,3) by simp
  have start: "?I s" using less.prems(2) free by simp
  have all: "?I s1 \<and> (\<forall>e \<in> set es. e \<noteq> ''.'' \<longrightarrow> e \<noteq> ''..'' \<longrightarrow> cleared (?l @ [e]) s1) \<and> (\<forall>e. cleared (?l @ [e]) s \<longrightarrow> cleared (?l @ [e]) s1)"
    by (rule each_entry_all [where I = ?I and Q = "\<lambda>e s. cleared (?l @ [e]) s", OF w start]) (use entry stays in blast)+
  have sh: "shrinks ?l s s1"
    using foreach_shrinks [where f = "delete_callback n" and dir = dir and l = ?l and s = s] delete_callback_shrinks f by simp
  have "\<forall>e \<in> set (fs_below s ?l). cleared (?l @ [e]) s1"
  proof
    fix e assume e: "e \<in> set (fs_below s ?l)"
    then have "e \<in> set es" using readdir_listed [OF way es] by blast
    with all listed_place(3,4) [OF less.prems(2) e] show "cleared (?l @ [e]) s1" by blast
  qed
  note below = entries_cleared [OF less.prems(2) this sh free]
  have "fs_at s1 ?l \<noteq> Some (Fs_file d)" for d
    using readdir_listed [OF way es] shrinks_some [OF sh free, of ?l "Fs_file d"] by auto
  moreover have "fs_wf s1" "link_free ?l s1" using all by blast+
  ultimately show ?case
    unfolding s' using delete_dir_cleared [OF _ less.prems(3)] below by blast
qed

text \<open>When it succeeds: nothing is refused below the directory and it is not too deep.\<close>

lemma delete_recursively_ok:
  "fs_wf s \<Longrightarrow> link_free (place_of dir) s \<Longrightarrow> place_of dir \<noteq> [] \<Longrightarrow> fs_at s (place_of dir) = Some Fs_dir \<Longrightarrow> none_denied (place_of dir) s \<Longrightarrow>
     \<forall>k. fs_at s (place_of dir @ k) = Some Fs_dir \<longrightarrow> length k \<le> n \<Longrightarrow> fst (delete_dir_recursively n dir s)"
proof (induction n arbitrary: dir s rule: less_induct)
  case (less n)
  let ?l = "place_of dir"
  note free = less.prems(2) and way = link_free_clear [OF less.prems(2)]
  have "dir \<noteq> []" using less.prems(3) by auto
  then obtain es where es: "posix_readdir s dir = Some es"
    using less.prems(4) way by (simp add: posix_readdir_def posix_stat_def)
  have entry: "fst (delete_callback n dir e s2) \<and> shrinks ?l s (snd (snd (delete_callback n dir e s2)))"
    if e: "e \<in> set es" "e \<noteq> ''.''" "e \<noteq> ''..''" and i: "shrinks ?l s s2" for e s2
  proof -
    have b: "e \<in> set (fs_below s ?l)" using e readdir_listed [OF way es] by auto
    note p = listed_place(1,2) [OF less.prems(1) b]
    then have q: "place_of (dir @ fwd_slash # e) \<noteq> []" by simp
    have w2: "fs_wf s2" using shrinks_changes(2) [OF i free less.prems(1)] .
    have "link_free ?l s2" using shrinks_link_free [OF i free free] .
    then have f2: "link_free (?l @ [e]) s2" using link_free_below by (metis prefixI)
    then have c2: "clear_way (place_of (dir @ fwd_slash # e)) s2" using link_free_clear p(1) by simp
    have d2: "none_denied (?l @ [e]) s2"
      using i less.prems(5) by (simp add: none_denied_def shrinks_def)
    have "fst (delete_callback n dir e s2)"
    proof (cases "is_directory s2 (dir @ fwd_slash # e)")
      case True
      then have a: "fs_at s2 (?l @ [e]) = Some Fs_dir" using q p(1) c2 by (simp add: is_directory_at)
      then have "1 \<le> n" using less.prems(6) shrinks_some [OF i free a] by force
      then obtain m where m: "n = Suc m" by (cases n) auto
      have "\<forall>k. fs_at s2 (?l @ [e] @ k) = Some Fs_dir \<longrightarrow> length k \<le> m"
        using less.prems(6) shrinks_some [OF i free] m by force
      then have "fst (delete_dir_recursively m (dir @ fwd_slash # e) s2)"
        using less.IH [of m s2 "dir @ fwd_slash # e"] w2 q a d2 f2 p(1) m by simp
      with True m show ?thesis by (auto simp: delete_callback_def Let_def split: prod.splits)
    next
      case False
      then have a: "fs_at s2 (?l @ [e]) \<noteq> Some Fs_dir" using q p(1) c2 by (simp add: is_directory_at)
      have "\<not> fs_denied s2 (?l @ [e])" using d2 unfolding none_denied_def by (metis append.right_neutral)
      then have "fst (delete_file (dir @ fwd_slash # e) s2)"
        using delete_file_ok [OF c2 q _ p(2)] a p(1) by simp
      with False show ?thesis by (auto simp: delete_callback_def Let_def split: prod.splits)
    qed
    then show ?thesis using shrinks_trans [OF i delete_callback_shrinks] by blast
  qed
  have "fst (each_entry (delete_callback n) dir es 0 s)"
    by (rule each_entry_ok [where I = "shrinks ?l s"]) (use entry in auto)
  then show ?case
    using es by (auto simp: delete_dir_recursively_callback foreach_directory_entry_def split: prod.splits bool.splits)
qed

end
