(* ===== verification/Copy_Facts.thy ===== *)
theory Copy_Facts
  imports Tree_Facts
begin

text \<open>
  Facts about making directories and copying files: what was there stays, which directories a full
  path brings, and what a copy holds.
\<close>

subsection \<open>Copying a file\<close>

text \<open>
  What the output is given is a beginning of the input, and the whole input exactly when all of it can
  be read and is accepted.
\<close>

definition reaches :: "nat option \<Rightarrow> nat \<Rightarrow> bool" where
  "reaches k n \<longleftrightarrow> (case k of None \<Rightarrow> True | Some m \<Rightarrow> n \<le> m)"

lemma reaches_simps [simp]: "reaches None n" "reaches (Some m) n \<longleftrightarrow> n \<le> m"
  by (simp_all add: reaches_def)

lemma not_reaches: "(case k of None \<Rightarrow> False | Some m \<Rightarrow> m < n) \<longleftrightarrow> \<not> reaches k n"
  by (auto simp: reaches_def split: option.split)

lemma reaches_le: "reaches k n \<Longrightarrow> m \<le> n \<Longrightarrow> reaches k m"
  by (auto simp: reaches_def split: option.splits)

lemma copy_loop_result:
  "fst (copy_loop bad room input out) \<longleftrightarrow>
     reaches bad (length out + length input) \<and> reaches room (length out + length input)"
  "\<exists>j. snd (copy_loop bad room input out) = out @ take j input"
  "fst (copy_loop bad room input out) \<Longrightarrow> snd (copy_loop bad room input out) = out @ input"
proof (induction bad room input out rule: copy_loop.induct)
  case (1 bad room input out)
  let ?part = "take 1024 input"
  let ?upto = "length out + length ?part"
  note unf = copy_loop.simps [of bad room input out, unfolded Let_def not_reaches]
  have le: "?upto \<le> length out + length input" by simp
  consider "\<not> reaches bad ?upto" | "reaches bad ?upto" "\<not> reaches room ?upto"
    | "reaches bad ?upto" "reaches room ?upto" "length ?part < 1024"
    | "reaches bad ?upto" "reaches room ?upto" "\<not> length ?part < 1024" by blast
  then have "(fst (copy_loop bad room input out) \<longleftrightarrow>
     reaches bad (length out + length input) \<and> reaches room (length out + length input))
   \<and> (\<exists>j. snd (copy_loop bad room input out) = out @ take j input)
   \<and> (fst (copy_loop bad room input out) \<longrightarrow> snd (copy_loop bad room input out) = out @ input)"
  proof cases
    case 1
    then have "copy_loop bad room input out = (False, out)" by (simp only: unf) simp
    moreover have "\<not> reaches bad (length out + length input)" using 1 le reaches_le by blast
    ultimately show ?thesis by (auto intro: exI [of _ 0])
  next
    case 2
    then have "copy_loop bad room input out = (False, out @ ?part)" by (simp only: unf) simp
    moreover have "\<not> reaches room (length out + length input)" using 2 le reaches_le by blast
    ultimately show ?thesis by auto
  next
    case 3
    then have "copy_loop bad room input out = (True, out @ ?part)" by (simp only: unf) simp
    moreover have "?part = input" using 3(3) by simp
    ultimately show ?thesis using 3(1,2) by (auto intro: exI [of _ 1024])
  next
    case 4
    then have c: "copy_loop bad room input out = copy_loop bad room (drop 1024 input) (out @ ?part)" by (simp only: unf) simp
    have n: "\<not> (case bad of None \<Rightarrow> False | Some k \<Rightarrow> k < ?upto)" "\<not> (case room of None \<Rightarrow> False | Some k \<Rightarrow> k < ?upto)"
      using 4(1,2) by (simp_all only: not_reaches) simp_all
    note ih = "1.IH" [OF refl refl n 4(3)]
    have l: "length (out @ ?part) + length (drop 1024 input) = length out + length input" by simp
    obtain j where "snd (copy_loop bad room (drop 1024 input) (out @ ?part)) = (out @ ?part) @ take j (drop 1024 input)"
      using ih(2) by blast
    then have "snd (copy_loop bad room (drop 1024 input) (out @ ?part)) = out @ take (1024 + j) input"
      by (simp add: take_add)
    then show ?thesis using ih(1,3) unfolding c l by auto
  qed
  then show "fst (copy_loop bad room input out) \<longleftrightarrow>
     reaches bad (length out + length input) \<and> reaches room (length out + length input)"
    "\<exists>j. snd (copy_loop bad room input out) = out @ take j input"
    "fst (copy_loop bad room input out) \<Longrightarrow> snd (copy_loop bad room input out) = out @ input" by blast+
qed

lemma copy_loop_all: "copy_loop None None input out = (True, out @ input)"
  using copy_loop_result [of None None input out] by (simp add: prod_eq_iff)

lemma open_write_at: "posix_open_write s p = Some s1 \<Longrightarrow>
    \<exists>b. resolve s p = Some b \<and> s1 = fs_put b (Fs_file []) s \<and> b \<noteq> [] \<and> fs_at s b \<noteq> Some Fs_dir"
  by (auto simp: posix_open_write_def split: if_splits option.splits)

lemma stat_at: "posix_stat s p = Some n \<Longrightarrow> \<exists>a. resolve s p = Some a \<and> fs_at s a = Some n"
  by (auto simp: posix_stat_def bind_eq_Some_conv split: if_splits option.splits fs_node.splits)

lemma fs_put_put [simp]: "fs_put l n (fs_put l m s) = fs_put l n s"
  by (simp add: fs_put_def)

text \<open>A copy without links on the ways and without trouble with the data.\<close>

lemma copy_file_put:
  assumes "clear_way (place_of src) s" "clear_way (place_of dst) s" "place_of src \<noteq> place_of dst"
    and "posix_stat s src = Some (Fs_file d)" "posix_open_write s dst \<noteq> None"
    and "fs_unreadable s (place_of src) = None" "fs_room s (place_of dst) = None"
  shows "copy_file src dst s = (True, fs_put (place_of dst) (Fs_file d) s)"
proof -
  obtain s1 where w: "posix_open_write s dst = Some s1" using assms(5) by blast
  have s1: "s1 = fs_put (place_of dst) (Fs_file []) s" using open_write_at [OF w] assms(2) by auto
  have "fs_at s (place_of src) = Some (Fs_file d)" using stat_at [OF assms(4)] assms(1) by auto
  then have "bytes_at s1 (place_of src) = d" using assms(3) by (auto simp: bytes_at_def s1 fs_at_put)
  then show ?thesis using assms w by (simp add: copy_file_def copy_loop_all s1)
qed

subsection \<open>Copying a directory\<close>

lemma fold_bind_None [simp]: "fold (\<lambda>e r. Option.bind r (f e)) es None = None"
  by (induction es) simp_all

definition copy_entry :: "nat \<Rightarrow> string \<Rightarrow> string \<Rightarrow> string \<Rightarrow> file_system \<Rightarrow> file_system option" where
  "copy_entry n src dst e s =
     (if e = ''.'' \<or> e = ''..'' then Some s
      else if is_directory s (src @ e)
      then copy_dir n (src @ e @ [fwd_slash]) (dst @ e @ [fwd_slash]) (make_path (dst @ e @ [fwd_slash]) s)
      else if file_exists s (dst @ e) then Some s
      else Some (snd (copy_file (src @ e) (dst @ e) s)))"

lemma copy_dir_Suc:
  "copy_dir (Suc n) src dst s =
     (if src = dst \<or> \<not> file_exists s src then Some s
      else case posix_readdir (make_path dst s) src of
             None \<Rightarrow> Some (make_path dst s)
           | Some es \<Rightarrow> fold (\<lambda>e r. Option.bind r (copy_entry n src dst e)) es (Some (make_path dst s)))"
  by (simp add: copy_dir.simps copy_entry_def [abs_def] Let_def split: option.split)

section \<open>Making a path\<close>

text \<open>
  Making all directories of a path: which places the beginnings of a path stand for, and that the
  loop makes exactly them.
\<close>

text \<open>The directory part of a path, up to the last slash, and the name behind it.\<close>

definition dir_text :: "string \<Rightarrow> string" where
  "dir_text p = rev (dropWhile (\<lambda>c. c \<noteq> fwd_slash) (rev p))"

definition base_text :: "string \<Rightarrow> string" where
  "base_text p = rev (takeWhile (\<lambda>c. c \<noteq> fwd_slash) (rev p))"

lemma dir_base: "dir_text p @ base_text p = p"
  unfolding dir_text_def base_text_def by (metis rev_append rev_rev_ident takeWhile_dropWhile_id)

lemma base_plain: "fwd_slash \<notin> set (base_text p)"
  by (auto simp: base_text_def dest: set_takeWhileD)

lemma dir_text_shape: "dir_text p = [] \<or> (\<exists>a. dir_text p = a @ [fwd_slash])"
proof (cases "dropWhile (\<lambda>c. c \<noteq> fwd_slash) (rev p)")
  case (Cons c cs)
  then have "c = fwd_slash" using hd_dropWhile [of "\<lambda>c. c \<noteq> fwd_slash" "rev p"] by simp
  with Cons show ?thesis by (simp add: dir_text_def)
qed (simp add: dir_text_def)

lemma dir_text_snoc [simp]: "dir_text (q @ [c]) = (if c = fwd_slash then q @ [c] else dir_text q)"
  by (simp add: dir_text_def)

lemma place_of_dir_base: "place_of p = place_of (dir_text p) @ place_of (base_text p)"
proof -
  consider "dir_text p = []" | a where "dir_text p = a @ [fwd_slash]" using dir_text_shape by blast
  then show ?thesis
  proof cases
    case 1
    then show ?thesis using dir_base [of p] by simp
  next
    case (2 a)
    have "p = a @ fwd_slash # base_text p" using dir_base [of p] 2 by simp
    then have "place_of p = place_of a @ place_of (base_text p)" by (metis place_of_join)
    with 2 show ?thesis by simp
  qed
qed

lemma base_place: "place_of (base_text p) = [] \<or> (\<exists>e. place_of (base_text p) = [e] \<and> is_name e \<and> fwd_slash \<notin> set e)"
proof (cases "is_name (base_text p)")
  case True
  then show ?thesis using place_of_name base_plain by blast
next
  case False
  then show ?thesis using base_plain [of p] by (simp add: place_of_names get_lines_plain)
qed

subsection \<open>The loop\<close>

lemma sub_paths_snoc: "sub_paths (q @ [c]) = sub_paths q @ (if c = fwd_slash then [q @ [c]] else [])"
proof -
  have "filter (\<lambda>i. (q @ [c]) ! i = fwd_slash) [0..<length q] = filter (\<lambda>i. q ! i = fwd_slash) [0..<length q]"
    by (rule filter_cong) (auto simp: nth_append)
  then show ?thesis by (auto simp: sub_paths_def nth_append)
qed

lemma sub_paths_Nil [simp]: "sub_paths [] = []"
  by (simp add: sub_paths_def)

lemma full_path_loop_snoc:
  "full_path_loop n xs s = (True, s1) \<Longrightarrow> full_path_loop n (xs @ ys) s = full_path_loop (n - length xs) ys s1"
proof (induction xs arbitrary: n s)
  case (Cons x xs)
  let ?x = "if is_directory s x then (True, s) else create_dir x s"
  obtain ok s2 where x: "?x = (ok, s2)" by (cases ?x)
  have l: "full_path_loop n (x # zs) s = (case (ok, s2) of (False, s1) \<Rightarrow> (False, s1)
      | (True, s1) \<Rightarrow> if n \<le> 1 then (False, s1) else full_path_loop (n - 1) zs s1)" for zs
    by (simp only: full_path_loop.simps x)
  from Cons.prems have o: "ok" "\<not> n \<le> 1" "full_path_loop (n - 1) xs s2 = (True, s1)"
    unfolding l by (auto split: bool.splits if_splits)
  from Cons.IH [OF o(3)] o(1,2) show ?case by (simp only: append_Cons l) simp
qed simp

text \<open>What the system refuses and where data is lost.\<close>

definition faults :: "file_system \<Rightarrow> (place \<Rightarrow> bool) \<times> (place \<Rightarrow> nat option) \<times> (place \<Rightarrow> (nat \<times> nat) option)" where
  "faults s = (fs_denied s, fs_unreadable s, fs_room s)"

lemma faults_put [simp]: "faults (fs_put l n s) = faults s"
  by (simp add: faults_def)

lemma faults_eq: "faults s = faults t \<Longrightarrow> fs_denied s = fs_denied t \<and> fs_unreadable s = fs_unreadable t \<and> fs_room s = fs_room t"
  by (simp add: faults_def)

text \<open>All places on the way to \<open>l\<close> are directories afterwards, and nothing else has changed.\<close>

definition makes :: "place \<Rightarrow> file_system \<Rightarrow> file_system \<Rightarrow> bool" where
  "makes l s s' \<longleftrightarrow> (\<forall>k. fs_at s' k = (if prefix k l then Some Fs_dir else fs_at s k)) \<and> faults s' = faults s \<and> fs_wf s'"

text \<open>On the way to \<open>l\<close> there are only directories and places with nothing at them, and no refusal.\<close>

definition way_free :: "place \<Rightarrow> file_system \<Rightarrow> bool" where
  "way_free l s \<longleftrightarrow> ''..'' \<notin> set l \<and> (\<forall>k. prefix k l \<longrightarrow> \<not> fs_denied s k \<and> (fs_at s k = None \<or> fs_at s k = Some Fs_dir))"

lemma way_free_clear: "way_free l s \<Longrightarrow> clear_way l s"
  unfolding way_free_def clear_way_def by fastforce

lemma way_free_prefix: "way_free l s \<Longrightarrow> prefix k l \<Longrightarrow> way_free k s"
  unfolding way_free_def by (meson prefix_order.order_trans set_mono_prefix subsetD)

lemma makes_link_free: "makes l t u \<Longrightarrow> link_free k t \<Longrightarrow> link_free k u"
  by (auto simp: makes_def link_free_def)

lemma makes_clear: "makes l t u \<Longrightarrow> clear_way k t \<Longrightarrow> clear_way k u"
  by (auto simp: makes_def clear_way_def)

lemma makes_Nil: "fs_wf s \<Longrightarrow> makes [] s s"
  by (simp add: makes_def)

lemma makes_present:
  assumes "fs_wf s" "fs_at s l = Some Fs_dir"
  shows "makes l s s"
proof -
  have "fs_at s k = Some Fs_dir" if pk: "prefix k l" for k
  proof -
    obtain j where j: "l = k @ j" using pk unfolding prefix_def by blast
    then show ?thesis using wf_above [OF assms(1), of k j] assms(2) by (cases "j = []") simp_all
  qed
  with assms(1) show ?thesis by (simp add: makes_def)
qed

text \<open>One directory more.\<close>

lemma step_makes:
  assumes "makes l s s1" "place_of q = l @ m" "m = [] \<or> (\<exists>e. m = [e] \<and> is_name e \<and> fwd_slash \<notin> set e)"
    and "way_free (l @ m) s" "q \<noteq> []"
  obtains s2 where "(if is_directory s1 q then (True, s1) else create_dir q s1) = (True, s2)" "makes (l @ m) s s2"
proof -
  have w: "fs_wf s1" and f: "faults s1 = faults s" using assms(1) by (simp_all add: makes_def)
  note d = faults_eq [OF f]
  have way: "clear_way (place_of q) s1"
    using makes_clear [OF assms(1) way_free_clear [OF assms(4)]] assms(2) by simp
  have at: "fs_at s1 k = (if prefix k l then Some Fs_dir else fs_at s k)" for k using assms(1) by (simp add: makes_def)
  consider "m = []" | e where "m = [e]" "is_name e" "fwd_slash \<notin> set e" using assms(3) by blast
  then show thesis
  proof cases
    case 1
    then have "fs_at s1 (place_of q) \<noteq> None" using at [of l] assms(2) by simp
    then have "create_dir q s1 = (True, s1)" using assms(5) way by (auto simp: create_dir_def posix_mkdir_def)
    with 1 assms(1) show thesis by (intro that [of s1]) simp_all
  next
    case (2 e)
    then have n: "place_of q \<noteq> []" and b: "butlast (place_of q) = l" and t: "place_of q = l @ [e]" using assms(2) by simp_all
    have f: "\<not> fs_denied s (l @ [e])" "fs_at s (l @ [e]) = None \<or> fs_at s (l @ [e]) = Some Fs_dir" "''..'' \<noteq> e"
      using assms(4) 2(1) by (auto simp: way_free_def)
    have a: "fs_at s1 (l @ [e]) = fs_at s (l @ [e])" using at [of "l @ [e]"] by simp
    show thesis
    proof (cases "fs_at s (l @ [e])")
      case None
      have "create_dir q s1 = (True, fs_put (l @ [e]) Fs_dir s1)"
        using assms(5) f(1) None a at [of l] d way by (simp add: create_dir_def posix_mkdir_def t)
      moreover have "\<not> is_directory s1 q" using n a None way by (simp add: is_directory_at t)
      moreover have "fs_wf (fs_put (l @ [e]) Fs_dir s1)"
        using wf_put [OF w, of "l @ [e]" Fs_dir] at [of l] 2 f(3) by auto
      then have "makes (l @ m) s (fs_put (l @ [e]) Fs_dir s1)"
        using 2(1) at d by (auto simp: makes_def fs_at_put faults_def)
      ultimately show thesis by (intro that) simp_all
    next
      case (Some x)
      then have x: "x = Fs_dir" using f(2) by auto
      then have "is_directory s1 q" using n a Some way by (simp add: is_directory_at t)
      moreover have "makes (l @ m) s s1"
        using 2(1) at d w Some x by (auto simp: makes_def faults_def)
      ultimately show thesis by (intro that [of s1]) simp_all
    qed
  qed
qed

lemma full_path_loop_makes:
  assumes "fs_wf s" "way_free (place_of (dir_text p)) s" "length (sub_paths p) < n"
  shows "\<exists>s'. full_path_loop n (sub_paths p) s = (True, s') \<and> makes (place_of (dir_text p)) s s'"
  using assms(2,3)
proof (induction p rule: rev_induct)
  case Nil
  then show ?case using makes_Nil [OF assms(1)] by (simp add: dir_text_def)
next
  case (snoc c q)
  show ?case
  proof (cases "c = fwd_slash")
    case False
    with snoc show ?thesis by (simp add: sub_paths_snoc)
  next
    case True
    have pl: "place_of (q @ [fwd_slash]) = place_of (dir_text q) @ place_of (base_text q)"
      using place_of_join [of q "[]"] place_of_dir_base [of q] by simp
    have fr: "way_free (place_of (dir_text q) @ place_of (base_text q)) s"
      using snoc.prems(1) True pl by simp
    have "way_free (place_of (dir_text q)) s" by (rule way_free_prefix [OF fr]) simp
    moreover have len: "length (sub_paths q) + 1 < n" using snoc.prems(2) True by (simp add: sub_paths_snoc)
    ultimately obtain s1 where l: "full_path_loop n (sub_paths q) s = (True, s1)" and m: "makes (place_of (dir_text q)) s s1"
      using snoc.IH by auto
    obtain s2 where x: "(if is_directory s1 (q @ [fwd_slash]) then (True, s1) else create_dir (q @ [fwd_slash]) s1) = (True, s2)"
      and m2: "makes (place_of (dir_text q) @ place_of (base_text q)) s s2"
      by (rule step_makes [OF m pl base_place fr]) simp_all
    have "full_path_loop n (sub_paths (q @ [c])) s = full_path_loop (n - length (sub_paths q)) [q @ [fwd_slash]] s1"
      using full_path_loop_snoc [OF l, of "[q @ [fwd_slash]]"] True by (simp add: sub_paths_snoc)
    also have "\<dots> = (True, s2)"
      using len by (simp only: full_path_loop.simps x) simp
    finally show ?thesis using m2 True pl by simp
  qed
qed

text \<open>Paths that end in a slash are those of directories.\<close>

lemma make_path_makes:
  assumes "fs_wf s" "place_of d \<noteq> []" "way_free (place_of d) s" "length (sub_paths d) + 1 < 100"
  shows "makes (place_of d) s (make_path (d @ [fwd_slash]) s)"
proof (cases "file_exists s (d @ [fwd_slash])")
  case True
  have p: "place_of (d @ [fwd_slash]) = place_of d" using place_of_join [of d "[]"] by simp
  then have "fs_at s (place_of d) \<noteq> None"
    using True assms(2) file_exists_at [of "d @ [fwd_slash]" s] way_free_clear [OF assms(3)] by simp
  then have "fs_at s (place_of d) = Some Fs_dir" using assms(3) by (auto simp: way_free_def)
  with makes_present [OF assms(1)] True show ?thesis by (simp add: make_path_def)
next
  case False
  have p: "place_of (d @ [fwd_slash]) = place_of d" using place_of_join [of d "[]"] by simp
  show ?thesis
    using full_path_loop_makes [OF assms(1), of "d @ [fwd_slash]" 100] assms(3,4) False p
    by (auto simp: make_path_def create_full_path_def sub_paths_snoc)
qed

section \<open>Merging a directory\<close>

text \<open>
  Copying a directory merges its tree into the destination: what is there already stays, and
  everything else is as in the source.
\<close>

text \<open>What is at \<open>l\<close> when the places under those of \<open>bs\<close> have been copied from \<open>A\<close> to \<open>B\<close>.\<close>

definition merged_at :: "place \<Rightarrow> place \<Rightarrow> place set \<Rightarrow> file_system \<Rightarrow> place \<Rightarrow> fs_node option" where
  "merged_at A B bs s l =
     (case fs_at s l of
        Some x \<Rightarrow> Some x
      | None \<Rightarrow> if \<exists>b \<in> bs. prefix b l then fs_at s (A @ drop (length B) l) else None)"

definition merged :: "place \<Rightarrow> place \<Rightarrow> place set \<Rightarrow> file_system \<Rightarrow> file_system \<Rightarrow> bool" where
  "merged A B bs s s' \<longleftrightarrow> (\<forall>l. fs_at s' l = merged_at A B bs s l) \<and> faults s' = faults s \<and> fs_wf s'"

text \<open>
  The trees lie apart, there are no links in them or on the ways to them, where the source has a
  directory the destination has no file, and the source can be read and the destination written.
\<close>

definition mergeable :: "place \<Rightarrow> place \<Rightarrow> file_system \<Rightarrow> bool" where
  "mergeable A B s \<longleftrightarrow> fs_wf s \<and> A \<parallel> B \<and> ''..'' \<notin> set B \<and> (\<forall>k. prefix k B \<or> prefix B k \<longrightarrow> \<not> fs_denied s k)
     \<and> fs_at s B = Some Fs_dir \<and> (\<forall>k d. fs_at s (A @ k) = Some Fs_dir \<longrightarrow> fs_at s (B @ k) \<noteq> Some (Fs_file d))
     \<and> link_free A s \<and> link_free B s \<and> (\<forall>k. fs_unreadable s (A @ k) = None \<and> fs_room s (B @ k) = None)"

lemma merged_start: "fs_wf s \<Longrightarrow> merged A B {} s s"
  by (auto simp: merged_def merged_at_def split: option.split)

text \<open>The source does not change.\<close>

lemma parallel_entry: "A \<parallel> B \<Longrightarrow> \<not> prefix (A @ k) (B @ j)"
  using parallel_append [of A B k j] by (simp add: parallel_def)

lemma parallel_below:
  assumes "A \<parallel> B" "prefix B b"
  shows "\<not> prefix b (A @ k)"
proof -
  obtain j where "b = B @ j" using assms(2) unfolding prefix_def by blast
  then show ?thesis using parallel_append [OF assms(1), of k j] by (simp add: parallel_def)
qed

lemma merged_source:
  assumes "merged A B bs s t" "A \<parallel> B" "\<forall>b \<in> bs. prefix B b"
  shows "fs_at t (A @ k) = fs_at s (A @ k)"
  using assms parallel_below [OF assms(2)] by (auto simp: merged_def merged_at_def split: option.split)

lemma makes_source: "A \<parallel> B \<Longrightarrow> makes (B @ j) t u \<Longrightarrow> fs_at u (A @ [e] @ k) = fs_at t (A @ [e] @ k)"
  using parallel_entry [of A B "[e] @ k" j] by (simp add: makes_def)

lemma merged_links:
  assumes "mergeable A B s" "merged A B bs s t"
  shows "fs_at t l = Some (Fs_link x) \<Longrightarrow> fs_at s l = Some (Fs_link x)" "link_free A t" "link_free B t"
proof -
  have free: "link_free A s" "link_free B s" using assms(1) by (simp_all add: mergeable_def)
  have m: "fs_at t l = merged_at A B bs s l" for l using assms(2) by (simp add: merged_def)
  have l: "fs_at s l = Some (Fs_link x)" if "fs_at t l = Some (Fs_link x)" for l x
  proof (cases "fs_at s l")
    case None
    then have "fs_at s (A @ drop (length B) l) = Some (Fs_link x)"
      using that by (auto simp: m merged_at_def split: if_splits)
    then show ?thesis using free(1) by (simp add: link_free_def)
  qed (use that m in \<open>simp add: merged_at_def\<close>)
  then show "fs_at t l = Some (Fs_link x) \<Longrightarrow> fs_at s l = Some (Fs_link x)" by blast
  show "link_free A t" "link_free B t" using free l unfolding link_free_def by blast+
qed

lemma merged_mergeable:
  assumes "mergeable A B s" "merged A B bs s t" "\<forall>b \<in> bs. strict_prefix B b"
    and "fs_at s (A @ [e]) = Some Fs_dir" "makes (B @ [e]) t u"
  shows "mergeable (A @ [e]) (B @ [e]) u"
proof -
  have p: "A \<parallel> B" and w: "fs_wf u" and f: "faults u = faults s"
    using assms(1,2,5) by (simp_all add: mergeable_def merged_def makes_def)
  note d = faults_eq [OF f]
  have bs: "\<forall>b \<in> bs. prefix B b" using assms(3) by (simp add: strict_prefix_def)
  have u: "fs_at u k = (if prefix k (B @ [e]) then Some Fs_dir else fs_at t k)" for k
    using assms(5) by (simp add: makes_def)
  have "fs_at u (B @ [e] @ k) \<noteq> Some (Fs_file x)" if a: "fs_at u (A @ [e] @ k) = Some Fs_dir" for k x
  proof -
    have "\<not> prefix (A @ [e] @ k) (B @ [e])"
      by (rule parallel_entry [OF p])
    then have s: "fs_at s (A @ [e] @ k) = Some Fs_dir"
      using a u merged_source [OF assms(2) p bs, of "[e] @ k"] by simp
    then have n: "fs_at s (B @ [e] @ k) \<noteq> Some (Fs_file x)"
      using assms(1) unfolding mergeable_def by blast
    have "fs_at t (B @ [e] @ k) \<noteq> Some (Fs_file x)"
      using n s assms(2) by (auto simp: merged_def merged_at_def split: option.split if_splits)
    then show ?thesis using u by simp
  qed
  moreover have "''..'' \<noteq> e"
    using wf_listed_name(2) [of s A e] assms(1,4) by (auto simp: mergeable_def)
  moreover have "\<not> fs_denied u k" if "prefix k (B @ [e]) \<or> prefix (B @ [e]) k" for k
  proof -
    have "prefix k B \<or> prefix B k"
      using that by (auto dest: append_prefixD)
    then show ?thesis using assms(1) d by (auto simp: mergeable_def)
  qed
  moreover have "A @ [e] \<parallel> B @ [e]" by (rule parallel_append [OF p])
  moreover have "fs_at u (B @ [e]) = Some Fs_dir" by (simp add: u)
  moreover have "link_free (A @ [e]) u" "link_free (B @ [e]) u"
    using merged_links(2,3) [OF assms(1,2)] makes_link_free [OF assms(5)] link_free_below by (metis prefixI)+
  moreover have "fs_unreadable u (A @ e # k) = None" "fs_room u (B @ e # k) = None" for k
    using assms(1) d by (simp_all add: mergeable_def)
  ultimately show ?thesis
    using assms(1) w by (simp add: mergeable_def)
qed

text \<open>One entry more.\<close>

lemma merged_entry:
  assumes "fs_wf s" "A \<parallel> B" "merged A B bs s t" "\<forall>b \<in> bs. prefix B b" "faults t' = faults t" "fs_wf t'"
    and "\<And>l. fs_at t' l = (case fs_at t l of Some x \<Rightarrow> Some x
      | None \<Rightarrow> if prefix (B @ [e]) l then fs_at s (A @ drop (length B) l) else None)"
  shows "merged A B (insert (B @ [e]) bs) s t'"
  using assms(3,5-7) by (auto simp: merged_def merged_at_def split: option.split)

lemma merged_all:
  assumes "mergeable A B s" "merged A B bs s t" and "\<And>e. fs_at s (A @ [e]) \<noteq> None \<Longrightarrow> B @ [e] \<in> bs"
    and "\<forall>b \<in> bs. strict_prefix B b"
  shows "merged A B {B} s t"
proof -
  have w: "fs_wf s" and b: "fs_at s B = Some Fs_dir" using assms(1) by (simp_all add: mergeable_def)
  have "merged_at A B bs s l = merged_at A B {B} s l" for l
  proof (cases "fs_at s l = None \<and> prefix B l")
    case True
    then obtain k where k: "l = B @ k" by (auto elim: prefixE)
    with True b obtain e j where e: "k = e # j" by (cases k) auto
    have "\<exists>b \<in> bs. prefix b l" if "fs_at s (A @ e # j) \<noteq> None"
    proof -
      have "fs_at s (A @ [e]) \<noteq> None"
        using wf_above [OF w, of "A @ [e]" j] that by (cases "j = []") auto
      then have "B @ [e] \<in> bs" by (rule assms(3))
      then show ?thesis using k e by (intro bexI [of _ "B @ [e]"]) auto
    qed
    then show ?thesis using True k e by (cases "fs_at s (A @ e # j)") (auto simp: merged_at_def)
  next
    case False
    then show ?thesis
      using assms(4) by (auto simp: merged_at_def strict_prefix_def split: option.split dest: prefix_order.trans)
  qed
  with assms(2) show ?thesis by (simp add: merged_def)
qed

lemma copied_file:
  assumes "mergeable A B s" "merged A B bs s t" "\<forall>b \<in> bs. strict_prefix B b" "fs_at s (A @ [e]) = Some (Fs_file d)"
    and "place_of (src @ e) = A @ [e]" "place_of (dst @ e) = B @ [e]" "last (src @ e) \<noteq> fwd_slash" "last (dst @ e) \<noteq> fwd_slash"
  shows "\<exists>t'. (if file_exists t (dst @ e) then Some t else Some (snd (copy_file (src @ e) (dst @ e) t))) = Some t'
     \<and> merged A B (insert (B @ [e]) bs) s t'"
proof -
  have w: "fs_wf s" "fs_wf t" and p: "A \<parallel> B" and b: "fs_at s B = Some Fs_dir" and f: "faults t = faults s"
    using assms(1,2) by (simp_all add: mergeable_def merged_def)
  note dn = faults_eq [OF f]
  have bs: "\<forall>b \<in> bs. prefix B b" using assms(3) by (simp add: strict_prefix_def)
  have a: "fs_at t (A @ [e] @ k) = (if k = [] then Some (Fs_file d) else None)" for k
    using merged_source [OF assms(2) p bs, of "[e] @ k"] assms(4) wf_no_child [OF w(1), of "A @ [e]" k] by auto
  have as: "fs_at s (A @ e # k) = (if k = [] then Some (Fs_file d) else None)" for k
    using assms(4) wf_no_child [OF w(1), of "A @ [e]" k] by auto
  have bt: "fs_at t B = Some Fs_dir" using b assms(2) by (simp add: merged_def merged_at_def)
  note links = merged_links(2,3) [OF assms(1,2)]
  have way: "clear_way (A @ [e]) t" "clear_way (B @ [e]) t"
    using links link_free_below link_free_clear by (metis prefixI)+
  have ne: "src @ e \<noteq> []" "dst @ e \<noteq> []" using assms(5,6) by (metis append_is_Nil_conv not_Cons_self2 place_of_Nil self_append_conv2)+
  show ?thesis
  proof (cases "fs_at t (B @ [e])")
    case None
    let ?t = "fs_put (B @ [e]) (Fs_file d) t"
    have n: "is_name e" "e \<noteq> ''..''" "fwd_slash \<notin> set e" using wf_listed_name [OF w(1), of A e] assms(4) by simp_all
    have "\<not> fs_denied t (B @ [e])" using assms(1) dn by (simp add: mergeable_def)
    then have "posix_open_write t (dst @ e) \<noteq> None"
      using None bt assms(6,8) ne way by (simp add: posix_open_write_def)
    moreover have "posix_stat t (src @ e) = Some (Fs_file d)"
      using a [of "[]"] assms(5,7) ne way by (simp add: posix_stat_def)
    moreover have "A @ [e] \<noteq> B @ [e]" using p by auto
    moreover have "fs_unreadable t (A @ [e]) = None" "fs_room t (B @ [e]) = None"
      using assms(1) dn by (simp_all add: mergeable_def)
    ultimately have c: "snd (copy_file (src @ e) (dst @ e) t) = ?t"
      using assms(5,6) way copy_file_put [of "src @ e" t "dst @ e" d] by simp
    have w': "fs_wf ?t" using wf_put [OF w(2), of "B @ [e]" "Fs_file d"] bt n None by simp
    have "fs_at ?t l = (case fs_at t l of Some x \<Rightarrow> Some x
      | None \<Rightarrow> if prefix (B @ [e]) l then fs_at s (A @ drop (length B) l) else None)" for l
      using None as by (auto simp: fs_at_put split: option.split elim!: prefixE)
    from merged_entry [OF w(1) p assms(2) bs _ w' this] have "merged A B (insert (B @ [e]) bs) s ?t" by simp
    moreover have "\<not> file_exists t (dst @ e)" using None assms(6) way by (simp add: file_exists_at)
    ultimately show ?thesis using c by simp
  next
    case (Some x)
    have "fs_at t l = (case fs_at t l of Some x \<Rightarrow> Some x
      | None \<Rightarrow> if prefix (B @ [e]) l then fs_at s (A @ drop (length B) l) else None)" for l
      using Some as by (auto split: option.split elim!: prefixE)
    from merged_entry [OF w(1) p assms(2) bs refl w(2) this] have "merged A B (insert (B @ [e]) bs) s t" .
    moreover have "file_exists t (dst @ e)" using Some assms(6) way by (simp add: file_exists_at)
    ultimately show ?thesis by simp
  qed
qed

lemma merged_way:
  assumes "mergeable A B s" "merged A B bs s t"
  shows "prefix k B \<Longrightarrow> fs_at t k = Some Fs_dir"
    and "fs_at s (A @ [e]) = Some Fs_dir \<Longrightarrow> fs_at t (B @ [e]) = None \<or> fs_at t (B @ [e]) = Some Fs_dir"
proof -
  have w: "fs_wf t" and b: "fs_at s B = Some Fs_dir" using assms by (simp_all add: mergeable_def merged_def)
  have bt: "fs_at t B = Some Fs_dir" using b assms(2) by (simp add: merged_def merged_at_def)
  show "prefix k B \<Longrightarrow> fs_at t k = Some Fs_dir"
    using makes_present [OF w bt] unfolding makes_def by metis
  have "fs_at t (B @ [e]) \<noteq> Some (Fs_file x)" if "fs_at s (A @ [e]) = Some Fs_dir" for x
    using that assms by (auto simp: mergeable_def merged_def merged_at_def split: option.split)
  moreover have "fs_at t (B @ [e]) \<noteq> Some (Fs_link x)" for x
    using merged_links(3) [OF assms] by (simp add: link_free_def)
  ultimately show "fs_at s (A @ [e]) = Some Fs_dir \<Longrightarrow> fs_at t (B @ [e]) = None \<or> fs_at t (B @ [e]) = Some Fs_dir"
    by (metis fs_node.exhaust option.exhaust)
qed

lemma merged_way_free:
  assumes "mergeable A B s" "merged A B bs s t" "fs_at s (A @ [e]) = Some Fs_dir"
  shows "way_free (B @ [e]) t"
proof -
  have f: "faults t = faults s" and w: "fs_wf s" using assms(1,2) by (simp_all add: mergeable_def merged_def)
  note d = faults_eq [OF f]
  have "e \<noteq> ''..''" using wf_listed_name(2) [OF w, of A e] assms(3) by simp
  moreover have "\<not> fs_denied t k" if "prefix k (B @ [e])" for k
    using that assms(1) d by (auto simp: mergeable_def)
  moreover have "fs_at t k = None \<or> fs_at t k = Some Fs_dir" if "prefix k (B @ [e])" for k
    using that merged_way(1) [OF assms(1,2), of k] merged_way(2) [OF assms] by auto
  ultimately show ?thesis using assms(1) by (auto simp: way_free_def mergeable_def)
qed

lemma copied_directory:
  assumes "mergeable A B s" "merged A B bs s t" "\<forall>b \<in> bs. strict_prefix B b" "fs_at s (A @ [e]) = Some Fs_dir"
    and "makes (B @ [e]) t u" "merged (A @ [e]) (B @ [e]) {B @ [e]} u v"
  shows "merged A B (insert (B @ [e]) bs) s v"
proof -
  have w: "fs_wf s" "fs_wf t" and p: "A \<parallel> B" and b: "fs_at s B = Some Fs_dir" and d: "faults v = faults t" "fs_wf v"
    using assms(1,2,5,6) by (simp_all add: mergeable_def merged_def makes_def)
  have bs: "\<forall>b \<in> bs. prefix B b" using assms(3) by (simp add: strict_prefix_def)
  have u: "fs_at u k = (if prefix k (B @ [e]) then Some Fs_dir else fs_at t k)" for k
    using assms(5) by (simp add: makes_def)
  have pb: "fs_at t k = Some Fs_dir" if "prefix k B" for k
    using merged_way(1) [OF assms(1,2) that] .
  have xb: "fs_at t (B @ [e]) = None \<or> fs_at t (B @ [e]) = Some Fs_dir"
    using merged_way(2) [OF assms(1,2,4)] .
  have ub: "fs_at u l = (case fs_at t l of Some x \<Rightarrow> Some x | None \<Rightarrow> if l = B @ [e] then Some Fs_dir else None)" for l
    using xb pb [of l] by (cases "fs_at t l"; cases "the (fs_at t l)") (auto simp: u)
  have "\<not> prefix (A @ [e] @ k) (B @ [e])" for k
    by (rule parallel_entry [OF p])
  then have ua: "fs_at u (A @ [e] @ k) = fs_at s (A @ [e] @ k)" for k
    using u merged_source [OF assms(2) p bs, of "[e] @ k"] by simp
  have "fs_at v l = (case fs_at t l of Some x \<Rightarrow> Some x
      | None \<Rightarrow> if prefix (B @ [e]) l then fs_at s (A @ drop (length B) l) else None)" for l
  proof (cases "prefix (B @ [e]) l")
    case True
    then obtain k where k: "l = B @ [e] @ k" unfolding prefix_def by auto
    have "fs_at v l = (case fs_at u l of Some x \<Rightarrow> Some x | None \<Rightarrow> fs_at u (A @ [e] @ k))"
      using assms(6) k by (simp add: merged_def merged_at_def split: option.split)
    then show ?thesis
      using ua [of k] assms(4) k by (cases "k = []") (auto simp: ub split: option.split)
  next
    case False
    then have "fs_at v l = fs_at u l" using assms(6) by (simp add: merged_def merged_at_def split: option.split)
    then show ?thesis using False by (auto simp: ub split: option.split)
  qed
  from merged_entry [OF w(1) p assms(2) bs d this] show ?thesis .
qed

subsection \<open>The whole directory\<close>

lemma sub_paths_name: "fwd_slash \<notin> set e \<Longrightarrow> sub_paths (d @ e) = sub_paths d"
proof (induction e rule: rev_induct)
  case (snoc c e)
  then show ?case using sub_paths_snoc [of "d @ e" c] by auto
qed simp

lemma fold_merges:
  assumes "\<And>e t bs. e \<in> set es \<Longrightarrow> merged A B bs s t \<Longrightarrow> \<forall>b \<in> bs. strict_prefix B b \<Longrightarrow>
      \<exists>t'. f e t = Some t' \<and> merged A B (bs \<union> new e) s t' \<and> (\<forall>b \<in> new e. strict_prefix B b)"
    and "merged A B bs s t" "\<forall>b \<in> bs. strict_prefix B b"
  shows "\<exists>t'. fold (\<lambda>e r. Option.bind r (f e)) es (Some t) = Some t' \<and> merged A B (bs \<union> (\<Union>e \<in> set es. new e)) s t'
    \<and> (\<forall>b \<in> bs \<union> (\<Union>e \<in> set es. new e). strict_prefix B b)"
  using assms
proof (induction es arbitrary: bs t)
  case (Cons e es)
  obtain t1 where t1: "f e t = Some t1" "merged A B (bs \<union> new e) s t1" "\<forall>b \<in> bs \<union> new e. strict_prefix B b"
    using Cons.prems(1) [of e bs t] Cons.prems(2,3) by auto
  have "\<exists>t'. fold (\<lambda>e r. Option.bind r (f e)) es (Some t1) = Some t' \<and> merged A B (bs \<union> new e \<union> (\<Union>e \<in> set es. new e)) s t'
    \<and> (\<forall>b \<in> bs \<union> new e \<union> (\<Union>e \<in> set es. new e). strict_prefix B b)"
    using Cons.IH [OF _ t1(2,3)] Cons.prems(1) by simp
  with t1(1) show ?case by (simp add: Un_assoc)
qed simp

lemma copy_dir_merges:
  "mergeable (place_of src) (place_of dst) s \<Longrightarrow> src = a @ [fwd_slash] \<Longrightarrow> dst = b @ [fwd_slash] \<Longrightarrow>
     fs_at s (place_of src) = Some Fs_dir \<Longrightarrow> \<forall>k. fs_at s (place_of src @ k) = Some Fs_dir \<longrightarrow> length k < n \<Longrightarrow>
     length (sub_paths dst) + n < 101 \<Longrightarrow>
     \<exists>s'. copy_dir n src dst s = Some s' \<and> merged (place_of src) (place_of dst) {place_of dst} s s'"
proof (induction n arbitrary: src dst a b s)
  case 0
  then have "length ([] :: place) < 0" by (metis append.right_neutral)
  then show ?case by simp
next
  case (Suc n)
  let ?A = "place_of src" and ?B = "place_of dst"
  have w: "fs_wf s" and p: "?A \<parallel> ?B" and bd: "fs_at s ?B = Some Fs_dir" using Suc.prems(1) by (simp_all add: mergeable_def)
  have ne: "?A \<noteq> []" "?B \<noteq> []" "src \<noteq> dst" using p by auto
  have way: "clear_way ?A s" "clear_way ?B s"
    using Suc.prems(1) link_free_clear by (simp_all add: mergeable_def)
  have mk: "make_path dst s = s" using ne(2) bd way by (simp add: make_path_def file_exists_at)
  have ex: "file_exists s src" using ne(1) Suc.prems(4) way by (simp add: file_exists_at)
  have rd: "posix_readdir s src = Some (''.'' # ''..'' # fs_below s ?A)"
    using Suc.prems(2,4) way by (simp add: posix_readdir_def posix_stat_def)
  let ?new = "\<lambda>e. if e = ''.'' \<or> e = ''..'' then {} else {?B @ [e]}"
  have entry: "\<exists>t'. copy_entry n src dst e t = Some t' \<and> merged ?A ?B (bs \<union> ?new e) s t' \<and> (\<forall>b \<in> ?new e. strict_prefix ?B b)"
    if e: "e \<in> set (''.'' # ''..'' # fs_below s ?A)" and m: "merged ?A ?B bs s t" and st: "\<forall>b \<in> bs. strict_prefix ?B b"
    for e t bs
  proof (cases "e = ''.'' \<or> e = ''..''")
    case True
    then show ?thesis using m by (auto simp: copy_entry_def)
  next
    case False
    have l: "fs_at s (?A @ [e]) \<noteq> None" using e False fs_below_iff [OF w] by auto
    have pa: "place_of a = ?A" "place_of b = ?B" using Suc.prems(2,3) place_of_join [of a "[]"] place_of_join [of b "[]"] by simp_all
    have bl: "e \<in> set (fs_below s (place_of a))" using e False pa by auto
    have se: "src @ e = a @ fwd_slash # e" "dst @ e = b @ fwd_slash # e" using Suc.prems(2,3) by simp_all
    have n: "is_name e" "fwd_slash \<notin> set e" using wf_listed_name [OF w l] by simp_all
    have pe: "place_of (src @ e) = ?A @ [e]" "last (src @ e) \<noteq> fwd_slash" "place_of (dst @ e) = ?B @ [e]" "last (dst @ e) \<noteq> fwd_slash"
      using listed_place(1,2) [OF w bl] pa place_of_name [OF n] unfolding se by simp_all
    have bs: "\<forall>b \<in> bs. prefix ?B b" using st by (simp add: strict_prefix_def)
    have same: "fs_at t (?A @ [e]) = fs_at s (?A @ [e])" using merged_source [OF m p bs] .
    have dir: "is_directory t (src @ e) \<longleftrightarrow> fs_at s (?A @ [e]) = Some Fs_dir"
      using pe(1) same link_free_clear [OF link_free_below [OF merged_links(2) [OF Suc.prems(1) m], of "?A @ [e]"]]
      by (simp add: is_directory_at)
    show ?thesis
    proof (cases "fs_at s (?A @ [e]) = Some Fs_dir")
      case True
      let ?u = "make_path (dst @ e @ [fwd_slash]) t"
      have n1: "1 \<le> n" using Suc.prems(5) True by force
      have sl: "length (sub_paths (dst @ e)) = length (sub_paths dst)" using sub_paths_name [OF n(2)] by simp
      have mkd: "makes (?B @ [e]) t ?u"
        using make_path_makes [of t "dst @ e"] merged_way_free [OF Suc.prems(1) m True] m pe(3) sl n1 Suc.prems(6)
        by (simp add: merged_def)
      have um: "mergeable (?A @ [e]) (?B @ [e]) ?u" by (rule merged_mergeable [OF Suc.prems(1) m st True mkd])
      have pl: "place_of (src @ e @ [fwd_slash]) = ?A @ [e]" "place_of (dst @ e @ [fwd_slash]) = ?B @ [e]"
        using place_of_join [of "src @ e" "[]"] place_of_join [of "dst @ e" "[]"] pe by simp_all
      have ua: "fs_at ?u (?A @ [e] @ k) = fs_at s (?A @ [e] @ k)" for k
        using makes_source [OF p mkd] merged_source [OF m p bs, of "[e] @ k"] by simp
      have "\<exists>v. copy_dir n (src @ e @ [fwd_slash]) (dst @ e @ [fwd_slash]) ?u = Some v
        \<and> merged (?A @ [e]) (?B @ [e]) {?B @ [e]} ?u v"
      proof (rule Suc.IH [of "src @ e @ [fwd_slash]" "dst @ e @ [fwd_slash]" ?u "src @ e" "dst @ e", unfolded pl])
        show "mergeable (?A @ [e]) (?B @ [e]) ?u" by (rule um)
        show "fs_at ?u (?A @ [e]) = Some Fs_dir" using ua [of "[]"] True by simp
        show "\<forall>k. fs_at ?u ((?A @ [e]) @ k) = Some Fs_dir \<longrightarrow> length k < n"
        proof (intro allI impI)
          fix k assume "fs_at ?u ((?A @ [e]) @ k) = Some Fs_dir"
          then have "fs_at s (?A @ [e] @ k) = Some Fs_dir" using ua [of k] by simp
          then have "length ([e] @ k) < Suc n" using Suc.prems(5) by blast
          then show "length k < n" by simp
        qed
        show "length (sub_paths (dst @ e @ [fwd_slash])) + n < 101"
          using Suc.prems(6) sl sub_paths_snoc [of "dst @ e" fwd_slash] by simp
      qed simp_all
      then obtain v where v: "copy_dir n (src @ e @ [fwd_slash]) (dst @ e @ [fwd_slash]) ?u = Some v"
        "merged (?A @ [e]) (?B @ [e]) {?B @ [e]} ?u v" by blast
      with copied_directory [OF Suc.prems(1) m st True mkd v(2)] False dir True show ?thesis
        by (simp add: copy_entry_def strict_prefix_def)
    next
      case f: False
      moreover have "fs_at s (?A @ [e]) \<noteq> Some (Fs_link x)" for x
        using Suc.prems(1) by (simp add: mergeable_def link_free_def)
      ultimately obtain d where d: "fs_at s (?A @ [e]) = Some (Fs_file d)" using l by (metis fs_node.exhaust not_None_eq)
      with copied_file [OF Suc.prems(1) m st d pe(1,3,2,4)] False dir show ?thesis
        by (auto simp: copy_entry_def strict_prefix_def)
    qed
  qed
  have "\<exists>t'. fold (\<lambda>e r. Option.bind r (copy_entry n src dst e)) (''.'' # ''..'' # fs_below s ?A) (Some s) = Some t'
     \<and> merged ?A ?B ({} \<union> (\<Union>e \<in> set (''.'' # ''..'' # fs_below s ?A). ?new e)) s t'
     \<and> (\<forall>b \<in> {} \<union> (\<Union>e \<in> set (''.'' # ''..'' # fs_below s ?A). ?new e). strict_prefix ?B b)"
    by (rule fold_merges [OF entry merged_start [OF w]]) simp_all
  then obtain t' where f: "fold (\<lambda>e r. Option.bind r (copy_entry n src dst e)) (''.'' # ''..'' # fs_below s ?A) (Some s) = Some t'"
    and m: "merged ?A ?B (\<Union>e \<in> set (''.'' # ''..'' # fs_below s ?A). ?new e) s t'"
    and st: "\<forall>b \<in> (\<Union>e \<in> set (''.'' # ''..'' # fs_below s ?A). ?new e). strict_prefix ?B b" by auto
  have "merged ?A ?B {?B} s t'"
  proof (rule merged_all [OF Suc.prems(1) m _ st])
    fix e assume l: "fs_at s (?A @ [e]) \<noteq> None"
    have "e \<in> set (fs_below s ?A)" "e \<noteq> ''.''" "e \<noteq> ''..''"
      using l fs_below_iff [OF w] wf_listed_name [OF w l] by (auto simp: is_name_def)
    then show "?B @ [e] \<in> (\<Union>e \<in> set (''.'' # ''..'' # fs_below s ?A). ?new e)" by auto
  qed
  then show ?case using f by (simp add: copy_dir_Suc ne(3) ex mk rd)
qed

end
