(* ===== verification/Tree_Properties.thy ===== *)
theory Tree_Properties
  imports Copy_Facts
begin

text \<open>
  Properties of the operations on files and directories: removing a tree, making a path, copying a
  file and copying a directory.
\<close>

subsection \<open>A small tree\<close>

definition sample_tree :: file_system where
  "sample_tree = \<lparr>fs_nodes = [([''a''], Fs_dir), ([''a'', ''f''], Fs_file [1, 2]), ([''a'', ''d''], Fs_dir),
     ([''a'', ''d'', ''g''], Fs_file [3]), ([''b''], Fs_dir), ([''b'', ''f''], Fs_file [9])], fs_denied = (\<lambda>_. False),
     fs_unreadable = (\<lambda>_. None), fs_room = (\<lambda>_. None)\<rparr>"

lemma sample_wf: "fs_wf sample_tree"
  by (simp add: fs_wf_def sample_tree_def fs_at_def is_name_def)

lemma sample_at: "fs_at sample_tree l = (if l = [] then Some Fs_dir else map_of
    [([''a''], Fs_dir), ([''a'', ''f''], Fs_file [1, 2]), ([''a'', ''d''], Fs_dir),
     ([''a'', ''d'', ''g''], Fs_file [3]), ([''b''], Fs_dir), ([''b'', ''f''], Fs_file [9])] l)"
  by (simp add: fs_at_def sample_tree_def)

lemma sample_free: "\<not> fs_denied sample_tree l" "fs_unreadable sample_tree l = None" "fs_room sample_tree l = None"
  by (simp_all add: sample_tree_def)

lemma sample_link_free: "link_free l sample_tree" "clear_way l sample_tree"
  using link_free_clear [of l sample_tree] by (auto simp: link_free_def clear_way_def sample_at split: if_splits)

lemma sample_places: "place_of ''/a'' = [''a'']" "place_of ''/a/'' = [''a'']" "place_of ''/b/'' = [''b'']"
  "place_of ''/a/f'' = [''a'', ''f'']" "place_of ''/b/x/'' = [''b'', ''x'']"
  by (simp_all add: place_of_def)

subsection \<open>Removing a tree\<close>

text \<open>
  C17. Removing a tree.  Without symbolic links on the way to the directory or below it, removing it
  with everything in it changes nothing outside of it, and takes things away only.  When it reports
  success no file is left below the directory; if the system refuses no change there, nothing at all
  is left.  And it does report success if the system refuses nothing and the directories are not nested
  more deeply than the given bound.
\<close>

theorem tree_removed:
  assumes "fs_wf s" and "place_of dir \<noteq> []" and "link_free (place_of dir) s"
  shows "case delete_dir_recursively n dir s of (ok, s') \<Rightarrow>
    (\<forall>l. fs_at s' l = fs_at s l \<or> prefix (place_of dir) l \<and> fs_at s' l = None)
    \<and> (ok \<longrightarrow> (\<forall>k d. fs_at s' (place_of dir @ k) \<noteq> Some (Fs_file d)))
    \<and> (none_denied (place_of dir) s \<longrightarrow>
        (ok \<longrightarrow> (\<forall>k. fs_at s' (place_of dir @ k) = None))
        \<and> (fs_at s (place_of dir) = Some Fs_dir \<and> (\<forall>k. fs_at s (place_of dir @ k) = Some Fs_dir \<longrightarrow> length k \<le> n) \<longrightarrow> ok))"
proof -
  obtain ok s' where d: "delete_dir_recursively n dir s = (ok, s')" by (cases "delete_dir_recursively n dir s")
  have s: "shrinks (place_of dir) s s'" using delete_recursively_shrinks [of dir s n] d by simp
  have c: "cleared (place_of dir) s'" if ok
    using delete_recursively_cleared [of n dir s s'] d assms that by simp
  have "none_denied (place_of dir) s' = none_denied (place_of dir) s" by (rule none_denied_shrinks [OF s])
  with c have g: "\<forall>k. fs_at s' (place_of dir @ k) = None" if ok "none_denied (place_of dir) s"
    using that by (simp add: cleared_def all_gone_def)
  have o: ok if "none_denied (place_of dir) s" "fs_at s (place_of dir) = Some Fs_dir"
    "\<forall>k. fs_at s (place_of dir @ k) = Some Fs_dir \<longrightarrow> length k \<le> n"
    using delete_recursively_ok [OF assms(1,3,2) that(2,1,3)] d by simp
  show ?thesis
    unfolding d using shrinks_changes(1) [OF s assms(3)] c g o by (auto simp: cleared_def no_files_def)
qed

lemma tree_removed_witness:
  "fst (delete_dir_recursively 1 ''/a'' sample_tree)
   \<and> fs_at (snd (delete_dir_recursively 1 ''/a'' sample_tree)) [''a'', ''d'', ''g''] = None
   \<and> fs_at (snd (delete_dir_recursively 1 ''/a'' sample_tree)) [''b'', ''f''] = Some (Fs_file [9])"
proof -
  obtain ok s' where d: "delete_dir_recursively 1 ''/a'' sample_tree = (ok, s')"
    by (cases "delete_dir_recursively 1 ''/a'' sample_tree")
  have "place_of ''/a'' \<noteq> []" by (simp add: sample_places)
  note t = tree_removed [OF sample_wf this sample_link_free(1), of 1, unfolded d sample_places prod.case]
  have "none_denied [''a''] sample_tree" by (simp add: none_denied_def sample_free)
  moreover have "fs_at sample_tree [''a''] = Some Fs_dir" by (simp add: sample_at)
  moreover have "\<forall>k. fs_at sample_tree ([''a''] @ k) = Some Fs_dir \<longrightarrow> length k \<le> 1"
    by (auto simp: sample_at split: if_splits)
  ultimately have "ok" and g: "\<And>k. fs_at s' ([''a''] @ k) = None" using t by blast+
  moreover have "fs_at s' [''a'', ''d'', ''g''] = None" using g [of "[''d'', ''g'']"] by simp
  moreover have "fs_at s' [''b'', ''f''] = fs_at sample_tree [''b'', ''f'']" using t by (auto simp: prefix_def)
  ultimately show ?thesis unfolding d by (simp add: sample_at)
qed

subsection \<open>A linked directory\<close>

definition link_at :: "file_system \<Rightarrow> place \<Rightarrow> string option" where
  "link_at s l = (case fs_at s l of Some (Fs_link t) \<Rightarrow> Some t | _ \<Rightarrow> None)"

lemma link_at_iff: "link_at s l = Some t \<longleftrightarrow> fs_at s l = Some (Fs_link t)"
  by (auto simp: link_at_def split: option.splits fs_node.splits)

lemma no_link:
  "link_at s l = None \<Longrightarrow> fs_at s l = None \<or> (\<exists>d. fs_at s l = Some (Fs_file d)) \<or> fs_at s l = Some Fs_dir"
  by (auto simp: link_at_def split: option.splits fs_node.splits)

lemma follow_Cons:
  "follow_links s n f here (x # rest) =
     (case link_at s (here @ [x]) of
        None \<Rightarrow> follow_links s n f (here @ [x]) rest
      | Some t \<Rightarrow> if rest = [] \<and> \<not> f then Some (here @ [x])
          else (case n of 0 \<Rightarrow> None
                | Suc m \<Rightarrow> follow_links s m f (if take 1 t = ''/'' then [] else here) (place_of t @ rest)))"
  by (cases "fs_at s (here @ [x])"; cases "the (fs_at s (here @ [x]))") (auto simp: link_at_def)

lemma follow_entry:
  "follow_links s n True here xs = Some l \<Longrightarrow> link_at s (l @ [x]) = None \<Longrightarrow>
     follow_links s n f here (xs @ [x]) = Some (l @ [x])"
proof (induction s n True here xs rule: follow_links.induct)
  case (2 s n here y rest)
  show ?case
  proof (cases "link_at s (here @ [y])")
    case None
    then show ?thesis
      using no_link [OF None] 2 by (auto simp: follow_Cons simp del: follow_links.simps(2))
  next
    case (Some t)
    moreover have "fs_at s (here @ [y]) = Some (Fs_link t)" using Some link_at_iff by blast
    ultimately show ?thesis
      using 2 by (cases n) (simp_all add: follow_Cons del: follow_links.simps(2))
  qed
qed (simp add: follow_Cons del: follow_links.simps(2))

lemma follow_links_cong:
  "link_at s = link_at s' \<Longrightarrow> follow_links s n f here xs = follow_links s' n f here xs"
proof (induction s' n f here xs rule: follow_links.induct)
  case (2 s' n f here x rest)
  show ?case
  proof (cases "link_at s' (here @ [x])")
    case None
    then show ?thesis
      using no_link [OF None] 2 by (auto simp: follow_Cons simp del: follow_links.simps(2))
  next
    case (Some t)
    moreover have "fs_at s' (here @ [x]) = Some (Fs_link t)" using Some link_at_iff by blast
    ultimately show ?thesis
      using 2 by (cases n) (auto simp: follow_Cons simp del: follow_links.simps(2))
  qed
qed simp

lemma resolve_cong:
  assumes "link_at s = link_at s'"
  shows "resolve s p = resolve s' p" "resolve_name s p = resolve_name s' p"
  using follow_links_cong [OF assms] by (simp_all add: resolve_def resolve_name_def)

lemma resolve_entry:
  assumes "resolve s p = Some l" "link_at s (l @ [e]) = None" "is_name e" "fwd_slash \<notin> set e"
  shows "resolve s (p @ fwd_slash # e) = Some (l @ [e])" "resolve_name s (p @ fwd_slash # e) = Some (l @ [e])"
  using assms follow_entry [of s max_links "[]" "place_of p" l e] by (simp_all add: resolve_def resolve_name_def place_of_name)

text \<open>Some of the files in the directory \<open>l\<close> are gone.\<close>

definition thinned :: "place \<Rightarrow> file_system \<Rightarrow> file_system \<Rightarrow> bool" where
  "thinned l s s' \<longleftrightarrow> fs_denied s' = fs_denied s \<and> (\<forall>k. fs_at s' k = fs_at s k
     \<or> (\<exists>x d. k = l @ [x] \<and> fs_at s k = Some (Fs_file d) \<and> fs_at s' k = None))"

lemma thinned_links: "thinned l s s' \<Longrightarrow> link_at s' = link_at s"
proof
  fix k assume "thinned l s s'"
  then have "fs_at s' k = fs_at s k \<or> (\<exists>d. fs_at s k = Some (Fs_file d) \<and> fs_at s' k = None)"
    unfolding thinned_def by blast
  then show "link_at s' k = link_at s k" by (auto simp: link_at_def)
qed

text \<open>A directory that holds nothing but files, all of which can be removed.\<close>

definition plain_dir :: "place \<Rightarrow> file_system \<Rightarrow> bool" where
  "plain_dir l s \<longleftrightarrow> fs_at s l = Some Fs_dir
     \<and> (\<forall>x. \<not> fs_denied s (l @ [x]) \<and> (fs_at s (l @ [x]) = None \<or> (\<exists>d. fs_at s (l @ [x]) = Some (Fs_file d))))"

lemma linked_entry:
  assumes "resolve s p = Some l" "plain_dir l s" "thinned l s s2" "is_name e" "fwd_slash \<notin> set e"
  shows "\<exists>s3. delete_callback n p e s2 = (True, 0, s3) \<and> thinned l s s3 \<and> fs_at s3 (l @ [e]) = None
    \<and> (\<forall>x. fs_at s2 (l @ [x]) = None \<longrightarrow> fs_at s3 (l @ [x]) = None)"
proof -
  let ?q = "p @ fwd_slash # e"
  have at: "fs_at s2 (l @ [e]) = None \<or> (\<exists>d. fs_at s2 (l @ [e]) = Some (Fs_file d) \<and> fs_at s (l @ [e]) = Some (Fs_file d))"
    using assms(2,3) unfolding plain_dir_def thinned_def by metis
  then have "link_at s2 (l @ [e]) = None" by (auto simp: link_at_def)
  moreover have "resolve s2 p = Some l" using resolve_cong(1) [OF thinned_links [OF assms(3)]] assms(1) by simp
  ultimately have r: "resolve s2 ?q = Some (l @ [e])" "resolve_name s2 ?q = Some (l @ [e])"
    using resolve_entry assms(4,5) by blast+
  have ne: "place_of ?q \<noteq> []" using assms(4,5) by (simp add: place_of_name)
  have rs: "resolve s2 (strip_tail_dir_slashes ?q) = Some (l @ [e])" using r(1) by (simp add: resolve_def)
  have st: "posix_stat s2 (strip_tail_dir_slashes ?q) = fs_at s2 (l @ [e])"
    using strip_last [OF ne] rs by (auto simp: posix_stat_def split: option.splits fs_node.splits)
  have nd: "\<not> is_directory s2 ?q" using st at by (auto simp: is_directory_def)
  show ?thesis
  proof (cases "fs_at s2 (l @ [e])")
    case None
    then have "delete_callback n p e s2 = (True, 0, s2)"
      using nd st by (simp add: delete_callback_def delete_file_def file_exists_def)
    with None assms(3) show ?thesis by blast
  next
    case (Some x)
    then obtain d where d: "fs_at s2 (l @ [e]) = Some (Fs_file d)" "fs_at s (l @ [e]) = Some (Fs_file d)" using at by auto
    have dn: "\<not> fs_denied s2 (l @ [e])" using assms(2,3) by (simp add: plain_dir_def thinned_def)
    have en: "e \<noteq> []" using assms(4) by (simp add: is_name_def)
    then have "last e \<noteq> fwd_slash" using assms(5) last_in_set [OF en] by metis
    with en have la: "last ?q \<noteq> fwd_slash" by simp
    have "posix_unlink s2 ?q = Some (fs_remove (l @ [e]) s2)"
      using r(2) d(1) dn la by (simp add: posix_unlink_def is_plain_entry_def)
    then have "delete_callback n p e s2 = (True, 0, fs_remove (l @ [e]) s2)"
      using nd st d(1) by (simp add: delete_callback_def delete_file_def file_exists_def)
    moreover have "thinned l s (fs_remove (l @ [e]) s2)"
      using assms(3) d(2) by (auto simp: thinned_def fs_at_remove)
    ultimately show ?thesis by (simp add: fs_at_remove)
  qed
qed

lemma thinned_walk:
  assumes "resolve s p = Some l" "plain_dir l s"
  shows "thinned l s s2 \<Longrightarrow> (\<And>e. e \<in> set es \<Longrightarrow> e \<noteq> ''.'' \<Longrightarrow> e \<noteq> ''..'' \<Longrightarrow> is_name e \<and> fwd_slash \<notin> set e) \<Longrightarrow>
     \<exists>j s3. each_entry (delete_callback n) p es i s2 = (True, j, s3) \<and> thinned l s s3
       \<and> (\<forall>e \<in> set es. is_name e \<and> e \<noteq> ''..'' \<longrightarrow> fs_at s3 (l @ [e]) = None)
       \<and> (\<forall>x. fs_at s2 (l @ [x]) = None \<longrightarrow> fs_at s3 (l @ [x]) = None)"
proof (induction es arbitrary: i s2)
  case (Cons e es)
  have names: "e' \<in> set es \<Longrightarrow> e' \<noteq> ''.'' \<Longrightarrow> e' \<noteq> ''..'' \<Longrightarrow> is_name e' \<and> fwd_slash \<notin> set e'" for e'
    using Cons.prems(2) by simp
  show ?case
  proof (cases "e = ''.'' \<or> e = ''..''")
    case True
    then have "each_entry (delete_callback n) p (e # es) i s2 = each_entry (delete_callback n) p es i s2" by auto
    with Cons.IH [OF Cons.prems(1) names] True show ?thesis by (auto simp: is_name_def)
  next
    case False
    then have n: "is_name e" "fwd_slash \<notin> set e" using Cons.prems(2) [of e] by simp_all
    obtain s3 where s3: "delete_callback n p e s2 = (True, 0, s3)" "thinned l s s3" "fs_at s3 (l @ [e]) = None"
      "\<forall>x. fs_at s2 (l @ [x]) = None \<longrightarrow> fs_at s3 (l @ [x]) = None"
      using linked_entry [OF assms Cons.prems(1) n] by blast
    then have "each_entry (delete_callback n) p (e # es) i s2 = each_entry (delete_callback n) p es i s3" using False by simp
    with Cons.IH [OF s3(2) names, of i] s3(3,4) show ?thesis by auto
  qed
qed simp

text \<open>
  C9. A linked directory.  Removing a link to a directory with everything in it, as happens to each
  such link in a tree that is removed, empties the directory it leads to, wherever that lies: if that
  holds only files and the system refuses nothing, all of them are gone.  The link itself stays, nothing
  else changes, and success is reported.
\<close>

theorem linked_directory_emptied:
  assumes "fs_wf s" and "resolve_name s p = Some l" and "fs_at s l = Some (Fs_link t)"
    and "resolve s p = Some target" and "plain_dir target s"
  shows "\<exists>s'. delete_dir_recursively n p s = (True, s')
    \<and> (\<forall>k. fs_at s' k = (if k \<noteq> [] \<and> butlast k = target then None else fs_at s k))"
proof -
  have ne: "place_of p \<noteq> []" using assms(2,3) by (auto simp: resolve_name_def)
  have td: "fs_at s target = Some Fs_dir" using assms(5) by (simp add: plain_dir_def)
  then have "posix_stat s p = Some Fs_dir" using ne assms(4) by (auto simp: posix_stat_def)
  then have rd: "posix_readdir s p = Some (''.'' # ''..'' # fs_below s target)"
    using assms(4) by (simp add: posix_readdir_def)
  let ?es = "''.'' # ''..'' # fs_below s target"
  have name: "is_name e" "fwd_slash \<notin> set e" if "e \<in> set ?es" "e \<noteq> ''.''" "e \<noteq> ''..''" for e
    using that wf_listed_name [OF assms(1)] fs_below_iff [OF assms(1)] by auto
  have start: "thinned target s s" by (simp add: thinned_def)
  obtain j s1 where w: "each_entry (delete_callback n) p ?es 0 s = (True, j, s1)" and s1: "thinned target s s1"
    and gone: "\<forall>e \<in> set ?es. is_name e \<and> e \<noteq> ''..'' \<longrightarrow> fs_at s1 (target @ [e]) = None"
    using thinned_walk [OF assms(4,5) start, of ?es n] name by blast
  have e: "resolve s1 p = Some target" "resolve_name s1 p = Some l"
    using resolve_cong [OF thinned_links] s1 assms(2,4) by metis+
  have kept: "fs_at s1 k = fs_at s k" if "\<nexists>d. fs_at s k = Some (Fs_file d)" for k
    using s1 that unfolding thinned_def by blast
  have lk: "fs_at s1 l = Some (Fs_link t)" "fs_at s1 target = Some Fs_dir"
    using kept [of l] kept [of target] assms(3) td by simp_all
  have "delete_dir p s1 = (False, s1)"
    using e lk by (simp add: delete_dir_def posix_rmdir_def)
  then have "delete_dir_recursively n p s = (True, s1)"
    using w rd by (simp add: delete_dir_recursively_callback foreach_directory_entry_def)
  moreover have "fs_at s1 (target @ [x]) = None" for x
  proof (cases "fs_at s (target @ [x])")
    case None
    then show ?thesis using kept by simp
  next
    case (Some y)
    then have "x \<in> set (fs_below s target)" using fs_below_iff [OF assms(1)] by blast
    moreover have "is_name x" "x \<noteq> ''..''" using wf_listed_name [OF assms(1), of target x] Some by simp_all
    ultimately show ?thesis using gone by simp
  qed
  then have "fs_at s1 k = None" if "k \<noteq> []" "butlast k = target" for k
    using that by (metis append_butlast_last_id)
  moreover have "fs_at s1 k = fs_at s k" if "\<not> (k \<noteq> [] \<and> butlast k = target)" for k
    using s1 that unfolding thinned_def by (metis butlast_snoc snoc_eq_iff_butlast)
  ultimately have "delete_dir_recursively n p s = (True, s1)
    \<and> (\<forall>k. fs_at s1 k = (if k \<noteq> [] \<and> butlast k = target then None else fs_at s k))" by simp
  then show ?thesis by blast
qed

definition linked_tree :: file_system where
  "linked_tree = fs_put [''a'', ''l''] (Fs_link ''/b'') sample_tree"

lemma linked_directory_emptied_witness:
  "\<exists>s'. delete_dir_recursively 3 ''/a/l'' linked_tree = (True, s') \<and> fs_at s' [''b'', ''f''] = None
    \<and> fs_at s' [''a'', ''l''] = Some (Fs_link ''/b'') \<and> fs_at s' [''a'', ''f''] = Some (Fs_file [1, 2])"
proof -
  have w: "fs_wf linked_tree"
    unfolding linked_tree_def by (rule wf_put [OF sample_wf]) (simp_all add: sample_at is_name_def)
  have p: "place_of ''/a/l'' = [''a'', ''l'']" "place_of ''/b'' = [''b'']" by (simp_all add: place_of_def)
  have at: "fs_at linked_tree l = (if l = [''a'', ''l''] then Some (Fs_link ''/b'') else fs_at sample_tree l)" for l
    by (simp add: linked_tree_def fs_at_put)
  have "resolve_name linked_tree ''/a/l'' = Some [''a'', ''l'']" "resolve linked_tree ''/a/l'' = Some [''b'']"
    by (simp_all add: resolve_name_def resolve_def p at sample_at max_links_def numeral_eq_Suc)
  moreover have "\<not> fs_denied linked_tree l" for l by (simp add: linked_tree_def sample_free)
  then have "plain_dir [''b''] linked_tree" by (auto simp: plain_dir_def at sample_at)
  ultimately show ?thesis
    using linked_directory_emptied [OF w, of "''/a/l''" "[''a'', ''l'']" "''/b''" "[''b'']" 3] by (auto simp: at sample_at)
qed

subsection \<open>Making a path\<close>

text \<open>
  C36. Making a path.  If nothing is at the path, no file, link or refusal stands in the way and it has
  fewer than a hundred separators, then all directories on the way up to its last separator are made,
  those that exist are kept, and nothing else changes.
\<close>

theorem full_path_made:
  assumes "fs_wf s" and "\<not> file_exists s p" and "way_free (place_of (dir_text p)) s" and "length (sub_paths p) < 100"
  shows "\<exists>s'. create_full_path p s = (True, s')
    \<and> (\<forall>k. fs_at s' k = (if prefix k (place_of (dir_text p)) then Some Fs_dir else fs_at s k))"
  using full_path_loop_makes [OF assms(1,3,4)] assms(2) by (auto simp: create_full_path_def makes_def)

lemma full_path_made_witness:
  "\<exists>s'. create_full_path ''/b/x/y'' sample_tree = (True, s')
    \<and> fs_at s' [''b'', ''x''] = Some Fs_dir \<and> fs_at s' [''b'', ''x'', ''y''] = None \<and> fs_at s' [''b'', ''f''] = Some (Fs_file [9])"
proof -
  have p: "place_of ''/b/x/y'' = [''b'', ''x'', ''y'']" by (simp add: place_of_def)
  have d: "dir_text ''/b/x/y'' = ''/b/x/''" by (simp add: dir_text_def)
  have e: "\<not> file_exists sample_tree ''/b/x/y''" by (simp add: file_exists_at sample_link_free p sample_at)
  have f: "way_free (place_of (dir_text ''/b/x/y'')) sample_tree"
    unfolding d sample_places by (auto simp: way_free_def sample_free sample_at prefix_Cons)
  have l: "length (sub_paths ''/b/x/y'') < 100" by (simp add: sub_paths_def upt_rec)
  from full_path_made [OF sample_wf e f l] show ?thesis
    unfolding d sample_places by (auto simp: sample_at prefix_Cons)
qed

subsection \<open>Copying a file\<close>

text \<open>
  C39. Copying a file.  If the source cannot be opened or the destination not written, the copy fails
  and changes nothing.  Otherwise no place but that of the destination changes, which holds a beginning
  of the source afterwards: all that was written if the system stores everything, and what it stores
  if not.  The copy succeeds exactly when the source is a file, all of it can be read and the stream
  accepts all of it; then everything has been written.  So a copy can succeed though the destination
  lacks data that was accepted and not stored, since the result of closing is ignored, and a failed
  copy has cut the destination.  A file copied onto itself is empty, with success.
\<close>

theorem file_copied:
  "case copy_file src dst s of (ok, s') \<Rightarrow>
     if posix_stat s src = None \<or> posix_open_write s dst = None then \<not> ok \<and> s' = s
     else \<exists>a b n w. resolve s src = Some a \<and> fs_at s a = Some n \<and> resolve s dst = Some b
       \<and> (\<forall>l. l \<noteq> b \<longrightarrow> fs_at s' l = fs_at s l)
       \<and> fs_at s' b = Some (Fs_file (case fs_room s b of None \<Rightarrow> w | Some (k, m) \<Rightarrow> take k w))
       \<and> (let d = (if a = b then [] else bytes_at s a)
          in (\<exists>k. w = take k d) \<and> (ok \<longrightarrow> w = d)
           \<and> (ok \<longleftrightarrow> n \<noteq> Fs_dir \<and> reaches (fs_unreadable s a) (length d) \<and> reaches (map_option snd (fs_room s b)) (length d)))"
proof (cases "posix_stat s src = None \<or> posix_open_write s dst = None")
  case True
  then show ?thesis by (auto simp: copy_file_def split: option.split)
next
  case False
  then obtain n s1 where n: "posix_stat s src = Some n" and s1: "posix_open_write s dst = Some s1" by auto
  obtain a where a: "resolve s src = Some a" "fs_at s a = Some n" using stat_at [OF n] by blast
  obtain b where b: "resolve s dst = Some b" "s1 = fs_put b (Fs_file []) s" "b \<noteq> []" "fs_at s b \<noteq> Some Fs_dir"
    using open_write_at [OF s1] by blast
  let ?d = "if a = b then [] else bytes_at s a"
  let ?c = "copy_loop (fs_unreadable s a) (map_option snd (fs_room s b)) ?d []"
  have d: "bytes_at s1 a = ?d" using b(3) a(2) by (auto simp: bytes_at_def b(2) fs_at_put)
  define r where "r = (if n = Fs_dir then (False, []) else ?c)"
  have c: "copy_file src dst s = (fst r, fs_put b (Fs_file (case fs_room s b of None \<Rightarrow> snd r | Some (k, m) \<Rightarrow> take k (snd r))) s1)"
    using n s1 a(1) b(1) unfolding copy_file_def r_def d [symmetric]
    by (cases "copy_loop (fs_unreadable s a) (map_option snd (fs_room s b)) (bytes_at s1 a) []") (auto simp: Let_def split: option.split)
  have "(\<exists>k. snd r = take k ?d) \<and> (fst r \<longrightarrow> snd r = ?d)
    \<and> (fst r \<longleftrightarrow> n \<noteq> Fs_dir \<and> reaches (fs_unreadable s a) (length ?d) \<and> reaches (map_option snd (fs_room s b)) (length ?d))"
  proof (cases "n = Fs_dir")
    case True
    then show ?thesis by (auto simp: r_def intro: exI [of _ 0])
  next
    case False
    then have "r = ?c" by (simp add: r_def)
    then show ?thesis
      using copy_loop_result [of "fs_unreadable s a" "map_option snd (fs_room s b)" ?d "[]"] False by (simp only: append_Nil) auto
  qed
  moreover define s' where "s' = fs_put b (Fs_file (case fs_room s b of None \<Rightarrow> snd r | Some (k, m) \<Rightarrow> take k (snd r))) s1"
  moreover have "\<forall>l. l \<noteq> b \<longrightarrow> fs_at s' l = fs_at s l"
    "fs_at s' b = Some (Fs_file (case fs_room s b of None \<Rightarrow> snd r | Some (k, m) \<Rightarrow> take k (snd r)))"
    using b(3) by (simp_all add: s'_def b(2) fs_at_put)
  ultimately show ?thesis
    unfolding c s'_def [symmetric] prod.case Let_def using a b(1) False
    by (simp only: if_False) (rule exI [of _ a], rule exI [of _ b], rule exI [of _ n], rule exI [of _ "snd r"], blast)
qed

text \<open>A copy that succeeds and whose destination is empty: of the bytes accepted none is stored.\<close>

lemma file_copied_witness:
  "case copy_file ''/a/f'' ''/b/f'' (sample_tree\<lparr>fs_room := (\<lambda>_. Some (0, 4096))\<rparr>) of (ok, s') \<Rightarrow>
     ok \<and> fs_at s' [''b'', ''f''] = Some (Fs_file [])"
proof -
  let ?s = "sample_tree\<lparr>fs_room := (\<lambda>_. Some (0, 4096))\<rparr>"
  have at: "fs_at ?s l = fs_at sample_tree l" for l by (simp add: fs_at_def)
  have way: "clear_way l ?s" for l using sample_link_free(2) [of l] by (simp add: clear_way_def at)
  have p: "place_of ''/a/f'' = [''a'', ''f'']" "place_of ''/b/f'' = [''b'', ''f'']" by (simp_all add: place_of_def)
  have "posix_stat ?s ''/a/f'' \<noteq> None" "posix_open_write ?s ''/b/f'' \<noteq> None"
    by (simp_all add: posix_open_write_def posix_stat_def way p at sample_at sample_free)
  then show ?thesis
    using file_copied [where src = "''/a/f''" and dst = "''/b/f''" and s = ?s]
    by (auto simp: way p at sample_at sample_free Let_def bytes_at_def)
qed

subsection \<open>Copying a directory\<close>

text \<open>
  C16. Copying a directory.  Copying one directory into another that lies apart ends, and gives the
  union of both, if there are no symbolic links, nothing is refused and all data can be read and stored: at each place that was there in the destination everything stays as it was, and at
  every other place below it there is what the source has at the same place.
\<close>

theorem directory_merged:
  assumes "mergeable (place_of src) (place_of dst) s" and "src = a @ [fwd_slash]" and "dst = b @ [fwd_slash]"
    and "fs_at s (place_of src) = Some Fs_dir" and "\<forall>k. fs_at s (place_of src @ k) = Some Fs_dir \<longrightarrow> length k < n"
    and "length (sub_paths dst) + n < 101"
  shows "\<exists>s'. copy_dir n src dst s = Some s' \<and> (\<forall>l. fs_at s' l =
    (case fs_at s l of Some x \<Rightarrow> Some x
     | None \<Rightarrow> if prefix (place_of dst) l then fs_at s (place_of src @ drop (length (place_of dst)) l) else None))"
  using copy_dir_merges [OF assms] by (auto simp: merged_def merged_at_def)

lemma directory_merged_witness:
  "\<exists>s'. copy_dir 2 ''/a/'' ''/b/'' sample_tree = Some s'
    \<and> fs_at s' [''b'', ''d'', ''g''] = Some (Fs_file [3]) \<and> fs_at s' [''b'', ''f''] = Some (Fs_file [9])"
proof -
  have m: "mergeable (place_of ''/a/'') (place_of ''/b/'') sample_tree"
    unfolding mergeable_def sample_places
    by (auto simp: sample_wf sample_free sample_link_free sample_at parallel_def split: if_splits)
  have "fs_at sample_tree (place_of ''/a/'') = Some Fs_dir" by (simp add: sample_places sample_at)
  moreover have "\<forall>k. fs_at sample_tree (place_of ''/a/'' @ k) = Some Fs_dir \<longrightarrow> length k < 2"
    unfolding sample_places by (auto simp: sample_at split: if_splits)
  moreover have "length (sub_paths ''/b/'') + 2 < 101" by (simp add: sub_paths_def upt_rec)
  ultimately show ?thesis
    using directory_merged [OF m, of "''/a''" "''/b''" 2] unfolding sample_places by (auto simp: sample_at)
qed

end
