(* ===== verification/User_Paths.thy ===== *)
theory User_Paths
  imports Posix_Files
begin

text \<open>
  The directories of the user (\<open>common/file_util.cpp\<close>): the two maps \<open>g_paths\<close> and
  \<open>g_default_paths\<close>, and the functions that fill and read them.  The names of the directories are
  constants of a header outside the repository, an argument \<open>name\<close>; a failed assertion is \<open>None\<close>.
\<close>

datatype user_path = UserDir | ConfigDir | CacheDir | SDMCDir | NANDDir | SysDataDir | LogDir | CheatsDir
  | DLLDir | ShaderDir | DumpDir | LoadDir | StatesDir | IconsDir | LegacyCitraUserDir | LegacyLime3DSUserDir
  | LegacyCitraConfigDir | LegacyCitraCacheDir | LegacyLime3DSConfigDir | LegacyLime3DSCacheDir

record path_maps =
  g_paths :: "user_path \<Rightarrow> string option"
  g_default_paths :: "user_path \<Rightarrow> string option"
  g_rom_path :: string

text \<open>
  The process: its environment, the home directory of the user's entry, the current directory, and
  whether the build is for Apple and has \<open>MANIC_ROOM_EXPERIMENT\<close>.
\<close>

record path_env =
  pe_getenv :: "string \<Rightarrow> string option"
  pe_home :: "string option"
  pe_cwd :: "string option"
  pe_apple :: bool
  pe_manic :: bool
  pe_name :: "user_path \<Rightarrow> string"
  pe_userdata :: string
  pe_emu_data :: string
  pe_citra_data :: string
  pe_lime_data :: string
  pe_apple_data :: string
  pe_apple_citra :: string
  pe_apple_lime :: string

definition get_home_directory :: "path_env \<Rightarrow> string option" where
  "get_home_directory e = (case pe_getenv e ''HOME'' of Some h \<Rightarrow> Some h | None \<Rightarrow> pe_home e)"

definition get_user_directory :: "path_env \<Rightarrow> string \<Rightarrow> string option" where
  "get_user_directory e var =
     (let below = (if var = ''XDG_DATA_HOME'' then Some ''/.local/share''
                   else if var = ''XDG_CONFIG_HOME'' then Some ''/.config''
                   else if var = ''XDG_CACHE_HOME'' then Some ''/.cache'' else None);
          dir = (case pe_getenv e var of
                   Some d \<Rightarrow> Some d
                 | None \<Rightarrow> Option.bind below (\<lambda>b. map_option (\<lambda>h. h @ b) (get_home_directory e)))
      in case dir of None \<Rightarrow> None
         | Some d \<Rightarrow> if take 1 d = ''/'' then Some d else None)"

definition get_current_dir :: "path_env \<Rightarrow> string option" where
  "get_current_dir e = map_option (\<lambda>d. if d \<noteq> [] \<and> last d = fwd_slash then d else d @ ''/'') (pe_cwd e)"

text \<open>
  \<open>absolute\<close> gives the name under which the system enters a directory, if it does; \<open>bundle\<close> the path of
  the application's bundle, if the system has one and it fits.
\<close>

definition set_current_dir :: "(string \<Rightarrow> string option) \<Rightarrow> string \<Rightarrow> path_env \<Rightarrow> bool \<times> path_env" where
  "set_current_dir absolute d e = (case absolute d of None \<Rightarrow> (False, e) | Some p \<Rightarrow> (True, e\<lparr>pe_cwd := Some p\<rparr>))"

definition get_bundle_directory :: "string option \<Rightarrow> string option" where
  "get_bundle_directory bundle = map_option (\<lambda>d. if d \<noteq> [] \<and> last d = fwd_slash then d else d @ ''/'') bundle"

text \<open>\<open>emplace\<close> keeps a value that is there.\<close>

definition emplace :: "user_path \<Rightarrow> string \<Rightarrow> (user_path \<Rightarrow> string option) \<Rightarrow> user_path \<Rightarrow> string option" where
  "emplace k v m = (if m k = None then m(k \<mapsto> v) else m)"

definition in_slashes :: "string \<Rightarrow> string" where
  "in_slashes n = fwd_slash # n @ ''/''"

definition config_and_cache :: "path_env \<Rightarrow> string \<Rightarrow> (user_path \<Rightarrow> string option) \<Rightarrow> user_path \<Rightarrow> string option" where
  "config_and_cache e d m =
     emplace CacheDir (d @ pe_name e CacheDir @ ''/'') (emplace ConfigDir (d @ pe_name e ConfigDir @ ''/'') m)"

text \<open>Without a directory that can be used: the current directory, or those of the system.\<close>

definition system_paths :: "path_env \<Rightarrow> file_system \<Rightarrow> (user_path \<Rightarrow> string option) \<Rightarrow> (user_path \<Rightarrow> string option) option" where
  "system_paths e s m =
     (case (get_user_directory e ''XDG_DATA_HOME'', get_user_directory e ''XDG_CONFIG_HOME'',
            get_user_directory e ''XDG_CACHE_HOME'') of
        (Some data, Some config, Some cache) \<Rightarrow>
          let m1 = emplace LegacyLime3DSCacheDir (cache @ in_slashes (pe_lime_data e))
                     (emplace LegacyLime3DSConfigDir (config @ in_slashes (pe_lime_data e))
                       (emplace LegacyCitraCacheDir (cache @ in_slashes (pe_citra_data e))
                         (emplace LegacyCitraConfigDir (config @ in_slashes (pe_citra_data e)) m)));
              dirs = (data @ in_slashes (pe_emu_data e), config @ in_slashes (pe_emu_data e), cache @ in_slashes (pe_emu_data e));
              apple = pe_apple e \<and> \<not> file_exists s (fst dirs) \<and> \<not> file_exists s (fst (snd dirs)) \<and> \<not> file_exists s (snd (snd dirs))
          in case (if apple then get_home_directory e else Some []) of
               None \<Rightarrow> None
             | Some home \<Rightarrow>
                 let user = (if apple then home @ in_slashes (pe_apple_data e) else fst dirs)
                 in Some (emplace CacheDir (if apple then user @ pe_name e CacheDir @ ''/'' else snd (snd dirs))
                      (emplace ConfigDir (if apple then user @ pe_name e ConfigDir @ ''/'' else fst (snd dirs))
                        (m1(UserDir \<mapsto> user,
                          LegacyCitraUserDir \<mapsto> (if apple then home @ in_slashes (pe_apple_citra e) else data @ in_slashes (pe_citra_data e)),
                          LegacyLime3DSUserDir \<mapsto> (if apple then home @ in_slashes (pe_apple_lime e) else data @ in_slashes (pe_lime_data e))))))
      | _ \<Rightarrow> None)"

definition fallback_paths :: "path_env \<Rightarrow> file_system \<Rightarrow> (user_path \<Rightarrow> string option) \<Rightarrow> (user_path \<Rightarrow> string option) option" where
  "fallback_paths e s m =
     (let m1 = emplace LegacyLime3DSUserDir [] (emplace LegacyCitraUserDir [] m)
      in case get_current_dir e of
           Some d \<Rightarrow>
             (let u = d @ pe_userdata e @ ''/''
              in if file_exists s u then Some (config_and_cache e u (m1(UserDir \<mapsto> u))) else system_paths e s m1)
         | None \<Rightarrow> system_paths e s m1)"

definition other_dirs :: "user_path list" where
  "other_dirs = [SDMCDir, NANDDir, SysDataDir, LogDir, CheatsDir, DLLDir, ShaderDir, DumpDir, LoadDir, StatesDir, IconsDir]"

text \<open>The entries of an earlier directory are dropped first, in the build that needs that.\<close>

definition set_user_path :: "path_env \<Rightarrow> string \<Rightarrow> path_maps \<times> file_system \<Rightarrow> (path_maps \<times> file_system) option" where
  "set_user_path e path x =
     (case x of (g, s) \<Rightarrow>
        let m0 = (if pe_manic e \<and> path \<noteq> [] then (\<lambda>_. None) else g_paths g);
            m1 = emplace UserDir [] m0;
            (ok, s1) = (if path = [] then (False, s) else create_full_path path s)
        in case (if ok then Some (config_and_cache e path (m1(UserDir \<mapsto> path))) else fallback_paths e s1 m1) of
             None \<Rightarrow> None
           | Some m2 \<Rightarrow>
               let m3 = fold (\<lambda>k. emplace k (the (m2 UserDir) @ pe_name e k @ ''/'')) other_dirs m2
               in Some (g\<lparr>g_paths := m3, g_default_paths := m3\<rparr>, s1))"

definition set_current_rom_path :: "string \<Rightarrow> path_maps \<Rightarrow> path_maps" where
  "set_current_rom_path p g = g\<lparr>g_rom_path := p\<rparr>"

definition all_user_paths :: "user_path list" where
  "all_user_paths = UserDir # ConfigDir # CacheDir # other_dirs @ [LegacyCitraUserDir, LegacyLime3DSUserDir,
     LegacyCitraConfigDir, LegacyCitraCacheDir, LegacyLime3DSConfigDir, LegacyLime3DSCacheDir]"

text \<open>A path that is in no map is entered as an empty one.\<close>

definition get_user_path :: "path_env \<Rightarrow> user_path \<Rightarrow> path_maps \<times> file_system \<Rightarrow> (string \<times> path_maps \<times> file_system) option" where
  "get_user_path e k x =
     (case (if \<forall>j \<in> set all_user_paths. g_paths (fst x) j = None then set_user_path e [] x else Some x) of
        None \<Rightarrow> None
      | Some (g, s) \<Rightarrow> let m = emplace k [] (g_paths g) in Some (the (m k), g\<lparr>g_paths := m\<rparr>, s))"

definition get_default_user_path :: "path_env \<Rightarrow> user_path \<Rightarrow> path_maps \<times> file_system \<Rightarrow> (string \<times> path_maps \<times> file_system) option" where
  "get_default_user_path e k x =
     (case (if \<forall>j \<in> set all_user_paths. g_default_paths (fst x) j = None then set_user_path e [] x else Some x) of
        None \<Rightarrow> None
      | Some (g, s) \<Rightarrow> let m = emplace k [] (g_default_paths g) in Some (the (m k), g\<lparr>g_default_paths := m\<rparr>, s))"

definition update_user_path :: "user_path \<Rightarrow> string \<Rightarrow> path_maps \<times> file_system \<Rightarrow> path_maps \<times> file_system" where
  "update_user_path k p x =
     (if p = [] \<or> \<not> is_directory (snd x) p then x
      else ((fst x)\<lparr>g_paths := (g_paths (fst x))(k \<mapsto> sanitize_path Platform_default p @ ''/'')\<rparr>, snd x))"

definition serialize_path :: "path_env \<Rightarrow> string \<Rightarrow> bool \<Rightarrow> path_maps \<times> file_system \<Rightarrow> (string \<times> path_maps \<times> file_system) option" where
  "serialize_path e p saving x =
     (let p1 = snd (string_replace p ''%CITRA_ROM_FILE%'' (g_rom_path (fst x)) saving)
      in case get_user_path e UserDir x of
           None \<Rightarrow> None
         | Some (d, x1) \<Rightarrow> Some (snd (string_replace p1 ''%CITRA_USER_DIR%'' d saving), x1))"

end
