(* ===== verification/Name_Properties.thy ===== *)
theory Name_Properties
  imports File_Paths User_Paths
begin

text \<open>
  Properties of the names of files: sanitised paths, short names, and the directories of the user.
\<close>

text \<open>
  C37. Sanitising.  A sanitised path has one kind of separator, never two of them in a row and none
  at its end; a path that is like this already is not changed, so sanitising twice is sanitising once.
\<close>

theorem sanitized:
  "canonical_path d (sanitize_path d p) \<and> (canonical_path d p \<longrightarrow> sanitize_path d p = p)
   \<and> sanitize_path d (sanitize_path d p) = sanitize_path d p"
  using sanitized_canonical canonical_sanitize by blast

lemma sanitized_witness:
  "sanitize_path Platform_default (CHR ''a'' # bck_slash # ''/b//'') = ''a/b''
   \<and> canonical_path Platform_default ''a/b''"
proof -
  have s: "sanitize_path Platform_default (CHR ''a'' # bck_slash # ''/b//'') = ''a/b''"
    by (simp add: sanitize_path_def wrong_sep_def right_sep_def remove_trailing_slash_def)
  show ?thesis
    using sanitized [of Platform_default "CHR ''a'' # bck_slash # ''/b//''"] unfolding s by blast
qed

subsection \<open>Short names\<close>

lemma short_loop_length [simp]: "length (short_loop up cs j name) = length name"
  by (induction up cs j name rule: short_loop.induct) simp_all

lemma ext_loop_length [simp]: "length (ext_loop up cs j ext) = length ext"
  by (induction up cs j ext rule: ext_loop.induct) simp_all

lemma short_loop_zero: "j \<le> 8 \<Longrightarrow> short_loop up cs j name ! 8 = name ! 8"
  by (induction up cs j name rule: short_loop.induct) auto

lemma ext_loop_zero: "j + length cs \<le> 3 \<Longrightarrow> ext_loop up cs j ext ! 3 = ext ! 3"
  by (induction up cs j ext rule: ext_loop.induct) auto

lemma rfind_last: "rfind c (p @ [c]) = Some (length p)"
  by (induction p) simp_all

lemma rfind_bound: "rfind c p = Some i \<Longrightarrow> i < length p"
  by (induction p arbitrary: i) (auto split: option.splits if_splits)

text \<open>
  C40. Short names.  A short name is always eight characters and an extension of three, each with a
  zero behind it.  A name that ends in a point is meant to have its extension before that point, but
  the search for it starts at the point and finds it again: such a name never has an extension.
\<close>

theorem trailing_point_no_extension:
  "case split_filename83 up name of (short, ext) \<Rightarrow>
     length short = 9 \<and> short ! 8 = CHR 0x00 \<and> length ext = 4 \<and> ext ! 3 = CHR 0x00
     \<and> (name \<noteq> [] \<and> last name = CHR ''.'' \<longrightarrow> ext = ''   '' @ [CHR 0x00])"
proof -
  have "extension_point name = Some (length name - 1)" if l: "name \<noteq> []" "last name = CHR ''.''"
  proof -
    obtain p where "name = p @ [CHR ''.'']" using l by (metis append_butlast_last_id)
    then show ?thesis by (simp add: extension_point_def rfind_last)
  qed
  note last = this
  have s: "short_loop up cs 0 (replicate 8 CHR '' '' @ [CHR 0x00]) ! 8 = CHR 0x00" for cs
    by (simp add: short_loop_zero nth_append)
  have e: "ext_loop up (take 3 cs) 0 (replicate 3 CHR '' '' @ [CHR 0x00]) ! 3 = CHR 0x00" for cs
    by (simp add: ext_loop_zero nth_append)
  show ?thesis
  proof (cases "extension_point name")
    case None
    with last have "\<not> (name \<noteq> [] \<and> last name = CHR ''.'')" by auto
    then show ?thesis
      unfolding split_filename83_def Let_def None option.case prod.case using s [of "take_to None name"] by (auto simp: nth_append)
  next
    case (Some i)
    have "drop (i + 1) name = []" if "name \<noteq> []" "last name = CHR ''.''"
      using last that Some by simp
    then show ?thesis
      unfolding split_filename83_def Let_def Some option.case prod.case
      using s [of "take_to (Some i) name"] e [of "drop (i + 1) name"] by (auto simp: eval_nat_numeral)
  qed
qed

lemma trailing_point_no_extension_witness:
  "split_filename83 id ''a.txt.'' = (''atxt    '' @ [CHR 0x00], ''   '' @ [CHR 0x00])"
proof -
  have "fst (split_filename83 id ''a.txt.'') = ''atxt    '' @ [CHR 0x00]" by code_simp
  then show ?thesis
    using trailing_point_no_extension [where up = id and name = "''a.txt.''"] by (auto split: prod.splits)
qed

subsection \<open>The directories of the user\<close>

definition paths_of :: "path_env \<Rightarrow> string \<Rightarrow> user_path \<Rightarrow> string option" where
  "paths_of e path k =
     (if k = UserDir then Some path
      else if k \<in> set (ConfigDir # CacheDir # other_dirs) then Some (path @ pe_name e k @ ''/'') else None)"

lemma set_user_path_created:
  assumes "pe_manic e" "path \<noteq> []" "create_full_path path s = (True, s')"
  shows "set_user_path e path (g, s) = Some (g\<lparr>g_paths := paths_of e path, g_default_paths := paths_of e path\<rparr>, s')"
proof -
  have "fold (\<lambda>k. emplace k (path @ pe_name e k @ ''/'')) other_dirs
      (config_and_cache e path ((emplace UserDir [] (\<lambda>_. None))(UserDir \<mapsto> path))) = paths_of e path"
    by (rule ext) (simp add: other_dirs_def config_and_cache_def emplace_def paths_of_def)
  moreover have "config_and_cache e path ((emplace UserDir [] (\<lambda>_. None))(UserDir \<mapsto> path)) UserDir = Some path"
    by (simp add: config_and_cache_def emplace_def)
  ultimately show ?thesis
    using assms by (simp add: set_user_path_def Let_def)
qed

text \<open>
  C35. The directory of the user.  In the build of the application, setting the directory of the user
  to one that can be made puts all directories below it, whatever the maps held before: no path of
  an earlier directory survives, and each is what is asked for afterwards.
\<close>

theorem user_paths_fresh:
  assumes "pe_manic e" and "path \<noteq> []" and "create_full_path path s = (True, s')"
  shows "case set_user_path e path (g, s) of
    None \<Rightarrow> False
  | Some (h, t) \<Rightarrow> t = s' \<and> g_paths h = paths_of e path \<and> g_default_paths h = paths_of e path
      \<and> (\<forall>k \<in> set (ConfigDir # CacheDir # other_dirs).
           map_option fst (get_user_path e k (h, t)) = Some (path @ pe_name e k @ ''/''))"
proof -
  have "map_option fst (get_user_path e k (g\<lparr>g_paths := paths_of e path, g_default_paths := paths_of e path\<rparr>, s'))
      = Some (path @ pe_name e k @ ''/'')" if "k \<in> set (ConfigDir # CacheDir # other_dirs)" for k
  proof -
    have "paths_of e path k = Some (path @ pe_name e k @ ''/'')" "paths_of e path UserDir = Some path"
      using that by (auto simp: paths_of_def other_dirs_def)
    then show ?thesis by (simp add: get_user_path_def all_user_paths_def emplace_def Let_def)
  qed
  then show ?thesis by (simp add: set_user_path_created [OF assms])
qed

definition sample_env :: path_env where
  "sample_env = \<lparr>pe_getenv = (\<lambda>_. None), pe_home = None, pe_cwd = None, pe_apple = True, pe_manic = True,
     pe_name = (\<lambda>k. if k = NANDDir then ''nand'' else ''x''), pe_userdata = [], pe_emu_data = [], pe_citra_data = [],
     pe_lime_data = [], pe_apple_data = [], pe_apple_citra = [], pe_apple_lime = []\<rparr>"

lemma user_paths_fresh_witness:
  "map_option (\<lambda>x. g_paths (fst x) NANDDir)
     (set_user_path sample_env ''/u/'' (\<lparr>g_paths = (\<lambda>_. Some ''/old/''), g_default_paths = (\<lambda>_. None), g_rom_path = []\<rparr>,
        \<lparr>fs_nodes = [], fs_denied = (\<lambda>_. False), fs_unreadable = (\<lambda>_. None), fs_room = (\<lambda>_. None)\<rparr>)) = Some (Some ''/u/nand/'')"
proof -
  let ?s = "\<lparr>fs_nodes = [], fs_denied = (\<lambda>_. False), fs_unreadable = (\<lambda>_. None), fs_room = (\<lambda>_. None)\<rparr> :: file_system"
  have "fst (create_full_path ''/u/'' ?s)" by code_simp
  then have c: "create_full_path ''/u/'' ?s = (True, snd (create_full_path ''/u/'' ?s))" by (simp add: prod_eq_iff)
  have m: "pe_manic sample_env" "''/u/'' \<noteq> []" by (simp_all add: sample_env_def)
  show ?thesis
    using user_paths_fresh [OF m c, of "\<lparr>g_paths = (\<lambda>_. Some ''/old/''), g_default_paths = (\<lambda>_. None), g_rom_path = []\<rparr>"]
    by (auto simp: paths_of_def other_dirs_def sample_env_def split: option.splits)
qed

end
