(* ===== verification/Spec2Isabelle.thy ===== *)
theory Spec2Isabelle
  imports Env_Properties Timing_Properties Session_Properties Keybind_Roundtrip
    Override_Properties Loop_Properties Loop_Frame_Properties Path_Properties
    Config_Properties Config_Witnesses
    Room_Properties Uds_Properties Cia_Properties
    File_Properties Tree_Properties Name_Properties
begin

text \<open>
  Verification development of ManicRoom: the libretro frontend that hosts an emulator core, and
  the parts this repository adds to or replaces in the Azahar core for playing in rooms over the
  internet, for installing update files, and for its files and directories.

  \<^bold>\<open>The program.\<close>  \<open>changes/Libretro/runloop.c\<close> owns the one running core: it registers
  callbacks with it, runs frames, answers its environment calls and takes it down;
  \<open>configuration.c\<close> keeps the settings: it reads and writes configuration files, the overrides of
  cores and games, key binds and remapping files.  In the Azahar core,
  \<open>network/room_member.cpp\<close> speaks the protocol of a room; \<open>citra_libretro/room_session.cpp\<close> puts a
  polled C interface with a worker thread in front of it;
  \<open>core/hle/service/nwm/nwm_uds.cpp\<close> is the console's local wireless service, whose frames travel
  through the room member; and \<open>citra_libretro/cia_update.cpp\<close> with its policy header imports update
  files; \<open>common/file_util.cpp\<close> is what the core uses for paths, files, directories and encrypted
  files.  A frame a game sends thus goes from \<open>Uds_Commands\<close> to \<open>Room_Wire\<close>, through the room, and
  from \<open>Room_Member\<close> to \<open>Uds_Frames\<close> of another console.

  \<^bold>\<open>Theories of the frontend.\<close>
  \<^item> \<open>RL_Prelude\<close>, \<open>Frontend_State\<close>, \<open>External\<close>: machine integers and numbers in memory, the fields of
    the C structs that are used, what is asked of code outside, the initial state.
  \<^item> \<open>Memory_Map\<close>: the descriptors of \<open>SET_MEMORY_MAPS\<close>, with its mask loops.
  \<^item> \<open>Core_Options\<close>, \<open>Env_Message\<close>, \<open>Hw_Context\<close>, \<open>Env_Video\<close>, \<open>Timing\<close>, \<open>Env_Audio\<close>, \<open>Env_Input\<close>,
    \<open>Env_System\<close>: one definition per environment call, by subject; \<open>Environment\<close> is the dispatcher
    \<open>runloop_environment_cb\<close>, with the contract of a group of calls, of which \<open>Env_Invariant\<close> shows
    every group to be an instance.
  \<^item> \<open>Core_Session\<close>, \<open>Core_Unload\<close>: the calls into a core, for every behaviour of the core, and what
    is freed; \<open>Session_Facts\<close> holds the step relation of a whole session.
  \<^item> \<open>Option_Overrides\<close>: the option files of a game and of a folder, with the files on disk in the
    state; whether a file can be deleted is an argument.
  \<^item> \<open>Loop_State\<close>, \<open>Hotkeys\<close>, \<open>Speed_Keys\<close>, \<open>Loop_Entry\<close>, \<open>Frame_Loop\<close>: \<open>runloop_check_state\<close> as the
    composition of its stages, each with the function-static variables it keeps between frames, and
    \<open>runloop_iterate\<close> around it; a stage that returns early is a \<open>stop\<close> in the flow of stages.
    \<open>Loop_Facts\<close> holds its lemmas and a concrete frame.
  \<^item> \<open>Content_Paths\<close>: base name and names of content, saves, states and patches, redirection into
    directories, the files of the slots, and the start of content.
  \<^item> \<open>C_Text\<close>, \<open>Keybinds\<close>: the number conversions of the C library and the texts of key binds.
  \<^item> \<open>Config_File\<close>, \<open>Config_Load\<close>, \<open>Config_Apply\<close>, \<open>Config_Save\<close>, \<open>Config_Overrides\<close>, \<open>Remapping\<close>: the
    store of settings and the stages of \<open>config_load_file\<close>, \<open>config_save_file\<close>,
    \<open>config_save_overrides\<close>, \<open>config_load_override\<close> and the remapping files.  \<open>Config_Steps\<close> has the
    contract \<open>conf_ok\<close> of configuration files, the relation \<open>writes\<close> (which keys an operation
    can change) and saving as a list of stages that write disjoint keys,
    \<open>Config_Reading\<close> what is read back, which settings loading adjusts, and the sizes,
    \<open>Override_Changes\<close> the same for overrides; \<open>Config_Witnesses\<close> has a concrete file format and
    frontend.

  \<^bold>\<open>Theories of the room and the wireless service.\<close>
  \<^item> \<open>Room_Wire\<close>, \<open>Room_Codec\<close>: the messages of the protocol, over a codec that is an argument, and one
    codec that has the properties asked of it.
  \<^item> \<open>Room_Member\<close>: the member's state, one round of its loop, joining and leaving.
  \<^item> \<open>Room_Session\<close>: the application's calls, the worker and the loop thread as one machine whose
    steps are what a thread does between two points at which another can get in.  \<open>Room_Facts\<close> has
    its invariant and the rank that falls when a cancelled session ends, \<open>Room_Address\<close> the
    reference for the check of addresses.
  \<^item> \<open>Uds_State\<close>, \<open>Uds_Frames\<close>, \<open>Uds_Commands\<close>: the service's state,
    what it does with each kind of frame, and each command of a game.  \<open>Uds_Host\<close> has the life of the
    service, with starting and ending it, hosting anew, joining and leaving, and the invariant of a
    hosted network, which disconnecting as host leaves for an emptied one; \<open>Uds_Data\<close> the contract of a channel that is a queue, of which it shows a
    bound channel to be an instance.

  \<^bold>\<open>Theories of the importer.\<close>  \<open>Cia_Policy\<close> (numbers, header, links), \<open>Cia_Import\<close> (admission, copy,
  verification, staging, commit), and \<open>Cia_Facts\<close>, with a concrete file.

  \<^bold>\<open>Theories of the file utilities.\<close>
  \<^item> \<open>File_Paths\<close>: the functions on the text of paths, and what sanitising leaves.
  \<^item> \<open>Posix_Files\<close>: a tree of files with the calls of POSIX on it, and on these the operations on
    files and directories.  The tree has symbolic links, which paths follow through at most 40, places
    where the system refuses changes, bytes that cannot be read and files that cannot take all that is
    written.  The recursion into directories is bounded by the argument \<open>recursion\<close> of
    the source, that of \<open>copy_dir\<close> by fuel, which is enough if it exceeds the depth of the source
    (\<open>copy_dir_merges\<close>).  \<open>Tree_Facts\<close> has well-formed trees, ways without links and removal,
    \<open>Copy_Facts\<close> copying and making paths.
  \<^item> \<open>Io_Files\<close>: open files, and encrypted ones over a key stream; a stream records when it is read
    and written without being positioned in between, which C leaves undefined.  \<open>File_Properties\<close>
    relates both kinds.
  \<^item> \<open>User_Paths\<close>: the maps of the directories of the user.

  \<^bold>\<open>What is shown.\<close>  The theories named \<open>_Properties\<close>, and \<open>Memory_Map\<close>, \<open>Keybind_Roundtrip\<close> and
  \<open>Room_Address\<close>, state the properties.  Invariants: any sequence of environment calls, any session
  of a core, any interleaving of a room session's threads, and any frames and commands at a host
  keep the respective state consistent; a network that its host has disconnected stays emptied until
  it is hosted anew.  Functional behaviour: the tree that copying a directory, making a path
  or removing a tree leaves, the directories of the user, polling per frame, precedence of
  option files, hotkeys that fire once per press, frame advance, what an iteration of the loop runs
  and returns, decoding of memory descriptors, what a verified update file is made of, what a copied
  file holds, which text settings an override has.  Trees are copied and removed as stated where there
  are no links; that a linked directory is emptied is a property of its own.  Typing and
  bounds: option indices, the slot of save states, the report about the sound buffer, how long the
  frame limiter sleeps and what whole milliseconds lose.  Safety: what a gate, a savestate call and an
  import change and what not, and that the directories of saves and states exist after a redirection.  Refinement: a wireless channel is a queue, and an encrypted file a plain one.  Liveness: a cancelled session
  ends, or its worker waits while the member is connected; a leave that comes between the two stores of a
  finishing worker leaves the status Leaving until something else stores another.  Round trips: settings, overrides, key binds, option files of a game, frames through the
  room, the map of nodes.  Errors: the
  defects that modelling showed, each proved on the model.

  \<^bold>\<open>Conventions.\<close>  Integers that can wrap have the width of the source; \<open>size_t\<close> has 64 bits.  Floating
  point is exact.  What is declared outside the repository (headers of the frontend and the
  emulator, ENet, the file system, the hash, frame layouts, the core itself) is an argument; where a
  theorem needs it to behave, the assumption is a named predicate (\<open>codec_ok\<close>, \<open>header_ok\<close>,
  \<open>secure_ok\<close>, \<open>hasher_ok\<close>, \<open>conf_ok\<close>) with a concrete instance in the witnesses.  Loops end by structural
  recursion or by a measure: the mask loops by the mask, the chunk loops of the importer by the
  bytes left; polls of the transport and of cancellation are lists or functions of their number.
  Only copying a directory is bounded by fuel, and following links by the system's limit.

  \<^bold>\<open>Not modelled.\<close>  Loading of dynamic libraries, message queue and log (pure output); builds of
  the frame loop for the 3DS and Lakka, Discord and presence; of \<open>configuration.c\<close> the contents of
  the tables of settings, which are an argument, the defaults, and the code for consoles, Lakka and
  the Switch; of the wireless service the parsing of command buffers, the lists of beacons built for a game, and
  blocking connects; the entry points and option tables of the core, cheats and
  the keyboard applet; of the file utilities the variants for Windows and Android and files that cannot be opened for
  reading; the application in Swift and Objective-C and the build scripts.

  \<^bold>\<open>Plan.\<close>  What is left of the frontend are the defaults of the settings, the message queue and the
  loading of cores; of the core, its entry points and option tables.
\<close>

end
